(* ===== verification/Prelude.thy ===== *)
theory Prelude
  imports Main "HOL-Library.Word" "HOL-Library.List_Lexorder" "HOL-Library.Char_ord"
begin

text \<open>
  What every component shares: the Go machine types, the early-return combinators in which
  the validators are written, and the named collections that carry the component proofs.

  Go's \<open>int\<close> and \<open>int64\<close> are 64 bits wide on every platform the repository ships for, so
  they are \<open>64 word\<close>s read with \<open>sint\<close>; \<open>uint64\<close> is a \<open>64 word\<close> read with \<open>unat\<close>. A
  \<open>time.Time\<close> is the number of nanoseconds since January 1 of year 1 UTC, so that Go's
  zero time is \<open>0\<close>. A pointer field is an \<open>option\<close>; a slice whose being \<open>nil\<close> matters is an
  \<open>option\<close> of a list. A Go string or byte slice is the list of its bytes.
\<close>

type_synonym go_int = "64 word"
type_synonym go_uint64 = "64 word"
type_synonym go_time = int
type_synonym bytes = string

named_theorems accepts "when a validator accepts its argument"
named_theorems selectors "what a constructor function puts into each field"
named_theorems frames "fields that an operation leaves alone"

section \<open>Early returns\<close>

text \<open>
  A validator returns \<open>nil\<close> (\<^term>\<open>None\<close>) or a failure. \<open>reject_if b f k\<close> is
  \<^verbatim>\<open>if b { return f }; k\<close>, \<open>or_else r k\<close> is
  \<^verbatim>\<open>if failure := r; failure != nil { return failure }; k\<close>, and \<open>first_reject f xs\<close> is the loop
  \<^verbatim>\<open>for _, x := range xs { if failure := f(x); failure != nil { return failure } }\<close>.
\<close>

definition reject_if :: "bool \<Rightarrow> 'f \<Rightarrow> 'f option \<Rightarrow> 'f option" where
  "reject_if b f k = (if b then Some f else k)"

definition or_else :: "'f option \<Rightarrow> 'f option \<Rightarrow> 'f option" where
  "or_else r k = (case r of Some f \<Rightarrow> Some f | None \<Rightarrow> k)"

primrec first_reject :: "('a \<Rightarrow> 'f option) \<Rightarrow> 'a list \<Rightarrow> 'f option" where
  "first_reject f [] = None"
| "first_reject f (x # xs) = or_else (f x) (first_reject f xs)"

lemma reject_if_None [simp]: "reject_if b f k = None \<longleftrightarrow> \<not> b \<and> k = None"
  by (simp add: reject_if_def)

lemma reject_if_True [simp]: "reject_if True f k = Some f"
  by (simp add: reject_if_def)

lemma reject_if_False [simp]: "reject_if False f k = k"
  by (simp add: reject_if_def)

lemma reject_if_SomeE:
  assumes "reject_if b f k = Some g"
  obtains "b" "g = f" | "\<not> b" "k = Some g"
  using assms by (auto simp: reject_if_def split: if_splits)

lemma or_else_None [simp]: "or_else r k = None \<longleftrightarrow> r = None \<and> k = None"
  by (simp add: or_else_def split: option.splits)

lemma or_else_simps [simp]: "or_else None k = k" "or_else (Some f) k = Some f"
  by (simp_all add: or_else_def)

lemma or_else_SomeE:
  assumes "or_else r k = Some g"
  obtains "r = Some g" | "r = None" "k = Some g"
  using assms by (auto simp: or_else_def split: option.splits)

lemma first_reject_None [simp]: "first_reject f xs = None \<longleftrightarrow> (\<forall>x \<in> set xs. f x = None)"
  by (induction xs) auto

lemma first_reject_cong [fundef_cong]:
  "xs = ys \<Longrightarrow> (\<And>x. x \<in> set ys \<Longrightarrow> f x = g x) \<Longrightarrow> first_reject f xs = first_reject g ys"
  by (induction ys arbitrary: xs) (auto simp: or_else_def split: option.splits)

lemma first_reject_Some:
  "first_reject f xs = Some e \<Longrightarrow> \<exists>x \<in> set xs. f x = Some e"
  by (induction xs) (auto elim: or_else_SomeE)

text \<open>
  A property of every failure a validator may return is proved along its early returns:
  \<open>rejects P r\<close> says that \<open>r\<close>, when it is a failure, satisfies \<open>P\<close>.
\<close>

definition rejects :: "('f \<Rightarrow> bool) \<Rightarrow> 'f option \<Rightarrow> bool" where
  "rejects P r \<longleftrightarrow> (\<forall>f. r = Some f \<longrightarrow> P f)"

lemma rejects_None [simp, intro]: "rejects P None"
  by (simp add: rejects_def)

lemma rejects_Some [simp]: "rejects P (Some f) \<longleftrightarrow> P f"
  by (simp add: rejects_def)

lemma rejects_reject_if [intro]: "P f \<Longrightarrow> rejects P k \<Longrightarrow> rejects P (reject_if b f k)"
  by (simp add: rejects_def reject_if_def)

lemma rejects_or_else [intro]: "rejects P r \<Longrightarrow> rejects P k \<Longrightarrow> rejects P (or_else r k)"
  by (auto simp: rejects_def or_else_def split: option.splits)

lemma rejects_first_reject [intro]:
  "(\<And>x. x \<in> set xs \<Longrightarrow> rejects P (f x)) \<Longrightarrow> rejects P (first_reject f xs)"
  by (induction xs) auto

lemma rejects_if [intro]: "(b \<Longrightarrow> rejects P r) \<Longrightarrow> (\<not> b \<Longrightarrow> rejects P k) \<Longrightarrow> rejects P (if b then r else k)"
  by simp

lemma rejectsD: "rejects P r \<Longrightarrow> r = Some f \<Longrightarrow> P f"
  by (simp add: rejects_def)

section \<open>Signed 64-bit integers\<close>

lemma sint_range_go_int: "- (2 ^ 63) \<le> sint (x :: go_int)" "sint (x :: go_int) < 2 ^ 63"
  using sint_range_size [of x] by (simp_all add: word_size)

lemma sint_minus_go_int:
  "sint (- x :: go_int) = (if sint x = - (2 ^ 63) then - (2 ^ 63) else - sint x)"
proof -
  have "sint (- x) = signed_take_bit 63 (- sint x)"
    by (simp add: signed_eq_0_iff sint_word_ariths signed_take_bit_minus)
  moreover have "signed_take_bit 63 (- sint x) = (if sint x = - (2 ^ 63) then - (2 ^ 63) else - sint x)"
    using sint_range_go_int [of x]
    by (auto simp: signed_take_bit_int_eq_self)
  ultimately show ?thesis by simp
qed

section \<open>Counting duplicates away\<close>

lemma distinct_snoc_iff: "distinct (xs @ [x]) \<longleftrightarrow> distinct xs \<and> x \<notin> set xs"
  by auto

lemma sort_Nil_iff [simp]: "sort xs = [] \<longleftrightarrow> xs = []"
  by (metis length_0_conv length_sort)

lemma sort_key_id_iff: "sorted xs \<longleftrightarrow> sort xs = xs"
  by (metis sorted_sort sorted_sort_id)

end
