(* ===== verification/GoStrings.thy ===== *)
theory GoStrings
  imports Prelude
begin

text \<open>
  The part of Go's \<^verbatim>\<open>strings\<close>, \<^verbatim>\<open>strconv\<close> and \<^verbatim>\<open>encoding/hex\<close> packages that the modelled code
  calls. Strings are byte lists. Nothing here stands for a definition of the repository:
  the functions are the library routines the repository relies on, with their documented
  results.
\<close>

section \<open>ASCII classes\<close>

abbreviation code_of :: "char \<Rightarrow> nat" where
  "code_of c \<equiv> of_char c"

definition is_digit :: "char \<Rightarrow> bool" where
  "is_digit c \<longleftrightarrow> 48 \<le> code_of c \<and> code_of c \<le> 57"

definition is_lower :: "char \<Rightarrow> bool" where
  "is_lower c \<longleftrightarrow> 97 \<le> code_of c \<and> code_of c \<le> 122"

definition is_upper :: "char \<Rightarrow> bool" where
  "is_upper c \<longleftrightarrow> 65 \<le> code_of c \<and> code_of c \<le> 90"

definition is_lower_hex :: "char \<Rightarrow> bool" where
  "is_lower_hex c \<longleftrightarrow> is_digit c \<or> (97 \<le> code_of c \<and> code_of c \<le> 102)"

definition is_hex :: "char \<Rightarrow> bool" where
  "is_hex c \<longleftrightarrow> is_lower_hex c \<or> (65 \<le> code_of c \<and> code_of c \<le> 70)"

definition is_alnum :: "char \<Rightarrow> bool" where
  "is_alnum c \<longleftrightarrow> is_lower c \<or> is_upper c \<or> is_digit c"

definition is_ascii :: "char \<Rightarrow> bool" where
  "is_ascii c \<longleftrightarrow> code_of c < 128"

definition hex_value :: "char \<Rightarrow> nat" where
  "hex_value c =
     (if is_digit c then code_of c - 48
      else if 97 \<le> code_of c then code_of c - 87
      else code_of c - 55)"

definition lower_char :: "char \<Rightarrow> char" where
  "lower_char c = (if is_upper c then char_of (code_of c + 32) else c)"

text \<open>
  \<^verbatim>\<open>strings.ToLower\<close> maps ASCII letters and leaves other ASCII bytes alone. On a string with
  a byte above 127 the result depends on the Unicode tables of the Go release, so that
  part is the argument \<open>u\<close>.
\<close>

definition ToLower :: "(string \<Rightarrow> string) \<Rightarrow> string \<Rightarrow> string" where
  "ToLower u s = (if list_all is_ascii s then map lower_char s else u s)"

lemma lower_char_not_upper [simp]: "is_upper c = False \<Longrightarrow> lower_char c = c"
  by (simp add: lower_char_def)

lemma lower_char_fixes_lower_hex [simp]: "is_lower_hex c \<Longrightarrow> lower_char c = c"
  by (auto simp: lower_char_def is_upper_def is_lower_hex_def is_digit_def)

lemma is_lower_hex_ascii: "is_lower_hex c \<Longrightarrow> is_ascii c"
  by (auto simp: is_lower_hex_def is_ascii_def is_digit_def)

section \<open>Prefixes, suffixes and searching\<close>

definition HasPrefix :: "string \<Rightarrow> string \<Rightarrow> bool" where
  "HasPrefix s p \<longleftrightarrow> take (length p) s = p"

definition HasSuffix :: "string \<Rightarrow> string \<Rightarrow> bool" where
  "HasSuffix s p \<longleftrightarrow> length p \<le> length s \<and> drop (length s - length p) s = p"

definition TrimPrefix :: "string \<Rightarrow> string \<Rightarrow> string" where
  "TrimPrefix s p = (if HasPrefix s p then drop (length p) s else s)"

definition TrimSuffix :: "string \<Rightarrow> string \<Rightarrow> string" where
  "TrimSuffix s p = (if HasSuffix s p then take (length s - length p) s else s)"

fun Contains :: "string \<Rightarrow> string \<Rightarrow> bool" where
  "Contains [] p = HasPrefix [] p"
| "Contains (c # s) p = (HasPrefix (c # s) p \<or> Contains s p)"

definition ContainsByte :: "string \<Rightarrow> char \<Rightarrow> bool" where
  "ContainsByte s c = list_ex (\<lambda>x. x = c) s"

definition ContainsAny :: "string \<Rightarrow> string \<Rightarrow> bool" where
  "ContainsAny s cs = list_ex (\<lambda>x. ContainsByte cs x) s"

lemma ContainsByte_iff [simp]: "ContainsByte s c \<longleftrightarrow> c \<in> set s"
  by (auto simp: ContainsByte_def list_ex_iff)

lemma ContainsAny_iff [simp]: "ContainsAny s cs \<longleftrightarrow> set s \<inter> set cs \<noteq> {}"
  by (auto simp: ContainsAny_def list_ex_iff)

text \<open>\<open>Cut s c\<close> is \<^verbatim>\<open>strings.Cut\<close> on a one-byte separator: before, after, found.\<close>

fun Cut :: "string \<Rightarrow> char \<Rightarrow> string \<times> string \<times> bool" where
  "Cut [] c = ([], [], False)"
| "Cut (x # s) c =
     (if x = c then ([], s, True)
      else (case Cut s c of (a, b, f) \<Rightarrow> (x # a, b, f)))"

text \<open>
  \<open>CutLast s c\<close> cuts at the last occurrence, as code does with \<^verbatim>\<open>strings.LastIndex\<close>:
  \<^term>\<open>None\<close> when there is none, otherwise what is before and after it.
\<close>

definition CutLast :: "string \<Rightarrow> char \<Rightarrow> (string \<times> string) option" where
  "CutLast s c =
     (case Cut (rev s) c of (a, b, f) \<Rightarrow> if f then Some (rev b, rev a) else None)"

text \<open>\<^verbatim>\<open>strings.Split\<close> on a one-byte separator; never empty.\<close>

fun Split :: "string \<Rightarrow> char \<Rightarrow> string list" where
  "Split [] c = [[]]"
| "Split (x # s) c =
     (if x = c then [] # Split s c
      else (case Split s c of [] \<Rightarrow> [[x]] | p # ps \<Rightarrow> (x # p) # ps))"

lemma Split_not_Nil [simp]: "Split s c \<noteq> []"
  by (induction s c rule: Split.induct) (auto split: list.splits)

lemma Split_no_separator: "c \<notin> set s \<Longrightarrow> Split s c = [s]"
  by (induction s) auto

fun JoinWith :: "char \<Rightarrow> string list \<Rightarrow> string" where
  "JoinWith c [] = []"
| "JoinWith c [p] = p"
| "JoinWith c (p # q # ps) = p @ c # JoinWith c (q # ps)"

lemma Join_Split: "JoinWith c (Split s c) = s"
proof (induction s c rule: Split.induct)
  case (2 x s c)
  then show ?case
    by (cases "Split s c"; cases "tl (Split s c)") auto
qed simp

lemma set_Split_subset: "p \<in> set (Split s c) \<Longrightarrow> set p \<subseteq> set s - {c}"
proof (induction s c arbitrary: p rule: Split.induct)
  case (2 x s c)
  then show ?case
    by (cases "Split s c") (fastforce split: if_splits)+
qed simp

section \<open>White space\<close>

text \<open>
  \<^verbatim>\<open>strings.TrimSpace\<close> removes Unicode white space at both ends. The white-space runes have
  the following UTF-8 encodings; no other rune is white space in Go's \<^verbatim>\<open>unicode.IsSpace\<close>.
\<close>

definition space_runes :: "string list" where
  "space_runes =
     [[CHR 0x09], [CHR 0x0A], [CHR 0x0B], [CHR 0x0C], [CHR 0x0D], [CHR 0x20],
      [CHR 0xC2, CHR 0x85], [CHR 0xC2, CHR 0xA0], [CHR 0xE1, CHR 0x9A, CHR 0x80],
      [CHR 0xE2, CHR 0x80, CHR 0x80], [CHR 0xE2, CHR 0x80, CHR 0x81],
      [CHR 0xE2, CHR 0x80, CHR 0x82], [CHR 0xE2, CHR 0x80, CHR 0x83],
      [CHR 0xE2, CHR 0x80, CHR 0x84], [CHR 0xE2, CHR 0x80, CHR 0x85],
      [CHR 0xE2, CHR 0x80, CHR 0x86], [CHR 0xE2, CHR 0x80, CHR 0x87],
      [CHR 0xE2, CHR 0x80, CHR 0x88], [CHR 0xE2, CHR 0x80, CHR 0x89],
      [CHR 0xE2, CHR 0x80, CHR 0x8A], [CHR 0xE2, CHR 0x80, CHR 0xA8],
      [CHR 0xE2, CHR 0x80, CHR 0xA9], [CHR 0xE2, CHR 0x80, CHR 0xAF],
      [CHR 0xE2, CHR 0x81, CHR 0x9F], [CHR 0xE3, CHR 0x80, CHR 0x80]]"

fun trim_runes :: "nat \<Rightarrow> string list \<Rightarrow> string \<Rightarrow> string" where
  "trim_runes 0 rs s = s"
| "trim_runes (Suc n) rs s =
     (case find (\<lambda>r. HasPrefix s r) rs of
        None \<Rightarrow> s
      | Some r \<Rightarrow> trim_runes n rs (drop (length r) s))"

text \<open>Every step drops at least one byte, so the length of the string is enough fuel.\<close>

definition TrimLeftSpace :: "string \<Rightarrow> string" where
  "TrimLeftSpace s = trim_runes (length s) space_runes s"

definition TrimRightSpace :: "string \<Rightarrow> string" where
  "TrimRightSpace s = rev (trim_runes (length s) (map rev space_runes) (rev s))"

definition TrimSpace :: "string \<Rightarrow> string" where
  "TrimSpace s = TrimRightSpace (TrimLeftSpace s)"

lemma HasPrefix_Nil_iff: "HasPrefix [] p \<longleftrightarrow> p = []"
  by (auto simp: HasPrefix_def)

lemma trim_runes_enough:
  assumes "length s \<le> n" "[] \<notin> set rs"
  shows "find (\<lambda>r. HasPrefix (trim_runes n rs s) r) rs = None"
  using assms
proof (induction n arbitrary: s)
  case 0
  then show ?case by (auto simp: find_None_iff HasPrefix_Nil_iff)
next
  case (Suc n)
  show ?case
  proof (cases "find (\<lambda>r. HasPrefix s r) rs")
    case None
    then show ?thesis by simp
  next
    case (Some r)
    then have "r \<in> set rs" "r \<noteq> []"
      using Suc.prems(2) by (auto simp: find_Some_iff in_set_conv_nth)
    then have "0 < length r" by simp
    then have "length (drop (length r) s) \<le> n"
      using Suc.prems(1) by (simp, linarith)
    then show ?thesis using Suc.IH Suc.prems(2) Some by simp
  qed
qed

lemma TrimSpace_Nil [simp]: "TrimSpace [] = []"
  by (simp add: TrimSpace_def TrimLeftSpace_def TrimRightSpace_def)

lemma length_trim_runes_le: "length (trim_runes n rs s) \<le> length s"
proof (induction n rs s rule: trim_runes.induct)
  case (2 n rs s)
  show ?case
  proof (cases "find (\<lambda>r. HasPrefix s r) rs")
    case (Some r)
    with "2.IH" [OF Some] show ?thesis by simp
  qed simp
qed simp

lemma length_TrimSpace_le: "length (TrimSpace s) \<le> length s"
  using length_trim_runes_le [of "length s" space_runes s]
    length_trim_runes_le [of "length (TrimLeftSpace s)" "map rev space_runes" "rev (TrimLeftSpace s)"]
  by (simp add: TrimSpace_def TrimLeftSpace_def TrimRightSpace_def)

section \<open>Numbers and hexadecimal\<close>

fun digits_of :: "nat \<Rightarrow> string" where
  "digits_of n = (if n < 10 then [char_of (48 + n)] else digits_of (n div 10) @ [char_of (48 + n mod 10)])"

declare digits_of.simps [simp del]

text \<open>\<^verbatim>\<open>strconv.FormatUint(n, 10)\<close> and \<^verbatim>\<open>strconv.Itoa\<close>.\<close>

definition FormatUint :: "go_uint64 \<Rightarrow> string" where
  "FormatUint n = digits_of (unat n)"

definition FormatInt :: "go_int \<Rightarrow> string" where
  "FormatInt n = (if sint n < 0 then CHR ''-'' # digits_of (nat (- sint n)) else digits_of (nat (sint n)))"

definition digits_value :: "string \<Rightarrow> nat" where
  "digits_value s = foldl (\<lambda>a c. 10 * a + (code_of c - 48)) 0 s"

text \<open>\<open>ParseUint s w\<close> is \<^verbatim>\<open>strconv.ParseUint(s, 10, w)\<close>: an error is \<^term>\<open>None\<close>.\<close>

definition ParseUint :: "string \<Rightarrow> nat \<Rightarrow> nat option" where
  "ParseUint s w =
     (if s = [] \<or> \<not> list_all is_digit s then None
      else if int (digits_value s) < 2 ^ w then Some (digits_value s) else None)"

definition hex_digit :: "nat \<Rightarrow> char" where
  "hex_digit n = (if n < 10 then char_of (48 + n) else char_of (87 + n))"

definition hex_encode :: "string \<Rightarrow> string" where
  "hex_encode s = concat (map (\<lambda>c. [hex_digit (code_of c div 16), hex_digit (code_of c mod 16)]) s)"

fun hex_decode :: "string \<Rightarrow> string option" where
  "hex_decode [] = Some []"
| "hex_decode [c] = None"
| "hex_decode (c # d # s) =
     (if is_hex c \<and> is_hex d
      then map_option (\<lambda>r. char_of (16 * hex_value c + hex_value d) # r) (hex_decode s)
      else None)"

lemma length_hex_encode [simp]: "length (hex_encode s) = 2 * length s"
  by (induction s) (auto simp: hex_encode_def)

lemma hex_digit_lower_hex [simp]: "n < 16 \<Longrightarrow> is_lower_hex (hex_digit n)"
  by (auto simp: hex_digit_def is_lower_hex_def is_digit_def)

lemma hex_value_hex_digit [simp]: "n < 16 \<Longrightarrow> hex_value (hex_digit n) = n"
  by (auto simp: hex_digit_def hex_value_def is_digit_def)

lemma hex_encode_lower_hex: "list_all is_lower_hex (hex_encode s)"
proof -
  have "code_of c div 16 < 16" for c
    using nat_of_char_less_256 [of c] by (simp add: less_mult_imp_div_less)
  then show ?thesis by (induction s) (auto simp: hex_encode_def)
qed

lemma hex_decode_encode: "hex_decode (hex_encode s) = Some s"
proof (induction s)
  case (Cons c s)
  have lt: "code_of c div 16 < 16"
    using nat_of_char_less_256 [of c] by (simp add: less_mult_imp_div_less)
  have "hex_encode (c # s) =
      hex_digit (code_of c div 16) # hex_digit (code_of c mod 16) # hex_encode s"
    by (simp add: hex_encode_def)
  with lt Cons.IH show ?case by (simp add: is_hex_def)
qed (simp add: hex_encode_def)

text \<open>Decimal numerals determine their numbers, and never hold another byte than a digit.\<close>

lemma digits_of_all_digits: "list_all is_digit (digits_of n)"
proof (induction n rule: digits_of.induct)
  case (1 n)
  have "is_digit (char_of (48 + k))" if "k < (10::nat)" for k
    using that by (simp add: is_digit_def)
  then show ?case
    using 1 by (subst digits_of.simps) simp
qed

lemma digits_of_not_Nil [simp]: "digits_of n \<noteq> []"
  by (subst digits_of.simps) simp

lemma digits_value_append: "digits_value (s @ [c]) = 10 * digits_value s + (code_of c - 48)"
  by (simp add: digits_value_def)

lemma digits_value_digits_of [simp]: "digits_value (digits_of n) = n"
proof (induction n rule: digits_of.induct)
  case (1 n)
  show ?case
  proof (cases "n < 10")
    case True
    then show ?thesis by (subst digits_of.simps) (simp add: digits_value_def)
  next
    case False
    then show ?thesis
      using 1 by (subst digits_of.simps) (simp add: digits_value_append)
  qed
qed

lemma digits_of_inject [simp]: "digits_of m = digits_of n \<longleftrightarrow> m = n"
  by (metis digits_value_digits_of)

lemma FormatUint_inject [simp]: "FormatUint m = FormatUint n \<longleftrightarrow> m = n"
  by (simp add: FormatUint_def word_unat_eq_iff)

lemma FormatUint_digits: "c \<in> set (FormatUint n) \<Longrightarrow> is_digit c"
  using digits_of_all_digits [of "unat n"] by (auto simp: FormatUint_def list_all_iff)

end
