(* ===== verification/GoNet.thy ===== *)
theory GoNet
  imports GoStrings
begin

unbundle bit_operations_syntax

text \<open>
  Go's \<^verbatim>\<open>net/netip\<close> addresses and \<^verbatim>\<open>net.ParseIP\<close>, as far as the repository uses them:
  parsing, the canonical text form, prefixes and the address classes. Nothing here stands
  for a definition of the repository.
\<close>

section \<open>Addresses\<close>

datatype netip_addr = Addr4 "32 word" | Addr6 "128 word" (zone: string)

fun v4_loop :: "string \<Rightarrow> nat \<Rightarrow> nat \<Rightarrow> nat \<Rightarrow> nat list \<Rightarrow> nat list option" where
  "v4_loop [] val pos len acc = (if pos < 3 then None else Some (rev (val # acc)))"
| "v4_loop (c # cs) val pos len acc =
     (if is_digit c then
        (if len = 1 \<and> val = 0 then None
         else let v = 10 * val + (code_of c - 48)
              in if 255 < v then None else v4_loop cs v pos (Suc len) acc)
      else if c = CHR ''.'' then
        (if len = 0 \<or> cs = [] then None
         else if pos = 3 then None
         else v4_loop cs 0 (Suc pos) 0 (val # acc))
      else None)"

text \<open>
  \<^verbatim>\<open>parseIPv4Fields\<close>: four decimal octets without leading zeros. A dot needs a digit before
  it (\<open>len\<close> is the number of digits of the current octet) and something after it.
\<close>

definition parse_ipv4_fields :: "string \<Rightarrow> nat list option" where
  "parse_ipv4_fields s = v4_loop s 0 0 0 []"

definition word_of_groups :: "int list \<Rightarrow> 128 word" where
  "word_of_groups gs = foldl (\<lambda>a g. push_bit 16 a OR of_int g) 0 gs"

definition groups_of_word :: "128 word \<Rightarrow> int list" where
  "groups_of_word w = map (\<lambda>i. uint (drop_bit (16 * (7 - i)) w AND 0xFFFF)) [0..<8]"

definition word_of_octets :: "nat list \<Rightarrow> 32 word" where
  "word_of_octets os = foldl (\<lambda>a g. push_bit 8 a OR of_nat g) 0 os"

definition hex_group :: "string \<Rightarrow> int" where
  "hex_group s = foldl (\<lambda>a c. 16 * a + int (hex_value c)) 0 s"

text \<open>
  The loop of \<^verbatim>\<open>parseIPv6\<close>. \<open>n\<close> counts the 16-bit groups that still fit, \<open>gs\<close> holds the
  groups read so far (last first), \<open>ell\<close> where the \<open>::\<close> stood. The result is the text left
  over, the groups and the ellipsis.
\<close>

fun v6_loop :: "nat \<Rightarrow> string \<Rightarrow> int list \<Rightarrow> nat option \<Rightarrow> (string \<times> int list \<times> nat option) option" where
  "v6_loop 0 s gs ell = Some (s, gs, ell)"
| "v6_loop (Suc n) s gs ell =
     (let ds = takeWhile is_hex s; r = dropWhile is_hex s in
      if 4 < length ds \<or> ds = [] then None
      else if r \<noteq> [] \<and> hd r = CHR ''.'' then
        (if (ell = None \<and> length gs \<noteq> 6) \<or> 6 < length gs then None
         else (case parse_ipv4_fields s of
                 Some [a, b, c, d] \<Rightarrow> Some ([], (256 * int c + int d) # (256 * int a + int b) # gs, ell)
               | _ \<Rightarrow> None))
      else let gs' = hex_group ds # gs in
        if r = [] then Some ([], gs', ell)
        else if hd r \<noteq> CHR '':'' \<or> tl r = [] then None
        else if hd (tl r) = CHR '':'' then
          (if ell \<noteq> None then None
           else if tl (tl r) = [] then Some ([], gs', Some (length gs'))
           else v6_loop n (tl (tl r)) gs' (Some (length gs')))
        else v6_loop n (tl r) gs' ell)"

definition parse_ipv6 :: "string \<Rightarrow> netip_addr option" where
  "parse_ipv6 input =
     (case Cut input (CHR ''%'') of (s, zn, found) \<Rightarrow>
        if found \<and> zn = [] then None
        else let lead = HasPrefix s ''::''; s1 = (if lead then drop 2 s else s) in
          if lead \<and> s1 = [] then Some (Addr6 0 zn)
          else (case v6_loop 8 s1 [] (if lead then Some 0 else None) of
                  None \<Rightarrow> None
                | Some (rest, gs, ell) \<Rightarrow>
                    if rest \<noteq> [] then None
                    else if length gs < 8 then
                      (case ell of
                         None \<Rightarrow> None
                       | Some e \<Rightarrow> Some (Addr6 (word_of_groups
                           (take e (rev gs) @ replicate (8 - length gs) 0 @ drop e (rev gs))) zn))
                    else if ell \<noteq> None then None
                    else Some (Addr6 (word_of_groups (rev gs)) zn)))"

text \<open>\<^verbatim>\<open>netip.ParseAddr\<close> decides by the first of dot, colon and percent sign.\<close>

definition ParseAddr :: "string \<Rightarrow> netip_addr option" where
  "ParseAddr s =
     (case find (\<lambda>c. c \<in> {CHR ''.'', CHR '':'', CHR ''%''}) s of
        Some c \<Rightarrow>
          (if c = CHR ''.'' then map_option (\<lambda>os. Addr4 (word_of_octets os)) (parse_ipv4_fields s)
           else if c = CHR '':'' then parse_ipv6 s
           else None)
      | None \<Rightarrow> None)"

definition Is4In6 :: "netip_addr \<Rightarrow> bool" where
  "Is4In6 a = (case a of Addr4 _ \<Rightarrow> False | Addr6 w _ \<Rightarrow> drop_bit 32 w = 0xFFFF)"

definition Is6 :: "netip_addr \<Rightarrow> bool" where
  "Is6 a = (case a of Addr4 _ \<Rightarrow> False | Addr6 _ _ \<Rightarrow> True)"

definition Unmap :: "netip_addr \<Rightarrow> netip_addr" where
  "Unmap a = (case a of Addr4 v \<Rightarrow> Addr4 v
              | Addr6 w z \<Rightarrow> if drop_bit 32 w = 0xFFFF then Addr4 (ucast w) else Addr6 w z)"

text \<open>
  \<^verbatim>\<open>net.ParseIP\<close> returns the sixteen-byte form, an IPv4 address being mapped into
  \<open>::ffff:0:0/96\<close>, and refuses a zone.
\<close>

definition As16 :: "netip_addr \<Rightarrow> 128 word" where
  "As16 a = (case a of Addr4 v \<Rightarrow> push_bit 32 0xFFFF OR ucast v | Addr6 w _ \<Rightarrow> w)"

definition ParseIP :: "string \<Rightarrow> 128 word option" where
  "ParseIP s =
     (case ParseAddr s of
        None \<Rightarrow> None
      | Some (Addr4 v) \<Rightarrow> Some (As16 (Addr4 v))
      | Some (Addr6 w z) \<Rightarrow> if z \<noteq> [] then None else Some w)"

section \<open>Text form\<close>

definition octet_text :: "32 word \<Rightarrow> nat \<Rightarrow> string" where
  "octet_text w i = digits_of (unat (drop_bit (8 * (3 - i)) w AND 0xFF))"

definition string4 :: "32 word \<Rightarrow> string" where
  "string4 w = JoinWith (CHR ''.'') (map (octet_text w) [0..<4])"

text \<open>A group has at most four hexadecimal digits, written without leading zeros.\<close>

definition hex_of :: "int \<Rightarrow> string" where
  "hex_of n = (let d = (\<lambda>k. hex_digit (nat (n div k mod 16))) in
     if n < 16 then [d 1]
     else if n < 256 then [d 16, d 1]
     else if n < 4096 then [d 256, d 16, d 1]
     else [d 4096, d 256, d 16, d 1])"

definition zero_run :: "int list \<Rightarrow> nat \<Rightarrow> nat" where
  "zero_run gs i = length (takeWhile (\<lambda>g. g = 0) (drop i gs))"

text \<open>The first longest run of at least two zero groups, as start and length.\<close>

definition zero_span :: "int list \<Rightarrow> (nat \<times> nat) option" where
  "zero_span gs = foldl (\<lambda>best i. let l = zero_run gs i in
       if 2 \<le> l \<and> (case best of None \<Rightarrow> True | Some (_, k) \<Rightarrow> k < l) then Some (i, l) else best)
     None [0..<8]"

definition string6 :: "128 word \<Rightarrow> string" where
  "string6 w = (let gs = groups_of_word w in
     case zero_span gs of
       None \<Rightarrow> JoinWith (CHR '':'') (map hex_of gs)
     | Some (i, l) \<Rightarrow> JoinWith (CHR '':'') (map hex_of (take i gs)) @ ''::''
         @ JoinWith (CHR '':'') (map hex_of (drop (i + l) gs)))"

definition addr_String :: "netip_addr \<Rightarrow> string" where
  "addr_String a =
     (case a of
        Addr4 v \<Rightarrow> string4 v
      | Addr6 w z \<Rightarrow>
          (if drop_bit 32 w = 0xFFFF then ''::ffff:'' @ string4 (ucast w) else string6 w)
          @ (if z = [] then [] else CHR ''%'' # z))"

section \<open>Prefixes and address classes\<close>

datatype netip_prefix = Prefix (prefix_addr: netip_addr) (prefix_bits: nat)

text \<open>\<^verbatim>\<open>netip.ParsePrefix\<close>: the last slash separates the address from the prefix length.\<close>

definition ParsePrefix :: "string \<Rightarrow> netip_prefix option" where
  "ParsePrefix s =
     (case CutLast s (CHR ''/'') of
        None \<Rightarrow> None
      | Some (a, b) \<Rightarrow>
          (case ParseAddr a of
             None \<Rightarrow> None
           | Some addr \<Rightarrow>
               if (case addr of Addr6 _ z \<Rightarrow> z \<noteq> [] | _ \<Rightarrow> False)
                  \<or> (1 < length b \<and> hd b = CHR ''0'') then None
               else (case ParseUint b 63 of
                       None \<Rightarrow> None
                     | Some n \<Rightarrow> if (case addr of Addr4 _ \<Rightarrow> 32 | Addr6 _ _ \<Rightarrow> 128) < n then None
                                 else Some (Prefix addr n))))"

definition prefix_contains :: "netip_prefix \<Rightarrow> netip_addr \<Rightarrow> bool" where
  "prefix_contains p a =
     (case (p, a) of
        (Prefix (Addr4 v) n, Addr4 w) \<Rightarrow> drop_bit (32 - n) v = drop_bit (32 - n) w
      | (Prefix (Addr6 v _) n, Addr6 w z) \<Rightarrow> z = [] \<and> drop_bit (128 - n) v = drop_bit (128 - n) w
      | _ \<Rightarrow> False)"

text \<open>The classes of \<^verbatim>\<open>netip.Addr\<close> on an address that is not IPv4-mapped.\<close>

definition IsGlobalUnicast :: "netip_addr \<Rightarrow> bool" where
  "IsGlobalUnicast a =
     (case a of
        Addr4 v \<Rightarrow> v \<noteq> 0 \<and> v \<noteq> 0xFFFFFFFF
          \<and> drop_bit 24 v \<noteq> 127 \<and> drop_bit 28 v \<noteq> 14 \<and> drop_bit 16 v \<noteq> 0xA9FE
      | Addr6 w _ \<Rightarrow> (w, zone a) \<noteq> (0, []) \<and> w \<noteq> 1
          \<and> drop_bit 120 w \<noteq> 0xFF \<and> drop_bit 118 w \<noteq> 0x3FA)"

end
