(* ===== verification/GoUrl.thy ===== *)
theory GoUrl
  imports GoNet
begin

text \<open>
  Go's \<^verbatim>\<open>net/url\<close>: \<^verbatim>\<open>url.Parse\<close>, \<^verbatim>\<open>URL.Hostname\<close> and \<^verbatim>\<open>URL.Port\<close> of the release named in
  \<^verbatim>\<open>go.mod\<close> (strict about brackets and colons in the host). The record holds the parts of a
  URL that the repository reads. Nothing here stands for a definition of the repository.
\<close>

record url =
  url_Scheme :: string
  url_Opaque :: string
  url_User :: bool \<comment> \<open>whether there is user information\<close>
  url_Host :: string
  url_Path :: string
  url_RawPath :: string
  url_RawQuery :: string
  url_ForceQuery :: bool
  url_Fragment :: string

datatype escape_mode = EncodePath | EncodeHost | EncodeZone | EncodeUserPassword | EncodeFragment

text \<open>\<^verbatim>\<open>shouldEscape\<close> for the modes that occur here.\<close>

definition should_escape :: "escape_mode \<Rightarrow> char \<Rightarrow> bool" where
  "should_escape m c =
     (if is_alnum c then False
      else if (m = EncodeHost \<or> m = EncodeZone)
           \<and> c \<in> set ''!$&()*+,;=:[]<>'' \<union> {CHR 0x22, CHR 0x27} then False
      else if c \<in> set ''-_.~'' then False
      else if c \<in> set ''$&+,/:;=?@'' then
        (case m of
           EncodePath \<Rightarrow> c = CHR ''?''
         | EncodeUserPassword \<Rightarrow> c \<in> set ''@/?:''
         | EncodeFragment \<Rightarrow> False
         | _ \<Rightarrow> True)
      else if m = EncodeFragment \<and> c \<in> set ''!()*'' then False
      else True)"

fun unescape :: "escape_mode \<Rightarrow> string \<Rightarrow> string option" where
  "unescape m [] = Some []"
| "unescape m (c # s) =
     (if c = CHR ''%'' then
        (case s of
           h # l # r \<Rightarrow>
             (if \<not> is_hex h \<or> \<not> is_hex l then None
              else if m = EncodeHost \<and> hex_value h < 8 \<and> [h, l] \<noteq> ''25'' then None
              else let v = char_of (16 * hex_value h + hex_value l) in
                if m = EncodeZone \<and> [h, l] \<noteq> ''25'' \<and> v \<noteq> CHR '' '' \<and> should_escape EncodeHost v
                then None
                else map_option (\<lambda>t. v # t) (unescape m r))
         | _ \<Rightarrow> None)
      else if (m = EncodeHost \<or> m = EncodeZone) \<and> is_ascii c \<and> should_escape m c then None
      else map_option (\<lambda>t. c # t) (unescape m s))"

definition escape_path :: "string \<Rightarrow> string" where
  "escape_path s = concat (map (\<lambda>c. if should_escape EncodePath c
     then [CHR ''%'', char_of (if code_of c div 16 < 10 then 48 + code_of c div 16 else 55 + code_of c div 16),
           char_of (if code_of c mod 16 < 10 then 48 + code_of c mod 16 else 55 + code_of c mod 16)]
     else [c]) s)"

definition valid_optional_port :: "string \<Rightarrow> bool" where
  "valid_optional_port p = (case p of [] \<Rightarrow> True | c # ds \<Rightarrow> c = CHR '':'' \<and> list_all is_digit ds)"

text \<open>\<^verbatim>\<open>getScheme\<close>: an error is \<^term>\<open>None\<close>; \<open>pre\<close> holds the bytes before the cursor, last first.\<close>

fun get_scheme :: "string \<Rightarrow> string \<Rightarrow> string \<Rightarrow> (string \<times> string) option" where
  "get_scheme raw pre [] = Some ([], raw)"
| "get_scheme raw pre (c # s) =
     (if is_lower c \<or> is_upper c then get_scheme raw (c # pre) s
      else if is_digit c \<or> c \<in> set ''+-.'' then
        (if pre = [] then Some ([], raw) else get_scheme raw (c # pre) s)
      else if c = CHR '':'' then
        (if pre = [] then None else Some (rev pre, s))
      else Some ([], raw))"

definition valid_userinfo :: "string \<Rightarrow> bool" where
  "valid_userinfo s = list_all (\<lambda>c. is_alnum c \<or> c \<in> set ''-._:~!$&()*+,;=%@'' \<union> {CHR 0x27}) s"

definition parse_bracket_host :: "string \<Rightarrow> string \<Rightarrow> string option" where
  "parse_bracket_host inside colon_port =
     (if \<not> valid_optional_port colon_port then None
      else
        (case unescape EncodeHost colon_port of
           None \<Rightarrow> None
         | Some port \<Rightarrow>
             let parts = (if Contains inside ''%25'' then
                 let n = length (takeWhile (\<lambda>i. \<not> HasPrefix (drop i inside) ''%25'') [0..<length inside])
                 in Some (take n inside, drop n inside) else None) in
             (case (case parts of
                      Some (h, z) \<Rightarrow>
                        (case (unescape EncodeHost h, unescape EncodeZone z) of
                           (Some a, Some b) \<Rightarrow> Some (a @ b) | _ \<Rightarrow> None)
                    | None \<Rightarrow> unescape EncodeHost inside) of
                None \<Rightarrow> None
              | Some name \<Rightarrow>
                  (case ParseAddr name of
                     Some (Addr6 _ _) \<Rightarrow> Some (CHR ''['' # name @ CHR '']'' # port)
                   | _ \<Rightarrow> None))))"

definition parse_host :: "string \<Rightarrow> string \<Rightarrow> string option" where
  "parse_host scheme host =
     (if CHR ''['' \<in> set (tl host) then None
      else if HasPrefix host ''['' then
        (case CutLast host (CHR '']'') of
           None \<Rightarrow> None
         | Some (pre, post) \<Rightarrow> parse_bracket_host (tl pre) post)
      else
        (case Cut host (CHR '':'') of (_, after, found) \<Rightarrow>
           let port = (if \<not> found then []
             else if CHR '':'' \<in> set after \<and> scheme \<in> {''postgresql'', ''postgres''} then
               (case CutLast host (CHR '':'') of Some (_, p) \<Rightarrow> CHR '':'' # p | None \<Rightarrow> [])
             else CHR '':'' # after)
           in if \<not> valid_optional_port port then None else unescape EncodeHost host))"

definition parse_authority :: "string \<Rightarrow> string \<Rightarrow> (bool \<times> string) option" where
  "parse_authority scheme authority =
     (case CutLast authority (CHR ''@'') of
        None \<Rightarrow> map_option (\<lambda>h. (False, h)) (parse_host scheme authority)
      | Some (userinfo, host) \<Rightarrow>
          (case parse_host scheme host of
             None \<Rightarrow> None
           | Some h \<Rightarrow>
               if \<not> valid_userinfo userinfo then None
               else (case unescape EncodeUserPassword userinfo of
                       None \<Rightarrow> None | Some _ \<Rightarrow> Some (True, h))))"

definition set_path :: "string \<Rightarrow> url \<Rightarrow> url option" where
  "set_path p u =
     (case unescape EncodePath p of
        None \<Rightarrow> None
      | Some path \<Rightarrow> Some (u\<lparr>url_Path := path,
          url_RawPath := (if p = escape_path path then [] else p)\<rparr>))"

definition is_ctl :: "char \<Rightarrow> bool" where
  "is_ctl c \<longleftrightarrow> code_of c < 32 \<or> code_of c = 127"

definition empty_url :: url where
  "empty_url = \<lparr>url_Scheme = [], url_Opaque = [], url_User = False, url_Host = [], url_Path = [],
     url_RawPath = [], url_RawQuery = [], url_ForceQuery = False, url_Fragment = []\<rparr>"

definition parse_after_scheme :: "string \<Rightarrow> string \<Rightarrow> url option" where
  "parse_after_scheme scheme r0 =
     (let force = HasSuffix r0 ''?'' \<and> count_list r0 (CHR ''?'') = 1;
          (rest, query) = (if force then (take (length r0 - 1) r0, [])
            else (case Cut r0 (CHR ''?'') of (a, b, _) \<Rightarrow> (a, b)));
          u = empty_url\<lparr>url_Scheme := scheme, url_RawQuery := query, url_ForceQuery := force\<rparr>
      in
      if \<not> HasPrefix rest ''/'' \<and> scheme \<noteq> [] then Some (u\<lparr>url_Opaque := rest\<rparr>)
      else if \<not> HasPrefix rest ''/'' \<and> CHR '':'' \<in> set (fst (Cut rest (CHR ''/''))) then None
      else if (scheme \<noteq> [] \<or> \<not> HasPrefix rest ''///'') \<and> HasPrefix rest ''//'' then
        (let body = drop 2 rest;
             authority = takeWhile (\<lambda>c. c \<noteq> CHR ''/'') body;
             path = dropWhile (\<lambda>c. c \<noteq> CHR ''/'') body
         in (case parse_authority scheme authority of
               None \<Rightarrow> None
             | Some (user, host) \<Rightarrow> set_path path (u\<lparr>url_User := user, url_Host := host\<rparr>)))
      else set_path rest u)"

text \<open>\<^verbatim>\<open>url.Parse\<close>; the scheme is ASCII, so its \<^verbatim>\<open>ToLower\<close> is the ASCII one.\<close>

definition url_Parse :: "string \<Rightarrow> url option" where
  "url_Parse raw =
     (case Cut raw (CHR ''#'') of (u, frag, _) \<Rightarrow>
        if list_ex is_ctl u then None
        else
          (case (if u = ''*'' then Some (empty_url\<lparr>url_Path := ''*''\<rparr>)
                 else (case get_scheme u [] u of
                         None \<Rightarrow> None
                       | Some (scheme, r) \<Rightarrow> parse_after_scheme (map lower_char scheme) r)) of
             None \<Rightarrow> None
           | Some p \<Rightarrow>
               if frag = [] then Some p
               else map_option (\<lambda>f. p\<lparr>url_Fragment := f\<rparr>) (unescape EncodeFragment frag)))"

definition split_host_port :: "string \<Rightarrow> string \<times> string" where
  "split_host_port hp =
     (let (host, port) = (case CutLast hp (CHR '':'') of
            Some (h, p) \<Rightarrow> if list_all is_digit p then (h, p) else (hp, [])
          | None \<Rightarrow> (hp, []))
      in (if HasPrefix host ''['' \<and> HasSuffix host '']'' then butlast (tl host) else host, port))"

definition url_Hostname :: "url \<Rightarrow> string" where
  "url_Hostname u = fst (split_host_port (url_Host u))"

definition url_Port :: "url \<Rightarrow> string" where
  "url_Port u = snd (split_host_port (url_Host u))"

end
