(* ===== verification/External.thy ===== *)
theory External
  imports Prelude
begin

text \<open>
  What the protocol code takes from outside the repository and that is not determined by it,
  as one record that the definitions are given:
  \<^item> \<open>ext_lower\<close>: \<^verbatim>\<open>strings.ToLower\<close> on a string with a byte above 127 (Unicode tables);
  \<^item> \<open>ext_idna\<close>: \<^verbatim>\<open>idna.Lookup.ToASCII\<close> of \<^verbatim>\<open>golang.org/x/net\<close>, an error being \<^term>\<open>None\<close>;
  \<^item> \<open>ext_json_valid\<close>: \<^verbatim>\<open>json.Valid\<close>;
  \<^item> \<open>ext_map_order\<close>: the order in which a \<^verbatim>\<open>range\<close> over a map visits its entries.
\<close>

record externals =
  ext_lower :: "string \<Rightarrow> string"
  ext_idna :: "string \<Rightarrow> string option"
  ext_json_valid :: "bytes \<Rightarrow> bool"
  ext_map_order :: "(string \<times> string) list \<Rightarrow> (string \<times> string) list"

text \<open>A \<^verbatim>\<open>range\<close> over a map visits every entry once and nothing else.\<close>

definition visits_all :: "externals \<Rightarrow> bool" where
  "visits_all ext \<longleftrightarrow> (\<forall>ps. set (ext_map_order ext ps) = set ps)"

text \<open>
  A concrete instance for evaluation: entries in source order, non-ASCII text unchanged, IDNA
  accepting ASCII names only and JSON validity of no text at all.
\<close>

definition ascii_externals :: externals where
  "ascii_externals =
     \<lparr>ext_lower = (\<lambda>s. s),
      ext_idna = (\<lambda>s. if list_all (\<lambda>c. (of_char c :: nat) < 128) s then Some s else None),
      ext_json_valid = (\<lambda>_. False), ext_map_order = (\<lambda>ps. ps)\<rparr>"

lemma visits_all_ascii [simp]: "visits_all ascii_externals"
  by (simp add: visits_all_def ascii_externals_def)

lemma visits_allD: "visits_all ext \<Longrightarrow> set (ext_map_order ext ps) = set ps"
  by (simp add: visits_all_def)

end
