(* ===== verification/ProtocolTypes.thy ===== *)
theory ProtocolTypes
  imports GoStrings
begin

text \<open>
  The data of the Browser wire contract: \<^verbatim>\<open>browserprotocol/types.go\<close>, \<^verbatim>\<open>contract.go\<close> and
  \<^verbatim>\<open>internal/browsercontract/contract.go\<close>. A Go string type with named constants is a
  datatype with one constructor per constant and a last one for every other string; its wire
  text and back are given for each, with the round trip.
\<close>

section \<open>Limits\<close>

definition ContractID :: string where
  "ContractID = ''openlinker.browser.v2''"

definition MaxRequestBytes :: nat where "MaxRequestBytes = 262144"
definition MaxResponseBytes :: nat where "MaxResponseBytes = 8388608"
definition MaxScreenshotBytes :: nat where "MaxScreenshotBytes = 4194304"
definition MaxAXTreeBytes :: nat where "MaxAXTreeBytes = 1048576"
definition MaxDOMDiffBytes :: nat where "MaxDOMDiffBytes = 1048576"
definition MaxViewerFrameBytes :: nat where "MaxViewerFrameBytes = 1048576"

definition Second :: go_time where "Second = 1000000000"
definition Millisecond :: go_time where "Millisecond = 1000000"
definition MaxActionDeadline :: go_time where "MaxActionDeadline = 60 * Second"

definition ViewportWidth :: int where "ViewportWidth = 1280"
definition ViewportHeight :: int where "ViewportHeight = 720"

section \<open>Enumerations\<close>

datatype controller = ControllerAgent | ControllerNone | ControllerHuman | ControllerOther string

datatype action_kind =
    ActionNavigate | ActionClick | ActionTypeNonSecret | ActionScroll | ActionKeypress
  | ActionSelect | ActionWait | ActionBack | ActionForward | ActionScreenshot
  | ActionCheckpoint | ActionClose | ActionPreflight | ActionBatch | ActionOther string

datatype observation_mode =
    ObservationDefault | ObservationSemantic | ObservationScreenshot | ObservationBoth
  | ObservationNone | ObservationOther string

datatype error_code =
    ErrorProtocolInvalid | ErrorRequestTooLarge | ErrorOutputTooLarge | ErrorUnauthorized
  | ErrorIdentityMismatch | ErrorStaleControlEpoch | ErrorRequestReplayed
  | ErrorDeadlineExceeded | ErrorRuntimeUnavailable | ErrorEngineUnavailable
  | ErrorEgressUnavailable | ErrorTargetBlocked | ErrorProfileLocked | ErrorProfileCorrupt
  | ErrorProfileEnvironmentMismatch | ErrorProfileEngineDowngrade | ErrorProfileEngineUpgrade
  | ErrorUserActionRequired | ErrorHighImpactActionBlocked | ErrorMutationOriginBlocked
  | ErrorMutationOutcomeUnknown | ErrorAccessDenied | ErrorRateLimited
  | ErrorChallengeSuspected | ErrorChallengeRequired | ErrorOriginRateLimited
  | ErrorViewerUnavailable | ErrorActionLimitExceeded | ErrorClickRetryExhausted
  | ErrorCloseRetryExhausted | ErrorCanceled | ErrorActionRejected | ErrorOutputInvalid
  | ErrorInternal | ErrorOther string

datatype click_effect = ClickEffectNone | ClickEffectActivated | ClickEffectFocused | ClickEffectOther string

text \<open>\<open>TargetCategoryEmpty\<close> is the empty string, Go's zero value.\<close>

datatype target_category =
    TargetCategoryEmpty | TargetCategoryLink | TargetCategoryTextInput | TargetCategoryButton
  | TargetCategoryCustom | TargetCategoryNone | TargetCategoryOther | TargetCategoryUnknown string

definition action_kind_texts :: "(action_kind \<times> string) list" where
  "action_kind_texts =
     [(ActionNavigate, ''navigate''), (ActionClick, ''click''),
      (ActionTypeNonSecret, ''type_non_secret''), (ActionScroll, ''scroll''),
      (ActionKeypress, ''keypress''), (ActionSelect, ''select''), (ActionWait, ''wait''),
      (ActionBack, ''back''), (ActionForward, ''forward''), (ActionScreenshot, ''screenshot''),
      (ActionCheckpoint, ''checkpoint''), (ActionClose, ''close''),
      (ActionPreflight, ''preflight''), (ActionBatch, ''batch'')]"

definition observation_mode_texts :: "(observation_mode \<times> string) list" where
  "observation_mode_texts =
     [(ObservationDefault, ''''), (ObservationSemantic, ''semantic''),
      (ObservationScreenshot, ''screenshot''), (ObservationBoth, ''both''),
      (ObservationNone, ''none'')]"

definition controller_texts :: "(controller \<times> string) list" where
  "controller_texts =
     [(ControllerAgent, ''agent''), (ControllerNone, ''none''), (ControllerHuman, ''human'')]"

definition error_code_texts :: "(error_code \<times> string) list" where
  "error_code_texts =
     [(ErrorProtocolInvalid, ''BROWSER_PROTOCOL_INVALID''),
      (ErrorRequestTooLarge, ''BROWSER_REQUEST_TOO_LARGE''),
      (ErrorOutputTooLarge, ''BROWSER_OUTPUT_TOO_LARGE''),
      (ErrorUnauthorized, ''BROWSER_UNAUTHORIZED''),
      (ErrorIdentityMismatch, ''BROWSER_IDENTITY_MISMATCH''),
      (ErrorStaleControlEpoch, ''BROWSER_STALE_CONTROL_EPOCH''),
      (ErrorRequestReplayed, ''BROWSER_REQUEST_REPLAYED''),
      (ErrorDeadlineExceeded, ''BROWSER_DEADLINE_EXCEEDED''),
      (ErrorRuntimeUnavailable, ''BROWSER_RUNTIME_UNAVAILABLE''),
      (ErrorEngineUnavailable, ''BROWSER_ENGINE_UNAVAILABLE''),
      (ErrorEgressUnavailable, ''BROWSER_EGRESS_UNAVAILABLE''),
      (ErrorTargetBlocked, ''BROWSER_TARGET_BLOCKED''),
      (ErrorProfileLocked, ''BROWSER_PROFILE_LOCKED''),
      (ErrorProfileCorrupt, ''BROWSER_PROFILE_CORRUPT''),
      (ErrorProfileEnvironmentMismatch, ''BROWSER_PROFILE_ENVIRONMENT_MISMATCH''),
      (ErrorProfileEngineDowngrade, ''BROWSER_PROFILE_ENGINE_DOWNGRADE_UNSUPPORTED''),
      (ErrorProfileEngineUpgrade, ''BROWSER_PROFILE_ENGINE_UPGRADE_FAILED''),
      (ErrorUserActionRequired, ''BROWSER_USER_ACTION_REQUIRED''),
      (ErrorHighImpactActionBlocked, ''BROWSER_HIGH_IMPACT_ACTION_BLOCKED''),
      (ErrorMutationOriginBlocked, ''BROWSER_MUTATION_ORIGIN_BLOCKED''),
      (ErrorMutationOutcomeUnknown, ''BROWSER_MUTATION_OUTCOME_UNKNOWN''),
      (ErrorAccessDenied, ''BROWSER_ACCESS_DENIED''),
      (ErrorRateLimited, ''BROWSER_RATE_LIMITED''),
      (ErrorChallengeSuspected, ''BROWSER_CHALLENGE_SUSPECTED''),
      (ErrorChallengeRequired, ''BROWSER_CHALLENGE_REQUIRED''),
      (ErrorOriginRateLimited, ''BROWSER_ORIGIN_RATE_LIMITED''),
      (ErrorViewerUnavailable, ''BROWSER_VIEWER_UNAVAILABLE''),
      (ErrorActionLimitExceeded, ''BROWSER_ACTION_LIMIT_EXCEEDED''),
      (ErrorClickRetryExhausted, ''BROWSER_CLICK_RETRY_EXHAUSTED''),
      (ErrorCloseRetryExhausted, ''BROWSER_CLOSE_RETRY_EXHAUSTED''),
      (ErrorCanceled, ''BROWSER_CANCELED''),
      (ErrorActionRejected, ''BROWSER_ACTION_REJECTED''),
      (ErrorOutputInvalid, ''BROWSER_OUTPUT_INVALID''),
      (ErrorInternal, ''BROWSER_INTERNAL'')]"

definition target_category_texts :: "(target_category \<times> string) list" where
  "target_category_texts =
     [(TargetCategoryEmpty, ''''), (TargetCategoryLink, ''link''),
      (TargetCategoryTextInput, ''text_input''), (TargetCategoryButton, ''button''),
      (TargetCategoryCustom, ''custom''), (TargetCategoryNone, ''none''),
      (TargetCategoryOther, ''other'')]"

definition click_effect_texts :: "(click_effect \<times> string) list" where
  "click_effect_texts =
     [(ClickEffectNone, ''''), (ClickEffectActivated, ''activated''), (ClickEffectFocused, ''focused'')]"

text \<open>\<open>of_text tab other s\<close> reads a wire string; a string outside the table is kept as it is.\<close>

definition of_text :: "('a \<times> string) list \<Rightarrow> (string \<Rightarrow> 'a) \<Rightarrow> string \<Rightarrow> 'a" where
  "of_text tab other s = (case find (\<lambda>p. snd p = s) tab of Some p \<Rightarrow> fst p | None \<Rightarrow> other s)"

lemma of_text_known:
  assumes "distinct (map snd tab)" "(k, s) \<in> set tab"
  shows "of_text tab other s = k"
proof -
  from assms(2) have "find (\<lambda>p. snd p = s) tab \<noteq> None" by (auto simp: find_None_iff)
  then obtain p where p: "find (\<lambda>p. snd p = s) tab = Some p" by auto
  then have "p \<in> set tab" "snd p = s" by (auto simp: find_Some_iff in_set_conv_nth)
  then have "p = (k, s)" using assms by (auto dest: eq_key_imp_eq_value simp: distinct_map inj_on_def)
  with p show ?thesis by (simp add: of_text_def)
qed

definition ActionKind_of :: "string \<Rightarrow> action_kind" where
  "ActionKind_of = of_text action_kind_texts ActionOther"

definition ErrorCode_of :: "string \<Rightarrow> error_code" where
  "ErrorCode_of = of_text error_code_texts ErrorOther"

definition ErrorCode_text :: "error_code \<Rightarrow> string" where
  "ErrorCode_text c =
     (case c of ErrorOther s \<Rightarrow> s
      | _ \<Rightarrow> (case map_of error_code_texts c of Some s \<Rightarrow> s | None \<Rightarrow> []))"

section \<open>Records\<close>

record identity =
  id_RunID :: string
  id_AgentID :: string
  id_PrincipalScopeID :: string
  id_BrowserSessionID :: string
  id_SessionEpoch :: go_uint64
  id_AttachmentID :: string
  id_ControlEpoch :: go_uint64
  id_Controller :: controller
  id_BrowserInteractionPolicy :: string
  id_BrowserInteractionPolicyGeneration :: go_int
  id_BrowserMutationOrigins :: "string list option"
  id_BrowserMutationOriginsSHA256 :: string

text \<open>
  \<open>Action\<close> nests through \<^verbatim>\<open>Actions\<close>, so it is a datatype with the struct's fields as
  selectors. An empty string is an absent field, as with \<^verbatim>\<open>omitempty\<close>.
\<close>

datatype action = Action
  (act_Kind: action_kind)
  (act_Observation: observation_mode)
  (act_BackendMode: string)
  (act_URL: string)
  (act_X: "go_int option")
  (act_Y: "go_int option")
  (act_DeltaX: "go_int option")
  (act_DeltaY: "go_int option")
  (act_Text: string)
  (act_Key: string)
  (act_Value: string)
  (act_DurationMS: "go_int option")
  (act_Actions: "action list")

record request =
  req_ContractID :: string
  req_ChannelCredential :: string
  req_RequestID :: string
  req_Deadline :: go_time
  req_Identity :: identity
  req_Action :: action

record backend_selection_evidence =
  be_RequestedMode :: string
  be_SelectedBackend :: string
  be_FallbackReason :: string
  be_AssetManifestSHA256 :: string
  be_ExtensionID :: string
  be_ExtensionVersion :: string
  be_NativeHostProtocol :: string
  be_ProfileGeneration :: go_uint64
  be_SessionRecovered :: bool

record screenshot =
  ss_MIMEType :: string
  ss_Data :: bytes
  ss_Width :: go_int
  ss_Height :: go_int

record viewport =
  vp_Width :: go_int
  vp_Height :: go_int

record environment_evidence =
  env_BrowserEngine :: string
  env_BrowserDistribution :: string
  env_BrowserVersion :: string
  env_BrowserMajorVersion :: go_int
  env_BrowserLocale :: string
  env_BrowserTimezone :: string
  env_FontContractVersion :: string
  env_FontManifestSHA256 :: string

record observation =
  obs_PageStateID :: string
  obs_Viewport :: "viewport option"
  obs_NavigationGeneration :: go_uint64
  obs_Screenshot :: "screenshot option"
  obs_AXTree :: bytes
  obs_DOMDiff :: bytes
  obs_AXTreeTimedOut :: bool
  obs_DOMDiffTimedOut :: bool
  obs_Origin :: string
  obs_Title :: string
  obs_ClickEffect :: click_effect
  obs_TargetCategory :: target_category
  obs_Environment :: "environment_evidence option"
  obs_BackendSelection :: "backend_selection_evidence option"
  obs_SiteOutcome :: "error_code option"
  obs_ClassifierRulesVersion :: string
  obs_ChallengeReleaseUnavailable :: bool
  obs_BlockedMutationRequests :: go_int
  obs_MutationRequestsObserved :: go_int
  obs_EngineInstanceID :: go_uint64

text \<open>Go's zero value of an observation.\<close>

definition zero_observation :: observation where
  "zero_observation =
     \<lparr>obs_PageStateID = [], obs_Viewport = None, obs_NavigationGeneration = 0, obs_Screenshot = None,
      obs_AXTree = [], obs_DOMDiff = [], obs_AXTreeTimedOut = False, obs_DOMDiffTimedOut = False,
      obs_Origin = [], obs_Title = [], obs_ClickEffect = ClickEffectNone,
      obs_TargetCategory = TargetCategoryEmpty, obs_Environment = None, obs_BackendSelection = None,
      obs_SiteOutcome = None, obs_ClassifierRulesVersion = [],
      obs_ChallengeReleaseUnavailable = False, obs_BlockedMutationRequests = 0,
      obs_MutationRequestsObserved = 0, obs_EngineInstanceID = 0\<rparr>"

record failure =
  fl_Code :: error_code
  fl_Message :: string
  fl_Recoverable :: bool
  fl_ActionIndex :: "go_int option"
  fl_TargetCategory :: target_category
  fl_PageStateID :: string
  fl_NavigationGeneration :: go_uint64
  fl_BlockedClickNavigationAttemptsRemaining :: "go_int option"
  fl_BlockedClickRunAttemptsRemaining :: "go_int option"
  fl_SiteOutcome :: "error_code option"
  fl_RetryAfterMS :: "go_int option"
  fl_ClassifierRulesVersion :: string
  fl_ConsecutiveAccessDenials :: "go_int option"
  fl_OriginBlockedForAttachment :: bool
  fl_ChallengeReleaseUnavailable :: bool
  fl_RetrySameAction :: "bool option"
  fl_AttachmentUsable :: "bool option"
  fl_FreshObservationRequired :: "bool option"
  fl_MutationOutcomeReason :: string
  fl_AttemptedUnits :: "go_int option"
  fl_UndispatchedUnits :: "go_int option"
  fl_CompletedActions :: "go_int option"
  fl_MutationRequestsObserved :: go_int
  fl_ObservedOrigin :: string
  fl_BrowserMutationOrigins :: "string list option"
  fl_HumanControlAvailable :: bool
  fl_EngineInstanceID :: go_uint64
  fl_EngineProcessReset :: bool

text \<open>
  \<^verbatim>\<open>SiteOutcome\<close> is an \<^verbatim>\<open>ErrorCode\<close> whose empty value means that there is none; the model
  writes the empty value as \<^term>\<open>None\<close>.
\<close>

record response =
  resp_ContractID :: string
  resp_RequestID :: string
  resp_Status :: string
  resp_Observation :: "observation option"
  resp_Error :: "failure option"

section \<open>Constructors of failures and responses\<close>

definition boundedString :: "string \<Rightarrow> nat \<Rightarrow> string" where
  "boundedString v limit = (if length v \<le> limit then v else take limit v)"

definition NewFailure :: "error_code \<Rightarrow> string \<Rightarrow> bool \<Rightarrow> failure" where
  "NewFailure code message recoverable =
     \<lparr>fl_Code = code, fl_Message = boundedString (TrimSpace message) 500,
      fl_Recoverable = recoverable, fl_ActionIndex = None,
      fl_TargetCategory = TargetCategoryEmpty, fl_PageStateID = [], fl_NavigationGeneration = 0,
      fl_BlockedClickNavigationAttemptsRemaining = None,
      fl_BlockedClickRunAttemptsRemaining = None, fl_SiteOutcome = None,
      fl_RetryAfterMS = None, fl_ClassifierRulesVersion = [],
      fl_ConsecutiveAccessDenials = None, fl_OriginBlockedForAttachment = False,
      fl_ChallengeReleaseUnavailable = False, fl_RetrySameAction = None,
      fl_AttachmentUsable = None, fl_FreshObservationRequired = None,
      fl_MutationOutcomeReason = [], fl_AttemptedUnits = None, fl_UndispatchedUnits = None,
      fl_CompletedActions = None, fl_MutationRequestsObserved = 0, fl_ObservedOrigin = [],
      fl_BrowserMutationOrigins = None, fl_HumanControlAvailable = False,
      fl_EngineInstanceID = 0, fl_EngineProcessReset = False\<rparr>"

definition SuccessResponse :: "string \<Rightarrow> observation \<Rightarrow> response" where
  "SuccessResponse requestID observation =
     \<lparr>resp_ContractID = ContractID, resp_RequestID = requestID, resp_Status = ''ok'',
      resp_Observation = Some observation, resp_Error = None\<rparr>"

definition ErrorResponse :: "string \<Rightarrow> failure option \<Rightarrow> response" where
  "ErrorResponse requestID f =
     \<lparr>resp_ContractID = ContractID, resp_RequestID = boundedString requestID 128,
      resp_Status = ''error'', resp_Observation = None,
      resp_Error = Some (case f of Some g \<Rightarrow> g
        | None \<Rightarrow> NewFailure ErrorInternal ''browser runtime failed'' False)\<rparr>"

definition failure_Error :: "failure option \<Rightarrow> string" where
  "failure_Error f = (case f of None \<Rightarrow> []
     | Some g \<Rightarrow> ErrorCode_text (fl_Code g) @ '': '' @ fl_Message g)"

lemma NewFailure_selectors [simp, selectors]:
  "fl_Code (NewFailure c m r) = c"
  "fl_Recoverable (NewFailure c m r) = r"
  "fl_ActionIndex (NewFailure c m r) = None"
  "fl_TargetCategory (NewFailure c m r) = TargetCategoryEmpty"
  "fl_PageStateID (NewFailure c m r) = []"
  "fl_NavigationGeneration (NewFailure c m r) = 0"
  "fl_BlockedClickNavigationAttemptsRemaining (NewFailure c m r) = None"
  "fl_BlockedClickRunAttemptsRemaining (NewFailure c m r) = None"
  "fl_SiteOutcome (NewFailure c m r) = None"
  "fl_RetryAfterMS (NewFailure c m r) = None"
  "fl_ClassifierRulesVersion (NewFailure c m r) = []"
  "fl_ConsecutiveAccessDenials (NewFailure c m r) = None"
  "fl_OriginBlockedForAttachment (NewFailure c m r) = False"
  "fl_RetrySameAction (NewFailure c m r) = None"
  "fl_AttachmentUsable (NewFailure c m r) = None"
  "fl_FreshObservationRequired (NewFailure c m r) = None"
  "fl_MutationOutcomeReason (NewFailure c m r) = []"
  "fl_AttemptedUnits (NewFailure c m r) = None"
  "fl_UndispatchedUnits (NewFailure c m r) = None"
  "fl_CompletedActions (NewFailure c m r) = None"
  "fl_MutationRequestsObserved (NewFailure c m r) = 0"
  "fl_ObservedOrigin (NewFailure c m r) = []"
  "fl_BrowserMutationOrigins (NewFailure c m r) = None"
  "fl_HumanControlAvailable (NewFailure c m r) = False"
  "fl_EngineInstanceID (NewFailure c m r) = 0"
  "fl_EngineProcessReset (NewFailure c m r) = False"
  by (simp_all add: NewFailure_def)

lemma length_boundedString [simp]: "length (boundedString v n) \<le> n"
  by (simp add: boundedString_def)

lemma boundedString_Nil [simp]: "boundedString [] n = []"
  by (simp add: boundedString_def)

lemma NewFailure_message_bound: "length (fl_Message (NewFailure c m r)) \<le> 500"
  by (simp add: NewFailure_def)

end
