(* ===== verification/NetPolicy.thy ===== *)
theory NetPolicy
  imports GoUrl External ProtocolTypes
begin

unbundle bit_operations_syntax

text \<open>
  \<^verbatim>\<open>netpolicy/host.go\<close> and \<^verbatim>\<open>prefixes.go\<close>, the destination checks of
  \<^verbatim>\<open>browserprotocol/destination.go\<close>, and the host, address and port checks of
  \<^verbatim>\<open>egressgateway/gateway.go\<close>, which keep their own decision logic over the same prefixes.
\<close>

section \<open>Address prefixes\<close>

definition blockedPrefixTexts :: "string list" where
  "blockedPrefixTexts =
     [''0.0.0.0/8'', ''10.0.0.0/8'', ''100.64.0.0/10'', ''127.0.0.0/8'', ''169.254.0.0/16'',
      ''172.16.0.0/12'', ''192.0.0.0/24'', ''192.0.2.0/24'', ''192.88.99.0/24'',
      ''192.168.0.0/16'', ''198.18.0.0/15'', ''198.51.100.0/24'', ''203.0.113.0/24'',
      ''224.0.0.0/4'', ''240.0.0.0/4'', ''::/128'', ''::1/128'', ''64:ff9b::/96'',
      ''64:ff9b:1::/48'', ''100::/64'', ''2001::/23'', ''2001:db8::/32'', ''2002::/16'',
      ''3fff::/20'', ''5f00::/16'', ''fc00::/7'', ''fe80::/10'', ''ff00::/8'']"

text \<open>\<^verbatim>\<open>MustParsePrefix\<close> panics on a bad text when the package is initialised: \<^term>\<open>None\<close>.\<close>

definition parsedPrefixes :: "netip_prefix list option" where
  "parsedPrefixes = those (map ParsePrefix blockedPrefixTexts)"

definition blockedDestinationPrefixes :: "netip_prefix list" where
  "blockedDestinationPrefixes = (case parsedPrefixes of Some ps \<Rightarrow> ps | None \<Rightarrow> [])"

lemma parsedPrefixes_eq:
  "parsedPrefixes = Some
     [Prefix (Addr4 0x00000000) 8, Prefix (Addr4 0x0A000000) 8, Prefix (Addr4 0x64400000) 10,
      Prefix (Addr4 0x7F000000) 8, Prefix (Addr4 0xA9FE0000) 16, Prefix (Addr4 0xAC100000) 12,
      Prefix (Addr4 0xC0000000) 24, Prefix (Addr4 0xC0000200) 24, Prefix (Addr4 0xC0586300) 24,
      Prefix (Addr4 0xC0A80000) 16, Prefix (Addr4 0xC6120000) 15, Prefix (Addr4 0xC6336400) 24,
      Prefix (Addr4 0xCB007100) 24, Prefix (Addr4 0xE0000000) 4, Prefix (Addr4 0xF0000000) 4,
      Prefix (Addr6 0 []) 128, Prefix (Addr6 1 []) 128,
      Prefix (Addr6 0x0064FF9B000000000000000000000000 []) 96,
      Prefix (Addr6 0x0064FF9B000100000000000000000000 []) 48,
      Prefix (Addr6 0x01000000000000000000000000000000 []) 64,
      Prefix (Addr6 0x20010000000000000000000000000000 []) 23,
      Prefix (Addr6 0x20010DB8000000000000000000000000 []) 32,
      Prefix (Addr6 0x20020000000000000000000000000000 []) 16,
      Prefix (Addr6 0x3FFF0000000000000000000000000000 []) 20,
      Prefix (Addr6 0x5F000000000000000000000000000000 []) 16,
      Prefix (Addr6 0xFC000000000000000000000000000000 []) 7,
      Prefix (Addr6 0xFE800000000000000000000000000000 []) 10,
      Prefix (Addr6 0xFF000000000000000000000000000000 []) 8]"
  by code_simp

section \<open>Hosts\<close>

definition allASCII :: "string \<Rightarrow> (char \<Rightarrow> bool) \<Rightarrow> bool" where
  "allASCII value allowed = list_all allowed value"

definition isDecimalDigit :: "char \<Rightarrow> bool" where
  "isDecimalDigit c \<longleftrightarrow> 48 \<le> code_of c \<and> code_of c \<le> 57"

definition isHexDigit :: "char \<Rightarrow> bool" where
  "isHexDigit c \<longleftrightarrow> isDecimalDigit c \<or> (97 \<le> code_of c \<and> code_of c \<le> 102)"

definition numeric_label :: "string \<Rightarrow> bool" where
  "numeric_label part =
     (if part = [] then False
      else if HasPrefix part ''0x'' then \<not> (length part = 2 \<or> \<not> allASCII (drop 2 part) isHexDigit)
      else allASCII part isDecimalDigit)"

definition LooksLikeIPLiteral :: "externals \<Rightarrow> string \<Rightarrow> bool" where
  "LooksLikeIPLiteral ext raw =
     (let host = ToLower (ext_lower ext) (TrimSuffix (TrimSpace raw) ''.'') in
      if host = [] then False
      else if ParseIP host \<noteq> None then True
      else let parts = Split host (CHR ''.'') in
        if 4 < length parts then False else list_all numeric_label parts)"

section \<open>Blocked addresses\<close>

definition blockedIP :: "128 word \<Rightarrow> bool" where
  "blockedIP ip =
     (let address = Unmap (Addr6 ip []) in
      if \<not> IsGlobalUnicast address then True
      else list_ex (\<lambda>p. prefix_contains p address) blockedDestinationPrefixes)"

text \<open>\<^verbatim>\<open>IsBlockedIP\<close> of the gateway is a second copy of the same decision.\<close>

definition IsBlockedIP :: "128 word \<Rightarrow> bool" where
  "IsBlockedIP ip =
     (let address = Unmap (Addr6 ip []) in
      if \<not> IsGlobalUnicast address then True
      else list_ex (\<lambda>p. prefix_contains p address) blockedDestinationPrefixes)"

section \<open>Navigation targets\<close>

definition non_public_host :: "externals \<Rightarrow> string \<Rightarrow> bool" where
  "non_public_host ext host \<longleftrightarrow>
     LooksLikeIPLiteral ext host
     \<or> host = ''localhost'' \<or> \<not> ContainsByte host (CHR ''.'') \<or> HasSuffix host ''.local''
     \<or> HasSuffix host ''.internal'' \<or> HasSuffix host ''.localhost''
     \<or> host = ''metadata.google.internal''
     \<or> ContainsAny host [CHR '' '', CHR ''/'', CHR 0x5C, CHR ''@'']"

definition navigate_url_invalid :: "url option \<Rightarrow> bool" where
  "navigate_url_invalid parsed =
     (case parsed of None \<Rightarrow> True
      | Some u \<Rightarrow> (url_Scheme u \<noteq> ''http'' \<and> url_Scheme u \<noteq> ''https'')
          \<or> url_Hostname u = [] \<or> url_User u)"

definition navigate_host :: "externals \<Rightarrow> url \<Rightarrow> string" where
  "navigate_host ext u = ToLower (ext_lower ext) (TrimSuffix (url_Hostname u) ''.'')"

definition validateNavigateURL :: "externals \<Rightarrow> string \<Rightarrow> failure option" where
  "validateNavigateURL ext raw =
     reject_if (raw = [] \<or> 4096 < length raw)
       (NewFailure ErrorProtocolInvalid ''navigate URL is empty or too large'' False)
     (case url_Parse raw of
        None \<Rightarrow> Some (NewFailure ErrorProtocolInvalid
                  ''navigate URL must be an HTTP(S) URL without credentials'' False)
      | Some parsed \<Rightarrow>
          reject_if (navigate_url_invalid (Some parsed))
            (NewFailure ErrorProtocolInvalid
               ''navigate URL must be an HTTP(S) URL without credentials'' False)
          (let host = navigate_host ext parsed in
           case ParseIP host of
             Some ip \<Rightarrow>
               reject_if (blockedIP ip)
                 (NewFailure ErrorProtocolInvalid ''navigate URL address is not public'' False)
                 (Some (NewFailure ErrorProtocolInvalid
                    ''navigate URL must use a public DNS hostname'' False))
           | None \<Rightarrow>
               reject_if (non_public_host ext host)
                 (NewFailure ErrorProtocolInvalid ''navigate URL host is not public'' False)
                 None))"

section \<open>The egress gateway's checks\<close>

definition IsValidPublicHostname :: "externals \<Rightarrow> string \<Rightarrow> bool" where
  "IsValidPublicHostname ext host =
     (if host = [] \<or> ContainsAny host [CHR '' '', CHR ''/'', CHR 0x5C, CHR ''@''] then False
      else if ParseIP host \<noteq> None then True
      else if LooksLikeIPLiteral ext host then False
      else let lower = ToLower (ext_lower ext) host in
        if \<not> ContainsByte lower (CHR ''.'') \<or> HasSuffix lower ''.local''
           \<or> HasSuffix lower ''.internal'' \<or> HasSuffix lower ''.localhost''
           \<or> lower = ''metadata.google.internal'' then False
        else True)"

text \<open>
  \<^verbatim>\<open>strconv.Atoi\<close> accepts a sign; a value outside 64 bits is an error. An error is
  \<^term>\<open>None\<close>.
\<close>

definition Atoi :: "string \<Rightarrow> int option" where
  "Atoi raw =
     (let neg = HasPrefix raw ''-''; body = (if neg \<or> HasPrefix raw ''+'' then tl raw else raw) in
      if body = [] \<or> \<not> list_all is_digit body then None
      else let v = (if neg then - int (digits_value body) else int (digits_value body)) in
        if - (2 ^ 63) \<le> v \<and> v < 2 ^ 63 then Some v else None)"

datatype port_error = InvalidPort | ConnectRestricted | PlainRestricted

definition validatePort :: "string \<Rightarrow> bool \<Rightarrow> port_error option" where
  "validatePort raw secure =
     (case Atoi raw of
        None \<Rightarrow> Some InvalidPort
      | Some port \<Rightarrow>
          reject_if (port \<le> 0 \<or> 65535 < port) InvalidPort
          (reject_if (secure \<and> port \<noteq> 443) ConnectRestricted
          (reject_if (\<not> secure \<and> port \<noteq> 80) PlainRestricted None)))"

datatype resolve_error = InvalidPublicHostname | PrivateAddress | DNSResolutionFailed | DNSResolvedPrivate

text \<open>
  \<^verbatim>\<open>resolvePublic\<close>: \<open>lookup\<close> is the resolver the gateway was configured with (DNS over HTTPS
  or the system's), \<^term>\<open>None\<close> being an error.
\<close>

definition resolvePublic ::
    "externals \<Rightarrow> (string \<Rightarrow> 128 word list option) \<Rightarrow> string \<Rightarrow> resolve_error + 128 word list" where
  "resolvePublic ext lookup h =
     (let host = TrimSpace (TrimSuffix h ''.'') in
      if \<not> IsValidPublicHostname ext host then Inl InvalidPublicHostname
      else case ParseIP host of
        Some literal \<Rightarrow> if IsBlockedIP literal then Inl PrivateAddress else Inr [literal]
      | None \<Rightarrow>
          (case lookup host of
             None \<Rightarrow> Inl DNSResolutionFailed
           | Some resolved \<Rightarrow>
               if resolved = [] then Inl DNSResolutionFailed
               else if list_ex IsBlockedIP resolved then Inl DNSResolvedPrivate
               else Inr resolved))"

end
