(* ===== verification/GoHash.thy ===== *)
theory GoHash
  imports GoStrings
begin

unbundle bit_operations_syntax

text \<open>
  SHA-256 (FIPS 180-4) as \<^verbatim>\<open>crypto/sha256\<close> computes it, and \<^verbatim>\<open>encoding/json\<close>'s text of a
  list of ASCII strings. Nothing here stands for a definition of the repository.
\<close>

section \<open>SHA-256\<close>

type_synonym w32 = "32 word"

text \<open>The standard's round constants and initial value, in decimal.\<close>

definition sha_k :: "w32 list" where
  "sha_k =
     [1116352408, 1899447441, 3049323471, 3921009573, 961987163, 1508970993, 2453635748, 2870763221,
      3624381080, 310598401, 607225278, 1426881987, 1925078388, 2162078206, 2614888103, 3248222580,
      3835390401, 4022224774, 264347078, 604807628, 770255983, 1249150122, 1555081692, 1996064986,
      2554220882, 2821834349, 2952996808, 3210313671, 3336571891, 3584528711, 113926993, 338241895,
      666307205, 773529912, 1294757372, 1396182291, 1695183700, 1986661051, 2177026350, 2456956037,
      2730485921, 2820302411, 3259730800, 3345764771, 3516065817, 3600352804, 4094571909, 275423344,
      430227734, 506948616, 659060556, 883997877, 958139571, 1322822218, 1537002063, 1747873779,
      1955562222, 2024104815, 2227730452, 2361852424, 2428436474, 2756734187, 3204031479, 3329325298]"

definition sha_init :: "w32 list" where
  "sha_init =
     [1779033703, 3144134277, 1013904242, 2773480762,
      1359893119, 2600822924, 528734635, 1541459225]"

definition rotr :: "nat \<Rightarrow> w32 \<Rightarrow> w32" where
  "rotr n x = drop_bit n x OR push_bit (32 - n) x"

definition sha_pad :: "string \<Rightarrow> nat list" where
  "sha_pad s = (let n = length s in
     map code_of s @ 128 # replicate ((119 - n mod 64) mod 64) 0
       @ map (\<lambda>i. unat (drop_bit (8 * (7 - i)) (8 * of_nat n :: 64 word) AND 0xFF)) [0..<8])"

fun sha_words :: "nat list \<Rightarrow> w32 list" where
  "sha_words (a # b # c # d # r) = (push_bit 24 (of_nat a) OR push_bit 16 (of_nat b) OR push_bit 8 (of_nat c) OR of_nat d) # sha_words r"
| "sha_words _ = []"

text \<open>The message schedule, newest word first: \<open>w\<close> holds the last sixteen words or more.\<close>

fun sha_extend :: "nat \<Rightarrow> w32 list \<Rightarrow> w32 list" where
  "sha_extend 0 w = w"
| "sha_extend (Suc n) w =
     (let x15 = w ! 14; x2 = w ! 1;
          s0 = rotr 7 x15 XOR rotr 18 x15 XOR drop_bit 3 x15;
          s1 = rotr 17 x2 XOR rotr 19 x2 XOR drop_bit 10 x2
      in sha_extend n ((w ! 15 + s0 + w ! 6 + s1) # w))"

fun sha_round :: "w32 list \<Rightarrow> w32 \<times> w32 \<Rightarrow> w32 list" where
  "sha_round [a, b, c, d, e, f, g, h] (k, w) =
     (let s1 = rotr 6 e XOR rotr 11 e XOR rotr 25 e;
          ch = (e AND f) XOR ((NOT e) AND g);
          t1 = h + s1 + ch + k + w;
          s0 = rotr 2 a XOR rotr 13 a XOR rotr 22 a;
          maj = (a AND b) XOR (a AND c) XOR (b AND c)
      in [t1 + (s0 + maj), a, b, c, d + t1, e, f, g])"
| "sha_round st _ = st"

definition sha_block :: "w32 list \<Rightarrow> w32 list \<Rightarrow> w32 list" where
  "sha_block st ws = map2 (+) st (foldl sha_round st (zip sha_k (rev (sha_extend 48 (rev ws)))))"

fun sha_blocks :: "nat \<Rightarrow> w32 list \<Rightarrow> w32 list \<Rightarrow> w32 list" where
  "sha_blocks 0 st ws = st"
| "sha_blocks (Suc n) st ws = sha_blocks n (sha_block st (take 16 ws)) (drop 16 ws)"

definition word_bytes :: "w32 \<Rightarrow> string" where
  "word_bytes w = map (\<lambda>i. char_of (unat (drop_bit (8 * (3 - i)) w AND 0xFF))) [0..<4]"

definition sha256 :: "string \<Rightarrow> string" where
  "sha256 s = (let ws = sha_words (sha_pad s) in
     concat (map word_bytes (sha_blocks (length ws div 16) sha_init ws)))"

definition sha256_hex :: "string \<Rightarrow> string" where
  "sha256_hex s = hex_encode (sha256 s)"

lemma length_sha_round: "length st = 8 \<Longrightarrow> length (sha_round st kw) = 8"
  by (cases "(st, kw)" rule: sha_round.cases) (auto simp: Let_def)

lemma length_foldl_sha_round: "length st = 8 \<Longrightarrow> length (foldl sha_round st kws) = 8"
  by (induction kws arbitrary: st) (auto simp: length_sha_round)

lemma length_sha_blocks: "length st = 8 \<Longrightarrow> length (sha_blocks n st ws) = 8"
  by (induction n st ws rule: sha_blocks.induct) (auto simp: sha_block_def length_foldl_sha_round)

lemma length_sha256 [simp]: "length (sha256 s) = 32"
proof -
  have "sum_list (map (\<lambda>x. length (word_bytes x)) ws) = 4 * length ws" for ws
    by (induction ws) (auto simp: word_bytes_def)
  then show ?thesis
    by (simp add: sha256_def Let_def length_concat length_sha_blocks sha_init_def comp_def)
qed

lemma length_sha256_hex [simp]: "length (sha256_hex s) = 64"
  by (simp add: sha256_hex_def)

lemma sha256_hex_lower_hex: "list_all is_lower_hex (sha256_hex s)"
  by (simp add: sha256_hex_def hex_encode_lower_hex)

section \<open>JSON text of string lists\<close>

text \<open>
  \<^verbatim>\<open>json.Marshal\<close> escapes the quote, the backslash, control bytes and (for HTML) angle
  brackets and the ampersand. The strings that the repository marshals here are ASCII.
\<close>

definition json_escape :: "char \<Rightarrow> string" where
  "json_escape c =
     (if c = CHR 0x22 \<or> c = CHR 0x5C then [CHR 0x5C, c]
      else if c = CHR 0x08 then [CHR 0x5C, CHR ''b'']
      else if c = CHR 0x0C then [CHR 0x5C, CHR ''f'']
      else if c = CHR 0x0A then [CHR 0x5C, CHR ''n'']
      else if c = CHR 0x0D then [CHR 0x5C, CHR ''r'']
      else if c = CHR 0x09 then [CHR 0x5C, CHR ''t'']
      else if code_of c < 32 \<or> c \<in> set ''<>&'' then
        [CHR 0x5C, CHR ''u'', CHR ''0'', CHR ''0'', hex_digit (code_of c div 16), hex_digit (code_of c mod 16)]
      else [c])"

definition json_string :: "string \<Rightarrow> string" where
  "json_string s = CHR 0x22 # concat (map json_escape s) @ [CHR 0x22]"

definition json_string_list :: "string list \<Rightarrow> string" where
  "json_string_list ss = CHR ''['' # JoinWith (CHR '','') (map json_string ss) @ [CHR '']'']"

end
