(* ===== verification/Identifiers.thy ===== *)
theory Identifiers
  imports ProtocolTypes
begin

text \<open>
  \<^verbatim>\<open>browserprotocol/identifiers.go\<close> and the character-class checks of \<^verbatim>\<open>validation.go\<close> and
  \<^verbatim>\<open>ops_observer.go\<close>: UUIDs, opaque identifiers, hexadecimal digests, versions, locales, time
  zones and extension ids. Go ranges over the runes of a string; every check refuses a rune
  outside ASCII, and so refuses the first byte above 127 that the byte lists hold.
\<close>

text \<open>
  The comparison with \<^verbatim>\<open>strings.ToLower(value)\<close> is written with the ASCII mapping: a value
  with a byte above 127 is refused by the loop whatever its lower-case form is.
\<close>

definition uuid_char_ok :: "nat \<Rightarrow> char \<Rightarrow> bool" where
  "uuid_char_ok index c =
     (if index = 8 \<or> index = 13 \<or> index = 18 \<or> index = 23 then c = CHR ''-''
      else is_lower_hex c)"

definition IsValidUUID :: "string \<Rightarrow> bool" where
  "IsValidUUID value =
     (if length value \<noteq> 36 \<or> value \<noteq> map lower_char value then False
      else if \<not> list_all (\<lambda>(i, c). uuid_char_ok i c) (enumerate 0 value) then False
      else value \<noteq> ''00000000-0000-0000-0000-000000000000'')"

definition opaque_char :: "char \<Rightarrow> bool" where
  "opaque_char c \<longleftrightarrow> is_lower c \<or> is_upper c \<or> is_digit c \<or> c \<in> set ''._:-''"

definition validOpaqueID :: "string \<Rightarrow> nat \<Rightarrow> bool" where
  "validOpaqueID value limit =
     (if value = [] \<or> limit < length value \<or> TrimSpace value \<noteq> value then False
      else list_all opaque_char value)"

definition validLowerHex :: "string \<Rightarrow> nat \<Rightarrow> bool" where
  "validLowerHex value expectedLength =
     (if length value \<noteq> expectedLength then False else list_all is_lower_hex value)"

definition IsValidSHA256Hex :: "string \<Rightarrow> bool" where
  "IsValidSHA256Hex value =
     (if length value \<noteq> 64 \<or> value \<noteq> map lower_char value then False
      else list_all is_lower_hex value)"

definition validChromeExtensionID :: "string \<Rightarrow> bool" where
  "validChromeExtensionID value =
     (if length value \<noteq> 32 then False
      else list_all (\<lambda>c. \<not> (code_of c < 97 \<or> 112 < code_of c)) value)"

definition version_part_ok :: "nat \<Rightarrow> string \<Rightarrow> bool" where
  "version_part_ok index part =
     (if part = [] \<or> 8 < length part \<or> (1 < length part \<and> part ! 0 = CHR ''0'') then False
      else list_all is_digit part \<and> \<not> (index = 0 \<and> part = ''0''))"

definition validBrowserVersion :: "string \<Rightarrow> bool" where
  "validBrowserVersion value =
     (if value = [] \<or> 64 < length value then False
      else let parts = Split value (CHR ''.'') in
        if length parts < 2 \<or> 4 < length parts then False
        else list_all (\<lambda>(i, p). version_part_ok i p) (enumerate 0 parts))"

definition validLocaleEvidence :: "string \<Rightarrow> bool" where
  "validLocaleEvidence value =
     (if value = [] \<or> 64 < length value \<or> TrimSpace value \<noteq> value then False
      else list_all (\<lambda>c. is_lower c \<or> is_upper c \<or> is_digit c \<or> c = CHR ''-'') value)"

definition validTimezoneEvidence :: "string \<Rightarrow> bool" where
  "validTimezoneEvidence value =
     (if value = [] \<or> 128 < length value \<or> TrimSpace value \<noteq> value
         \<or> HasPrefix value ''/'' \<or> Contains value ''..'' then False
      else list_all (\<lambda>c. is_lower c \<or> is_upper c \<or> is_digit c \<or> c \<in> set ''_+-/'') value)"

definition validTargetCategory :: "target_category \<Rightarrow> bool" where
  "validTargetCategory category =
     (case category of
        TargetCategoryLink \<Rightarrow> True | TargetCategoryTextInput \<Rightarrow> True
      | TargetCategoryButton \<Rightarrow> True | TargetCategoryCustom \<Rightarrow> True
      | TargetCategoryNone \<Rightarrow> True | TargetCategoryOther \<Rightarrow> True
      | _ \<Rightarrow> False)"

definition validBackendFallbackReason :: "string \<Rightarrow> bool" where
  "validBackendFallbackReason value \<longleftrightarrow> List.member
     [''official_assets_unavailable'', ''official_assets_invalid'',
      ''official_platform_unsupported'', ''official_sandbox_unavailable'',
      ''official_chrome_start_failed'', ''official_extension_unavailable'',
      ''official_native_host_unavailable'', ''official_protocol_mismatch'',
      ''official_capability_incomplete'', ''official_profile_preflight_failed'',
      ''official_policy_enforcement_unavailable'', ''official_egress_preflight_failed''] value"

section \<open>UUIDs\<close>

lemma enumerate_all_iff:
  "list_all (\<lambda>(i, c). P i c) (enumerate n xs) \<longleftrightarrow> (\<forall>i < length xs. P (n + i) (xs ! i))"
  by (simp add: list_all_length nth_enumerate_eq)

lemma IsValidUUID_iff:
  "IsValidUUID v \<longleftrightarrow> length v = 36 \<and> (\<forall>i < 36. uuid_char_ok i (v ! i))
     \<and> v \<noteq> ''00000000-0000-0000-0000-000000000000''"
proof -
  have "map lower_char v = v" if "length v = 36" "\<forall>i < 36. uuid_char_ok i (v ! i)"
  proof (rule nth_equalityI)
    fix i assume "i < length (map lower_char v)"
    then have "uuid_char_ok i (v ! i)" "i < length v" using that by auto
    then show "map lower_char v ! i = v ! i"
      by (auto simp: uuid_char_ok_def lower_char_def is_upper_def split: if_splits
          dest: lower_char_fixes_lower_hex)
  qed simp
  then show ?thesis
    by (auto simp: IsValidUUID_def enumerate_all_iff)
qed

lemma IsValidUUID_length: "IsValidUUID v \<Longrightarrow> length v = 36"
  by (simp add: IsValidUUID_iff)

lemma IsValidUUID_not_Nil [simp]: "\<not> IsValidUUID []"
  by (simp add: IsValidUUID_iff)

text \<open>A UUID holds no vertical bar, so joining ids with bars loses nothing.\<close>

lemma IsValidUUID_no_bar: "IsValidUUID v \<Longrightarrow> CHR ''|'' \<notin> set v"
  by (auto simp: IsValidUUID_iff in_set_conv_nth uuid_char_ok_def is_lower_hex_def is_digit_def
      split: if_splits)

lemma validLowerHex_64_iff: "IsValidSHA256Hex v \<longleftrightarrow> validLowerHex v 64"
proof -
  have "map lower_char v = v" if "list_all is_lower_hex v"
    using that by (intro map_idI) (auto simp: list_all_iff)
  then show ?thesis by (auto simp: IsValidSHA256Hex_def validLowerHex_def)
qed

end
