(* ===== verification/Origins.thy ===== *)
theory Origins
  imports NetPolicy GoHash Identifiers
begin

text \<open>
  \<^verbatim>\<open>browserprotocol/origins.go\<close>: the canonical form of a mutation-origin list and its digest,
  on which the authority layer and the Browser Runtime have to agree byte for byte.
\<close>

definition MaxMutationOrigins :: nat where "MaxMutationOrigins = 32"

definition RestrictedMutationOriginsSHA256 :: string where
  "RestrictedMutationOriginsSHA256 = ''4f53cda18c2baa0c0354bb5f9a3ecbe5ed12ab4d8e11ba873c2f11161202b945''"

definition invalidMutationOrigins :: failure where
  "invalidMutationOrigins = NewFailure ErrorProtocolInvalid
     ''Browser interaction policy or mutation origins are invalid'' False"

text \<open>The bytes of a part are compared with ASCII ranges, index by index, as in the source.\<close>

definition ambiguous_part :: "string \<Rightarrow> bool" where
  "ambiguous_part part =
     (if part = [] then False
      else let hexadecimal = HasPrefix part ''0x'';
               digits = (if hexadecimal then drop 2 part else part)
        in if digits = [] then False
           else list_all (\<lambda>c. (48 \<le> code_of c \<and> code_of c \<le> 57)
                 \<or> (hexadecimal \<and> 97 \<le> code_of c \<and> code_of c \<le> 102)) digits)"

definition ambiguousMutationIPv4Domain :: "externals \<Rightarrow> string \<Rightarrow> bool" where
  "ambiguousMutationIPv4Domain ext host =
     (let parts = Split (ToLower (ext_lower ext) host) (CHR ''.'') in
      if length parts = 0 \<or> 4 < length parts then False else list_all ambiguous_part parts)"

definition domain_char :: "char \<Rightarrow> bool" where
  "domain_char c \<longleftrightarrow> is_lower c \<or> is_digit c \<or> c = CHR ''-''"

definition domain_label :: "string \<Rightarrow> bool" where
  "domain_label label =
     (if label = [] \<or> 63 < length label \<or> hd label = CHR ''-'' \<or> last label = CHR ''-'' then False
      else list_all domain_char label)"

definition validMutationDomain :: "string \<Rightarrow> bool" where
  "validMutationDomain host =
     (if host = [] \<or> 253 < length host then False
      else list_all domain_label (Split host (CHR ''.'')))"

definition canonical_port :: "string \<Rightarrow> string option" where
  "canonical_port port =
     (if port \<noteq> [] then
        (case ParseUint port 16 of
           None \<Rightarrow> None
         | Some n \<Rightarrow> if n = 0 then None
             else if n = 443 then Some [] else Some (digits_of n))
      else Some [])"

definition canonical_host :: "externals \<Rightarrow> string \<Rightarrow> string option" where
  "canonical_host ext host =
     (case ParseAddr host of
        Some address \<Rightarrow>
          (if Is4In6 address then None
           else if Is6 address then Some (''['' @ addr_String address @ '']'')
           else Some (addr_String address))
      | None \<Rightarrow>
          (case ext_idna ext (ToLower (ext_lower ext) host) of
             None \<Rightarrow> None
           | Some ascii \<Rightarrow>
               if \<not> validMutationDomain ascii \<or> ambiguousMutationIPv4Domain ext ascii then None
               else Some (ToLower (ext_lower ext) ascii)))"

definition origin_url_ok :: "url \<Rightarrow> bool" where
  "origin_url_ok p \<longleftrightarrow> \<not> (url_Scheme p \<noteq> ''https'' \<or> url_User p \<or> url_Opaque p \<noteq> [] \<or> url_Host p = []
     \<or> url_Path p \<noteq> [] \<or> url_RawPath p \<noteq> [] \<or> url_RawQuery p \<noteq> [] \<or> url_Fragment p \<noteq> []
     \<or> url_ForceQuery p)"

definition canonicalMutationOrigin :: "externals \<Rightarrow> string \<Rightarrow> string option" where
  "canonicalMutationOrigin ext raw =
     (if raw = [] \<or> TrimSpace raw \<noteq> raw \<or> Contains raw ''%'' then None
      else (case url_Parse raw of
        None \<Rightarrow> None
      | Some parsed \<Rightarrow>
          if \<not> origin_url_ok parsed then None
          else let host = url_Hostname parsed in
            if host = [] \<or> HasSuffix host ''.'' then None
            else (case canonical_port (url_Port parsed) of
              None \<Rightarrow> None
            | Some port \<Rightarrow>
                (case canonical_host ext host of
                   None \<Rightarrow> None
                 | Some canonicalHost \<Rightarrow>
                     Some (''https://'' @ canonicalHost @ (if port \<noteq> [] then CHR '':'' # port else []))))))"

text \<open>The loop over the origins: the canonical ones seen so far, each once, in order.\<close>

fun canonical_loop :: "(string \<Rightarrow> string option) \<Rightarrow> string list \<Rightarrow> string list \<Rightarrow> string list option" where
  "canonical_loop canon [] acc = Some acc"
| "canonical_loop canon (raw # rest) acc =
     (case canon raw of
        None \<Rightarrow> None
      | Some origin \<Rightarrow>
          if origin \<in> set acc then canonical_loop canon rest acc
          else canonical_loop canon rest (acc @ [origin]))"

definition CanonicalMutationOrigins ::
    "externals \<Rightarrow> string \<Rightarrow> string list option \<Rightarrow> failure + string list \<times> string" where
  "CanonicalMutationOrigins ext policy origins =
     (case origins of
        None \<Rightarrow> Inl invalidMutationOrigins
      | Some os \<Rightarrow>
          if MaxMutationOrigins < length os then Inl invalidMutationOrigins
          else (case canonical_loop (canonicalMutationOrigin ext) os [] of
            None \<Rightarrow> Inl invalidMutationOrigins
          | Some found \<Rightarrow>
              let canonical = sort found in
              if policy = ''restricted'' then
                (if length canonical \<noteq> 0 then Inl invalidMutationOrigins
                 else Inr (canonical, sha256_hex (json_string_list canonical)))
              else if policy = ''full'' then
                (if length canonical = 0 then Inl invalidMutationOrigins
                 else Inr (canonical, sha256_hex (json_string_list canonical)))
              else Inl invalidMutationOrigins))"

definition ValidateMutationOrigins ::
    "externals \<Rightarrow> string \<Rightarrow> string list option \<Rightarrow> string \<Rightarrow> failure option" where
  "ValidateMutationOrigins ext policy origins digest =
     (case CanonicalMutationOrigins ext policy origins of
        Inl _ \<Rightarrow> Some invalidMutationOrigins
      | Inr (canonical, expected) \<Rightarrow>
          let given = (case origins of Some os \<Rightarrow> os | None \<Rightarrow> []) in
          if expected \<noteq> digest \<or> length canonical \<noteq> length given then Some invalidMutationOrigins
          else if list_ex (\<lambda>i. canonical ! i \<noteq> given ! i) [0..<length canonical]
          then Some invalidMutationOrigins
          else None)"

section \<open>The canonical list\<close>

lemma canonical_loop_spec:
  assumes "canonical_loop canon os acc = Some found" "distinct acc"
  shows "distinct found" "set found = set acc \<union> {c. \<exists>x \<in> set os. canon x = Some c}"
    "\<forall>x \<in> set os. canon x \<noteq> None" "length found \<le> length acc + length os"
  using assms
  by (induction canon os acc rule: canonical_loop.induct)
    (fastforce split: option.splits if_splits)+

lemma canonical_loop_None_iff:
  "canonical_loop canon os acc = None \<longleftrightarrow> (\<exists>x \<in> set os. canon x = None)"
  by (induction canon os acc rule: canonical_loop.induct) (auto split: option.splits)

text \<open>What a successful canonicalisation returns.\<close>

lemma CanonicalMutationOrigins_Inr:
  assumes "CanonicalMutationOrigins ext policy origins = Inr (canonical, digest)"
  obtains os where "origins = Some os" "length os \<le> MaxMutationOrigins"
    "sorted canonical" "distinct canonical"
    "set canonical = {c. \<exists>x \<in> set os. canonicalMutationOrigin ext x = Some c}"
    "\<forall>x \<in> set os. canonicalMutationOrigin ext x \<noteq> None"
    "length canonical \<le> length os"
    "policy = ''restricted'' \<and> canonical = [] \<or> policy = ''full'' \<and> canonical \<noteq> []"
    "digest = sha256_hex (json_string_list canonical)"
proof -
  from assms obtain os found where os: "origins = Some os" "length os \<le> MaxMutationOrigins"
    and found: "canonical_loop (canonicalMutationOrigin ext) os [] = Some found"
    and can: "canonical = sort found" "digest = sha256_hex (json_string_list canonical)"
    and pol: "policy = ''restricted'' \<and> canonical = [] \<or> policy = ''full'' \<and> canonical \<noteq> []"
    by (auto simp: CanonicalMutationOrigins_def Let_def not_less split: option.splits if_splits)
  note spec = canonical_loop_spec [OF found]
  show ?thesis
    using os can pol spec by (intro that [of os]) auto
qed

lemma ValidateMutationOrigins_accepts [accepts]:
  "ValidateMutationOrigins ext policy origins digest = None \<longleftrightarrow>
     (\<exists>os. origins = Some os \<and> CanonicalMutationOrigins ext policy origins = Inr (os, digest))"
proof -
  have eq: "canonical = given" if "length canonical = length given"
    "\<not> list_ex (\<lambda>i. canonical ! i \<noteq> given ! i) [0..<length canonical]" for canonical given :: "string list"
    using that by (intro nth_equalityI) (auto simp: list_ex_iff)
  show ?thesis
  proof (cases "CanonicalMutationOrigins ext policy origins")
    case (Inl f)
    then show ?thesis by (simp add: ValidateMutationOrigins_def)
  next
    case (Inr cd)
    obtain c d where cd: "cd = (c, d)" by force
    obtain os where os: "origins = Some os"
      using CanonicalMutationOrigins_Inr Inr cd by metis
    show ?thesis
      using Inr eq [of c os]
      by (auto simp: ValidateMutationOrigins_def cd os Let_def list_ex_iff)
  qed
qed

lemma ValidateMutationOrigins_rejects:
  "ValidateMutationOrigins ext policy origins digest = Some f \<Longrightarrow> f = invalidMutationOrigins"
  by (auto simp: ValidateMutationOrigins_def Let_def split: sum.splits prod.splits if_splits)

end
