(* ===== verification/EmptyOrigins.thy ===== *)
theory EmptyOrigins
  imports Origins
begin

text \<open>
  The one digest that the code writes down as a constant, computed by the kernel. It has a
  theory of its own because the evaluation of SHA-256 takes minutes.
\<close>

lemma empty_origins_digest: "sha256_hex (json_string_list []) = RestrictedMutationOriginsSHA256"
  by code_simp

end
