(* ===== verification/Actions.thy ===== *)
theory Actions
  imports NetPolicy
begin

text \<open>
  \<^verbatim>\<open>browserprotocol/action.go\<close> and the observation modes of \<^verbatim>\<open>validation.go\<close>: which actions
  a Browser Run may ask for under the restricted and under the full interaction policy.
\<close>

section \<open>Observation modes\<close>

definition ObservationMode_Validate :: "observation_mode \<Rightarrow> failure option" where
  "ObservationMode_Validate mode =
     (case mode of
        ObservationDefault \<Rightarrow> None | ObservationSemantic \<Rightarrow> None
      | ObservationScreenshot \<Rightarrow> None | ObservationBoth \<Rightarrow> None | ObservationNone \<Rightarrow> None
      | ObservationOther _ \<Rightarrow>
          Some (NewFailure ErrorProtocolInvalid ''observation mode is invalid'' False))"

definition ObservationMode_Effective :: "observation_mode \<Rightarrow> observation_mode" where
  "ObservationMode_Effective mode =
     (if mode = ObservationDefault then ObservationSemantic else mode)"

section \<open>Fields\<close>

datatype field =
    F_url | F_backend_mode | F_x | F_y | F_delta_x | F_delta_y | F_text | F_key | F_value
  | F_duration_ms | F_actions

text \<open>
  \<^verbatim>\<open>presentFields\<close> returns a map from the field's wire name to whether it is set; the names
  are the constructors of \<^typ>\<open>field\<close>.
\<close>

definition presentFields :: "action \<Rightarrow> field \<Rightarrow> bool" where
  "presentFields action f =
     (case f of
        F_url \<Rightarrow> act_URL action \<noteq> []
      | F_backend_mode \<Rightarrow> act_BackendMode action \<noteq> []
      | F_x \<Rightarrow> act_X action \<noteq> None
      | F_y \<Rightarrow> act_Y action \<noteq> None
      | F_delta_x \<Rightarrow> act_DeltaX action \<noteq> None
      | F_delta_y \<Rightarrow> act_DeltaY action \<noteq> None
      | F_text \<Rightarrow> act_Text action \<noteq> []
      | F_key \<Rightarrow> act_Key action \<noteq> []
      | F_value \<Rightarrow> act_Value action \<noteq> []
      | F_duration_ms \<Rightarrow> act_DurationMS action \<noteq> None
      | F_actions \<Rightarrow> length (act_Actions action) \<noteq> 0)"

definition all_fields :: "field list" where
  "all_fields = [F_url, F_backend_mode, F_x, F_y, F_delta_x, F_delta_y, F_text, F_key, F_value,
     F_duration_ms, F_actions]"

text \<open>The loop over the map returns the same failure whichever unexpected field it meets.\<close>

definition allowOnly :: "action \<Rightarrow> field list \<Rightarrow> failure option" where
  "allowOnly action names =
     reject_if (list_ex (\<lambda>f. presentFields action f \<and> \<not> List.member names f) all_fields)
       (NewFailure ErrorProtocolInvalid ''browser action contains an unexpected field'' False)
       None"

definition requireOnly :: "action \<Rightarrow> field list \<Rightarrow> failure option" where
  "requireOnly action names =
     or_else (allowOnly action names)
     (reject_if (list_ex (\<lambda>f. \<not> presentFields action f) names)
       (NewFailure ErrorProtocolInvalid ''browser action is missing a required field'' False)
       None)"

definition valueOrZero :: "go_int option \<Rightarrow> go_int" where
  "valueOrZero v = (case v of None \<Rightarrow> 0 | Some x \<Rightarrow> x)"

text \<open>\<^verbatim>\<open>abs\<close> negates in 64 bits, so the least integer is its own negation.\<close>

definition go_abs :: "go_int \<Rightarrow> go_int" where
  "go_abs v = (if sint v < 0 then - v else v)"

definition validateCoordinates :: "go_int option \<Rightarrow> go_int option \<Rightarrow> failure option" where
  "validateCoordinates x y =
     (case (x, y) of
        (Some vx, Some vy) \<Rightarrow>
          reject_if (sint vx < 0 \<or> sint vy < 0 \<or> ViewportWidth \<le> sint vx \<or> ViewportHeight \<le> sint vy)
            (NewFailure ErrorProtocolInvalid ''browser action coordinates are out of range'' False)
            None
      | _ \<Rightarrow> Some (NewFailure ErrorProtocolInvalid ''browser action requires coordinates'' False))"

definition allowedKey :: "string \<Rightarrow> bool" where
  "allowedKey value \<longleftrightarrow> List.member
     [''Enter'', ''Space'', ''Tab'', ''Escape'', ''ArrowUp'', ''ArrowDown'', ''ArrowLeft'',
      ''ArrowRight'', ''PageUp'', ''PageDown'', ''Home'', ''End'', ''Backspace'', ''Delete''] value"

section \<open>Actions\<close>

definition scroll_rejects :: "action \<Rightarrow> failure option" where
  "scroll_rejects action =
     or_else (allowOnly action [F_delta_x, F_delta_y])
     (reject_if (act_DeltaX action = None \<and> act_DeltaY action = None)
       (NewFailure ErrorProtocolInvalid ''scroll requires a delta'' False)
     (let deltaX = valueOrZero (act_DeltaX action); deltaY = valueOrZero (act_DeltaY action) in
      reject_if (deltaX = 0 \<and> deltaY = 0)
        (NewFailure ErrorProtocolInvalid ''scroll delta must be non-zero'' False)
      (reject_if (32768 < sint (go_abs deltaX) \<or> 32768 < sint (go_abs deltaY))
        (NewFailure ErrorProtocolInvalid ''scroll delta is out of range'' False)
        None)))"

definition keypress_rejects :: "string \<Rightarrow> action \<Rightarrow> failure option" where
  "keypress_rejects policy action =
     or_else (requireOnly action [F_key])
     (reject_if (\<not> allowedKey (act_Key action))
       (NewFailure ErrorProtocolInvalid ''keypress key is not allowed'' False)
     (reject_if (act_Key action = ''Space'' \<and> policy \<noteq> ''full'')
       (NewFailure ErrorProtocolInvalid ''restricted policy does not allow Space'' False)
       None))"

definition select_rejects :: "string \<Rightarrow> action \<Rightarrow> failure option" where
  "select_rejects policy action =
     reject_if (policy \<noteq> ''full'')
       (NewFailure ErrorActionRejected ''Phase 1 does not allow select controls'' False)
     (or_else (requireOnly action [F_value])
     (reject_if (act_Value action = [] \<or> 2048 < length (act_Value action))
       (NewFailure ErrorProtocolInvalid ''select value is empty or too large'' False)
       None))"

definition wait_rejects :: "action \<Rightarrow> failure option" where
  "wait_rejects action =
     or_else (requireOnly action [F_duration_ms])
     (reject_if (case act_DurationMS action of None \<Rightarrow> True | Some d \<Rightarrow> sint d < 1 \<or> 5000 < sint d)
       (NewFailure ErrorProtocolInvalid ''wait duration must be between 1 and 5000 milliseconds'' False)
       None)"

definition plain_rejects :: "action \<Rightarrow> failure option" where
  "plain_rejects action =
     (if act_Kind action = ActionPreflight \<and> act_BackendMode action \<noteq> [] then
        reject_if (act_BackendMode action \<noteq> ''auto''
            \<and> act_BackendMode action \<noteq> ''openlinker-native-chrome''
            \<and> act_BackendMode action \<noteq> ''official-chrome''
            \<and> act_BackendMode action \<noteq> ''isolated'')
          (NewFailure ErrorProtocolInvalid ''browser backend mode is invalid'' False)
          (requireOnly action [F_backend_mode])
      else requireOnly action [])"

definition nested_rejects :: "string \<Rightarrow> action \<Rightarrow> failure option" where
  "nested_rejects policy nested =
     reject_if (act_Observation nested \<noteq> ObservationDefault)
       (NewFailure ErrorProtocolInvalid ''browser batch controls the final observation'' False)
     (reject_if (act_Kind nested = ActionBatch \<or> act_Kind nested = ActionClose
         \<or> act_Kind nested = ActionCheckpoint \<or> act_Kind nested = ActionPreflight)
       (NewFailure ErrorProtocolInvalid ''browser batch contains a disallowed action'' False)
     (reject_if (policy \<noteq> ''full'' \<and> act_Kind nested \<noteq> ActionScroll
         \<and> act_Kind nested \<noteq> ActionWait \<and> act_Kind nested \<noteq> ActionScreenshot)
       (NewFailure ErrorProtocolInvalid ''browser batch contains a disallowed action'' False)
       None))"

text \<open>
  \<^verbatim>\<open>ValidateForPolicy\<close> calls itself on the actions of a batch; an accepted nested action is
  never a batch, so the recursion of the source is at most two deep.
\<close>

function ValidateForPolicy :: "externals \<Rightarrow> string \<Rightarrow> action \<Rightarrow> failure option" where
  "ValidateForPolicy ext policy action =
     or_else (ObservationMode_Validate (act_Observation action))
     (case act_Kind action of
        ActionNavigate \<Rightarrow>
          or_else (requireOnly action [F_url]) (validateNavigateURL ext (act_URL action))
      | ActionClick \<Rightarrow>
          or_else (requireOnly action [F_x, F_y])
            (validateCoordinates (act_X action) (act_Y action))
      | ActionTypeNonSecret \<Rightarrow>
          or_else (requireOnly action [F_text])
          (reject_if (act_Text action = [] \<or> 16384 < length (act_Text action))
            (NewFailure ErrorProtocolInvalid ''type_non_secret text is empty or too large'' False)
            None)
      | ActionScroll \<Rightarrow> scroll_rejects action
      | ActionKeypress \<Rightarrow> keypress_rejects policy action
      | ActionSelect \<Rightarrow> select_rejects policy action
      | ActionWait \<Rightarrow> wait_rejects action
      | ActionBatch \<Rightarrow>
          or_else (requireOnly action [F_actions])
          (reject_if (length (act_Actions action) < 2 \<or> 8 < length (act_Actions action))
            (NewFailure ErrorProtocolInvalid ''browser batch requires two to eight actions'' False)
            (first_reject (\<lambda>nested.
               or_else (nested_rejects policy nested) (ValidateForPolicy ext policy nested))
             (act_Actions action)))
      | ActionOther _ \<Rightarrow>
          Some (NewFailure ErrorProtocolInvalid ''browser action is not allowed'' False)
      | _ \<Rightarrow> plain_rejects action)"
  by pat_completeness auto

lemma nested_action_smaller: "x \<in> set (act_Actions a) \<Longrightarrow> size x < size a"
  by (cases a) (auto simp: less_Suc_eq_le trans_le_add2 size_list_estimation')

termination ValidateForPolicy
  by (relation "measure (\<lambda>(ext, policy, action). size action)") (auto simp: nested_action_smaller)

declare ValidateForPolicy.simps [simp del]

definition Action_Validate :: "externals \<Rightarrow> action \<Rightarrow> failure option" where
  "Action_Validate ext action = ValidateForPolicy ext ''restricted'' action"

end
