(* ===== verification/Validation.thy ===== *)
theory Validation
  imports Origins Actions
begin

text \<open>
  \<^verbatim>\<open>browserprotocol/validation.go\<close>: requests, identities, observations and failures, checked
  by the sender and again by the receiver.
\<close>

section \<open>Identities\<close>

definition identity_labels :: "identity \<Rightarrow> (string \<times> string) list" where
  "identity_labels i =
     [(''run_id'', id_RunID i), (''agent_id'', id_AgentID i),
      (''browser_session_id'', id_BrowserSessionID i), (''attachment_id'', id_AttachmentID i)]"

definition Identity_Validate :: "externals \<Rightarrow> identity \<Rightarrow> failure option" where
  "Identity_Validate ext i =
     or_else (first_reject (\<lambda>(label, value).
         reject_if (\<not> IsValidUUID value)
           (NewFailure ErrorProtocolInvalid (label @ '' must be a UUID'') False) None)
       (ext_map_order ext (identity_labels i)))
     (reject_if (\<not> validOpaqueID (id_PrincipalScopeID i) 256)
       (NewFailure ErrorProtocolInvalid ''principal_scope_id is invalid'' False)
     (reject_if (id_SessionEpoch i = 0)
       (NewFailure ErrorProtocolInvalid ''session_epoch must be positive'' False)
     (reject_if (id_ControlEpoch i = 0)
       (NewFailure ErrorProtocolInvalid ''control_epoch must be positive'' False)
     (reject_if (sint (id_BrowserInteractionPolicyGeneration i) < 1)
       (NewFailure ErrorProtocolInvalid ''browser_interaction_policy_generation must be positive'' False)
     (or_else (ValidateMutationOrigins ext (id_BrowserInteractionPolicy i)
         (id_BrowserMutationOrigins i) (id_BrowserMutationOriginsSHA256 i))
     (case id_Controller i of
        ControllerAgent \<Rightarrow> None | ControllerNone \<Rightarrow> None | ControllerHuman \<Rightarrow> None
      | ControllerOther _ \<Rightarrow>
          Some (NewFailure ErrorProtocolInvalid ''controller is invalid'' False)))))))"

definition origins_of :: "identity \<Rightarrow> string list" where
  "origins_of i = (case id_BrowserMutationOrigins i of Some os \<Rightarrow> os | None \<Rightarrow> [])"

definition sameStrings :: "string list \<Rightarrow> string list \<Rightarrow> bool" where
  "sameStrings left right =
     (if length left \<noteq> length right then False
      else list_all (\<lambda>i. left ! i = right ! i) [0..<length left])"

definition SameIdentity :: "identity \<Rightarrow> identity \<Rightarrow> bool" where
  "SameIdentity l r =
     (if id_RunID l \<noteq> id_RunID r \<or> id_AgentID l \<noteq> id_AgentID r
         \<or> id_PrincipalScopeID l \<noteq> id_PrincipalScopeID r
         \<or> id_BrowserSessionID l \<noteq> id_BrowserSessionID r
         \<or> id_SessionEpoch l \<noteq> id_SessionEpoch r
         \<or> id_AttachmentID l \<noteq> id_AttachmentID r
         \<or> id_ControlEpoch l \<noteq> id_ControlEpoch r
         \<or> id_Controller l \<noteq> id_Controller r
         \<or> id_BrowserInteractionPolicy l \<noteq> id_BrowserInteractionPolicy r
         \<or> id_BrowserInteractionPolicyGeneration l \<noteq> id_BrowserInteractionPolicyGeneration r
         \<or> id_BrowserMutationOriginsSHA256 l \<noteq> id_BrowserMutationOriginsSHA256 r
         \<or> length (origins_of l) \<noteq> length (origins_of r) then False
      else list_all (\<lambda>i. origins_of l ! i = origins_of r ! i) [0..<length (origins_of l)])"

section \<open>Requests\<close>

definition Request_Validate :: "externals \<Rightarrow> go_time \<Rightarrow> request \<Rightarrow> failure option" where
  "Request_Validate ext now r =
     reject_if (req_ContractID r \<noteq> ContractID)
       (NewFailure ErrorProtocolInvalid ''unsupported browser contract'' False)
     (reject_if (\<not> IsValidUUID (req_RequestID r))
       (NewFailure ErrorProtocolInvalid ''request_id must be a UUID'' False)
     (or_else (Identity_Validate ext (req_Identity r))
     (reject_if (req_Deadline r = 0 \<or> \<not> now < req_Deadline r)
       (NewFailure ErrorDeadlineExceeded ''browser action deadline has elapsed'' True)
     (reject_if (now + MaxActionDeadline < req_Deadline r)
       (NewFailure ErrorProtocolInvalid ''browser action deadline exceeds the allowed horizon'' False)
     (ValidateForPolicy ext (id_BrowserInteractionPolicy (req_Identity r)) (req_Action r))))))"

section \<open>Evidence\<close>

definition EnvironmentEvidence_Validate :: "environment_evidence \<Rightarrow> failure option" where
  "EnvironmentEvidence_Validate e =
     reject_if (env_BrowserEngine e \<noteq> ''chromium'' \<and> env_BrowserEngine e \<noteq> ''chrome'')
       (NewFailure ErrorOutputInvalid ''browser engine evidence is invalid'' False)
     (reject_if
       (if env_BrowserDistribution e = ''playwright_chromium'' then env_BrowserEngine e \<noteq> ''chromium''
        else if env_BrowserDistribution e = ''google_chrome''
             \<or> env_BrowserDistribution e = ''chrome_for_testing'' then env_BrowserEngine e \<noteq> ''chrome''
        else True)
       (NewFailure ErrorOutputInvalid ''browser distribution evidence is invalid'' False)
     (reject_if (sint (env_BrowserMajorVersion e) < 1 \<or> 1000 < sint (env_BrowserMajorVersion e))
       (NewFailure ErrorOutputInvalid ''browser version evidence is invalid'' False)
     (reject_if (\<not> validBrowserVersion (env_BrowserVersion e)
         \<or> Split (env_BrowserVersion e) (CHR ''.'') ! 0 \<noteq> FormatInt (env_BrowserMajorVersion e))
       (NewFailure ErrorOutputInvalid ''browser version evidence is invalid'' False)
     (reject_if (\<not> validLocaleEvidence (env_BrowserLocale e)
         \<or> \<not> validTimezoneEvidence (env_BrowserTimezone e)
         \<or> \<not> validOpaqueID (env_FontContractVersion e) 64
         \<or> \<not> validLowerHex (env_FontManifestSHA256 e) 64)
       (NewFailure ErrorOutputInvalid ''browser environment evidence is invalid'' False)
       None))))"

definition BackendSelectionEvidence_Validate :: "backend_selection_evidence \<Rightarrow> failure option" where
  "BackendSelectionEvidence_Validate e =
     reject_if (be_RequestedMode e \<noteq> ''auto'' \<and> be_RequestedMode e \<noteq> ''openlinker-native-chrome''
         \<and> be_RequestedMode e \<noteq> ''official-chrome'' \<and> be_RequestedMode e \<noteq> ''isolated'')
       (NewFailure ErrorOutputInvalid ''browser backend request evidence is invalid'' False)
     (reject_if (be_SelectedBackend e \<noteq> ''official_chrome_extension''
         \<and> be_SelectedBackend e \<noteq> ''isolated_chromium'')
       (NewFailure ErrorOutputInvalid ''browser backend selection evidence is invalid'' False)
     (reject_if (((be_RequestedMode e = ''openlinker-native-chrome'' \<or> be_RequestedMode e = ''official-chrome'')
           \<and> be_SelectedBackend e \<noteq> ''official_chrome_extension'')
         \<or> (be_RequestedMode e = ''isolated'' \<and> be_SelectedBackend e \<noteq> ''isolated_chromium''))
       (NewFailure ErrorOutputInvalid ''strict browser backend selection evidence is invalid'' False)
     (reject_if (be_FallbackReason e \<noteq> [] \<and> (be_RequestedMode e \<noteq> ''auto''
           \<or> be_SelectedBackend e \<noteq> ''isolated_chromium''
           \<or> \<not> validBackendFallbackReason (be_FallbackReason e)))
       (NewFailure ErrorOutputInvalid ''browser backend fallback evidence is invalid'' False)
     (if be_SelectedBackend e = ''isolated_chromium'' then
        reject_if (be_AssetManifestSHA256 e \<noteq> [] \<or> be_ExtensionID e \<noteq> []
            \<or> be_ExtensionVersion e \<noteq> [] \<or> be_NativeHostProtocol e \<noteq> []
            \<or> be_ProfileGeneration e \<noteq> 0 \<or> be_SessionRecovered e)
          (NewFailure ErrorOutputInvalid ''isolated backend contains native Chrome evidence'' False)
          None
      else
        reject_if (\<not> validLowerHex (be_AssetManifestSHA256 e) 64
            \<or> \<not> validChromeExtensionID (be_ExtensionID e)
            \<or> \<not> validBrowserVersion (be_ExtensionVersion e)
            \<or> \<not> validOpaqueID (be_NativeHostProtocol e) 64
            \<or> be_ProfileGeneration e = 0)
          (NewFailure ErrorOutputInvalid ''official Chrome backend evidence is invalid'' False)
          None))))"

section \<open>Observations\<close>

definition ChallengeClassifierRulesVersion :: string where
  "ChallengeClassifierRulesVersion = ''openlinker.browser.challenge-rules.v1''"

definition raw_rejects :: "externals \<Rightarrow> string \<times> bytes \<Rightarrow> failure option" where
  "raw_rejects ext = (\<lambda>(label, raw).
     if length raw = 0 then None
     else let limit = (if label = ''dom_diff'' then MaxDOMDiffBytes else MaxAXTreeBytes) in
       reject_if (limit < length raw)
         (NewFailure ErrorOutputTooLarge (label @ '' exceeds the output limit'') False)
       (reject_if (\<not> ext_json_valid ext raw)
         (NewFailure ErrorOutputInvalid (label @ '' is not valid JSON'') False)
         None))"

definition screenshot_rejects :: "screenshot option \<Rightarrow> failure option" where
  "screenshot_rejects ss =
     (case ss of None \<Rightarrow> None
      | Some s \<Rightarrow>
          reject_if (ss_MIMEType s \<noteq> ''image/png'' \<and> ss_MIMEType s \<noteq> ''image/jpeg'')
            (NewFailure ErrorOutputInvalid ''screenshot MIME type is not allowed'' False)
          (reject_if (length (ss_Data s) = 0 \<or> MaxScreenshotBytes < length (ss_Data s))
            (NewFailure ErrorOutputTooLarge ''screenshot exceeds the output limit'' False)
          (reject_if (sint (ss_Width s) \<le> 0 \<or> sint (ss_Height s) \<le> 0)
            (NewFailure ErrorOutputInvalid ''screenshot dimensions are invalid'' False)
            None)))"

definition validateCommon :: "externals \<Rightarrow> observation \<Rightarrow> failure option" where
  "validateCommon ext obs =
     reject_if (obs_PageStateID obs = [] \<or> 256 < length (obs_PageStateID obs))
       (NewFailure ErrorOutputInvalid ''page_state_id is empty or too large'' False)
     (or_else (screenshot_rejects (obs_Screenshot obs))
     (or_else (first_reject (raw_rejects ext)
         (ext_map_order ext [(''ax_tree'', obs_AXTree obs), (''dom_diff'', obs_DOMDiff obs)]))
     (reject_if (512 < length (obs_Origin obs) \<or> 2048 < length (obs_Title obs))
       (NewFailure ErrorOutputTooLarge ''page metadata exceeds the output limit'' False)
       None)))"

definition viewport_sized :: "go_int \<Rightarrow> go_int \<Rightarrow> bool" where
  "viewport_sized w h \<longleftrightarrow> sint w = ViewportWidth \<and> sint h = ViewportHeight"

definition click_effect_ok :: "click_effect \<Rightarrow> target_category \<Rightarrow> bool" where
  "click_effect_ok effect category \<longleftrightarrow>
     (effect = ClickEffectNone \<and> category = TargetCategoryEmpty)
     \<or> (effect = ClickEffectActivated
         \<and> (category = TargetCategoryLink \<or> category = TargetCategoryButton
            \<or> category = TargetCategoryCustom \<or> category = TargetCategoryOther))
     \<or> (effect = ClickEffectFocused \<and> category = TargetCategoryTextInput)"

definition ValidateEngine :: "externals \<Rightarrow> observation \<Rightarrow> failure option" where
  "ValidateEngine ext obs =
     or_else (validateCommon ext obs)
     (reject_if (case obs_Viewport obs of None \<Rightarrow> True
         | Some v \<Rightarrow> \<not> viewport_sized (vp_Width v) (vp_Height v))
       (NewFailure ErrorOutputInvalid ''browser viewport is invalid'' False)
     (reject_if (obs_NavigationGeneration obs = 0)
       (NewFailure ErrorOutputInvalid ''navigation_generation must be positive'' False)
     (reject_if (case obs_Screenshot obs of None \<Rightarrow> False
         | Some s \<Rightarrow> \<not> viewport_sized (ss_Width s) (ss_Height s))
       (NewFailure ErrorOutputInvalid ''screenshot dimensions are invalid'' False)
     (reject_if (\<not> click_effect_ok (obs_ClickEffect obs) (obs_TargetCategory obs))
       (NewFailure ErrorOutputInvalid ''browser click effect is invalid'' False)
     (or_else (case obs_Environment obs of None \<Rightarrow> None | Some e \<Rightarrow> EnvironmentEvidence_Validate e)
     (or_else (case obs_BackendSelection obs of None \<Rightarrow> None
         | Some e \<Rightarrow> BackendSelectionEvidence_Validate e)
     (reject_if (sint (obs_BlockedMutationRequests obs) < 0 \<or> 1024 < sint (obs_BlockedMutationRequests obs))
       (NewFailure ErrorOutputInvalid ''blocked mutation request count is invalid'' False)
     (reject_if (sint (obs_MutationRequestsObserved obs) < 0 \<or> 32 < sint (obs_MutationRequestsObserved obs))
       (NewFailure ErrorOutputInvalid ''observed mutation request count is invalid'' False)
     (reject_if
       (if obs_SiteOutcome obs = None
        then obs_ClassifierRulesVersion obs \<noteq> [] \<or> obs_ChallengeReleaseUnavailable obs
        else obs_SiteOutcome obs \<noteq> Some ErrorChallengeSuspected
          \<or> obs_ClassifierRulesVersion obs \<noteq> ChallengeClassifierRulesVersion
          \<or> \<not> obs_ChallengeReleaseUnavailable obs)
       (NewFailure ErrorOutputInvalid ''browser observation site evidence is invalid'' False)
       None)))))))))"

definition ValidateClosed :: "observation \<Rightarrow> failure option" where
  "ValidateClosed obs =
     reject_if (obs_PageStateID obs = [] \<or> 256 < length (obs_PageStateID obs)
         \<or> \<not> HasPrefix (obs_PageStateID obs) ''closed-'')
       (NewFailure ErrorOutputInvalid ''closed page_state_id is invalid'' False)
     (reject_if (obs_Viewport obs \<noteq> None \<or> obs_NavigationGeneration obs \<noteq> 0
         \<or> obs_Screenshot obs \<noteq> None \<or> length (obs_AXTree obs) \<noteq> 0 \<or> length (obs_DOMDiff obs) \<noteq> 0
         \<or> obs_AXTreeTimedOut obs \<or> obs_DOMDiffTimedOut obs \<or> obs_Origin obs \<noteq> []
         \<or> obs_Title obs \<noteq> [] \<or> obs_ClickEffect obs \<noteq> ClickEffectNone
         \<or> obs_TargetCategory obs \<noteq> TargetCategoryEmpty \<or> obs_Environment obs \<noteq> None
         \<or> obs_BackendSelection obs \<noteq> None \<or> obs_SiteOutcome obs \<noteq> None
         \<or> obs_ClassifierRulesVersion obs \<noteq> [] \<or> obs_ChallengeReleaseUnavailable obs
         \<or> obs_BlockedMutationRequests obs \<noteq> 0 \<or> obs_MutationRequestsObserved obs \<noteq> 0)
       (NewFailure ErrorOutputInvalid ''closed observation contains Engine fields'' False)
       None)"

section \<open>Failures\<close>

definition outside :: "go_int option \<Rightarrow> int \<Rightarrow> int \<Rightarrow> bool" where
  "outside v low high \<longleftrightarrow> (case v of None \<Rightarrow> False | Some x \<Rightarrow> sint x < low \<or> high < sint x)"

definition validateSiteFailureEvidence :: "failure \<Rightarrow> failure option" where
  "validateSiteFailureEvidence f =
     (case fl_SiteOutcome f of
        None \<Rightarrow>
          reject_if (fl_RetryAfterMS f \<noteq> None \<or> fl_ClassifierRulesVersion f \<noteq> []
              \<or> fl_ConsecutiveAccessDenials f \<noteq> None \<or> fl_OriginBlockedForAttachment f)
            (NewFailure ErrorOutputInvalid ''browser site evidence has no outcome'' False)
            None
      | Some outcome \<Rightarrow>
          reject_if (\<not> (outcome = ErrorAccessDenied \<or> outcome = ErrorRateLimited
              \<or> outcome = ErrorChallengeSuspected \<or> outcome = ErrorChallengeRequired
              \<or> outcome = ErrorOriginRateLimited))
            (NewFailure ErrorOutputInvalid ''browser site outcome is invalid'' False)
          (reject_if (fl_Code f \<noteq> outcome)
            (NewFailure ErrorOutputInvalid ''browser site outcome does not match the failure'' False)
          (reject_if ((outcome = ErrorChallengeSuspected \<or> outcome = ErrorChallengeRequired)
              \<noteq> (fl_ClassifierRulesVersion f \<noteq> []))
            (NewFailure ErrorOutputInvalid ''browser classifier version evidence is invalid'' False)
          (reject_if (fl_ClassifierRulesVersion f \<noteq> []
              \<and> fl_ClassifierRulesVersion f \<noteq> ChallengeClassifierRulesVersion)
            (NewFailure ErrorOutputInvalid ''browser classifier version is unsupported'' False)
          (reject_if (fl_RetryAfterMS f \<noteq> None \<and> (outside (fl_RetryAfterMS f) 1 (15 * 60 * 1000)
              \<or> (outcome \<noteq> ErrorRateLimited \<and> outcome \<noteq> ErrorOriginRateLimited)))
            (NewFailure ErrorOutputInvalid ''browser retry-after evidence is invalid'' False)
          (reject_if (fl_ConsecutiveAccessDenials f \<noteq> None
              \<and> (outcome \<noteq> ErrorAccessDenied \<or> outside (fl_ConsecutiveAccessDenials f) 1 3))
            (NewFailure ErrorOutputInvalid ''browser access-denial evidence is invalid'' False)
          (reject_if (fl_OriginBlockedForAttachment f \<and> fl_ConsecutiveAccessDenials f \<noteq> Some 3)
            (NewFailure ErrorOutputInvalid ''browser origin-block evidence is invalid'' False)
            None)))))))"

definition hasMutationEvidence :: "failure \<Rightarrow> bool" where
  "hasMutationEvidence f \<longleftrightarrow>
     fl_RetrySameAction f \<noteq> None \<or> fl_AttachmentUsable f \<noteq> None
     \<or> fl_FreshObservationRequired f \<noteq> None \<or> fl_MutationOutcomeReason f \<noteq> []
     \<or> fl_AttemptedUnits f \<noteq> None \<or> fl_UndispatchedUnits f \<noteq> None
     \<or> fl_ObservedOrigin f \<noteq> [] \<or> fl_BrowserMutationOrigins f \<noteq> None"

definition origin_blocked_rejects :: "externals \<Rightarrow> failure \<Rightarrow> failure option" where
  "origin_blocked_rejects ext f =
     reject_if (fl_Recoverable f \<or> fl_RetrySameAction f \<noteq> Some False
         \<or> fl_AttachmentUsable f \<noteq> Some True \<or> fl_FreshObservationRequired f = None
         \<or> fl_MutationOutcomeReason f \<noteq> [] \<or> fl_AttemptedUnits f \<noteq> None
         \<or> fl_UndispatchedUnits f \<noteq> None \<or> fl_BrowserMutationOrigins f = None)
       (NewFailure ErrorOutputInvalid ''browser mutation-origin evidence is invalid'' False)
     (reject_if (fl_ObservedOrigin f \<noteq> []
         \<and> canonicalMutationOrigin ext (fl_ObservedOrigin f) \<noteq> Some (fl_ObservedOrigin f))
       (NewFailure ErrorOutputInvalid ''browser observed mutation origin is invalid'' False)
     (case CanonicalMutationOrigins ext ''full'' (fl_BrowserMutationOrigins f) of
        Inl _ \<Rightarrow> Some (NewFailure ErrorOutputInvalid ''browser mutation-origin evidence is invalid'' False)
      | Inr (canonical, _) \<Rightarrow>
          (let given = (case fl_BrowserMutationOrigins f of Some os \<Rightarrow> os | None \<Rightarrow> []) in
           reject_if (length canonical \<noteq> length given)
             (NewFailure ErrorOutputInvalid ''browser mutation-origin evidence is invalid'' False)
           (reject_if (list_ex (\<lambda>i. canonical ! i \<noteq> given ! i) [0..<length canonical])
             (NewFailure ErrorOutputInvalid ''browser mutation-origin evidence is invalid'' False)
             None))))"

definition outcome_unknown_rejects :: "failure \<Rightarrow> failure option" where
  "outcome_unknown_rejects f =
     reject_if (fl_Recoverable f \<or> fl_RetrySameAction f \<noteq> Some False
         \<or> fl_AttachmentUsable f = None \<or> fl_FreshObservationRequired f = None
         \<or> fl_MutationOutcomeReason f = [] \<or> \<not> validOpaqueID (fl_MutationOutcomeReason f) 96
         \<or> fl_ObservedOrigin f \<noteq> [] \<or> fl_BrowserMutationOrigins f \<noteq> None)
       (NewFailure ErrorOutputInvalid ''browser mutation uncertainty evidence is invalid'' False)
     (reject_if (fl_AttachmentUsable f \<noteq> fl_FreshObservationRequired f)
       (NewFailure ErrorOutputInvalid ''browser mutation uncertainty recovery is invalid'' False)
     (reject_if ((fl_AttemptedUnits f = None) \<noteq> (fl_UndispatchedUnits f = None))
       (NewFailure ErrorOutputInvalid ''browser text-entry uncertainty evidence is invalid'' False)
     (reject_if (outside (fl_AttemptedUnits f) 0 2048 \<or> outside (fl_UndispatchedUnits f) 0 2048)
       (NewFailure ErrorOutputInvalid ''browser text-entry uncertainty evidence is invalid'' False)
       None)))"

definition validateMutationFailureEvidence :: "externals \<Rightarrow> failure \<Rightarrow> failure option" where
  "validateMutationFailureEvidence ext f =
     (case fl_Code f of
        ErrorMutationOriginBlocked \<Rightarrow> origin_blocked_rejects ext f
      | ErrorMutationOutcomeUnknown \<Rightarrow> outcome_unknown_rejects f
      | _ \<Rightarrow> reject_if (hasMutationEvidence f)
          (NewFailure ErrorOutputInvalid ''browser failure contains unexpected mutation evidence'' False)
          None)"

definition hasClickContext :: "failure \<Rightarrow> bool" where
  "hasClickContext f \<longleftrightarrow>
     fl_TargetCategory f \<noteq> TargetCategoryEmpty \<or> fl_PageStateID f \<noteq> []
     \<or> fl_NavigationGeneration f \<noteq> 0
     \<or> fl_BlockedClickNavigationAttemptsRemaining f \<noteq> None
     \<or> fl_BlockedClickRunAttemptsRemaining f \<noteq> None"

definition click_context_rejects :: "failure \<Rightarrow> failure option" where
  "click_context_rejects f =
     (case fl_Code f of
        ErrorHighImpactActionBlocked \<Rightarrow>
          reject_if (\<not> validTargetCategory (fl_TargetCategory f) \<or> fl_PageStateID f = []
              \<or> 256 < length (fl_PageStateID f) \<or> fl_NavigationGeneration f = 0)
            (NewFailure ErrorOutputInvalid ''browser blocked-click evidence is invalid'' False)
            None
      | ErrorClickRetryExhausted \<Rightarrow>
          reject_if (\<not> validTargetCategory (fl_TargetCategory f) \<or> fl_PageStateID f = []
              \<or> 256 < length (fl_PageStateID f) \<or> fl_NavigationGeneration f = 0
              \<or> fl_BlockedClickNavigationAttemptsRemaining f = None
              \<or> fl_BlockedClickRunAttemptsRemaining f = None)
            (NewFailure ErrorOutputInvalid ''browser click retry evidence is invalid'' False)
            None
      | _ \<Rightarrow> reject_if (hasClickContext f)
          (NewFailure ErrorOutputInvalid ''browser failure contains unexpected click evidence'' False)
          None)"

definition known_code :: "error_code \<Rightarrow> bool" where
  "known_code c = (case c of ErrorOther _ \<Rightarrow> False | _ \<Rightarrow> True)"

definition ValidateFailure :: "externals \<Rightarrow> failure option \<Rightarrow> failure option" where
  "ValidateFailure ext p =
     (case p of
        None \<Rightarrow> Some (NewFailure ErrorOutputInvalid ''browser failure is missing'' False)
      | Some f \<Rightarrow>
          reject_if (\<not> known_code (fl_Code f))
            (NewFailure ErrorOutputInvalid ''browser failure code is invalid'' False)
          (reject_if (fl_Message f = [] \<or> TrimSpace (fl_Message f) \<noteq> fl_Message f
              \<or> 500 < length (fl_Message f))
            (NewFailure ErrorOutputInvalid ''browser failure message is invalid'' False)
          (reject_if (outside (fl_ActionIndex f) 0 7)
            (NewFailure ErrorOutputInvalid ''browser failure action index is invalid'' False)
          (reject_if (fl_CompletedActions f \<noteq> None \<and> (outside (fl_CompletedActions f) 0 8
              \<or> fl_ActionIndex f = None \<or> fl_CompletedActions f \<noteq> fl_ActionIndex f))
            (NewFailure ErrorOutputInvalid ''browser batch completion evidence is invalid'' False)
          (reject_if (sint (fl_MutationRequestsObserved f) < 0 \<or> 32 < sint (fl_MutationRequestsObserved f))
            (NewFailure ErrorOutputInvalid ''observed mutation request count is invalid'' False)
          (or_else (click_context_rejects f)
          (reject_if (outside (fl_BlockedClickNavigationAttemptsRemaining f) 0 3)
            (NewFailure ErrorOutputInvalid ''browser navigation click retry budget is invalid'' False)
          (reject_if (outside (fl_BlockedClickRunAttemptsRemaining f) 0 12)
            (NewFailure ErrorOutputInvalid ''browser Run click retry budget is invalid'' False)
          (or_else (validateSiteFailureEvidence f)
          (or_else (validateMutationFailureEvidence ext f)
          (reject_if (fl_HumanControlAvailable f \<and> fl_Code f \<noteq> ErrorUserActionRequired
              \<and> fl_Code f \<noteq> ErrorChallengeRequired \<and> fl_Code f \<noteq> ErrorViewerUnavailable)
            (NewFailure ErrorOutputInvalid ''browser failure contains unexpected human-control availability'' False)
            None)))))))))))"

end
