(* ===== verification/FailureFacts.thy ===== *)
theory FailureFacts
  imports Validation
begin

text \<open>
  Facts about failures that the whole development shares: which failures are well formed on
  the wire, and that every failure the protocol's own checks build is well formed.
\<close>

section \<open>Messages\<close>

definition graphic :: "char \<Rightarrow> bool" where
  "graphic c \<longleftrightarrow> 33 \<le> code_of c \<and> code_of c \<le> 126"

definition good_message :: "string \<Rightarrow> bool" where
  "good_message m \<longleftrightarrow> m \<noteq> [] \<and> length m \<le> 500 \<and> graphic (hd m) \<and> graphic (last m)"

lemma space_runes_ends: "r \<in> set space_runes \<Longrightarrow> r \<noteq> [] \<and> \<not> graphic (hd r) \<and> \<not> graphic (last r)"
  by (auto simp: space_runes_def graphic_def)

lemma trim_runes_graphic:
  assumes "s \<noteq> []" "graphic (hd s)" "\<forall>r \<in> set rs. r \<noteq> [] \<and> \<not> graphic (hd r)"
  shows "trim_runes n rs s = s"
proof -
  have "\<not> HasPrefix s r" if "r \<in> set rs" for r
  proof
    assume p: "HasPrefix s r"
    from that assms(3) have r: "r \<noteq> []" "\<not> graphic (hd r)" by auto
    from p r have "hd r = hd s"
      by (metis HasPrefix_def hd_take length_greater_0_conv)
    with r assms(2) show False by simp
  qed
  then have "find (\<lambda>r. HasPrefix s r) rs = None" by (simp add: find_None_iff)
  then show ?thesis by (cases n) simp_all
qed

lemma TrimSpace_graphic:
  assumes "s \<noteq> []" "graphic (hd s)" "graphic (last s)"
  shows "TrimSpace s = s"
proof -
  have l: "TrimLeftSpace s = s"
    using assms space_runes_ends by (simp add: TrimLeftSpace_def trim_runes_graphic)
  have "\<forall>r \<in> set (map rev space_runes). r \<noteq> [] \<and> \<not> graphic (hd r)"
    using space_runes_ends by (auto simp: hd_rev)
  with assms have "TrimRightSpace s = s"
    by (simp add: TrimRightSpace_def trim_runes_graphic hd_rev)
  with l show ?thesis by (simp add: TrimSpace_def)
qed

lemma good_message_fixed:
  assumes "good_message m"
  shows "TrimSpace m = m" "boundedString m 500 = m"
  using assms by (simp_all add: good_message_def TrimSpace_graphic boundedString_def)

lemma NewFailure_message: "good_message m \<Longrightarrow> fl_Message (NewFailure c m r) = m"
  by (simp add: NewFailure_def good_message_fixed)

lemma good_message_append:
  "m \<noteq> [] \<Longrightarrow> graphic (hd m) \<Longrightarrow> k \<noteq> [] \<Longrightarrow> graphic (last k) \<Longrightarrow> length m + length k \<le> 500
   \<Longrightarrow> good_message (m @ k)"
  by (simp add: good_message_def)

section \<open>Well-formed failures\<close>

abbreviation wf_failure :: "externals \<Rightarrow> failure \<Rightarrow> bool" where
  "wf_failure ext f \<equiv> ValidateFailure ext (Some f) = None"

text \<open>A code without evidence of its own.\<close>

definition plain_code :: "error_code \<Rightarrow> bool" where
  "plain_code c \<longleftrightarrow> known_code c \<and> c \<notin> {ErrorHighImpactActionBlocked, ErrorClickRetryExhausted,
     ErrorMutationOriginBlocked, ErrorMutationOutcomeUnknown}"

lemma plain_NewFailure_wf [intro]:
  assumes "plain_code c" "good_message m"
  shows "wf_failure ext (NewFailure c m r)"
proof -
  have "m \<noteq> []" "length m \<le> 500" using assms(2) by (simp_all add: good_message_def)
  then show ?thesis
    using assms
    by (cases c) (simp_all add: ValidateFailure_def plain_code_def known_code_def NewFailure_message
        good_message_fixed outside_def click_context_rejects_def hasClickContext_def
        validateSiteFailureEvidence_def validateMutationFailureEvidence_def hasMutationEvidence_def)
qed

text \<open>
  The failures that the checks build: a plain code and a literal message. \<open>own_failure\<close> is
  what the rules below establish along the early returns.
\<close>

definition own_failure :: "failure \<Rightarrow> bool" where
  "own_failure f \<longleftrightarrow> (\<exists>c m r. f = NewFailure c m r \<and> plain_code c \<and> good_message m)"

lemma own_failureI [intro]: "plain_code c \<Longrightarrow> good_message m \<Longrightarrow> own_failure (NewFailure c m r)"
  by (auto simp: own_failure_def)

lemma own_failure_wf: "own_failure f \<Longrightarrow> wf_failure ext f"
  by (auto simp: own_failure_def)

named_theorems own "validators whose failures are well formed"

lemma plain_codes [simp]:
  "plain_code ErrorProtocolInvalid" "plain_code ErrorOutputInvalid" "plain_code ErrorOutputTooLarge"
  "plain_code ErrorRequestTooLarge" "plain_code ErrorUnauthorized" "plain_code ErrorDeadlineExceeded"
  "plain_code ErrorIdentityMismatch" "plain_code ErrorStaleControlEpoch"
  "plain_code ErrorRequestReplayed" "plain_code ErrorActionLimitExceeded"
  "plain_code ErrorCloseRetryExhausted" "plain_code ErrorRuntimeUnavailable"
  "plain_code ErrorActionRejected" "plain_code ErrorViewerUnavailable" "plain_code ErrorInternal"
  "plain_code ErrorCanceled"
  by (simp_all add: plain_code_def known_code_def)

lemma message_literals:
  "good_message (c # cs) \<longleftrightarrow> length cs < 500 \<and> graphic c \<and> graphic (last (c # cs))"
  by (auto simp: good_message_def)

lemmas message_eval = message_literals graphic_def

section \<open>Every rejection is a well-formed failure\<close>

text \<open>The two checks that look at the code, as conditionals.\<close>

lemma click_context_rejects_eq:
  "click_context_rejects f =
     (if fl_Code f = ErrorHighImpactActionBlocked then
        reject_if (\<not> validTargetCategory (fl_TargetCategory f) \<or> fl_PageStateID f = []
            \<or> 256 < length (fl_PageStateID f) \<or> fl_NavigationGeneration f = 0)
          (NewFailure ErrorOutputInvalid ''browser blocked-click evidence is invalid'' False) None
      else if fl_Code f = ErrorClickRetryExhausted then
        reject_if (\<not> validTargetCategory (fl_TargetCategory f) \<or> fl_PageStateID f = []
            \<or> 256 < length (fl_PageStateID f) \<or> fl_NavigationGeneration f = 0
            \<or> fl_BlockedClickNavigationAttemptsRemaining f = None
            \<or> fl_BlockedClickRunAttemptsRemaining f = None)
          (NewFailure ErrorOutputInvalid ''browser click retry evidence is invalid'' False) None
      else reject_if (hasClickContext f)
          (NewFailure ErrorOutputInvalid ''browser failure contains unexpected click evidence'' False)
          None)"
  by (cases "fl_Code f") (simp_all only: click_context_rejects_def error_code.simps if_True if_False simp_thms)

lemma validateMutationFailureEvidence_eq:
  "validateMutationFailureEvidence ext f =
     (if fl_Code f = ErrorMutationOriginBlocked then origin_blocked_rejects ext f
      else if fl_Code f = ErrorMutationOutcomeUnknown then outcome_unknown_rejects f
      else reject_if (hasMutationEvidence f)
        (NewFailure ErrorOutputInvalid ''browser failure contains unexpected mutation evidence'' False)
        None)"
  by (cases "fl_Code f")
    (simp_all only: validateMutationFailureEvidence_def error_code.simps if_True if_False simp_thms)

lemma own_ObservationMode [own]: "rejects own_failure (ObservationMode_Validate mode)"
  by (cases mode) (auto simp: ObservationMode_Validate_def message_eval)

lemma own_allowOnly [own]: "rejects own_failure (allowOnly a fs)"
  unfolding allowOnly_def by (intro rejects_reject_if) (auto simp: message_eval)

lemma own_requireOnly [own]: "rejects own_failure (requireOnly a fs)"
  unfolding requireOnly_def by (intro rejects_or_else own rejects_reject_if) (auto simp: message_eval)

lemma own_validateCoordinates [own]: "rejects own_failure (validateCoordinates x y)"
  unfolding validateCoordinates_def
  by (auto intro!: rejects_reject_if own_failureI simp: message_eval split: option.splits)

lemma own_navigate [own]: "rejects own_failure (validateNavigateURL ext raw)"
  unfolding validateNavigateURL_def Let_def
  by (auto intro!: rejects_reject_if own_failureI simp: message_eval split: option.splits)

lemma own_scroll [own]: "rejects own_failure (scroll_rejects a)"
  unfolding scroll_rejects_def Let_def
  by (intro rejects_or_else own rejects_reject_if) (auto simp: message_eval)

lemma own_keypress [own]: "rejects own_failure (keypress_rejects policy a)"
  unfolding keypress_rejects_def
  by (intro rejects_or_else own rejects_reject_if) (auto simp: message_eval)

lemma own_select [own]: "rejects own_failure (select_rejects policy a)"
  unfolding select_rejects_def
  by (intro rejects_or_else own rejects_reject_if) (auto simp: message_eval)

lemma own_wait [own]: "rejects own_failure (wait_rejects a)"
  unfolding wait_rejects_def
  by (intro rejects_or_else own rejects_reject_if) (auto simp: message_eval)

lemma own_plain [own]: "rejects own_failure (plain_rejects a)"
  unfolding plain_rejects_def
  by (intro rejects_if rejects_or_else own rejects_reject_if) (auto simp: message_eval)

lemma own_nested [own]: "rejects own_failure (nested_rejects policy a)"
  unfolding nested_rejects_def
  by (intro rejects_reject_if) (auto simp: message_eval)

lemma own_ValidateForPolicy [own]: "rejects own_failure (ValidateForPolicy ext policy action)"
proof (induction ext policy action rule: ValidateForPolicy.induct)
  case (1 ext policy action)
  have batch: "rejects own_failure (first_reject (\<lambda>nested.
      or_else (nested_rejects policy nested) (ValidateForPolicy ext policy nested))
      (act_Actions action))" if "act_Kind action = ActionBatch"
    using that 1 by (intro rejects_first_reject rejects_or_else own) auto
  show ?case
    by (subst ValidateForPolicy.simps, cases "act_Kind action")
      (auto intro!: rejects_or_else rejects_reject_if own batch own_failureI simp: message_eval)
qed

lemma own_origins [own]: "rejects own_failure (ValidateMutationOrigins ext policy os d)"
  by (auto simp: rejects_def invalidMutationOrigins_def message_eval intro!: own_failureI
      dest!: ValidateMutationOrigins_rejects)

lemma own_identity:
  assumes "visits_all ext"
  shows "rejects own_failure (Identity_Validate ext i)"
proof -
  have "rejects own_failure (first_reject (\<lambda>(label, value).
      reject_if (\<not> IsValidUUID value)
        (NewFailure ErrorProtocolInvalid (label @ '' must be a UUID'') False) None)
      (ext_map_order ext (identity_labels i)))"
  proof (rule rejects_first_reject, clarify)
    fix label v assume "(label, v) \<in> set (ext_map_order ext (identity_labels i))"
    then have "label \<in> {''run_id'', ''agent_id'', ''browser_session_id'', ''attachment_id''}"
      using visits_allD [OF assms] by (auto simp: identity_labels_def)
    then have "good_message (label @ '' must be a UUID'')"
      by (auto simp: message_eval)
    then show "rejects own_failure (reject_if (\<not> IsValidUUID v)
        (NewFailure ErrorProtocolInvalid (label @ '' must be a UUID'') False) None)"
      by (intro rejects_reject_if own_failureI) auto
  qed
  then show ?thesis
    unfolding Identity_Validate_def
    by (intro rejects_or_else own rejects_reject_if)
      (auto simp: message_eval intro!: own_failureI split: controller.splits)
qed

lemma own_request:
  "visits_all ext \<Longrightarrow> rejects own_failure (Request_Validate ext now r)"
  unfolding Request_Validate_def
  by (intro rejects_or_else own own_identity rejects_reject_if) (auto simp: message_eval)

lemma own_environment [own]: "rejects own_failure (EnvironmentEvidence_Validate e)"
  unfolding EnvironmentEvidence_Validate_def
  by (intro rejects_reject_if) (auto simp: message_eval)

lemma own_backend [own]: "rejects own_failure (BackendSelectionEvidence_Validate e)"
  unfolding BackendSelectionEvidence_Validate_def
  by (intro rejects_if rejects_reject_if) (auto simp: message_eval)

lemma own_screenshot [own]: "rejects own_failure (screenshot_rejects s)"
  unfolding screenshot_rejects_def
  by (auto intro!: rejects_reject_if own_failureI simp: message_eval split: option.splits)

lemma own_raw:
  assumes "label \<in> {''ax_tree'', ''dom_diff''}"
  shows "rejects own_failure (raw_rejects ext (label, raw))"
proof -
  have "good_message (label @ '' exceeds the output limit'')"
    using assms by (elim insertE emptyE) (simp_all add: message_eval)
  moreover have "good_message (label @ '' is not valid JSON'')"
    using assms by (elim insertE emptyE) (simp_all add: message_eval)
  ultimately show ?thesis
    unfolding raw_rejects_def Let_def prod.case
    by (intro rejects_if rejects_reject_if own_failureI) simp_all
qed

lemma own_common:
  assumes "visits_all ext"
  shows "rejects own_failure (validateCommon ext obs)"
proof -
  have "rejects own_failure (first_reject (raw_rejects ext)
      (ext_map_order ext [(''ax_tree'', obs_AXTree obs), (''dom_diff'', obs_DOMDiff obs)]))"
  proof (rule rejects_first_reject, clarify)
    fix label raw
    assume "(label, raw) \<in> set (ext_map_order ext [(''ax_tree'', obs_AXTree obs), (''dom_diff'', obs_DOMDiff obs)])"
    then have "label \<in> {''ax_tree'', ''dom_diff''}"
      using visits_allD [OF assms] by auto
    then show "rejects own_failure (raw_rejects ext (label, raw))" by (rule own_raw)
  qed
  then show ?thesis
    unfolding validateCommon_def
    by (intro rejects_or_else own rejects_reject_if) (auto simp: message_eval)
qed

lemma own_engine:
  "visits_all ext \<Longrightarrow> rejects own_failure (ValidateEngine ext obs)"
  unfolding ValidateEngine_def
  by (intro rejects_or_else own own_common rejects_reject_if)
    (auto simp: message_eval intro: own split: option.splits)

lemma own_closed [own]: "rejects own_failure (ValidateClosed obs)"
  unfolding ValidateClosed_def
  by (intro rejects_reject_if) (auto simp: message_eval)

lemma own_click_context [own]: "rejects own_failure (click_context_rejects f)"
  unfolding click_context_rejects_eq
  by (intro rejects_if rejects_reject_if) (auto simp: message_eval)

lemma own_site [own]: "rejects own_failure (validateSiteFailureEvidence f)"
  unfolding validateSiteFailureEvidence_def
  by (auto intro!: rejects_reject_if own_failureI simp: message_eval split: option.splits)

lemma own_origin_blocked [own]: "rejects own_failure (origin_blocked_rejects ext f)"
  unfolding origin_blocked_rejects_def Let_def
  by (auto intro!: rejects_reject_if own_failureI simp: message_eval split: sum.splits prod.splits)

lemma own_outcome_unknown [own]: "rejects own_failure (outcome_unknown_rejects f)"
  unfolding outcome_unknown_rejects_def
  by (intro rejects_reject_if) (auto simp: message_eval)

lemma own_mutation [own]: "rejects own_failure (validateMutationFailureEvidence ext f)"
  unfolding validateMutationFailureEvidence_eq
  by (intro rejects_if own rejects_reject_if) (auto simp: message_eval)

lemma own_ValidateFailure [own]: "rejects own_failure (ValidateFailure ext p)"
  unfolding ValidateFailure_def
  by (cases p) (auto intro!: rejects_reject_if rejects_or_else own own_failureI simp: message_eval)

end
