(* ===== verification/WireCodec.thy ===== *)
theory WireCodec
  imports ProtocolTypes
begin

text \<open>
  How the code reads a JSON value from bytes. \<^verbatim>\<open>encoding/json\<close> itself is a parameter: a codec
  maps the bytes that a \<^verbatim>\<open>json.Decoder\<close> can read to what its first and its second
  \<^verbatim>\<open>Decode\<close> return, how many bytes each had taken from the reader by then, and the value the
  first left in its target (which Go fills in part before an error). What the code builds from
  these results is modelled here: the strict readers and the readers behind a
  \<^verbatim>\<open>io.LimitedReader\<close>.
\<close>

datatype decode_status = DecodeOK | DecodeEOF | DecodeFailed

record 'a decoding =
  dec_value :: 'a
  dec_first :: decode_status
  dec_first_read :: nat
  dec_second :: decode_status
  dec_second_read :: nat

type_synonym 'a codec = "bytes \<Rightarrow> 'a decoding"

text \<open>
  What is documented of a \<^verbatim>\<open>json.Decoder\<close>: it takes no more bytes than there are, and it
  reports the end of the input only after it has taken all of them.
\<close>

definition reads_input :: "'a codec \<Rightarrow> bool" where
  "reads_input c \<longleftrightarrow>
     (\<forall>raw. dec_first_read (c raw) \<le> length raw \<and> dec_second_read (c raw) \<le> length raw
       \<and> (dec_first (c raw) = DecodeEOF \<longrightarrow> dec_first_read (c raw) = length raw)
       \<and> (dec_second (c raw) = DecodeEOF \<longrightarrow> dec_second_read (c raw) = length raw))"

lemma reads_inputD:
  assumes "reads_input c" "dec_second (c raw) = DecodeEOF"
  shows "dec_second_read (c raw) = length raw"
  using assms by (auto simp: reads_input_def)

text \<open>The strict decoders: one value and then the end of the input.\<close>

definition strict_decode :: "'a codec \<Rightarrow> bytes \<Rightarrow> 'a option" where
  "strict_decode c raw =
     (if dec_first (c raw) \<noteq> DecodeOK then None
      else if dec_second (c raw) \<noteq> DecodeEOF then None
      else Some (dec_value (c raw)))"

lemma strict_decode_Some:
  "strict_decode c raw = Some v \<longleftrightarrow>
     dec_first (c raw) = DecodeOK \<and> dec_second (c raw) = DecodeEOF \<and> v = dec_value (c raw)"
  by (auto simp: strict_decode_def)

text \<open>A codec for the witnesses: it knows one text and its value.\<close>

definition one_text_codec :: "bytes \<Rightarrow> 'a \<Rightarrow> 'a \<Rightarrow> 'a codec" where
  "one_text_codec text v zero raw =
     (if raw = text then
        \<lparr>dec_value = v, dec_first = DecodeOK, dec_first_read = length raw,
         dec_second = DecodeEOF, dec_second_read = length raw\<rparr>
      else
        \<lparr>dec_value = zero, dec_first = DecodeFailed, dec_first_read = length raw,
         dec_second = DecodeFailed, dec_second_read = length raw\<rparr>)"

lemma reads_input_one_text [simp]: "reads_input (one_text_codec text v zero)"
  by (simp add: reads_input_def one_text_codec_def)

text \<open>
  \<^verbatim>\<open>io.Writer\<close>: a write returns how many bytes it took and whether it failed. \<open>writeAllResponse\<close>
  retries until every byte is taken. The loop ends because each round either returns or drops
  at least one byte.
\<close>

datatype write_error = WriteFailed | ErrShortWrite

function writeAllResponse ::
    "('c \<Rightarrow> bytes \<Rightarrow> (int \<times> bool) \<times> 'c) \<Rightarrow> 'c \<Rightarrow> bytes \<Rightarrow> write_error option \<times> 'c" where
  "writeAllResponse write c bs =
     (if length bs > 0 then
        (case write c bs of ((written, err), c') \<Rightarrow>
          if written < 0 \<or> int (length bs) < written then (Some ErrShortWrite, c')
          else if err then (Some WriteFailed, c')
          else if written = 0 then (Some ErrShortWrite, c')
          else writeAllResponse write c' (drop (nat written) bs))
      else (None, c))"
  by pat_completeness auto
termination writeAllResponse
  by (relation "measure (\<lambda>(_, _, bs). length bs)") auto

declare writeAllResponse.simps [simp del]

text \<open>
  The contract of \<^verbatim>\<open>io.Writer\<close>: the reported count is between 0 and the length, and that many
  bytes of the value were appended to what the sink holds.
\<close>

definition truthful_writer ::
    "('c \<Rightarrow> bytes \<Rightarrow> (int \<times> bool) \<times> 'c) \<Rightarrow> ('c \<Rightarrow> bytes) \<Rightarrow> bool" where
  "truthful_writer write content \<longleftrightarrow>
     (\<forall>c bs written err c'. write c bs = ((written, err), c') \<longrightarrow>
        0 \<le> written \<and> written \<le> int (length bs)
        \<and> content c' = content c @ take (nat written) bs)"

lemma truthful_writerD:
  assumes "truthful_writer write content" "write c bs = ((written, err), c')"
  shows "0 \<le> written" "written \<le> int (length bs)" "content c' = content c @ take (nat written) bs"
  using assms by (auto simp: truthful_writer_def)

lemma writeAllResponse_prefix:
  assumes "truthful_writer write content" "writeAllResponse write c bs = (r, c')"
  shows "\<exists>n \<le> length bs. content c' = content c @ take n bs \<and> (r = None \<longrightarrow> n = length bs)"
  using assms(2)
proof (induction bs arbitrary: c rule: measure_induct_rule [of length])
  case (less x)
  show ?case
  proof (cases "x = []")
    case True
    with less.prems show ?thesis by (auto simp: writeAllResponse.simps [of "write" c])
  next
    case False
    obtain written err c1 where w: "write c x = ((written, err), c1)"
      by (metis prod.exhaust)
    note t = truthful_writerD [OF assms(1) w]
    show ?thesis
    proof (cases "err \<or> written = 0")
      case True
      with less.prems False t w have "r \<noteq> None" "c' = c1"
        by (auto simp: writeAllResponse.simps [of "write" c] split: if_splits)
      with t show ?thesis by (intro exI [of _ "nat written"]) auto
    next
      case f: False
      with less.prems False t w have rest: "writeAllResponse write c1 (drop (nat written) x) = (r, c')"
        by (auto simp: writeAllResponse.simps [of "write" c] split: if_splits)
      have "length (drop (nat written) x) < length x" using f t False by auto
      from less.IH [OF this rest] obtain n where n: "n \<le> length (drop (nat written) x)"
        "content c' = content c1 @ take n (drop (nat written) x)"
        "r = None \<longrightarrow> n = length (drop (nat written) x)" by auto
      have "take (nat written + n) x = take (nat written) x @ take n (drop (nat written) x)"
        by (simp add: take_add)
      with n t show ?thesis by (intro exI [of _ "nat written + n"]) auto
    qed
  qed
qed

text \<open>A sink for the witnesses: it takes at most three bytes at a time.\<close>

definition three_bytes :: "bytes \<Rightarrow> bytes \<Rightarrow> (int \<times> bool) \<times> bytes" where
  "three_bytes c value = ((int (length (take 3 value)), False), c @ take 3 value)"

lemma truthful_three_bytes: "truthful_writer three_bytes (\<lambda>c. c)"
  by (auto simp: truthful_writer_def three_bytes_def min_def)

end
