(* ===== verification/Viewer.thy ===== *)
theory Viewer
  imports Complex_Main Validation FailureFacts WireCodec
begin

text \<open>
  The human Viewer contract, \<^verbatim>\<open>browserprotocol/viewer.go\<close>: requests, inputs and frames and
  the checks on them.
\<close>

section \<open>Data\<close>

definition ViewerContractID :: string where
  "ViewerContractID = ''openlinker.browser.viewer.v1''"

datatype viewer_operation =
    ViewerOperationEnter | ViewerOperationExit | ViewerOperationFrame | ViewerOperationInput
  | ViewerOperationOther string

datatype viewer_input_kind =
    ViewerInputPointer | ViewerInputKeyboard | ViewerInputScroll | ViewerInputKindOther string

text \<open>The empty string is the absent action.\<close>

datatype viewer_pointer_action =
    ViewerPointerAbsent | ViewerPointerMove | ViewerPointerClick | ViewerPointerOther string

datatype viewer_keyboard_action =
    ViewerKeyboardAbsent | ViewerKeyboardPress | ViewerKeyboardText | ViewerKeyboardOther string

text \<open>
  A \<^verbatim>\<open>float64\<close>: every finite one is a rational number (both zeros are \<open>Finite 0\<close>, which no
  comparison below tells apart). Comparisons with NaN are false, so \<open>x \<noteq> 0\<close> is true of it.
\<close>

datatype float64 = Finite rat | PlusInf | MinusInf | NaN

definition IsNaN :: "float64 \<Rightarrow> bool" where
  "IsNaN x \<longleftrightarrow> x = NaN"

definition IsInf :: "float64 \<Rightarrow> bool" where
  "IsInf x \<longleftrightarrow> x = PlusInf \<or> x = MinusInf"

definition float_is_zero :: "float64 \<Rightarrow> bool" where
  "float_is_zero x \<longleftrightarrow> x = Finite 0"

definition abs_exceeds :: "float64 \<Rightarrow> int \<Rightarrow> bool" where
  "abs_exceeds x limit =
     (case x of Finite r \<Rightarrow> rat_of_int limit < \<bar>r\<bar> | PlusInf \<Rightarrow> True | MinusInf \<Rightarrow> True | NaN \<Rightarrow> False)"

record viewer_input =
  vi_Kind :: viewer_input_kind
  vi_PointerAction :: viewer_pointer_action
  vi_KeyboardAction :: viewer_keyboard_action
  vi_X :: "go_int option"
  vi_Y :: "go_int option"
  vi_Button :: string
  vi_ClickCount :: go_int
  vi_Key :: string
  vi_Text :: string
  vi_DeltaX :: float64
  vi_DeltaY :: float64

record viewer_request =
  vr_ContractID :: string
  vr_ChannelCredential :: string
  vr_RequestID :: string
  vr_Deadline :: go_time
  vr_Identity :: identity
  vr_Operation :: viewer_operation
  vr_Input :: "viewer_input option"

record viewer_frame =
  vf_MIMEType :: string
  vf_Data :: bytes
  vf_Width :: go_int
  vf_Height :: go_int

record viewer_response =
  vresp_ContractID :: string
  vresp_RequestID :: string
  vresp_Status :: string
  vresp_Frame :: "viewer_frame option"
  vresp_Error :: "failure option"

section \<open>Checks\<close>

definition coordinate_outside :: "go_int option \<Rightarrow> int \<Rightarrow> bool" where
  "coordinate_outside p limit = (case p of None \<Rightarrow> True | Some v \<Rightarrow> sint v < 0 \<or> limit \<le> sint v)"

definition validatePointer :: "viewer_input \<Rightarrow> failure option" where
  "validatePointer i =
     reject_if (coordinate_outside (vi_X i) ViewportWidth \<or> coordinate_outside (vi_Y i) ViewportHeight)
       (NewFailure ErrorProtocolInvalid ''browser viewer pointer coordinates are invalid'' False)
     (reject_if (vi_KeyboardAction i \<noteq> ViewerKeyboardAbsent \<or> vi_Key i \<noteq> [] \<or> vi_Text i \<noteq> []
         \<or> \<not> float_is_zero (vi_DeltaX i) \<or> \<not> float_is_zero (vi_DeltaY i))
       (NewFailure ErrorProtocolInvalid ''browser viewer pointer input is invalid'' False)
     (if vi_PointerAction i = ViewerPointerMove then
        reject_if (vi_Button i \<noteq> [] \<or> vi_ClickCount i \<noteq> 0)
          (NewFailure ErrorProtocolInvalid ''browser viewer pointer move is invalid'' False)
          None
      else if vi_PointerAction i = ViewerPointerClick then
        reject_if (\<not> (vi_Button i = ''left'' \<or> vi_Button i = ''middle'' \<or> vi_Button i = ''right''))
          (NewFailure ErrorProtocolInvalid ''browser viewer pointer button is invalid'' False)
        (reject_if (sint (vi_ClickCount i) < 1 \<or> 3 < sint (vi_ClickCount i))
          (NewFailure ErrorProtocolInvalid ''browser viewer click count is invalid'' False)
          None)
      else Some (NewFailure ErrorProtocolInvalid ''browser viewer pointer action is invalid'' False)))"

definition validateKeyboard :: "viewer_input \<Rightarrow> failure option" where
  "validateKeyboard i =
     reject_if (vi_PointerAction i \<noteq> ViewerPointerAbsent \<or> vi_X i \<noteq> None \<or> vi_Y i \<noteq> None
         \<or> vi_Button i \<noteq> [] \<or> vi_ClickCount i \<noteq> 0
         \<or> \<not> float_is_zero (vi_DeltaX i) \<or> \<not> float_is_zero (vi_DeltaY i))
       (NewFailure ErrorProtocolInvalid ''browser viewer keyboard input is invalid'' False)
     (if vi_KeyboardAction i = ViewerKeyboardPress then
        reject_if (vi_Key i = [] \<or> 64 < length (vi_Key i) \<or> vi_Text i \<noteq> [])
          (NewFailure ErrorProtocolInvalid ''browser viewer key press is invalid'' False)
          None
      else if vi_KeyboardAction i = ViewerKeyboardText then
        reject_if (vi_Key i \<noteq> [] \<or> vi_Text i = [] \<or> 4096 < length (vi_Text i)
            \<or> ContainsByte (vi_Text i) (char_of (0::nat)))
          (NewFailure ErrorProtocolInvalid ''browser viewer text input is invalid'' False)
          None
      else Some (NewFailure ErrorProtocolInvalid ''browser viewer keyboard action is invalid'' False))"

definition validateScroll :: "viewer_input \<Rightarrow> failure option" where
  "validateScroll i =
     reject_if (vi_PointerAction i \<noteq> ViewerPointerAbsent \<or> vi_KeyboardAction i \<noteq> ViewerKeyboardAbsent
         \<or> vi_X i \<noteq> None \<or> vi_Y i \<noteq> None \<or> vi_Button i \<noteq> []
         \<or> vi_ClickCount i \<noteq> 0 \<or> vi_Key i \<noteq> [] \<or> vi_Text i \<noteq> []
         \<or> IsNaN (vi_DeltaX i) \<or> IsInf (vi_DeltaX i)
         \<or> IsNaN (vi_DeltaY i) \<or> IsInf (vi_DeltaY i)
         \<or> abs_exceeds (vi_DeltaX i) 4096 \<or> abs_exceeds (vi_DeltaY i) 4096
         \<or> (float_is_zero (vi_DeltaX i) \<and> float_is_zero (vi_DeltaY i)))
       (NewFailure ErrorProtocolInvalid ''browser viewer scroll input is invalid'' False)
       None"

definition ViewerInput_Validate :: "viewer_input \<Rightarrow> failure option" where
  "ViewerInput_Validate i =
     (case vi_Kind i of
        ViewerInputPointer \<Rightarrow> validatePointer i
      | ViewerInputKeyboard \<Rightarrow> validateKeyboard i
      | ViewerInputScroll \<Rightarrow> validateScroll i
      | ViewerInputKindOther _ \<Rightarrow>
          Some (NewFailure ErrorProtocolInvalid ''browser viewer input kind is invalid'' False))"

definition operation_rejects :: "viewer_request \<Rightarrow> failure option" where
  "operation_rejects r =
     (case vr_Operation r of
        ViewerOperationInput \<Rightarrow>
          (case vr_Input r of
             None \<Rightarrow> Some (NewFailure ErrorProtocolInvalid ''browser viewer input is missing'' False)
           | Some i \<Rightarrow> ViewerInput_Validate i)
      | ViewerOperationOther _ \<Rightarrow>
          Some (NewFailure ErrorProtocolInvalid ''browser viewer operation is invalid'' False)
      | _ \<Rightarrow> reject_if (vr_Input r \<noteq> None)
          (NewFailure ErrorProtocolInvalid ''browser viewer operation contains unexpected input'' False)
          None)"

definition ViewerRequest_Validate :: "externals \<Rightarrow> go_time \<Rightarrow> viewer_request \<Rightarrow> failure option" where
  "ViewerRequest_Validate ext now r =
     reject_if (vr_ContractID r \<noteq> ViewerContractID)
       (NewFailure ErrorProtocolInvalid ''unsupported browser viewer contract'' False)
     (reject_if (\<not> IsValidUUID (vr_RequestID r))
       (NewFailure ErrorProtocolInvalid ''request_id must be a UUID'' False)
     (or_else (Identity_Validate ext (vr_Identity r))
     (reject_if (id_Controller (vr_Identity r) \<noteq> ControllerHuman)
       (NewFailure ErrorStaleControlEpoch ''browser viewer request does not hold human control'' False)
     (reject_if (vr_Deadline r = 0 \<or> \<not> now < vr_Deadline r)
       (NewFailure ErrorDeadlineExceeded ''browser viewer deadline has elapsed'' True)
     (reject_if (now + MaxActionDeadline < vr_Deadline r)
       (NewFailure ErrorProtocolInvalid ''browser viewer deadline exceeds the allowed horizon'' False)
     (operation_rejects r))))))"

definition ViewerFrame_Validate :: "viewer_frame \<Rightarrow> failure option" where
  "ViewerFrame_Validate frame =
     reject_if (vf_MIMEType frame \<noteq> ''image/jpeg'' \<or> length (vf_Data frame) = 0
         \<or> MaxViewerFrameBytes < length (vf_Data frame)
         \<or> sint (vf_Width frame) \<noteq> ViewportWidth \<or> sint (vf_Height frame) \<noteq> ViewportHeight)
       (NewFailure ErrorOutputInvalid ''browser viewer frame is invalid'' False)
       None"

definition ViewerSuccessResponse :: "string \<Rightarrow> viewer_frame option \<Rightarrow> viewer_response" where
  "ViewerSuccessResponse requestID frame =
     \<lparr>vresp_ContractID = ViewerContractID, vresp_RequestID = requestID, vresp_Status = ''ok'',
      vresp_Frame = frame, vresp_Error = None\<rparr>"

definition ViewerErrorResponse :: "string \<Rightarrow> failure option \<Rightarrow> viewer_response" where
  "ViewerErrorResponse requestID f =
     \<lparr>vresp_ContractID = ViewerContractID, vresp_RequestID = boundedString requestID 128,
      vresp_Status = ''error'', vresp_Frame = None,
      vresp_Error = Some (case f of Some g \<Rightarrow> g
        | None \<Rightarrow> NewFailure ErrorInternal ''browser viewer failed'' False)\<rparr>"

definition DecodeViewerRequest :: "viewer_request codec \<Rightarrow> bytes \<Rightarrow> viewer_request option" where
  "DecodeViewerRequest c raw = strict_decode c raw"

section \<open>Its rejections are well formed\<close>

lemma own_pointer [own]: "rejects own_failure (validatePointer i)"
  unfolding validatePointer_def
  by (intro rejects_if rejects_reject_if) (auto simp: message_eval)

lemma own_keyboard [own]: "rejects own_failure (validateKeyboard i)"
  unfolding validateKeyboard_def
  by (intro rejects_if rejects_reject_if) (auto simp: message_eval)

lemma own_viewer_scroll [own]: "rejects own_failure (validateScroll i)"
  unfolding validateScroll_def
  by (intro rejects_reject_if) (auto simp: message_eval)

lemma own_viewer_input [own]: "rejects own_failure (ViewerInput_Validate i)"
  by (cases "vi_Kind i") (auto simp: ViewerInput_Validate_def message_eval intro: own)

lemma own_operation [own]: "rejects own_failure (operation_rejects r)"
  unfolding operation_rejects_def
  by (auto intro!: rejects_reject_if own own_failureI simp: message_eval
      split: viewer_operation.splits option.splits)

lemma own_viewer_request:
  "visits_all ext \<Longrightarrow> rejects own_failure (ViewerRequest_Validate ext now r)"
  unfolding ViewerRequest_Validate_def
  by (intro rejects_or_else own own_identity rejects_reject_if) (auto simp: message_eval)

lemma own_frame [own]: "rejects own_failure (ViewerFrame_Validate f)"
  unfolding ViewerFrame_Validate_def
  by (intro rejects_reject_if) (auto simp: message_eval)

end
