(* ===== verification/GoPath.thy ===== *)
theory GoPath
  imports GoStrings
begin

text \<open>
  The \<^verbatim>\<open>path/filepath\<close> functions of the Go library on Unix that the code uses: \<open>Clean\<close> and
  \<open>IsAbs\<close>.
\<close>

text \<open>One element of the path against the elements kept so far, the last one first.\<close>

definition clean_step :: "bool \<Rightarrow> string list \<Rightarrow> string \<Rightarrow> string list" where
  "clean_step rooted kept element =
     (if element = [] \<or> element = ''.'' then kept
      else if element = ''..'' then
        (if kept \<noteq> [] \<and> hd kept \<noteq> ''..'' then tl kept
         else if rooted then kept
         else ''..'' # kept)
      else element # kept)"

definition IsAbs :: "string \<Rightarrow> bool" where
  "IsAbs path = HasPrefix path ''/''"

definition Clean :: "string \<Rightarrow> string" where
  "Clean path =
     (let kept = foldl (clean_step (IsAbs path)) [] (Split path (CHR ''/''));
          joined = JoinWith (CHR ''/'') (rev kept) in
      if IsAbs path then CHR ''/'' # joined
      else if joined = [] then ''.'' else joined)"

lemma IsAbs_Clean [simp]: "IsAbs path \<Longrightarrow> IsAbs (Clean path)"
  by (simp add: Clean_def IsAbs_def HasPrefix_def Let_def)

lemma clean_examples:
  "Clean ''/run/../browser//control/./s.sock'' = ''/browser/control/s.sock''"
  "Clean ''../a/../..'' = ''../..''" "Clean [] = ''.''" "Clean ''/..'' = ''/''"
  by code_simp+

end
