(* ===== verification/RuntimeServer.thy ===== *)
theory RuntimeServer
  imports Viewer GoPath
begin

text \<open>
  The state of the Browser Runtime server and the operations on it: \<^verbatim>\<open>browserruntime/server.go\<close>
  and the budget functions of \<^verbatim>\<open>browserruntime/connection.go\<close>. The mutexes and the semaphore of
  one slot make each of these operations atomic and each connection exclusive, so an operation
  is a function from state to result and state.

  The counters are Go \<^verbatim>\<open>int\<close>s; the invariant proved here keeps them far below the point where
  64 bits would wrap, so they are integers.
\<close>

section \<open>Data\<close>

definition maxRequestsPerLease :: int where "maxRequestsPerLease = 2048"
definition maxCloseAttemptsPerAttachment :: int where "maxCloseAttemptsPerAttachment = 3"
definition maxBlockedClicksPerNavigation :: int where "maxBlockedClicksPerNavigation = 3"
definition maxBlockedClicksPerRun :: int where "maxBlockedClicksPerRun = 12"
definition maxViewerRequestsPerEpoch :: int where "maxViewerRequestsPerEpoch = 8192"

lemmas budget_limits = maxRequestsPerLease_def maxCloseAttemptsPerAttachment_def
  maxBlockedClicksPerNavigation_def maxBlockedClicksPerRun_def maxViewerRequestsPerEpoch_def

text \<open>
  The interfaces the server calls. They act on the outside world \<open>'w\<close>: the lease files, the
  browser and the clock. A \<^verbatim>\<open>LeaseRevoker\<close> is what a type assertion on the lease may find.
\<close>

record 'w lease_revoker =
  rv_IsRevoked :: "identity \<Rightarrow> 'w \<Rightarrow> (bool \<times> failure option) \<times> 'w"
  rv_Revoke :: "identity \<Rightarrow> 'w \<Rightarrow> failure option \<times> 'w"

record 'w lease_validator =
  lv_Validate :: "identity \<Rightarrow> 'w \<Rightarrow> failure option \<times> 'w"
  lv_revoker :: "'w lease_revoker option"

text \<open>The engine gets the deadline of its context; \<open>en_expired\<close> is the context's \<^verbatim>\<open>Err() != nil\<close>.\<close>

record 'w engine =
  en_Execute :: "go_time \<Rightarrow> identity \<Rightarrow> action \<Rightarrow> 'w \<Rightarrow> (observation \<times> failure option) \<times> 'w"
  en_ExecuteViewer :: "(go_time \<Rightarrow> identity \<Rightarrow> viewer_operation \<Rightarrow> viewer_input option \<Rightarrow> 'w
      \<Rightarrow> (viewer_frame option \<times> failure option) \<times> 'w) option"
  en_expired :: "go_time \<Rightarrow> 'w \<Rightarrow> bool"

record 'w server_options =
  so_SocketPath :: string
  so_SocketMode :: "32 word"
  so_ChannelCredential :: string
  so_Lease :: "'w lease_validator option"
  so_Engine :: "'w engine option"
  so_Now :: "('w \<Rightarrow> go_time) option"
  so_MaxRequestBytes :: go_int
  so_MaxResponseBytes :: go_int
  so_MaxRequests :: go_int
  so_IOTimeout :: go_int
  so_HumanControlAvailable :: bool

text \<open>The options as \<^verbatim>\<open>NewServer\<close> stores them: nothing is nil and every limit is set.\<close>

record 'w server_config =
  sc_SocketPath :: string
  sc_SocketMode :: "32 word"
  sc_ChannelCredential :: string
  sc_Lease :: "'w lease_validator"
  sc_Engine :: "'w engine"
  sc_Now :: "'w \<Rightarrow> go_time"
  sc_MaxRequestBytes :: int
  sc_MaxResponseBytes :: int
  sc_MaxRequests :: int
  sc_IOTimeout :: int
  sc_HumanControlAvailable :: bool

record server =
  srv_seenScope :: string
  srv_seen :: "string set"
  srv_actionCount :: int
  srv_viewerCount :: int
  srv_closeCount :: int
  srv_terminal :: bool
  srv_clickRunID :: string
  srv_blockedClickRunCount :: int
  srv_clickNavigationScope :: string
  srv_clickEngineInstanceID :: go_uint64
  srv_clickNavigationGeneration :: go_uint64
  srv_blockedClickNavigationCount :: int
  srv_clickPageStateID :: string
  srv_lastBlockedTargetCategory :: target_category

definition new_server :: server where
  "new_server =
     \<lparr>srv_seenScope = [], srv_seen = {}, srv_actionCount = 0, srv_viewerCount = 0,
      srv_closeCount = 0, srv_terminal = False, srv_clickRunID = [], srv_blockedClickRunCount = 0,
      srv_clickNavigationScope = [], srv_clickEngineInstanceID = 0,
      srv_clickNavigationGeneration = 0, srv_blockedClickNavigationCount = 0,
      srv_clickPageStateID = [], srv_lastBlockedTargetCategory = TargetCategoryEmpty\<rparr>"

section \<open>Construction\<close>

datatype server_error =
    SocketPathNotAbsolute | CredentialLengthInvalid | LeaseMissing | EngineMissing
  | RequestLimitTooSmall | RequestLimitTooLarge | ResponseLimitTooSmall | ResponseLimitTooLarge
  | RequestCountTooLarge | SocketModeTooOpen

definition defaulted :: "go_int \<Rightarrow> int \<Rightarrow> int" where
  "defaulted given fallback = (if sint given \<le> 0 then fallback else sint given)"

text \<open>
  \<open>wall_clock\<close> is \<^verbatim>\<open>time.Now\<close>. The permission bits of \<^verbatim>\<open>os.FileMode\<close> are the low nine; the octal
  constants 0600, 0777 and 0007 are written in hexadecimal.
\<close>

unbundle bit_operations_syntax

definition NewServer ::
    "('w \<Rightarrow> go_time) \<Rightarrow> 'w server_options \<Rightarrow> server_error + 'w server_config \<times> server" where
  "NewServer wall_clock opts =
     (let path = Clean (so_SocketPath opts);
          maxRequest = defaulted (so_MaxRequestBytes opts) (int MaxRequestBytes);
          maxResponse = defaulted (so_MaxResponseBytes opts) (int MaxResponseBytes);
          maxRequests = defaulted (so_MaxRequests opts) maxRequestsPerLease;
          mode = (if so_SocketMode opts = 0 then 0x180 else so_SocketMode opts) in
      if \<not> IsAbs path then Inl SocketPathNotAbsolute
      else if length (so_ChannelCredential opts) < 32 \<or> 512 < length (so_ChannelCredential opts)
        then Inl CredentialLengthInvalid
      else (case so_Lease opts of None \<Rightarrow> Inl LeaseMissing | Some lease \<Rightarrow>
       (case so_Engine opts of None \<Rightarrow> Inl EngineMissing | Some engine \<Rightarrow>
         if maxRequest < 1024 then Inl RequestLimitTooSmall
         else if int MaxRequestBytes < maxRequest then Inl RequestLimitTooLarge
         else if maxResponse < 1024 then Inl ResponseLimitTooSmall
         else if int MaxResponseBytes < maxResponse then Inl ResponseLimitTooLarge
         else if maxRequestsPerLease < maxRequests then Inl RequestCountTooLarge
         else if ((mode AND 0x1FF) AND 0x007) \<noteq> 0 then Inl SocketModeTooOpen
         else Inr
           (\<lparr>sc_SocketPath = path, sc_SocketMode = mode,
             sc_ChannelCredential = so_ChannelCredential opts, sc_Lease = lease, sc_Engine = engine,
             sc_Now = (case so_Now opts of None \<Rightarrow> wall_clock | Some now \<Rightarrow> now),
             sc_MaxRequestBytes = maxRequest, sc_MaxResponseBytes = maxResponse,
             sc_MaxRequests = maxRequests,
             sc_IOTimeout = defaulted (so_IOTimeout opts) (5 * Second),
             sc_HumanControlAvailable = so_HumanControlAvailable opts\<rparr>, new_server))))"

section \<open>Scopes\<close>

definition attachmentRequestScope :: "identity \<Rightarrow> string" where
  "attachmentRequestScope i =
     id_RunID i @ ''|'' @ id_AttachmentID i @ ''|''
     @ FormatUint (id_SessionEpoch i) @ ''|'' @ FormatUint (id_ControlEpoch i)"

definition navigation_scope :: "identity \<Rightarrow> string" where
  "navigation_scope i = id_BrowserSessionID i @ ''|'' @ FormatUint (id_SessionEpoch i)"

text \<open>The first lines of both reservations.\<close>

definition enter_scope :: "identity \<Rightarrow> server \<Rightarrow> server" where
  "enter_scope i s =
     (let scope = attachmentRequestScope i in
      if scope \<noteq> srv_seenScope s then
        s\<lparr>srv_seen := {}, srv_seenScope := scope, srv_actionCount := 0, srv_viewerCount := 0,
          srv_closeCount := 0, srv_terminal := False\<rparr>
      else s)"

definition prepareClickScope :: "identity \<Rightarrow> server \<Rightarrow> server" where
  "prepareClickScope i s =
     (let s1 = (if srv_clickRunID s \<noteq> id_RunID i then
           s\<lparr>srv_clickRunID := id_RunID i, srv_blockedClickRunCount := 0,
             srv_clickPageStateID := [], srv_lastBlockedTargetCategory := TargetCategoryEmpty,
             srv_clickNavigationScope := [], srv_clickEngineInstanceID := 0,
             srv_clickNavigationGeneration := 0, srv_blockedClickNavigationCount := 0\<rparr>
         else s);
         scope = navigation_scope i in
      if srv_clickNavigationScope s1 \<noteq> scope then
        s1\<lparr>srv_clickNavigationScope := scope, srv_clickEngineInstanceID := 0,
           srv_clickNavigationGeneration := 0, srv_blockedClickNavigationCount := 0\<rparr>
      else s1)"

section \<open>Reservations\<close>

definition reserveViewerRequest :: "identity \<Rightarrow> string \<Rightarrow> server \<Rightarrow> failure option \<times> server" where
  "reserveViewerRequest i requestID s0 =
     (let s = enter_scope i s0 in
      if requestID \<in> srv_seen s then
        (Some (NewFailure ErrorRequestReplayed
           ''browser viewer request_id has already been used'' False), s)
      else if maxViewerRequestsPerEpoch \<le> srv_viewerCount s then
        (Some (NewFailure ErrorActionLimitExceeded
           ''browser Viewer reached its request limit'' False), s)
      else (None, s\<lparr>srv_seen := insert requestID (srv_seen s),
                    srv_viewerCount := srv_viewerCount s + 1\<rparr>))"

text \<open>
  Go stores the address of a local \<^verbatim>\<open>int\<close> in the failure; the model keeps its 64-bit value.
\<close>

definition with_budgets :: "server \<Rightarrow> failure \<Rightarrow> failure" where
  "with_budgets s f =
     f\<lparr>fl_BlockedClickNavigationAttemptsRemaining :=
         Some (word_of_int (max 0 (maxBlockedClicksPerNavigation - srv_blockedClickNavigationCount s))),
       fl_BlockedClickRunAttemptsRemaining :=
         Some (word_of_int (max 0 (maxBlockedClicksPerRun - srv_blockedClickRunCount s)))\<rparr>"

definition clickRetryFailure :: "server \<Rightarrow> failure" where
  "clickRetryFailure s = with_budgets s
     ((NewFailure ErrorClickRetryExhausted ''browser blocked-click retry budget is exhausted'' False)
       \<lparr>fl_TargetCategory := srv_lastBlockedTargetCategory s,
        fl_PageStateID := srv_clickPageStateID s,
        fl_NavigationGeneration := srv_clickNavigationGeneration s\<rparr>)"

definition action_cost :: "action \<Rightarrow> int" where
  "action_cost a = (if act_Kind a = ActionBatch then int (length (act_Actions a)) else 1)"

definition reserve_close :: "string \<Rightarrow> server \<Rightarrow> failure option \<times> server" where
  "reserve_close requestID s =
     (if maxCloseAttemptsPerAttachment \<le> srv_closeCount s then
        (Some (NewFailure ErrorCloseRetryExhausted
           ''browser attachment close retry budget is exhausted'' False), s\<lparr>srv_terminal := True\<rparr>)
      else
        (None, s\<lparr>srv_seen := insert requestID (srv_seen s),
                 srv_closeCount := srv_closeCount s + 1,
                 srv_terminal := (if srv_closeCount s + 1 = maxCloseAttemptsPerAttachment
                   then True else srv_terminal s)\<rparr>))"

definition reserve_action :: "int \<Rightarrow> string \<Rightarrow> action \<Rightarrow> server \<Rightarrow> failure option \<times> server" where
  "reserve_action maxRequests requestID a s =
     (if srv_terminal s then
        (Some (NewFailure ErrorCloseRetryExhausted
           ''browser attachment is terminal after close retry exhaustion'' False), s)
      else if maxRequests < srv_actionCount s + action_cost a then
        (Some (NewFailure ErrorActionLimitExceeded
           ''browser attachment reached its action limit'' False), s)
      else
        (let s' = s\<lparr>srv_seen := insert requestID (srv_seen s),
                    srv_actionCount := srv_actionCount s + action_cost a\<rparr> in
         if act_Kind a = ActionClick
             \<and> (maxBlockedClicksPerNavigation \<le> srv_blockedClickNavigationCount s'
                \<or> maxBlockedClicksPerRun \<le> srv_blockedClickRunCount s')
         then (Some (clickRetryFailure s'), s')
         else (None, s')))"

definition reserveRequest ::
    "int \<Rightarrow> identity \<Rightarrow> string \<Rightarrow> action \<Rightarrow> server \<Rightarrow> failure option \<times> server" where
  "reserveRequest maxRequests i requestID a s0 =
     (let s = prepareClickScope i (enter_scope i s0) in
      if requestID \<in> srv_seen s then
        (Some (NewFailure ErrorRequestReplayed
           ''browser request_id has already been used'' False), s)
      else if act_Kind a = ActionClose then reserve_close requestID s
      else reserve_action maxRequests requestID a s)"

section \<open>What the engine reports\<close>

definition acceptEngineState :: "go_uint64 \<Rightarrow> go_uint64 \<Rightarrow> server \<Rightarrow> failure option \<times> server" where
  "acceptEngineState engineInstanceID navigationGeneration s =
     (if navigationGeneration = 0 then
        (Some (NewFailure ErrorOutputInvalid ''browser navigation generation is invalid'' False), s)
      else
        (let instanceID = (if engineInstanceID = 0 then 1 else engineInstanceID) in
         if srv_clickEngineInstanceID s \<noteq> instanceID then
           (None, s\<lparr>srv_clickEngineInstanceID := instanceID,
                    srv_clickNavigationGeneration := navigationGeneration,
                    srv_blockedClickNavigationCount := 0\<rparr>)
         else if navigationGeneration < srv_clickNavigationGeneration s then
           (Some (NewFailure ErrorOutputInvalid ''browser navigation generation decreased'' False), s)
         else if srv_clickNavigationGeneration s < navigationGeneration then
           (None, s\<lparr>srv_clickNavigationGeneration := navigationGeneration,
                    srv_blockedClickNavigationCount := 0\<rparr>)
         else (None, s)))"

definition recordEngineObservation :: "identity \<Rightarrow> observation \<Rightarrow> server \<Rightarrow> failure option \<times> server" where
  "recordEngineObservation i obs s =
     (case acceptEngineState (obs_EngineInstanceID obs) (obs_NavigationGeneration obs)
             (prepareClickScope i s) of
        (Some f, s') \<Rightarrow> (Some f, s')
      | (None, s') \<Rightarrow> (None, s'\<lparr>srv_clickPageStateID := obs_PageStateID obs\<rparr>))"

definition recordBlockedClick :: "identity \<Rightarrow> failure \<Rightarrow> server \<Rightarrow> failure \<times> server" where
  "recordBlockedClick i f s =
     (case acceptEngineState (fl_EngineInstanceID f) (fl_NavigationGeneration f)
             (prepareClickScope i s) of
        (Some stateFailure, s') \<Rightarrow> (stateFailure, s')
      | (None, s') \<Rightarrow>
          (let s'' = s'\<lparr>srv_blockedClickNavigationCount := srv_blockedClickNavigationCount s' + 1,
                        srv_blockedClickRunCount := srv_blockedClickRunCount s' + 1,
                        srv_clickPageStateID := fl_PageStateID f,
                        srv_lastBlockedTargetCategory := fl_TargetCategory f\<rparr> in
           (with_budgets s'' f, s'')))"

definition resetClickNavigationBaseline :: "identity \<Rightarrow> server \<Rightarrow> server" where
  "resetClickNavigationBaseline i s =
     (prepareClickScope i s)\<lparr>srv_clickEngineInstanceID := 0, srv_clickNavigationGeneration := 0,
        srv_blockedClickNavigationCount := 0\<rparr>"

end
