(* ===== verification/Lease.thy ===== *)
theory Lease
  imports RuntimeServer
begin

text \<open>
  Leases: the fixed lease of \<^verbatim>\<open>browserruntime/lease.go\<close> and the lease document that
  \<^verbatim>\<open>browserclient/client.go\<close> reads and checks. The lease stored in files is in \<open>FileLease\<close>.
\<close>

section \<open>The fixed lease\<close>

definition StaticLease_Validate :: "identity \<Rightarrow> identity \<Rightarrow> failure option" where
  "StaticLease_Validate expected i =
     reject_if (id_RunID i \<noteq> id_RunID expected \<or> id_AgentID i \<noteq> id_AgentID expected
         \<or> id_PrincipalScopeID i \<noteq> id_PrincipalScopeID expected
         \<or> id_BrowserSessionID i \<noteq> id_BrowserSessionID expected
         \<or> id_SessionEpoch i \<noteq> id_SessionEpoch expected
         \<or> id_AttachmentID i \<noteq> id_AttachmentID expected
         \<or> id_BrowserInteractionPolicy i \<noteq> id_BrowserInteractionPolicy expected
         \<or> id_BrowserInteractionPolicyGeneration i \<noteq> id_BrowserInteractionPolicyGeneration expected
         \<or> id_BrowserMutationOriginsSHA256 i \<noteq> id_BrowserMutationOriginsSHA256 expected
         \<or> \<not> sameStrings (origins_of i) (origins_of expected))
       (NewFailure ErrorIdentityMismatch
         ''browser attachment identity does not match the active lease'' False)
     (reject_if (id_ControlEpoch i \<noteq> id_ControlEpoch expected)
       (NewFailure ErrorStaleControlEpoch ''browser control epoch is stale'' False)
     (reject_if (id_Controller i \<noteq> id_Controller expected)
       (NewFailure ErrorIdentityMismatch ''browser controller does not match the active lease'' False)
       None))"

text \<open>As the server sees it: it does not change the world and cannot be revoked.\<close>

definition static_lease :: "identity \<Rightarrow> 'w lease_validator" where
  "static_lease expected =
     \<lparr>lv_Validate = (\<lambda>i w. (StaticLease_Validate expected i, w)), lv_revoker = None\<rparr>"

lemma sameStrings_iff: "sameStrings xs ys \<longleftrightarrow> xs = ys"
  by (auto simp: sameStrings_def list_all_iff intro: nth_equalityI)

lemma SameIdentity_iff:
  "SameIdentity l r \<longleftrightarrow>
     l\<lparr>id_BrowserMutationOrigins := Some (origins_of l)\<rparr> = r\<lparr>id_BrowserMutationOrigins := Some (origins_of r)\<rparr>"
proof -
  have origins: "length (origins_of l) = length (origins_of r)
      \<and> list_all (\<lambda>i. origins_of l ! i = origins_of r ! i) [0..<length (origins_of l)]
    \<longleftrightarrow> origins_of l = origins_of r"
    using sameStrings_iff [of "origins_of l" "origins_of r"] by (auto simp: sameStrings_def)
  show ?thesis
    unfolding SameIdentity_def using origins
    by (cases l; cases r) (auto simp: origins_of_def)
qed

lemma StaticLease_iff: "StaticLease_Validate expected i = None \<longleftrightarrow> SameIdentity i expected"
  by (cases i; cases expected)
    (auto simp: StaticLease_Validate_def SameIdentity_iff sameStrings_iff)

lemma own_static_lease [own]: "rejects own_failure (StaticLease_Validate expected i)"
  unfolding StaticLease_Validate_def
  by (intro rejects_reject_if) (auto simp: message_eval)

section \<open>The lease document\<close>

definition LeaseContractID :: string where
  "LeaseContractID = ''openlinker.browser.lease.v2''"

record lease =
  le_ContractID :: string
  le_ExpiresAt :: go_time
  le_Identity :: identity

definition Lease_Validate :: "externals \<Rightarrow> go_time \<Rightarrow> lease \<Rightarrow> failure option" where
  "Lease_Validate ext now l =
     reject_if (le_ContractID l \<noteq> LeaseContractID)
       (NewFailure ErrorProtocolInvalid ''browser lease contract is invalid'' False)
     (or_else (Identity_Validate ext (le_Identity l))
     (reject_if (le_ExpiresAt l = 0 \<or> \<not> now < le_ExpiresAt l)
       (NewFailure ErrorDeadlineExceeded ''browser lease has expired'' False)
       None))"

lemma own_lease:
  "visits_all ext \<Longrightarrow> rejects own_failure (Lease_Validate ext now l)"
  unfolding Lease_Validate_def
  by (intro rejects_or_else own own_identity rejects_reject_if) (auto simp: message_eval)

section \<open>The lease interface\<close>

text \<open>
  What the server relies on: whatever a lease refuses with is a failure that the receiver
  accepts. It is proved of the fixed lease below, and the server's answers rest on it.
\<close>

locale reporting_lease =
  fixes ext :: externals
    and lease :: "'w lease_validator"
  assumes validate_reports: "rejects (wf_failure ext) (fst (lv_Validate lease i w))"
    and is_revoked_reports: "lv_revoker lease = Some rv \<Longrightarrow>
      rejects (wf_failure ext) (snd (fst (rv_IsRevoked rv i w)))"
    and revoke_reports: "lv_revoker lease = Some rv \<Longrightarrow>
      rejects (wf_failure ext) (fst (rv_Revoke rv i w))"
begin

lemma validate_failure: "lv_Validate lease i w = (Some f, w') \<Longrightarrow> wf_failure ext f"
  using validate_reports [of i w] by simp

lemma is_revoked_failure:
  "lv_revoker lease = Some rv \<Longrightarrow> rv_IsRevoked rv i w = ((b, Some f), w') \<Longrightarrow> wf_failure ext f"
  using is_revoked_reports [of rv i w] by simp

lemma revoke_failure:
  "lv_revoker lease = Some rv \<Longrightarrow> rv_Revoke rv i w = (Some f, w') \<Longrightarrow> wf_failure ext f"
  using revoke_reports [of rv i w] by simp

end

interpretation static: reporting_lease ext "static_lease expected" for ext expected
proof
  fix i and w :: 'w
  show "rejects (wf_failure ext) (fst (lv_Validate (static_lease expected) i w))"
    using own_static_lease [of expected i] by (simp add: static_lease_def rejects_def own_failure_wf)
qed (simp_all add: static_lease_def)

end
