(* ===== verification/Health.thy ===== *)
theory Health
  imports Identifiers WireCodec
begin

text \<open>
  The health contract, \<^verbatim>\<open>browserprotocol/health.go\<close>. Its errors are plain Go errors; the
  model numbers them by constructor.
\<close>

definition HealthContractID :: string where
  "HealthContractID = ''openlinker.browser.health.v1''"

definition MaxHealthRequestBytes :: nat where "MaxHealthRequestBytes = 1024"
definition MaxHealthResponseBytes :: nat where "MaxHealthResponseBytes = 1024"

text \<open>The empty string is the absent reason.\<close>

datatype health_reason =
    HealthReasonAbsent | HealthReasonInvalidRequest | HealthReasonUnauthorized | HealthReasonOther string

record health_request =
  hr_ContractID :: string
  hr_ChannelCredential :: string
  hr_RequestID :: string

record health_response =
  hresp_ContractID :: string
  hresp_RequestID :: string
  hresp_Status :: string
  hresp_Reason :: health_reason

datatype health_error =
    UnsupportedHealthContract | HealthRequestIDInvalid | HealthIdentityInvalid
  | HealthSuccessInvalid | HealthErrorInvalid | HealthStatusInvalid

definition HealthRequest_Validate :: "health_request \<Rightarrow> health_error option" where
  "HealthRequest_Validate r =
     reject_if (hr_ContractID r \<noteq> HealthContractID) UnsupportedHealthContract
     (reject_if (\<not> IsValidUUID (hr_RequestID r)) HealthRequestIDInvalid None)"

definition HealthResponse_Validate :: "health_response \<Rightarrow> string \<Rightarrow> health_error option" where
  "HealthResponse_Validate r requestID =
     reject_if (hresp_ContractID r \<noteq> HealthContractID \<or> hresp_RequestID r \<noteq> requestID)
       HealthIdentityInvalid
     (if hresp_Status r = ''ok'' then
        reject_if (hresp_Reason r \<noteq> HealthReasonAbsent) HealthSuccessInvalid None
      else if hresp_Status r = ''error'' then
        reject_if (hresp_Reason r \<noteq> HealthReasonInvalidRequest
            \<and> hresp_Reason r \<noteq> HealthReasonUnauthorized) HealthErrorInvalid None
      else Some HealthStatusInvalid)"

definition HealthSuccessResponse :: "string \<Rightarrow> health_response" where
  "HealthSuccessResponse requestID =
     \<lparr>hresp_ContractID = HealthContractID, hresp_RequestID = requestID, hresp_Status = ''ok'',
      hresp_Reason = HealthReasonAbsent\<rparr>"

definition HealthErrorResponse :: "string \<Rightarrow> health_reason \<Rightarrow> health_response" where
  "HealthErrorResponse requestID reason =
     \<lparr>hresp_ContractID = HealthContractID, hresp_RequestID = boundedString requestID 128,
      hresp_Status = ''error'', hresp_Reason = reason\<rparr>"

definition decodeHealthJSON :: "'a codec \<Rightarrow> bytes \<Rightarrow> 'a option" where
  "decodeHealthJSON c raw = strict_decode c raw"

text \<open>On an error the decoder returns the zero request.\<close>

definition zero_health_request :: health_request where
  "zero_health_request = \<lparr>hr_ContractID = [], hr_ChannelCredential = [], hr_RequestID = []\<rparr>"

definition DecodeHealthRequest ::
    "health_request codec \<Rightarrow> bytes \<Rightarrow> health_request \<times> bool" where
  "DecodeHealthRequest c raw =
     (case decodeHealthJSON c raw of None \<Rightarrow> (zero_health_request, True) | Some r \<Rightarrow> (r, False))"

definition DecodeHealthResponse :: "health_response codec \<Rightarrow> bytes \<Rightarrow> health_response option" where
  "DecodeHealthResponse c raw = decodeHealthJSON c raw"

end
