(* ===== verification/Connection.thy ===== *)
theory Connection
  imports RuntimeServer Health
begin

text \<open>
  What the Browser Runtime does with one connection: \<^verbatim>\<open>browserruntime/connection.go\<close>. The
  handler reads the request, dispatches on the contract, checks, reserves, calls lease and
  engine, and answers with exactly one response. It is a function of the configuration, the
  bytes that arrive, the server state and the outside world; the response is its result, and
  \<open>reply_bytes\<close> is what is written for it. Setting the deadlines of the socket is not modelled.
\<close>

section \<open>Reading\<close>

text \<open>What the socket delivers until its end, and whether it ends with an error.\<close>

type_synonym arrival = "bytes \<times> bool"

definition readRequest :: "int \<Rightarrow> arrival \<Rightarrow> failure + bytes" where
  "readRequest maxRequestBytes arrived =
     (let n = nat (maxRequestBytes + 1);
          raw = take n (fst arrived);
          err = (snd arrived \<and> length (fst arrived) < n) in
      if err then
        Inl (NewFailure ErrorProtocolInvalid ''browser request is not valid'' False)
      else if maxRequestBytes < int (length raw) then
        Inl (NewFailure ErrorRequestTooLarge ''browser request exceeds the input limit'' False)
      else Inr raw)"

text \<open>
  The codecs of \<^verbatim>\<open>encoding/json\<close>: the contract of the envelope (\<open>None\<close> when it does not parse)
  and the three kinds of requests; and the encoders, which may fail.
\<close>

record codecs =
  cd_envelope :: "bytes \<Rightarrow> string option"
  cd_request :: "request codec"
  cd_viewer_request :: "viewer_request codec"
  cd_health_request :: "health_request codec"
  cd_response :: "response \<Rightarrow> bytes option"
  cd_viewer_response :: "viewer_response \<Rightarrow> bytes option"
  cd_health_response :: "health_response \<Rightarrow> bytes option"

text \<open>
  \<open>decodeRequest\<close> reads through a \<^verbatim>\<open>LimitedReader\<close> of one byte more than the limit, which is
  used up exactly when all of its bytes are taken. The request is returned with every failure,
  because the answer names its identifier.
\<close>

definition too_large :: failure where
  "too_large = NewFailure ErrorRequestTooLarge ''browser request exceeds the input limit'' False"

definition decodeRequest :: "request codec \<Rightarrow> int \<Rightarrow> bytes \<Rightarrow> request \<times> failure option" where
  "decodeRequest c maxRequestBytes raw =
     (let n = nat (maxRequestBytes + 1);
          d = c (take n raw) in
      (dec_value d,
       if dec_first d \<noteq> DecodeOK then
         reject_if (dec_first_read d = n) too_large
           (Some (NewFailure ErrorProtocolInvalid ''browser request is not valid'' False))
       else if dec_second d \<noteq> DecodeEOF then
         reject_if (dec_second_read d = n) too_large
           (Some (NewFailure ErrorProtocolInvalid ''browser request contains trailing data'' False))
       else reject_if (dec_second_read d = n) too_large None))"

section \<open>Writing\<close>

datatype reply =
    BrowserReply response
  | ViewerReply viewer_response
  | HealthReply health_response

definition or_empty :: "bytes option \<Rightarrow> bytes" where
  "or_empty b = (case b of Some raw \<Rightarrow> raw | None \<Rightarrow> [])"

definition fits :: "bytes option \<Rightarrow> int \<Rightarrow> bool" where
  "fits b limit = (case b of None \<Rightarrow> False | Some raw \<Rightarrow> int (length raw) + 1 \<le> limit)"

definition newline :: char where "newline = char_of (10::nat)"

definition response_bytes :: "codecs \<Rightarrow> int \<Rightarrow> response \<Rightarrow> bytes" where
  "response_bytes cd limit r =
     (let raw = (if fits (cd_response cd r) limit then cd_response cd r
        else cd_response cd (ErrorResponse (resp_RequestID r) (Some
          (NewFailure ErrorOutputTooLarge ''browser response exceeds the output limit'' False)))) in
      or_empty raw @ [newline])"

definition viewer_response_bytes :: "codecs \<Rightarrow> int \<Rightarrow> viewer_response \<Rightarrow> bytes" where
  "viewer_response_bytes cd limit r =
     (let raw = (if fits (cd_viewer_response cd r) limit then cd_viewer_response cd r
        else cd_viewer_response cd (ViewerErrorResponse (vresp_RequestID r) (Some
          (NewFailure ErrorOutputTooLarge ''browser viewer response exceeds the output limit'' False)))) in
      or_empty raw @ [newline])"

definition health_response_bytes :: "codecs \<Rightarrow> health_response \<Rightarrow> bytes" where
  "health_response_bytes cd r =
     (let raw = (if fits (cd_health_response cd r) (int MaxHealthResponseBytes)
        then cd_health_response cd r
        else cd_health_response cd (HealthErrorResponse (hresp_RequestID r) HealthReasonInvalidRequest)) in
      or_empty raw @ [newline])"

definition reply_bytes :: "codecs \<Rightarrow> int \<Rightarrow> reply \<Rightarrow> bytes" where
  "reply_bytes cd limit reply =
     (case reply of
        BrowserReply r \<Rightarrow> response_bytes cd limit r
      | ViewerReply r \<Rightarrow> viewer_response_bytes cd limit r
      | HealthReply r \<Rightarrow> health_response_bytes cd r)"

section \<open>Health\<close>

definition handleHealthConnection :: "codecs \<Rightarrow> string \<Rightarrow> bytes \<Rightarrow> health_response" where
  "handleHealthConnection cd credential raw =
     (if MaxHealthRequestBytes < length raw then HealthErrorResponse [] HealthReasonInvalidRequest
      else
        (case DecodeHealthRequest (cd_health_request cd) raw of (request, err) \<Rightarrow>
          if err \<or> HealthRequest_Validate request \<noteq> None then
            HealthErrorResponse (hr_RequestID request) HealthReasonInvalidRequest
          else if hr_ChannelCredential request \<noteq> credential then
            HealthErrorResponse (hr_RequestID request) HealthReasonUnauthorized
          else HealthSuccessResponse (hr_RequestID request)))"

section \<open>Viewer\<close>

definition expired_viewer :: failure where
  "expired_viewer = NewFailure ErrorDeadlineExceeded ''browser viewer deadline elapsed'' True"

definition viewer_outcome ::
    "externals \<Rightarrow> string \<Rightarrow> viewer_frame option \<Rightarrow> failure option \<Rightarrow> viewer_response" where
  "viewer_outcome ext requestID frame f =
     (case f of
        Some g \<Rightarrow>
          ViewerErrorResponse requestID
            (case ValidateFailure ext (Some g) of Some invalid \<Rightarrow> Some invalid | None \<Rightarrow> Some g)
      | None \<Rightarrow>
          (case frame of
             None \<Rightarrow> ViewerSuccessResponse requestID None
           | Some fr \<Rightarrow>
               (case ViewerFrame_Validate fr of
                  Some invalid \<Rightarrow> ViewerErrorResponse requestID (Some invalid)
                | None \<Rightarrow> ViewerSuccessResponse requestID (Some fr))))"

definition run_viewer ::
    "externals \<Rightarrow> 'w server_config \<Rightarrow> viewer_request \<Rightarrow> 'w \<Rightarrow> viewer_response \<times> 'w" where
  "run_viewer ext cfg r w =
     (case en_ExecuteViewer (sc_Engine cfg) of
        None \<Rightarrow> (ViewerErrorResponse (vr_RequestID r) (Some
          (NewFailure ErrorViewerUnavailable ''browser runtime Viewer is unavailable'' False)), w)
      | Some executeViewer \<Rightarrow>
          (case executeViewer (vr_Deadline r) (vr_Identity r) (vr_Operation r) (vr_Input r) w of
            ((frame, f), w') \<Rightarrow>
              (let f' = (if f = None \<and> en_expired (sc_Engine cfg) (vr_Deadline r) w'
                 then Some expired_viewer else f) in
               (viewer_outcome ext (vr_RequestID r) frame f', w'))))"

definition handleViewerConnection ::
    "externals \<Rightarrow> codecs \<Rightarrow> 'w server_config \<Rightarrow> bytes \<Rightarrow> go_time \<Rightarrow> server \<Rightarrow> 'w
     \<Rightarrow> viewer_response \<times> server \<times> 'w" where
  "handleViewerConnection ext cd cfg raw now s w =
     (case DecodeViewerRequest (cd_viewer_request cd) raw of
        None \<Rightarrow> (ViewerErrorResponse [] (Some
          (NewFailure ErrorProtocolInvalid ''browser viewer request is not valid'' False)), s, w)
      | Some r \<Rightarrow>
          if vr_ChannelCredential r \<noteq> sc_ChannelCredential cfg then
            (ViewerErrorResponse (vr_RequestID r) (Some
              (NewFailure ErrorUnauthorized ''browser viewer channel credential is invalid'' False)), s, w)
          else (case ViewerRequest_Validate ext now r of
            Some f \<Rightarrow> (ViewerErrorResponse (vr_RequestID r) (Some f), s, w)
          | None \<Rightarrow>
          (case lv_Validate (sc_Lease cfg) (vr_Identity r) w of
            (Some f, w1) \<Rightarrow> (ViewerErrorResponse (vr_RequestID r) (Some f), s, w1)
          | (None, w1) \<Rightarrow>
          (case reserveViewerRequest (vr_Identity r) (vr_RequestID r) s of
            (Some f, s1) \<Rightarrow> (ViewerErrorResponse (vr_RequestID r) (Some f), s1, w1)
          | (None, s1) \<Rightarrow>
          (case run_viewer ext cfg r w1 of (reply, w2) \<Rightarrow> (reply, s1, w2))))))"

section \<open>Browser actions\<close>

definition close_action :: action where
  "close_action = Action ActionClose ObservationDefault [] [] None None None None [] [] [] None []"

definition refuse :: "request \<Rightarrow> failure \<Rightarrow> response" where
  "refuse r f = ErrorResponse (req_RequestID r) (Some f)"

text \<open>
  The lease checks before the reservation. A closing request may go on with a lease that is
  already revoked; the result tells whether it is.
\<close>

definition lease_gate ::
    "'w server_config \<Rightarrow> request \<Rightarrow> 'w \<Rightarrow> (failure + 'w lease_revoker option \<times> bool) \<times> 'w" where
  "lease_gate cfg r w =
     (if act_Kind (req_Action r) = ActionClose then
        (case lv_revoker (sc_Lease cfg) of
           None \<Rightarrow> (Inl (NewFailure ErrorRuntimeUnavailable
             ''browser runtime lease does not support durable closure'' False), w)
         | Some revoker \<Rightarrow>
             (case rv_IsRevoked revoker (req_Identity r) w of
                ((_, Some f), w1) \<Rightarrow> (Inl f, w1)
              | ((True, None), w1) \<Rightarrow> (Inr (Some revoker, True), w1)
              | ((False, None), w1) \<Rightarrow>
                  (case lv_Validate (sc_Lease cfg) (req_Identity r) w1 of
                     (Some f, w2) \<Rightarrow> (Inl f, w2)
                   | (None, w2) \<Rightarrow> (Inr (Some revoker, False), w2))))
      else
        (case lv_Validate (sc_Lease cfg) (req_Identity r) w of
           (Some f, w1) \<Rightarrow> (Inl f, w1)
         | (None, w1) \<Rightarrow> (Inr (None, False), w1)))"

definition revoke_gate ::
    "'w lease_revoker option \<Rightarrow> bool \<Rightarrow> identity \<Rightarrow> 'w \<Rightarrow> failure option \<times> 'w" where
  "revoke_gate revoker alreadyRevoked i w =
     (case revoker of
        None \<Rightarrow> (None, w)
      | Some rv \<Rightarrow> if alreadyRevoked then (None, w) else rv_Revoke rv i w)"

definition expired_action :: failure where
  "expired_action = NewFailure ErrorDeadlineExceeded ''browser action deadline elapsed'' True"

definition run_action ::
    "'w server_config \<Rightarrow> request \<Rightarrow> 'w \<Rightarrow> (observation \<times> failure option) \<times> 'w" where
  "run_action cfg r w =
     (case en_Execute (sc_Engine cfg) (req_Deadline r) (req_Identity r) (req_Action r) w of
        ((obs, f), w') \<Rightarrow>
          ((obs, if f = None \<and> en_expired (sc_Engine cfg) (req_Deadline r) w'
             then Some expired_action else f), w'))"

text \<open>The close is given five seconds of the wall clock, whatever the request's deadline.\<close>

definition closeRequiredChallenge ::
    "'w server_config \<Rightarrow> ('w \<Rightarrow> go_time) \<Rightarrow> identity \<Rightarrow> server \<Rightarrow> 'w
     \<Rightarrow> failure option \<times> server \<times> 'w" where
  "closeRequiredChallenge cfg wall_clock i s w =
     (case lv_revoker (sc_Lease cfg) of
        None \<Rightarrow> (Some (NewFailure ErrorRuntimeUnavailable
          ''browser runtime cannot durably fence a required challenge'' False), s, w)
      | Some revoker \<Rightarrow>
          (case rv_IsRevoked revoker i w of
             ((_, Some f), w1) \<Rightarrow> (Some f, s, w1)
           | ((revoked, None), w1) \<Rightarrow>
               (case revoke_gate (Some revoker) revoked i w1 of
                  (Some f, w2) \<Rightarrow> (Some f, s, w2)
                | (None, w2) \<Rightarrow>
                    (case en_Execute (sc_Engine cfg) (wall_clock w2 + 5 * Second) i close_action w2 of
                       (_, w3) \<Rightarrow> (None, s\<lparr>srv_terminal := True\<rparr>, w3)))))"

text \<open>An engine failure, before the challenge rule.\<close>

definition settle_failure ::
    "externals \<Rightarrow> request \<Rightarrow> failure \<Rightarrow> server \<Rightarrow> failure \<times> server" where
  "settle_failure ext r f s =
     (case ValidateFailure ext (Some f) of
        Some invalid \<Rightarrow> (invalid, s)
      | None \<Rightarrow>
          if act_Kind (req_Action r) = ActionClick \<and> fl_Code f = ErrorHighImpactActionBlocked
          then recordBlockedClick (req_Identity r) f s
          else if fl_EngineProcessReset f
          then (f, resetClickNavigationBaseline (req_Identity r) s)
          else (f, s))"

definition failure_outcome ::
    "externals \<Rightarrow> 'w server_config \<Rightarrow> ('w \<Rightarrow> go_time) \<Rightarrow> request \<Rightarrow> failure \<Rightarrow> server \<Rightarrow> 'w
     \<Rightarrow> response \<times> server \<times> 'w" where
  "failure_outcome ext cfg wall_clock r f0 s0 w =
     (case settle_failure ext r f0 s0 of
        (f, s) \<Rightarrow>
          if fl_Code f = ErrorChallengeRequired then
            if sc_HumanControlAvailable cfg then
              (refuse r (f\<lparr>fl_HumanControlAvailable := True\<rparr>), s, w)
            else
              (case closeRequiredChallenge cfg wall_clock (req_Identity r) s w of
                 (Some terminalFailure, s', w') \<Rightarrow> (refuse r terminalFailure, s', w')
               | (None, s', w') \<Rightarrow> (refuse r f, s', w'))
          else (refuse r f, s, w))"

definition observation_outcome ::
    "externals \<Rightarrow> request \<Rightarrow> observation \<Rightarrow> server \<Rightarrow> response \<times> server" where
  "observation_outcome ext r obs s =
     (let success = SuccessResponse (req_RequestID r) obs in
      if act_Kind (req_Action r) = ActionClose then
        (case ValidateClosed obs of
           Some f \<Rightarrow> (refuse r f, s)
         | None \<Rightarrow> (success, s))
      else
        (case ValidateEngine ext obs of
           Some f \<Rightarrow> (refuse r f, s)
         | None \<Rightarrow>
             (case recordEngineObservation (req_Identity r) obs s of
                (Some f, s') \<Rightarrow> (refuse r f, s')
              | (None, s') \<Rightarrow>
                  (success,
                   if act_Kind (req_Action r) = ActionCheckpoint
                   then resetClickNavigationBaseline (req_Identity r) s' else s'))))"

definition execute_request ::
    "externals \<Rightarrow> 'w server_config \<Rightarrow> ('w \<Rightarrow> go_time) \<Rightarrow> request \<Rightarrow> server \<Rightarrow> 'w
     \<Rightarrow> response \<times> server \<times> 'w" where
  "execute_request ext cfg wall_clock r s w =
     (case run_action cfg r w of
        ((obs, Some f), w') \<Rightarrow> failure_outcome ext cfg wall_clock r f s w'
      | ((obs, None), w') \<Rightarrow>
          (case observation_outcome ext r obs s of (reply, s') \<Rightarrow> (reply, s', w')))"

definition handleBrowserRequest ::
    "externals \<Rightarrow> 'w server_config \<Rightarrow> ('w \<Rightarrow> go_time) \<Rightarrow> go_time \<Rightarrow> request \<Rightarrow> server \<Rightarrow> 'w
     \<Rightarrow> response \<times> server \<times> 'w" where
  "handleBrowserRequest ext cfg wall_clock now r s w =
     (if req_ChannelCredential r \<noteq> sc_ChannelCredential cfg then
        (refuse r (NewFailure ErrorUnauthorized ''browser channel credential is invalid'' False), s, w)
      else (case Request_Validate ext now r of
        Some f \<Rightarrow> (refuse r f, s, w)
      | None \<Rightarrow>
      (case lease_gate cfg r w of
        (Inl f, w1) \<Rightarrow> (refuse r f, s, w1)
      | (Inr (revoker, alreadyRevoked), w1) \<Rightarrow>
      (case reserveRequest (sc_MaxRequests cfg) (req_Identity r) (req_RequestID r) (req_Action r) s of
        (Some f, s1) \<Rightarrow> (refuse r f, s1, w1)
      | (None, s1) \<Rightarrow>
      (case revoke_gate revoker alreadyRevoked (req_Identity r) w1 of
        (Some f, w2) \<Rightarrow> (refuse r f, s1, w2)
      | (None, w2) \<Rightarrow> execute_request ext cfg wall_clock r s1 w2)))))"

section \<open>Dispatch\<close>

definition handleConnection ::
    "externals \<Rightarrow> codecs \<Rightarrow> 'w server_config \<Rightarrow> ('w \<Rightarrow> go_time) \<Rightarrow> arrival \<Rightarrow> server \<Rightarrow> 'w
     \<Rightarrow> reply \<times> server \<times> 'w" where
  "handleConnection ext cd cfg wall_clock arrived s w =
     (let now = sc_Now cfg w in
      case readRequest (sc_MaxRequestBytes cfg) arrived of
        Inl f \<Rightarrow> (BrowserReply (ErrorResponse [] (Some f)), s, w)
      | Inr raw \<Rightarrow>
          if cd_envelope cd raw = Some ViewerContractID then
            (case handleViewerConnection ext cd cfg raw now s w of
               (reply, s', w') \<Rightarrow> (ViewerReply reply, s', w'))
          else if cd_envelope cd raw = Some HealthContractID then
            (HealthReply (handleHealthConnection cd (sc_ChannelCredential cfg) raw), s, w)
          else
            (case decodeRequest (cd_request cd) (sc_MaxRequestBytes cfg) raw of
               (r, Some f) \<Rightarrow> (BrowserReply (refuse r f), s, w)
             | (r, None) \<Rightarrow>
                 (case handleBrowserRequest ext cfg wall_clock now r s w of
                    (reply, s', w') \<Rightarrow> (BrowserReply reply, s', w'))))"

end
