(* ===== verification/Client.thy ===== *)
theory Client
  imports Lease Connection
begin

text \<open>
  The client side, \<^verbatim>\<open>browserclient/client.go\<close> and \<^verbatim>\<open>browserclient/exchange_unix.go\<close>: building a
  request under a lease, one exchange over the Unix socket, and checking what came back.
\<close>

section \<open>Request identifiers\<close>

text \<open>Sixteen random bytes, or none when the generator fails, as a version 4 UUID.\<close>

definition uuid_bytes :: "8 word list \<Rightarrow> 8 word list" where
  "uuid_bytes raw = (raw[6 := (raw ! 6 AND 0x0f) OR 0x40])[8 := (raw ! 8 AND 0x3f) OR 0x80]"

definition slice :: "nat \<Rightarrow> nat \<Rightarrow> string \<Rightarrow> string" where
  "slice low high s = take (high - low) (drop low s)"

definition uuid_text :: "8 word list \<Rightarrow> string" where
  "uuid_text raw =
     (let encoded = hex_encode (map (\<lambda>b. char_of (unat b)) (uuid_bytes raw)) in
      slice 0 8 encoded @ ''-'' @ slice 8 12 encoded @ ''-'' @ slice 12 16 encoded @ ''-''
      @ slice 16 20 encoded @ ''-'' @ slice 20 32 encoded)"

definition newRequestID :: "8 word list option \<Rightarrow> string option" where
  "newRequestID random = map_option uuid_text random"

section \<open>The client\<close>

record client =
  cl_socketPath :: string
  cl_channelCredential :: string
  cl_lease :: lease
  cl_timeout :: go_time

record client_config =
  cc_SocketPath :: string
  cc_CredentialFile :: string
  cc_LeaseFile :: string
  cc_Timeout :: go_time

datatype client_error =
    ClientSocketPathNotAbsolute | CredentialUnreadable | CredentialInvalid
  | LeaseUnreadable | LeaseNotValid failure | ClientTimeoutInvalid

definition maxChannelCredentialSize :: nat where "maxChannelCredentialSize = 512"
definition defaultTimeout :: go_time where "defaultTimeout = 20 * Second"

definition carriage :: char where "carriage = char_of (13::nat)"

definition channel_credential :: "bytes \<Rightarrow> string" where
  "channel_credential raw = TrimSuffix (TrimSuffix raw [newline]) [carriage]"

definition credential_bad :: "string \<Rightarrow> bool" where
  "credential_bad c \<longleftrightarrow> length c < 32 \<or> maxChannelCredentialSize < length c
     \<or> ContainsAny c [carriage, newline, char_of (9::nat), CHR '' '']"

text \<open>
  \<open>read_owner\<close> is what reading an owner-only file of a path gives, and \<open>lease_codec\<close> the strict
  JSON reader of the lease document.
\<close>

definition loadLease ::
    "externals \<Rightarrow> (string \<Rightarrow> bytes option) \<Rightarrow> lease codec \<Rightarrow> string \<Rightarrow> go_time \<Rightarrow> client_error + lease" where
  "loadLease ext read_owner lease_codec path now =
     (case read_owner path of
        None \<Rightarrow> Inl LeaseUnreadable
      | Some raw \<Rightarrow>
          (case strict_decode lease_codec raw of
             None \<Rightarrow> Inl LeaseUnreadable
           | Some l \<Rightarrow>
               (case Lease_Validate ext now l of
                  Some f \<Rightarrow> Inl (LeaseNotValid f)
                | None \<Rightarrow> Inr l)))"

definition NewClient ::
    "externals \<Rightarrow> (string \<Rightarrow> bytes option) \<Rightarrow> lease codec \<Rightarrow> go_time \<Rightarrow> client_config \<Rightarrow> client_error + client" where
  "NewClient ext read_owner lease_codec now config =
     (let socketPath = Clean (TrimSpace (cc_SocketPath config)) in
      if \<not> IsAbs socketPath then Inl ClientSocketPathNotAbsolute
      else (case read_owner (cc_CredentialFile config) of
        None \<Rightarrow> Inl CredentialUnreadable
      | Some raw \<Rightarrow>
          if credential_bad (channel_credential raw) then Inl CredentialInvalid
          else (case loadLease ext read_owner lease_codec (cc_LeaseFile config) now of
            Inl e \<Rightarrow> Inl e
          | Inr l \<Rightarrow>
              (let timeout = (if cc_Timeout config = 0 then defaultTimeout else cc_Timeout config) in
               if timeout < Second \<or> MaxActionDeadline < timeout then Inl ClientTimeoutInvalid
               else Inr \<lparr>cl_socketPath = socketPath, cl_channelCredential = channel_credential raw,
                         cl_lease = l, cl_timeout = timeout\<rparr>))))"

section \<open>One exchange\<close>

datatype context_error = ContextLive | ContextCanceled | ContextDeadlineExceeded

definition contextFailure :: "context_error \<Rightarrow> string \<Rightarrow> failure" where
  "contextFailure ctx operation =
     (case ctx of
        ContextCanceled \<Rightarrow> NewFailure ErrorCanceled ''browser request was canceled'' False
      | ContextDeadlineExceeded \<Rightarrow>
          NewFailure ErrorDeadlineExceeded ''browser request exceeded its deadline'' True
      | ContextLive \<Rightarrow> NewFailure ErrorRuntimeUnavailable (operation @ '' failed'') True)"

text \<open>
  What the socket does during one exchange: which of its operations fail, the state of the
  context at the time of each check, and the bytes that arrive. \<open>ex_timed_out\<close> tells that the
  read which failed did so because of a deadline.
\<close>

record socket_run =
  ex_dial_ok :: bool
  ex_dial_ctx :: context_error
  ex_deadline_ok :: bool
  ex_send_ok :: bool
  ex_send_ctx :: context_error
  ex_close_ok :: bool
  ex_close_ctx :: context_error
  ex_read_deadline_ok :: bool
  ex_wait_ctx :: context_error
  ex_input :: bytes
  ex_read_ctx :: context_error
  ex_timed_out :: bool

definition classifyRuntimeDecodeFailure :: "socket_run \<Rightarrow> nat \<Rightarrow> string \<Rightarrow> failure" where
  "classifyRuntimeDecodeFailure run bytesRead label =
     (if ex_read_ctx run \<noteq> ContextLive then
        contextFailure (ex_read_ctx run) (''read '' @ label @ '' response'')
      else if ex_timed_out run then
        NewFailure ErrorRuntimeUnavailable (label @ '' response timed out'') True
      else if bytesRead = 0 then
        NewFailure ErrorRuntimeUnavailable (label @ '' closed without a response'') True
      else NewFailure ErrorOutputInvalid (label @ '' response is invalid'') False)"

text \<open>
  The reading half of both exchanges. \<open>early\<close> tells whether the limit is checked after the first
  value too, as \<^verbatim>\<open>exchange\<close> does and \<^verbatim>\<open>exchangeViewer\<close> does not.
\<close>

definition receive :: "bool \<Rightarrow> string \<Rightarrow> 'r codec \<Rightarrow> socket_run \<Rightarrow> failure + 'r" where
  "receive early label c run =
     (let n = MaxResponseBytes + 1;
          d = c (take n (ex_input run));
          oversize = NewFailure ErrorOutputTooLarge (label @ '' response exceeds the output limit'') False in
      if dec_first d \<noteq> DecodeOK then
        (if dec_first_read d = n then Inl oversize
         else Inl (classifyRuntimeDecodeFailure run (dec_first_read d) label))
      else if early \<and> dec_first_read d = n then Inl oversize
      else if dec_second d \<noteq> DecodeEOF then
        (if dec_second_read d = n then Inl oversize
         else if dec_second d = DecodeFailed then
           Inl (classifyRuntimeDecodeFailure run (dec_second_read d) label)
         else Inl (NewFailure ErrorOutputInvalid (label @ '' response contains trailing data'') False))
      else Inr (dec_value d))"

definition exchange :: "response codec \<Rightarrow> socket_run \<Rightarrow> failure + response" where
  "exchange c run =
     (if \<not> ex_dial_ok run then Inl (contextFailure (ex_dial_ctx run) ''connect to Browser Runtime'')
      else if \<not> ex_deadline_ok run then
        Inl (NewFailure ErrorRuntimeUnavailable ''set Browser Runtime deadline'' True)
      else if \<not> ex_send_ok run then
        Inl (contextFailure (ex_send_ctx run) ''send Browser Runtime request'')
      else if \<not> ex_close_ok run then
        Inl (contextFailure (ex_close_ctx run) ''finish Browser Runtime request'')
      else if \<not> ex_read_deadline_ok run then
        Inl (contextFailure (ex_wait_ctx run) ''set Browser Runtime response deadline'')
      else if ex_wait_ctx run \<noteq> ContextLive then
        Inl (contextFailure (ex_wait_ctx run) ''read Browser Runtime response'')
      else receive True ''Browser Runtime'' c run)"

definition exchangeViewer :: "viewer_response codec \<Rightarrow> socket_run \<Rightarrow> failure + viewer_response" where
  "exchangeViewer c run =
     (if \<not> ex_dial_ok run then
        Inl (contextFailure (ex_dial_ctx run) ''connect to Browser Runtime Viewer'')
      else if \<not> ex_deadline_ok run then
        Inl (NewFailure ErrorRuntimeUnavailable ''set Browser Runtime Viewer deadline'' True)
      else if \<not> ex_send_ok run then
        Inl (contextFailure (ex_send_ctx run) ''send Browser Runtime Viewer request'')
      else if \<not> ex_close_ok run then
        Inl (contextFailure (ex_close_ctx run) ''finish Browser Runtime Viewer request'')
      else receive False ''Browser Runtime Viewer'' c run)"

section \<open>Executing an action\<close>

text \<open>The deadline of a request: the timeout, the lease and the context, whichever is first.\<close>

definition request_deadline :: "client \<Rightarrow> go_time \<Rightarrow> go_time option \<Rightarrow> go_time" where
  "request_deadline c now contextDeadline =
     (let d = now + cl_timeout c;
          d1 = (if le_ExpiresAt (cl_lease c) < d then le_ExpiresAt (cl_lease c) else d) in
      case contextDeadline of
        None \<Rightarrow> d1
      | Some cd \<Rightarrow> if cd < d1 then cd else d1)"

definition client_request :: "client \<Rightarrow> string \<Rightarrow> go_time \<Rightarrow> action \<Rightarrow> request" where
  "client_request c requestID deadline a =
     \<lparr>req_ContractID = ContractID, req_ChannelCredential = cl_channelCredential c,
      req_RequestID = requestID, req_Deadline = deadline,
      req_Identity = le_Identity (cl_lease c), req_Action = a\<rparr>"

definition check_response ::
    "externals \<Rightarrow> string \<Rightarrow> action \<Rightarrow> response \<Rightarrow> failure + observation" where
  "check_response ext requestID a r =
     (if resp_ContractID r \<noteq> ContractID \<or> resp_RequestID r \<noteq> requestID then
        Inl (NewFailure ErrorOutputInvalid ''browser response identity is invalid'' False)
      else if resp_Status r = ''ok'' then
        (case resp_Observation r of
           None \<Rightarrow> Inl (NewFailure ErrorOutputInvalid ''browser success response is invalid'' False)
         | Some obs \<Rightarrow>
             if resp_Error r \<noteq> None then
               Inl (NewFailure ErrorOutputInvalid ''browser success response is invalid'' False)
             else
               (case (if act_Kind a = ActionClose then ValidateClosed obs else ValidateEngine ext obs) of
                  Some f \<Rightarrow> Inl f
                | None \<Rightarrow> Inr obs))
      else if resp_Status r = ''error'' then
        (case resp_Error r of
           None \<Rightarrow> Inl (NewFailure ErrorOutputInvalid ''browser error response is invalid'' False)
         | Some f \<Rightarrow>
             if resp_Observation r \<noteq> None then
               Inl (NewFailure ErrorOutputInvalid ''browser error response is invalid'' False)
             else (case ValidateFailure ext (Some f) of Some g \<Rightarrow> Inl g | None \<Rightarrow> Inl f))
      else Inl (NewFailure ErrorOutputInvalid ''browser response status is invalid'' False))"

text \<open>
  \<open>wire\<close> is the socket: what its exchange does when it is given a request. The client may be
  nil.
\<close>

definition Client_Execute ::
    "externals \<Rightarrow> response codec \<Rightarrow> (request \<Rightarrow> socket_run) \<Rightarrow> client option \<Rightarrow> go_time
     \<Rightarrow> go_time option \<Rightarrow> 8 word list option \<Rightarrow> action \<Rightarrow> failure + observation" where
  "Client_Execute ext codec wire cl now contextDeadline random a =
     (case cl of
        None \<Rightarrow> Inl (NewFailure ErrorRuntimeUnavailable ''browser client is not configured'' False)
      | Some c \<Rightarrow>
          (case ValidateForPolicy ext (id_BrowserInteractionPolicy (le_Identity (cl_lease c))) a of
             Some f \<Rightarrow> Inl f
           | None \<Rightarrow>
          (case Lease_Validate ext now (cl_lease c) of
             Some f \<Rightarrow> Inl f
           | None \<Rightarrow>
          (case newRequestID random of
             None \<Rightarrow> Inl (NewFailure ErrorInternal ''generate browser request identifier'' True)
           | Some requestID \<Rightarrow>
          (case exchange codec (wire (client_request c requestID (request_deadline c now contextDeadline) a)) of
             Inl f \<Rightarrow> Inl f
           | Inr r \<Rightarrow> check_response ext requestID a r)))))"

section \<open>Executing a Viewer operation\<close>

definition client_viewer_request ::
    "client \<Rightarrow> string \<Rightarrow> go_time \<Rightarrow> viewer_operation \<Rightarrow> viewer_input option \<Rightarrow> viewer_request" where
  "client_viewer_request c requestID deadline operation inp =
     \<lparr>vr_ContractID = ViewerContractID, vr_ChannelCredential = cl_channelCredential c,
      vr_RequestID = requestID, vr_Deadline = deadline,
      vr_Identity = le_Identity (cl_lease c), vr_Operation = operation, vr_Input = inp\<rparr>"

definition check_viewer_response ::
    "externals \<Rightarrow> string \<Rightarrow> viewer_operation \<Rightarrow> viewer_response \<Rightarrow> failure + viewer_frame option" where
  "check_viewer_response ext requestID operation r =
     (if vresp_ContractID r \<noteq> ViewerContractID \<or> vresp_RequestID r \<noteq> requestID then
        Inl (NewFailure ErrorOutputInvalid ''browser Viewer response identity is invalid'' False)
      else if vresp_Status r = ''ok'' then
        (if vresp_Error r \<noteq> None
            \<or> (operation = ViewerOperationFrame) \<noteq> (vresp_Frame r \<noteq> None) then
           Inl (NewFailure ErrorOutputInvalid ''browser Viewer success response is invalid'' False)
         else
           (case vresp_Frame r of
              None \<Rightarrow> Inr None
            | Some frame \<Rightarrow>
                (case ViewerFrame_Validate frame of Some f \<Rightarrow> Inl f | None \<Rightarrow> Inr (Some frame))))
      else if vresp_Status r = ''error'' then
        (case vresp_Error r of
           None \<Rightarrow> Inl (NewFailure ErrorOutputInvalid ''browser Viewer error response is invalid'' False)
         | Some f \<Rightarrow>
             if vresp_Frame r \<noteq> None then
               Inl (NewFailure ErrorOutputInvalid ''browser Viewer error response is invalid'' False)
             else (case ValidateFailure ext (Some f) of Some g \<Rightarrow> Inl g | None \<Rightarrow> Inl f))
      else Inl (NewFailure ErrorOutputInvalid ''browser Viewer response status is invalid'' False))"

definition Client_ExecuteViewer ::
    "externals \<Rightarrow> viewer_response codec \<Rightarrow> (viewer_request \<Rightarrow> socket_run) \<Rightarrow> client option \<Rightarrow> go_time
     \<Rightarrow> go_time option \<Rightarrow> 8 word list option \<Rightarrow> viewer_operation \<Rightarrow> viewer_input option
     \<Rightarrow> failure + viewer_frame option" where
  "Client_ExecuteViewer ext codec wire cl now contextDeadline random operation inp =
     (case cl of
        None \<Rightarrow> Inl (NewFailure ErrorRuntimeUnavailable ''browser Viewer client is not configured'' False)
      | Some c \<Rightarrow>
          (case Lease_Validate ext now (cl_lease c) of
             Some f \<Rightarrow> Inl f
           | None \<Rightarrow>
          (case newRequestID random of
             None \<Rightarrow> Inl (NewFailure ErrorInternal ''generate browser Viewer request identifier'' True)
           | Some requestID \<Rightarrow>
          (let r = client_viewer_request c requestID (request_deadline c now contextDeadline) operation inp in
           case ViewerRequest_Validate ext now r of
             Some f \<Rightarrow> Inl f
           | None \<Rightarrow>
          (case exchangeViewer codec (wire r) of
             Inl f \<Rightarrow> Inl f
           | Inr response \<Rightarrow> check_viewer_response ext requestID operation response)))))"

end
