(* ===== verification/ServerFacts.thy ===== *)
theory ServerFacts
  imports RuntimeServer
begin

text \<open>
  The invariant of the server state and what each operation does to it.
\<close>

section \<open>The invariant\<close>

text \<open>
  Every budget is within its limit; the identifiers seen are at most the reservations counted;
  three close attempts make the attachment terminal; and once a click was blocked in the Run,
  there is evidence of it to report.
\<close>

definition wf_budgets :: "int \<Rightarrow> server \<Rightarrow> bool" where
  "wf_budgets maxRequests s \<longleftrightarrow>
     0 \<le> srv_actionCount s \<and> srv_actionCount s \<le> maxRequests
     \<and> 0 \<le> srv_viewerCount s \<and> srv_viewerCount s \<le> maxViewerRequestsPerEpoch
     \<and> 0 \<le> srv_closeCount s \<and> srv_closeCount s \<le> maxCloseAttemptsPerAttachment
     \<and> (srv_closeCount s = maxCloseAttemptsPerAttachment \<longrightarrow> srv_terminal s)"

definition wf_seen :: "server \<Rightarrow> bool" where
  "wf_seen s \<longleftrightarrow> finite (srv_seen s)
     \<and> int (card (srv_seen s)) \<le> srv_actionCount s + srv_viewerCount s + srv_closeCount s"

definition wf_clicks :: "server \<Rightarrow> bool" where
  "wf_clicks s \<longleftrightarrow>
     0 \<le> srv_blockedClickNavigationCount s
     \<and> srv_blockedClickNavigationCount s \<le> maxBlockedClicksPerNavigation
     \<and> srv_blockedClickNavigationCount s \<le> srv_blockedClickRunCount s
     \<and> srv_blockedClickRunCount s \<le> maxBlockedClicksPerRun
     \<and> (0 < srv_blockedClickNavigationCount s \<longrightarrow> srv_clickNavigationGeneration s \<noteq> 0)
     \<and> (0 < srv_blockedClickRunCount s \<longrightarrow>
          validTargetCategory (srv_lastBlockedTargetCategory s)
          \<and> srv_clickPageStateID s \<noteq> [] \<and> length (srv_clickPageStateID s) \<le> 256)"

definition wf_server :: "int \<Rightarrow> server \<Rightarrow> bool" where
  "wf_server maxRequests s \<longleftrightarrow> wf_budgets maxRequests s \<and> wf_seen s \<and> wf_clicks s"

lemmas wf_parts = wf_budgets_def wf_seen_def wf_clicks_def

lemma wf_new_server: "0 \<le> m \<Longrightarrow> wf_server m new_server"
  by (simp add: wf_server_def wf_parts new_server_def budget_limits)

section \<open>Frames\<close>

text \<open>What the two scope functions leave alone.\<close>

lemma enter_scope_clicks [simp, frames]:
  "srv_clickRunID (enter_scope i s) = srv_clickRunID s"
  "srv_blockedClickRunCount (enter_scope i s) = srv_blockedClickRunCount s"
  "srv_clickNavigationScope (enter_scope i s) = srv_clickNavigationScope s"
  "srv_clickEngineInstanceID (enter_scope i s) = srv_clickEngineInstanceID s"
  "srv_clickNavigationGeneration (enter_scope i s) = srv_clickNavigationGeneration s"
  "srv_blockedClickNavigationCount (enter_scope i s) = srv_blockedClickNavigationCount s"
  "srv_clickPageStateID (enter_scope i s) = srv_clickPageStateID s"
  "srv_lastBlockedTargetCategory (enter_scope i s) = srv_lastBlockedTargetCategory s"
  by (simp_all add: enter_scope_def Let_def)

lemma enter_scope_scope [simp]: "srv_seenScope (enter_scope i s) = attachmentRequestScope i"
  by (simp add: enter_scope_def Let_def)

lemma enter_scope_same:
  "srv_seenScope s = attachmentRequestScope i \<Longrightarrow> enter_scope i s = s"
  by (simp add: enter_scope_def)

lemma enter_scope_other:
  "srv_seenScope s \<noteq> attachmentRequestScope i \<Longrightarrow>
     srv_seen (enter_scope i s) = {} \<and> srv_actionCount (enter_scope i s) = 0
     \<and> srv_viewerCount (enter_scope i s) = 0 \<and> srv_closeCount (enter_scope i s) = 0
     \<and> \<not> srv_terminal (enter_scope i s)"
  by (simp add: enter_scope_def Let_def)

lemma prepareClickScope_budgets [simp, frames]:
  "srv_seenScope (prepareClickScope i s) = srv_seenScope s"
  "srv_seen (prepareClickScope i s) = srv_seen s"
  "srv_actionCount (prepareClickScope i s) = srv_actionCount s"
  "srv_viewerCount (prepareClickScope i s) = srv_viewerCount s"
  "srv_closeCount (prepareClickScope i s) = srv_closeCount s"
  "srv_terminal (prepareClickScope i s) = srv_terminal s"
  by (simp_all add: prepareClickScope_def Let_def)

text \<open>A state is prepared for an identity when the click scope is its Run and its session.\<close>

definition prepared :: "identity \<Rightarrow> server \<Rightarrow> bool" where
  "prepared i s \<longleftrightarrow> srv_clickRunID s = id_RunID i \<and> srv_clickNavigationScope s = navigation_scope i"

lemma prepared_prepareClickScope [simp]: "prepared i (prepareClickScope i s)"
  by (simp add: prepared_def prepareClickScope_def Let_def)

lemma prepareClickScope_prepared [simp]: "prepared i s \<Longrightarrow> prepareClickScope i s = s"
  by (simp add: prepared_def prepareClickScope_def)

lemma wf_enter_scope: "wf_server m s \<Longrightarrow> 0 \<le> m \<Longrightarrow> wf_server m (enter_scope i s)"
  by (cases "srv_seenScope s = attachmentRequestScope i")
    (auto simp: enter_scope_same wf_server_def wf_parts budget_limits dest: enter_scope_other)

lemma wf_prepareClickScope: "wf_server m s \<Longrightarrow> wf_server m (prepareClickScope i s)"
  by (auto simp: wf_server_def wf_parts prepareClickScope_def Let_def budget_limits)

section \<open>Reservations\<close>

lemma card_insert_le: "finite A \<Longrightarrow> card (insert x A) \<le> Suc (card A)"
  by (simp add: card_insert_if)

lemma wf_seen_insert:
  assumes "wf_seen s" "requestID \<notin> srv_seen s"
    and "srv_seen s' = insert requestID (srv_seen s)"
    and "srv_actionCount s + srv_viewerCount s + srv_closeCount s + 1
       \<le> srv_actionCount s' + srv_viewerCount s' + srv_closeCount s'"
  shows "wf_seen s'"
  using assms by (simp add: wf_seen_def)

lemma wf_reserveViewerRequest:
  assumes "wf_server m s" "0 \<le> m"
  shows "wf_server m (snd (reserveViewerRequest i requestID s))"
proof -
  have w: "wf_server m (enter_scope i s)" using assms by (rule wf_enter_scope)
  then show ?thesis
    by (auto simp: reserveViewerRequest_def Let_def wf_server_def wf_seen_insert
        wf_budgets_def wf_clicks_def budget_limits)
qed

lemma wf_reserve_close:
  assumes "wf_server m s" "requestID \<notin> srv_seen s"
  shows "wf_server m (snd (reserve_close requestID s))"
  using assms
  by (auto simp: reserve_close_def wf_server_def wf_seen_insert [of s requestID] wf_budgets_def wf_seen_def
      wf_clicks_def budget_limits)

lemma wf_reserve_action:
  assumes "wf_server m s" "requestID \<notin> srv_seen s" "1 \<le> action_cost a"
  shows "wf_server m (snd (reserve_action m requestID a s))"
  using assms
  by (auto simp: reserve_action_def Let_def wf_server_def wf_seen_insert [of s requestID] wf_budgets_def
      wf_clicks_def budget_limits)

lemma wf_reserveRequest:
  assumes "wf_server m s" "0 \<le> m" "1 \<le> action_cost a"
  shows "wf_server m (snd (reserveRequest m i requestID a s))"
proof -
  have "wf_server m (prepareClickScope i (enter_scope i s))"
    using assms by (intro wf_prepareClickScope wf_enter_scope)
  then show ?thesis
    using assms(3) by (auto simp: reserveRequest_def Let_def wf_reserve_close wf_reserve_action)
qed

lemma prepared_frame:
  "prepared i s \<Longrightarrow> srv_clickRunID s' = srv_clickRunID s \<Longrightarrow>
   srv_clickNavigationScope s' = srv_clickNavigationScope s \<Longrightarrow> prepared i s'"
  by (simp add: prepared_def)

lemma prepared_reserveRequest: "prepared i (snd (reserveRequest m i requestID a s))"
  by (rule prepared_frame [OF prepared_prepareClickScope [of i "enter_scope i s"]])
    (auto simp: reserveRequest_def reserve_close_def reserve_action_def Let_def)

text \<open>A click that is let through has budget left.\<close>

lemma reserve_click_budget:
  assumes "reserveRequest m i requestID a s = (None, s')" "act_Kind a = ActionClick"
  shows "srv_blockedClickNavigationCount s' < maxBlockedClicksPerNavigation"
    and "srv_blockedClickRunCount s' < maxBlockedClicksPerRun"
  using assms by (auto simp: reserveRequest_def reserve_action_def Let_def split: if_splits)

section \<open>Engine reports\<close>

lemma acceptEngineState_frames [frames]:
  assumes "acceptEngineState e g s = (r, s')"
  shows "srv_seenScope s' = srv_seenScope s" "srv_seen s' = srv_seen s"
    "srv_actionCount s' = srv_actionCount s" "srv_viewerCount s' = srv_viewerCount s"
    "srv_closeCount s' = srv_closeCount s" "srv_terminal s' = srv_terminal s"
    "srv_clickRunID s' = srv_clickRunID s"
    "srv_clickNavigationScope s' = srv_clickNavigationScope s"
    "srv_blockedClickRunCount s' = srv_blockedClickRunCount s"
    "srv_clickPageStateID s' = srv_clickPageStateID s"
    "srv_lastBlockedTargetCategory s' = srv_lastBlockedTargetCategory s"
  using assms by (auto simp: acceptEngineState_def Let_def split: if_splits)

lemma acceptEngineState_accepts:
  assumes "acceptEngineState e g s = (None, s')"
  shows "g \<noteq> 0" "srv_clickNavigationGeneration s' = g"
    "srv_blockedClickNavigationCount s' \<in> {0, srv_blockedClickNavigationCount s}"
    "srv_clickEngineInstanceID s' \<noteq> 0"
  using assms by (auto simp: acceptEngineState_def Let_def split: if_splits)

lemma acceptEngineState_refuses:
  assumes "acceptEngineState e g s = (Some f, s')"
  shows "s' = s" "own_failure f"
  using assms by (auto simp: acceptEngineState_def Let_def message_eval split: if_splits)

lemma wf_acceptEngineState:
  assumes "wf_server m s" "acceptEngineState e g s = (r, s')"
  shows "wf_server m s'"
proof (cases r)
  case None
  then show ?thesis
    using assms acceptEngineState_frames [OF assms(2)] acceptEngineState_accepts [of e g s s']
    by (auto simp: wf_server_def wf_parts budget_limits)
next
  case (Some f)
  then show ?thesis using assms acceptEngineState_refuses by blast
qed

lemma wf_recordEngineObservation:
  assumes "wf_server m s" "obs_PageStateID obs \<noteq> []" "length (obs_PageStateID obs) \<le> 256"
  shows "wf_server m (snd (recordEngineObservation i obs s))"
proof -
  obtain r s' where a: "acceptEngineState (obs_EngineInstanceID obs) (obs_NavigationGeneration obs)
      (prepareClickScope i s) = (r, s')" by fastforce
  have "wf_server m s'"
    using wf_acceptEngineState [OF wf_prepareClickScope [OF assms(1)] a] .
  then show ?thesis
    using a assms(2,3) by (cases r) (auto simp: recordEngineObservation_def wf_server_def wf_parts)
qed

lemma wf_resetClickNavigationBaseline:
  "wf_server m s \<Longrightarrow> wf_server m (resetClickNavigationBaseline i s)"
  using wf_prepareClickScope [of m s i]
  by (auto simp: resetClickNavigationBaseline_def wf_server_def wf_parts budget_limits)

lemma wf_recordBlockedClick:
  assumes "wf_server m s" "prepared i s"
    and "srv_blockedClickNavigationCount s < maxBlockedClicksPerNavigation"
    and "srv_blockedClickRunCount s < maxBlockedClicksPerRun"
    and "validTargetCategory (fl_TargetCategory f)" "fl_PageStateID f \<noteq> []" "length (fl_PageStateID f) \<le> 256"
  shows "wf_server m (snd (recordBlockedClick i f s))"
proof -
  obtain r s' where a: "acceptEngineState (fl_EngineInstanceID f) (fl_NavigationGeneration f) s = (r, s')"
    by fastforce
  have w: "wf_server m s'" using wf_acceptEngineState [OF assms(1) a] .
  show ?thesis
  proof (cases r)
    case None
    then have "acceptEngineState (fl_EngineInstanceID f) (fl_NavigationGeneration f) s = (None, s')"
      using a by simp
    from acceptEngineState_accepts [OF this] a w acceptEngineState_frames [OF a] assms None
    show ?thesis
      by (auto simp: recordBlockedClick_def wf_server_def wf_parts budget_limits Let_def)
  next
    case (Some g)
    with a w assms(2) show ?thesis by (simp add: recordBlockedClick_def)
  qed
qed

section \<open>The failures built from the state\<close>

lemma sint_small: "0 \<le> n \<Longrightarrow> n < 2 ^ 62 \<Longrightarrow> sint (word_of_int n :: go_int) = n"
  by (simp add: sint_sbintrunc' signed_take_bit_int_eq_self)

lemma outside_small:
  assumes "0 \<le> n" "n \<le> high" "high < 2 ^ 62"
  shows "\<not> outside (Some (word_of_int n :: go_int)) 0 high"
proof -
  have "sint (word_of_int n :: go_int) = n" using assms by (intro sint_small) simp_all
  with assms show ?thesis by (simp only: outside_def option.case) simp
qed

text \<open>The budgets of a failure do not disturb its other evidence.\<close>

lemma with_budgets_selectors [simp, selectors]:
  "fl_Code (with_budgets s f) = fl_Code f"
  "fl_Message (with_budgets s f) = fl_Message f"
  "fl_ActionIndex (with_budgets s f) = fl_ActionIndex f"
  "fl_CompletedActions (with_budgets s f) = fl_CompletedActions f"
  "fl_MutationRequestsObserved (with_budgets s f) = fl_MutationRequestsObserved f"
  "fl_TargetCategory (with_budgets s f) = fl_TargetCategory f"
  "fl_PageStateID (with_budgets s f) = fl_PageStateID f"
  "fl_NavigationGeneration (with_budgets s f) = fl_NavigationGeneration f"
  "fl_HumanControlAvailable (with_budgets s f) = fl_HumanControlAvailable f"
  "validateSiteFailureEvidence (with_budgets s f) = validateSiteFailureEvidence f"
  "validateMutationFailureEvidence ext (with_budgets s f) = validateMutationFailureEvidence ext f"
proof -
  show "validateSiteFailureEvidence (with_budgets s f) = validateSiteFailureEvidence f"
    by (cases "fl_SiteOutcome f") (simp_all add: with_budgets_def validateSiteFailureEvidence_def)
  have "origin_blocked_rejects ext (with_budgets s f) = origin_blocked_rejects ext f"
    by (cases "CanonicalMutationOrigins ext ''full'' (fl_BrowserMutationOrigins f)")
      (simp_all add: with_budgets_def origin_blocked_rejects_def)
  then show "validateMutationFailureEvidence ext (with_budgets s f) = validateMutationFailureEvidence ext f"
    by (simp add: with_budgets_def validateMutationFailureEvidence_eq outcome_unknown_rejects_def
        hasMutationEvidence_def)
qed (simp_all add: with_budgets_def)

lemma with_budgets_values:
  "fl_BlockedClickNavigationAttemptsRemaining (with_budgets s f) =
     Some (word_of_int (max 0 (maxBlockedClicksPerNavigation - srv_blockedClickNavigationCount s)))"
  "fl_BlockedClickRunAttemptsRemaining (with_budgets s f) =
     Some (word_of_int (max 0 (maxBlockedClicksPerRun - srv_blockedClickRunCount s)))"
  by (simp_all add: with_budgets_def)

lemma with_budgets_budgets [simp]:
  assumes "wf_clicks s"
  shows "\<not> outside (fl_BlockedClickNavigationAttemptsRemaining (with_budgets s f)) 0 3"
    "\<not> outside (fl_BlockedClickRunAttemptsRemaining (with_budgets s f)) 0 12"
    "fl_BlockedClickNavigationAttemptsRemaining (with_budgets s f) \<noteq> None"
    "fl_BlockedClickRunAttemptsRemaining (with_budgets s f) \<noteq> None"
proof -
  show "\<not> outside (fl_BlockedClickNavigationAttemptsRemaining (with_budgets s f)) 0 3"
    using assms unfolding with_budgets_values
    by (intro outside_small) (simp_all add: wf_clicks_def budget_limits)
  show "\<not> outside (fl_BlockedClickRunAttemptsRemaining (with_budgets s f)) 0 12"
    using assms unfolding with_budgets_values
    by (intro outside_small) (simp_all add: wf_clicks_def budget_limits)
qed (simp_all add: with_budgets_def)

lemma blocked_click_wf:
  assumes "wf_failure ext f" "fl_Code f = ErrorHighImpactActionBlocked" "wf_clicks s"
  shows "wf_failure ext (with_budgets s f)"
  using assms by (simp add: ValidateFailure_def click_context_rejects_eq)

text \<open>What the evidence of a blocked click must be.\<close>

lemma blocked_click_evidence:
  assumes "wf_failure ext f" "fl_Code f = ErrorHighImpactActionBlocked"
  shows "validTargetCategory (fl_TargetCategory f)" "fl_PageStateID f \<noteq> []"
    "length (fl_PageStateID f) \<le> 256" "fl_NavigationGeneration f \<noteq> 0"
  using assms by (auto simp: ValidateFailure_def click_context_rejects_eq)

lemma clickRetryFailure_selectors [simp, selectors]:
  "fl_Code (clickRetryFailure s) = ErrorClickRetryExhausted"
  "fl_NavigationGeneration (clickRetryFailure s) = srv_clickNavigationGeneration s"
  "fl_TargetCategory (clickRetryFailure s) = srv_lastBlockedTargetCategory s"
  "fl_PageStateID (clickRetryFailure s) = srv_clickPageStateID s"
  "fl_Message (clickRetryFailure s) = ''browser blocked-click retry budget is exhausted''"
  "fl_ActionIndex (clickRetryFailure s) = None"
  "fl_CompletedActions (clickRetryFailure s) = None"
  "fl_MutationRequestsObserved (clickRetryFailure s) = 0"
  "fl_HumanControlAvailable (clickRetryFailure s) = False"
  "validateSiteFailureEvidence (clickRetryFailure s) = None"
  "validateMutationFailureEvidence ext (clickRetryFailure s) = None"
proof -
  have m: "good_message ''browser blocked-click retry budget is exhausted''"
    by (simp add: message_eval)
  show "fl_Message (clickRetryFailure s) = ''browser blocked-click retry budget is exhausted''"
    using NewFailure_message [OF m] by (simp add: clickRetryFailure_def)
  define g where "g = (NewFailure ErrorClickRetryExhausted ''browser blocked-click retry budget is exhausted'' False)
       \<lparr>fl_TargetCategory := srv_lastBlockedTargetCategory s, fl_PageStateID := srv_clickPageStateID s,
        fl_NavigationGeneration := srv_clickNavigationGeneration s\<rparr>"
  have c: "clickRetryFailure s = with_budgets s g" by (simp add: clickRetryFailure_def g_def)
  have "validateSiteFailureEvidence g = None" "validateMutationFailureEvidence ext g = None"
    by (simp_all add: g_def validateSiteFailureEvidence_def validateMutationFailureEvidence_eq
        hasMutationEvidence_def)
  with c show "validateSiteFailureEvidence (clickRetryFailure s) = None"
    "validateMutationFailureEvidence ext (clickRetryFailure s) = None"
    by simp_all
qed (simp_all add: clickRetryFailure_def)

lemma retry_message:
  "TrimSpace ''browser blocked-click retry budget is exhausted'' = ''browser blocked-click retry budget is exhausted''"
  by (rule good_message_fixed) (simp add: message_eval)

lemma retry_failure_wf:
  assumes "wf_clicks s" "0 < srv_blockedClickRunCount s" "srv_clickNavigationGeneration s \<noteq> 0"
  shows "wf_failure ext (clickRetryFailure s)"
proof -
  have "\<not> outside (fl_BlockedClickNavigationAttemptsRemaining (clickRetryFailure s)) 0 3"
    "\<not> outside (fl_BlockedClickRunAttemptsRemaining (clickRetryFailure s)) 0 12"
    "fl_BlockedClickNavigationAttemptsRemaining (clickRetryFailure s) \<noteq> None"
    "fl_BlockedClickRunAttemptsRemaining (clickRetryFailure s) \<noteq> None"
    using assms(1) by (simp_all add: clickRetryFailure_def)
  moreover have "validTargetCategory (srv_lastBlockedTargetCategory s)" "srv_clickPageStateID s \<noteq> []"
    "length (srv_clickPageStateID s) \<le> 256"
    using assms(1,2) by (auto simp: wf_clicks_def)
  moreover have "\<not> outside (None :: go_int option) a b" for a b by (simp add: outside_def)
  ultimately show ?thesis
    using assms(3) by (simp add: ValidateFailure_def click_context_rejects_eq known_code_def retry_message)
qed

lemma retry_failure_refused:
  assumes "srv_clickNavigationGeneration s = 0"
  shows "\<not> wf_failure ext (clickRetryFailure s)"
  using assms by (simp add: ValidateFailure_def click_context_rejects_eq)

section \<open>What a refused reservation reports\<close>

text \<open>A failure the client can use, unless it is the retry failure without a generation.\<close>

definition reportable :: "externals \<Rightarrow> failure \<Rightarrow> bool" where
  "reportable ext f \<longleftrightarrow> wf_failure ext f
     \<or> (fl_Code f = ErrorClickRetryExhausted \<and> fl_NavigationGeneration f = 0)"

lemma reportable_wf: "wf_failure ext f \<Longrightarrow> reportable ext f"
  by (simp add: reportable_def)

lemma reportable_own: "own_failure f \<Longrightarrow> reportable ext f"
  by (simp add: reportable_wf own_failure_wf)

lemma reserveViewerRequest_own: "rejects own_failure (fst (reserveViewerRequest i requestID s))"
  by (auto simp: reserveViewerRequest_def Let_def message_eval intro!: own_failureI)

lemma reserve_close_own: "rejects own_failure (fst (reserve_close requestID s))"
  by (auto simp: reserve_close_def message_eval intro!: own_failureI)

lemma reserve_action_reportable:
  assumes "wf_clicks s"
  shows "rejects (reportable ext) (fst (reserve_action m requestID a s))"
proof -
  have retry: "reportable ext (clickRetryFailure s')"
    if "wf_clicks s'" "maxBlockedClicksPerNavigation \<le> srv_blockedClickNavigationCount s'
        \<or> maxBlockedClicksPerRun \<le> srv_blockedClickRunCount s'" for s'
  proof (cases "srv_clickNavigationGeneration s' = 0")
    case True
    then show ?thesis by (simp add: reportable_def)
  next
    case False
    have "0 < srv_blockedClickRunCount s'"
      using that by (auto simp: wf_clicks_def budget_limits)
    with that False show ?thesis by (simp add: reportable_wf retry_failure_wf)
  qed
  have "wf_clicks (s\<lparr>srv_seen := X, srv_actionCount := c\<rparr>)" for X c
    using assms by (simp add: wf_clicks_def)
  with retry show ?thesis
    by (auto simp: reserve_action_def Let_def message_eval intro!: reportable_own own_failureI)
qed

lemma reserveRequest_reportable:
  assumes "wf_server m s" "0 \<le> m"
  shows "rejects (reportable ext) (fst (reserveRequest m i requestID a s))"
proof -
  let ?s = "prepareClickScope i (enter_scope i s)"
  have "wf_clicks ?s"
    using wf_prepareClickScope [OF wf_enter_scope [OF assms]] by (simp add: wf_server_def)
  then have act: "rejects (reportable ext) (fst (reserve_action m requestID a ?s))"
    by (rule reserve_action_reportable)
  have cl: "rejects (reportable ext) (fst (reserve_close requestID ?s))"
    using reserve_close_own [of requestID ?s] by (auto simp: rejects_def reportable_own)
  show ?thesis
    using act cl by (auto simp: reserveRequest_def Let_def message_eval intro!: reportable_own own_failureI)
qed

end
