(* ===== verification/ActionFacts.thy ===== *)
theory ActionFacts
  imports Validation
begin

text \<open>
  What the actions that the policy check accepts look like.
\<close>

section \<open>Accepted actions by kind\<close>

lemma accepted_batch:
  assumes "ValidateForPolicy ext policy a = None" "act_Kind a = ActionBatch"
  shows "2 \<le> length (act_Actions a)" "length (act_Actions a) \<le> 8"
    "n \<in> set (act_Actions a) \<Longrightarrow> nested_rejects policy n = None \<and> ValidateForPolicy ext policy n = None"
  using assms by (auto simp: ValidateForPolicy.simps [of ext policy a])

lemma nested_accepted:
  assumes "nested_rejects policy n = None"
  shows "act_Observation n = ObservationDefault"
    "act_Kind n \<notin> {ActionBatch, ActionClose, ActionCheckpoint, ActionPreflight}"
    "policy \<noteq> ''full'' \<Longrightarrow> act_Kind n \<in> {ActionScroll, ActionWait, ActionScreenshot}"
  using assms by (auto simp: nested_rejects_def)

lemma accepted_click:
  assumes "ValidateForPolicy ext policy a = None" "act_Kind a = ActionClick"
  obtains x y where "act_X a = Some x" "act_Y a = Some y"
    "0 \<le> sint x" "sint x < ViewportWidth" "0 \<le> sint y" "sint y < ViewportHeight"
proof -
  from assms have "validateCoordinates (act_X a) (act_Y a) = None"
    by (simp add: ValidateForPolicy.simps [of ext policy a])
  then show ?thesis
    by (cases "act_X a"; cases "act_Y a") (auto simp: validateCoordinates_def not_less not_le intro: that)
qed

lemma accepted_fields:
  assumes "requireOnly a fs = None"
  shows "presentFields a f \<longleftrightarrow> f \<in> set fs"
proof -
  have "f \<in> set all_fields" by (cases f) (simp_all add: all_fields_def)
  then show ?thesis
    using assms by (auto simp: requireOnly_def allowOnly_def list_ex_iff)
qed

lemma go_abs_bound:
  assumes "sint (go_abs v) \<le> 32768"
  shows "\<bar>sint v\<bar> \<le> 32768 \<or> sint v = - (2 ^ 63)"
  using assms by (auto simp: go_abs_def sint_minus_go_int split: if_splits)

lemma go_abs_least: "sint (go_abs (word_of_int (- (2 ^ 63)))) = - (2 ^ 63)"
  by code_simp

section \<open>The policy only restricts\<close>

lemma keypress_mono: "keypress_rejects policy a = None \<Longrightarrow> keypress_rejects ''full'' a = None"
  by (simp add: keypress_rejects_def)

lemma select_mono: "select_rejects policy a = None \<Longrightarrow> select_rejects ''full'' a = None"
  by (simp add: select_rejects_def)

lemma nested_mono: "nested_rejects policy a = None \<Longrightarrow> nested_rejects ''full'' a = None"
  by (simp add: nested_rejects_def)

lemma policy_mono:
  "ValidateForPolicy ext policy a = None \<Longrightarrow> ValidateForPolicy ext ''full'' a = None"
proof (induction ext policy a rule: ValidateForPolicy.induct)
  case (1 ext policy a)
  have nested: "nested_rejects ''full'' n = None \<and> ValidateForPolicy ext ''full'' n = None"
    if "act_Kind a = ActionBatch" "n \<in> set (act_Actions a)" for n
    using accepted_batch(3) [OF "1.prems" that] "1.IH" [OF that(1,2)] nested_mono by blast
  show ?case
    using "1.prems" nested keypress_mono select_mono
    by (cases "act_Kind a")
      (auto simp: ValidateForPolicy.simps [of ext policy a] ValidateForPolicy.simps [of ext "''full''" a])
qed

section \<open>How deep a batch nests\<close>

function action_depth :: "action \<Rightarrow> nat" where
  "action_depth a = Suc (fold max (map action_depth (act_Actions a)) 0)"
  by pat_completeness auto
termination action_depth
  by (relation "measure size") (auto simp: nested_action_smaller)

declare action_depth.simps [simp del]

lemma fold_max_le: "(\<forall>n \<in> set ns. n \<le> b) \<Longrightarrow> k \<le> b \<Longrightarrow> fold max ns k \<le> (b :: nat)"
  by (induction ns arbitrary: k) auto

text \<open>Only a batch may carry actions.\<close>

lemma accepted_flat:
  assumes "ValidateForPolicy ext policy a = None" "act_Kind a \<noteq> ActionBatch"
  shows "act_Actions a = []"
proof -
  have field: "act_Actions a = [] \<longleftrightarrow> \<not> presentFields a F_actions"
    by (simp add: presentFields_def)
  have "allowOnly a fs = None \<Longrightarrow> F_actions \<notin> set fs \<Longrightarrow> act_Actions a = []" for fs
    by (auto simp: field allowOnly_def all_fields_def)
  then show ?thesis
    using assms
    by (cases "act_Kind a")
      (auto simp: ValidateForPolicy.simps [of ext policy a] requireOnly_def scroll_rejects_def
        keypress_rejects_def select_rejects_def wait_rejects_def plain_rejects_def split: if_splits)
qed

lemma accepted_depth:
  assumes "ValidateForPolicy ext policy a = None"
  shows "action_depth a \<le> 2"
proof (cases "act_Kind a = ActionBatch")
  case False
  then show ?thesis
    using accepted_flat [OF assms] by (simp add: action_depth.simps [of a])
next
  case True
  have "action_depth n = 1" if "n \<in> set (act_Actions a)" for n
  proof -
    have "act_Actions n = []"
      using accepted_batch(3) [OF assms True that] nested_accepted(2) [of policy n]
        accepted_flat [of ext policy n] by auto
    then show ?thesis by (simp add: action_depth.simps [of n])
  qed
  then show ?thesis
    by (subst action_depth.simps) (auto intro!: fold_max_le)
qed

end
