(* ===== verification/ConnectionFacts.thy ===== *)
theory ConnectionFacts
  imports Connection ServerFacts ActionFacts
begin

text \<open>
  The server over many connections: a step relation whose steps are handled connections, the
  invariant of every reachable state, the order of the calls to lease and engine, and what the
  answers are.
\<close>

section \<open>Accepted requests\<close>

lemma Request_Validate_accepts:
  assumes "Request_Validate ext now r = None"
  shows "req_ContractID r = ContractID" "IsValidUUID (req_RequestID r)"
    "Identity_Validate ext (req_Identity r) = None" "now < req_Deadline r"
    "req_Deadline r \<le> now + MaxActionDeadline"
    "ValidateForPolicy ext (id_BrowserInteractionPolicy (req_Identity r)) (req_Action r) = None"
  using assms by (auto simp: Request_Validate_def)

lemma accepted_cost:
  assumes "Request_Validate ext now r = None"
  shows "1 \<le> action_cost (req_Action r)"
  using accepted_batch(1) [OF Request_Validate_accepts(6) [OF assms]]
  by (auto simp: action_cost_def)

lemma ValidateEngine_page:
  assumes "ValidateEngine ext obs = None"
  shows "obs_PageStateID obs \<noteq> []" "length (obs_PageStateID obs) \<le> 256"
    "obs_NavigationGeneration obs \<noteq> 0"
  using assms by (auto simp: ValidateEngine_def validateCommon_def)

section \<open>The invariant is kept\<close>

lemma settle_failure_wf:
  assumes "wf_server m s" "prepared (req_Identity r) s"
    and "act_Kind (req_Action r) = ActionClick \<Longrightarrow>
      srv_blockedClickNavigationCount s < maxBlockedClicksPerNavigation
      \<and> srv_blockedClickRunCount s < maxBlockedClicksPerRun"
  shows "wf_server m (snd (settle_failure ext r f s))"
proof (cases "ValidateFailure ext (Some f)")
  case None
  then show ?thesis
    using assms blocked_click_evidence [OF None]
    by (auto simp: settle_failure_def intro: wf_recordBlockedClick wf_resetClickNavigationBaseline)
next
  case (Some g)
  then show ?thesis using assms(1) by (simp add: settle_failure_def)
qed

lemma wf_terminal: "wf_server m s \<Longrightarrow> wf_server m (s\<lparr>srv_terminal := True\<rparr>)"
  by (simp add: wf_server_def wf_parts)

lemma closeRequiredChallenge_state:
  assumes "closeRequiredChallenge cfg wall i s w = (r, s', w')"
  shows "s' = s \<or> s' = s\<lparr>srv_terminal := True\<rparr>"
  using assms by (auto simp: closeRequiredChallenge_def split: option.splits prod.splits)

lemma failure_outcome_wf:
  assumes "wf_server m (snd (settle_failure ext r f s))"
    and "failure_outcome ext cfg wall r f s w = (reply, s', w')"
  shows "wf_server m s'"
proof -
  obtain g s1 where g: "settle_failure ext r f s = (g, s1)" by fastforce
  obtain c s2 w2 where c: "closeRequiredChallenge cfg wall (req_Identity r) s1 w = (c, s2, w2)"
    by (metis prod_cases3)
  have "s' \<in> {s1, s2}"
    using assms(2) g c by (auto simp: failure_outcome_def split: if_splits option.splits)
  moreover have "wf_server m s1" using assms(1) g by simp
  ultimately show ?thesis
    using closeRequiredChallenge_state [OF c] wf_terminal by auto
qed

lemma observation_outcome_wf:
  assumes "wf_server m s" "observation_outcome ext r obs s = (reply, s')"
  shows "wf_server m s'"
proof -
  obtain f s1 where f: "recordEngineObservation (req_Identity r) obs s = (f, s1)" by fastforce
  have "wf_server m s1" if "ValidateEngine ext obs = None"
    using wf_recordEngineObservation [OF assms(1) ValidateEngine_page(1,2) [OF that]] f by (metis snd_conv)
  then show ?thesis
    using assms f wf_resetClickNavigationBaseline
    by (auto simp: observation_outcome_def Let_def split: if_splits option.splits)
qed

lemma execute_request_wf:
  assumes "wf_server m s" "prepared (req_Identity r) s"
    and "act_Kind (req_Action r) = ActionClick \<Longrightarrow>
      srv_blockedClickNavigationCount s < maxBlockedClicksPerNavigation
      \<and> srv_blockedClickRunCount s < maxBlockedClicksPerRun"
    and "execute_request ext cfg wall r s w = (reply, s', w')"
  shows "wf_server m s'"
  using assms(4) settle_failure_wf [OF assms(1-3)] observation_outcome_wf [OF assms(1)]
  by (auto simp: execute_request_def split: prod.splits option.splits intro: failure_outcome_wf)

lemma handleBrowserRequest_wf:
  assumes "wf_server (sc_MaxRequests cfg) s" "0 \<le> sc_MaxRequests cfg"
    and "handleBrowserRequest ext cfg wall now r s w = (reply, s', w')"
  shows "wf_server (sc_MaxRequests cfg) s'"
proof (cases "Request_Validate ext now r")
  case (Some f)
  then show ?thesis using assms by (auto simp: handleBrowserRequest_def split: if_splits)
next
  case None
  obtain f s1 where res: "reserveRequest (sc_MaxRequests cfg) (req_Identity r) (req_RequestID r)
      (req_Action r) s = (f, s1)" by fastforce
  have w1: "wf_server (sc_MaxRequests cfg) s1"
    using wf_reserveRequest [OF assms(1,2) accepted_cost [OF None]] res by (metis snd_conv)
  have p1: "prepared (req_Identity r) s1"
    using prepared_reserveRequest res by (metis snd_conv)
  have run: "wf_server (sc_MaxRequests cfg) s'"
    if "execute_request ext cfg wall r s1 w2 = (reply, s', w')" "f = None" for w2
  proof (rule execute_request_wf [OF w1 p1 _ that(1)])
    assume "act_Kind (req_Action r) = ActionClick"
    then show "srv_blockedClickNavigationCount s1 < maxBlockedClicksPerNavigation
        \<and> srv_blockedClickRunCount s1 < maxBlockedClicksPerRun"
      using reserve_click_budget res that(2) by blast
  qed
  show ?thesis
    using assms(1,3) None res w1 run
    by (auto simp: handleBrowserRequest_def split: if_splits prod.splits sum.splits option.splits)
qed

lemma handleViewerConnection_wf:
  assumes "wf_server m s" "0 \<le> m"
    and "handleViewerConnection ext cd cfg raw now s w = (reply, s', w')"
  shows "wf_server m s'"
proof -
  have "wf_server m (snd (reserveViewerRequest i requestID s))" for i requestID
    using assms(1,2) by (rule wf_reserveViewerRequest)
  then have "\<And>i requestID f s1. reserveViewerRequest i requestID s = (f, s1) \<Longrightarrow> wf_server m s1"
    by (metis snd_conv)
  then show ?thesis
    using assms(1,3)
    by (auto simp: handleViewerConnection_def split: if_splits prod.splits option.splits)
qed

lemma handleConnection_wf:
  assumes "wf_server (sc_MaxRequests cfg) s" "0 \<le> sc_MaxRequests cfg"
    and "handleConnection ext cd cfg wall arrived s w = (reply, s', w')"
  shows "wf_server (sc_MaxRequests cfg) s'"
  using assms handleBrowserRequest_wf [OF assms(1,2)] handleViewerConnection_wf [OF assms(1,2)]
  by (auto simp: handleConnection_def Let_def split: if_splits prod.splits sum.splits option.splits)

section \<open>Steps\<close>

text \<open>
  The accept loop has one slot, so connections are handled one after the other: a step is one
  handled connection, whatever arrives on it and whatever the outside world has become by then.
\<close>

inductive server_step ::
    "externals \<Rightarrow> codecs \<Rightarrow> 'w server_config \<Rightarrow> ('w \<Rightarrow> go_time) \<Rightarrow> server \<Rightarrow> reply \<Rightarrow> server \<Rightarrow> bool"
  for ext cd cfg wall where
  connection: "handleConnection ext cd cfg wall arrived s w = (reply, s', w') \<Longrightarrow>
     server_step ext cd cfg wall s reply s'"

inductive_cases server_stepE: "server_step ext cd cfg wall s reply s'"

inductive server_reaches ::
    "externals \<Rightarrow> codecs \<Rightarrow> 'w server_config \<Rightarrow> ('w \<Rightarrow> go_time) \<Rightarrow> server \<Rightarrow> server \<Rightarrow> bool"
  for ext cd cfg wall s0 where
  start: "server_reaches ext cd cfg wall s0 s0"
| serve: "server_reaches ext cd cfg wall s0 s \<Longrightarrow> server_step ext cd cfg wall s reply s' \<Longrightarrow>
     server_reaches ext cd cfg wall s0 s'"

lemma NewServer_stores:
  assumes "NewServer wall opts = Inr (cfg, s0)"
  shows "s0 = new_server" "IsAbs (sc_SocketPath cfg)"
    "\<not> length (so_ChannelCredential opts) < 32" "\<not> 512 < length (so_ChannelCredential opts)"
    "sc_ChannelCredential cfg = so_ChannelCredential opts"
    "so_Lease opts = Some (sc_Lease cfg)" "so_Engine opts = Some (sc_Engine cfg)"
    "sc_MaxRequests cfg = defaulted (so_MaxRequests opts) maxRequestsPerLease"
    "\<not> maxRequestsPerLease < sc_MaxRequests cfg"
    "\<not> sc_MaxRequestBytes cfg < 1024" "\<not> int MaxRequestBytes < sc_MaxRequestBytes cfg"
    "\<not> sc_MaxResponseBytes cfg < 1024" "\<not> int MaxResponseBytes < sc_MaxResponseBytes cfg"
    "sc_IOTimeout cfg = defaulted (so_IOTimeout opts) (5 * Second)"
    "(sc_SocketMode cfg AND 0x1FF) AND 0x007 = 0"
proof -
  obtain lease engine where le: "so_Lease opts = Some lease" "so_Engine opts = Some engine"
    using assms by (auto simp only: NewServer_def Let_def split: if_splits option.splits)
  note solve = le NewServer_def Let_def option.case server_config.simps sum.inject prod.inject
    sum.distinct de_Morgan_disj simp_thms
  show "s0 = new_server" "IsAbs (sc_SocketPath cfg)"
    "\<not> length (so_ChannelCredential opts) < 32" "\<not> 512 < length (so_ChannelCredential opts)"
    "sc_ChannelCredential cfg = so_ChannelCredential opts"
    "so_Lease opts = Some (sc_Lease cfg)" "so_Engine opts = Some (sc_Engine cfg)"
    "sc_MaxRequests cfg = defaulted (so_MaxRequests opts) maxRequestsPerLease"
    "\<not> maxRequestsPerLease < sc_MaxRequests cfg"
    "\<not> sc_MaxRequestBytes cfg < 1024" "\<not> int MaxRequestBytes < sc_MaxRequestBytes cfg"
    "\<not> sc_MaxResponseBytes cfg < 1024" "\<not> int MaxResponseBytes < sc_MaxResponseBytes cfg"
    "sc_IOTimeout cfg = defaulted (so_IOTimeout opts) (5 * Second)"
    "(sc_SocketMode cfg AND 0x1FF) AND 0x007 = 0"
    using assms by (auto simp only: solve split: if_split_asm)
qed

lemma NewServer_accepts:
  assumes "NewServer wall opts = Inr (cfg, s0)"
  shows "s0 = new_server" "1 \<le> sc_MaxRequests cfg" "sc_MaxRequests cfg \<le> maxRequestsPerLease"
    "1024 \<le> sc_MaxRequestBytes cfg" "sc_MaxRequestBytes cfg \<le> int MaxRequestBytes"
    "1024 \<le> sc_MaxResponseBytes cfg" "sc_MaxResponseBytes cfg \<le> int MaxResponseBytes"
    "IsAbs (sc_SocketPath cfg)" "32 \<le> length (sc_ChannelCredential cfg)"
    "(sc_SocketMode cfg AND 0x1FF) AND 0x007 = 0" "1 \<le> sc_IOTimeout cfg"
  using assms
  using NewServer_stores [OF assms]
  by (auto simp: defaulted_def maxRequestsPerLease_def Second_def split: if_splits)

lemma reaches_wf:
  assumes "server_reaches ext cd cfg wall s0 s" "wf_server (sc_MaxRequests cfg) s0"
    "0 \<le> sc_MaxRequests cfg"
  shows "wf_server (sc_MaxRequests cfg) s"
  using assms
  by (induction rule: server_reaches.induct) (auto elim!: server_stepE intro: handleConnection_wf)

lemma made_server_wf:
  assumes "NewServer wall_clock opts = Inr (cfg, s0)" "server_reaches ext cd cfg wall s0 s"
  shows "wf_server (sc_MaxRequests cfg) s" "0 \<le> sc_MaxRequests cfg"
proof -
  show m: "0 \<le> sc_MaxRequests cfg"
    using NewServer_accepts(2) [OF assms(1)] by simp
  have "wf_server (sc_MaxRequests cfg) s0"
    using wf_new_server [OF m] NewServer_accepts(1) [OF assms(1)] by simp
  from reaches_wf [OF assms(2) this m] show "wf_server (sc_MaxRequests cfg) s" .
qed

end
