(* ===== verification/ReplyFacts.thy ===== *)
theory ReplyFacts
  imports ConnectionFacts Lease
begin

text \<open>
  What the server answers: every refusal is a failure that the receiver's own check accepts,
  with one exception that the section on the retry budget names; every success is an
  observation or a frame that passed its check.
\<close>

fun reply_failure :: "reply \<Rightarrow> failure option" where
  "reply_failure (BrowserReply r) = resp_Error r"
| "reply_failure (ViewerReply r) = vresp_Error r"
| "reply_failure (HealthReply r) = None"

lemma ErrorResponse_selectors [simp, selectors]:
  "resp_Error (ErrorResponse rid (Some f)) = Some f"
  "resp_Observation (ErrorResponse rid g) = None"
  "resp_Status (ErrorResponse rid g) = ''error''"
  "resp_ContractID (ErrorResponse rid g) = ContractID"
  by (simp_all add: ErrorResponse_def)

lemma SuccessResponse_selectors [simp, selectors]:
  "resp_Error (SuccessResponse rid obs) = None"
  "resp_Observation (SuccessResponse rid obs) = Some obs"
  "resp_Status (SuccessResponse rid obs) = ''ok''"
  "resp_ContractID (SuccessResponse rid obs) = ContractID"
  "resp_RequestID (SuccessResponse rid obs) = rid"
  by (simp_all add: SuccessResponse_def)

lemma ViewerResponse_selectors [simp, selectors]:
  "vresp_Error (ViewerErrorResponse rid (Some f)) = Some f"
  "vresp_Frame (ViewerErrorResponse rid g) = None"
  "vresp_Error (ViewerSuccessResponse rid frame) = None"
  "vresp_Frame (ViewerSuccessResponse rid frame) = frame"
  by (simp_all add: ViewerErrorResponse_def ViewerSuccessResponse_def)

lemma refuse_selectors [simp, selectors]:
  "resp_Error (refuse r f) = Some f" "resp_Observation (refuse r f) = None"
  "resp_Status (refuse r f) = ''error''" "resp_ContractID (refuse r f) = ContractID"
  by (simp_all add: refuse_def)

lemma rejects_mono: "rejects P r \<Longrightarrow> (\<And>f. P f \<Longrightarrow> Q f) \<Longrightarrow> rejects Q r"
  by (auto simp: rejects_def)

lemma rejects_own_reportable: "rejects own_failure r \<Longrightarrow> rejects (reportable ext) r"
  by (auto simp: rejects_def reportable_own)

section \<open>Reading\<close>

lemma own_readRequest: "readRequest n arrived = Inl f \<Longrightarrow> own_failure f"
  by (auto simp: readRequest_def Let_def message_eval split: if_splits)

lemma own_too_large: "own_failure too_large"
  by (auto simp: too_large_def message_eval)

lemma own_decodeRequest: "rejects own_failure (snd (decodeRequest c n raw))"
  unfolding decodeRequest_def Let_def
  by (auto intro!: rejects_reject_if own_failureI own_too_large simp: message_eval)

section \<open>Failures of the engine\<close>

lemma acceptEngineState_own: "rejects own_failure (fst (acceptEngineState e g s))"
  by (auto simp: acceptEngineState_def Let_def message_eval intro!: own_failureI)

lemma recordEngineObservation_own: "rejects own_failure (fst (recordEngineObservation i obs s))"
  using acceptEngineState_own [of "obs_EngineInstanceID obs" "obs_NavigationGeneration obs" "prepareClickScope i s"]
  by (auto simp: recordEngineObservation_def split: prod.splits option.splits)

lemma recordBlockedClick_wf_failure:
  assumes "wf_failure ext f" "fl_Code f = ErrorHighImpactActionBlocked"
    and "wf_clicks (snd (recordBlockedClick i f s))"
  shows "wf_failure ext (fst (recordBlockedClick i f s))"
proof -
  obtain r s' where a: "acceptEngineState (fl_EngineInstanceID f) (fl_NavigationGeneration f)
      (prepareClickScope i s) = (r, s')" by fastforce
  show ?thesis
  proof (cases r)
    case None
    then show ?thesis
      using a assms(3) blocked_click_wf [OF assms(1,2)]
      by (simp add: recordBlockedClick_def Let_def)
  next
    case (Some g)
    have "own_failure g" using acceptEngineState_refuses(2) a Some by blast
    then show ?thesis using a Some by (simp add: recordBlockedClick_def own_failure_wf)
  qed
qed

lemma settle_failure_report:
  assumes "wf_clicks (snd (settle_failure ext r f s))"
  shows "wf_failure ext (fst (settle_failure ext r f s))"
proof (cases "ValidateFailure ext (Some f)")
  case None
  then show ?thesis
    using assms recordBlockedClick_wf_failure [OF None]
    by (auto simp: settle_failure_def)
next
  case (Some g)
  then show ?thesis
    using own_ValidateFailure [of ext "Some f"] by (simp add: settle_failure_def rejects_def own_failure_wf)
qed

text \<open>Human control may be offered on a required challenge.\<close>

lemma challenge_with_control:
  assumes "wf_failure ext f" "fl_Code f = ErrorChallengeRequired"
  shows "wf_failure ext (f\<lparr>fl_HumanControlAvailable := True\<rparr>)"
proof -
  have "validateSiteFailureEvidence (f\<lparr>fl_HumanControlAvailable := True\<rparr>) = validateSiteFailureEvidence f"
    by (cases "fl_SiteOutcome f") (simp_all add: validateSiteFailureEvidence_def)
  then show ?thesis
    using assms by (simp add: ValidateFailure_def click_context_rejects_eq hasClickContext_def
        validateMutationFailureEvidence_eq hasMutationEvidence_def outside_def)
qed

section \<open>Viewer answers\<close>

lemma viewer_outcome_report: "rejects own_failure (vresp_Error (viewer_outcome ext rid frame f)) \<or>
    (\<exists>g. vresp_Error (viewer_outcome ext rid frame f) = Some g \<and> wf_failure ext g)"
proof (cases f)
  case None
  then show ?thesis
    using own_frame by (cases frame) (auto simp: viewer_outcome_def rejects_def split: option.splits)
next
  case (Some g)
  then show ?thesis
    using own_ValidateFailure [of ext "Some g"]
    by (auto simp: viewer_outcome_def rejects_def own_failure_wf split: option.splits)
qed

lemma viewer_outcome_wf:
  "vresp_Error (viewer_outcome ext rid frame f) = Some g \<Longrightarrow> wf_failure ext g"
  using viewer_outcome_report [of ext rid frame f] by (auto simp: rejects_def own_failure_wf)

text \<open>A frame that is sent has passed its check.\<close>

lemma viewer_outcome_frame:
  "vresp_Frame (viewer_outcome ext rid frame f) = Some fr \<Longrightarrow> ViewerFrame_Validate fr = None"
  by (auto simp: viewer_outcome_def split: option.splits)

lemma literal_wf: "plain_code c \<Longrightarrow> good_message m \<Longrightarrow> wf_failure ext (NewFailure c m r)"
  by (rule own_failure_wf) auto

lemmas literal_failures = literal_wf message_eval

lemma run_viewer_wf:
  "run_viewer ext cfg r w = (reply, w') \<Longrightarrow> vresp_Error reply = Some g \<Longrightarrow> wf_failure ext g"
  by (auto simp: run_viewer_def Let_def literal_failures split: option.splits prod.splits
      intro: viewer_outcome_wf)

section \<open>Answers under a reporting lease\<close>

context reporting_lease
begin

lemma viewer_connection_report:
  assumes "sc_Lease cfg = lease" "visits_all ext"
    and "handleViewerConnection ext cd cfg raw now s w = (reply, s', w')" "vresp_Error reply = Some f"
  shows "wf_failure ext f"
proof -
  have own: "wf_failure ext g" if "ViewerRequest_Validate ext now r = Some g" for r g
    using rejectsD [OF own_viewer_request [OF assms(2)] that] by (rule own_failure_wf)
  have res: "wf_failure ext g" if "reserveViewerRequest i rid s = (Some g, s1)" for i rid g s1
    using reserveViewerRequest_own [of i rid s] that by (simp add: own_failure_wf)
  have val: "wf_failure ext g" if "lv_Validate (sc_Lease cfg) i w1 = (Some g, w2)" for i w1 g w2
    using validate_failure that assms(1) by simp
  show ?thesis
    using assms(3,4)
    by (auto simp: handleViewerConnection_def literal_failures
        split: option.splits if_splits prod.splits intro: own res run_viewer_wf val)
qed

lemma close_challenge_report:
  assumes "sc_Lease cfg = lease" "closeRequiredChallenge cfg wall i s w = (Some f, s', w')"
  shows "wf_failure ext f"
  using assms
  by (auto simp: closeRequiredChallenge_def revoke_gate_def literal_failures
      split: option.splits prod.splits if_splits intro: is_revoked_failure revoke_failure)

lemma failure_outcome_report:
  assumes "sc_Lease cfg = lease" "wf_clicks (snd (settle_failure ext r f s))"
    and "failure_outcome ext cfg wall r f s w = (reply, s', w')" "resp_Error reply = Some g"
  shows "wf_failure ext g"
proof -
  obtain h s1 where h: "settle_failure ext r f s = (h, s1)" by fastforce
  have "wf_failure ext h" using settle_failure_report [OF assms(2)] h by simp
  then show ?thesis
    using assms(3,4) h challenge_with_control [of ext h] close_challenge_report [OF assms(1)]
    by (auto simp: failure_outcome_def split: if_splits option.splits prod.splits)
qed

lemma lease_gate_report:
  assumes "sc_Lease cfg = lease" "lease_gate cfg r w = (Inl f, w')"
  shows "wf_failure ext f"
  using assms
  by (auto simp: lease_gate_def literal_failures
      split: option.splits prod.splits if_splits bool.splits intro: is_revoked_failure validate_failure)

lemma lease_gate_revoker:
  assumes "lease_gate cfg r w = (Inr (Some rv, b), w')"
  shows "lv_revoker (sc_Lease cfg) = Some rv"
  using assms by (auto simp: lease_gate_def split: option.splits prod.splits if_splits bool.splits)

lemma revoke_gate_report:
  assumes "sc_Lease cfg = lease" "lease_gate cfg r w0 = (Inr (revoker, already), w)"
    and "revoke_gate revoker already i w = (Some f, w')"
  shows "wf_failure ext f"
proof (cases revoker)
  case None
  then show ?thesis using assms(3) by (simp add: revoke_gate_def)
next
  case (Some rv)
  then have "lv_revoker lease = Some rv" using lease_gate_revoker assms(1,2) by metis
  then show ?thesis
    using assms(3) Some by (auto simp: revoke_gate_def split: if_splits intro: revoke_failure)
qed

lemma observation_outcome_report:
  assumes "observation_outcome ext r obs s = (reply, s')" "visits_all ext" "resp_Error reply = Some f"
  shows "wf_failure ext f"
proof -
  have "wf_failure ext g" if "ValidateEngine ext obs = Some g" for g
    using rejectsD [OF own_engine [OF assms(2)] that] by (rule own_failure_wf)
  moreover have "wf_failure ext g" if "ValidateClosed obs = Some g" for g
    using rejectsD [OF own_closed that] by (rule own_failure_wf)
  moreover have "wf_failure ext g" if "recordEngineObservation i obs s = (Some g, s1)" for i g s1
    using recordEngineObservation_own [of i obs s] that by (simp add: own_failure_wf)
  ultimately show ?thesis
    using assms(1,3)
    by (auto simp: observation_outcome_def Let_def split: if_splits option.splits prod.splits)
qed

lemma browser_request_report:
  assumes "sc_Lease cfg = lease" "visits_all ext" "wf_server (sc_MaxRequests cfg) s"
    "0 \<le> sc_MaxRequests cfg"
    and "handleBrowserRequest ext cfg wall now r s w = (reply, s', w')" "resp_Error reply = Some f"
  shows "reportable ext f"
proof (cases "Request_Validate ext now r")
  case (Some g)
  then have "wf_failure ext g"
    using rejectsD [OF own_request [OF assms(2)]] own_failure_wf by blast
  then show ?thesis
    using Some assms(5,6)
    by (auto simp: handleBrowserRequest_def literal_failures reportable_wf split: if_splits)
next
  case None
  obtain h s1 where res: "reserveRequest (sc_MaxRequests cfg) (req_Identity r) (req_RequestID r)
      (req_Action r) s = (h, s1)" by fastforce
  have h: "rejects (reportable ext) h"
    using reserveRequest_reportable [OF assms(3,4)] res by (metis fst_conv)
  have s1: "wf_server (sc_MaxRequests cfg) s1"
    using wf_reserveRequest [OF assms(3,4) accepted_cost [OF None]] res by (metis snd_conv)
  have p1: "prepared (req_Identity r) s1"
    using prepared_reserveRequest res by (metis snd_conv)
  have run: "wf_failure ext f"
    if "execute_request ext cfg wall r s1 w2 = (reply, s', w')" "h = None" for w2
  proof -
    have c: "wf_clicks (snd (settle_failure ext r g s1))" for g
    proof -
      have "wf_server (sc_MaxRequests cfg) (snd (settle_failure ext r g s1))"
        using settle_failure_wf [OF s1 p1] reserve_click_budget res that(2) by blast
      then show ?thesis by (simp add: wf_server_def)
    qed
    show ?thesis
      using that(1) assms(6) observation_outcome_report [OF _ assms(2)]
      by (auto simp: execute_request_def split: prod.splits option.splits
          intro: failure_outcome_report [OF assms(1) c])
  qed
  show ?thesis
    using assms(5,6) None res h run lease_gate_report [OF assms(1)] revoke_gate_report [OF assms(1)]
    by (auto simp: handleBrowserRequest_def literal_failures reportable_wf
        split: if_splits prod.splits sum.splits option.splits)
qed

lemma connection_report:
  assumes "sc_Lease cfg = lease" "visits_all ext" "wf_server (sc_MaxRequests cfg) s"
    "0 \<le> sc_MaxRequests cfg"
    and "handleConnection ext cd cfg wall arrived s w = (reply, s', w')" "reply_failure reply = Some f"
  shows "reportable ext f"
proof -
  have dec: "reportable ext g" if "decodeRequest c n raw = (r, Some g)" for c n raw r g
    using own_decodeRequest [of c n raw] that by (simp add: reportable_own)
  have read: "reportable ext g" if "readRequest n arrived = Inl g" for n g
    using own_readRequest that by (simp add: reportable_own)
  show ?thesis
    using assms(5,6) dec read viewer_connection_report [OF assms(1,2)]
      browser_request_report [OF assms(1-4)]
    by (auto simp: handleConnection_def Let_def reportable_wf
        split: if_splits prod.splits sum.splits option.splits)
qed

end

end
