(* ===== verification/ClientFacts.thy ===== *)
theory ClientFacts
  imports Client ReplyFacts
begin

text \<open>
  The client's identifiers and requests are what the server accepts, its own failures are well
  formed, and it takes over the server's answers unchanged.
\<close>

section \<open>Request identifiers\<close>

lemma hex_encode_high:
  "i < length s \<Longrightarrow> hex_encode s ! (2 * i) = hex_digit (code_of (s ! i) div 16)"
proof (induction s arbitrary: i)
  case (Cons c s)
  have "hex_encode (c # s) =
      hex_digit (code_of c div 16) # hex_digit (code_of c mod 16) # hex_encode s"
    by (simp add: hex_encode_def)
  with Cons show ?case by (cases i) simp_all
qed simp

lemma version_nibble: "unat ((b AND 0x0f) OR 0x40 :: 8 word) div 16 = 4"
proof -
  define x :: "8 word" where "x = (b AND 0x0f) OR 0x40"
  have "drop_bit 4 x = 4"
    by (simp add: x_def drop_bit_or drop_bit_and)
  then have "x div 16 = 4" by (simp add: drop_bit_eq_div)
  then have "unat (x div 16) = 4" by simp
  then have "unat x div 16 = 4" by (simp only: unat_div) simp
  then show ?thesis by (simp only: x_def)
qed

lemma dashed_hex_is_uuid:
  assumes "length h = 32" "list_all is_lower_hex h" "h ! 12 \<noteq> CHR ''0''"
  shows "IsValidUUID (slice 0 8 h @ ''-'' @ slice 8 12 h @ ''-'' @ slice 12 16 h @ ''-''
      @ slice 16 20 h @ ''-'' @ slice 20 32 h)"
proof -
  obtain a where h: "h = a" by simp
  from assms(1) obtain c0 c1 c2 c3 c4 c5 c6 c7 c8 c9 c10 c11 c12 c13 c14 c15 c16 c17 c18 c19 c20
      c21 c22 c23 c24 c25 c26 c27 c28 c29 c30 c31 where
    "h = [c0, c1, c2, c3, c4, c5, c6, c7, c8, c9, c10, c11, c12, c13, c14, c15, c16, c17, c18, c19,
      c20, c21, c22, c23, c24, c25, c26, c27, c28, c29, c30, c31]"
    by (auto simp: numeral_eq_Suc length_Suc_conv)
  with assms(2,3) show ?thesis
    by (simp add: slice_def IsValidUUID_def uuid_char_ok_def)
      (simp add: lower_char_def is_upper_def)
qed

lemma uuid_text_valid:
  assumes "length raw = 16"
  shows "IsValidUUID (uuid_text raw)"
proof -
  let ?h = "hex_encode (map (\<lambda>b. char_of (unat b)) (uuid_bytes raw))"
  have len: "length (uuid_bytes raw) = 16" using assms by (simp add: uuid_bytes_def)
  have "?h ! (2 * 6) = hex_digit (code_of (char_of (unat (uuid_bytes raw ! 6)) :: char) div 16)"
    using len by (subst hex_encode_high) simp_all
  moreover have "uuid_bytes raw ! 6 = (raw ! 6 AND 0x0f) OR 0x40"
    using assms by (simp add: uuid_bytes_def)
  moreover have "unat (w :: 8 word) mod 256 = unat w" for w
  proof -
    have "unat w < 2 ^ LENGTH(8)" by (rule unsigned_less)
    then show ?thesis by simp
  qed
  ultimately have "?h ! 12 = hex_digit 4"
    using version_nibble [of "raw ! 6"] by simp
  then have "hex_value (?h ! 12) = 4" by simp
  moreover have "hex_value (CHR ''0'') = 0" by code_simp
  ultimately have "?h ! 12 \<noteq> CHR ''0''" by auto
  then show ?thesis
    using len dashed_hex_is_uuid [of ?h] by (simp add: uuid_text_def Let_def hex_encode_lower_hex)
qed

section \<open>The server accepts what the client sends\<close>

lemma request_deadline_bounds:
  assumes "now < le_ExpiresAt (cl_lease c)" "0 < cl_timeout c"
    and "case contextDeadline of None \<Rightarrow> True | Some d \<Rightarrow> now < d"
  shows "now < request_deadline c now contextDeadline"
    "request_deadline c now contextDeadline \<le> now + cl_timeout c"
    "request_deadline c now contextDeadline \<le> le_ExpiresAt (cl_lease c)"
  using assms by (auto simp: request_deadline_def Let_def split: option.splits)

lemma Lease_Validate_accepts:
  assumes "Lease_Validate ext now l = None"
  shows "le_ContractID l = LeaseContractID" "Identity_Validate ext (le_Identity l) = None"
    "now < le_ExpiresAt l"
  using assms by (auto simp: Lease_Validate_def)

lemma client_request_valid:
  assumes "0 \<le> now" "Lease_Validate ext now (cl_lease c) = None"
    and "0 < cl_timeout c" "cl_timeout c \<le> MaxActionDeadline"
    and "case contextDeadline of None \<Rightarrow> True | Some d \<Rightarrow> now < d"
    and "ValidateForPolicy ext (id_BrowserInteractionPolicy (le_Identity (cl_lease c))) a = None"
    and "newRequestID (Some raw) = Some requestID" "length raw = 16"
  shows "Request_Validate ext now
     (client_request c requestID (request_deadline c now contextDeadline) a) = None"
proof -
  note l = Lease_Validate_accepts [OF assms(2)]
  note d = request_deadline_bounds [OF l(3) assms(3,5)]
  have "IsValidUUID requestID" using assms(7,8) uuid_text_valid by (auto simp: newRequestID_def)
  with l d assms show ?thesis
    by (simp add: Request_Validate_def client_request_def)
qed

section \<open>The client's own failures\<close>

text \<open>Every message below is one of a few literals around one of a few labels.\<close>

definition exchange_operations :: "string set" where
  "exchange_operations =
     {''connect to Browser Runtime'', ''send Browser Runtime request'',
      ''finish Browser Runtime request'', ''set Browser Runtime response deadline'',
      ''read Browser Runtime response'', ''connect to Browser Runtime Viewer'',
      ''send Browser Runtime Viewer request'', ''finish Browser Runtime Viewer request'',
      ''read Browser Runtime Viewer response''}"

lemma own_contextFailure:
  assumes "operation \<in> exchange_operations"
  shows "own_failure (contextFailure ctx operation)"
proof -
  have "good_message (operation @ '' failed'')"
    using assms by (auto simp: exchange_operations_def message_eval)
  then show ?thesis
    by (cases ctx) (auto simp: contextFailure_def message_eval)
qed

lemma own_classify:
  assumes "label \<in> {''Browser Runtime'', ''Browser Runtime Viewer''}"
  shows "own_failure (classifyRuntimeDecodeFailure run n label)"
proof -
  have m: "good_message (label @ '' response timed out'')" "good_message (label @ '' closed without a response'')"
    "good_message (label @ '' response is invalid'')" "''read '' @ label @ '' response'' \<in> exchange_operations"
    using assms by (auto simp: exchange_operations_def message_eval)
  then show ?thesis
    by (simp add: classifyRuntimeDecodeFailure_def own_contextFailure own_failureI)
qed

lemma own_receive:
  assumes "label \<in> {''Browser Runtime'', ''Browser Runtime Viewer''}"
    and "receive early label c run = Inl f"
  shows "own_failure f"
proof -
  have m: "good_message (label @ '' response exceeds the output limit'')"
    "good_message (label @ '' response contains trailing data'')"
    using assms(1) by (auto simp: message_eval)
  show ?thesis
    using assms(2) m own_classify [OF assms(1)]
    by (auto simp: receive_def Let_def split: if_splits)
qed

lemma own_operations:
  "own_failure (contextFailure ctx ''connect to Browser Runtime'')"
  "own_failure (contextFailure ctx ''send Browser Runtime request'')"
  "own_failure (contextFailure ctx ''finish Browser Runtime request'')"
  "own_failure (contextFailure ctx ''set Browser Runtime response deadline'')"
  "own_failure (contextFailure ctx ''read Browser Runtime response'')"
  "own_failure (contextFailure ctx ''connect to Browser Runtime Viewer'')"
  "own_failure (contextFailure ctx ''send Browser Runtime Viewer request'')"
  "own_failure (contextFailure ctx ''finish Browser Runtime Viewer request'')"
  by (simp_all add: own_contextFailure exchange_operations_def)

lemma own_set_deadline:
  "own_failure (NewFailure ErrorRuntimeUnavailable ''set Browser Runtime deadline'' True)"
  "own_failure (NewFailure ErrorRuntimeUnavailable ''set Browser Runtime Viewer deadline'' True)"
  by (auto simp: message_eval)

lemma own_exchange:
  assumes "exchange c run = Inl f"
  shows "own_failure f"
proof -
  have "own_failure f" if "receive True ''Browser Runtime'' c run = Inl f"
    by (rule own_receive [OF _ that]) simp
  then show ?thesis
    using assms own_operations own_set_deadline by (auto simp: exchange_def split: if_splits)
qed

lemma own_exchangeViewer:
  assumes "exchangeViewer c run = Inl f"
  shows "own_failure f"
proof -
  have "own_failure f" if "receive False ''Browser Runtime Viewer'' c run = Inl f"
    by (rule own_receive [OF _ that]) simp
  then show ?thesis
    using assms own_operations own_set_deadline by (auto simp: exchangeViewer_def split: if_splits)
qed

end
