(* ===== verification/MutationJournal.thy ===== *)
theory MutationJournal
  imports ClientFacts
begin

text \<open>
  The journal of possible mutations that an agent process keeps over its Browser executor:
  \<^verbatim>\<open>agentexec/browser_mutation_journal.go\<close>. JSON encoding and the time format of an entry are
  parameters. The small counters are integers: each call adds at most nine to them.
\<close>

section \<open>Data\<close>

definition maxBrowserMutationJournalEntries :: nat where "maxBrowserMutationJournalEntries = 256"
definition maxBrowserMutationJournalBytes :: int where "maxBrowserMutationJournalBytes = 131072"

record journal_entry =
  je_ActionID :: string
  je_Timestamp :: string
  je_Origin :: string
  je_ActionKind :: action_kind
  je_TargetCategory :: target_category
  je_PageStateIDBefore :: string
  je_NavigationGenerationBefore :: go_uint64
  je_Result :: string

record journal =
  jr_entries :: "journal_entry list"
  jr_encodedBytes :: int
  jr_nextActionID :: go_uint64
  jr_lastOrigin :: string
  jr_lastPageStateID :: string
  jr_lastNavigation :: go_uint64
  jr_completed :: int
  jr_failed :: int
  jr_unknown :: int
  jr_originBlocked :: int
  jr_mutationRequests :: go_int
  jr_dropped :: int
  jr_mutationOriginsHash :: string

definition newBrowserMutationJournal :: "identity \<Rightarrow> journal" where
  "newBrowserMutationJournal i =
     \<lparr>jr_entries = [], jr_encodedBytes = 0, jr_nextActionID = 0, jr_lastOrigin = [],
      jr_lastPageStateID = [], jr_lastNavigation = 0, jr_completed = 0, jr_failed = 0,
      jr_unknown = 0, jr_originBlocked = 0, jr_mutationRequests = 0, jr_dropped = 0,
      jr_mutationOriginsHash = id_BrowserMutationOriginsSHA256 i\<rparr>"

section \<open>Operations\<close>

definition potentialBrowserMutation :: "action_kind \<Rightarrow> bool" where
  "potentialBrowserMutation kind \<longleftrightarrow>
     kind = ActionClick \<or> kind = ActionTypeNonSecret \<or> kind = ActionKeypress \<or> kind = ActionSelect"

text \<open>The two library functions an entry needs.\<close>

record journal_codec =
  jc_encode :: "journal_entry \<Rightarrow> bytes option"
  jc_time :: "go_time \<Rightarrow> string"

definition entry_size :: "journal_codec \<Rightarrow> journal_entry \<Rightarrow> int" where
  "entry_size jc e = (case jc_encode jc e of None \<Rightarrow> 0 | Some raw \<Rightarrow> int (length raw) + 1)"

definition appendBounded :: "journal_codec \<Rightarrow> journal_entry \<Rightarrow> journal \<Rightarrow> journal" where
  "appendBounded jc e j =
     (if maxBrowserMutationJournalEntries \<le> length (jr_entries j) then
        j\<lparr>jr_dropped := jr_dropped j + 1\<rparr>
      else if jc_encode jc e = None
          \<or> maxBrowserMutationJournalBytes < jr_encodedBytes j + entry_size jc e then
        j\<lparr>jr_dropped := jr_dropped j + 1\<rparr>
      else
        j\<lparr>jr_entries := jr_entries j @ [e], jr_encodedBytes := jr_encodedBytes j + entry_size jc e\<rparr>)"

definition next_entry ::
    "journal_codec \<Rightarrow> go_time \<Rightarrow> action_kind \<Rightarrow> target_category \<Rightarrow> string \<Rightarrow> journal \<Rightarrow> journal_entry" where
  "next_entry jc now kind category result j =
     \<lparr>je_ActionID = FormatUint (jr_nextActionID j), je_Timestamp = jc_time jc now,
      je_Origin = jr_lastOrigin j, je_ActionKind = kind, je_TargetCategory = category,
      je_PageStateIDBefore = jr_lastPageStateID j,
      je_NavigationGenerationBefore = jr_lastNavigation j, je_Result = result\<rparr>"

text \<open>The counters of a failed action, and the result text.\<close>

definition count_failure :: "failure \<Rightarrow> journal \<Rightarrow> string \<times> journal" where
  "count_failure f j =
     (case fl_Code f of
        ErrorMutationOutcomeUnknown \<Rightarrow> (''outcome_unknown'', j\<lparr>jr_unknown := jr_unknown j + 1\<rparr>)
      | ErrorMutationOriginBlocked \<Rightarrow> (''failed'', j\<lparr>jr_originBlocked := jr_originBlocked j + 1\<rparr>)
      | _ \<Rightarrow> (''failed'', j\<lparr>jr_failed := jr_failed j + 1\<rparr>))"

definition count_outcome ::
    "observation \<Rightarrow> failure option \<Rightarrow> bool \<Rightarrow> journal \<Rightarrow> (target_category \<times> string) \<times> journal" where
  "count_outcome obs f here j =
     (case f of
        Some g \<Rightarrow>
          if here then (case count_failure g j of (result, j') \<Rightarrow> ((fl_TargetCategory g, result), j'))
          else ((obs_TargetCategory obs, ''completed''), j\<lparr>jr_completed := jr_completed j + 1\<rparr>)
      | None \<Rightarrow> ((obs_TargetCategory obs, ''completed''), j\<lparr>jr_completed := jr_completed j + 1\<rparr>))"

text \<open>One round of the loop over the actions: the action at position \<open>index\<close> of \<open>count\<close>.\<close>

definition skipped ::
    "failure option \<Rightarrow> nat \<Rightarrow> int \<Rightarrow> go_int \<Rightarrow> nat \<Rightarrow> action \<Rightarrow> bool" where
  "skipped f count completed observed index nested \<longleftrightarrow>
     (\<not> potentialBrowserMutation (act_Kind nested)
      \<and> \<not> (f \<noteq> None \<and> int index = completed \<and> 0 < sint observed)
      \<and> \<not> (count = 1 \<and> 0 < sint observed))
     \<or> (f \<noteq> None \<and> completed < int index)"

definition record_one ::
    "journal_codec \<Rightarrow> go_time \<Rightarrow> observation \<Rightarrow> failure option \<Rightarrow> nat \<Rightarrow> int \<Rightarrow> go_int
     \<Rightarrow> nat \<times> action \<Rightarrow> journal \<Rightarrow> journal" where
  "record_one jc now obs f count completed observed = (\<lambda>(index, nested) j.
     if skipped f count completed observed index nested then j
     else
       (case count_outcome obs f (int index = completed) j of
          ((category, result), j1) \<Rightarrow>
            (let j2 = j1\<lparr>jr_nextActionID := jr_nextActionID j1 + 1\<rparr> in
             appendBounded jc (next_entry jc now (act_Kind nested) category result j2) j2)))"

definition journal_actions :: "action \<Rightarrow> action list" where
  "journal_actions a = (if act_Kind a = ActionBatch then act_Actions a else [a])"

definition completed_actions :: "action \<Rightarrow> failure option \<Rightarrow> int" where
  "completed_actions a f =
     (case f of
        None \<Rightarrow> int (length (journal_actions a))
      | Some g \<Rightarrow>
          (case fl_CompletedActions g of
             Some c \<Rightarrow> sint c
           | None \<Rightarrow> (case fl_ActionIndex g of Some i \<Rightarrow> sint i | None \<Rightarrow> 0)))"

definition requests_observed :: "observation \<Rightarrow> failure option \<Rightarrow> go_int" where
  "requests_observed obs f =
     (case f of None \<Rightarrow> obs_MutationRequestsObserved obs | Some g \<Rightarrow> fl_MutationRequestsObserved g)"

text \<open>The extra entry for a batch whose requests cannot be attributed to one action.\<close>

definition record_batch ::
    "journal_codec \<Rightarrow> go_time \<Rightarrow> action \<Rightarrow> failure option \<Rightarrow> go_int \<Rightarrow> journal \<Rightarrow> journal" where
  "record_batch jc now a f observed j =
     (if act_Kind a = ActionBatch \<and> f = None \<and> 0 < sint observed
          \<and> list_ex (\<lambda>n. \<not> potentialBrowserMutation (act_Kind n)) (journal_actions a) then
        (let j2 = j\<lparr>jr_completed := jr_completed j + 1, jr_nextActionID := jr_nextActionID j + 1\<rparr> in
         appendBounded jc (next_entry jc now ActionBatch TargetCategoryEmpty ''completed'' j2) j2)
      else j)"

definition record_action ::
    "journal_codec \<Rightarrow> action \<Rightarrow> observation \<Rightarrow> failure option \<Rightarrow> go_time \<Rightarrow> journal \<Rightarrow> journal" where
  "record_action jc a obs f now j =
     (let actions = journal_actions a;
          completed = completed_actions a f;
          observed = requests_observed obs f;
          j0 = j\<lparr>jr_mutationRequests := jr_mutationRequests j + observed\<rparr>;
          j1 = fold (record_one jc now obs f (length actions) completed observed)
                 (enumerate 0 actions) j0;
          j2 = record_batch jc now a f observed j1 in
      if f = None then
        j2\<lparr>jr_lastOrigin := obs_Origin obs, jr_lastPageStateID := obs_PageStateID obs,
           jr_lastNavigation := obs_NavigationGeneration obs\<rparr>
      else j2)"

record journal_summary =
  js_completed :: int
  js_failed :: int
  js_outcome_unknown :: int
  js_origin_blocked :: int
  js_mutation_requests_observed :: go_int
  js_journal_entries :: nat
  js_journal_entries_dropped :: int
  js_journal_plaintext_bytes :: int
  js_mutation_origins_sha256 :: string
  js_terminal_outcome :: string

definition summary :: "string \<Rightarrow> journal \<Rightarrow> journal_summary" where
  "summary status j =
     \<lparr>js_completed = jr_completed j, js_failed = jr_failed j, js_outcome_unknown = jr_unknown j,
      js_origin_blocked = jr_originBlocked j, js_mutation_requests_observed = jr_mutationRequests j,
      js_journal_entries = length (jr_entries j), js_journal_entries_dropped = jr_dropped j,
      js_journal_plaintext_bytes = jr_encodedBytes j,
      js_mutation_origins_sha256 = jr_mutationOriginsHash j, js_terminal_outcome = status\<rparr>"

section \<open>The journal is bounded and counts everything\<close>

definition entries_size :: "journal_codec \<Rightarrow> journal_entry list \<Rightarrow> int" where
  "entries_size jc es = sum_list (map (entry_size jc) es)"

definition wf_journal :: "journal_codec \<Rightarrow> journal \<Rightarrow> bool" where
  "wf_journal jc j \<longleftrightarrow>
     length (jr_entries j) \<le> maxBrowserMutationJournalEntries
     \<and> jr_encodedBytes j = entries_size jc (jr_entries j)
     \<and> jr_encodedBytes j \<le> maxBrowserMutationJournalBytes
     \<and> jr_completed j + jr_failed j + jr_unknown j + jr_originBlocked j
         = int (length (jr_entries j)) + jr_dropped j
     \<and> jr_nextActionID j = word_of_int (jr_completed j + jr_failed j + jr_unknown j + jr_originBlocked j)
     \<and> 0 \<le> jr_dropped j"

lemma wf_newBrowserMutationJournal: "wf_journal jc (newBrowserMutationJournal i)"
  by (simp add: wf_journal_def newBrowserMutationJournal_def entries_size_def
      maxBrowserMutationJournalBytes_def)

text \<open>A journal whose counters are one ahead of its entries, as between counting and appending.\<close>

definition counted_journal :: "journal_codec \<Rightarrow> journal \<Rightarrow> bool" where
  "counted_journal jc j \<longleftrightarrow>
     length (jr_entries j) \<le> maxBrowserMutationJournalEntries
     \<and> jr_encodedBytes j = entries_size jc (jr_entries j)
     \<and> jr_encodedBytes j \<le> maxBrowserMutationJournalBytes
     \<and> jr_completed j + jr_failed j + jr_unknown j + jr_originBlocked j
         = int (length (jr_entries j)) + jr_dropped j + 1
     \<and> jr_nextActionID j = word_of_int (jr_completed j + jr_failed j + jr_unknown j + jr_originBlocked j)
     \<and> 0 \<le> jr_dropped j"

lemma wf_appendBounded: "counted_journal jc j \<Longrightarrow> wf_journal jc (appendBounded jc e j)"
  by (auto simp: appendBounded_def counted_journal_def wf_journal_def entries_size_def)

lemma counted_count_outcome:
  assumes "wf_journal jc j" "count_outcome obs f here j = (r, j1)"
  shows "counted_journal jc (j1\<lparr>jr_nextActionID := jr_nextActionID j1 + 1\<rparr>)"
  using assms
  by (auto simp: count_outcome_def count_failure_def wf_journal_def counted_journal_def
      split: option.splits if_splits prod.splits error_code.splits)

lemma wf_record_one:
  "wf_journal jc j \<Longrightarrow> wf_journal jc (record_one jc now obs f count completed observed ia j)"
  by (auto simp: record_one_def Let_def split: prod.splits
      intro: wf_appendBounded counted_count_outcome)

lemma wf_record_ones:
  "wf_journal jc j \<Longrightarrow> wf_journal jc (fold (record_one jc now obs f count completed observed) ias j)"
  by (induction ias arbitrary: j) (auto intro: wf_record_one)

lemma wf_record_batch:
  assumes "wf_journal jc j"
  shows "wf_journal jc (record_batch jc now a f observed j)"
proof -
  have "counted_journal jc (j\<lparr>jr_completed := jr_completed j + 1, jr_nextActionID := jr_nextActionID j + 1\<rparr>)"
    using assms by (simp add: wf_journal_def counted_journal_def)
  then show ?thesis
    using assms by (simp add: record_batch_def Let_def wf_appendBounded)
qed

lemma wf_record_action:
  assumes "wf_journal jc j"
  shows "wf_journal jc (record_action jc a obs f now j)"
proof -
  have frame: "wf_journal jc k \<Longrightarrow> wf_journal jc (k\<lparr>jr_lastOrigin := x, jr_lastPageStateID := y,
      jr_lastNavigation := z\<rparr>)" "wf_journal jc k \<Longrightarrow> wf_journal jc (k\<lparr>jr_mutationRequests := m\<rparr>)"
    for k x y z m by (simp_all add: wf_journal_def del: of_int_add)
  show ?thesis
    unfolding record_action_def Let_def
    by (auto intro!: frame wf_record_batch wf_record_ones assms)
qed

end
