(* ===== verification/Executor.thy ===== *)
theory Executor
  imports MutationJournal
begin

text \<open>
  The interface \<^verbatim>\<open>browserplugin.Executor\<close> between the agent process and the Browser: the client
  provides it, the journal wraps it (\<^verbatim>\<open>browserJournalExecutor\<close>). Its contract is stated once as
  a locale and holds of both.
\<close>

section \<open>The contract\<close>

text \<open>
  A refusal is a well-formed failure and a success is an observation that passed the check for
  the kind of action. The outside world \<open>'w\<close> is threaded through.
\<close>

definition checked_observation :: "externals \<Rightarrow> action \<Rightarrow> observation \<Rightarrow> bool" where
  "checked_observation ext a obs \<longleftrightarrow>
     (if act_Kind a = ActionClose then ValidateClosed obs = None else ValidateEngine ext obs = None)"

locale browser_executor =
  fixes ext :: externals
    and execute :: "'w \<Rightarrow> action \<Rightarrow> (failure + observation) \<times> 'w"
  assumes refuses: "visits_all ext \<Longrightarrow> execute w a = (Inl f, w') \<Longrightarrow> wf_failure ext f"
    and succeeds: "visits_all ext \<Longrightarrow> execute w a = (Inr obs, w') \<Longrightarrow> checked_observation ext a obs"
begin

text \<open>What a caller may read off a failure or an observation without checking again.\<close>

lemma failure_bounds:
  assumes "visits_all ext" "execute w a = (Inl f, w')"
  shows "known_code (fl_Code f)" "fl_Message f \<noteq> []" "length (fl_Message f) \<le> 500"
    "0 \<le> sint (fl_MutationRequestsObserved f)" "sint (fl_MutationRequestsObserved f) \<le> 32"
  using refuses [OF assms] by (auto simp: ValidateFailure_def)

lemma observed_bounds:
  assumes "visits_all ext" "execute w a = (Inr obs, w')"
  shows "0 \<le> sint (obs_MutationRequestsObserved obs)" "sint (obs_MutationRequestsObserved obs) \<le> 32"
  using succeeds [OF assms]
  by (auto simp: checked_observation_def ValidateClosed_def ValidateEngine_def split: if_splits)

end

section \<open>The client provides it\<close>

lemma own_check_response:
  assumes "visits_all ext" "check_response ext rid a r = Inl f"
  shows "wf_failure ext f"
proof -
  have e: "wf_failure ext g" if "ValidateEngine ext obs = Some g" for obs g
    using rejectsD [OF own_engine [OF assms(1)] that] by (rule own_failure_wf)
  have c: "wf_failure ext g" if "ValidateClosed obs = Some g" for obs g
    using rejectsD [OF own_closed that] by (rule own_failure_wf)
  have v: "wf_failure ext g" if "ValidateFailure ext p = Some g" for p g
    using rejectsD [OF own_ValidateFailure that] by (rule own_failure_wf)
  show ?thesis
    using assms(2)
    by (auto simp: check_response_def literal_failures split: if_splits option.splits
        intro: e c v)
qed

lemma check_response_accepts:
  "check_response ext rid a r = Inr obs \<Longrightarrow> checked_observation ext a obs"
  by (auto simp: check_response_def checked_observation_def split: if_splits option.splits)

lemma Client_Execute_refuses:
  assumes "visits_all ext" "Client_Execute ext codec wire cl now ctx random a = Inl f"
  shows "wf_failure ext f"
proof -
  have p: "wf_failure ext g" if "ValidateForPolicy ext policy b = Some g" for policy b g
    using rejectsD [OF own_ValidateForPolicy that] by (rule own_failure_wf)
  have l: "wf_failure ext g" if "Lease_Validate ext now k = Some g" for k g
    using rejectsD [OF own_lease [OF assms(1)] that] by (rule own_failure_wf)
  have x: "wf_failure ext g" if "exchange codec run = Inl g" for run g
    using own_exchange [OF that] by (rule own_failure_wf)
  show ?thesis
    using assms(2)
    by (auto simp: Client_Execute_def literal_failures split: option.splits sum.splits
        intro: p l x own_check_response [OF assms(1)])
qed

lemma Client_Execute_succeeds:
  "Client_Execute ext codec wire cl now ctx random a = Inr obs \<Longrightarrow> checked_observation ext a obs"
  by (auto simp: Client_Execute_def split: option.splits sum.splits intro: check_response_accepts)

text \<open>
  As an executor: the world gives the socket, the clock, the context and the random bytes of
  each call, and moves on.
\<close>

record 'w client_world =
  cw_wire :: "'w \<Rightarrow> request \<Rightarrow> socket_run"
  cw_now :: "'w \<Rightarrow> go_time"
  cw_deadline :: "'w \<Rightarrow> go_time option"
  cw_random :: "'w \<Rightarrow> 8 word list option"
  cw_next :: "'w \<Rightarrow> 'w"

definition client_executor ::
    "externals \<Rightarrow> response codec \<Rightarrow> 'w client_world \<Rightarrow> client option
     \<Rightarrow> 'w \<Rightarrow> action \<Rightarrow> (failure + observation) \<times> 'w" where
  "client_executor ext codec cw cl w a =
     (Client_Execute ext codec (cw_wire cw w) cl (cw_now cw w) (cw_deadline cw w) (cw_random cw w) a,
      cw_next cw w)"

interpretation client: browser_executor ext "client_executor ext codec cw cl" for ext codec cw cl
  by unfold_locales
    (auto simp: client_executor_def intro: Client_Execute_refuses Client_Execute_succeeds)

section \<open>The journal wraps it\<close>

text \<open>
  \<^verbatim>\<open>browserJournalExecutor.Execute\<close>: the base executor's result, recorded and passed on. Go
  returns the zero observation beside a failure.
\<close>

definition journaled ::
    "journal_codec \<Rightarrow> ('w \<Rightarrow> go_time) \<Rightarrow> ('w \<Rightarrow> action \<Rightarrow> (failure + observation) \<times> 'w)
     \<Rightarrow> 'w \<times> journal \<Rightarrow> action \<Rightarrow> (failure + observation) \<times> 'w \<times> journal" where
  "journaled jc clock base = (\<lambda>(w, j) a.
     case base w a of
       (Inl f, w') \<Rightarrow> (Inl f, w', record_action jc a zero_observation (Some f) (clock w') j)
     | (Inr obs, w') \<Rightarrow> (Inr obs, w', record_action jc a obs None (clock w') j))"

context browser_executor
begin

lemma journaled_contract: "browser_executor ext (journaled jc clock execute)"
  by unfold_locales
    (auto simp: journaled_def intro: refuses succeeds split: prod.splits sum.splits)

end

interpretation journaled_client: browser_executor ext "journaled jc clock (client_executor ext codec cw cl)"
  for ext jc clock codec cw cl
  by (rule client.journaled_contract)

lemma wf_journaled:
  assumes "wf_journal jc j"
  shows "wf_journal jc (snd (snd (journaled jc clock base (w, j) a)))"
  using wf_record_action [OF assms] by (auto simp: journaled_def split: prod.splits sum.splits)

text \<open>A sequence of actions through the wrapped executor.\<close>

fun run_actions :: "('s \<Rightarrow> action \<Rightarrow> 'r \<times> 's) \<Rightarrow> 's \<Rightarrow> action list \<Rightarrow> 'r list \<times> 's" where
  "run_actions execute s [] = ([], s)"
| "run_actions execute s (a # as) =
     (case execute s a of (r, s') \<Rightarrow>
       (case run_actions execute s' as of (rs, s'') \<Rightarrow> (r # rs, s'')))"

lemma wf_journaled_run:
  "wf_journal jc j \<Longrightarrow> run_actions (journaled jc clock base) (w, j) as = (rs, w', j') \<Longrightarrow> wf_journal jc j'"
proof (induction as arbitrary: w j rs)
  case (Cons a as)
  obtain r w1 j1 where s: "journaled jc clock base (w, j) a = (r, w1, j1)"
    by (metis prod_cases3)
  have "wf_journal jc j1" using wf_journaled [OF Cons.prems(1)] s by (metis snd_conv)
  with Cons s show ?case by (auto split: prod.splits)
qed simp

end
