(* ===== verification/ServerBudgets.thy ===== *)
theory ServerBudgets
  imports ReplyFacts
begin

text \<open>
  What the reservations let through over a whole attachment, and how the state moves from one
  reservation to the next.
\<close>

section \<open>Sequences of reservations\<close>

text \<open>The requests of a list that are let through, one after the other.\<close>

fun reserve_run ::
    "int \<Rightarrow> identity \<Rightarrow> (string \<times> action) list \<Rightarrow> server \<Rightarrow> (string \<times> action) list \<times> server" where
  "reserve_run m i [] s = ([], s)"
| "reserve_run m i ((requestID, a) # rest) s =
     (case reserveRequest m i requestID a s of
        (f, s1) \<Rightarrow>
          (case reserve_run m i rest s1 of
             (accepted, s2) \<Rightarrow> (if f = None then (requestID, a) # accepted else accepted, s2)))"

definition is_close :: "action \<Rightarrow> bool" where
  "is_close a \<longleftrightarrow> act_Kind a = ActionClose"

definition spent :: "(string \<times> action) list \<Rightarrow> int" where
  "spent rs = sum_list (map (\<lambda>(_, a). if is_close a then 0 else action_cost a) rs)"

definition closes :: "(string \<times> action) list \<Rightarrow> int" where
  "closes rs = int (length (filter (\<lambda>(_, a). is_close a) rs))"

lemma spent_closes_Cons [simp]:
  "spent ((r, a) # rs) = (if is_close a then 0 else action_cost a) + spent rs"
  "closes ((r, a) # rs) = (if is_close a then 1 else 0) + closes rs"
  "spent [] = 0" "closes [] = 0"
  by (simp_all add: spent_def closes_def)

section \<open>One reservation in its scope\<close>

lemma reserveRequest_scope [simp]:
  "srv_seenScope (snd (reserveRequest m i requestID a s)) = attachmentRequestScope i"
  by (simp add: reserveRequest_def reserve_close_def reserve_action_def Let_def)

lemma reserve_in_scope:
  assumes "srv_seenScope s = attachmentRequestScope i" "reserveRequest m i requestID a s = (f, s')"
  shows "srv_seen s \<subseteq> srv_seen s'" "srv_actionCount s \<le> srv_actionCount s' \<or> action_cost a < 0"
    "srv_closeCount s \<le> srv_closeCount s'" "srv_terminal s \<longrightarrow> srv_terminal s'"
  using assms
  by (auto simp: reserveRequest_def reserve_close_def reserve_action_def Let_def enter_scope_same
      split: if_splits)

lemma reserve_accepted:
  assumes "srv_seenScope s = attachmentRequestScope i" "reserveRequest m i requestID a s = (None, s')"
  shows "requestID \<notin> srv_seen s" "requestID \<in> srv_seen s'"
    "srv_actionCount s' = srv_actionCount s + (if is_close a then 0 else action_cost a)"
    "srv_closeCount s' = srv_closeCount s + (if is_close a then 1 else 0)"
    "\<not> is_close a \<Longrightarrow> \<not> srv_terminal s"
    "\<not> is_close a \<Longrightarrow> srv_actionCount s + action_cost a \<le> m"
    "is_close a \<Longrightarrow> srv_closeCount s < maxCloseAttemptsPerAttachment"
  using assms
  by (auto simp: reserveRequest_def reserve_close_def reserve_action_def Let_def enter_scope_same
      is_close_def split: if_splits)

lemma reserve_run_budgets:
  assumes "srv_seenScope s = attachmentRequestScope i" "wf_server m s" "0 \<le> m"
    and "\<forall>(_, a) \<in> set rs. 1 \<le> action_cost a"
    and "reserve_run m i rs s = (accepted, s')"
  shows "distinct (map fst accepted) \<and> set (map fst accepted) \<inter> srv_seen s = {}
    \<and> srv_actionCount s + spent accepted \<le> m
    \<and> srv_closeCount s + closes accepted \<le> maxCloseAttemptsPerAttachment"
  using assms
proof (induction rs arbitrary: s accepted)
  case Nil
  then show ?case by (auto simp: wf_server_def wf_budgets_def)
next
  case (Cons ra rs)
  obtain requestID a where ra: "ra = (requestID, a)" by fastforce
  obtain f s1 where res: "reserveRequest m i requestID a s = (f, s1)" by fastforce
  obtain acc where run: "reserve_run m i rs s1 = (acc, s')"
    and acc: "accepted = (if f = None then (requestID, a) # acc else acc)"
    using Cons.prems(5) ra res by (auto split: prod.splits)
  have cost: "1 \<le> action_cost a" using Cons.prems(4) ra by simp
  have scope: "srv_seenScope s1 = attachmentRequestScope i"
    using reserveRequest_scope [of m i requestID a s] res by simp
  have wf: "wf_server m s1"
    using wf_reserveRequest [OF Cons.prems(2,3) cost] res by (metis snd_conv)
  have "\<forall>(_, a) \<in> set rs. 1 \<le> action_cost a" using Cons.prems(4) by simp
  note IH = Cons.IH [OF scope wf Cons.prems(3) this run]
  note step = reserve_in_scope [OF Cons.prems(1) res]
  show ?case
  proof (cases f)
    case (Some g)
    with IH step cost acc show ?thesis by auto
  next
    case None
    note ok = reserve_accepted [OF Cons.prems(1) res [unfolded None]]
    have "requestID \<notin> set (map fst acc)" using IH ok(2) by blast
    with IH step acc None ok(1,3,4) show ?thesis by auto
  qed
qed

section \<open>Scopes tell attachments apart\<close>

lemma bar_split:
  assumes "CHR ''|'' \<notin> set xs" "CHR ''|'' \<notin> set ys" "xs @ ''|'' @ us = ys @ ''|'' @ vs"
  shows "xs = ys \<and> us = vs"
  using assms
proof (induction xs arbitrary: ys)
  case Nil
  then show ?case by (cases ys) auto
next
  case (Cons x xs)
  then show ?case by (cases ys) auto
qed

lemma FormatUint_no_bar: "CHR ''|'' \<notin> set (FormatUint n)"
  using FormatUint_digits [of "CHR ''|''" n] by (auto simp: is_digit_def)

lemma scope_injective:
  assumes "IsValidUUID (id_RunID i)" "IsValidUUID (id_RunID j)"
    and "IsValidUUID (id_AttachmentID i)" "IsValidUUID (id_AttachmentID j)"
    and "attachmentRequestScope i = attachmentRequestScope j"
  shows "id_RunID i = id_RunID j" "id_AttachmentID i = id_AttachmentID j"
    "id_SessionEpoch i = id_SessionEpoch j" "id_ControlEpoch i = id_ControlEpoch j"
proof -
  note bars = assms(1-4) [THEN IsValidUUID_no_bar]
  have run: "id_RunID i = id_RunID j \<and>
      id_AttachmentID i @ ''|'' @ FormatUint (id_SessionEpoch i) @ ''|'' @ FormatUint (id_ControlEpoch i)
    = id_AttachmentID j @ ''|'' @ FormatUint (id_SessionEpoch j) @ ''|'' @ FormatUint (id_ControlEpoch j)"
    using assms(5) bars by (intro bar_split) (simp_all add: attachmentRequestScope_def)
  then have att: "id_AttachmentID i = id_AttachmentID j \<and>
      FormatUint (id_SessionEpoch i) @ ''|'' @ FormatUint (id_ControlEpoch i)
    = FormatUint (id_SessionEpoch j) @ ''|'' @ FormatUint (id_ControlEpoch j)"
    using bars by (intro bar_split) simp_all
  then have "FormatUint (id_SessionEpoch i) = FormatUint (id_SessionEpoch j)
      \<and> FormatUint (id_ControlEpoch i) = FormatUint (id_ControlEpoch j)"
    by (intro bar_split) (simp_all add: FormatUint_no_bar)
  with run att show "id_RunID i = id_RunID j" "id_AttachmentID i = id_AttachmentID j"
    "id_SessionEpoch i = id_SessionEpoch j" "id_ControlEpoch i = id_ControlEpoch j" by simp_all
qed

lemma Identity_Validate_uuids:
  assumes "visits_all ext" "Identity_Validate ext i = None"
  shows "IsValidUUID (id_RunID i)" "IsValidUUID (id_AttachmentID i)"
  using assms visits_allD [OF assms(1), of "identity_labels i"]
  by (auto simp: Identity_Validate_def identity_labels_def)

section \<open>What a connection does to the set of identifiers\<close>

text \<open>Two states with the same scope and the same identifiers.\<close>

definition same_seen :: "server \<Rightarrow> server \<Rightarrow> bool" where
  "same_seen s t \<longleftrightarrow> srv_seenScope t = srv_seenScope s \<and> srv_seen t = srv_seen s"

lemma same_seen_refl [simp]: "same_seen s s"
  by (simp add: same_seen_def)

lemma same_seen_trans: "same_seen s t \<Longrightarrow> same_seen t u \<Longrightarrow> same_seen s u"
  by (simp add: same_seen_def)

lemma same_seen_accept: "acceptEngineState e g (prepareClickScope i s) = (f, t) \<Longrightarrow> same_seen s t"
  using acceptEngineState_frames(1,2) [of e g "prepareClickScope i s" f t] by (simp add: same_seen_def)

lemma same_seen_observation:
  assumes "recordEngineObservation i obs s = (f, t)"
  shows "same_seen s t"
proof -
  obtain g u where a: "acceptEngineState (obs_EngineInstanceID obs) (obs_NavigationGeneration obs)
      (prepareClickScope i s) = (g, u)" by fastforce
  have "t = u \<or> t = u\<lparr>srv_clickPageStateID := obs_PageStateID obs\<rparr>"
    using assms a by (cases g) (simp_all add: recordEngineObservation_def)
  then show ?thesis
    using same_seen_accept [OF a] by (elim disjE) (simp_all add: same_seen_def)
qed

lemma same_seen_blocked:
  assumes "recordBlockedClick i f s = (g, t)"
  shows "same_seen s t"
proof -
  obtain h u where a: "acceptEngineState (fl_EngineInstanceID f) (fl_NavigationGeneration f)
      (prepareClickScope i s) = (h, u)" by fastforce
  have "t = u \<or> (\<exists>n m p c. t = u\<lparr>srv_blockedClickNavigationCount := n,
      srv_blockedClickRunCount := m, srv_clickPageStateID := p, srv_lastBlockedTargetCategory := c\<rparr>)"
    using assms a by (cases h) (simp_all add: recordBlockedClick_def Let_def, blast)
  then show ?thesis
    using same_seen_accept [OF a] by (elim disjE exE) (simp_all add: same_seen_def)
qed

lemma same_seen_reset: "same_seen s (resetClickNavigationBaseline i s)"
  by (simp add: same_seen_def resetClickNavigationBaseline_def)

lemma same_seen_settle: "settle_failure ext r f s = (g, t) \<Longrightarrow> same_seen s t"
  by (auto simp: settle_failure_def same_seen_reset dest: same_seen_blocked split: option.splits if_splits)

lemma same_seen_challenge: "closeRequiredChallenge cfg wall i s w = (f, t, w') \<Longrightarrow> same_seen s t"
  using closeRequiredChallenge_state by (fastforce simp: same_seen_def)

lemma same_seen_failure:
  assumes "failure_outcome ext cfg wall r f s w = (reply, t, w')"
  shows "same_seen s t"
proof -
  obtain g s1 where g: "settle_failure ext r f s = (g, s1)" by fastforce
  obtain c s2 w2 where c: "closeRequiredChallenge cfg wall (req_Identity r) s1 w = (c, s2, w2)"
    by (metis prod_cases3)
  have "t \<in> {s1, s2}"
    using assms g c by (auto simp: failure_outcome_def split: if_splits option.splits)
  then show ?thesis
    using same_seen_settle [OF g] same_seen_challenge [OF c] same_seen_trans by blast
qed

lemma same_seen_success:
  assumes "observation_outcome ext r obs s = (reply, t)"
  shows "same_seen s t"
proof -
  obtain f s1 where f: "recordEngineObservation (req_Identity r) obs s = (f, s1)" by fastforce
  have "t \<in> {s, s1, resetClickNavigationBaseline (req_Identity r) s1}"
    using assms f by (auto simp: observation_outcome_def Let_def split: if_splits option.splits)
  then show ?thesis
    using same_seen_observation [OF f] same_seen_reset [of s1 "req_Identity r"]
    by (auto intro: same_seen_trans [of s s1])
qed

lemma same_seen_execute:
  assumes "execute_request ext cfg wall r s w = (reply, s', w')"
  shows "same_seen s s'"
proof -
  obtain obs f w1 where run: "run_action cfg r w = ((obs, f), w1)" by (metis prod.exhaust)
  show ?thesis
  proof (cases f)
    case None
    with assms run show ?thesis
      by (auto simp: execute_request_def split: prod.splits intro: same_seen_success)
  next
    case (Some g)
    with assms run show ?thesis by (auto simp: execute_request_def intro: same_seen_failure)
  qed
qed

text \<open>An identifier, once seen, stays seen as long as the attachment scope does.\<close>

lemma browser_request_seen:
  assumes "handleBrowserRequest ext cfg wall now r s w = (reply, s', w')"
    and "srv_seenScope s' = srv_seenScope s"
  shows "srv_seen s \<subseteq> srv_seen s'"
proof -
  obtain f s1 where res: "reserveRequest (sc_MaxRequests cfg) (req_Identity r) (req_RequestID r)
      (req_Action r) s = (f, s1)" by fastforce
  have s1: "srv_seenScope s1 = attachmentRequestScope (req_Identity r)"
    using reserveRequest_scope res by (metis snd_conv)
  have "s' = s \<or> same_seen s1 s'"
    using assms(1) res
    by (auto simp: handleBrowserRequest_def
        split: if_splits option.splits sum.splits prod.splits intro: same_seen_execute)
  then show ?thesis
    using assms(2) s1 reserve_in_scope(1) [OF _ res] by (auto simp: same_seen_def)
qed

lemma viewer_connection_seen:
  assumes "handleViewerConnection ext cd cfg raw now s w = (reply, s', w')"
    and "srv_seenScope s' = srv_seenScope s"
  shows "srv_seen s \<subseteq> srv_seen s'"
proof -
  have "srv_seenScope t = srv_seenScope s \<Longrightarrow> srv_seen s \<subseteq> srv_seen t"
    if "reserveViewerRequest i requestID s = (f, t)" for i requestID f t
    using that by (auto simp: reserveViewerRequest_def Let_def enter_scope_def split: if_splits)
  then show ?thesis
    using assms by (auto simp: handleViewerConnection_def split: if_splits option.splits prod.splits)
qed

lemma connection_seen:
  assumes "handleConnection ext cd cfg wall arrived s w = (reply, s', w')"
    and "srv_seenScope s' = srv_seenScope s"
  shows "srv_seen s \<subseteq> srv_seen s'"
proof
  fix x assume x: "x \<in> srv_seen s"
  have b: "x \<in> srv_seen s'" if "handleBrowserRequest ext cfg wall now r s w = (rep, s', w')" for now r rep
    using browser_request_seen [OF that assms(2)] x by blast
  have v: "x \<in> srv_seen s'" if "handleViewerConnection ext cd cfg raw now s w = (rep, s', w')" for raw now rep
    using viewer_connection_seen [OF that assms(2)] x by blast
  show "x \<in> srv_seen s'"
    using assms(1) x
    by (auto simp: handleConnection_def Let_def split: if_splits sum.splits option.splits prod.splits
        intro: b v)
qed

end
