(* ===== verification/Samples.thy ===== *)
theory Samples
  imports EmptyOrigins Executor ServerBudgets
begin

text \<open>
  Concrete values at which the properties are applied: an identity that passes validation, a
  lease, a server over a trivial world and the requests of an attachment.
\<close>

definition sample_identity :: identity where
  "sample_identity =
     \<lparr>id_RunID = ''11111111-1111-4111-8111-111111111111'',
      id_AgentID = ''22222222-2222-4222-8222-222222222222'',
      id_PrincipalScopeID = ''scope:1'',
      id_BrowserSessionID = ''33333333-3333-4333-8333-333333333333'',
      id_SessionEpoch = 1,
      id_AttachmentID = ''44444444-4444-4444-8444-444444444444'',
      id_ControlEpoch = 2, id_Controller = ControllerAgent,
      id_BrowserInteractionPolicy = ''restricted'',
      id_BrowserInteractionPolicyGeneration = 1,
      id_BrowserMutationOrigins = Some [],
      id_BrowserMutationOriginsSHA256 = RestrictedMutationOriginsSHA256\<rparr>"

lemma restricted_empty_origins:
  "ValidateMutationOrigins ext ''restricted'' (Some []) RestrictedMutationOriginsSHA256 = None"
  by (simp add: ValidateMutationOrigins_accepts CanonicalMutationOrigins_def empty_origins_digest)

lemma sample_uuids:
  "IsValidUUID ''11111111-1111-4111-8111-111111111111''"
  "IsValidUUID ''22222222-2222-4222-8222-222222222222''"
  "IsValidUUID ''33333333-3333-4333-8333-333333333333''"
  "IsValidUUID ''44444444-4444-4444-8444-444444444444''"
  "IsValidUUID ''55555555-5555-4555-8555-555555555555''"
  "IsValidUUID ''66666666-6666-4666-8666-666666666666''"
  by code_simp+

lemma sample_scope_id: "validOpaqueID ''scope:1'' 256"
  by code_simp

lemma sample_identity_valid: "Identity_Validate ascii_externals sample_identity = None"
  using sample_uuids sample_scope_id
  by (simp add: Identity_Validate_def identity_labels_def sample_identity_def
      restricted_empty_origins ascii_externals_def)

definition sample_action :: "action_kind \<Rightarrow> action" where
  "sample_action kind = Action kind ObservationDefault [] [] None None None None [] [] [] None []"

definition sample_click :: action where
  "sample_click = Action ActionClick ObservationDefault [] [] (Some 10) (Some 20) None None [] [] [] None []"

lemma sample_click_valid: "ValidateForPolicy ascii_externals ''restricted'' sample_click = None"
proof -
  have "validateCoordinates (Some 10) (Some 20) = None" by code_simp
  then show ?thesis
    by (simp add: ValidateForPolicy.simps sample_click_def ObservationMode_Validate_def requireOnly_def
        allowOnly_def presentFields_def all_fields_def)
qed

definition sample_credential :: string where
  "sample_credential = ''0123456789abcdef0123456789abcdef''"

definition sample_lease :: lease where
  "sample_lease = \<lparr>le_ContractID = LeaseContractID, le_ExpiresAt = 100 * Second, le_Identity = sample_identity\<rparr>"

lemma sample_lease_valid: "Lease_Validate ascii_externals Second sample_lease = None"
  by (simp add: Lease_Validate_def sample_lease_def sample_identity_valid Second_def)

definition sample_client :: client where
  "sample_client = \<lparr>cl_socketPath = ''/run/browser.sock'', cl_channelCredential = sample_credential,
     cl_lease = sample_lease, cl_timeout = 20 * Second\<rparr>"

text \<open>An engine over no world at all: every action fails.\<close>

definition sample_failure :: failure where
  "sample_failure = NewFailure ErrorEngineUnavailable ''browser engine is unavailable'' True"

definition sample_engine :: "unit engine" where
  "sample_engine = \<lparr>en_Execute = (\<lambda>d i a w. ((zero_observation, Some sample_failure), w)),
     en_ExecuteViewer = None, en_expired = (\<lambda>d w. False)\<rparr>"

definition sample_options :: "unit server_options" where
  "sample_options = \<lparr>so_SocketPath = ''/run//browser.sock'', so_SocketMode = 0,
     so_ChannelCredential = sample_credential, so_Lease = Some (static_lease sample_identity),
     so_Engine = Some sample_engine, so_Now = Some (\<lambda>w. Second), so_MaxRequestBytes = 0,
     so_MaxResponseBytes = 0, so_MaxRequests = 0, so_IOTimeout = 0,
     so_HumanControlAvailable = False\<rparr>"

definition sample_config :: "unit server_config" where
  "sample_config = \<lparr>sc_SocketPath = ''/run/browser.sock'', sc_SocketMode = 0x180,
     sc_ChannelCredential = sample_credential, sc_Lease = static_lease sample_identity,
     sc_Engine = sample_engine, sc_Now = (\<lambda>w. Second), sc_MaxRequestBytes = int MaxRequestBytes,
     sc_MaxResponseBytes = int MaxResponseBytes, sc_MaxRequests = maxRequestsPerLease,
     sc_IOTimeout = 5 * Second, sc_HumanControlAvailable = False\<rparr>"

lemma sample_server: "NewServer (\<lambda>w. 0) sample_options = Inr (sample_config, new_server)"
proof -
  have path: "Clean ''/run//browser.sock'' = ''/run/browser.sock''" "IsAbs ''/run/browser.sock''"
    by code_simp+
  have mode: "(0x180 AND 0x1FF) AND 0x007 = (0 :: 32 word)" by code_simp
  show ?thesis
    using path mode
    by (simp add: NewServer_def sample_options_def sample_config_def defaulted_def Let_def
        MaxRequestBytes_def MaxResponseBytes_def sample_credential_def)
qed

text \<open>Codecs that know no request; the encoders give one byte.\<close>

definition sample_codecs :: codecs where
  "sample_codecs = \<lparr>cd_envelope = (\<lambda>raw. None),
     cd_request = one_text_codec []
       (client_request sample_client [] 0 sample_click) (client_request sample_client [] 0 sample_click),
     cd_viewer_request = one_text_codec []
       (client_viewer_request sample_client [] 0 ViewerOperationFrame None)
       (client_viewer_request sample_client [] 0 ViewerOperationFrame None),
     cd_health_request = one_text_codec [] zero_health_request zero_health_request,
     cd_response = (\<lambda>r. Some ''r''), cd_viewer_response = (\<lambda>r. Some ''v''),
     cd_health_response = (\<lambda>r. Some ''h'')\<rparr>"

text \<open>A connection that breaks before anything arrives.\<close>

lemma sample_connection:
  "handleConnection ext cd sample_config wall ([], True) s w =
     (BrowserReply (ErrorResponse [] (Some
        (NewFailure ErrorProtocolInvalid ''browser request is not valid'' False))), s, w)"
  by (simp add: handleConnection_def readRequest_def sample_config_def MaxRequestBytes_def)

text \<open>The request of the sample client and its fate at the sample server.\<close>

definition sample_request :: request where
  "sample_request = client_request sample_client ''55555555-5555-4555-8555-555555555555'' (20 * Second) sample_click"

lemma sample_request_valid: "Request_Validate ascii_externals Second sample_request = None"
proof -
  have c: "id_BrowserInteractionPolicy sample_identity = ''restricted''"
    by (simp add: sample_identity_def)
  show ?thesis
    using sample_uuids sample_click_valid
    by (simp add: Request_Validate_def sample_request_def client_request_def sample_client_def
        sample_lease_def sample_identity_valid c Second_def MaxActionDeadline_def)
qed

end
