(* ===== verification/CallOrder.thy ===== *)
theory CallOrder
  imports ConnectionFacts
begin

text \<open>
  The order in which one connection calls the lease and the engine. The interfaces of a server
  are wrapped so that the outside world also keeps a list of the calls; the theorem is about
  the calls of any handled connection.
\<close>

section \<open>Logging interfaces\<close>

text \<open>A call with its identity and, for the lease, whether it succeeded or what it answered.\<close>

datatype call =
    Validated identity bool
  | AskedRevoked identity bool
  | Revoked identity bool
  | Executed identity action
  | ExecutedViewer identity viewer_operation

definition logged_revoker :: "'w lease_revoker \<Rightarrow> ('w \<times> call list) lease_revoker" where
  "logged_revoker rv =
     \<lparr>rv_IsRevoked = (\<lambda>i (w, calls). case rv_IsRevoked rv i w of
         ((revoked, f), w') \<Rightarrow> ((revoked, f), (w', calls @ [AskedRevoked i (revoked \<and> f = None)]))),
      rv_Revoke = (\<lambda>i (w, calls). case rv_Revoke rv i w of
         (f, w') \<Rightarrow> (f, (w', calls @ [Revoked i (f = None)])))\<rparr>"

definition logged_lease :: "'w lease_validator \<Rightarrow> ('w \<times> call list) lease_validator" where
  "logged_lease lv =
     \<lparr>lv_Validate = (\<lambda>i (w, calls). case lv_Validate lv i w of
         (f, w') \<Rightarrow> (f, (w', calls @ [Validated i (f = None)]))),
      lv_revoker = map_option logged_revoker (lv_revoker lv)\<rparr>"

definition logged_engine :: "'w engine \<Rightarrow> ('w \<times> call list) engine" where
  "logged_engine en =
     \<lparr>en_Execute = (\<lambda>d i a (w, calls). case en_Execute en d i a w of
         (r, w') \<Rightarrow> (r, (w', calls @ [Executed i a]))),
      en_ExecuteViewer = map_option (\<lambda>ev d i operation inp (w, calls). case ev d i operation inp w of
         (r, w') \<Rightarrow> (r, (w', calls @ [ExecutedViewer i operation]))) (en_ExecuteViewer en),
      en_expired = (\<lambda>d (w, calls). en_expired en d w)\<rparr>"

definition logged_config :: "'w server_config \<Rightarrow> ('w \<times> call list) server_config" where
  "logged_config cfg =
     \<lparr>sc_SocketPath = sc_SocketPath cfg, sc_SocketMode = sc_SocketMode cfg,
      sc_ChannelCredential = sc_ChannelCredential cfg, sc_Lease = logged_lease (sc_Lease cfg),
      sc_Engine = logged_engine (sc_Engine cfg), sc_Now = (\<lambda>(w, calls). sc_Now cfg w),
      sc_MaxRequestBytes = sc_MaxRequestBytes cfg, sc_MaxResponseBytes = sc_MaxResponseBytes cfg,
      sc_MaxRequests = sc_MaxRequests cfg, sc_IOTimeout = sc_IOTimeout cfg,
      sc_HumanControlAvailable = sc_HumanControlAvailable cfg\<rparr>"

section \<open>The rule\<close>

text \<open>
  Closing needs a lease that is known to be revoked or was revoked just before; anything else
  needs a lease that validated the same identity.
\<close>

fun permitted :: "call list \<Rightarrow> call \<Rightarrow> bool" where
  "permitted earlier (Executed i a) =
     (if act_Kind a = ActionClose then AskedRevoked i True \<in> set earlier \<or> Revoked i True \<in> set earlier
      else Validated i True \<in> set earlier)"
| "permitted earlier (ExecutedViewer i operation) = (Validated i True \<in> set earlier)"
| "permitted earlier _ = True"

fun all_permitted :: "call list \<Rightarrow> call list \<Rightarrow> bool" where
  "all_permitted earlier [] = True"
| "all_permitted earlier (c # cs) = (permitted earlier c \<and> all_permitted (earlier @ [c]) cs)"

lemma all_permitted_append [simp]:
  "all_permitted earlier (cs @ ds) \<longleftrightarrow> all_permitted earlier cs \<and> all_permitted (earlier @ cs) ds"
  by (induction cs arbitrary: earlier) auto

section \<open>The handlers follow it\<close>

lemmas logging = logged_config_def logged_lease_def logged_revoker_def logged_engine_def

lemma lease_gate_log:
  assumes "lease_gate (logged_config cfg) r (w, []) = (result, (w', calls))"
  shows "all_permitted [] calls"
    and "result = Inr (revoker, already) \<Longrightarrow>
      (if act_Kind (req_Action r) = ActionClose
       then (\<exists>rv. revoker = Some (logged_revoker rv))
         \<and> (already \<longrightarrow> AskedRevoked (req_Identity r) True \<in> set calls)
       else revoker = None \<and> Validated (req_Identity r) True \<in> set calls)"
  using assms
  by (auto simp: lease_gate_def logging split: if_splits option.splits prod.splits bool.splits)

lemma revoke_gate_log:
  assumes "revoke_gate (Some (logged_revoker rv)) already i (w, calls) = (f, (w', calls'))"
  shows "if already then calls' = calls else calls' = calls @ [Revoked i (f = None)]"
  using assms by (auto simp: revoke_gate_def logging split: if_splits prod.splits)

lemma close_challenge_log:
  assumes "closeRequiredChallenge (logged_config cfg) wall i s (w, calls) = (f, s', (w', calls'))"
    and "all_permitted [] calls"
  shows "all_permitted [] calls'"
  using assms
  by (auto simp: closeRequiredChallenge_def revoke_gate_def logging close_action_def
      split: if_splits option.splits prod.splits)

lemma failure_outcome_log:
  assumes "failure_outcome ext (logged_config cfg) wall r f s (w, calls) = (reply, s', (w', calls'))"
    and "all_permitted [] calls"
  shows "all_permitted [] calls'"
  using assms close_challenge_log [OF _ assms(2)]
  by (auto simp: failure_outcome_def split: if_splits option.splits prod.splits)

lemma execute_request_log:
  assumes "execute_request ext (logged_config cfg) wall r s (w, calls) = (reply, s', (w', calls'))"
    and "all_permitted [] calls" "permitted calls (Executed (req_Identity r) (req_Action r))"
  shows "all_permitted [] calls'"
proof -
  obtain obs f w1 calls1 where run: "run_action (logged_config cfg) r (w, calls) = ((obs, f), (w1, calls1))"
    by (metis prod.exhaust)
  then have "calls1 = calls @ [Executed (req_Identity r) (req_Action r)]"
    by (auto simp: run_action_def logging split: prod.splits)
  with assms(2,3) have "all_permitted [] calls1" by simp
  with assms(1) run failure_outcome_log show ?thesis
    by (auto simp: execute_request_def split: option.splits prod.splits)
qed

lemma browser_request_log:
  assumes "handleBrowserRequest ext (logged_config cfg) wall now r s (w, []) = (reply, s', (w', calls'))"
  shows "all_permitted [] calls'"
proof (cases "Request_Validate ext now r = None \<and> req_ChannelCredential r = sc_ChannelCredential (logged_config cfg)")
  case False
  then show ?thesis using assms by (auto simp: handleBrowserRequest_def split: if_splits option.splits)
next
  case True
  obtain result w1 calls where gate: "lease_gate (logged_config cfg) r (w, []) = (result, (w1, calls))"
    by (metis prod.exhaust)
  have calls: "all_permitted [] calls" using lease_gate_log(1) [OF gate] .
  show ?thesis
  proof (cases result)
    case (Inl f)
    then show ?thesis using assms True gate calls by (auto simp: handleBrowserRequest_def)
  next
    case (Inr pair)
    obtain revoker already where pair: "pair = (revoker, already)" by fastforce
    obtain f s1 where res: "reserveRequest (sc_MaxRequests (logged_config cfg)) (req_Identity r)
        (req_RequestID r) (req_Action r) s = (f, s1)" by fastforce
    obtain g w2 calls2 where rev: "revoke_gate revoker already (req_Identity r) (w1, calls) = (g, (w2, calls2))"
      by (metis prod.exhaust)
    note gated = lease_gate_log(2) [OF gate, of revoker already]
    have calls2: "all_permitted [] calls2"
      "g = None \<Longrightarrow> permitted calls2 (Executed (req_Identity r) (req_Action r))"
    proof -
      have "all_permitted [] calls2
          \<and> (g = None \<longrightarrow> permitted calls2 (Executed (req_Identity r) (req_Action r)))"
      proof (cases "act_Kind (req_Action r) = ActionClose")
        case True
        with gated Inr pair obtain rv where rv: "revoker = Some (logged_revoker rv)"
          and yes: "already \<longrightarrow> AskedRevoked (req_Identity r) True \<in> set calls" by auto
        show ?thesis
          using revoke_gate_log [OF rev [unfolded rv]] yes calls True by (cases already) auto
      next
        case False
        with gated Inr pair rev calls show ?thesis by (auto simp: revoke_gate_def)
      qed
      then show "all_permitted [] calls2"
        "g = None \<Longrightarrow> permitted calls2 (Executed (req_Identity r) (req_Action r))" by auto
    qed
    show ?thesis
      using assms True gate Inr pair res rev calls calls2 execute_request_log
      by (auto simp: handleBrowserRequest_def split: option.splits)
  qed
qed

lemma viewer_connection_log:
  assumes "handleViewerConnection ext cd (logged_config cfg) raw now s (w, []) = (reply, s', (w', calls))"
  shows "all_permitted [] calls"
  using assms
  by (auto simp: handleViewerConnection_def run_viewer_def logging Let_def
      split: if_splits option.splits prod.splits)

lemma connection_log:
  assumes "handleConnection ext cd (logged_config cfg) wall arrived s (w, []) = (reply, s', (w', calls))"
  shows "all_permitted [] calls"
  using assms browser_request_log viewer_connection_log
  by (auto simp: handleConnection_def Let_def split: if_splits sum.splits prod.splits option.splits)

end
