(* ===== verification/ServerProperties.thy ===== *)
theory ServerProperties
  imports Samples CallOrder
begin

text \<open>
  The properties of the Browser Runtime server, each with a witness that applies it.
\<close>

section \<open>Reachable states and their answers\<close>

lemma sample_step:
  "server_step ext cd sample_config wall s
     (BrowserReply (ErrorResponse [] (Some
        (NewFailure ErrorProtocolInvalid ''browser request is not valid'' False)))) s"
  by (rule server_step.connection [OF sample_connection])

text \<open>
  C1. Whatever arrives on any number of connections, and whatever lease and engine do, a server
  made by NewServer never exceeds a budget: actions, Viewer requests, close attempts, blocked
  clicks per navigation and per Run; the identifiers it remembers are at most the reservations
  it counted; and three close attempts make the attachment terminal.
\<close>

theorem server_budgets_hold:
  assumes "NewServer wall_clock opts = Inr (cfg, s0)"
    and "server_reaches ext cd cfg wall s0 s"
  shows "wf_server (sc_MaxRequests cfg) s"
  using assms by (rule made_server_wf)

theorem server_budgets_hold_witness: "wf_server maxRequestsPerLease new_server"
proof -
  have "server_reaches ascii_externals sample_codecs sample_config (\<lambda>w. 0) new_server new_server"
    by (rule server_reaches.serve [OF server_reaches.start sample_step])
  from server_budgets_hold [OF sample_server this] show ?thesis
    by (simp add: sample_config_def)
qed

text \<open>
  C3. Every refusal that a reachable server sends, on the Browser and on the Viewer contract,
  is a failure that ValidateFailure on the receiving side accepts, provided the lease's own
  failures are; the only exception is the retry-exhausted failure that carries no navigation
  generation (see \<open>retry_exhausted_after_checkpoint_is_rejected\<close>).
\<close>

theorem server_replies_reportable:
  assumes "reporting_lease ext (sc_Lease cfg)" "visits_all ext"
    and "NewServer wall_clock opts = Inr (cfg, s0)"
    and "server_reaches ext cd cfg wall s0 s" "server_step ext cd cfg wall s reply s'"
  shows "rejects (reportable ext) (reply_failure reply)"
  using assms(5) reporting_lease.connection_report [OF assms(1) refl assms(2) made_server_wf [OF assms(3,4)]]
  by (auto simp: rejects_def elim: server_stepE)

theorem server_replies_reportable_witness:
  "reportable ascii_externals (NewFailure ErrorProtocolInvalid ''browser request is not valid'' False)"
proof -
  have lease: "reporting_lease ascii_externals (sc_Lease sample_config)"
    by (simp add: sample_config_def static.reporting_lease_axioms)
  from server_replies_reportable [OF lease visits_all_ascii sample_server server_reaches.start sample_step]
  show ?thesis by simp
qed

text \<open>
  C2. Within one connection the engine is only called after the lease allowed it: an action or
  a Viewer operation after a successful validation of the same identity, a close (the client's
  or the server's own, after a required challenge) after the identity was revoked or known to
  be revoked.
\<close>

theorem lease_precedes_engine:
  "all_permitted [] (snd (snd (snd (handleConnection ext cd (logged_config cfg) wall arrived s (w, [])))))"
  using connection_log [of ext cd cfg wall arrived s w] by (metis prod.collapse)

section \<open>Refused requests\<close>

lemma static_same: "StaticLease_Validate i i = None"
  by (simp add: StaticLease_iff SameIdentity_iff)

text \<open>
  C24. A request with the wrong credential, or one that fails validation, changes neither the
  server nor the outside world: no lease call, no engine call, no budget spent.
\<close>

theorem rejected_requests_leave_no_trace:
  assumes "req_ChannelCredential r \<noteq> sc_ChannelCredential cfg \<or> Request_Validate ext now r \<noteq> None"
  shows "\<exists>f. handleBrowserRequest ext cfg wall now r s w = (refuse r f, s, w)"
  using assms by (auto simp: handleBrowserRequest_def)

theorem rejected_requests_leave_no_trace_witness:
  "\<exists>f. handleBrowserRequest ascii_externals sample_config (\<lambda>w. 0) Second
     (sample_request\<lparr>req_ChannelCredential := []\<rparr>) new_server ()
     = (refuse (sample_request\<lparr>req_ChannelCredential := []\<rparr>) f, new_server, ())"
  by (rule rejected_requests_leave_no_trace)
    (simp add: sample_config_def sample_credential_def)

text \<open>
  Replays: an identifier that was seen in the attachment scope is refused, the engine is
  not called and the budgets stay; and over a connection that stays in the scope no identifier
  is forgotten.
\<close>

theorem replays_are_refused:
  assumes "req_ChannelCredential r = sc_ChannelCredential cfg" "Request_Validate ext now r = None"
    and "lease_gate cfg r w = (Inr gate, w1)"
    and "srv_seenScope s = attachmentRequestScope (req_Identity r)" "req_RequestID r \<in> srv_seen s"
  shows "handleBrowserRequest ext cfg wall now r s w =
     (refuse r (NewFailure ErrorRequestReplayed ''browser request_id has already been used'' False),
      prepareClickScope (req_Identity r) s, w1)"
  using assms
  by (cases gate) (simp add: handleBrowserRequest_def reserveRequest_def Let_def enter_scope_same)

theorem replays_are_refused_witness:
  "handleBrowserRequest ascii_externals sample_config (\<lambda>w. 0) Second sample_request
     (new_server\<lparr>srv_seenScope := attachmentRequestScope (req_Identity sample_request),
        srv_seen := {req_RequestID sample_request}\<rparr>) ()
   = (refuse sample_request (NewFailure ErrorRequestReplayed ''browser request_id has already been used'' False),
      prepareClickScope (req_Identity sample_request)
        (new_server\<lparr>srv_seenScope := attachmentRequestScope (req_Identity sample_request),
           srv_seen := {req_RequestID sample_request}\<rparr>), ())"
proof (rule replays_are_refused)
  show "lease_gate sample_config sample_request () = (Inr (None, False), ())"
    by (simp add: lease_gate_def sample_config_def static_lease_def sample_request_def client_request_def
        sample_click_def sample_client_def sample_lease_def static_same)
qed (simp_all add: sample_request_valid,
     simp add: sample_request_def client_request_def sample_client_def sample_config_def)

text \<open>
  An identifier once seen stays seen for as long as connections stay in the attachment's
  scope.
\<close>

theorem seen_identifiers_persist:
  assumes "server_step ext cd cfg wall s reply s'" "srv_seenScope s' = srv_seenScope s"
  shows "srv_seen s \<subseteq> srv_seen s'"
  using assms(1) by (elim server_stepE) (rule connection_seen [OF _ assms(2)])

theorem seen_identifiers_persist_witness: "srv_seen new_server \<subseteq> srv_seen new_server"
  by (rule seen_identifiers_persist [OF sample_step [of ascii_externals sample_codecs "\<lambda>w. 0" new_server]]) simp

section \<open>Budgets of an attachment\<close>

text \<open>
  C9. Of any sequence of requests of one attachment, the ones let through have distinct
  identifiers, none of them seen before; their actions, a batch counting each of its actions,
  cost at most what the budget has left; and at most three closes pass.
\<close>

theorem attachment_budget:
  assumes "srv_seenScope s = attachmentRequestScope i" "wf_server m s" "0 \<le> m"
    and "\<forall>(_, a) \<in> set rs. 1 \<le> action_cost a"
    and "reserve_run m i rs s = (accepted, s')"
  shows "distinct (map fst accepted) \<and> set (map fst accepted) \<inter> srv_seen s = {}
    \<and> srv_actionCount s + spent accepted \<le> m
    \<and> srv_closeCount s + closes accepted \<le> maxCloseAttemptsPerAttachment"
  using assms by (rule reserve_run_budgets)

theorem attachment_budget_witness:
  "spent (fst (reserve_run 1 sample_identity [(''a'', sample_click), (''a'', sample_click), (''b'', sample_click)]
     (enter_scope sample_identity new_server))) \<le> 1"
proof -
  obtain accepted s' where run: "reserve_run 1 sample_identity
      [(''a'', sample_click), (''a'', sample_click), (''b'', sample_click)]
      (enter_scope sample_identity new_server) = (accepted, s')" by fastforce
  have wf: "wf_server 1 (enter_scope sample_identity new_server)"
    by (simp add: wf_enter_scope wf_new_server)
  have zero: "srv_actionCount (enter_scope sample_identity new_server) = 0"
    by (simp add: enter_scope_def Let_def new_server_def)
  from attachment_budget [OF _ wf _ _ run] run zero show ?thesis
    by (simp add: action_cost_def sample_click_def)
qed

text \<open>
  C35. The exception among the refusals occurs: in a Run whose blocked-click budget is spent, a checkpoint (or
  an engine reset) clears the navigation baseline, and the next click is refused with a failure
  that the client's ValidateFailure rejects, so that the client reports an invalid output
  instead of the exhausted budget.
\<close>

theorem retry_exhausted_after_checkpoint_is_rejected:
  assumes "srv_seenScope s = attachmentRequestScope i" "requestID \<notin> srv_seen s" "\<not> srv_terminal s"
    and "srv_actionCount s < m" "maxBlockedClicksPerRun \<le> srv_blockedClickRunCount s" "prepared i s"
    and "act_Kind a = ActionClick"
  shows "\<exists>f. fst (reserveRequest m i requestID a (resetClickNavigationBaseline i s)) = Some f
     \<and> fl_Code f = ErrorClickRetryExhausted \<and> \<not> wf_failure ext f"
proof -
  let ?s = "resetClickNavigationBaseline i s"
  have s: "?s = s\<lparr>srv_clickEngineInstanceID := 0, srv_clickNavigationGeneration := 0,
      srv_blockedClickNavigationCount := 0\<rparr>"
    using assms(6) by (simp add: resetClickNavigationBaseline_def)
  have p: "prepared i ?s" using assms(6) s by (simp add: prepared_def)
  show ?thesis
    using assms p retry_failure_refused
    by (simp add: reserveRequest_def reserve_action_def Let_def enter_scope_same action_cost_def s)
qed

theorem retry_exhausted_after_checkpoint_is_rejected_witness:
  "\<exists>f. fst (reserveRequest 5 sample_identity ''a'' sample_click (resetClickNavigationBaseline sample_identity
       ((prepareClickScope sample_identity (enter_scope sample_identity new_server))
         \<lparr>srv_blockedClickRunCount := 12, srv_clickNavigationGeneration := 4,
          srv_blockedClickNavigationCount := 3, srv_clickPageStateID := ''page-1'',
          srv_lastBlockedTargetCategory := TargetCategoryButton\<rparr>))) = Some f
     \<and> fl_Code f = ErrorClickRetryExhausted \<and> \<not> wf_failure ascii_externals f"
proof (rule retry_exhausted_after_checkpoint_is_rejected)
  have fresh: "srv_seen (enter_scope sample_identity new_server) = {}"
    "\<not> srv_terminal (enter_scope sample_identity new_server)"
    "srv_actionCount (enter_scope sample_identity new_server) = 0"
    by (simp_all add: enter_scope_def Let_def new_server_def)
  let ?s = "(prepareClickScope sample_identity (enter_scope sample_identity new_server))
         \<lparr>srv_blockedClickRunCount := 12, srv_clickNavigationGeneration := 4,
          srv_blockedClickNavigationCount := 3, srv_clickPageStateID := ''page-1'',
          srv_lastBlockedTargetCategory := TargetCategoryButton\<rparr>"
  show "srv_seenScope ?s = attachmentRequestScope sample_identity" "''a'' \<notin> srv_seen ?s"
    "\<not> srv_terminal ?s" "srv_actionCount ?s < 5" "maxBlockedClicksPerRun \<le> srv_blockedClickRunCount ?s"
    using fresh by (simp_all add: maxBlockedClicksPerRun_def)
  show "prepared sample_identity ?s"
    using prepared_prepareClickScope [of sample_identity "enter_scope sample_identity new_server"]
    by (simp add: prepared_def)
qed (simp add: sample_click_def)

end
