(* ===== verification/WireProperties.thy ===== *)
theory WireProperties
  imports Samples CallOrder
begin

text \<open>
  Further properties of the server: the limits of its options, what it reads and writes, the
  scopes of its budgets and what the engine may report.
\<close>

section \<open>Limits\<close>

text \<open>
  A server is only made with limits inside the contract: an absolute socket path that other
  users cannot open, a credential of 32 to 512 bytes, requests and responses of at least 1024
  bytes and at most the contract's maxima, and 1 to 2048 actions per attachment.
\<close>

theorem made_servers_respect_the_contract:
  assumes "NewServer wall_clock opts = Inr (cfg, s)"
  shows "IsAbs (sc_SocketPath cfg) \<and> (sc_SocketMode cfg AND 0x1FF) AND 0x007 = 0
    \<and> 32 \<le> length (sc_ChannelCredential cfg) \<and> length (sc_ChannelCredential cfg) \<le> 512
    \<and> 1024 \<le> sc_MaxRequestBytes cfg \<and> sc_MaxRequestBytes cfg \<le> int MaxRequestBytes
    \<and> 1024 \<le> sc_MaxResponseBytes cfg \<and> sc_MaxResponseBytes cfg \<le> int MaxResponseBytes
    \<and> 1 \<le> sc_MaxRequests cfg \<and> sc_MaxRequests cfg \<le> 2048 \<and> 1 \<le> sc_IOTimeout cfg
    \<and> s = new_server"
  using NewServer_accepts [OF assms] NewServer_stores(3,4,5) [OF assms]
  by (simp add: maxRequestsPerLease_def)

theorem made_servers_respect_the_contract_witness: "sc_MaxRequests sample_config \<le> 2048"
  using made_servers_respect_the_contract [OF sample_server] by simp

text \<open>
  A connection that delivers more than the request limit is refused unread: the server and the
  outside world stay as they are, whatever the bytes are.
\<close>

theorem oversized_requests_are_not_decoded:
  assumes "0 \<le> sc_MaxRequestBytes cfg" "sc_MaxRequestBytes cfg < int (length (fst arrived))"
  shows "handleConnection ext cd cfg wall arrived s w = (BrowserReply (ErrorResponse [] (Some
     (NewFailure ErrorRequestTooLarge ''browser request exceeds the input limit'' False))), s, w)"
proof -
  have "readRequest (sc_MaxRequestBytes cfg) arrived
      = Inl (NewFailure ErrorRequestTooLarge ''browser request exceeds the input limit'' False)"
    using assms by (auto simp: readRequest_def Let_def min_def nat_le_iff)
  then show ?thesis by (simp add: handleConnection_def)
qed

theorem oversized_requests_are_not_decoded_witness:
  "handleConnection ascii_externals sample_codecs (sample_config\<lparr>sc_MaxRequestBytes := 2\<rparr>) (\<lambda>w. 0)
     (''abc'', False) new_server () = (BrowserReply (ErrorResponse [] (Some
     (NewFailure ErrorRequestTooLarge ''browser request exceeds the input limit'' False))), new_server, ())"
  by (rule oversized_requests_are_not_decoded) simp_all

text \<open>
  What is written for an answer ends in a newline and fits the response limit, provided the
  small answer that says it did not fit does.
\<close>

theorem responses_fit_the_limit:
  assumes "fits (cd_response cd (ErrorResponse (resp_RequestID r) (Some
       (NewFailure ErrorOutputTooLarge ''browser response exceeds the output limit'' False)))) limit"
  shows "int (length (response_bytes cd limit r)) \<le> limit \<and> last (response_bytes cd limit r) = newline"
  using assms by (auto simp: response_bytes_def Let_def fits_def or_empty_def split: option.splits)

theorem responses_fit_the_limit_witness:
  "int (length (response_bytes sample_codecs 1024 (refuse sample_request sample_failure))) \<le> 1024"
  using responses_fit_the_limit [of sample_codecs "refuse sample_request sample_failure" 1024]
  by (simp add: sample_codecs_def fits_def)

text \<open>
  C25. The write loop ends, and what the peer has received is always a prefix of the answer; if the
  loop reports success it is the whole answer. This rests on the writer's contract only.
\<close>

theorem replies_are_delivered:
  assumes "truthful_writer write content"
    and "writeAllResponse write c (reply_bytes cd limit reply) = (r, c')"
  shows "\<exists>n \<le> length (reply_bytes cd limit reply).
     content c' = content c @ take n (reply_bytes cd limit reply)
     \<and> (r = None \<longrightarrow> content c' = content c @ reply_bytes cd limit reply)"
  using writeAllResponse_prefix [OF assms] by auto

theorem replies_are_delivered_witness:
  "\<exists>n. snd (writeAllResponse three_bytes [] (reply_bytes sample_codecs 1024 (BrowserReply (refuse sample_request sample_failure))))
     = take n (reply_bytes sample_codecs 1024 (BrowserReply (refuse sample_request sample_failure)))"
proof -
  obtain r c where "writeAllResponse three_bytes []
      (reply_bytes sample_codecs 1024 (BrowserReply (refuse sample_request sample_failure))) = (r, c)"
    by fastforce
  from replies_are_delivered [OF truthful_three_bytes this] this show ?thesis by auto
qed

section \<open>Scopes\<close>

text \<open>
  The scope text under which identifiers and budgets are kept tells attachments apart: two
  identities that pass validation share it exactly if run, attachment, session epoch and control
  epoch are the same.
\<close>

theorem scopes_tell_attachments_apart:
  assumes "visits_all ext" "Identity_Validate ext i = None" "Identity_Validate ext j = None"
  shows "attachmentRequestScope i = attachmentRequestScope j \<longleftrightarrow>
     id_RunID i = id_RunID j \<and> id_AttachmentID i = id_AttachmentID j
     \<and> id_SessionEpoch i = id_SessionEpoch j \<and> id_ControlEpoch i = id_ControlEpoch j"
  (is "?same \<longleftrightarrow> ?fields")
proof
  assume ?same
  note ids = Identity_Validate_uuids [OF assms(1,2)] Identity_Validate_uuids [OF assms(1,3)]
  show ?fields
    using scope_injective [OF ids(1) ids(3) ids(2) ids(4) \<open>?same\<close>] by simp
next
  assume ?fields
  then show ?same by (simp add: attachmentRequestScope_def)
qed

theorem scopes_tell_attachments_apart_witness:
  "attachmentRequestScope sample_identity \<noteq> attachmentRequestScope (sample_identity\<lparr>id_ControlEpoch := 3\<rparr>)"
proof -
  have "Identity_Validate ascii_externals (sample_identity\<lparr>id_ControlEpoch := 3\<rparr>) = None"
    using sample_uuids sample_scope_id
    by (simp add: Identity_Validate_def identity_labels_def sample_identity_def
        restricted_empty_origins ascii_externals_def)
  from scopes_tell_attachments_apart [OF visits_all_ascii sample_identity_valid this] show ?thesis
    by (simp add: sample_identity_def)
qed

text \<open>
  A terminal attachment stays closed: of any further sequence of requests of the attachment
  only closes can be let through.
\<close>

theorem terminal_attachments_only_close:
  assumes "srv_seenScope s = attachmentRequestScope i" "srv_terminal s"
    and "reserve_run m i rs s = (accepted, s')"
  shows "(\<forall>(_, a) \<in> set accepted. act_Kind a = ActionClose) \<and> srv_terminal s'"
  using assms
proof (induction rs arbitrary: s accepted)
  case (Cons ra rs)
  obtain requestID a where ra: "ra = (requestID, a)" by fastforce
  obtain f s1 where res: "reserveRequest m i requestID a s = (f, s1)" by fastforce
  obtain acc where run: "reserve_run m i rs s1 = (acc, s')"
    and acc: "accepted = (if f = None then (requestID, a) # acc else acc)"
    using Cons.prems(3) ra res by (auto split: prod.splits)
  have "srv_seenScope s1 = attachmentRequestScope i"
    using reserveRequest_scope [of m i requestID a s] res by simp
  moreover have "srv_terminal s1" using reserve_in_scope(4) [OF Cons.prems(1) res] Cons.prems(2) by simp
  moreover have "f = None \<Longrightarrow> act_Kind a = ActionClose"
    using reserve_accepted(5) [of s i m requestID a s1] Cons.prems(1,2) res by (auto simp: is_close_def)
  ultimately show ?case using Cons.IH [OF _ _ run] acc by auto
qed simp

theorem terminal_attachments_only_close_witness:
  "srv_terminal (snd (reserve_run 9 sample_identity [(''a'', sample_click), (''b'', close_action)]
     ((enter_scope sample_identity new_server)\<lparr>srv_terminal := True\<rparr>)))"
proof -
  let ?s = "(enter_scope sample_identity new_server)\<lparr>srv_terminal := True\<rparr>"
  obtain accepted s' where run: "reserve_run 9 sample_identity
      [(''a'', sample_click), (''b'', close_action)] ?s = (accepted, s')" by fastforce
  have "srv_seenScope ?s = attachmentRequestScope sample_identity" "srv_terminal ?s" by simp_all
  from terminal_attachments_only_close [OF this run] run show ?thesis by simp
qed

section \<open>What the engine may report\<close>

text \<open>The navigation generations that are accepted from one engine instance, in order.\<close>

fun accept_run :: "go_uint64 \<Rightarrow> go_uint64 list \<Rightarrow> server \<Rightarrow> go_uint64 list" where
  "accept_run engine [] s = []"
| "accept_run engine (g # gs) s =
     (case acceptEngineState engine g s of
        (None, s') \<Rightarrow> g # accept_run engine gs s'
      | (Some f, s') \<Rightarrow> accept_run engine gs s')"

lemma accept_run_above:
  assumes "srv_clickEngineInstanceID s = (if engine = 0 then 1 else engine)"
  shows "sorted (accept_run engine gs s) \<and> (\<forall>g \<in> set (accept_run engine gs s). srv_clickNavigationGeneration s \<le> g)"
  using assms
proof (induction gs arbitrary: s)
  case (Cons g gs)
  show ?case
    using Cons.prems Cons.IH [of s] Cons.IH [of "s\<lparr>srv_clickNavigationGeneration := g,
        srv_blockedClickNavigationCount := 0\<rparr>"]
    by (auto simp: acceptEngineState_def Let_def not_less split: if_splits)
qed simp

text \<open>
  The navigation generations that the server accepts from one engine instance never decrease,
  and none of them is zero, whatever else the engine reports in between.
\<close>

theorem generations_never_decrease:
  "sorted (accept_run engine gs s) \<and> 0 \<notin> set (accept_run engine gs s)"
proof -
  have zero: "0 \<notin> set (accept_run engine gs t)" for t
    by (induction gs arbitrary: t) (auto simp: acceptEngineState_def Let_def split: prod.splits option.splits)
  have "sorted (accept_run engine gs s)"
  proof (induction gs arbitrary: s)
    case (Cons g gs)
    obtain r s1 where a: "acceptEngineState engine g s = (r, s1)" by fastforce
    show ?case
    proof (cases r)
      case None
      then have "srv_clickEngineInstanceID s1 = (if engine = 0 then 1 else engine)"
        "srv_clickNavigationGeneration s1 = g"
        using a by (auto simp: acceptEngineState_def Let_def split: if_splits)
      with accept_run_above [of s1 engine gs] a None show ?thesis by auto
    qed (use Cons a in simp)
  qed simp
  with zero show ?thesis by blast
qed

text \<open>
  A click is only let through while the navigation has fewer than three and the Run fewer than
  twelve blocked clicks, and a blocked click counts against both.
\<close>

theorem clicks_respect_the_blocked_budget:
  assumes "reserveRequest m i requestID a s = (None, s')" "act_Kind a = ActionClick"
  shows "srv_blockedClickNavigationCount s' < 3 \<and> srv_blockedClickRunCount s' < 12"
  using reserve_click_budget [OF assms]
  by (simp add: maxBlockedClicksPerNavigation_def maxBlockedClicksPerRun_def)

theorem clicks_respect_the_blocked_budget_witness:
  "srv_blockedClickRunCount (snd (reserveRequest 5 sample_identity ''a'' sample_click new_server)) < 12"
proof -
  have "fst (reserveRequest 5 sample_identity ''a'' sample_click new_server) = None"
    by (simp add: reserveRequest_def reserve_action_def sample_click_def Let_def enter_scope_def
        prepareClickScope_def new_server_def action_cost_def maxBlockedClicksPerNavigation_def
        maxBlockedClicksPerRun_def)
  then obtain s' where "reserveRequest 5 sample_identity ''a'' sample_click new_server = (None, s')"
    by (metis prod.collapse)
  from clicks_respect_the_blocked_budget [OF this] this show ?thesis by (simp add: sample_click_def)
qed

end
