(* ===== verification/ClientProperties.thy ===== *)
theory ClientProperties
  imports Samples
begin

text \<open>
  The properties of the client, of its agreement with the server, and of the mutation journal
  around it.
\<close>

section \<open>Requests\<close>

text \<open>
  What the client sends under a lease that is still valid, the server's validation accepts
  at that time: identifier, contract, identity, deadline and action.
\<close>

theorem client_requests_are_valid:
  assumes "0 \<le> now" "Lease_Validate ext now (cl_lease c) = None"
    and "0 < cl_timeout c" "cl_timeout c \<le> MaxActionDeadline"
    and "case contextDeadline of None \<Rightarrow> True | Some d \<Rightarrow> now < d"
    and "ValidateForPolicy ext (id_BrowserInteractionPolicy (le_Identity (cl_lease c))) a = None"
    and "newRequestID (Some raw) = Some requestID" "length raw = 16"
  shows "Request_Validate ext now
     (client_request c requestID (request_deadline c now contextDeadline) a) = None"
  using assms by (rule client_request_valid)

theorem client_requests_are_valid_witness:
  "Request_Validate ascii_externals Second
     (client_request sample_client (uuid_text (replicate 16 7))
        (request_deadline sample_client Second None) sample_click) = None"
proof (rule client_requests_are_valid)
  show "newRequestID (Some (replicate 16 7)) = Some (uuid_text (replicate 16 7))"
    by (simp add: newRequestID_def)
  show "ValidateForPolicy ascii_externals
      (id_BrowserInteractionPolicy (le_Identity (cl_lease sample_client))) sample_click = None"
    using sample_click_valid by (simp add: sample_client_def sample_lease_def sample_identity_def)
qed (use sample_lease_valid in \<open>simp_all add: sample_client_def Second_def MaxActionDeadline_def\<close>)

text \<open>
  C39. Whatever the random bytes, the identifier made of them is a version 4 UUID that the wire
  contract accepts.
\<close>

theorem request_identifiers_are_uuids:
  assumes "length raw = 16"
  shows "IsValidUUID (uuid_text raw)"
  using assms by (rule uuid_text_valid)

theorem request_identifiers_are_uuids_witness: "IsValidUUID (uuid_text (replicate 16 0))"
  by (rule request_identifiers_are_uuids) simp

section \<open>Agreement of client and server\<close>

lemma check_error:
  assumes "length requestID \<le> 128"
  shows "check_response ext requestID a (ErrorResponse requestID (Some f))
    = Inl (case ValidateFailure ext (Some f) of None \<Rightarrow> f | Some g \<Rightarrow> g)"
  using assms by (simp add: check_response_def ErrorResponse_def boundedString_def split: option.split)

lemma check_success:
  assumes "checked_observation ext a obs" "length requestID \<le> 128"
  shows "check_response ext requestID a (SuccessResponse requestID obs) = Inr obs"
  using assms by (simp add: check_response_def SuccessResponse_def checked_observation_def boundedString_def)

lemma check_long:
  assumes "resp_RequestID reply = boundedString requestID 128" "128 < length requestID"
  shows "check_response ext requestID a reply
    = Inl (NewFailure ErrorOutputInvalid ''browser response identity is invalid'' False)"
proof -
  have "length (boundedString requestID 128) \<le> 128" using assms(2) by (simp add: boundedString_def)
  with assms have "resp_RequestID reply \<noteq> requestID" by (metis not_le)
  then show ?thesis by (simp add: check_response_def)
qed

text \<open>The answer to a request is a refusal of it or a success with a checked observation.\<close>

definition answers :: "externals \<Rightarrow> request \<Rightarrow> response \<Rightarrow> bool" where
  "answers ext r reply \<longleftrightarrow>
     (\<exists>f. reply = ErrorResponse (req_RequestID r) (Some f))
     \<or> (\<exists>obs. reply = SuccessResponse (req_RequestID r) obs \<and> checked_observation ext (req_Action r) obs)"

lemma answers_refuse [simp]: "answers ext r (refuse r f)"
  by (auto simp: answers_def refuse_def)

lemma failure_outcome_answers:
  "failure_outcome ext cfg wall r f s w = (reply, s', w') \<Longrightarrow> answers ext r reply"
  by (auto simp: failure_outcome_def split: prod.splits if_splits option.splits)

lemma observation_outcome_answers:
  "observation_outcome ext r obs s = (reply, s') \<Longrightarrow> answers ext r reply"
  by (auto simp: observation_outcome_def Let_def split: if_splits option.splits prod.splits)
    (auto simp: answers_def checked_observation_def)

lemma browser_request_answers:
  "handleBrowserRequest ext cfg wall now r s w = (reply, s', w') \<Longrightarrow> answers ext r reply"
  by (auto simp: handleBrowserRequest_def execute_request_def
      split: if_splits prod.splits sum.splits option.splits
      intro: failure_outcome_answers observation_outcome_answers)

text \<open>Only a valid request, whose identifier has 36 bytes, is answered with a success.\<close>

lemma success_short_id:
  assumes "handleBrowserRequest ext cfg wall now r s w = (reply, s', w')"
  shows "(\<exists>f. reply = ErrorResponse (req_RequestID r) (Some f)) \<or> length (req_RequestID r) = 36"
proof (cases "Request_Validate ext now r")
  case None
  then have "IsValidUUID (req_RequestID r)" by (simp add: Request_Validate_def reject_if_def split: if_splits)
  then show ?thesis by (simp add: IsValidUUID_def split: if_splits)
next
  case (Some f)
  with assms show ?thesis by (auto simp: handleBrowserRequest_def refuse_def split: if_splits)
qed

text \<open>
  C11. What the client makes of the server's answer to its request, whatever the server did: the
  observation the server sent, after checking it; or the failure the server gave, if the contract
  allows it, and otherwise the complaint of \<^verbatim>\<open>ValidateFailure\<close> about it. All this for identifiers
  of at most 128 bytes; the server cuts longer ones off, so that the client does not recognise
  the answer as its own.
\<close>

theorem client_understands_the_server:
  assumes "handleBrowserRequest ext cfg wall now r s w = (reply, s', w')"
  shows "check_response ext (req_RequestID r) (req_Action r) reply =
     (if 128 < length (req_RequestID r) then
        Inl (NewFailure ErrorOutputInvalid ''browser response identity is invalid'' False)
      else case resp_Error reply of
        Some f \<Rightarrow> Inl (case ValidateFailure ext (Some f) of None \<Rightarrow> f | Some complaint \<Rightarrow> complaint)
      | None \<Rightarrow> Inr (the (resp_Observation reply)))
    \<and> (resp_Error reply = None) = (resp_Observation reply \<noteq> None)"
proof (cases "\<exists>f. reply = ErrorResponse (req_RequestID r) (Some f)")
  case True
  then obtain f where reply: "reply = ErrorResponse (req_RequestID r) (Some f)" by blast
  then show ?thesis
    using check_error check_long [of reply "req_RequestID r"] by (auto simp: ErrorResponse_def)
next
  case False
  with success_short_id [OF assms] browser_request_answers [OF assms] obtain obs where
    "reply = SuccessResponse (req_RequestID r) obs" "checked_observation ext (req_Action r) obs"
    "length (req_RequestID r) = 36"
    by (auto simp: answers_def)
  then show ?thesis using check_success by (simp add: SuccessResponse_def)
qed

theorem client_understands_the_server_witness:
  "check_response ascii_externals (req_RequestID sample_request) (req_Action sample_request)
     (fst (handleBrowserRequest ascii_externals sample_config (\<lambda>w. 0) Second
        (sample_request\<lparr>req_ChannelCredential := []\<rparr>) new_server ()))
   = Inl (NewFailure ErrorUnauthorized ''browser channel credential is invalid'' False)"
proof -
  let ?r = "sample_request\<lparr>req_ChannelCredential := []\<rparr>"
  let ?f = "NewFailure ErrorUnauthorized ''browser channel credential is invalid'' False"
  have h: "handleBrowserRequest ascii_externals sample_config (\<lambda>w. 0) Second ?r new_server () = (refuse ?r ?f, new_server, ())"
    by (simp add: handleBrowserRequest_def sample_config_def sample_credential_def)
  have "ValidateFailure ascii_externals (Some ?f) = None"
    using literal_failures by simp
  then show ?thesis
    using client_understands_the_server [OF h] unfolding h
    by (simp add: refuse_def ErrorResponse_def sample_request_def client_request_def)
qed

text \<open>
  A client call never returns unchecked data: a failure is one that ValidateFailure accepts,
  an observation passed the check for its kind of action, and through the journal nothing changes.
\<close>

theorem client_results_are_checked:
  assumes "visits_all ext"
  shows "case fst (journaled jc clock (client_executor ext codec cw cl) (w, j) a) of
       Inl f \<Rightarrow> wf_failure ext f
     | Inr obs \<Rightarrow> checked_observation ext a obs"
proof (cases "fst (journaled jc clock (client_executor ext codec cw cl) (w, j) a)")
  case (Inl f)
  then obtain u where "journaled jc clock (client_executor ext codec cw cl) (w, j) a = (Inl f, u)"
    by (metis prod.collapse)
  from journaled_client.refuses [OF assms this] Inl show ?thesis by simp
next
  case (Inr obs)
  then obtain u where "journaled jc clock (client_executor ext codec cw cl) (w, j) a = (Inr obs, u)"
    by (metis prod.collapse)
  from journaled_client.succeeds [OF assms this] Inr show ?thesis by simp
qed

definition sample_world :: "unit client_world" where
  "sample_world = \<lparr>cw_wire = (\<lambda>w r. \<lparr>ex_dial_ok = False, ex_dial_ctx = ContextCanceled, ex_deadline_ok = True,
     ex_send_ok = True, ex_send_ctx = ContextLive, ex_close_ok = True, ex_close_ctx = ContextLive,
     ex_read_deadline_ok = True, ex_wait_ctx = ContextLive, ex_input = [], ex_read_ctx = ContextLive,
     ex_timed_out = False\<rparr>), cw_now = (\<lambda>w. Second), cw_deadline = (\<lambda>w. None),
     cw_random = (\<lambda>w. Some (replicate 16 7)), cw_next = (\<lambda>w. w)\<rparr>"

definition sample_journal_codec :: journal_codec where
  "sample_journal_codec = \<lparr>jc_encode = (\<lambda>e. Some (je_Result e)), jc_time = (\<lambda>t. [])\<rparr>"

theorem client_results_are_checked_witness:
  "case fst (journaled sample_journal_codec (\<lambda>w. 0)
       (client_executor ascii_externals (one_text_codec [] undefined undefined) sample_world (Some sample_client))
       ((), newBrowserMutationJournal sample_identity) sample_click) of
       Inl f \<Rightarrow> wf_failure ascii_externals f
     | Inr obs \<Rightarrow> checked_observation ascii_externals sample_click obs"
  by (rule client_results_are_checked) simp

section \<open>The journal\<close>

text \<open>
  C34. However many actions run through the journal, it stays within 256 entries and 128 KiB, its
  byte count is the size of its entries, and every attempt is counted once, as an entry or as a
  dropped entry.
\<close>

theorem journal_stays_bounded:
  assumes "run_actions (journaled jc clock base) (w, newBrowserMutationJournal i) as = (rs, w', j)"
  shows "length (jr_entries j) \<le> 256 \<and> jr_encodedBytes j \<le> 131072
    \<and> jr_encodedBytes j = entries_size jc (jr_entries j)
    \<and> jr_completed j + jr_failed j + jr_unknown j + jr_originBlocked j
        = int (length (jr_entries j)) + jr_dropped j"
  using wf_journaled_run [OF wf_newBrowserMutationJournal assms]
  by (simp add: wf_journal_def maxBrowserMutationJournalEntries_def maxBrowserMutationJournalBytes_def)

theorem journal_stays_bounded_witness:
  "length (jr_entries (snd (snd (run_actions
     (journaled sample_journal_codec (\<lambda>w. 0) (\<lambda>w a. (Inl sample_failure, w)))
     ((), newBrowserMutationJournal sample_identity) [sample_click, sample_click])))) \<le> 256"
proof -
  obtain rs w' j where r: "run_actions
     (journaled sample_journal_codec (\<lambda>w. 0) (\<lambda>w a. (Inl sample_failure, w)))
     ((), newBrowserMutationJournal sample_identity) [sample_click, sample_click] = (rs, w', j)"
    by (metis prod_cases3)
  from journal_stays_bounded [OF r] r show ?thesis by simp
qed

end
