(* ===== verification/OpsObserver.thy ===== *)
theory OpsObserver
  imports Viewer GoUrl
begin

text \<open>
  The read-only observation contract for operators, \<^verbatim>\<open>browserprotocol/ops_observer.go\<close>.
\<close>

section \<open>Data\<close>

definition OpsObserverContractID :: string where
  "OpsObserverContractID = ''openlinker.browser.ops-observer.v1''"

definition MinOpsObserverTTL :: go_time where "MinOpsObserverTTL = 60 * Second"
definition MaxOpsObserverTTL :: go_time where "MaxOpsObserverTTL = 1800 * Second"
definition MaxOpsObserverDeadline :: go_time where "MaxOpsObserverDeadline = 2 * Second"
definition MaxOpsObserverTitleBytes :: nat where "MaxOpsObserverTitleBytes = 512"
definition MaxOpsObserverURLBytes :: nat where "MaxOpsObserverURLBytes = 4096"

datatype ops_operation =
    OpsObserverStatusOperation | OpsObserverFrameOperation | OpsObserverProbeOperation
  | OpsObserverOtherOperation string

text \<open>The last constructor holds any other text; the empty code is \<open>OpsObserverOtherCode []\<close>.\<close>

datatype ops_code =
    OpsObserverDisabled | OpsObserverUnauthorized | OpsObserverProtocolError
  | OpsObserverRunNotActive | OpsObserverAlreadyActive | OpsObserverBusyError
  | OpsObserverInternalError | OpsObserverOtherCode string

definition ops_code_text :: "ops_code \<Rightarrow> string" where
  "ops_code_text c =
     (case c of
        OpsObserverDisabled \<Rightarrow> ''OPS_VIEWER_DISABLED''
      | OpsObserverUnauthorized \<Rightarrow> ''OPS_VIEWER_UNAUTHORIZED''
      | OpsObserverProtocolError \<Rightarrow> ''OPS_VIEWER_PROTOCOL_INVALID''
      | OpsObserverRunNotActive \<Rightarrow> ''RUN_NOT_ACTIVE''
      | OpsObserverAlreadyActive \<Rightarrow> ''OPS_VIEWER_ALREADY_ACTIVE''
      | OpsObserverBusyError \<Rightarrow> ''OPS_VIEWER_BUSY''
      | OpsObserverInternalError \<Rightarrow> ''OPS_VIEWER_INTERNAL''
      | OpsObserverOtherCode s \<Rightarrow> s)"

record ops_request =
  or_ContractID :: string
  or_ChannelCredential :: string
  or_RequestID :: string
  or_ObserverLeaseID :: string
  or_RunID :: string
  or_Operation :: ops_operation
  or_Deadline :: go_time
  or_LeaseExpiresAt :: go_time

record ops_observation =
  oo_RunID :: string
  oo_Controller :: controller
  oo_SessionEpoch :: go_uint64
  oo_ControlEpoch :: go_uint64
  oo_BrowserSessionSHA256 :: string
  oo_AttachmentSHA256 :: string
  oo_SelectedBackend :: string
  oo_ProfileGeneration :: go_uint64
  oo_FrameSequence :: go_uint64
  oo_CapturedAt :: go_time
  oo_PageURL :: string
  oo_PageTitle :: string
  oo_ActionInFlight :: "bool option"
  oo_Frame :: "viewer_frame option"

record ops_error =
  oe_Code :: ops_code
  oe_Message :: string

record ops_response =
  ores_ContractID :: string
  ores_RequestID :: string
  ores_Status :: string
  ores_Observation :: "ops_observation option"
  ores_Error :: "ops_error option"

definition NewOpsObserverError :: "ops_code \<Rightarrow> string \<Rightarrow> ops_error" where
  "NewOpsObserverError code message =
     \<lparr>oe_Code = code, oe_Message = boundedString (TrimSpace message) 300\<rparr>"

definition ops_error_text :: "ops_error option \<Rightarrow> string" where
  "ops_error_text e = (case e of None \<Rightarrow> [] | Some err \<Rightarrow> ops_code_text (oe_Code err) @ '': '' @ oe_Message err)"

section \<open>Requests\<close>

abbreviation ops_protocol_error :: "string \<Rightarrow> ops_error" where
  "ops_protocol_error m \<equiv> NewOpsObserverError OpsObserverProtocolError m"

definition ops_deadline_bad :: "go_time \<Rightarrow> go_time \<Rightarrow> go_time \<Rightarrow> bool" where
  "ops_deadline_bad now horizon d \<longleftrightarrow> d = 0 \<or> \<not> now < d \<or> now + horizon < d"

definition OpsObserverRequest_Validate :: "go_time \<Rightarrow> ops_request \<Rightarrow> ops_error option" where
  "OpsObserverRequest_Validate now r =
     reject_if (or_ContractID r \<noteq> OpsObserverContractID)
       (ops_protocol_error ''unsupported Ops Observer contract'')
     (reject_if (length (or_ChannelCredential r) < 32 \<or> 512 < length (or_ChannelCredential r))
       (ops_protocol_error ''Ops Observer credential shape is invalid'')
     (if or_Operation r = OpsObserverProbeOperation then
        reject_if (\<not> IsValidUUID (or_RequestID r))
          (ops_protocol_error ''Ops Observer identity is invalid'')
        (reject_if (or_ObserverLeaseID r \<noteq> [] \<or> or_RunID r \<noteq> [] \<or> or_LeaseExpiresAt r \<noteq> 0)
          (ops_protocol_error ''Ops Observer probe must not carry a lease'')
        (reject_if (ops_deadline_bad now MaxOpsObserverDeadline (or_Deadline r))
          (ops_protocol_error ''Ops Observer deadline is invalid'')
          None))
      else
        reject_if (\<not> IsValidUUID (or_RequestID r) \<or> \<not> IsValidUUID (or_ObserverLeaseID r)
            \<or> \<not> IsValidUUID (or_RunID r))
          (ops_protocol_error ''Ops Observer identity is invalid'')
        (reject_if (or_Operation r \<noteq> OpsObserverStatusOperation
            \<and> or_Operation r \<noteq> OpsObserverFrameOperation)
          (ops_protocol_error ''Ops Observer operation is invalid'')
        (reject_if (ops_deadline_bad now MaxOpsObserverDeadline (or_Deadline r))
          (ops_protocol_error ''Ops Observer deadline is invalid'')
        (reject_if (ops_deadline_bad now MaxOpsObserverTTL (or_LeaseExpiresAt r))
          (ops_protocol_error ''Ops Observer lease expiry is invalid'')
          None)))))"

definition DecodeOpsObserverRequest :: "ops_request codec \<Rightarrow> bytes \<Rightarrow> ops_request option" where
  "DecodeOpsObserverRequest c raw = strict_decode c raw"

section \<open>Observations\<close>

definition validObserverPageURL :: "string \<Rightarrow> bool" where
  "validObserverPageURL raw =
     (if raw = ''about:blank'' then True
      else (case url_Parse raw of
        None \<Rightarrow> False
      | Some u \<Rightarrow> (url_Scheme u = ''https'' \<or> url_Scheme u = ''http'')
          \<and> url_Host u \<noteq> [] \<and> url_RawQuery u = [] \<and> url_Fragment u = [] \<and> \<not> url_User u))"

definition OpsObserverObservation_Validate :: "ops_observation \<Rightarrow> ops_operation \<Rightarrow> ops_error option" where
  "OpsObserverObservation_Validate ob operation =
     reject_if (\<not> IsValidUUID (oo_RunID ob) \<or> oo_SessionEpoch ob = 0 \<or> oo_ControlEpoch ob = 0
         \<or> \<not> IsValidSHA256Hex (oo_BrowserSessionSHA256 ob) \<or> \<not> IsValidSHA256Hex (oo_AttachmentSHA256 ob)
         \<or> oo_FrameSequence ob = 0 \<or> oo_CapturedAt ob = 0)
       (NewOpsObserverError OpsObserverInternalError ''Ops Observer identity evidence is invalid'')
     (reject_if (oo_Controller ob \<noteq> ControllerAgent \<and> oo_Controller ob \<noteq> ControllerNone
         \<and> oo_Controller ob \<noteq> ControllerHuman)
       (NewOpsObserverError OpsObserverInternalError ''Ops Observer controller evidence is invalid'')
     (reject_if (oo_SelectedBackend ob \<noteq> ''official_chrome_extension''
         \<and> oo_SelectedBackend ob \<noteq> ''isolated_chromium'')
       (NewOpsObserverError OpsObserverInternalError ''Ops Observer backend evidence is invalid'')
     (reject_if (MaxOpsObserverURLBytes < length (oo_PageURL ob)
         \<or> MaxOpsObserverTitleBytes < length (oo_PageTitle ob)
         \<or> ContainsByte (oo_PageTitle ob) (char_of (0::nat))
         \<or> \<not> validObserverPageURL (oo_PageURL ob))
       (NewOpsObserverError OpsObserverInternalError ''Ops Observer page evidence is invalid'')
     (if operation = OpsObserverFrameOperation then
        (case oo_Frame ob of
           None \<Rightarrow> Some (NewOpsObserverError OpsObserverInternalError ''Ops Observer frame is missing'')
         | Some frame \<Rightarrow>
             reject_if (ViewerFrame_Validate frame \<noteq> None)
               (NewOpsObserverError OpsObserverInternalError ''Ops Observer frame is invalid'')
               None)
      else
        reject_if (operation = OpsObserverStatusOperation \<and> oo_Frame ob \<noteq> None)
          (NewOpsObserverError OpsObserverInternalError ''Ops Observer status contains a frame'')
          None))))"

section \<open>Responses\<close>

definition ops_response_of ::
    "string \<Rightarrow> string \<Rightarrow> ops_observation option \<Rightarrow> ops_error option \<Rightarrow> ops_response" where
  "ops_response_of requestID status ob e =
     \<lparr>ores_ContractID = OpsObserverContractID, ores_RequestID = requestID, ores_Status = status,
      ores_Observation = ob, ores_Error = e\<rparr>"

definition OpsObserverProbeResponse :: "string \<Rightarrow> ops_response" where
  "OpsObserverProbeResponse requestID = ops_response_of requestID ''ok'' None None"

definition OpsObserverSuccessResponse :: "string \<Rightarrow> ops_observation \<Rightarrow> ops_response" where
  "OpsObserverSuccessResponse requestID ob = ops_response_of requestID ''ok'' (Some ob) None"

definition OpsObserverBusyResponse :: "string \<Rightarrow> ops_response" where
  "OpsObserverBusyResponse requestID = ops_response_of requestID ''busy'' None None"

definition OpsObserverErrorResponse :: "string \<Rightarrow> ops_error option \<Rightarrow> ops_response" where
  "OpsObserverErrorResponse requestID e =
     ops_response_of (boundedString requestID 128) ''error'' None
       (Some (case e of Some err \<Rightarrow> err
          | None \<Rightarrow> NewOpsObserverError OpsObserverInternalError ''Ops Observer failed''))"

datatype ops_decode_error =
    OpsNotJSON | OpsResponseIdentityInvalid | OpsSuccessInvalid | OpsBusyInvalid
  | OpsErrorInvalid | OpsStatusInvalid

definition decodeOpsObserverResponse ::
    "ops_response codec \<Rightarrow> bytes \<Rightarrow> bool \<Rightarrow> ops_decode_error + ops_response" where
  "decodeOpsObserverResponse c raw probe =
     (case strict_decode c raw of
        None \<Rightarrow> Inl OpsNotJSON
      | Some r \<Rightarrow>
          if ores_ContractID r \<noteq> OpsObserverContractID \<or> \<not> IsValidUUID (ores_RequestID r) then
            Inl OpsResponseIdentityInvalid
          else if ores_Status r = ''ok'' then
            (if ores_Error r \<noteq> None \<or> (probe \<and> ores_Observation r \<noteq> None)
                 \<or> (\<not> probe \<and> ores_Observation r = None)
             then Inl OpsSuccessInvalid else Inr r)
          else if ores_Status r = ''busy'' then
            (if ores_Observation r \<noteq> None \<or> ores_Error r \<noteq> None then Inl OpsBusyInvalid else Inr r)
          else if ores_Status r = ''error'' then
            (if ores_Observation r \<noteq> None then Inl OpsErrorInvalid
             else (case ores_Error r of
               None \<Rightarrow> Inl OpsErrorInvalid
             | Some e \<Rightarrow>
                 if ops_code_text (oe_Code e) = [] \<or> oe_Message e = [] then Inl OpsErrorInvalid
                 else Inr r))
          else Inl OpsStatusInvalid)"

definition DecodeOpsObserverResponse ::
    "ops_response codec \<Rightarrow> bytes \<Rightarrow> ops_decode_error + ops_response" where
  "DecodeOpsObserverResponse c raw = decodeOpsObserverResponse c raw False"

definition DecodeOpsObserverProbeResponse ::
    "ops_response codec \<Rightarrow> bytes \<Rightarrow> ops_decode_error + ops_response" where
  "DecodeOpsObserverProbeResponse c raw = decodeOpsObserverResponse c raw True"

end
