(* ===== verification/OpsLease.thy ===== *)
theory OpsLease
  imports OpsObserver
begin

text \<open>
  The single observation lease of a Runtime, \<^verbatim>\<open>browserruntime/ops_observer_lease.go\<close>, and the
  loop that serves one observer connection, \<^verbatim>\<open>browserruntime/ops_observer.go\<close>. Each method of
  the manager holds its mutex, so it is one atomic step; connections interleave between them.
\<close>

section \<open>The manager\<close>

definition maxOpsObserverRequestsPerLease :: nat where "maxOpsObserverRequestsPerLease = 4096"

record ops_lease =
  ol_id :: string
  ol_runID :: string
  ol_expiresAt :: go_time
  ol_sequence :: go_uint64
  ol_seen :: "string set"

type_synonym lease_manager = "ops_lease option"

definition Admit :: "ops_request \<Rightarrow> lease_manager \<Rightarrow> ops_error option \<times> lease_manager" where
  "Admit r m =
     (case m of
        Some l \<Rightarrow> (Some (NewOpsObserverError OpsObserverAlreadyActive ''another Ops Observer is active''), m)
      | None \<Rightarrow>
          (None, Some \<lparr>ol_id = or_ObserverLeaseID r, ol_runID = or_RunID r,
             ol_expiresAt = or_LeaseExpiresAt r, ol_sequence = 0, ol_seen = {}\<rparr>))"

definition stale :: ops_error where
  "stale = ops_protocol_error ''Ops Observer lease is stale''"

definition Manager_Validate :: "go_time \<Rightarrow> ops_request \<Rightarrow> lease_manager \<Rightarrow> ops_error option" where
  "Manager_Validate now r m =
     (case m of
        None \<Rightarrow> Some stale
      | Some l \<Rightarrow>
          reject_if (ol_id l \<noteq> or_ObserverLeaseID r \<or> ol_runID l \<noteq> or_RunID r
              \<or> ol_expiresAt l \<noteq> or_LeaseExpiresAt r \<or> \<not> now < ol_expiresAt l)
            stale None)"

definition AdmitRequest :: "string \<Rightarrow> string \<Rightarrow> lease_manager \<Rightarrow> ops_error option \<times> lease_manager" where
  "AdmitRequest leaseID requestID m =
     (case m of
        None \<Rightarrow> (Some stale, m)
      | Some l \<Rightarrow>
          if ol_id l \<noteq> leaseID then (Some stale, m)
          else if requestID \<in> ol_seen l then
            (Some (ops_protocol_error ''Ops Observer request was replayed''), m)
          else if maxOpsObserverRequestsPerLease \<le> card (ol_seen l) then
            (Some (ops_protocol_error ''Ops Observer request limit reached''), m)
          else (None, Some (l\<lparr>ol_seen := insert requestID (ol_seen l)\<rparr>)))"

definition NextSequence :: "string \<Rightarrow> lease_manager \<Rightarrow> (go_uint64 \<times> ops_error option) \<times> lease_manager" where
  "NextSequence leaseID m =
     (case m of
        None \<Rightarrow> ((0, Some stale), m)
      | Some l \<Rightarrow>
          if ol_id l \<noteq> leaseID then ((0, Some stale), m)
          else ((ol_sequence l + 1, None), Some (l\<lparr>ol_sequence := ol_sequence l + 1\<rparr>)))"

definition Release :: "string \<Rightarrow> lease_manager \<Rightarrow> lease_manager" where
  "Release leaseID m =
     (case m of
        None \<Rightarrow> None
      | Some l \<Rightarrow> if ol_id l = leaseID then None else m)"

section \<open>One request of a connection\<close>

text \<open>
  What the observing engine answers: the observation, whether it is busy, and an error. The
  connection keeps the lease it was admitted with, \<open>[]\<close> before that. A round answers one line
  and says whether the connection goes on.
\<close>

type_synonym observe = "string \<Rightarrow> ops_operation \<Rightarrow> ops_observation \<times> bool \<times> ops_error option"

text \<open>\<open>shut\<close> is \<^verbatim>\<open>server.closed\<close> when the lease is asked for.\<close>

definition admitLease :: "bool \<Rightarrow> ops_request \<Rightarrow> lease_manager \<Rightarrow> ops_error option \<times> lease_manager" where
  "admitLease shut r m =
     (if shut then (Some (NewOpsObserverError OpsObserverDisabled ''Ops Observer is unavailable''), m)
      else Admit r m)"

definition admission ::
    "bool \<Rightarrow> go_time \<Rightarrow> go_time \<Rightarrow> ops_request \<Rightarrow> string \<Rightarrow> lease_manager
     \<Rightarrow> ops_error option \<times> string \<times> lease_manager" where
  "admission shut now later r admitted m =
     (if admitted = [] then
        (if or_LeaseExpiresAt r < now + (MinOpsObserverTTL - MaxOpsObserverDeadline) then
           (Some (ops_protocol_error ''Ops Observer initial TTL is too short''), admitted, m)
         else
           (case admitLease shut r m of
              (Some e, m') \<Rightarrow> (Some e, admitted, m')
            | (None, m') \<Rightarrow> (None, or_ObserverLeaseID r, m')))
      else (Manager_Validate later r m, admitted, m))"

definition observe_once ::
    "observe \<Rightarrow> go_time \<Rightarrow> ops_request \<Rightarrow> lease_manager \<Rightarrow> ops_response \<times> bool \<times> lease_manager" where
  "observe_once engine captured r m =
     (case engine (or_RunID r) (or_Operation r) of
        (ob, busy, Some e) \<Rightarrow> (OpsObserverErrorResponse (or_RequestID r) (Some e), True, m)
      | (ob, True, None) \<Rightarrow> (OpsObserverBusyResponse (or_RequestID r), True, m)
      | (ob, False, None) \<Rightarrow>
          (case NextSequence (or_ObserverLeaseID r) m of
             ((_, Some e), m') \<Rightarrow> (OpsObserverErrorResponse (or_RequestID r) (Some e), False, m')
           | ((sequence, None), m') \<Rightarrow>
               (let ob' = ob\<lparr>oo_FrameSequence := sequence, oo_CapturedAt := captured\<rparr> in
                case OpsObserverObservation_Validate ob' (or_Operation r) of
                  Some e \<Rightarrow> (OpsObserverErrorResponse (or_RequestID r) (Some e), True, m')
                | None \<Rightarrow> (OpsObserverSuccessResponse (or_RequestID r) ob', True, m'))))"

definition serve_line ::
    "bool \<Rightarrow> ops_request codec \<Rightarrow> string \<Rightarrow> observe \<Rightarrow> go_time \<Rightarrow> go_time \<Rightarrow> go_time \<Rightarrow> bytes
     \<Rightarrow> string \<Rightarrow> lease_manager \<Rightarrow> ops_response \<times> bool \<times> string \<times> lease_manager" where
  "serve_line shut c credential engine now later captured raw admitted m =
     (case DecodeOpsObserverRequest c raw of
        None \<Rightarrow> (OpsObserverErrorResponse [] (Some (ops_protocol_error ''Ops Observer request is invalid'')),
          False, admitted, m)
      | Some r \<Rightarrow>
          if or_ChannelCredential r \<noteq> credential then
            (OpsObserverErrorResponse (or_RequestID r)
              (Some (NewOpsObserverError OpsObserverUnauthorized ''Ops Observer request is unauthorized'')),
             False, admitted, m)
          else (case OpsObserverRequest_Validate now r of
            Some e \<Rightarrow> (OpsObserverErrorResponse (or_RequestID r) (Some e), False, admitted, m)
          | None \<Rightarrow>
              if or_Operation r = OpsObserverProbeOperation then
                (OpsObserverProbeResponse (or_RequestID r), True, admitted, m)
              else
                (case admission shut now later r admitted m of
                   (Some e, admitted', m1) \<Rightarrow>
                     (OpsObserverErrorResponse (or_RequestID r) (Some e), False, admitted', m1)
                 | (None, admitted', m1) \<Rightarrow>
                     (case AdmitRequest (or_ObserverLeaseID r) (or_RequestID r) m1 of
                        (Some e, m2) \<Rightarrow>
                          (OpsObserverErrorResponse (or_RequestID r) (Some e), False, admitted', m2)
                      | (None, m2) \<Rightarrow>
                          (case observe_once engine captured r m2 of
                             (reply, goes_on, m3) \<Rightarrow> (reply, goes_on, admitted', m3))))))"

section \<open>Many connections\<close>

text \<open>
  The shared state: the manager and, for each open connection, the lease it holds. The atomic
  steps are the manager's methods as the loop calls them, and the end of a connection, which
  releases what it holds.
\<close>

record observers =
  ob_manager :: lease_manager
  ob_held :: "nat \<Rightarrow> string"

inductive observer_step :: "observers \<Rightarrow> observers \<Rightarrow> bool" where
  admitted: "ob_held s c = [] \<Longrightarrow> or_ObserverLeaseID r \<noteq> [] \<Longrightarrow> Admit r (ob_manager s) = (None, m') \<Longrightarrow>
     observer_step s \<lparr>ob_manager = m', ob_held = (ob_held s)(c := or_ObserverLeaseID r)\<rparr>"
| refused: "Admit r (ob_manager s) = (Some e, m') \<Longrightarrow> observer_step s (s\<lparr>ob_manager := m'\<rparr>)"
| requested: "ob_held s c \<noteq> [] \<Longrightarrow> AdmitRequest leaseID requestID (ob_manager s) = (e, m') \<Longrightarrow>
     observer_step s (s\<lparr>ob_manager := m'\<rparr>)"
| sequenced: "ob_held s c \<noteq> [] \<Longrightarrow> NextSequence leaseID (ob_manager s) = (n, m') \<Longrightarrow>
     observer_step s (s\<lparr>ob_manager := m'\<rparr>)"
| ended: "m' = (if ob_held s c = [] then ob_manager s else Release (ob_held s c) (ob_manager s)) \<Longrightarrow>
     observer_step s \<lparr>ob_manager = m', ob_held = (ob_held s)(c := [])\<rparr>"

inductive observer_reaches :: "observers \<Rightarrow> bool" where
  idle: "observer_reaches \<lparr>ob_manager = None, ob_held = (\<lambda>c. [])\<rparr>"
| moves: "observer_reaches s \<Longrightarrow> observer_step s s' \<Longrightarrow> observer_reaches s'"

inductive_cases observer_stepE: "observer_step s s'"

text \<open>Exactly the holder of the active lease holds anything.\<close>

definition single_observer :: "observers \<Rightarrow> bool" where
  "single_observer s \<longleftrightarrow>
     (case ob_manager s of
        None \<Rightarrow> (\<forall>c. ob_held s c = [])
      | Some l \<Rightarrow> ol_id l \<noteq> [] \<and> finite (ol_seen l) \<and> card (ol_seen l) \<le> maxOpsObserverRequestsPerLease
          \<and> (\<exists>c. ob_held s c = ol_id l \<and> (\<forall>d. d \<noteq> c \<longrightarrow> ob_held s d = [])))"

lemma single_observer_step:
  assumes "single_observer s" "observer_step s s'"
  shows "single_observer s'"
  using assms(2)
proof (cases rule: observer_step.cases)
  case (admitted c r m')
  then show ?thesis
    using assms(1) by (auto simp: single_observer_def Admit_def split: option.splits)
next
  case (refused r e m')
  then show ?thesis
    using assms(1) by (auto simp: Admit_def split: option.splits)
next
  case (requested c leaseID requestID e m')
  then show ?thesis
    using assms(1)
    by (auto simp: single_observer_def AdmitRequest_def split: option.splits if_splits)
next
  case (sequenced c leaseID n m')
  then show ?thesis
    using assms(1)
    by (auto simp: single_observer_def NextSequence_def split: option.splits if_splits)
next
  case (ended m' c)
  show ?thesis
  proof (cases "ob_manager s")
    case None
    with assms(1) ended show ?thesis by (simp add: single_observer_def)
  next
    case (Some l)
    with assms(1) obtain h where h: "ob_held s h = ol_id l" "\<forall>d. d \<noteq> h \<longrightarrow> ob_held s d = []"
      and l: "ol_id l \<noteq> []" "finite (ol_seen l)" "card (ol_seen l) \<le> maxOpsObserverRequestsPerLease"
      by (auto simp: single_observer_def)
    show ?thesis
    proof (cases "c = h")
      case True
      with ended Some h l show ?thesis by (simp add: single_observer_def Release_def)
    next
      case False
      with ended Some h l show ?thesis by (auto simp: single_observer_def intro!: exI [of _ h])
    qed
  qed
qed

lemma single_observer_reaches: "observer_reaches s \<Longrightarrow> single_observer s"
  by (induction rule: observer_reaches.induct)
    (auto simp: single_observer_def intro: single_observer_step [unfolded single_observer_def])

section \<open>The loop takes these steps\<close>

text \<open>The state in which connection \<open>c\<close> holds \<open>h\<close> and the manager is \<open>m\<close>.\<close>

definition with_held :: "observers \<Rightarrow> nat \<Rightarrow> string \<Rightarrow> lease_manager \<Rightarrow> observers" where
  "with_held s c h m = \<lparr>ob_manager = m, ob_held = (ob_held s)(c := h)\<rparr>"

lemma with_held_selectors [simp, selectors]:
  "ob_manager (with_held s c h m) = m" "ob_held (with_held s c h m) c = h"
  "with_held (with_held s c h m) c h' m' = with_held s c h' m'"
  "with_held s c (ob_held s c) (ob_manager s) = s"
  by (simp_all add: with_held_def)

lemma with_held_same: "with_held s c (ob_held s c) m = s\<lparr>ob_manager := m\<rparr>"
  by (cases s) (simp add: with_held_def)

lemma Admit_cases:
  "Admit r m = (e, m') \<Longrightarrow> (e = None \<and> m = None) \<or> (e \<noteq> None \<and> m' = m)"
  by (auto simp: Admit_def split: option.splits)

lemma admission_steps:
  assumes "admission shut now later r (ob_held s c) (ob_manager s) = (e, h, m)" "or_ObserverLeaseID r \<noteq> []"
  shows "observer_step\<^sup>*\<^sup>* s (with_held s c h m) \<and> (e = None \<longrightarrow> h \<noteq> [])"
proof (cases "ob_held s c = [] \<and> e = None")
  case True
  with assms(1) have "Admit r (ob_manager s) = (None, m)" "h = or_ObserverLeaseID r"
    by (auto simp: admission_def admitLease_def split: if_splits option.splits prod.splits)
  with True assms(2) show ?thesis
    using observer_step.admitted [of s c r m] by (auto simp: with_held_def)
next
  case False
  with assms(1) have "m = ob_manager s" "h = ob_held s c"
    by (auto simp: admission_def admitLease_def split: if_splits option.splits prod.splits dest: Admit_cases)
  with False show ?thesis by auto
qed

lemma requested_step:
  assumes "AdmitRequest leaseID requestID (ob_manager s) = (e, m)" "ob_held s c \<noteq> []"
  shows "observer_step s (with_held s c (ob_held s c) m)"
  using observer_step.requested [OF assms(2,1)] by (simp add: with_held_same)

lemma observe_once_steps:
  assumes "observe_once engine captured r (ob_manager s) = (reply, goes_on, m)" "ob_held s c \<noteq> []"
  shows "observer_step\<^sup>*\<^sup>* s (with_held s c (ob_held s c) m)"
proof (cases "m = ob_manager s")
  case True
  then show ?thesis by simp
next
  case False
  with assms(1) obtain n where "NextSequence (or_ObserverLeaseID r) (ob_manager s) = (n, m)"
    by (auto simp: observe_once_def Let_def split: prod.splits option.splits bool.splits)
  from observer_step.sequenced [OF assms(2) this] show ?thesis
    by (simp add: with_held_same r_into_rtranclp)
qed

lemma serve_line_steps:
  assumes "serve_line shut c credential engine now later captured raw (ob_held s k) (ob_manager s)
      = (reply, goes_on, h, m)"
  shows "observer_step\<^sup>*\<^sup>* s (with_held s k h m)"
proof -
  consider (still) "h = ob_held s k" "m = ob_manager s"
    | (served) r e1 h1 m1 where
      "OpsObserverRequest_Validate now r = None" "or_Operation r \<noteq> OpsObserverProbeOperation"
      "admission shut now later r (ob_held s k) (ob_manager s) = (e1, h1, m1)"
      "case e1 of Some e \<Rightarrow> h = h1 \<and> m = m1
       | None \<Rightarrow> (case AdmitRequest (or_ObserverLeaseID r) (or_RequestID r) m1 of
           (Some e, m2) \<Rightarrow> h = h1 \<and> m = m2
         | (None, m2) \<Rightarrow> h = h1 \<and> (\<exists>reply b. observe_once engine captured r m2 = (reply, b, m)))"
    using assms by (auto simp: serve_line_def split: option.splits if_splits prod.splits)
  then show ?thesis
  proof cases
    case still
    then show ?thesis by simp
  next
    case (served r e1 h1 m1)
    have id: "or_ObserverLeaseID r \<noteq> []"
      using served(1,2) by (auto simp: OpsObserverRequest_Validate_def)
    note adm = admission_steps [OF served(3) id]
    obtain e2 m2 where req: "AdmitRequest (or_ObserverLeaseID r) (or_RequestID r) m1 = (e2, m2)"
      by fastforce
    show ?thesis
    proof (cases e1)
      case (Some e)
      with served(4) adm show ?thesis by simp
    next
      case None
      with adm have h1: "h1 \<noteq> []" by simp
      have two: "observer_step\<^sup>*\<^sup>* s (with_held s k h1 m2)"
        using adm requested_step [of "or_ObserverLeaseID r" "or_RequestID r" "with_held s k h1 m1" e2 m2 k]
          req h1 by (simp add: rtranclp.rtrancl_into_rtrancl)
      show ?thesis
      proof (cases e2)
        case (Some e)
        with served(4) None req two show ?thesis by simp
      next
        case e2: None
        with served(4) None req obtain reply b where
          "observe_once engine captured r m2 = (reply, b, m)" "h = h1" by auto
        with two observe_once_steps [of engine captured r "with_held s k h1 m2" reply b m k] h1
        show ?thesis by (simp add: rtranclp_trans)
      qed
    qed
  qed
qed

end
