(* ===== verification/OpsProperties.thy ===== *)
theory OpsProperties
  imports OpsLease Samples
begin

text \<open>
  The properties of the Ops Observer: one observer at a time, whatever the interleaving of the
  connections, and no request identifier twice.
\<close>

section \<open>One observer\<close>

text \<open>The state of an idle Runtime after connection 7 was admitted with a lease.\<close>

definition sample_ops_request :: ops_request where
  "sample_ops_request =
     \<lparr>or_ContractID = OpsObserverContractID, or_ChannelCredential = sample_credential,
      or_RequestID = ''55555555-5555-4555-8555-555555555555'',
      or_ObserverLeaseID = ''66666666-6666-4666-8666-666666666666'',
      or_RunID = ''11111111-1111-4111-8111-111111111111'', or_Operation = OpsObserverProbeOperation,
      or_Deadline = 2 * Second, or_LeaseExpiresAt = 100 * Second\<rparr>"

definition sample_ops_lease :: ops_lease where
  "sample_ops_lease =
     \<lparr>ol_id = or_ObserverLeaseID sample_ops_request, ol_runID = or_RunID sample_ops_request,
      ol_expiresAt = 100 * Second, ol_sequence = 0, ol_seen = {}\<rparr>"

lemma sample_admitted:
  "observer_reaches \<lparr>ob_manager = Some sample_ops_lease,
     ob_held = (\<lambda>c. [])(7 := or_ObserverLeaseID sample_ops_request)\<rparr>"
proof -
  have "Admit sample_ops_request None = (None, Some sample_ops_lease)"
    by (simp add: Admit_def sample_ops_lease_def sample_ops_request_def)
  then show ?thesis
    using observer_reaches.moves [OF observer_reaches.idle]
      observer_step.admitted [of "\<lparr>ob_manager = None, ob_held = (\<lambda>c. [])\<rparr>" 7 sample_ops_request]
    by (simp add: sample_ops_request_def)
qed

text \<open>
  C23. At every moment at most one connection holds an observation lease, it holds the active one,
  and that lease has admitted at most 4096 requests.
\<close>

theorem one_observer_at_a_time:
  assumes "observer_reaches s" "ob_held s c \<noteq> []"
  shows "(\<forall>d. ob_held s d \<noteq> [] \<longrightarrow> d = c)
    \<and> (\<exists>l. ob_manager s = Some l \<and> ol_id l = ob_held s c \<and> card (ol_seen l) \<le> 4096)"
proof -
  from single_observer_reaches [OF assms(1)] assms(2) obtain l h where l: "ob_manager s = Some l"
    "card (ol_seen l) \<le> 4096" and h: "ob_held s h = ol_id l" "\<forall>d. d \<noteq> h \<longrightarrow> ob_held s d = []"
    by (auto simp: single_observer_def maxOpsObserverRequestsPerLease_def split: option.splits)
  from h(2) assms(2) have "h = c" by metis
  with l h show ?thesis by auto
qed

theorem one_observer_at_a_time_witness:
  "\<exists>l. ob_manager \<lparr>ob_manager = Some sample_ops_lease,
       ob_held = (\<lambda>c. [])(7 := or_ObserverLeaseID sample_ops_request)\<rparr> = Some l
     \<and> ol_id l = ob_held \<lparr>ob_manager = Some sample_ops_lease,
       ob_held = (\<lambda>c. [])(7 := or_ObserverLeaseID sample_ops_request)\<rparr> 7
     \<and> card (ol_seen l) \<le> 4096"
  by (rule conjunct2 [OF one_observer_at_a_time [OF sample_admitted]])
    (simp add: sample_ops_request_def)

text \<open>
  C10. Refinement: whatever line a connection serves, its effect on the shared lease and on what
  the connection holds is a sequence of the atomic steps of the manager; so the interleaving of
  whole lines by many connections stays within the reachable states.
\<close>

theorem serving_refines_the_manager:
  assumes "observer_reaches s"
    and "serve_line shut c credential engine now later captured raw (ob_held s k) (ob_manager s)
      = (reply, goes_on, h, m)"
  shows "observer_step\<^sup>*\<^sup>* s (with_held s k h m) \<and> observer_reaches (with_held s k h m)"
proof -
  have "observer_reaches t" if "observer_step\<^sup>*\<^sup>* s t" for t
    using that assms(1) by induction (auto intro: observer_reaches.moves)
  then show ?thesis using serve_line_steps [OF assms(2)] by blast
qed

theorem serving_refines_the_manager_witness:
  "observer_reaches (with_held \<lparr>ob_manager = None, ob_held = (\<lambda>c. [])\<rparr> 3 [] None)"
proof -
  have "serve_line False (one_text_codec ''x'' sample_ops_request sample_ops_request) sample_credential
      (\<lambda>_ _. undefined) Second Second Second ''y'' [] None
    = (OpsObserverErrorResponse [] (Some (ops_protocol_error ''Ops Observer request is invalid'')), False, [], None)"
    by (simp add: serve_line_def DecodeOpsObserverRequest_def strict_decode_def one_text_codec_def)
  with serving_refines_the_manager [OF observer_reaches.idle, of _ _ _ _ _ _ _ _ 3] show ?thesis
    by simp
qed

section \<open>Requests and frames of a lease\<close>

text \<open>A lease serving a list of requests, each admitted and then numbered.\<close>

fun serve_all :: "string \<Rightarrow> string list \<Rightarrow> lease_manager \<Rightarrow> (string \<times> go_uint64) list \<times> lease_manager" where
  "serve_all leaseID [] m = ([], m)"
| "serve_all leaseID (requestID # rest) m =
     (case AdmitRequest leaseID requestID m of
        (Some e, m1) \<Rightarrow> serve_all leaseID rest m1
      | (None, m1) \<Rightarrow>
          (case NextSequence leaseID m1 of
             ((n, e), m2) \<Rightarrow>
               (case serve_all leaseID rest m2 of (served, m3) \<Rightarrow> ((requestID, n) # served, m3))))"

lemma serve_all_lease:
  assumes "serve_all leaseID requests (Some l) = (served, m)" "ol_id l = leaseID" "finite (ol_seen l)"
    and "card (ol_seen l) \<le> maxOpsObserverRequestsPerLease"
  shows "distinct (map fst served) \<and> set (map fst served) \<inter> ol_seen l = {}
    \<and> card (ol_seen l) + length served \<le> maxOpsObserverRequestsPerLease
    \<and> map snd served = map (\<lambda>i. ol_sequence l + of_nat (Suc i)) [0..<length served]"
  using assms
proof (induction requests arbitrary: l served)
  case (Cons r rest)
  show ?case
  proof (cases "AdmitRequest leaseID r (Some l)")
    case (Pair e m1)
    show ?thesis
    proof (cases e)
      case (Some x)
      then have "m1 = Some l"
        using Pair by (auto simp: AdmitRequest_def split: if_splits)
      with Cons Pair Some show ?thesis by simp
    next
      case None
      define l2 where "l2 = l\<lparr>ol_seen := insert r (ol_seen l), ol_sequence := ol_sequence l + 1\<rparr>"
      have new: "r \<notin> ol_seen l" "card (ol_seen l) < maxOpsObserverRequestsPerLease"
        and m1: "m1 = Some (l\<lparr>ol_seen := insert r (ol_seen l)\<rparr>)"
        using Pair None Cons.prems by (auto simp: AdmitRequest_def split: if_splits)
      have "NextSequence leaseID m1 = ((ol_sequence l + 1, None), Some l2)"
        using Cons.prems m1 by (simp add: NextSequence_def l2_def)
      then obtain served2 where s2: "serve_all leaseID rest (Some l2) = (served2, m)"
        "served = (r, ol_sequence l + 1) # served2"
        using Cons.prems Pair None m1 by (auto split: prod.splits)
      have "ol_id l2 = leaseID" "finite (ol_seen l2)" "card (ol_seen l2) \<le> maxOpsObserverRequestsPerLease"
        using Cons.prems new by (simp_all add: l2_def)
      note IH = Cons.IH [OF s2(1) this]
      have seq: "ol_sequence l + 1 + of_nat (Suc i) = ol_sequence l + of_nat (Suc (Suc i))" for i
        by simp
      have numbers: "map (\<lambda>i. ol_sequence l + of_nat (Suc i)) [0..<length served]
          = (ol_sequence l + 1) # map (\<lambda>i. ol_sequence l2 + of_nat (Suc i)) [0..<length served2]"
        unfolding s2(2) l2_def list.size ops_lease.simps add_Suc_right add_0_right
        by (subst upt_conv_Cons) (simp_all only: map_Suc_upt [symmetric] list.map map_map o_def seq, simp_all)
      have "map snd served = (ol_sequence l + 1) # map snd served2" using s2(2) by simp
      with IH numbers have "map snd served = map (\<lambda>i. ol_sequence l + of_nat (Suc i)) [0..<length served]"
        by simp
      with IH s2(2) new Cons.prems(3) show ?thesis by (auto simp: l2_def simp del: of_nat_Suc)
    qed
  qed
qed simp

text \<open>
  A new lease never serves a request identifier twice, never more than 4096 of them, and
  numbers the frames it serves 1, 2, 3 and so on.
\<close>

theorem lease_serves_each_request_once:
  assumes "Admit r None = (None, m0)" "serve_all (or_ObserverLeaseID r) requests m0 = (served, m)"
  shows "distinct (map fst served) \<and> length served \<le> 4096
    \<and> map snd served = map (\<lambda>i. of_nat (Suc i)) [0..<length served]"
proof -
  from assms(1) obtain l where l: "m0 = Some l" "ol_id l = or_ObserverLeaseID r" "ol_seen l = {}" "ol_sequence l = 0"
    by (auto simp: Admit_def)
  have "finite (ol_seen l)" "card (ol_seen l) \<le> maxOpsObserverRequestsPerLease" using l by simp_all
  from serve_all_lease [OF assms(2) [unfolded l(1)] l(2) this] l show ?thesis
    by (simp add: maxOpsObserverRequestsPerLease_def)
qed

theorem lease_serves_each_request_once_witness:
  "distinct (map fst (fst (serve_all (or_ObserverLeaseID sample_ops_request) [''a'', ''a'', ''b'']
     (Some sample_ops_lease))))"
proof -
  have a: "Admit sample_ops_request None = (None, Some sample_ops_lease)"
    by (simp add: Admit_def sample_ops_lease_def sample_ops_request_def)
  obtain served m where run: "serve_all (or_ObserverLeaseID sample_ops_request) [''a'', ''a'', ''b'']
      (Some sample_ops_lease) = (served, m)" by fastforce
  from lease_serves_each_request_once [OF a run] run show ?thesis by simp
qed

text \<open>
  A probe never touches the lease: whoever holds it keeps it, and the manager is unchanged.
\<close>

theorem probes_leave_the_lease_alone:
  assumes "DecodeOpsObserverRequest c raw = Some r" "or_Operation r = OpsObserverProbeOperation"
  shows "snd (snd (serve_line shut c credential engine now later captured raw held m)) = (held, m)"
  using assms by (simp add: serve_line_def split: option.splits)

theorem probes_leave_the_lease_alone_witness:
  "snd (snd (serve_line False (one_text_codec ''x'' sample_ops_request sample_ops_request) sample_credential
     (\<lambda>_ _. undefined) Second Second Second ''x'' [] (Some sample_ops_lease))) = ([], Some sample_ops_lease)"
proof (rule probes_leave_the_lease_alone)
  show "DecodeOpsObserverRequest (one_text_codec ''x'' sample_ops_request sample_ops_request) ''x''
      = Some sample_ops_request"
    by (simp add: DecodeOpsObserverRequest_def strict_decode_def one_text_codec_def)
qed (simp add: sample_ops_request_def)

end
