(* ===== verification/ProtocolProperties.thy ===== *)
theory ProtocolProperties
  imports Samples
begin

text \<open>
  The properties of the wire contract: what an accepted action may do, which origin lists and
  navigation targets pass, and what the validators answer.
\<close>

section \<open>Actions\<close>

definition sample_batch :: action where
  "sample_batch = Action ActionBatch ObservationDefault [] [] None None None None [] [] [] None
     [sample_action ActionScreenshot, sample_action ActionScreenshot]"

lemma sample_batch_accepted: "ValidateForPolicy ascii_externals ''restricted'' sample_batch = None"
proof -
  have "ValidateForPolicy ascii_externals ''restricted'' (sample_action ActionScreenshot) = None"
    by (simp add: ValidateForPolicy.simps sample_action_def ObservationMode_Validate_def plain_rejects_def
        requireOnly_def allowOnly_def presentFields_def all_fields_def)
  moreover have "nested_rejects ''restricted'' (sample_action ActionScreenshot) = None"
    by (simp add: nested_rejects_def sample_action_def)
  ultimately show ?thesis
    by (subst ValidateForPolicy.simps) (simp add: sample_batch_def ObservationMode_Validate_def
        requireOnly_def allowOnly_def presentFields_def all_fields_def)
qed

lemma accepted_select:
  "ValidateForPolicy ext policy a = None \<Longrightarrow> act_Kind a = ActionSelect \<Longrightarrow> policy = ''full''"
  by (auto simp: ValidateForPolicy.simps [of ext policy a] select_rejects_def split: if_splits)

lemma accepted_space:
  "ValidateForPolicy ext policy a = None \<Longrightarrow> act_Kind a = ActionKeypress \<Longrightarrow> act_Key a = ''Space''
   \<Longrightarrow> policy = ''full''"
  by (auto simp: ValidateForPolicy.simps [of ext policy a] keypress_rejects_def split: if_splits)

text \<open>
  Under the restricted policy an accepted action, and every action of an accepted batch, is
  no selection and no press of Space; and no action of a batch is one that the mutation journal
  counts as a potential mutation.
\<close>

theorem restricted_policy_holds_back:
  assumes "ValidateForPolicy ext policy a = None" "policy \<noteq> ''full''"
  shows "(\<forall>n \<in> set (a # act_Actions a).
      act_Kind n \<noteq> ActionSelect \<and> (act_Kind n = ActionKeypress \<longrightarrow> act_Key n \<noteq> ''Space''))
    \<and> (\<forall>n \<in> set (act_Actions a). \<not> potentialBrowserMutation (act_Kind n))"
proof (cases "act_Kind a = ActionBatch")
  case True
  have "act_Kind n \<noteq> ActionSelect \<and> act_Kind n \<noteq> ActionKeypress \<and> \<not> potentialBrowserMutation (act_Kind n)"
    if "n \<in> set (act_Actions a)" for n
    using accepted_batch(3) [OF assms(1) True that] nested_accepted(3) [of policy n] assms(2)
    by (auto simp: potentialBrowserMutation_def)
  then show ?thesis
    using True by auto
next
  case False
  then show ?thesis
    using accepted_flat [OF assms(1)] accepted_select [OF assms(1)] accepted_space [OF assms(1)] assms(2)
    by auto
qed

theorem restricted_policy_holds_back_witness:
  "\<not> potentialBrowserMutation (act_Kind (sample_action ActionScreenshot))"
  using restricted_policy_holds_back [OF sample_batch_accepted] by (simp add: sample_batch_def)

text \<open>
  The restricted policy only restricts: whatever it accepts, the full policy accepts.
\<close>

theorem restricted_implies_full:
  assumes "ValidateForPolicy ext policy a = None"
  shows "ValidateForPolicy ext ''full'' a = None"
  using assms by (rule policy_mono)

theorem restricted_implies_full_witness: "ValidateForPolicy ascii_externals ''full'' sample_batch = None"
  by (rule restricted_implies_full [OF sample_batch_accepted])

text \<open>
  The recursion on batches is bounded: an accepted action nests at most two deep and costs
  between one and eight units of the attachment's budget.
\<close>

theorem accepted_actions_are_small:
  assumes "ValidateForPolicy ext policy a = None"
  shows "action_depth a \<le> 2 \<and> 1 \<le> action_cost a \<and> action_cost a \<le> 8"
  using accepted_depth [OF assms] accepted_batch(1,2) [OF assms] by (auto simp: action_cost_def)

theorem accepted_actions_are_small_witness: "action_depth sample_batch \<le> 2"
  using accepted_actions_are_small [OF sample_batch_accepted] by simp

text \<open>
  An accepted click carries both coordinates and nothing else, and they lie in the viewport.
\<close>

theorem accepted_clicks_hit_the_viewport:
  assumes "ValidateForPolicy ext policy a = None" "act_Kind a = ActionClick"
  shows "(\<exists>x y. act_X a = Some x \<and> act_Y a = Some y \<and> 0 \<le> sint x \<and> sint x < ViewportWidth
      \<and> 0 \<le> sint y \<and> sint y < ViewportHeight)
    \<and> (\<forall>f. presentFields a f \<longleftrightarrow> f \<in> {F_x, F_y})"
proof -
  have "requireOnly a [F_x, F_y] = None"
    using assms by (simp add: ValidateForPolicy.simps [of ext policy a])
  from accepted_fields [OF this] accepted_click [OF assms] show ?thesis by (metis empty_set list.simps(15))
qed

theorem accepted_clicks_hit_the_viewport_witness:
  "\<exists>x y. act_X sample_click = Some x \<and> act_Y sample_click = Some y \<and> sint x < ViewportWidth"
  using accepted_clicks_hit_the_viewport [OF sample_click_valid] by (auto simp: sample_click_def)

text \<open>
  The deltas of an accepted scroll are at most 32768 in size, except that the least 64-bit
  integer passes: negating it gives itself, and \<^verbatim>\<open>abs\<close> finds it small.
\<close>

theorem accepted_scrolls_are_bounded:
  assumes "ValidateForPolicy ext policy a = None" "act_Kind a = ActionScroll"
    and "act_DeltaX a = Some d \<or> act_DeltaY a = Some d"
  shows "\<bar>sint d\<bar> \<le> 32768 \<or> sint d = - (2 ^ 63)"
proof -
  have "scroll_rejects a = None"
    using assms(1,2) by (simp add: ValidateForPolicy.simps [of ext policy a])
  then have "sint (go_abs d) \<le> 32768"
    using assms(3) by (auto simp: scroll_rejects_def Let_def valueOrZero_def not_less split: if_splits)
  then show ?thesis by (rule go_abs_bound)
qed

definition sample_scroll :: "int \<Rightarrow> action" where
  "sample_scroll d = Action ActionScroll ObservationDefault [] [] None None (Some (word_of_int d)) None [] [] [] None []"

lemma sample_scroll_accepted:
  assumes "(word_of_int d :: go_int) \<noteq> 0" "sint (go_abs (word_of_int d)) \<le> 32768"
  shows "ValidateForPolicy ext policy (sample_scroll d) = None"
proof -
  have "sint (go_abs 0) = 0" by code_simp
  with assms show ?thesis
    by (simp add: ValidateForPolicy.simps sample_scroll_def ObservationMode_Validate_def scroll_rejects_def
        allowOnly_def presentFields_def all_fields_def valueOrZero_def)
qed

theorem accepted_scrolls_are_bounded_witness: "\<bar>sint (100 :: go_int)\<bar> \<le> 32768 \<or> sint (100 :: go_int) = - (2 ^ 63)"
proof (rule accepted_scrolls_are_bounded)
  have "sint (go_abs (word_of_int 100)) = 100" by code_simp
  then show "ValidateForPolicy ascii_externals ''restricted'' (sample_scroll 100) = None"
    by (intro sample_scroll_accepted) simp_all
qed (simp_all add: sample_scroll_def)

text \<open>
  The exception occurs: a scroll by the least 64-bit integer is accepted under every policy.
\<close>

theorem least_scroll_is_accepted:
  "ValidateForPolicy ext policy (sample_scroll (- (2 ^ 63))) = None"
proof (rule sample_scroll_accepted)
  show "(word_of_int (- (2 ^ 63)) :: go_int) \<noteq> 0" by code_simp
  show "sint (go_abs (word_of_int (- (2 ^ 63)))) \<le> 32768" by (subst go_abs_least) simp
qed

section \<open>Mutation origins\<close>

text \<open>The canonicalisation as a map from the listed origins to the canonical ones.\<close>

definition canonical_image :: "externals \<Rightarrow> string list \<Rightarrow> string set" where
  "canonical_image ext os = {c. \<exists>x \<in> set os. canonicalMutationOrigin ext x = Some c}"

definition canonical_list :: "externals \<Rightarrow> string list \<Rightarrow> bool" where
  "canonical_list ext os \<longleftrightarrow>
     length os \<le> MaxMutationOrigins \<and> sorted os \<and> distinct os
     \<and> (\<forall>x \<in> set os. canonicalMutationOrigin ext x \<noteq> None) \<and> canonical_image ext os = set os"

lemma canonical_list_loop:
  assumes "canonical_list ext os"
  obtains found where "canonical_loop (canonicalMutationOrigin ext) os [] = Some found" "sort found = os"
proof -
  obtain found where f: "canonical_loop (canonicalMutationOrigin ext) os [] = Some found"
    using assms canonical_loop_None_iff [of "canonicalMutationOrigin ext" os "[]"]
    by (auto simp: canonical_list_def)
  have "distinct found" "set found = set os"
    using canonical_loop_spec(1,2) [OF f] assms by (simp_all add: canonical_list_def canonical_image_def)
  then have "sort found = os"
    using assms by (intro sorted_distinct_set_unique) (simp_all add: canonical_list_def)
  with f that show ?thesis by blast
qed

text \<open>
  C12. \<^verbatim>\<open>ValidateMutationOrigins\<close> accepts exactly the canonical lists with their digest: at most 32
  origins, strictly ascending, every one readable, the canonicalisation mapping the list onto
  itself; no origin under the restricted policy and at least one under the full policy.
\<close>

theorem accepted_origins_are_canonical:
  "ValidateMutationOrigins ext policy origins digest = None \<longleftrightarrow>
     (\<exists>os. origins = Some os \<and> canonical_list ext os
       \<and> (policy = ''restricted'' \<and> os = [] \<or> policy = ''full'' \<and> os \<noteq> [])
       \<and> digest = sha256_hex (json_string_list os))"
  (is "?accepts \<longleftrightarrow> ?canonical")
proof
  assume ?accepts
  then obtain os where os: "origins = Some os" "CanonicalMutationOrigins ext policy origins = Inr (os, digest)"
    by (auto simp: ValidateMutationOrigins_accepts)
  from os(2) show ?canonical
    by (rule CanonicalMutationOrigins_Inr)
      (use os(1) in \<open>auto simp: canonical_list_def canonical_image_def\<close>)
next
  assume ?canonical
  then obtain os where os: "origins = Some os" "canonical_list ext os"
    "policy = ''restricted'' \<and> os = [] \<or> policy = ''full'' \<and> os \<noteq> []"
    "digest = sha256_hex (json_string_list os)" by blast
  obtain found where "canonical_loop (canonicalMutationOrigin ext) os [] = Some found" "sort found = os"
    using canonical_list_loop [OF os(2)] .
  with os show ?accepts
    by (auto simp: ValidateMutationOrigins_accepts CanonicalMutationOrigins_def Let_def canonical_list_def)
qed

text \<open>
  The digest written down for the restricted policy is the one the code computes for it: an
  identity without origins passes under the restricted policy with exactly that digest.
\<close>

theorem restricted_digest_is_right:
  "ValidateMutationOrigins ext ''restricted'' (Some []) digest = None
     \<longleftrightarrow> digest = RestrictedMutationOriginsSHA256"
  by (auto simp: ValidateMutationOrigins_accepts CanonicalMutationOrigins_def empty_origins_digest)

section \<open>Identities\<close>

text \<open>
  \<^verbatim>\<open>SameIdentity\<close>, and with it the fixed lease, compares every field: it holds exactly when the
  identities are equal, a nil and an empty list of origins counting as the same.
\<close>

theorem static_lease_is_equality:
  "StaticLease_Validate expected i = None \<longleftrightarrow>
     i\<lparr>id_BrowserMutationOrigins := Some (origins_of i)\<rparr>
       = expected\<lparr>id_BrowserMutationOrigins := Some (origins_of expected)\<rparr>"
  by (simp add: StaticLease_iff SameIdentity_iff)

section \<open>Failures\<close>

lemma error_code_tables:
  "distinct (map fst error_code_texts)" "distinct (map snd error_code_texts)"
  by code_simp+

lemma error_code_entries:
  "p \<in> set error_code_texts \<Longrightarrow> ErrorCode_text (fst p) = snd p \<and> known_code (fst p)"
proof -
  have "list_all (\<lambda>p. ErrorCode_text (fst p) = snd p \<and> known_code (fst p)) error_code_texts"
    by code_simp
  then show "p \<in> set error_code_texts \<Longrightarrow> ErrorCode_text (fst p) = snd p \<and> known_code (fst p)"
    by (simp add: list_all_iff)
qed

lemma known_code_entry:
  assumes "known_code c"
  shows "(c, ErrorCode_text c) \<in> set error_code_texts"
proof -
  have "c \<in> set (map fst error_code_texts)"
    using assms by (cases c) (simp_all add: known_code_def error_code_texts_def del: set_map)
  then show ?thesis using error_code_entries by force
qed

lemma error_code_lookup:
  "case find (\<lambda>p. snd p = s) error_code_texts of
     None \<Rightarrow> s \<notin> set (map snd error_code_texts)
   | Some p \<Rightarrow> p \<in> set error_code_texts \<and> snd p = s"
proof (cases "find (\<lambda>p. snd p = s) error_code_texts")
  case None
  then have "s \<notin> set (map snd error_code_texts)" by (auto simp: find_None_iff)
  with None show ?thesis by simp
next
  case (Some p)
  then have "p \<in> set error_code_texts \<and> snd p = s" by (auto simp: find_Some_iff in_set_conv_nth)
  with Some show ?thesis by simp
qed

lemma ErrorCode_of_cases:
  obtains (known) "s \<in> set (map snd error_code_texts)" "ErrorCode_text (ErrorCode_of s) = s"
      "known_code (ErrorCode_of s)"
    | (unknown) "s \<notin> set (map snd error_code_texts)" "ErrorCode_of s = ErrorOther s"
proof (cases "find (\<lambda>p. snd p = s) error_code_texts")
  case None
  with error_code_lookup [of s] unknown show ?thesis by (simp add: ErrorCode_of_def of_text_def)
next
  case (Some p)
  with error_code_lookup [of s] have p: "p \<in> set error_code_texts" "snd p = s" "ErrorCode_of s = fst p"
    by (simp_all add: ErrorCode_of_def of_text_def)
  then have "s \<in> set (map snd error_code_texts)" by force
  with p error_code_entries [OF p(1)] known show ?thesis by simp
qed

text \<open>
  The wire text of an error code is read back as the code, and the code read from a text is
  written as that text; ValidateFailure knows a text exactly if some constant has it.
\<close>

theorem error_codes_round_trip:
  "ErrorCode_text (ErrorCode_of s) = s
   \<and> (known_code (ErrorCode_of s) \<longleftrightarrow> s \<in> set (map snd error_code_texts))
   \<and> (ErrorCode_of (ErrorCode_text c) = c \<longleftrightarrow> c \<notin> ErrorOther ` set (map snd error_code_texts))"
proof (intro conjI)
  show "ErrorCode_text (ErrorCode_of s) = s" "known_code (ErrorCode_of s) \<longleftrightarrow> s \<in> set (map snd error_code_texts)"
    by (rule ErrorCode_of_cases [of s]; simp add: known_code_def ErrorCode_text_def)+
  show "ErrorCode_of (ErrorCode_text c) = c \<longleftrightarrow> c \<notin> ErrorOther ` set (map snd error_code_texts)"
  proof (cases "known_code c")
    case True
    then show ?thesis
      using of_text_known [OF error_code_tables(2) known_code_entry [OF True]]
      by (auto simp: ErrorCode_of_def known_code_def)
  next
    case False
    then obtain t where t: "c = ErrorOther t" by (auto simp: known_code_def split: error_code.splits)
    show ?thesis
      by (rule ErrorCode_of_cases [of t]) (use t in \<open>auto simp: known_code_def ErrorCode_text_def\<close>)
  qed
qed

text \<open>
  C26. Every failure that a validator of the contract builds is one that ValidateFailure accepts,
  so that a refusal is never itself refused: for requests, Viewer requests, actions, engine
  observations, closing observations, leases and ValidateFailure's own verdicts.
\<close>

theorem validators_build_valid_failures:
  assumes "visits_all ext"
  shows "rejects (wf_failure ext) (Request_Validate ext now r)
    \<and> rejects (wf_failure ext) (ViewerRequest_Validate ext now v)
    \<and> rejects (wf_failure ext) (ValidateForPolicy ext policy a)
    \<and> rejects (wf_failure ext) (ValidateEngine ext obs)
    \<and> rejects (wf_failure ext) (ValidateClosed obs)
    \<and> rejects (wf_failure ext) (Lease_Validate ext now l)
    \<and> rejects (wf_failure ext) (ValidateFailure ext f)"
  using own_request [OF assms] own_viewer_request [OF assms] own_ValidateForPolicy own_engine [OF assms]
    own_closed own_lease [OF assms] own_ValidateFailure
  by (auto simp: rejects_def own_failure_wf)

theorem validators_build_valid_failures_witness:
  "rejects (wf_failure ascii_externals) (ValidateFailure ascii_externals None)"
  using validators_build_valid_failures [OF visits_all_ascii] by blast

end
