(* ===== verification/EgressGateway.thy ===== *)
theory EgressGateway
  imports NetPolicy
begin

text \<open>
  The HTTP side of the egress gateway, \<^verbatim>\<open>egressgateway/gateway.go\<close>: what becomes of one proxy
  request. The transport, the dialer, the TLS handshake and the name lookup are parameters; what
  is copied over an open tunnel is not modelled.
\<close>

section \<open>Targets\<close>

text \<open>\<^verbatim>\<open>net.IP.String\<close> of the sixteen-byte form and \<^verbatim>\<open>net.JoinHostPort\<close>.\<close>

definition ip_String :: "128 word \<Rightarrow> string" where
  "ip_String ip = (if drop_bit 32 ip = 0xFFFF then string4 (ucast ip) else string6 ip)"

definition JoinHostPort :: "string \<Rightarrow> string \<Rightarrow> string" where
  "JoinHostPort host port =
     (if ContainsAny host ''%:'' then ''['' @ host @ '']:'' @ port else host @ '':'' @ port)"

text \<open>\<^verbatim>\<open>net.SplitHostPort\<close>, an error being \<^term>\<open>None\<close>.\<close>

definition SplitHostPort :: "string \<Rightarrow> (string \<times> string) option" where
  "SplitHostPort hostport =
     (case CutLast hostport (CHR '':'') of
        None \<Rightarrow> None
      | Some (front, port) \<Rightarrow>
          if HasPrefix hostport ''['' then
            (case Cut hostport (CHR '']'') of
               (inside, behind, found) \<Rightarrow>
                 if \<not> found \<or> inside @ '']'' \<noteq> front then None
                 else if CHR ''['' \<in> set (tl hostport) \<or> CHR '']'' \<in> set behind then None
                 else Some (tl inside, port))
          else if CHR '':'' \<in> set front then None
          else if CHR ''['' \<in> set hostport \<or> CHR '']'' \<in> set hostport then None
          else Some (front, port))"

section \<open>Headers\<close>

text \<open>A header maps canonical names to their values.\<close>

type_synonym header = "string \<rightharpoonup> string list"

definition hop_headers :: "string list" where
  "hop_headers =
     [''Connection'', ''Proxy-Connection'', ''Keep-Alive'', ''Proxy-Authenticate'',
      ''Proxy-Authorization'', ''Te'', ''Trailer'', ''Transfer-Encoding'', ''Upgrade'']"

definition removeHopHeaders :: "header \<Rightarrow> header" where
  "removeHopHeaders h = fold (\<lambda>key h. h(key := None)) hop_headers h"

definition copyHeaders :: "header \<Rightarrow> header \<Rightarrow> header" where
  "copyHeaders destination source key =
     (case source key of
        None \<Rightarrow> destination key
      | Some [] \<Rightarrow> destination key
      | Some values \<Rightarrow>
          Some ((case destination key of None \<Rightarrow> [] | Some vs \<Rightarrow> vs) @ values))"

section \<open>Requests and what becomes of them\<close>

record gateway_request =
  gr_Method :: string
  gr_URL :: "url option"
  gr_Host :: string
  gr_Header :: header

text \<open>What is sent on for a plain request: the pinned target, the authority and the headers.\<close>

record outbound =
  out_URLHost :: string
  out_Host :: string
  out_Header :: header

text \<open>What the client gets; a tunnel carries the connection it is spliced with.\<close>

datatype ('c, 'r) gateway_reply =
    HealthNoContent
  | BadRequest string
  | Blocked string
  | Unavailable
  | Forwarded outbound 'r header
  | Tunnelled 'c
  | TunnelingUnavailable
  | HijackFailed

definition HealthPath :: string where
  "HealthPath = ''/.well-known/openlinker-egress-health''"

definition isDirectHealthRequest :: "gateway_request \<Rightarrow> bool" where
  "isDirectHealthRequest r \<longleftrightarrow>
     gr_Method r = ''GET''
     \<and> (case gr_URL r of
          None \<Rightarrow> False
        | Some u \<Rightarrow> url_Scheme u = [] \<and> url_Host u = [] \<and> url_Path u = HealthPath \<and> url_RawQuery u = [])"

text \<open>
  The environment of one request: the configured lookup, one dial attempt at a host and port
  (through the upstream proxy where there is one), a round trip of the transport, and whether the
  response writer can be hijacked. The dialer and the transport act on the network, a state
  \<open>'w\<close> that the handlers thread through their calls in the order of the code.
\<close>

datatype hijack = NoHijacker | HijackError | Hijacked

record ('w, 'e, 'c, 'r) gateway_env =
  ge_lookup :: "string \<Rightarrow> 128 word list option"
  ge_dial :: "string \<Rightarrow> 'w \<Rightarrow> ('e + 'c) \<times> 'w"
  ge_roundtrip :: "outbound \<Rightarrow> 'w \<Rightarrow> ('r \<times> header) option \<times> 'w"
  ge_hijack :: hijack

section \<open>The dial loop\<close>

definition dial_target :: "string \<Rightarrow> 128 word \<Rightarrow> string" where
  "dial_target port address = JoinHostPort (ip_String address) port"

definition dial_address ::
    "('w, 'e, 'c, 'r) gateway_env \<Rightarrow> string \<Rightarrow> 128 word \<Rightarrow> 'w \<Rightarrow> ('e + 'c) \<times> 'w" where
  "dial_address env port address w = ge_dial env (dial_target port address) w"

datatype 'e dial_error = DialFailed 'e | NoValidatedAddress

definition maxTunnelDialAddresses :: nat where "maxTunnelDialAddresses = 8"

fun dial_first ::
    "(128 word \<Rightarrow> 'w \<Rightarrow> ('e + 'c) \<times> 'w) \<Rightarrow> 'e dial_error \<Rightarrow> 128 word list \<Rightarrow> 'w \<Rightarrow> ('e dial_error + 'c) \<times> 'w" where
  "dial_first dial last_err [] w = (Inl last_err, w)"
| "dial_first dial last_err (a # as) w =
     (case dial a w of
        (Inr conn, w') \<Rightarrow> (Inr conn, w')
      | (Inl e, w') \<Rightarrow> dial_first dial (DialFailed e) as w')"

definition openTunnel ::
    "(128 word \<Rightarrow> 'w \<Rightarrow> ('e + 'c) \<times> 'w) \<Rightarrow> 128 word list \<Rightarrow> 'w \<Rightarrow> ('e dial_error + 'c) \<times> 'w" where
  "openTunnel dial addresses =
     dial_first dial NoValidatedAddress
       (take (if maxTunnelDialAddresses < length addresses then maxTunnelDialAddresses
              else length addresses) addresses)"

section \<open>The handlers\<close>

definition port_error_text :: "port_error \<Rightarrow> string" where
  "port_error_text e =
     (case e of InvalidPort \<Rightarrow> ''invalid destination port''
      | ConnectRestricted \<Rightarrow> ''CONNECT is restricted to port 443''
      | PlainRestricted \<Rightarrow> ''plain HTTP is restricted to port 80'')"

definition destination_blocked :: string where
  "destination_blocked = ''private or invalid destination blocked''"

definition serveConnect ::
    "externals \<Rightarrow> ('w, 'e, 'c, 'r) gateway_env \<Rightarrow> gateway_request \<Rightarrow> 'w \<Rightarrow> ('c, 'r) gateway_reply \<times> 'w" where
  "serveConnect ext env r w =
     (case SplitHostPort (gr_Host r) of
        None \<Rightarrow> (BadRequest ''CONNECT requires host:port'', w)
      | Some (host, port) \<Rightarrow>
          (case validatePort port True of Some e \<Rightarrow> (Blocked (port_error_text e), w) | None \<Rightarrow>
            (case resolvePublic ext (ge_lookup env) host of
               Inl e \<Rightarrow> (Blocked destination_blocked, w)
             | Inr addresses \<Rightarrow>
                 (case openTunnel (dial_address env port) addresses w of
                    (Inl e, w') \<Rightarrow> (Unavailable, w')
                  | (Inr c, w') \<Rightarrow>
                      (case ge_hijack env of
                         NoHijacker \<Rightarrow> TunnelingUnavailable
                       | HijackError \<Rightarrow> HijackFailed
                       | Hijacked \<Rightarrow> Tunnelled c,
                       w')))))"

definition outbound_request :: "gateway_request \<Rightarrow> url \<Rightarrow> 128 word \<Rightarrow> string \<Rightarrow> outbound" where
  "outbound_request r u address port =
     \<lparr>out_URLHost = JoinHostPort (ip_String address) port, out_Host = url_Host u,
      out_Header = (removeHopHeaders (gr_Header r))(''Proxy-Authorization'' := None)\<rparr>"

definition servePlain ::
    "externals \<Rightarrow> ('w, 'e, 'c, 'r) gateway_env \<Rightarrow> gateway_request \<Rightarrow> url \<Rightarrow> 'w \<Rightarrow> ('c, 'r) gateway_reply \<times> 'w" where
  "servePlain ext env r u w =
     (let port = (if url_Port u = [] then ''80'' else url_Port u) in
      case validatePort port False of Some e \<Rightarrow> (Blocked (port_error_text e), w) | None \<Rightarrow>
        (case resolvePublic ext (ge_lookup env) (url_Hostname u) of
           Inl e \<Rightarrow> (Blocked destination_blocked, w)
         | Inr addresses \<Rightarrow>
             (let out = outbound_request r u (addresses ! 0) port in
              (case ge_roundtrip env out w of
                 (None, w') \<Rightarrow> (Unavailable, w')
               | (Some (response, h), w') \<Rightarrow>
                   (Forwarded out response (copyHeaders Map.empty (removeHopHeaders h)), w')))))"

definition ServeHTTP ::
    "externals \<Rightarrow> ('w, 'e, 'c, 'r) gateway_env \<Rightarrow> gateway_request \<Rightarrow> 'w \<Rightarrow> ('c, 'r) gateway_reply \<times> 'w" where
  "ServeHTTP ext env r w =
     (if isDirectHealthRequest r then (HealthNoContent, w)
      else if gr_Method r = ''CONNECT'' then serveConnect ext env r w
      else
        (case gr_URL r of
           None \<Rightarrow> (BadRequest ''absolute public URL required'', w)
         | Some u \<Rightarrow>
             if url_Scheme u = [] \<or> url_Host u = [] \<or> url_User u then
               (BadRequest ''absolute public URL required'', w)
             else if url_Scheme u \<noteq> ''http'' then
               (BadRequest ''HTTPS proxy requests must use CONNECT'', w)
             else servePlain ext env r u w))"

section \<open>The upstream proxy\<close>

definition ParseUpstreamProxy :: "string \<Rightarrow> url option" where
  "ParseUpstreamProxy raw =
     (case url_Parse (TrimSpace raw) of
        None \<Rightarrow> None
      | Some u \<Rightarrow>
          if url_Hostname u = [] \<or> (url_Scheme u \<noteq> ''http'' \<and> url_Scheme u \<noteq> ''https'')
             \<or> (url_Path u \<noteq> [] \<and> url_Path u \<noteq> ''/'') \<or> url_RawQuery u \<noteq> [] \<or> url_Fragment u \<noteq> []
          then None else Some u)"

text \<open>\<^verbatim>\<open>base64.StdEncoding\<close>, on bytes as characters.\<close>

definition base64_digit :: "nat \<Rightarrow> char" where
  "base64_digit n =
     (if n < 26 then char_of (65 + n) else if n < 52 then char_of (97 + (n - 26))
      else if n < 62 then char_of (48 + (n - 52)) else if n = 62 then CHR ''+'' else CHR ''/'')"

fun base64 :: "string \<Rightarrow> string" where
  "base64 [] = []"
| "base64 [a] =
     [base64_digit (of_char a div 4), base64_digit (of_char a mod 4 * 16), CHR ''='', CHR ''='']"
| "base64 [a, b] =
     [base64_digit (of_char a div 4), base64_digit (of_char a mod 4 * 16 + of_char b div 16),
      base64_digit (of_char b mod 16 * 4), CHR ''='']"
| "base64 (a # b # c # rest) =
     [base64_digit (of_char a div 4), base64_digit (of_char a mod 4 * 16 + of_char b div 16),
      base64_digit (of_char b mod 16 * 4 + of_char c div 64), base64_digit (of_char c mod 64)]
     @ base64 rest"

text \<open>
  One attempt through the proxy: dialling it, the TLS handshake if it is an HTTPS proxy, writing
  the CONNECT request for the target with its Proxy-Authorization header and reading the status of
  its answer. The user name and password of the proxy's URL are an argument.
\<close>

record ('e, 'c) upstream_run =
  ur_dial :: "string \<Rightarrow> 'e + 'c"
  ur_handshake :: "'c \<Rightarrow> 'e + 'c"
  ur_write :: "string \<Rightarrow> string option \<Rightarrow> 'c \<Rightarrow> 'e option"
  ur_status :: "'c \<Rightarrow> 'e + nat"

definition upstream_address :: "url \<Rightarrow> string" where
  "upstream_address u =
     (let port = (if url_Port u = [] then (if url_Scheme u = ''https'' then ''443'' else ''80'')
        else url_Port u) in
      JoinHostPort (url_Hostname u) port)"

definition proxy_authorization :: "string \<times> string \<Rightarrow> string" where
  "proxy_authorization user = ''Basic '' @ base64 (fst user @ '':'' @ snd user)"

definition connectThroughUpstream ::
    "('e, 'c) upstream_run \<Rightarrow> url \<Rightarrow> (string \<times> string) option \<Rightarrow> 'e \<Rightarrow> string \<Rightarrow> 'e + 'c" where
  "connectThroughUpstream run u user refused target =
     (case ur_dial run (upstream_address u) of
        Inl e \<Rightarrow> Inl e
      | Inr conn \<Rightarrow>
          (case (if url_Scheme u = ''https'' then ur_handshake run conn else Inr conn) of
             Inl e \<Rightarrow> Inl e
           | Inr conn' \<Rightarrow>
               (case ur_write run target (map_option proxy_authorization user) conn' of
                  Some e \<Rightarrow> Inl e
                | None \<Rightarrow>
                    (case ur_status run conn' of
                       Inl e \<Rightarrow> Inl e
                     | Inr status \<Rightarrow> if status \<noteq> 200 then Inl refused else Inr conn'))))"

section \<open>Facts\<close>

lemma removeHopHeaders_eq: "removeHopHeaders h key = (if key \<in> set hop_headers then None else h key)"
proof -
  have "fold (\<lambda>k h. h(k := None)) ks h key = (if key \<in> set ks then None else h key)" for ks
    by (induction ks arbitrary: h) auto
  then show ?thesis by (simp only: removeHopHeaders_def)
qed

lemma resolvePublic_public:
  assumes "resolvePublic ext lookup host = Inr addresses"
  shows "addresses \<noteq> []" "a \<in> set addresses \<Longrightarrow> \<not> IsBlockedIP a"
  using assms
  by (auto simp: resolvePublic_def Let_def list_ex_iff split: if_splits option.splits)

text \<open>
  An environment that writes down, beside what it does, every target handed to its dialer and the
  URL host of every request handed to its transport.
\<close>

definition watched :: "('w, 'e, 'c, 'r) gateway_env \<Rightarrow> ('w \<times> string list, 'e, 'c, 'r) gateway_env" where
  "watched env =
     \<lparr>ge_lookup = ge_lookup env,
      ge_dial = (\<lambda>target (w, seen). case ge_dial env target w of (r, w') \<Rightarrow> (r, (w', seen @ [target]))),
      ge_roundtrip = (\<lambda>out (w, seen). case ge_roundtrip env out w of (r, w') \<Rightarrow> (r, (w', seen @ [out_URLHost out]))),
      ge_hijack = ge_hijack env\<rparr>"

lemma watched_simps:
  "ge_lookup (watched env) = ge_lookup env"
  "ge_hijack (watched env) = ge_hijack env"
  "ge_dial (watched env) target (w, seen)
     = (fst (ge_dial env target w), (snd (ge_dial env target w), seen @ [target]))"
  "ge_roundtrip (watched env) out (w, seen)
     = (fst (ge_roundtrip env out w), (snd (ge_roundtrip env out w), seen @ [out_URLHost out]))"
  by (simp_all add: watched_def split: prod.split)

text \<open>Watching does not change what happens.\<close>

lemma watched_dial_first:
  "\<exists>n \<le> length addresses. dial_first (dial_address (watched env) port) e addresses (w, seen)
     = (fst (dial_first (dial_address env port) e addresses w),
        (snd (dial_first (dial_address env port) e addresses w),
         seen @ map (dial_target port) (take n addresses)))"
proof (induction addresses arbitrary: e w seen)
  case Nil
  then show ?case by simp
next
  case (Cons a as)
  obtain r w' where d: "ge_dial env (dial_target port a) w = (r, w')" by fastforce
  show ?case
  proof (cases r)
    case (Inl x)
    from Cons [of "DialFailed x" w' "seen @ [dial_target port a]"] obtain n where
      n: "n \<le> length as" "dial_first (dial_address (watched env) port) (DialFailed x) as (w', seen @ [dial_target port a])
        = (fst (dial_first (dial_address env port) (DialFailed x) as w'),
           (snd (dial_first (dial_address env port) (DialFailed x) as w'),
            (seen @ [dial_target port a]) @ map (dial_target port) (take n as)))"
      by blast
    moreover have "dial_address env port a w = (Inl x, w')"
      "dial_address (watched env) port a (w, seen) = (Inl x, (w', seen @ [dial_target port a]))"
      by (simp_all add: dial_address_def watched_simps d Inl)
    ultimately show ?thesis
      by (intro exI [of _ "Suc n"]) simp
  next
    case (Inr c)
    then show ?thesis
      by (intro exI [of _ 1]) (simp add: dial_address_def watched_simps d)
  qed
qed

lemma watched_openTunnel:
  "\<exists>n \<le> length addresses. n \<le> maxTunnelDialAddresses
     \<and> openTunnel (dial_address (watched env) port) addresses (w, seen)
       = (fst (openTunnel (dial_address env port) addresses w),
          (snd (openTunnel (dial_address env port) addresses w),
           seen @ map (dial_target port) (take n addresses)))"
proof -
  let ?k = "if maxTunnelDialAddresses < length addresses then maxTunnelDialAddresses else length addresses"
  from watched_dial_first [of "take ?k addresses" env port NoValidatedAddress w seen] obtain n where
    "n \<le> length (take ?k addresses)"
    "dial_first (dial_address (watched env) port) NoValidatedAddress (take ?k addresses) (w, seen)
     = (fst (openTunnel (dial_address env port) addresses w),
        (snd (openTunnel (dial_address env port) addresses w),
         seen @ map (dial_target port) (take n (take ?k addresses))))"
    unfolding openTunnel_def by blast
  then show ?thesis
    by (intro exI [of _ n]) (auto simp: openTunnel_def min_def split: if_splits)
qed

text \<open>
  Where the outcome of an attempt depends on its target alone, the loop ends at the first target
  that answers, whatever the attempts do to the network.
\<close>

definition dial_all :: "('w, 'e, 'c, 'r) gateway_env \<Rightarrow> string list \<Rightarrow> 'w \<Rightarrow> 'w" where
  "dial_all env targets w = fold (\<lambda>target w. snd (ge_dial env target w)) targets w"

lemma dial_first_connected:
  assumes "dial_first (dial_address env port) e addresses w = (Inr c, w')"
    and outcome: "\<And>target w. fst (ge_dial env target w) = dial target"
  shows "\<exists>n < length addresses. dial (dial_target port (addresses ! n)) = Inr c
    \<and> list_all (\<lambda>b. isl (dial (dial_target port b))) (take n addresses)
    \<and> w' = dial_all env (map (dial_target port) (take (Suc n) addresses)) w"
  using assms(1)
proof (induction addresses arbitrary: e w)
  case Nil
  then show ?case by simp
next
  case (Cons a as)
  obtain r w1 where d: "ge_dial env (dial_target port a) w = (r, w1)" by fastforce
  with outcome [of "dial_target port a" w] have r: "dial (dial_target port a) = r" by simp
  show ?case
  proof (cases r)
    case (Inl x)
    with d have "dial_address env port a w = (Inl x, w1)" by (simp add: dial_address_def)
    with Cons.prems have "dial_first (dial_address env port) (DialFailed x) as w1 = (Inr c, w')"
      by simp
    from Cons.IH [OF this] obtain n where
      "n < length as" "dial (dial_target port (as ! n)) = Inr c"
      "list_all (\<lambda>b. isl (dial (dial_target port b))) (take n as)"
      "w' = dial_all env (map (dial_target port) (take (Suc n) as)) w1" by blast
    then show ?thesis
      using r Inl d by (intro exI [of _ "Suc n"]) (simp add: dial_all_def)
  next
    case (Inr c')
    with Cons.prems d r show ?thesis
      by (intro exI [of _ 0]) (simp add: dial_address_def dial_all_def)
  qed
qed

lemma openTunnel_connected:
  assumes "openTunnel (dial_address env port) addresses w = (Inr c, w')"
    and "\<And>target w. fst (ge_dial env target w) = dial target"
  shows "\<exists>n < 8. n < length addresses \<and> dial (dial_target port (addresses ! n)) = Inr c
    \<and> list_all (\<lambda>b. isl (dial (dial_target port b))) (take n addresses)
    \<and> w' = dial_all env (map (dial_target port) (take (Suc n) addresses)) w"
proof -
  have "(if maxTunnelDialAddresses < length addresses then maxTunnelDialAddresses else length addresses)
    = min 8 (length addresses)"
    by (simp add: maxTunnelDialAddresses_def min_def)
  with assms(1) have "dial_first (dial_address env port) NoValidatedAddress (take 8 addresses) w = (Inr c, w')"
    by (simp add: openTunnel_def min_def split: if_splits)
  from dial_first_connected [OF this assms(2)] obtain n where
    n: "n < length (take 8 addresses)" "dial (dial_target port (take 8 addresses ! n)) = Inr c"
    "list_all (\<lambda>b. isl (dial (dial_target port b))) (take n (take 8 addresses))"
    "w' = dial_all env (map (dial_target port) (take (Suc n) (take 8 addresses))) w"
    by blast
  then show ?thesis
    by (intro exI [of _ n]) (simp add: min_def split: if_splits)
qed

end
