(* ===== verification/DnsOverHttps.thy ===== *)
theory DnsOverHttps
  imports EgressGateway "HOL-Library.AList"
begin

text \<open>
  The DNS-over-HTTPS resolver, \<^verbatim>\<open>egressgateway/doh.go\<close>: the endpoint it accepts, one query, and
  the cache. The HTTP round trip and the JSON reader are parameters; the clock is an argument.
\<close>

section \<open>The endpoint\<close>

datatype doh_config_error = DoHNotHTTPS | DoHNotPublicLiteral | DoHPort | DoHNoPath

definition NewDoHResolver :: "string \<Rightarrow> doh_config_error + url" where
  "NewDoHResolver raw =
     (case url_Parse (TrimSpace raw) of
        None \<Rightarrow> Inl DoHNotHTTPS
      | Some endpoint \<Rightarrow>
          if url_Scheme endpoint \<noteq> ''https'' \<or> url_Hostname endpoint = [] \<or> url_User endpoint
             \<or> url_RawQuery endpoint \<noteq> [] \<or> url_Fragment endpoint \<noteq> [] then Inl DoHNotHTTPS
          else (case ParseIP (url_Hostname endpoint) of
            None \<Rightarrow> Inl DoHNotPublicLiteral
          | Some ip \<Rightarrow>
              if IsBlockedIP ip then Inl DoHNotPublicLiteral
              else if url_Port endpoint \<noteq> [] \<and> url_Port endpoint \<noteq> ''443'' then Inl DoHPort
              else if url_Path endpoint = [] \<or> url_Path endpoint = ''/'' then Inl DoHNoPath
              else Inr endpoint))"

section \<open>One query\<close>

definition maxDoHResponseBytes :: nat where "maxDoHResponseBytes = 65536"
definition maxDoHCacheEntries :: nat where "maxDoHCacheEntries = 1024"

record doh_answer =
  an_Type :: int
  an_TTL :: int
  an_Data :: string

record doh_json =
  dj_Status :: int
  dj_Answer :: "doh_answer list"

datatype query_type = QueryA | QueryAAAA

datatype doh_error =
    DoHUnavailable | DoHStatus nat | DoHInvalid | DoHNoRecords query_type | DoHNoAddresses

text \<open>
  \<open>fetch\<close> is the HTTP exchange: \<^term>\<open>None\<close> if it fails, otherwise the status, the bytes of the
  body and whether reading them then breaks. \<open>decode\<close> is \<^verbatim>\<open>json.Unmarshal\<close>.
\<close>

type_synonym fetch = "string \<Rightarrow> query_type \<Rightarrow> (nat \<times> bytes \<times> bool) option"

definition want_type :: "query_type \<Rightarrow> int" where
  "want_type q = (case q of QueryA \<Rightarrow> 1 | QueryAAAA \<Rightarrow> 28)"

definition lower_ttl :: "int \<Rightarrow> int \<Rightarrow> int" where
  "lower_ttl ttl minimum = (if 0 < ttl \<and> (minimum = 0 \<or> ttl < minimum) then ttl else minimum)"

fun collect_answers ::
    "int \<Rightarrow> doh_answer list \<Rightarrow> 128 word list \<Rightarrow> int \<Rightarrow> 128 word list \<times> int" where
  "collect_answers want [] addresses minimum = (addresses, minimum)"
| "collect_answers want (answer # rest) addresses minimum =
     (if an_Type answer \<noteq> want then collect_answers want rest addresses minimum
      else (case ParseIP (TrimSpace (an_Data answer)) of
        None \<Rightarrow> collect_answers want rest addresses minimum
      | Some address \<Rightarrow>
          collect_answers want rest (addresses @ [address]) (lower_ttl (an_TTL answer) minimum)))"

definition lookupType ::
    "fetch \<Rightarrow> (bytes \<Rightarrow> doh_json option) \<Rightarrow> string \<Rightarrow> query_type \<Rightarrow> doh_error + 128 word list \<times> int" where
  "lookupType fetch decode host q =
     (case fetch host q of
        None \<Rightarrow> Inl DoHUnavailable
      | Some (status, body, broken) \<Rightarrow>
          if status \<noteq> 200 then Inl (DoHStatus status)
          else
            (let raw = take (maxDoHResponseBytes + 1) body;
                 err = (broken \<and> length body < maxDoHResponseBytes + 1) in
             if err \<or> maxDoHResponseBytes < length raw then Inl DoHInvalid
             else (case decode raw of
               None \<Rightarrow> Inl DoHInvalid
             | Some decoded \<Rightarrow>
                 if dj_Status decoded \<noteq> 0 then Inl DoHInvalid
                 else (case collect_answers (want_type q) (dj_Answer decoded) [] 0 of
                   ([], _) \<Rightarrow> Inl (DoHNoRecords q)
                 | (addresses, ttl) \<Rightarrow> Inr (addresses, ttl)))))"

section \<open>The cache\<close>

record cache_entry =
  ce_addresses :: "128 word list"
  ce_expires :: go_time

text \<open>
  The map as an association list of distinct hosts; a \<^verbatim>\<open>range\<close> over it visits the entries in the
  order \<open>visit\<close> gives, any permutation of them.
\<close>

type_synonym doh_cache = "(string \<times> cache_entry) list"

definition drop_expired :: "go_time \<Rightarrow> doh_cache \<Rightarrow> doh_cache" where
  "drop_expired now cache = filter (\<lambda>(_, entry). now < ce_expires entry) cache"

definition older :: "string \<times> go_time \<Rightarrow> string \<times> cache_entry \<Rightarrow> string \<times> go_time" where
  "older best e =
     (if fst best = [] \<or> ce_expires (snd e) < snd best then (fst e, ce_expires (snd e)) else best)"

definition oldest_host :: "(doh_cache \<Rightarrow> doh_cache) \<Rightarrow> doh_cache \<Rightarrow> string" where
  "oldest_host visit cache = fst (foldl older ([], 0) (visit cache))"

definition drop_oldest :: "(doh_cache \<Rightarrow> doh_cache) \<Rightarrow> doh_cache \<Rightarrow> doh_cache" where
  "drop_oldest visit cache =
     (if maxDoHCacheEntries \<le> length cache then AList.delete (oldest_host visit cache) cache else cache)"

definition cache_ttl :: "int \<Rightarrow> int" where
  "cache_ttl minimum =
     (let m = (if minimum \<le> 0 then 30 else minimum) in if 300 < m then 300 else m)"

definition store ::
    "(doh_cache \<Rightarrow> doh_cache) \<Rightarrow> go_time \<Rightarrow> string \<Rightarrow> 128 word list \<Rightarrow> int \<Rightarrow> doh_cache \<Rightarrow> doh_cache" where
  "store visit now host addresses minimum cache =
     AList.update host
       \<lparr>ce_addresses = addresses, ce_expires = now + cache_ttl minimum * Second\<rparr>
       (drop_oldest visit (drop_expired now cache))"

text \<open>The two queries, in order: what was found, the least lifetime and the last error.\<close>

definition both_types ::
    "fetch \<Rightarrow> (bytes \<Rightarrow> doh_json option) \<Rightarrow> string \<Rightarrow> 128 word list \<times> int \<times> doh_error option" where
  "both_types fetch decode host =
     fold (\<lambda>q (addresses, minimum, err).
        case lookupType fetch decode host q of
          Inl e \<Rightarrow> (addresses, minimum, Some e)
        | Inr (found, ttl) \<Rightarrow> (addresses @ found, lower_ttl ttl minimum, err))
       [QueryA, QueryAAAA] ([], 0, None)"

definition lookup_key :: "externals \<Rightarrow> string \<Rightarrow> string" where
  "lookup_key ext host = ToLower (ext_lower ext) (TrimSuffix (TrimSpace host) ''.'')"

definition ask_network ::
    "(doh_cache \<Rightarrow> doh_cache) \<Rightarrow> fetch \<Rightarrow> (bytes \<Rightarrow> doh_json option) \<Rightarrow> go_time \<Rightarrow> string
     \<Rightarrow> doh_cache \<Rightarrow> (doh_error + 128 word list) \<times> doh_cache" where
  "ask_network visit fetch decode now host cache =
     (case both_types fetch decode host of
        ([], _, None) \<Rightarrow> (Inl DoHNoAddresses, cache)
      | ([], _, Some e) \<Rightarrow> (Inl e, cache)
      | (addresses, minimum, _) \<Rightarrow> (Inr addresses, store visit now host addresses minimum cache))"

text \<open>
  \<open>during\<close> is what other lookups made of the cache while this one was asking the network; the
  mutex is not held then.
\<close>

definition LookupIP ::
    "externals \<Rightarrow> (doh_cache \<Rightarrow> doh_cache) \<Rightarrow> fetch \<Rightarrow> (bytes \<Rightarrow> doh_json option) \<Rightarrow> go_time
     \<Rightarrow> (doh_cache \<Rightarrow> doh_cache) \<Rightarrow> string \<Rightarrow> doh_cache \<Rightarrow> (doh_error + 128 word list) \<times> doh_cache" where
  "LookupIP ext visit fetch decode now during h cache =
     (let host = lookup_key ext h in
      case map_of cache host of
        Some entry \<Rightarrow>
          if now < ce_expires entry then (Inr (ce_addresses entry), cache)
          else ask_network visit fetch decode now host (during cache)
      | None \<Rightarrow> ask_network visit fetch decode now host (during cache))"

section \<open>The invariant\<close>

text \<open>
  Hosts are distinct, there are at most 1024, and no entry outlives five minutes from the latest
  time \<open>t\<close> at which something was stored.
\<close>

definition wf_cache :: "go_time \<Rightarrow> doh_cache \<Rightarrow> bool" where
  "wf_cache t cache \<longleftrightarrow>
     distinct (map fst cache) \<and> length cache \<le> maxDoHCacheEntries
     \<and> (\<forall>(host, entry) \<in> set cache. ce_addresses entry \<noteq> [] \<and> ce_expires entry \<le> t + 300 * Second)"

lemma cache_ttl_bounds: "1 \<le> cache_ttl minimum" "cache_ttl minimum \<le> 300"
  by (auto simp: cache_ttl_def Let_def)

lemma older_in:
  "foldl older best es = best \<or> (\<exists>e \<in> set es. foldl older best es = (fst e, ce_expires (snd e)))"
proof (induction es arbitrary: best)
  case (Cons e es)
  from Cons [of "older best e"] show ?case
    by (auto simp: older_def split: if_splits)
qed simp

lemma older_not_start:
  assumes "es \<noteq> []"
  shows "fst (foldl older ([], 0) es) \<in> fst ` set es"
proof -
  obtain e es' where e: "es = e # es'" using assms(1) by (cases es) auto
  have "older ([], 0) e = (fst e, ce_expires (snd e))" by (simp add: older_def)
  then have "foldl older ([], 0) es = foldl older (fst e, ce_expires (snd e)) es'"
    by (simp only: e foldl_Cons)
  with older_in [of "(fst e, ce_expires (snd e))" es'] show ?thesis
    unfolding e by (metis fst_conv image_eqI list.set_intros)
qed

lemma delete_length:
  assumes "k \<in> fst ` set cache"
  shows "length (AList.delete k cache) < length cache"
  using assms by (auto simp: AList.delete_eq intro!: length_filter_less)

lemma drop_oldest_length:
  assumes "\<And>c. set (visit c) = set c" "length cache \<le> maxDoHCacheEntries"
  shows "length (drop_oldest visit cache) < maxDoHCacheEntries"
proof (cases "maxDoHCacheEntries \<le> length cache")
  case True
  then have "visit cache \<noteq> []"
    using assms(1) [of cache] by (auto simp: maxDoHCacheEntries_def)
  then have "oldest_host visit cache \<in> fst ` set cache"
    using older_not_start [of "visit cache"] assms(1) [of cache] by (simp add: oldest_host_def)
  from delete_length [OF this] True assms(2) show ?thesis by (simp add: drop_oldest_def)
qed (simp add: drop_oldest_def)

lemma update_length:
  "length (AList.update k v cache) \<le> Suc (length cache)"
  by (induction cache) auto

lemma in_set_update: "(h, e) \<in> set (AList.update k v cache) \<Longrightarrow> (h, e) \<in> set cache \<or> e = v"
  by (induction cache) (auto split: if_splits)

lemma set_drop_oldest: "set (drop_oldest visit cache) \<subseteq> set cache"
  by (auto simp: drop_oldest_def AList.delete_eq)

lemma wf_store:
  assumes "wf_cache t cache" "\<And>c. set (visit c) = set c" "addresses \<noteq> []"
  shows "wf_cache (max t now) (store visit now host addresses minimum cache)"
proof -
  let ?c = "drop_oldest visit (drop_expired now cache)"
  have sub: "set ?c \<subseteq> set cache" using set_drop_oldest by (fastforce simp: drop_expired_def)
  have "length (drop_expired now cache) \<le> maxDoHCacheEntries"
    using assms(1) by (auto simp: wf_cache_def drop_expired_def intro: le_trans [OF length_filter_le])
  then have "length ?c < maxDoHCacheEntries" using drop_oldest_length assms(2) by blast
  then have len: "length (store visit now host addresses minimum cache) \<le> maxDoHCacheEntries"
    using update_length [of host "\<lparr>ce_addresses = addresses, ce_expires = now + cache_ttl minimum * Second\<rparr>" ?c]
    unfolding store_def by linarith
  have "distinct (map fst (drop_expired now cache))"
    using assms(1) by (simp add: wf_cache_def drop_expired_def distinct_map_filter)
  then have dist: "distinct (map fst (store visit now host addresses minimum cache))"
    unfolding store_def by (intro distinct_update) (simp add: drop_oldest_def distinct_delete)
  have "ce_addresses e \<noteq> [] \<and> ce_expires e \<le> max t now + 300 * Second"
    if "(h, e) \<in> set (store visit now host addresses minimum cache)" for h e
  proof -
    from that have "(h, e) \<in> set ?c \<or> e = \<lparr>ce_addresses = addresses, ce_expires = now + cache_ttl minimum * Second\<rparr>"
      unfolding store_def by (auto dest: in_set_update)
    then show ?thesis
    proof
      assume "(h, e) \<in> set ?c"
      then have "ce_addresses e \<noteq> [] \<and> ce_expires e \<le> t + 300 * Second"
        using sub assms(1) by (auto simp: wf_cache_def)
      then show ?thesis by linarith
    next
      assume "e = \<lparr>ce_addresses = addresses, ce_expires = now + cache_ttl minimum * Second\<rparr>"
      then show ?thesis using assms(3) cache_ttl_bounds(2) [of minimum] by (simp add: Second_def)
    qed
  qed
  with len dist show ?thesis by (auto simp: wf_cache_def)
qed

section \<open>Reachable caches\<close>

text \<open>
  The caches of a resolver that many requests use at once: \<open>cache\<close> is what a look-up reads first
  and \<open>cache'\<close> what it finds when it takes the mutex again. The time is the latest start of a
  look-up.
\<close>

inductive doh_reaches ::
    "externals \<Rightarrow> (doh_cache \<Rightarrow> doh_cache) \<Rightarrow> (bytes \<Rightarrow> doh_json option) \<Rightarrow> go_time \<Rightarrow> doh_cache \<Rightarrow> bool"
  for ext visit decode where
  empty_cache: "doh_reaches ext visit decode 0 []"
| looked_up: "doh_reaches ext visit decode t cache \<Longrightarrow> doh_reaches ext visit decode t' cache' \<Longrightarrow>
    LookupIP ext visit fetch decode now (\<lambda>_. cache') host cache = (r, cache'') \<Longrightarrow>
    doh_reaches ext visit decode (max (max t t') now) cache''"

lemma wf_cache_later: "wf_cache t cache \<Longrightarrow> t \<le> t' \<Longrightarrow> wf_cache t' cache"
  by (fastforce simp: wf_cache_def)

lemma ask_network_cases:
  assumes "ask_network visit fetch decode now host cache = (r, cache')"
  obtains (failed) e where "r = Inl e" "cache' = cache"
  | (found) addresses minimum e where "both_types fetch decode host = (addresses, minimum, e)"
      "addresses \<noteq> []" "r = Inr addresses" "cache' = store visit now host addresses minimum cache"
  using assms unfolding ask_network_def
  by (cases "both_types fetch decode host"; cases "fst (both_types fetch decode host)";
      cases "snd (snd (both_types fetch decode host))") auto

lemma LookupIP_cases:
  assumes "LookupIP ext visit fetch decode now during h cache = (r, cache')"
  obtains (hit) entry where "map_of cache (lookup_key ext h) = Some entry" "now < ce_expires entry"
      "r = Inr (ce_addresses entry)" "cache' = cache"
  | (miss) "ask_network visit fetch decode now (lookup_key ext h) (during cache) = (r, cache')"
proof (cases "\<exists>entry. map_of cache (lookup_key ext h) = Some entry \<and> now < ce_expires entry")
  case True
  then obtain entry where "map_of cache (lookup_key ext h) = Some entry" "now < ce_expires entry" by blast
  with assms show thesis by (intro hit) (auto simp: LookupIP_def Let_def)
next
  case False
  with assms have "ask_network visit fetch decode now (lookup_key ext h) (during cache) = (r, cache')"
    unfolding LookupIP_def Let_def by (cases "map_of cache (lookup_key ext h)") auto
  then show thesis by (rule miss)
qed

lemma doh_reaches_wf:
  assumes "doh_reaches ext visit decode t cache" "\<And>c. set (visit c) = set c"
  shows "wf_cache t cache"
  using assms(1)
proof induction
  case empty_cache
  show ?case by (simp add: wf_cache_def)
next
  case (looked_up t cache t' cache' fetch now host r cache'')
  from looked_up(3) show ?case
  proof (cases rule: LookupIP_cases)
    case hit
    with looked_up show ?thesis by (auto intro: wf_cache_later)
  next
    case miss
    then show ?thesis
    proof (cases rule: ask_network_cases)
      case failed
      with looked_up show ?thesis by (auto intro: wf_cache_later)
    next
      case (found addresses minimum e)
      have "wf_cache (max t' now) cache''"
        unfolding found(4) by (rule wf_store [OF looked_up(5) assms(2) found(2)])
      then show ?thesis by (rule wf_cache_later) simp
    qed
  qed
qed

end
