(* ===== verification/NetProperties.thy ===== *)
theory NetProperties
  imports Samples DnsOverHttps
begin

text \<open>
  The properties of the destination policy: which addresses are blocked, and that the gateway
  only dials addresses that the policy lets through.
\<close>

section \<open>Blocked addresses\<close>

text \<open>The IPv4 ranges that are not public, first and last address.\<close>

definition non_public_ranges :: "(nat \<times> nat) list" where
  "non_public_ranges =
     [(0x00000000, 0x00FFFFFF), (0x0A000000, 0x0AFFFFFF), (0x64400000, 0x647FFFFF),
      (0x7F000000, 0x7FFFFFFF), (0xA9FE0000, 0xA9FEFFFF), (0xAC100000, 0xAC1FFFFF),
      (0xC0000000, 0xC00000FF), (0xC0000200, 0xC00002FF), (0xC0586300, 0xC05863FF),
      (0xC0A80000, 0xC0A8FFFF), (0xC6120000, 0xC613FFFF), (0xC6336400, 0xC63364FF),
      (0xCB007100, 0xCB0071FF), (0xE0000000, 0xFFFFFFFF)]"

lemma Unmap_mapped: "Unmap (Addr6 (As16 (Addr4 a)) []) = Addr4 a"
proof -
  have high: "bit (281470681743360 :: 128 word) n \<longleftrightarrow> 32 \<le> n \<and> n < 48" for n
  proof -
    have "(281470681743360 :: 128 word) = push_bit 32 (mask 16)"
      by (simp add: mask_eq_exp_minus_1 push_bit_eq_mult)
    then show ?thesis
      by (simp only: bit_push_bit_iff bit_mask_iff) auto
  qed
  have low: "bit (65535 :: 128 word) n \<longleftrightarrow> n < 16" for n
  proof -
    have "(65535 :: 128 word) = mask 16" by (simp add: mask_eq_exp_minus_1)
    then show ?thesis by (simp only: bit_mask_iff) auto
  qed
  have "bit (drop_bit 32 (As16 (Addr4 a))) n \<longleftrightarrow> bit (65535 :: 128 word) n" for n
    using bit_imp_le_length [of a "32 + n"]
    by (simp add: As16_def bit_simps high low) auto
  then have "drop_bit 32 (As16 (Addr4 a)) = 0xFFFF" by (rule bit_eqI)
  moreover have "ucast (As16 (Addr4 a)) = a"
  proof (rule bit_word_eqI)
    fix n assume "n < LENGTH(32)"
    then have "bit (push_bit 32 0xFFFF OR ucast a :: 128 word) n \<longleftrightarrow> bit a n"
      unfolding bit_or_iff bit_push_bit_iff by (simp add: bit_simps)
    with \<open>n < LENGTH(32)\<close> show "bit (ucast (As16 (Addr4 a)) :: 32 word) n \<longleftrightarrow> bit a n"
      unfolding As16_def netip_addr.case by (simp only: bit_ucast_iff) simp
  qed
  ultimately show ?thesis by (simp add: Unmap_def)
qed

lemma quotient_interval:
  fixes x :: nat
  assumes "0 < c" "low = k * c" "Suc high = low + c"
  shows "x div c = k \<longleftrightarrow> low \<le> x \<and> x \<le> high"
proof
  assume "x div c = k"
  then have "x = k * c + x mod c" using div_mult_mod_eq [of x c] by simp
  moreover have "x mod c < c" using assms(1) by simp
  ultimately show "low \<le> x \<and> x \<le> high" using assms(2,3) by linarith
next
  assume "low \<le> x \<and> x \<le> high"
  with assms show "x div c = k" by (intro div_nat_eqI) (auto simp: mult.commute)
qed

lemma prefix_intervals:
  fixes x :: nat
  shows "x div 16777216 = 0 \<longleftrightarrow> 0x00000000 \<le> x \<and> x \<le> 0x00FFFFFF"
    "x div 16777216 = 10 \<longleftrightarrow> 0x0A000000 \<le> x \<and> x \<le> 0x0AFFFFFF"
    "x div 4194304 = 401 \<longleftrightarrow> 0x64400000 \<le> x \<and> x \<le> 0x647FFFFF"
    "x div 16777216 = 127 \<longleftrightarrow> 0x7F000000 \<le> x \<and> x \<le> 0x7FFFFFFF"
    "x div 65536 = 43518 \<longleftrightarrow> 0xA9FE0000 \<le> x \<and> x \<le> 0xA9FEFFFF"
    "x div 1048576 = 2753 \<longleftrightarrow> 0xAC100000 \<le> x \<and> x \<le> 0xAC1FFFFF"
    "x div 256 = 12582912 \<longleftrightarrow> 0xC0000000 \<le> x \<and> x \<le> 0xC00000FF"
    "x div 256 = 12582914 \<longleftrightarrow> 0xC0000200 \<le> x \<and> x \<le> 0xC00002FF"
    "x div 256 = 12605539 \<longleftrightarrow> 0xC0586300 \<le> x \<and> x \<le> 0xC05863FF"
    "x div 65536 = 49320 \<longleftrightarrow> 0xC0A80000 \<le> x \<and> x \<le> 0xC0A8FFFF"
    "x div 131072 = 25353 \<longleftrightarrow> 0xC6120000 \<le> x \<and> x \<le> 0xC613FFFF"
    "x div 256 = 12989284 \<longleftrightarrow> 0xC6336400 \<le> x \<and> x \<le> 0xC63364FF"
    "x div 256 = 13303921 \<longleftrightarrow> 0xCB007100 \<le> x \<and> x \<le> 0xCB0071FF"
    "x div 268435456 = 14 \<longleftrightarrow> 0xE0000000 \<le> x \<and> x \<le> 0xEFFFFFFF"
    "x div 268435456 = 15 \<longleftrightarrow> 0xF0000000 \<le> x \<and> x \<le> 0xFFFFFFFF"
  by (rule quotient_interval; simp)+

lemma public_quotients:
  assumes "x < (4294967296 :: nat)"
  shows "(x = 0 \<or> x = 4294967295 \<or> x div 16777216 = 127 \<or> x div 268435456 = 14 \<or> x div 65536 = 43518
    \<or> x div 16777216 = 0 \<or> x div 16777216 = 10 \<or> x div 4194304 = 401 \<or> x div 1048576 = 2753
    \<or> x div 256 = 12582912 \<or> x div 256 = 12582914 \<or> x div 256 = 12605539 \<or> x div 65536 = 49320
    \<or> x div 131072 = 25353 \<or> x div 256 = 12989284 \<or> x div 256 = 13303921 \<or> x div 268435456 = 15)
    \<longleftrightarrow> list_ex (\<lambda>(low, high). low \<le> x \<and> x \<le> high) non_public_ranges"
    (is "?quotients \<longleftrightarrow> ?ranges")
proof
  assume ?quotients
  then show ?ranges
    unfolding prefix_intervals by (elim disjE) (simp_all add: non_public_ranges_def)
next
  assume ?ranges
  then obtain low high where "(low, high) \<in> set non_public_ranges" "low \<le> x" "x \<le> high"
    by (auto simp: list_ex_iff)
  with assms show ?quotients
    unfolding prefix_intervals non_public_ranges_def list.set insert_iff prod.inject
    by (elim disjE conjE emptyE) (simp_all, linarith)
qed

lemma blocked4:
  "blockedIP (As16 (Addr4 a)) \<longleftrightarrow>
     \<not> IsGlobalUnicast (Addr4 a) \<or> list_ex (\<lambda>p. prefix_contains p (Addr4 a)) blockedDestinationPrefixes"
  by (simp add: blockedIP_def Unmap_mapped Let_def)

text \<open>
  An IPv4 address, which \<^verbatim>\<open>net.IP\<close> carries mapped into IPv6, is blocked exactly if it lies in
  one of the fourteen ranges set aside for special purposes: this network, private use, shared
  address space, loopback, link local, documentation, benchmarking, relay anycast, multicast and
  everything above.
\<close>

theorem blocked_ipv4_ranges:
  "blockedIP (As16 (Addr4 a)) \<longleftrightarrow> list_ex (\<lambda>(low, high). low \<le> unat a \<and> unat a \<le> high) non_public_ranges"
proof -
  have "unat a < 4294967296" using unsigned_less [of a] by simp
  from public_quotients [OF this] show ?thesis
    unfolding blocked4 blockedDestinationPrefixes_def parsedPrefixes_eq
    by (simp add: IsGlobalUnicast_def prefix_contains_def word_unat_eq_iff unat_drop_bit_eq
        drop_bit_eq_div [of _ "unat a"]) blast
qed

section \<open>The gateway\<close>

text \<open>A target that the policy lets through: a public address and the one port.\<close>

definition public_target :: "int \<Rightarrow> string \<Rightarrow> bool" where
  "public_target port target \<longleftrightarrow>
     (\<exists>address p. target = JoinHostPort (ip_String address) p
        \<and> \<not> IsBlockedIP address \<and> Atoi p = Some port)"

lemma public_targetI:
  assumes "\<not> IsBlockedIP address" "validatePort p secure = None"
  shows "public_target (if secure then 443 else 80) (JoinHostPort (ip_String address) p)"
  using assms by (auto simp: public_target_def validatePort_def split: option.splits if_splits)

lemma serveConnect_watched:
  "\<exists>targets. serveConnect ext (watched env) r (w, [])
       = (fst (serveConnect ext env r w), (snd (serveConnect ext env r w), targets))
     \<and> length targets \<le> 8 \<and> list_all (public_target 443) targets"
proof (cases "SplitHostPort (gr_Host r)")
  case None
  then show ?thesis by (simp add: serveConnect_def)
next
  case (Some hp)
  obtain host port where hp: "hp = (host, port)" by fastforce
  show ?thesis
  proof (cases "validatePort port True = None \<and> (\<exists>addresses. resolvePublic ext (ge_lookup env) host = Inr addresses)")
    case True
    then obtain addresses where port: "validatePort port True = None"
      and res: "resolvePublic ext (ge_lookup env) host = Inr addresses" by blast
    from watched_openTunnel [of addresses env port w "[]"] obtain n where
      n: "n \<le> maxTunnelDialAddresses" "openTunnel (dial_address (watched env) port) addresses (w, [])
       = (fst (openTunnel (dial_address env port) addresses w),
          (snd (openTunnel (dial_address env port) addresses w), map (dial_target port) (take n addresses)))"
      by auto
    have "list_all (public_target 443) (map (dial_target port) (take n addresses))"
      using public_targetI [OF resolvePublic_public(2) [OF res] port] set_take_subset [of n addresses]
      by (auto simp: list_all_iff dial_target_def)
    moreover have "length (map (dial_target port) (take n addresses)) \<le> 8"
      using n(1) by (simp add: maxTunnelDialAddresses_def)
    moreover have "serveConnect ext (watched env) r (w, [])
       = (fst (serveConnect ext env r w), (snd (serveConnect ext env r w), map (dial_target port) (take n addresses)))"
      using Some hp port res n(2)
      by (simp add: serveConnect_def watched_simps split: prod.split sum.split)
    ultimately show ?thesis by (intro exI conjI)
  next
    case False
    then show ?thesis
      using Some hp
      by (auto simp: serveConnect_def watched_simps split: option.split sum.split)
  qed
qed

lemma servePlain_watched:
  "\<exists>targets. servePlain ext (watched env) r u (w, [])
       = (fst (servePlain ext env r u w), (snd (servePlain ext env r u w), targets))
     \<and> length targets \<le> 1 \<and> list_all (public_target 80) targets"
proof -
  define port where "port = (if url_Port u = [] then ''80'' else url_Port u)"
  show ?thesis
  proof (cases "validatePort port False = None \<and> (\<exists>addresses. resolvePublic ext (ge_lookup env) (url_Hostname u) = Inr addresses)")
    case True
    then obtain addresses where port: "validatePort port False = None"
      and res: "resolvePublic ext (ge_lookup env) (url_Hostname u) = Inr addresses" by blast
    from resolvePublic_public [OF res] have "\<not> IsBlockedIP (addresses ! 0)" by simp
    from public_targetI [OF this port]
    have "public_target 80 (out_URLHost (outbound_request r u (addresses ! 0) port))"
      by (simp add: outbound_request_def)
    then show ?thesis
      using port res
      by (auto simp: servePlain_def watched_simps port_def [symmetric] Let_def split: prod.split option.split)
  next
    case False
    then show ?thesis
      by (auto simp: servePlain_def watched_simps port_def [symmetric] Let_def split: option.split sum.split)
  qed
qed

lemma ServeHTTP_watched:
  "\<exists>targets. ServeHTTP ext (watched env) r (w, [])
       = (fst (ServeHTTP ext env r w), (snd (ServeHTTP ext env r w), targets))
     \<and> length targets \<le> 8 \<and> list_all (public_target (if gr_Method r = ''CONNECT'' then 443 else 80)) targets"
proof -
  have "\<exists>targets. servePlain ext (watched env) r u (w, [])
       = (fst (servePlain ext env r u w), (snd (servePlain ext env r u w), targets))
     \<and> length targets \<le> 8 \<and> list_all (public_target 80) targets" for u
    using servePlain_watched [of ext env r u w] by force
  with serveConnect_watched [of ext env r w] show ?thesis
    by (auto simp: ServeHTTP_def split: option.split)
qed

text \<open>
  C4. Whatever a proxy request asks for, whatever the name lookup answers and however the network
  behaves, the handler hands at most eight targets to its dialer and its transport, each of them
  written with an address that is not blocked, on port 443 for a tunnel and on port 80 otherwise.
  The targets are those an environment sees that writes them down, and writing them down changes
  neither the reply nor the network. Without an upstream proxy they are the peers of the TCP
  connections; behind one they are what the proxy is asked to reach.
\<close>

theorem gateway_reaches_the_public_web_only:
  "length (snd (snd (ServeHTTP ext (watched env) r (w, [])))) \<le> 8
   \<and> list_all (public_target (if gr_Method r = ''CONNECT'' then 443 else 80))
       (snd (snd (ServeHTTP ext (watched env) r (w, []))))
   \<and> fst (ServeHTTP ext (watched env) r (w, [])) = fst (ServeHTTP ext env r w)
   \<and> fst (snd (ServeHTTP ext (watched env) r (w, []))) = snd (ServeHTTP ext env r w)"
  using ServeHTTP_watched [of ext env r w] by fastforce

lemma serveConnect_tunnel:
  assumes "serveConnect ext env r w = (Tunnelled c, w')"
  shows "\<exists>host port addresses. SplitHostPort (gr_Host r) = Some (host, port)
    \<and> resolvePublic ext (ge_lookup env) host = Inr addresses
    \<and> openTunnel (dial_address env port) addresses w = (Inr c, w')"
  using assms
  by (auto simp: serveConnect_def split: option.splits prod.splits sum.splits hijack.splits)

text \<open>
  C27. A tunnel leads to the first address that can be reached among the first eight that the
  lookup of the requested host returned, all of which are public: every address before it failed,
  those and the one reached were dialled in this order, and nothing else was. Whether an attempt
  succeeds depends on its target; what it does to the network is left open.
\<close>

theorem tunnels_lead_to_the_first_reachable_address:
  assumes "ServeHTTP ext env r w = (Tunnelled c, w')"
    and "\<And>target w. fst (ge_dial env target w) = dial target"
  shows "\<exists>host port addresses. SplitHostPort (gr_Host r) = Some (host, port)
    \<and> resolvePublic ext (ge_lookup env) host = Inr addresses
    \<and> list_all (\<lambda>b. \<not> IsBlockedIP b) addresses
    \<and> (\<exists>n < 8. n < length addresses
        \<and> dial (JoinHostPort (ip_String (addresses ! n)) port) = Inr c
        \<and> list_all (\<lambda>b. isl (dial (JoinHostPort (ip_String b) port))) (take n addresses)
        \<and> w' = dial_all env (map (\<lambda>b. JoinHostPort (ip_String b) port) (take (Suc n) addresses)) w)"
proof -
  have "serveConnect ext env r w = (Tunnelled c, w')"
    using assms(1) by (auto simp: ServeHTTP_def servePlain_def Let_def split: if_splits option.splits sum.splits prod.splits)
  from serveConnect_tunnel [OF this] obtain host port addresses where
    split: "SplitHostPort (gr_Host r) = Some (host, port)"
    and res: "resolvePublic ext (ge_lookup env) host = Inr addresses"
    and tunnel: "openTunnel (dial_address env port) addresses w = (Inr c, w')" by blast
  have "list_all (\<lambda>b. \<not> IsBlockedIP b) addresses"
    using resolvePublic_public(2) [OF res] by (auto simp: list_all_iff)
  moreover have "dial_target port = (\<lambda>b. JoinHostPort (ip_String b) port)"
    by (simp add: fun_eq_iff dial_target_def)
  ultimately show ?thesis
    using split res openTunnel_connected [OF tunnel assms(2)] by simp
qed

definition sample_dial :: "string \<Rightarrow> unit + nat" where
  "sample_dial target = (if target = ''8.8.4.4:443'' then Inr 7 else Inl ())"

text \<open>A network that is the list of the targets contacted.\<close>

definition sample_gateway :: "(string list, unit, nat, nat) gateway_env" where
  "sample_gateway =
     \<lparr>ge_lookup = (\<lambda>h. Some [0xFFFF08080808, 0xFFFF08080404]),
      ge_dial = (\<lambda>target seen. (sample_dial target, seen @ [target])),
      ge_roundtrip = (\<lambda>out seen. (Some (200, [''Connection'' \<mapsto> [''close''], ''Server'' \<mapsto> [''x'']]), seen @ [out_URLHost out])),
      ge_hijack = Hijacked\<rparr>"

lemma sample_gateway_simps:
  "ge_dial sample_gateway target seen = (sample_dial target, seen @ [target])"
  "ge_roundtrip sample_gateway out seen
     = (Some (200, [''Connection'' \<mapsto> [''close''], ''Server'' \<mapsto> [''x'']]), seen @ [out_URLHost out])"
  "ge_hijack sample_gateway = Hijacked"
  by (simp_all add: sample_gateway_def)

definition sample_connect :: gateway_request where
  "sample_connect =
     \<lparr>gr_Method = ''CONNECT'', gr_URL = None, gr_Host = ''example.com:443'', gr_Header = Map.empty\<rparr>"

lemma sample_targets:
  "JoinHostPort (ip_String 0xFFFF08080808) ''443'' = ''8.8.8.8:443''"
  "JoinHostPort (ip_String 0xFFFF08080404) ''443'' = ''8.8.4.4:443''"
  "SplitHostPort ''example.com:443'' = Some (''example.com'', ''443'')"
proof -
  have "ip_String 0xFFFF08080808 = ''8.8.8.8''" "ip_String 0xFFFF08080404 = ''8.8.4.4''"
    by (simp_all only: ip_String_def) code_simp+
  moreover have "JoinHostPort ''8.8.8.8'' ''443'' = ''8.8.8.8:443''" "JoinHostPort ''8.8.4.4'' ''443'' = ''8.8.4.4:443''"
    by code_simp+
  ultimately show "JoinHostPort (ip_String 0xFFFF08080808) ''443'' = ''8.8.8.8:443''"
    "JoinHostPort (ip_String 0xFFFF08080404) ''443'' = ''8.8.4.4:443''"
    by simp_all
  show "SplitHostPort ''example.com:443'' = Some (''example.com'', ''443'')" by code_simp
qed

lemma sample_resolved:
  "resolvePublic ascii_externals (ge_lookup sample_gateway) ''example.com'' = Inr [0xFFFF08080808, 0xFFFF08080404]"
  by code_simp

lemma sample_ports: "validatePort ''443'' True = None" "validatePort ''80'' False = None"
  by code_simp+

lemma sample_tunnel:
  "ServeHTTP ascii_externals sample_gateway sample_connect [] = (Tunnelled 7, [''8.8.8.8:443'', ''8.8.4.4:443''])"
  by (simp add: ServeHTTP_def isDirectHealthRequest_def sample_connect_def serveConnect_def sample_targets
      sample_ports sample_resolved openTunnel_def maxTunnelDialAddresses_def dial_address_def dial_target_def
      sample_gateway_simps sample_dial_def)

lemma tunnels_lead_to_the_first_reachable_address_witness:
  "\<exists>host port addresses. SplitHostPort (gr_Host sample_connect) = Some (host, port)
    \<and> resolvePublic ascii_externals (ge_lookup sample_gateway) host = Inr addresses
    \<and> list_all (\<lambda>b. \<not> IsBlockedIP b) addresses
    \<and> (\<exists>n < 8. n < length addresses
        \<and> sample_dial (JoinHostPort (ip_String (addresses ! n)) port) = Inr 7
        \<and> list_all (\<lambda>b. isl (sample_dial (JoinHostPort (ip_String b) port))) (take n addresses)
        \<and> [''8.8.8.8:443'', ''8.8.4.4:443'']
          = dial_all sample_gateway (map (\<lambda>b. JoinHostPort (ip_String b) port) (take (Suc n) addresses)) [])"
  by (rule tunnels_lead_to_the_first_reachable_address [OF sample_tunnel]) (simp add: sample_gateway_simps)

text \<open>
  A plain request is sent on pinned to the first address its host resolved to, which is
  public, under the authority it was asked for, and neither it nor the answer carries a header
  that concerns a single connection.
\<close>

theorem plain_requests_are_pinned:
  assumes "ServeHTTP ext env r w = (Forwarded out response h, w')"
  shows "\<exists>u addresses. gr_URL r = Some u \<and> url_Scheme u = ''http''
    \<and> resolvePublic ext (ge_lookup env) (url_Hostname u) = Inr addresses \<and> \<not> IsBlockedIP (addresses ! 0)
    \<and> out_Host out = url_Host u
    \<and> out_URLHost out = JoinHostPort (ip_String (addresses ! 0)) (if url_Port u = [] then ''80'' else url_Port u)
    \<and> list_all (\<lambda>name. out_Header out name = None \<and> h name = None) hop_headers"
proof -
  from assms obtain u where u: "gr_URL r = Some u" "url_Scheme u = ''http''"
    and plain: "servePlain ext env r u w = (Forwarded out response h, w')"
    by (auto simp: ServeHTTP_def serveConnect_def
        split: if_splits option.splits prod.splits sum.splits hijack.splits)
  from plain obtain addresses h' where
    res: "resolvePublic ext (ge_lookup env) (url_Hostname u) = Inr addresses"
    and out: "out = outbound_request r u (addresses ! 0) (if url_Port u = [] then ''80'' else url_Port u)"
    and h: "h = copyHeaders Map.empty (removeHopHeaders h')"
    by (auto simp: servePlain_def Let_def split: option.splits sum.splits prod.splits)
  have "\<not> IsBlockedIP (addresses ! 0)" using resolvePublic_public [OF res] by simp
  with u res out h show ?thesis
    by (auto simp: outbound_request_def list_all_iff copyHeaders_def removeHopHeaders_eq)
qed

definition sample_url :: url where
  "sample_url = the (url_Parse ''http://example.com/x'')"

lemma sample_url:
  "url_Scheme sample_url = ''http''" "url_Host sample_url = ''example.com''" "\<not> url_User sample_url"
  "url_Port sample_url = []" "url_Hostname sample_url = ''example.com''"
  by code_simp+

definition sample_get :: gateway_request where
  "sample_get =
     \<lparr>gr_Method = ''GET'', gr_URL = Some sample_url, gr_Host = ''example.com'',
      gr_Header = [''Connection'' \<mapsto> [''close'']]\<rparr>"

lemma sample_forwarded:
  "\<exists>out h seen. ServeHTTP ascii_externals sample_gateway sample_get [] = (Forwarded out 200 h, seen)"
  by (simp add: ServeHTTP_def isDirectHealthRequest_def sample_get_def sample_url servePlain_def Let_def
      sample_ports sample_resolved sample_gateway_simps)

lemma plain_requests_are_pinned_witness:
  "\<exists>out h seen u addresses.
    ServeHTTP ascii_externals sample_gateway sample_get [] = (Forwarded out 200 h, seen)
    \<and> gr_URL sample_get = Some u
    \<and> resolvePublic ascii_externals (ge_lookup sample_gateway) (url_Hostname u) = Inr addresses
    \<and> \<not> IsBlockedIP (addresses ! 0) \<and> out_Host out = url_Host u
    \<and> list_all (\<lambda>name. out_Header out name = None \<and> h name = None) hop_headers"
proof -
  from sample_forwarded obtain out h seen where
    f: "ServeHTTP ascii_externals sample_gateway sample_get [] = (Forwarded out 200 h, seen)"
    by (elim exE)
  from plain_requests_are_pinned [OF f] obtain u addresses where
    "gr_URL sample_get = Some u"
    "resolvePublic ascii_externals (ge_lookup sample_gateway) (url_Hostname u) = Inr addresses"
    "\<not> IsBlockedIP (addresses ! 0)" "out_Host out = url_Host u"
    "list_all (\<lambda>name. out_Header out name = None \<and> h name = None) hop_headers"
    by (elim exE conjE)
  with f show ?thesis by (intro exI conjI)
qed

section \<open>Secure DNS\<close>

text \<open>
  C28. The cache of the secure resolver stays bounded under any interleaving of look-ups: at most
  1024 hosts, each once, every entry with an address and none that outlives the latest look-up by
  more than five minutes, whatever lifetimes the remote resolver claims.
\<close>

theorem dns_cache_stays_bounded:
  assumes "doh_reaches ext visit decode t cache" "\<And>c. set (visit c) = set c"
  shows "distinct (map fst cache) \<and> length cache \<le> 1024
    \<and> list_all (\<lambda>(host, entry). ce_addresses entry \<noteq> [] \<and> ce_expires entry \<le> t + 300 * Second) cache"
  using doh_reaches_wf [OF assms] by (auto simp: wf_cache_def maxDoHCacheEntries_def list_all_iff)

definition sample_fetch :: fetch where
  "sample_fetch host q = (case q of QueryA \<Rightarrow> Some (200, ''x'', False) | QueryAAAA \<Rightarrow> None)"

definition sample_decode :: "bytes \<Rightarrow> doh_json option" where
  "sample_decode raw = Some \<lparr>dj_Status = 0, dj_Answer =
     [\<lparr>an_Type = 1, an_TTL = 100000, an_Data = ''8.8.8.8''\<rparr>, \<lparr>an_Type = 5, an_TTL = 1, an_Data = ''x''\<rparr>]\<rparr>"

definition sample_cache :: doh_cache where
  "sample_cache = [(''example.com'', \<lparr>ce_addresses = [0xFFFF08080808], ce_expires = Second + 300 * Second\<rparr>)]"

lemma sample_address: "ParseIP (TrimSpace ''8.8.8.8'') = Some 0xFFFF08080808"
  by code_simp

lemma sample_key: "lookup_key ascii_externals ''Example.com.'' = ''example.com''"
  by code_simp

lemma sample_queries:
  "lookupType sample_fetch sample_decode ''example.com'' QueryA = Inr ([0xFFFF08080808], 100000)"
  "lookupType sample_fetch sample_decode ''example.com'' QueryAAAA = Inl DoHUnavailable"
  by (simp_all add: lookupType_def sample_fetch_def sample_decode_def maxDoHResponseBytes_def
      want_type_def lower_ttl_def sample_address)

lemma sample_lookup:
  "LookupIP ascii_externals (\<lambda>c. c) sample_fetch sample_decode Second (\<lambda>_. []) ''Example.com.'' []
   = (Inr [0xFFFF08080808], sample_cache)"
  by (simp add: LookupIP_def sample_key ask_network_def both_types_def sample_queries lower_ttl_def
      store_def drop_expired_def drop_oldest_def maxDoHCacheEntries_def cache_ttl_def sample_cache_def)

lemma sample_reached: "doh_reaches ascii_externals (\<lambda>c. c) sample_decode Second sample_cache"
  using doh_reaches.looked_up [OF doh_reaches.empty_cache doh_reaches.empty_cache sample_lookup]
  by (simp add: Second_def)

lemma dns_cache_stays_bounded_witness:
  "list_all (\<lambda>(host, entry). ce_addresses entry \<noteq> [] \<and> ce_expires entry \<le> Second + 300 * Second) sample_cache"
  by (rule conjunct2 [OF conjunct2 [OF dns_cache_stays_bounded [OF sample_reached refl]]])

text \<open>
  A look-up that succeeds returns at least one address; it is either the entry of the same
  host that has not expired and was stored within the last five minutes before the latest
  look-up, or what the two queries found now.
\<close>

theorem dns_answers_are_fresh:
  assumes "doh_reaches ext visit decode t cache" "\<And>c. set (visit c) = set c"
    and "LookupIP ext visit fetch decode now during h cache = (Inr addresses, cache')"
  shows "addresses \<noteq> []
    \<and> ((\<exists>entry. map_of cache (lookup_key ext h) = Some entry \<and> addresses = ce_addresses entry
         \<and> now < ce_expires entry \<and> ce_expires entry \<le> t + 300 * Second \<and> cache' = cache)
       \<or> fst (both_types fetch decode (lookup_key ext h)) = addresses)"
  using assms(3)
proof (cases rule: LookupIP_cases)
  case (hit entry)
  from map_of_SomeD [OF hit(1)] doh_reaches_wf [OF assms(1,2)]
  have "ce_addresses entry \<noteq> [] \<and> ce_expires entry \<le> t + 300 * Second"
    by (auto simp: wf_cache_def)
  with hit show ?thesis by auto
next
  case miss
  then show ?thesis by (cases rule: ask_network_cases) auto
qed

lemma sample_hit:
  "LookupIP ascii_externals (\<lambda>c. c) (\<lambda>_ _. None) sample_decode (2 * Second) (\<lambda>c. c) ''EXAMPLE.COM'' sample_cache
   = (Inr [0xFFFF08080808], sample_cache)"
  by code_simp

lemma dns_answers_are_fresh_witness:
  "[0xFFFF08080808 :: 128 word] \<noteq> []
    \<and> ((\<exists>entry. map_of sample_cache (lookup_key ascii_externals ''EXAMPLE.COM'') = Some entry
         \<and> [0xFFFF08080808] = ce_addresses entry
         \<and> 2 * Second < ce_expires entry \<and> ce_expires entry \<le> Second + 300 * Second \<and> sample_cache = sample_cache)
       \<or> fst (both_types (\<lambda>_ _. None) sample_decode (lookup_key ascii_externals ''EXAMPLE.COM''))
           = [0xFFFF08080808])"
  by (rule dns_answers_are_fresh [OF sample_reached refl sample_hit])

end
