(* ===== verification/GoTime.thy ===== *)
theory GoTime
  imports ProtocolTypes "HOL-Library.Monad_Syntax"
begin

text \<open>
  The part of Go's \<^verbatim>\<open>time\<close> package that the code stores in its files: the text of an instant in
  UTC with the layout \<^verbatim>\<open>time.RFC3339Nano\<close>, and \<^verbatim>\<open>time.Parse\<close> with that layout. An instant is a
  number of nanoseconds since the first of January of the year one.
\<close>

section \<open>The calendar\<close>

definition leap_year :: "int \<Rightarrow> bool" where
  "leap_year y \<longleftrightarrow> y mod 4 = 0 \<and> (y mod 100 \<noteq> 0 \<or> y mod 400 = 0)"

definition days_before_year :: "int \<Rightarrow> int" where
  "days_before_year y = 365 * (y - 1) + (y - 1) div 4 - (y - 1) div 100 + (y - 1) div 400"

definition month_length :: "bool \<Rightarrow> nat \<Rightarrow> int" where
  "month_length leap m =
     (if m = 2 then (if leap then 29 else 28) else if m \<in> {4, 6, 9, 11} then 30 else 31)"

definition days_before_month :: "bool \<Rightarrow> nat \<Rightarrow> int" where
  "days_before_month leap m = sum_list (map (month_length leap) [1..<m])"

text \<open>The year of a day and the day within the year, by cycles of 400, 100, 4 and 1 years.\<close>

definition year_of_day :: "int \<Rightarrow> int \<times> int" where
  "year_of_day d =
     (let a = d div 146097; d1 = d mod 146097;
          b = min 3 (d1 div 36524); d2 = d1 - 36524 * b;
          c = d2 div 1461; d3 = d2 mod 1461;
          e = min 3 (d3 div 365) in
      (400 * a + 100 * b + 4 * c + e + 1, d3 - 365 * e))"

function month_of_day :: "bool \<Rightarrow> nat \<Rightarrow> int \<Rightarrow> nat \<times> int" where
  "month_of_day leap m d =
     (if 12 \<le> m \<or> d < month_length leap m then (m, d)
      else month_of_day leap (Suc m) (d - month_length leap m))"
  by pat_completeness auto
termination month_of_day
  by (relation "measure (\<lambda>(_, m, _). 12 - m)") auto

declare month_of_day.simps [simp del]

section \<open>Texts\<close>

fun pad :: "nat \<Rightarrow> int \<Rightarrow> string" where
  "pad 0 n = []"
| "pad (Suc k) n = pad k (n div 10) @ [hex_digit (nat (n mod 10))]"

definition number :: "string \<Rightarrow> int" where
  "number s = foldl (\<lambda>a c. 10 * a + int (hex_value c)) 0 s"

definition year_text :: "int \<Rightarrow> string" where
  "year_text y =
     (if y < 0 then ''-'' else []) @ (if \<bar>y\<bar> < 10000 then pad 4 \<bar>y\<bar> else digits_of (nat \<bar>y\<bar>))"

definition fraction_text :: "int \<Rightarrow> string" where
  "fraction_text n =
     (if n = 0 then [] else CHR ''.'' # rev (dropWhile (\<lambda>c. c = CHR ''0'') (rev (pad 9 n))))"

definition day_text :: "int \<Rightarrow> string" where
  "day_text day =
     (case year_of_day day of (y, yday) \<Rightarrow>
        (case month_of_day (leap_year y) 1 yday of (m, d) \<Rightarrow>
           year_text y @ ''-'' @ pad 2 (int m) @ ''-'' @ pad 2 (d + 1)))"

definition clock_text :: "int \<Rightarrow> string" where
  "clock_text s = pad 2 (s div 3600) @ '':'' @ pad 2 (s div 60 mod 60) @ '':'' @ pad 2 (s mod 60)"

text \<open>\<open>t.UTC().Format(time.RFC3339Nano)\<close>.\<close>

definition FormatRFC3339Nano :: "go_time \<Rightarrow> string" where
  "FormatRFC3339Nano t =
     day_text (t div Second div 86400) @ ''T'' @ clock_text (t div Second mod 86400)
     @ fraction_text (t mod Second) @ ''Z''"

section \<open>Parsing\<close>

definition expect :: "char \<Rightarrow> string \<Rightarrow> string option" where
  "expect c s = (case s of [] \<Rightarrow> None | d # r \<Rightarrow> if d = c then Some r else None)"

text \<open>\<^verbatim>\<open>getnum\<close>: two digits, or one where the layout does not fix the width.\<close>

definition getnum :: "bool \<Rightarrow> string \<Rightarrow> (int \<times> string) option" where
  "getnum fixed s =
     (case s of
        [] \<Rightarrow> None
      | c # r \<Rightarrow>
          if \<not> is_digit c then None
          else (case r of
            d # r' \<Rightarrow> if is_digit d then Some (number [c, d], r')
                      else if fixed then None else Some (number [c], r)
          | [] \<Rightarrow> if fixed then None else Some (number [c], r)))"

definition getyear :: "string \<Rightarrow> (int \<times> string) option" where
  "getyear s =
     (if length s < 4 \<or> \<not> list_all is_digit (take 4 s) then None
      else Some (number (take 4 s), drop 4 s))"

definition getfraction :: "string \<Rightarrow> int \<times> string" where
  "getfraction s =
     (case s of
        c # d # r \<Rightarrow>
          if c \<in> {CHR ''.'', CHR '',''} \<and> is_digit d then
            (let ds = take 9 (takeWhile is_digit (d # r)) in
             (number ds * 10 ^ (9 - length ds), dropWhile is_digit (d # r)))
          else (0, s)
      | _ \<Rightarrow> (0, s))"

text \<open>The zone: its offset in seconds and whether it is the letter Z, which makes the result UTC.\<close>

definition getzone :: "string \<Rightarrow> (int \<times> bool) option" where
  "getzone s =
     (if s = ''Z'' then Some (0, True)
      else (case s of
        [sign, h1, h2, colon, m1, m2] \<Rightarrow>
          if colon \<noteq> CHR '':'' \<or> \<not> list_all is_digit [h1, h2, m1, m2] then None
          else (let h = number [h1, h2]; m = number [m1, m2]; offset = h * 3600 + m * 60 in
            if 24 < h \<or> 60 < m then None
            else if sign = CHR ''+'' then Some (offset, False)
            else if sign = CHR ''-'' then Some (- offset, False)
            else None)
      | _ \<Rightarrow> None))"

definition day_number :: "int \<Rightarrow> nat \<Rightarrow> int \<Rightarrow> int" where
  "day_number y m d = days_before_year y + days_before_month (leap_year y) m + d - 1"

definition getdate :: "string \<Rightarrow> (int \<times> string) option" where
  "getdate s0 =
     do { (y, s1) \<leftarrow> getyear s0; s2 \<leftarrow> expect (CHR ''-'') s1;
          (m, s3) \<leftarrow> getnum True s2; s4 \<leftarrow> expect (CHR ''-'') s3;
          (d, s5) \<leftarrow> getnum True s4;
          if m < 1 \<or> 12 < m \<or> d < 1 \<or> month_length (leap_year y) (nat m) < d then None
          else Some (day_number y (nat m) d, s5) }"

definition getclock :: "string \<Rightarrow> (int \<times> string) option" where
  "getclock s0 =
     do { (h, s1) \<leftarrow> getnum False s0; s2 \<leftarrow> expect (CHR '':'') s1;
          (m, s3) \<leftarrow> getnum True s2; s4 \<leftarrow> expect (CHR '':'') s3;
          (s, s5) \<leftarrow> getnum True s4;
          if 24 \<le> h \<or> 60 \<le> m \<or> 60 \<le> s then None else Some (h * 3600 + m * 60 + s, s5) }"

text \<open>The instant and whether its location is UTC; an error is \<^term>\<open>None\<close>.\<close>

definition ParseRFC3339Nano :: "string \<Rightarrow> (go_time \<times> bool) option" where
  "ParseRFC3339Nano s0 =
     do { (day, s1) \<leftarrow> getdate s0; s2 \<leftarrow> expect (CHR ''T'') s1;
          (seconds, s3) \<leftarrow> getclock s2;
          let (nanos, s4) = getfraction s3;
          (offset, utc) \<leftarrow> getzone s4;
          Some ((day * 86400 + seconds - offset) * Second + nanos, utc) }"

lemma time_examples:
  "FormatRFC3339Nano 0 = ''0001-01-01T00:00:00Z''"
  "FormatRFC3339Nano 63075790707500000000 = ''1999-10-17T20:58:27.5Z''"
  "map_option fst (ParseRFC3339Nano ''1999-10-17T20:58:27.5Z'') = Some 63075790707500000000"
  "ParseRFC3339Nano ''2024-02-29T7:08:09,25+01:30'' = Some (63844787289250000000 - 5400 * Second, False)"
  "ParseRFC3339Nano ''2023-02-29T07:08:09Z'' = None"
  by code_simp+

section \<open>A written instant is read back\<close>

lemma digit_char [simp]: "is_digit (hex_digit (nat (n mod 10)))" "int (hex_value (hex_digit (nat (n mod 10)))) = n mod 10"
proof -
  have "nat (n mod 10) < 10" by simp
  then show "is_digit (hex_digit (nat (n mod 10)))" by (simp add: hex_digit_def is_digit_def)
  from \<open>nat (n mod 10) < 10\<close> show "int (hex_value (hex_digit (nat (n mod 10)))) = n mod 10" by simp
qed

lemma length_pad [simp]: "length (pad k n) = k"
  by (induction k arbitrary: n) auto

lemma pad_digits [simp]: "list_all is_digit (pad k n)"
  by (induction k arbitrary: n) auto

lemma number_snoc: "number (s @ [c]) = 10 * number s + int (hex_value c)"
  by (simp add: number_def)

lemma number_pad: "number (pad k n) = n mod 10 ^ k"
proof (induction k arbitrary: n)
  case (Suc k)
  have "n mod (10 * 10 ^ k) = 10 * (n div 10 mod 10 ^ k) + n mod 10"
    by (simp add: zmod_zmult2_eq)
  with Suc [of "n div 10"] show ?case by (simp add: number_snoc)
qed (simp add: number_def)

lemma number_pad_small: "0 \<le> n \<Longrightarrow> n < 10 ^ k \<Longrightarrow> number (pad k n) = n"
  by (simp add: number_pad)

lemma pad_2: "pad 2 n = [hex_digit (nat (n div 10 mod 10)), hex_digit (nat (n mod 10))]"
  by (simp add: numeral_2_eq_2)

lemma getnum_pad:
  assumes "0 \<le> n" "n < 100"
  shows "getnum fixed (pad 2 n @ s) = Some (n, s)"
proof -
  have "number [hex_digit (nat (n div 10 mod 10)), hex_digit (nat (n mod 10))] = n"
    using number_pad_small [of n 2] assms by (simp add: pad_2)
  then show ?thesis by (simp add: getnum_def pad_2)
qed

lemma getyear_pad:
  assumes "0 \<le> y" "y < 10000"
  shows "getyear (pad 4 y @ s) = Some (y, s)"
  using number_pad_small [of y 4] assms by (simp add: getyear_def)

lemma expect_Cons [simp]: "expect c (c # s) = Some s"
  by (simp add: expect_def)

lemma year_of_day_spec:
  assumes "year_of_day d = (y, r)"
  shows "d = days_before_year y + r \<and> 0 \<le> r \<and> r < (if leap_year y then 366 else 365)"
proof -
  define a where "a = d div 146097"
  define d1 where "d1 = d mod 146097"
  define b where "b = min 3 (d1 div 36524)"
  define d2 where "d2 = d1 - 36524 * b"
  define c where "c = d2 div 1461"
  define d3 where "d3 = d2 mod 1461"
  define e where "e = min 3 (d3 div 365)"
  have y: "y = 400 * a + 100 * b + 4 * c + e + 1" and r: "r = d3 - 365 * e"
    using assms by (simp_all add: year_of_day_def Let_def a_def d1_def b_def d2_def c_def d3_def e_def)
  have d: "d = 146097 * a + d1" "0 \<le> d1" "d1 < 146097" by (simp_all add: a_def d1_def)
  have b: "0 \<le> b" "b \<le> 3" "0 \<le> d2" "d2 \<le> 36524" "b < 3 \<longrightarrow> d2 < 36524" using d by (auto simp: b_def d2_def)
  have c: "d2 = 1461 * c + d3" "0 \<le> c" "c \<le> 24" "0 \<le> d3" "d3 < 1461" using b by (auto simp: c_def d3_def)
  have c': "c = 24 \<longrightarrow> d3 \<le> 1460 \<and> (b < 3 \<longrightarrow> d3 < 1460)" using b c by auto
  have e: "0 \<le> e" "e \<le> 3" "0 \<le> r" "r \<le> 365" "e < 3 \<longrightarrow> r < 365" using c by (auto simp: e_def r)
  have y4: "(y - 1) div 4 = 100 * a + 25 * b + c" using y e by auto
  have y100: "(y - 1) div 100 = 4 * a + b" using y e b c by auto
  have y400: "(y - 1) div 400 = a" using y e b c by auto
  have "d = days_before_year y + r"
    unfolding days_before_year_def y4 y100 y400 using y r d c by (simp add: d2_def)
  moreover have "r < (if leap_year y then 366 else 365)"
  proof (cases "r = 365")
    case True
    then have "e = 3" "d3 = 1460" using e r by auto
    have "c \<noteq> 24 \<or> b = 3" using c' \<open>d3 = 1460\<close> b by auto
    have "y mod 4 = 0" using y \<open>e = 3\<close> by presburger
    moreover have "y mod 100 \<noteq> 0 \<or> y mod 400 = 0"
    proof (cases "c = 24")
      case True
      with \<open>c \<noteq> 24 \<or> b = 3\<close> have "y = 400 * (a + 1)" using y \<open>e = 3\<close> by simp
      then show ?thesis by simp
    next
      case False
      then have "y = 100 * (4 * a + b) + (4 * c + 4)" "0 < 4 * c + 4" "4 * c + 4 < 100"
        using y \<open>e = 3\<close> c by auto
      then have "y mod 100 = 4 * c + 4" by (metis mod_mult_self4 mod_pos_pos_trivial order_less_imp_le)
      then show ?thesis using \<open>0 < 4 * c + 4\<close> by simp
    qed
    ultimately show ?thesis using True by (simp add: leap_year_def)
  qed (use e in auto)
  ultimately show ?thesis using e by simp
qed

lemma days_before_month_Suc: "1 \<le> m \<Longrightarrow> days_before_month leap (Suc m) = days_before_month leap m + month_length leap m"
  by (simp add: days_before_month_def)

lemma month_of_day_spec:
  assumes "month_of_day leap m r = (m', d)" "1 \<le> m" "m \<le> 12" "0 \<le> r"
    "days_before_month leap m + r < days_before_month leap 13"
  shows "1 \<le> m' \<and> m' \<le> 12 \<and> 0 \<le> d \<and> d < month_length leap m'
    \<and> days_before_month leap m' + d = days_before_month leap m + r"
  using assms
proof (induction leap m r rule: month_of_day.induct)
  case (1 leap m r)
  show ?case
  proof (cases "12 \<le> m \<or> r < month_length leap m")
    case True
    then have "m' = m" "d = r" using 1(2) by (simp_all add: month_of_day.simps [of leap m r])
    moreover have "m = 12 \<Longrightarrow> r < month_length leap m"
      using 1(6) days_before_month_Suc [of 12 leap] by simp
    ultimately show ?thesis using 1 True by (cases "m = 12") auto
  next
    case False
    then show ?thesis using 1 days_before_month_Suc [of m leap]
      by (simp add: month_of_day.simps [of leap m r])
  qed
qed

lemma year_days: "days_before_month leap 13 = (if leap then 366 else 365)"
  by (simp add: days_before_month_def month_length_def upt_rec)

lemma date_text_read:
  assumes "0 \<le> day" "day < days_before_year 10000"
  shows "getdate (day_text day @ s) = Some (day, s)"
proof -
  obtain y r where yr: "year_of_day day = (y, r)" by fastforce
  obtain m d where md: "month_of_day (leap_year y) 1 r = (m, d)" by fastforce
  from year_of_day_spec [OF yr] have day: "day = days_before_year y + r" "0 \<le> r"
    "r < days_before_month (leap_year y) 13" by (simp_all add: year_days)
  from month_of_day_spec [OF md] day have m: "1 \<le> m" "m \<le> 12" "0 \<le> d" "d < month_length (leap_year y) m"
    "days_before_month (leap_year y) m + d = r"
    by (simp_all add: days_before_month_def)
  have y: "0 \<le> y" "y < 10000"
    using assms day year_of_day_spec [OF yr] by (auto simp: days_before_year_def split: if_splits)
  have "month_length (leap_year y) m \<le> 31" by (simp add: month_length_def)
  then have d: "0 \<le> d + 1" "d + 1 < 100" using m by simp_all
  have "getnum True (pad 2 (int m) @ t) = Some (int m, t)" "getnum True (pad 2 (d + 1) @ t) = Some (d + 1, t)" for t
    using getnum_pad [of "int m"] getnum_pad [OF d] m by simp_all
  moreover have "day_text day = pad 4 y @ ''-'' @ pad 2 (int m) @ ''-'' @ pad 2 (d + 1)"
    using y md by (simp add: day_text_def yr year_text_def)
  moreover have "day_number y m (d + 1) = day" using m(5) day(1) by (simp add: day_number_def)
  ultimately show ?thesis
    using m getyear_pad [OF y] by (simp add: getdate_def)
qed

lemma clock_text_read:
  assumes "0 \<le> n" "n < 86400"
  shows "getclock (clock_text n @ s) = Some (n, s)"
proof -
  have "n div 3600 < 24" using assms by simp
  then have "getnum False (pad 2 (n div 3600) @ t) = Some (n div 3600, t)" for t
    using assms by (intro getnum_pad) simp_all
  moreover have "getnum True (pad 2 (k mod 60) @ t) = Some (k mod 60, t)" for k t
    using pos_mod_bound [of 60 k] by (intro getnum_pad) simp_all
  moreover have "n div 3600 * 3600 + n div 60 mod 60 * 60 + n mod 60 = n"
  proof -
    have "n div 3600 = n div 60 div 60" using zdiv_zmult2_eq [of 60 n 60] by simp
    then show ?thesis using div_mult_mod_eq [of "n div 60" 60] div_mult_mod_eq [of n 60] by linarith
  qed

  ultimately show ?thesis using \<open>n div 3600 < 24\<close> by (simp add: clock_text_def getclock_def not_le)
qed

text \<open>The digits of a fraction without the zeros that end it.\<close>

lemma number_append: "number (s @ t) = number s * 10 ^ length t + number t"
proof (induction t rule: rev_induct)
  case (snoc c t)
  then show ?case
    using number_snoc [of "s @ t" c] by (simp add: number_snoc algebra_simps)
qed (simp add: number_def)

lemma number_zeros: "list_all (\<lambda>c. c = CHR ''0'') s \<Longrightarrow> number s = 0"
  by (induction s rule: rev_induct) (auto simp: number_snoc number_def [of "[]"] hex_value_def is_digit_def)

lemma fraction_read:
  assumes "0 \<le> n" "n < Second"
  shows "getfraction (fraction_text n @ ''Z'') = (n, ''Z'')"
proof (cases "n = 0")
  case True
  then show ?thesis by (simp add: fraction_text_def getfraction_def)
next
  case False
  define ds where "ds = rev (dropWhile (\<lambda>c. c = CHR ''0'') (rev (pad 9 n)))"
  define zs where "zs = rev (takeWhile (\<lambda>c. c = CHR ''0'') (rev (pad 9 n)))"
  have split: "pad 9 n = ds @ zs"
    unfolding ds_def zs_def by (metis rev_append rev_rev_ident takeWhile_dropWhile_id)
  have "list_all (\<lambda>c. c = CHR ''0'') zs"
    unfolding zs_def by (auto simp: list_all_iff dest: set_takeWhileD)
  then have "number zs = 0" by (rule number_zeros)
  moreover have "number (pad 9 n) = n"
    using assms by (intro number_pad_small) (simp_all add: Second_def)
  ultimately have n: "number ds * 10 ^ length zs = n"
    using number_append [of ds zs] split by simp
  have "length ds + length zs = 9" using split length_pad [of 9 n] by (metis length_append)
  then have "length zs = 9 - length ds" "length ds \<le> 9" by simp_all
  have "list_all is_digit ds" using split pad_digits [of 9 n] by simp
  then have *: "takeWhile is_digit (ds @ ''Z'') = ds" "dropWhile is_digit (ds @ ''Z'') = ''Z''"
    by (simp_all add: takeWhile_append dropWhile_append list_all_iff is_digit_def)
  have "ds \<noteq> []" using n False by (auto simp: number_def)
  then obtain c r where ds: "ds = c # r" by (cases ds) auto
  with \<open>list_all is_digit ds\<close> have "is_digit c" by simp
  show ?thesis
    using * \<open>length zs = 9 - length ds\<close> \<open>length ds \<le> 9\<close> n False \<open>is_digit c\<close>
    by (simp add: fraction_text_def getfraction_def ds_def [symmetric] ds Let_def)
qed

lemma ParseRFC3339Nano_Format:
  assumes "0 \<le> t" "t < days_before_year 10000 * 86400 * Second"
  shows "ParseRFC3339Nano (FormatRFC3339Nano t) = Some (t, True)"
proof -
  let ?s = "t div Second"
  have s: "0 \<le> ?s" "?s < days_before_year 10000 * 86400"
    using assms by (simp_all add: Second_def)
  then have day: "0 \<le> ?s div 86400" "?s div 86400 < days_before_year 10000" by simp_all
  have "0 \<le> t mod Second" "t mod Second < Second" by (simp_all add: Second_def)
  note read = date_text_read [OF day] fraction_read [OF this] clock_text_read [of "?s mod 86400"]
  have "(?s div 86400 * 86400 + ?s mod 86400) * Second + t mod Second = t" by simp
  then show ?thesis
    by (simp add: ParseRFC3339Nano_def FormatRFC3339Nano_def read getzone_def)
qed

end
