(* ===== verification/Files.thy ===== *)
theory Files
  imports GoPath GoTime
begin

text \<open>
  The file system the code works on: a disk of nodes by absolute path, the outcome of the coming
  system calls, the names that \<^verbatim>\<open>os.CreateTemp\<close> will draw and the clock. Every system call may fail;
  one that fails while it writes may have written a part of the data. Readers of owner-only files
  are here too, since several packages have a copy of them.
\<close>

section \<open>Paths\<close>

text \<open>\<^verbatim>\<open>filepath.Dir\<close> and \<^verbatim>\<open>filepath.Join\<close> of two elements.\<close>

definition Dir :: "string \<Rightarrow> string" where
  "Dir path =
     (case CutLast path (CHR ''/'') of
        None \<Rightarrow> Clean []
      | Some (front, _) \<Rightarrow> Clean (front @ ''/''))"

definition Join :: "string \<Rightarrow> string \<Rightarrow> string" where
  "Join a b =
     (if a \<noteq> [] then Clean (a @ ''/'' @ b) else if b \<noteq> [] then Clean b else [])"

unbundle bit_operations_syntax

section \<open>The disk\<close>

datatype file_kind = is_Regular: Regular bytes | Directory | Symlink | OtherFile

record node =
  nd_kind :: file_kind
  nd_perm :: "32 word"
  nd_owned :: bool

datatype outcome = Works | Fails nat

record disk =
  dk_nodes :: "string \<rightharpoonup> node"
  dk_outcomes :: "outcome list"
  dk_names :: "string list"
  dk_now :: go_time
  dk_ticks :: "int list"

text \<open>The outcome of the next call; when none is foretold it works.\<close>

definition next_outcome :: "disk \<Rightarrow> outcome \<times> disk" where
  "next_outcome d =
     (case dk_outcomes d of [] \<Rightarrow> (Works, d) | r # rs \<Rightarrow> (r, d\<lparr>dk_outcomes := rs\<rparr>))"

text \<open>\<^verbatim>\<open>time.Now\<close>: time passes between two readings as the ticks say.\<close>

definition read_clock :: "disk \<Rightarrow> go_time \<times> disk" where
  "read_clock d =
     (case dk_ticks d of
        [] \<Rightarrow> (dk_now d, d)
      | t # ts \<Rightarrow> (dk_now d + t, d\<lparr>dk_now := dk_now d + t, dk_ticks := ts\<rparr>))"

section \<open>System calls\<close>

datatype os_error = ErrNotExist | ErrOther

definition Lstat :: "string \<Rightarrow> disk \<Rightarrow> (os_error + node) \<times> disk" where
  "Lstat path d =
     (case next_outcome d of
        (Fails _, d) \<Rightarrow> (Inl ErrOther, d)
      | (Works, d) \<Rightarrow>
          (case dk_nodes d path of None \<Rightarrow> (Inl ErrNotExist, d) | Some nd \<Rightarrow> (Inr nd, d)))"

definition plain_call :: "disk \<Rightarrow> bool \<times> disk" where
  "plain_call d = (case next_outcome d of (Works, d) \<Rightarrow> (True, d) | (Fails _, d) \<Rightarrow> (False, d))"

definition file_bytes :: "string \<Rightarrow> disk \<Rightarrow> bytes option" where
  "file_bytes path d =
     (case dk_nodes d path of
        Some nd \<Rightarrow> (case nd_kind nd of Regular bs \<Rightarrow> Some bs | _ \<Rightarrow> None)
      | None \<Rightarrow> None)"

text \<open>\<^verbatim>\<open>os.ReadFile\<close>, and \<^verbatim>\<open>io.ReadAll\<close> of an open file.\<close>

definition ReadFile :: "string \<Rightarrow> disk \<Rightarrow> bytes option \<times> disk" where
  "ReadFile path d = (case plain_call d of (ok, d) \<Rightarrow> (if ok then file_bytes path d else None, d))"

definition set_node :: "string \<Rightarrow> node option \<Rightarrow> disk \<Rightarrow> disk" where
  "set_node path nd d = d\<lparr>dk_nodes := (dk_nodes d)(path := nd)\<rparr>"

text \<open>
  \<^verbatim>\<open>os.CreateTemp\<close>: the first decimal number drawn that is not taken, between what comes before and
  after the star of the pattern, made with mode 0600.
\<close>

fun fresh_name :: "(string \<rightharpoonup> node) \<Rightarrow> string \<Rightarrow> string \<Rightarrow> string list \<Rightarrow> string option" where
  "fresh_name nodes prefix suffix [] = None"
| "fresh_name nodes prefix suffix (name # names) =
     (if name \<noteq> [] \<and> list_all is_digit name \<and> nodes (prefix @ name @ suffix) = None
      then Some (prefix @ name @ suffix)
      else fresh_name nodes prefix suffix names)"

definition CreateTemp :: "string \<Rightarrow> string \<Rightarrow> disk \<Rightarrow> string option \<times> disk" where
  "CreateTemp prefix suffix d =
     (case plain_call d of (ok, d) \<Rightarrow>
        if \<not> ok then (None, d)
        else (case fresh_name (dk_nodes d) prefix suffix (dk_names d) of
          None \<Rightarrow> (None, d)
        | Some path \<Rightarrow>
            (Some path, set_node path (Some \<lparr>nd_kind = Regular [], nd_perm = 0x180, nd_owned = True\<rparr>) d)))"

definition Chmod :: "string \<Rightarrow> 32 word \<Rightarrow> disk \<Rightarrow> bool \<times> disk" where
  "Chmod path perm d =
     (case plain_call d of (ok, d) \<Rightarrow>
        (ok, if ok then set_node path (map_option (\<lambda>nd. nd\<lparr>nd_perm := perm\<rparr>) (dk_nodes d path)) d else d))"

definition append_bytes :: "bytes \<Rightarrow> node \<Rightarrow> node" where
  "append_bytes bs nd = (case nd_kind nd of Regular old \<Rightarrow> nd\<lparr>nd_kind := Regular (old @ bs)\<rparr> | _ \<Rightarrow> nd)"

definition WriteFile :: "string \<Rightarrow> bytes \<Rightarrow> disk \<Rightarrow> bool \<times> disk" where
  "WriteFile path bs d =
     (case next_outcome d of
        (Works, d) \<Rightarrow> (True, set_node path (map_option (append_bytes bs) (dk_nodes d path)) d)
      | (Fails n, d) \<Rightarrow> (False, set_node path (map_option (append_bytes (take n bs)) (dk_nodes d path)) d))"

text \<open>\<^verbatim>\<open>os.Rename\<close> replaces the target in one step or does nothing.\<close>

definition Rename :: "string \<Rightarrow> string \<Rightarrow> disk \<Rightarrow> bool \<times> disk" where
  "Rename old new d =
     (case plain_call d of (ok, d) \<Rightarrow>
        if ok \<and> dk_nodes d old \<noteq> None then (True, set_node old None (set_node new (dk_nodes d old) d))
        else (False, d))"

definition Remove :: "string \<Rightarrow> disk \<Rightarrow> os_error option \<times> disk" where
  "Remove path d =
     (case plain_call d of (ok, d) \<Rightarrow>
        if \<not> ok then (Some ErrOther, d)
        else if dk_nodes d path = None then (Some ErrNotExist, d)
        else (None, set_node path None d))"

section \<open>Owner-only files\<close>

definition private_mode :: "node \<Rightarrow> bool" where
  "private_mode nd \<longleftrightarrow> nd_perm nd AND 0x3F = 0"

definition owner_only :: "nat \<Rightarrow> node \<Rightarrow> bool" where
  "owner_only limit nd \<longleftrightarrow>
     (case nd_kind nd of
        Regular bs \<Rightarrow> private_mode nd \<and> nd_owned nd \<and> 0 < length bs \<and> length bs \<le> limit
      | _ \<Rightarrow> False)"

definition private_directory :: "node \<Rightarrow> bool" where
  "private_directory nd \<longleftrightarrow> nd_kind nd = Directory \<and> private_mode nd \<and> nd_owned nd"

text \<open>\<^verbatim>\<open>readOwnerOnlyFile\<close> of the Browser client.\<close>

datatype read_error = PathNotAbsolute | NotRegular | NotOwnerOnly | LengthInvalid | OpenFailed | ReadFailed

definition readOwnerOnlyFile :: "string \<Rightarrow> nat \<Rightarrow> disk \<Rightarrow> (read_error + bytes) \<times> disk" where
  "readOwnerOnlyFile rawPath limit d =
     (let path = Clean (TrimSpace rawPath) in
      if \<not> IsAbs path then (Inl PathNotAbsolute, d)
      else (case Lstat path d of
        (Inl _, d) \<Rightarrow> (Inl NotRegular, d)
      | (Inr nd, d) \<Rightarrow>
          (case nd_kind nd of
             Regular bs \<Rightarrow>
               if \<not> private_mode nd \<or> \<not> nd_owned nd then (Inl NotOwnerOnly, d)
               else if length bs < 1 \<or> limit < length bs then (Inl LengthInvalid, d)
               else (case plain_call d of
                  (False, d) \<Rightarrow> (Inl OpenFailed, d)
                | (True, d) \<Rightarrow>
                    (case ReadFile path d of
                       (None, d) \<Rightarrow> (Inl ReadFailed, d)
                     | (Some raw, d) \<Rightarrow>
                         if limit < length raw then (Inl ReadFailed, d) else (Inr raw, d)))
           | _ \<Rightarrow> (Inl NotRegular, d))))"

text \<open>\<^verbatim>\<open>ResolveSecret\<close> of the egress gateway: a secret in the environment or in a file, not both.\<close>

datatype secret_error = SecretTwice | SecretFileInvalid | SecretUnreadable | SecretEmpty

definition maxGatewaySecretBytes :: nat where "maxGatewaySecretBytes = 65536"

definition carriage_return :: char where "carriage_return = char_of (13::nat)"
definition line_feed :: char where "line_feed = char_of (10::nat)"

definition ResolveSecret :: "(string \<Rightarrow> string) \<Rightarrow> string \<Rightarrow> disk \<Rightarrow> (secret_error + string) \<times> disk" where
  "ResolveSecret getenv name d =
     (let direct = TrimSpace (getenv name); file = TrimSpace (getenv (name @ ''_FILE'')) in
      if direct \<noteq> [] \<and> file \<noteq> [] then (Inl SecretTwice, d)
      else if file = [] then (Inr direct, d)
      else (case Lstat file d of
        (Inl _, d) \<Rightarrow> (Inl SecretFileInvalid, d)
      | (Inr nd, d) \<Rightarrow>
          if \<not> owner_only maxGatewaySecretBytes nd then (Inl SecretFileInvalid, d)
          else (case ReadFile file d of
            (None, d) \<Rightarrow> (Inl SecretUnreadable, d)
          | (Some raw, d) \<Rightarrow>
              (let secret = TrimSuffix (TrimSuffix raw [line_feed]) [carriage_return] in
               if TrimSpace secret = [] then (Inl SecretEmpty, d) else (Inr secret, d)))))"

text \<open>\<^verbatim>\<open>LockAuthority\<close>: \<^term>\<open>True\<close> if the lock is held; the lock file is made where it is missing.\<close>

definition AuthorityLockFile :: string where
  "AuthorityLockFile = ''.browser-lease-authority.lock''"

definition open_lock :: "string \<Rightarrow> disk \<Rightarrow> bool \<times> disk" where
  "open_lock path d =
     (case plain_call d of
        (False, d) \<Rightarrow> (False, d)
      | (True, d) \<Rightarrow>
          (case dk_nodes d path of
             None \<Rightarrow>
               (True, set_node path (Some \<lparr>nd_kind = Regular [], nd_perm = 0x180, nd_owned = True\<rparr>) d)
           | Some nd \<Rightarrow> (nd_kind nd \<noteq> Symlink \<and> nd_kind nd \<noteq> Directory, d)))"

definition LockAuthority :: "string \<Rightarrow> disk \<Rightarrow> bool \<times> disk" where
  "LockAuthority raw d =
     (let root = Clean raw; lock = Join root AuthorityLockFile in
      if \<not> IsAbs root then (False, d)
      else (case Lstat root d of
        (Inl _, d) \<Rightarrow> (False, d)
      | (Inr nd, d) \<Rightarrow>
          if \<not> private_directory nd then (False, d)
          else (case open_lock lock d of
            (False, d) \<Rightarrow> (False, d)
          | (True, d) \<Rightarrow>
              (case Lstat lock d of
                 (Inl _, d) \<Rightarrow> (False, d)
               | (Inr info, d) \<Rightarrow>
                   if \<not> is_Regular (nd_kind info) \<or> \<not> private_mode info \<or> \<not> nd_owned info then (False, d)
                   else plain_call d))))"

end
