(* ===== verification/FileLease.thy ===== *)
theory FileLease
  imports Lease Files
begin

text \<open>
  The lease in files: \<^verbatim>\<open>FileLease\<close> of \<^verbatim>\<open>browserruntime/lease.go\<close> and the list of revoked leases
  beside it, \<^verbatim>\<open>browserruntime/revocation.go\<close>. JSON is a parameter: a codec for the lease document,
  and for the list of revocations a codec (which fills in the target that the code prepares, so a
  field that is missing keeps its default) and \<^verbatim>\<open>json.Marshal\<close>.
\<close>

section \<open>The list of revocations\<close>

definition revocationContractID :: string where
  "revocationContractID = ''openlinker.browser.revocations.v1''"

definition revocationFileName :: string where
  "revocationFileName = ''revoked-leases.v1.json''"

definition maxRevocations :: nat where "maxRevocations = 256"
definition maxRevocationBytes :: nat where "maxRevocationBytes = 65536"
definition revocationRetention :: go_time where "revocationRetention = 30 * 24 * 3600 * Second"
definition maxActiveLeaseBytes :: nat where "maxActiveLeaseBytes = 16384"

record revocation_entry =
  rv_IdentityHash :: string
  rv_RevokedAt :: string
  rv_ExpiresAt :: string

record revocation_index =
  ri_ContractID :: string
  ri_Entries :: "revocation_entry list"

definition empty_index :: revocation_index where
  "empty_index = \<lparr>ri_ContractID = revocationContractID, ri_Entries = []\<rparr>"

record file_lease =
  fl_Path :: string
  fl_lease_codec :: "lease codec"
  fl_index_codec :: "revocation_index codec"
  fl_index_text :: "revocation_index \<Rightarrow> bytes option"

definition NUL :: char where "NUL = char_of (0::nat)"

definition identity_text :: "identity \<Rightarrow> string" where
  "identity_text i =
     concat (map (\<lambda>v. v @ [NUL])
       [id_RunID i, id_AgentID i, id_PrincipalScopeID i, id_BrowserSessionID i, id_AttachmentID i,
        id_BrowserInteractionPolicy i, id_BrowserMutationOriginsSHA256 i])
     @ FormatUint (id_SessionEpoch i) @ [NUL] @ FormatUint (id_ControlEpoch i) @ [NUL]
     @ FormatInt (id_BrowserInteractionPolicyGeneration i)
     @ concat (map (\<lambda>origin. NUL # origin) (origins_of i))"

definition browserIdentityHash :: "identity \<Rightarrow> string" where
  "browserIdentityHash i = sha256_hex (identity_text i)"

definition closedAttachmentObservation :: "identity \<Rightarrow> observation" where
  "closedAttachmentObservation i =
     zero_observation\<lparr>obs_PageStateID := ''closed-'' @ take 32 (sha256_hex (id_AttachmentID i))\<rparr>"

text \<open>Whether an entry is kept at the time \<open>now\<close>; an entry that is not valid is \<^term>\<open>None\<close>.\<close>

definition retained :: "go_time \<Rightarrow> revocation_entry \<Rightarrow> bool option" where
  "retained now e =
     (case ParseRFC3339Nano (rv_RevokedAt e) of
        None \<Rightarrow> None
      | Some (revokedAt, _) \<Rightarrow>
          if length (rv_IdentityHash e) \<noteq> 64 \<or> hex_decode (rv_IdentityHash e) = None then None
          else if rv_ExpiresAt e = [] then Some (now - revocationRetention \<le> revokedAt)
          else (case ParseRFC3339Nano (rv_ExpiresAt e) of
            None \<Rightarrow> None
          | Some (expiresAt, _) \<Rightarrow>
              if expiresAt < revokedAt then None else Some (now < expiresAt)))"

text \<open>The loop over the entries: what was seen and what is kept.\<close>

fun retain_entries ::
    "go_time \<Rightarrow> string set \<Rightarrow> revocation_entry list \<Rightarrow> revocation_entry list option" where
  "retain_entries now seen [] = Some []"
| "retain_entries now seen (e # es) =
     (if rv_IdentityHash e \<in> seen then None
      else (case retained now e of
        None \<Rightarrow> None
      | Some keep \<Rightarrow>
          map_option (\<lambda>rest. if keep then e # rest else rest)
            (retain_entries now (insert (rv_IdentityHash e) seen) es)))"

definition index_of_bytes :: "file_lease \<Rightarrow> go_time \<Rightarrow> bytes \<Rightarrow> revocation_index option" where
  "index_of_bytes lease now raw =
     (case strict_decode (fl_index_codec lease) raw of
        None \<Rightarrow> None
      | Some index \<Rightarrow>
          if ri_ContractID index \<noteq> revocationContractID \<or> maxRevocations < length (ri_Entries index)
          then None
          else map_option (\<lambda>es. index\<lparr>ri_Entries := es\<rparr>) (retain_entries now {} (ri_Entries index)))"

definition revocationPath :: "file_lease \<Rightarrow> string option" where
  "revocationPath lease =
     (let activePath = Clean (TrimSpace (fl_Path lease)) in
      if \<not> IsAbs activePath then None else Some (Join (Dir activePath) revocationFileName))"

definition readRevocations :: "file_lease \<Rightarrow> go_time \<Rightarrow> disk \<Rightarrow> revocation_index option \<times> disk" where
  "readRevocations lease now d =
     (case revocationPath lease of
        None \<Rightarrow> (None, d)
      | Some path \<Rightarrow>
          (case Lstat path d of
             (Inl ErrNotExist, d) \<Rightarrow> (Some empty_index, d)
           | (Inl ErrOther, d) \<Rightarrow> (None, d)
           | (Inr nd, d) \<Rightarrow>
               if \<not> owner_only maxRevocationBytes nd then (None, d)
               else (case ReadFile path d of
                 (None, d) \<Rightarrow> (None, d)
               | (Some raw, d) \<Rightarrow>
                   (if maxRevocationBytes < length raw then None else index_of_bytes lease now raw, d))))"

definition isRevoked :: "file_lease \<Rightarrow> identity \<Rightarrow> disk \<Rightarrow> bool option \<times> disk" where
  "isRevoked lease i d =
     (case read_clock d of (now, d) \<Rightarrow>
        (case readRevocations lease now d of (index, d) \<Rightarrow>
           (map_option (\<lambda>ix. browserIdentityHash i \<in> rv_IdentityHash ` set (ri_Entries ix)) index, d)))"

definition revocation_state_invalid :: failure where
  "revocation_state_invalid =
     NewFailure ErrorRuntimeUnavailable ''browser runtime revocation state is invalid'' False"

definition IsRevoked :: "file_lease \<Rightarrow> identity \<Rightarrow> disk \<Rightarrow> (bool \<times> failure option) \<times> disk" where
  "IsRevoked lease i d =
     (case isRevoked lease i d of
        (None, d) \<Rightarrow> ((False, Some revocation_state_invalid), d)
      | (Some revoked, d) \<Rightarrow> ((revoked, None), d))"

section \<open>The active lease\<close>

definition lease_of_bytes ::
    "externals \<Rightarrow> file_lease \<Rightarrow> identity \<Rightarrow> go_time \<Rightarrow> bytes \<Rightarrow> failure + lease" where
  "lease_of_bytes ext lease i now raw =
     (case strict_decode (fl_lease_codec lease) raw of
        None \<Rightarrow> Inl (NewFailure ErrorRuntimeUnavailable ''browser runtime active lease is invalid'' False)
      | Some active \<Rightarrow>
          (case Lease_Validate ext now active of
             Some f \<Rightarrow> Inl f
           | None \<Rightarrow>
               (case StaticLease_Validate (le_Identity active) i of
                  Some f \<Rightarrow> Inl f
                | None \<Rightarrow> Inr active)))"

definition activeAt ::
    "externals \<Rightarrow> file_lease \<Rightarrow> identity \<Rightarrow> go_time \<Rightarrow> disk \<Rightarrow> (failure + lease) \<times> disk" where
  "activeAt ext lease i now d =
     (let path = Clean (TrimSpace (fl_Path lease)) in
      if \<not> IsAbs path then
        (Inl (NewFailure ErrorRuntimeUnavailable ''browser runtime active lease path is invalid'' False), d)
      else (case Lstat path d of
        (Inl _, d) \<Rightarrow>
          (Inl (NewFailure ErrorRuntimeUnavailable ''browser runtime has no active attachment'' True), d)
      | (Inr nd, d) \<Rightarrow>
          if \<not> owner_only maxActiveLeaseBytes nd then
            (Inl (NewFailure ErrorRuntimeUnavailable ''browser runtime active lease is invalid'' False), d)
          else (case plain_call d of
            (False, d) \<Rightarrow>
              (Inl (NewFailure ErrorRuntimeUnavailable ''browser runtime active lease is unavailable'' True), d)
          | (True, d) \<Rightarrow>
              (case ReadFile path d of (raw, d) \<Rightarrow>
                 ((case raw of
                     None \<Rightarrow>
                       Inl (NewFailure ErrorRuntimeUnavailable ''browser runtime active lease is unreadable'' True)
                   | Some raw \<Rightarrow>
                       if maxActiveLeaseBytes < length raw then
                         Inl (NewFailure ErrorRuntimeUnavailable ''browser runtime active lease is unreadable'' True)
                       else lease_of_bytes ext lease i now raw), d)))))"

definition FileLease_Validate :: "externals \<Rightarrow> file_lease \<Rightarrow> identity \<Rightarrow> disk \<Rightarrow> failure option \<times> disk" where
  "FileLease_Validate ext lease i d =
     (case isRevoked lease i d of
        (None, d) \<Rightarrow> (Some revocation_state_invalid, d)
      | (Some True, d) \<Rightarrow>
          (Some (NewFailure ErrorIdentityMismatch ''browser attachment has been closed'' False), d)
      | (Some False, d) \<Rightarrow>
          (case read_clock d of (now, d) \<Rightarrow>
             (case activeAt ext lease i now d of
                (Inl f, d) \<Rightarrow> (Some f, d)
              | (Inr _, d) \<Rightarrow> (None, d))))"

section \<open>Revoking\<close>

text \<open>The order of the texts of the times; where they agree, of the hashes.\<close>

definition olderRevocation :: "revocation_entry \<Rightarrow> revocation_entry \<Rightarrow> bool" where
  "olderRevocation l r =
     (if rv_RevokedAt l = rv_RevokedAt r then rv_IdentityHash l < rv_IdentityHash r
      else rv_RevokedAt l < rv_RevokedAt r)"

fun oldest_position :: "revocation_entry list \<Rightarrow> nat \<Rightarrow> nat \<Rightarrow> nat" where
  "oldest_position es oldest 0 = oldest"
| "oldest_position es oldest (Suc todo) =
     (let position = length es - Suc todo in
      oldest_position es (if olderRevocation (es ! position) (es ! oldest) then position else oldest) todo)"

definition drop_oldest_entry :: "revocation_entry list \<Rightarrow> revocation_entry list" where
  "drop_oldest_entry es =
     (if maxRevocations \<le> length es then
        (let oldest = oldest_position es 0 (length es - 1) in take oldest es @ drop (Suc oldest) es)
      else es)"

definition listed_before :: "revocation_entry \<Rightarrow> revocation_entry \<Rightarrow> bool" where
  "listed_before l r =
     (if rv_RevokedAt l = rv_RevokedAt r then rv_IdentityHash l < rv_IdentityHash r
      else rv_RevokedAt r < rv_RevokedAt l)"

fun insert_entry :: "revocation_entry \<Rightarrow> revocation_entry list \<Rightarrow> revocation_entry list" where
  "insert_entry e [] = [e]"
| "insert_entry e (x # xs) = (if listed_before x e then x # insert_entry e xs else e # x # xs)"

text \<open>\<^verbatim>\<open>sort.Slice\<close>; the hashes are distinct, so the order determines the result.\<close>

definition sort_entries :: "revocation_entry list \<Rightarrow> revocation_entry list" where
  "sort_entries es = foldr insert_entry es []"

definition new_entry :: "identity \<Rightarrow> go_time \<Rightarrow> lease \<Rightarrow> revocation_entry" where
  "new_entry i now active =
     \<lparr>rv_IdentityHash = browserIdentityHash i, rv_RevokedAt = FormatRFC3339Nano now,
      rv_ExpiresAt = FormatRFC3339Nano (le_ExpiresAt active)\<rparr>"

definition add_revocation :: "identity \<Rightarrow> go_time \<Rightarrow> lease \<Rightarrow> revocation_index \<Rightarrow> revocation_index" where
  "add_revocation i now active index =
     index\<lparr>ri_Entries := sort_entries (drop_oldest_entry (ri_Entries index) @ [new_entry i now active])\<rparr>"

text \<open>Where \<^verbatim>\<open>os.CreateTemp\<close> makes its files in a directory.\<close>

definition temporary_prefix :: "string \<Rightarrow> string" where
  "temporary_prefix directory =
     (if HasSuffix directory ''/'' then directory else directory @ ''/'') @ ''.revocations-''"

text \<open>Writing the new file beside the old one and renaming it; a file that is left over is removed.\<close>

definition discard :: "string \<Rightarrow> disk \<Rightarrow> bool \<times> disk" where
  "discard temporary d = (False, snd (Remove temporary d))"

definition replace_file :: "string \<Rightarrow> string \<Rightarrow> bytes \<Rightarrow> disk \<Rightarrow> bool \<times> disk" where
  "replace_file temporary path raw d =
     (case Chmod temporary 0x180 d of (False, d) \<Rightarrow> discard temporary d | (True, d) \<Rightarrow>
     (case WriteFile temporary raw d of (False, d) \<Rightarrow> discard temporary d | (True, d) \<Rightarrow>
     (case plain_call d of (False, d) \<Rightarrow> discard temporary d | (True, d) \<Rightarrow>
     (case plain_call d of (False, d) \<Rightarrow> discard temporary d | (True, d) \<Rightarrow>
     (case Rename temporary path d of (False, d) \<Rightarrow> discard temporary d | (True, d) \<Rightarrow>
     (case plain_call d of (False, d) \<Rightarrow> (False, d) | (True, d) \<Rightarrow> plain_call d))))))"

definition destination_ok :: "os_error + node \<Rightarrow> bool" where
  "destination_ok r =
     (case r of
        Inr nd \<Rightarrow> is_Regular (nd_kind nd) \<and> private_mode nd
      | Inl e \<Rightarrow> e = ErrNotExist)"

definition writeRevocations :: "file_lease \<Rightarrow> revocation_index \<Rightarrow> disk \<Rightarrow> bool \<times> disk" where
  "writeRevocations lease index d =
     (case revocationPath lease of
        None \<Rightarrow> (False, d)
      | Some path \<Rightarrow>
          (case Lstat (Dir path) d of
             (Inl _, d) \<Rightarrow> (False, d)
           | (Inr nd, d) \<Rightarrow>
               if \<not> private_directory nd then (False, d)
               else (case Lstat path d of (existing, d) \<Rightarrow>
                 if \<not> destination_ok existing then (False, d)
                 else (case fl_index_text lease index of
                   None \<Rightarrow> (False, d)
                 | Some text \<Rightarrow>
                     (let raw = text @ [line_feed] in
                      if maxRevocationBytes < length raw then (False, d)
                      else (case CreateTemp (temporary_prefix (Dir path)) ''.tmp'' d of
                        (None, d) \<Rightarrow> (False, d)
                      | (Some temporary, d) \<Rightarrow> replace_file temporary path raw d))))))"

text \<open>What follows once the lock is held.\<close>

definition revoke_locked :: "externals \<Rightarrow> file_lease \<Rightarrow> identity \<Rightarrow> disk \<Rightarrow> failure option \<times> disk" where
  "revoke_locked ext lease i d =
     (case read_clock d of (current, d) \<Rightarrow>
     (case activeAt ext lease i current d of
        (Inl f, d) \<Rightarrow> (Some f, d)
      | (Inr active, d) \<Rightarrow>
          (case readRevocations lease current d of
             (None, d) \<Rightarrow> (Some revocation_state_invalid, d)
           | (Some index, d) \<Rightarrow>
               (case writeRevocations lease (add_revocation i current active index) d of
                  (False, d) \<Rightarrow>
                    (Some (NewFailure ErrorRuntimeUnavailable
                       ''browser attachment closure could not be persisted'' True), d)
                | (True, d) \<Rightarrow>
                    (case Remove (Clean (fl_Path lease)) d of
                       (Some ErrOther, d) \<Rightarrow>
                         (Some (NewFailure ErrorRuntimeUnavailable
                            ''browser active lease could not be revoked'' True), d)
                     | (_, d) \<Rightarrow> (None, d))))))"

definition FileLease_Revoke :: "externals \<Rightarrow> file_lease \<Rightarrow> identity \<Rightarrow> disk \<Rightarrow> failure option \<times> disk" where
  "FileLease_Revoke ext lease i d =
     (case IsRevoked lease i d of ((revoked, failure), d) \<Rightarrow>
      if failure \<noteq> None \<or> revoked then (failure, d)
      else (case revocationPath lease of
        None \<Rightarrow>
          (Some (NewFailure ErrorRuntimeUnavailable ''browser runtime revocation path is invalid'' False), d)
      | Some path \<Rightarrow>
          (case LockAuthority (Dir path) d of
             (False, d) \<Rightarrow>
               (Some (NewFailure ErrorRuntimeUnavailable ''browser lease authority lock is unavailable'' True), d)
           | (True, d) \<Rightarrow>
               (case IsRevoked lease i d of ((revoked, failure), d) \<Rightarrow>
                  if failure \<noteq> None \<or> revoked then (failure, d)
                  else revoke_locked ext lease i d))))"

text \<open>As the server sees it.\<close>

definition file_lease_validator :: "externals \<Rightarrow> file_lease \<Rightarrow> disk lease_validator" where
  "file_lease_validator ext lease =
     \<lparr>lv_Validate = FileLease_Validate ext lease,
      lv_revoker = Some \<lparr>rv_IsRevoked = IsRevoked lease, rv_Revoke = FileLease_Revoke ext lease\<rparr>\<rparr>"

end
