(* ===== verification/FileLeaseFacts.thy ===== *)
theory FileLeaseFacts
  imports FileLease "HOL-Library.Multiset"
begin

text \<open>
  What holds of the lease in files whatever the system calls do: reads tell the truth or fail,
  the list of revocations is replaced as a whole or not at all, and what was written is read back.
\<close>

section \<open>Calls that change no file\<close>

definition calm :: "disk \<Rightarrow> disk \<Rightarrow> bool" where
  "calm d d' \<longleftrightarrow> dk_nodes d' = dk_nodes d \<and> dk_now d' = dk_now d \<and> dk_ticks d' = dk_ticks d"

lemma calm_refl [simp]: "calm d d"
  by (simp add: calm_def)

lemma calm_trans [trans]: "calm a b \<Longrightarrow> calm b c \<Longrightarrow> calm a c"
  by (simp add: calm_def)

lemma calm_next_outcome: "next_outcome d = (r, d') \<Longrightarrow> calm d d'"
  by (auto simp: next_outcome_def calm_def split: list.splits)

lemma calm_plain_call: "plain_call d = (ok, d') \<Longrightarrow> calm d d'"
  by (auto simp: plain_call_def split: prod.splits outcome.splits dest: calm_next_outcome)

lemma Lstat_truth:
  assumes "Lstat path d = (r, d')"
  shows "calm d d'" "r = Inl ErrNotExist \<Longrightarrow> dk_nodes d path = None" "r = Inr nd \<Longrightarrow> dk_nodes d path = Some nd"
  using assms
  by (auto simp: Lstat_def calm_def split: prod.splits outcome.splits option.splits dest!: calm_next_outcome)

lemma ReadFile_truth:
  assumes "ReadFile path d = (r, d')"
  shows "calm d d'" "r = Some raw \<Longrightarrow> file_bytes path d = Some raw"
  using assms
  by (auto simp: ReadFile_def file_bytes_def calm_def split: prod.splits if_splits dest!: calm_plain_call)

lemma owner_only_bytes: "owner_only limit nd \<Longrightarrow> \<exists>bs. nd_kind nd = Regular bs \<and> 0 < length bs \<and> length bs \<le> limit"
  by (auto simp: owner_only_def split: file_kind.splits)

section \<open>Reading the list\<close>

text \<open>What the list of revocations on the disk says at a time, if it is valid.\<close>

definition index_on :: "file_lease \<Rightarrow> go_time \<Rightarrow> (string \<rightharpoonup> node) \<Rightarrow> revocation_index option" where
  "index_on lease now nodes =
     (case revocationPath lease of
        None \<Rightarrow> None
      | Some path \<Rightarrow>
          (case nodes path of
             None \<Rightarrow> Some empty_index
           | Some nd \<Rightarrow>
               if \<not> owner_only maxRevocationBytes nd then None
               else (case nd_kind nd of Regular raw \<Rightarrow> index_of_bytes lease now raw | _ \<Rightarrow> None)))"

lemma readRevocations_truth:
  assumes "readRevocations lease now d = (r, d')"
  shows "calm d d' \<and> (r = None \<or> r = index_on lease now (dk_nodes d))"
proof (cases "revocationPath lease")
  case None
  with assms show ?thesis by (simp add: readRevocations_def)
next
  case (Some path)
  obtain x d1 where l: "Lstat path d = (x, d1)" by fastforce
  note t = Lstat_truth [OF l]
  show ?thesis
  proof (cases x)
    case (Inl e)
    with assms Some l t show ?thesis
      by (cases e) (auto simp: readRevocations_def index_on_def)
  next
    case (Inr nd)
    show ?thesis
    proof (cases "owner_only maxRevocationBytes nd")
      case False
      with assms Some l t Inr show ?thesis by (auto simp: readRevocations_def)
    next
      case True
      then obtain bs where bs: "nd_kind nd = Regular bs" by (auto dest: owner_only_bytes)
      obtain y d2 where rf: "ReadFile path d1 = (y, d2)" by fastforce
      note u = ReadFile_truth [OF rf]
      have c: "calm d d2" using calm_trans [OF t(1) u(1)] .
      have "y = None \<or> y = Some bs"
        using u(2) t(3) [OF Inr] t(1) bs by (cases y) (auto simp: file_bytes_def calm_def)
      with assms Some l Inr True rf t(3) [OF Inr] bs c show ?thesis
        by (auto simp: readRevocations_def index_on_def)
    qed
  qed
qed

text \<open>Time only drops entries.\<close>

lemma retained_later:
  "retained now e = Some keep \<Longrightarrow> now \<le> later \<Longrightarrow> \<exists>k. retained later e = Some k \<and> (k \<longrightarrow> keep)"
  by (auto simp: retained_def split: option.splits if_splits prod.splits)

lemma retained_invalid: "retained now e = None \<longleftrightarrow> retained later e = None"
  by (auto simp: retained_def split: option.splits if_splits prod.splits)

lemma retain_entries_iff:
  "retain_entries now seen es \<noteq> None \<longleftrightarrow>
     distinct (map rv_IdentityHash es) \<and> rv_IdentityHash ` set es \<inter> seen = {}
     \<and> (\<forall>e \<in> set es. retained now e \<noteq> None)"
  by (induction now seen es rule: retain_entries.induct) (auto split: option.splits)

lemma retain_entries_eq:
  "retain_entries now seen es = Some kept \<Longrightarrow> kept = filter (\<lambda>e. retained now e = Some True) es"
  by (induction now seen es arbitrary: kept rule: retain_entries.induct)
    (auto split: option.splits if_splits)

lemma retain_entries_Some:
  assumes "distinct (map rv_IdentityHash es)" "\<forall>e \<in> set es. retained now e \<noteq> None"
  shows "retain_entries now {} es = Some (filter (\<lambda>e. retained now e = Some True) es)"
proof -
  have "retain_entries now {} es \<noteq> None" using assms by (subst retain_entries_iff) simp
  then obtain kept where "retain_entries now {} es = Some kept" by blast
  with retain_entries_eq [OF this] show ?thesis by simp
qed

text \<open>A list that can be written and read: at most 256 valid entries with distinct hashes.\<close>

definition valid_index :: "revocation_index \<Rightarrow> bool" where
  "valid_index index \<longleftrightarrow>
     ri_ContractID index = revocationContractID \<and> length (ri_Entries index) \<le> maxRevocations
     \<and> distinct (map rv_IdentityHash (ri_Entries index))
     \<and> (\<forall>e \<in> set (ri_Entries index). retained 0 e \<noteq> None)"

lemma retained_anytime: "retained 0 e \<noteq> None \<longleftrightarrow> retained now e \<noteq> None"
  using retained_invalid [of 0 e now] by simp

lemma index_of_bytes_valid:
  assumes "index_of_bytes lease now raw = Some index"
  shows "valid_index index"
proof -
  from assms obtain ix es where ix: "ri_ContractID ix = revocationContractID"
    "length (ri_Entries ix) \<le> maxRevocations" "retain_entries now {} (ri_Entries ix) = Some es"
    "index = ix\<lparr>ri_Entries := es\<rparr>"
    by (auto simp: index_of_bytes_def split: option.splits if_splits)
  have ok: "distinct (map rv_IdentityHash (ri_Entries ix))" "\<forall>e \<in> set (ri_Entries ix). retained now e \<noteq> None"
    using ix(3) retain_entries_iff [of now "{}" "ri_Entries ix"] by auto
  have es: "es = filter (\<lambda>e. retained now e = Some True) (ri_Entries ix)"
    using retain_entries_eq [OF ix(3)] .
  have "length es \<le> maxRevocations" using ix(2) es le_trans [OF length_filter_le] by blast
  moreover have "distinct (map rv_IdentityHash es)" using ok(1) es by (simp add: distinct_map_filter)
  moreover have "\<forall>e \<in> set es. retained 0 e \<noteq> None" using ok(2) es retained_anytime by (metis filter_is_subset subsetD)
  ultimately show ?thesis using ix by (simp add: valid_index_def)
qed

lemma index_on_valid: "index_on lease now nodes = Some index \<Longrightarrow> valid_index index"
  by (auto simp: index_on_def empty_index_def valid_index_def maxRevocations_def
      dest: index_of_bytes_valid split: option.splits if_splits file_kind.splits)

section \<open>Replacing the list\<close>

text \<open>Nothing but the files of \<open>P\<close> may differ.\<close>

definition only_at :: "string set \<Rightarrow> disk \<Rightarrow> disk \<Rightarrow> bool" where
  "only_at P d d' \<longleftrightarrow>
     dk_now d' = dk_now d \<and> dk_ticks d' = dk_ticks d \<and> (\<forall>p. p \<notin> P \<longrightarrow> dk_nodes d' p = dk_nodes d p)"

lemma only_at_calm: "calm d d' \<Longrightarrow> only_at P d d'"
  by (simp add: only_at_def calm_def)

lemma only_at_trans: "only_at P a b \<Longrightarrow> only_at Q b c \<Longrightarrow> only_at (P \<union> Q) a c"
  by (simp add: only_at_def)

lemma only_at_mono: "only_at P a b \<Longrightarrow> P \<subseteq> Q \<Longrightarrow> only_at Q a b"
  by (auto simp: only_at_def)

lemma set_node_selectors [simp]:
  "dk_nodes (set_node p nd d) = (dk_nodes d)(p := nd)" "dk_now (set_node p nd d) = dk_now d"
  "dk_ticks (set_node p nd d) = dk_ticks d"
  by (simp_all add: set_node_def)

lemma Chmod_step:
  assumes "Chmod t perm d = (ok, d')"
  shows "only_at {t} d d'" "ok \<Longrightarrow> dk_nodes d' t = map_option (\<lambda>nd. nd\<lparr>nd_perm := perm\<rparr>) (dk_nodes d t)"
  using assms
  by (auto simp: Chmod_def only_at_def calm_def split: prod.splits if_splits dest!: calm_plain_call)

lemma WriteFile_step:
  assumes "WriteFile t bs d = (ok, d')"
  shows "only_at {t} d d'" "ok \<Longrightarrow> dk_nodes d' t = map_option (append_bytes bs) (dk_nodes d t)"
  using assms
  by (auto simp: WriteFile_def only_at_def calm_def split: prod.splits outcome.splits dest!: calm_next_outcome)

lemma Rename_step:
  assumes "Rename old new d = (ok, d')" "old \<noteq> new"
  shows "only_at {old, new} d d'" "ok \<Longrightarrow> dk_nodes d' new = dk_nodes d old" "\<not> ok \<Longrightarrow> calm d d'"
  using assms
  by (auto simp: Rename_def only_at_def calm_def split: prod.splits if_splits dest!: calm_plain_call)

lemma Remove_step:
  assumes "Remove t d = (r, d')"
  shows "only_at {t} d d'" "r \<noteq> Some ErrOther \<Longrightarrow> dk_nodes d' t = None"
  using assms
  by (auto simp: Remove_def only_at_def calm_def split: prod.splits if_splits dest!: calm_plain_call)

lemma discard_step:
  assumes "discard t d = (ok, d')"
  shows "\<not> ok" "only_at {t} d d'"
  using assms Remove_step(1) [of t d "fst (Remove t d)" "snd (Remove t d)"] by (auto simp: discard_def)

text \<open>The file at the path is the old one or the complete new one; if the write succeeded, the new one.\<close>

definition replaced :: "string \<Rightarrow> bytes \<Rightarrow> disk \<Rightarrow> bool \<Rightarrow> disk \<Rightarrow> bool" where
  "replaced path raw d ok d' \<longleftrightarrow>
     (let new = Some \<lparr>nd_kind = Regular raw, nd_perm = 0x180, nd_owned = True\<rparr> in
      dk_nodes d' path = new \<or> \<not> ok \<and> dk_nodes d' path = dk_nodes d path)"

lemma replaced_not_yet:
  assumes "only_at {t} d d1" "t \<noteq> path" "discard t d1 = (ok, d')"
  shows "only_at {t, path} d d' \<and> replaced path raw d ok d'"
  using assms discard_step [OF assms(3)] by (auto simp: only_at_def replaced_def)

lemma replace_file_atomic:
  assumes run: "replace_file t path raw d = (ok, d')" and ne: "t \<noteq> path"
    and fresh: "dk_nodes d t = Some \<lparr>nd_kind = Regular [], nd_perm = 0x180, nd_owned = True\<rparr>"
  shows "only_at {t, path} d d' \<and> replaced path raw d ok d'"
proof -
  obtain ok1 d1 where c: "Chmod t 0x180 d = (ok1, d1)" by fastforce
  note 1 = Chmod_step [OF c]
  show ?thesis
  proof (cases ok1)
    case False
    with run c have "discard t d1 = (ok, d')" by (simp add: replace_file_def)
    from replaced_not_yet [OF 1(1) ne this] show ?thesis .
  next
    case True
    obtain ok2 d2 where w: "WriteFile t raw d1 = (ok2, d2)" by fastforce
    note 2 = WriteFile_step [OF w]
    have on2: "only_at {t} d d2" using only_at_trans [OF 1(1) 2(1)] by simp
    show ?thesis
    proof (cases ok2)
      case False
      with run c True w have "discard t d2 = (ok, d')" by (simp add: replace_file_def)
      from replaced_not_yet [OF on2 ne this] show ?thesis .
    next
      case ok2: True
      have n2: "dk_nodes d2 t = Some \<lparr>nd_kind = Regular raw, nd_perm = 0x180, nd_owned = True\<rparr>"
        using 1(2) [OF True] 2(2) [OF ok2] fresh by (simp add: append_bytes_def)
      obtain ok3 d3 where s: "plain_call d2 = (ok3, d3)" by fastforce
      obtain ok4 d4 where cl: "plain_call d3 = (ok4, d4)" by fastforce
      have on3: "only_at {t} d d3" "only_at {t} d d4"
        using only_at_trans [OF on2 only_at_calm [OF calm_plain_call [OF s], of "{t}"]]
          only_at_trans [OF on2 only_at_calm [OF calm_trans [OF calm_plain_call [OF s] calm_plain_call [OF cl]], of "{t}"]]
        by simp_all
      show ?thesis
      proof (cases "ok3 \<and> ok4")
        case False
        with run c True w ok2 s cl have "discard t d3 = (ok, d') \<or> discard t d4 = (ok, d')"
          by (auto simp: replace_file_def split: bool.splits)
        with replaced_not_yet [OF on3(1) ne] replaced_not_yet [OF on3(2) ne] show ?thesis by blast
      next
        case ok4: True
        obtain ok5 d5 where r: "Rename t path d4 = (ok5, d5)" by fastforce
        note 5 = Rename_step [OF r ne]
        show ?thesis
        proof (cases ok5)
          case False
          have "only_at {t} d d5" using only_at_trans [OF on3(2) only_at_calm [OF 5(3) [OF False], of "{t}"]] by simp
          moreover from False run c True w ok2 s cl ok4 r have "discard t d5 = (ok, d')"
            by (simp add: replace_file_def)
          ultimately show ?thesis by (rule replaced_not_yet [OF _ ne])
        next
          case ok5: True
          obtain ok6 d6 where o: "plain_call d5 = (ok6, d6)" by fastforce
          obtain ok7 d7 where f: "plain_call d6 = (ok7, d7)" by fastforce
          from run c True w ok2 s cl ok4 r ok5 o f have "d' = d6 \<or> d' = d7"
            by (auto simp: replace_file_def split: bool.splits)
          then have "calm d5 d'" using calm_plain_call [OF o] calm_plain_call [OF f] calm_trans by blast
          moreover have "dk_nodes d5 path = dk_nodes d2 t"
            using 5(2) [OF ok5] calm_plain_call [OF s] calm_plain_call [OF cl] by (simp add: calm_def)
          ultimately show ?thesis
            using n2 only_at_trans [OF only_at_trans [OF on3(2) 5(1)] only_at_calm, of d' "{}"]
            by (simp add: replaced_def calm_def insert_commute)
        qed
      qed
    qed
  qed
qed

section \<open>Names\<close>

lemma Split_snoc_element:
  assumes "c \<notin> set b"
  shows "Split (a @ c # b) c = Split a c @ [b]"
proof (induction a)
  case Nil
  then show ?case using Split_no_separator [OF assms] by simp
next
  case (Cons x a)
  then show ?case using Split_not_Nil [of a c] by (auto split: list.splits)
qed

lemma JoinWith_snoc: "JoinWith c (xs @ [b]) = (if xs = [] then b else JoinWith c xs @ c # b)"
  by (induction xs rule: JoinWith.induct) auto

text \<open>A path under a directory ends in the name that was joined to it.\<close>

lemma Clean_ends_in_name:
  assumes "CHR ''/'' \<notin> set b" "b \<noteq> []" "b \<noteq> ''.''" "b \<noteq> ''..''"
  shows "\<exists>front. Clean (a @ ''/'' @ b) = front @ b"
proof -
  obtain kept where "foldl (clean_step (IsAbs (a @ ''/'' @ b))) [] (Split (a @ ''/'' @ b) (CHR ''/'')) = b # kept"
    using Split_snoc_element [OF assms(1), of a] assms by (simp add: clean_step_def)
  then show ?thesis
    by (auto simp: Clean_def Let_def JoinWith_snoc)
qed

lemma revocationPath_last:
  assumes "revocationPath lease = Some path"
  shows "path \<noteq> [] \<and> last path = CHR ''n''"
proof -
  have "path = Join (Dir (Clean (TrimSpace (fl_Path lease)))) revocationFileName"
    using assms by (simp add: revocationPath_def Let_def split: if_splits)
  moreover have "\<exists>front. Join a revocationFileName = front @ revocationFileName" for a
  proof (cases "a = []")
    case True
    have "Clean revocationFileName = revocationFileName" by code_simp
    with True show ?thesis by (simp add: Join_def revocationFileName_def)
  next
    case False
    have "\<exists>front. Clean (a @ ''/'' @ revocationFileName) = front @ revocationFileName"
      by (rule Clean_ends_in_name) (simp_all add: revocationFileName_def)
    with False show ?thesis by (simp add: Join_def)
  qed
  ultimately obtain front where "path = front @ revocationFileName" by blast
  then show ?thesis by (simp add: revocationFileName_def)
qed

lemma fresh_name_free:
  assumes "fresh_name nodes prefix suffix names = Some t"
  shows "nodes t = None" "\<exists>n. t = prefix @ n @ suffix \<and> n \<noteq> [] \<and> list_all is_digit n"
  using assms by (induction nodes prefix suffix names rule: fresh_name.induct) (auto split: if_splits)

section \<open>Writing the list\<close>

lemma CreateTemp_step:
  assumes "CreateTemp prefix suffix d = (r, d')"
  shows "r = None \<Longrightarrow> calm d d'"
    "r = Some t \<Longrightarrow> only_at {t} d d' \<and> dk_nodes d t = None
      \<and> (\<exists>n. t = prefix @ n @ suffix \<and> n \<noteq> [] \<and> list_all is_digit n)
      \<and> dk_nodes d' t = Some \<lparr>nd_kind = Regular [], nd_perm = 0x180, nd_owned = True\<rparr>"
  using assms
  by (auto simp: CreateTemp_def only_at_def calm_def split: prod.splits if_splits option.splits
      dest!: calm_plain_call dest: fresh_name_free)

lemma writeRevocations_atomic:
  assumes run: "writeRevocations lease index d = (ok, d')" and path: "revocationPath lease = Some path"
  shows "calm d d' \<and> \<not> ok \<or> (\<exists>t. dk_nodes d t = None \<and> only_at {t, path} d d'
    \<and> (dk_nodes d' path = dk_nodes d path \<and> \<not> ok
       \<or> (\<exists>js. fl_index_text lease index = Some js \<and> length js < maxRevocationBytes
            \<and> dk_nodes d' path = Some \<lparr>nd_kind = Regular (js @ [line_feed]), nd_perm = 0x180, nd_owned = True\<rparr>)))"
    (is "_ \<or> (\<exists>t. ?outcome t)")
proof -
  obtain x d1 where l1: "Lstat (Dir path) d = (x, d1)" by fastforce
  obtain y d2 where l2: "Lstat path d1 = (y, d2)" by fastforce
  have c: "calm d d1" "calm d d2"
    using Lstat_truth(1) [OF l1] calm_trans [OF Lstat_truth(1) [OF l1] Lstat_truth(1) [OF l2]] by simp_all
  show ?thesis
  proof (cases "(\<exists>nd. x = Inr nd \<and> private_directory nd) \<and> destination_ok y
      \<and> (\<exists>js. fl_index_text lease index = Some js \<and> length js < maxRevocationBytes)")
    case False
    with run path l1 l2 have "(d' = d1 \<or> d' = d2) \<and> \<not> ok"
      by (auto simp: writeRevocations_def Let_def split: sum.splits if_splits option.splits prod.splits)
    with c show ?thesis by blast
  next
    case True
    then obtain nd js where ok: "x = Inr nd" "private_directory nd" "destination_ok y"
      "fl_index_text lease index = Some js" "length js < maxRevocationBytes" by blast
    obtain z d3 where ct: "CreateTemp (temporary_prefix (Dir path)) ''.tmp'' d2 = (z, d3)" by fastforce
    note 3 = CreateTemp_step [OF ct]
    show ?thesis
    proof (cases z)
      case None
      with run path l1 l2 ok ct have "d' = d3" "\<not> ok" 
        by (auto simp: writeRevocations_def Let_def split: sum.splits if_splits option.splits prod.splits)
      with 3(1) [OF None] calm_trans [OF c(2)] show ?thesis by blast
    next
      case (Some t)
      with run path l1 l2 ok ct have "replace_file t path (js @ [line_feed]) d3 = (ok, d')"
        by (simp add: writeRevocations_def)
      moreover obtain n where "t = temporary_prefix (Dir path) @ n @ ''.tmp''" using 3(2) [OF Some] by blast
      then have "last t = CHR ''p''" by simp
      then have "t \<noteq> path" using revocationPath_last [OF path] by auto
      ultimately have "only_at {t, path} d3 d' \<and> replaced path (js @ [line_feed]) d3 ok d'"
        using 3(2) [OF Some] by (intro replace_file_atomic) simp_all
      moreover have "only_at {t} d d3" "dk_nodes d t = None"
        using 3(2) [OF Some] c(2) by (simp_all add: calm_def only_at_def)
      ultimately have "?outcome t"
        using only_at_trans [of "{t}" d d3 "{t, path}" d'] ok \<open>t \<noteq> path\<close>
        by (auto simp: replaced_def Let_def only_at_def)
      then show ?thesis by blast
    qed
  qed
qed

section \<open>The new entry\<close>

lemma mset_insert_entry: "mset (insert_entry e es) = add_mset e (mset es)"
  by (induction es) auto

lemma mset_sort_entries: "mset (sort_entries es) = mset es"
  by (induction es) (simp_all add: sort_entries_def mset_insert_entry)

lemma sort_entries_permutes:
  "set (sort_entries es) = set es" "length (sort_entries es) = length es"
  "distinct (map rv_IdentityHash (sort_entries es)) = distinct (map rv_IdentityHash es)"
proof -
  have m: "mset (sort_entries es) = mset es" by (rule mset_sort_entries)
  show "set (sort_entries es) = set es" by (rule mset_eq_setD [OF m])
  show "length (sort_entries es) = length es" by (rule mset_eq_length [OF m])
  show "distinct (map rv_IdentityHash (sort_entries es)) = distinct (map rv_IdentityHash es)"
    by (rule mset_eq_imp_distinct_iff) (simp add: m)
qed

lemma oldest_position_bound: "oldest < length es \<Longrightarrow> oldest_position es oldest todo < length es \<or> length es < Suc todo"
proof (induction es oldest todo rule: oldest_position.induct)
  case (2 es oldest todo)
  then show ?case by (cases "Suc todo \<le> length es") (auto simp: Let_def split: if_splits)
qed simp

lemma drop_oldest_entry_spec:
  assumes "length es \<le> maxRevocations"
  shows "length (drop_oldest_entry es) < maxRevocations" "set (drop_oldest_entry es) \<subseteq> set es"
    "distinct (map rv_IdentityHash es) \<Longrightarrow> distinct (map rv_IdentityHash (drop_oldest_entry es))"
proof -
  let ?k = "oldest_position es 0 (length es - 1)"
  have k: "?k < length es" if "maxRevocations \<le> length es"
    using oldest_position_bound [of 0 es "length es - 1"] that by (cases es) (auto simp: maxRevocations_def)
  then show "length (drop_oldest_entry es) < maxRevocations"
    using assms by (auto simp: drop_oldest_entry_def Let_def maxRevocations_def)
  show "set (drop_oldest_entry es) \<subseteq> set es"
    by (auto simp: drop_oldest_entry_def Let_def dest: in_set_takeD in_set_dropD)
  show "distinct (map rv_IdentityHash (drop_oldest_entry es))" if "distinct (map rv_IdentityHash es)"
  proof (cases "maxRevocations \<le> length es")
    case True
    have "es = take ?k es @ es ! ?k # drop (Suc ?k) es" using k [OF True] by (simp add: id_take_nth_drop)
    then have "distinct (map rv_IdentityHash (take ?k es @ es ! ?k # drop (Suc ?k) es))" using that by simp
    then show ?thesis using True by (simp add: drop_oldest_entry_def Let_def)
  qed (use that in \<open>simp add: drop_oldest_entry_def\<close>)
qed

definition storable_time :: "go_time \<Rightarrow> bool" where
  "storable_time t \<longleftrightarrow> 0 \<le> t \<and> t < days_before_year 10000 * 86400 * Second"

lemma retained_new_entry:
  assumes "storable_time now" "storable_time (le_ExpiresAt active)" "now \<le> le_ExpiresAt active"
  shows "retained later (new_entry i now active) = Some (later < le_ExpiresAt active)"
proof -
  have "ParseRFC3339Nano (FormatRFC3339Nano t) = Some (t, True)" if "storable_time t" for t
    using that by (intro ParseRFC3339Nano_Format) (simp_all add: storable_time_def)
  moreover have "FormatRFC3339Nano t \<noteq> []" for t by (simp add: FormatRFC3339Nano_def)
  moreover have "hex_decode (browserIdentityHash i) \<noteq> None"
    by (simp add: browserIdentityHash_def sha256_hex_def hex_decode_encode)
  ultimately show ?thesis
    using assms by (simp add: retained_def new_entry_def browserIdentityHash_def)
qed

lemma valid_add_revocation:
  assumes "valid_index index" "browserIdentityHash i \<notin> rv_IdentityHash ` set (ri_Entries index)"
    and "storable_time now" "storable_time (le_ExpiresAt active)" "now \<le> le_ExpiresAt active"
  shows "valid_index (add_revocation i now active index)"
    "new_entry i now active \<in> set (ri_Entries (add_revocation i now active index))"
proof -
  have len: "length (ri_Entries index) \<le> maxRevocations" using assms(1) by (simp add: valid_index_def)
  note drop = drop_oldest_entry_spec [OF len]
  have "retained 0 (new_entry i now active) \<noteq> None"
    using retained_new_entry [OF assms(3-5)] by simp
  moreover have "rv_IdentityHash (new_entry i now active) \<notin> rv_IdentityHash ` set (drop_oldest_entry (ri_Entries index))"
    using assms(2) drop(2) by (auto simp: new_entry_def)
  ultimately show "valid_index (add_revocation i now active index)"
    using assms(1) drop
    by (auto simp: valid_index_def add_revocation_def sort_entries_permutes)
  show "new_entry i now active \<in> set (ri_Entries (add_revocation i now active index))"
    by (simp add: add_revocation_def sort_entries_permutes)
qed

section \<open>Reading back\<close>

text \<open>
  What is relied on of \<^verbatim>\<open>encoding/json\<close>: a list of valid entries, whose texts are plain ASCII, is
  read back as it was written. And the JSON reader only gives times with a four-digit year.
\<close>

definition json_round_trip :: "file_lease \<Rightarrow> bool" where
  "json_round_trip lease \<longleftrightarrow>
     (\<forall>index js. valid_index index \<longrightarrow> fl_index_text lease index = Some js \<longrightarrow>
        strict_decode (fl_index_codec lease) (js @ [line_feed]) = Some index)"

definition json_times :: "file_lease \<Rightarrow> bool" where
  "json_times lease \<longleftrightarrow>
     (\<forall>raw l. strict_decode (fl_lease_codec lease) raw = Some l \<longrightarrow> storable_time (le_ExpiresAt l))"

lemma index_of_bytes_written:
  assumes "json_round_trip lease" "valid_index index" "fl_index_text lease index = Some js"
  shows "index_of_bytes lease now (js @ [line_feed])
    = Some (index\<lparr>ri_Entries := filter (\<lambda>e. retained now e = Some True) (ri_Entries index)\<rparr>)"
proof -
  have "strict_decode (fl_index_codec lease) (js @ [line_feed]) = Some index"
    using assms by (auto simp: json_round_trip_def)
  moreover have "retain_entries now {} (ri_Entries index)
    = Some (filter (\<lambda>e. retained now e = Some True) (ri_Entries index))"
  proof (rule retain_entries_Some)
    show "\<forall>e \<in> set (ri_Entries index). retained now e \<noteq> None"
      using assms(2) retained_anytime unfolding valid_index_def by metis
  qed (use assms(2) in \<open>simp add: valid_index_def\<close>)
  ultimately show ?thesis using assms(2) by (simp add: index_of_bytes_def valid_index_def)
qed

lemma index_on_written:
  assumes "json_round_trip lease" "valid_index index" "fl_index_text lease index = Some js"
    and "length js < maxRevocationBytes" "revocationPath lease = Some path"
    and "nodes path = Some \<lparr>nd_kind = Regular (js @ [line_feed]), nd_perm = 0x180, nd_owned = True\<rparr>"
  shows "index_on lease now nodes
    = Some (index\<lparr>ri_Entries := filter (\<lambda>e. retained now e = Some True) (ri_Entries index)\<rparr>)"
proof -
  have "owner_only maxRevocationBytes \<lparr>nd_kind = Regular (js @ [line_feed]), nd_perm = 0x180, nd_owned = True\<rparr>"
    using assms(4) by (simp add: owner_only_def private_mode_def)
  with assms(5,6) index_of_bytes_written [OF assms(1-3)] show ?thesis by (simp add: index_on_def)
qed

end
