(* ===== verification/RevokeFacts.thy ===== *)
theory RevokeFacts
  imports FileLeaseFacts
begin

text \<open>
  What a call of the lease in files does as a whole: the effect of \<^verbatim>\<open>Revoke\<close> on the disk, what it
  takes for \<^verbatim>\<open>Validate\<close> to accept, and that every refusal is reportable.
\<close>

section \<open>The clock\<close>

definition ticking :: "disk \<Rightarrow> bool" where
  "ticking d \<longleftrightarrow> list_all (\<lambda>t. 0 \<le> t) (dk_ticks d)"

lemma ticking_calm: "calm d d' \<Longrightarrow> ticking d' = ticking d"
  by (simp add: ticking_def calm_def)

lemma read_clock_step:
  assumes "read_clock d = (now, d')"
  shows "dk_nodes d' = dk_nodes d" "dk_now d' = now" "ticking d \<Longrightarrow> dk_now d \<le> now \<and> ticking d'"
  using assms by (auto simp: read_clock_def ticking_def split: list.splits)

section \<open>What the reads say\<close>

lemma isRevoked_truth:
  assumes "isRevoked lease i d = (r, d')"
  shows "dk_nodes d' = dk_nodes d" "ticking d \<Longrightarrow> dk_now d \<le> dk_now d' \<and> ticking d'"
    "r = Some b \<Longrightarrow> \<exists>index. index_on lease (dk_now d') (dk_nodes d) = Some index
      \<and> b = (browserIdentityHash i \<in> rv_IdentityHash ` set (ri_Entries index))"
proof -
  obtain now d1 where c: "read_clock d = (now, d1)" by fastforce
  obtain x d2 where r: "readRevocations lease now d1 = (x, d2)" by fastforce
  note clock = read_clock_step [OF c] and truth = readRevocations_truth [OF r]
  have d': "d' = d2" "r = map_option (\<lambda>ix. browserIdentityHash i \<in> rv_IdentityHash ` set (ri_Entries ix)) x"
    using assms c r by (simp_all add: isRevoked_def)
  then show "dk_nodes d' = dk_nodes d" "ticking d \<Longrightarrow> dk_now d \<le> dk_now d' \<and> ticking d'"
    using clock truth ticking_calm [of d1 d2] by (auto simp: calm_def)
  show "\<exists>index. index_on lease (dk_now d') (dk_nodes d) = Some index
      \<and> b = (browserIdentityHash i \<in> rv_IdentityHash ` set (ri_Entries index))" if "r = Some b"
  proof -
    from that d'(2) obtain ix where "x = Some ix" "b = (browserIdentityHash i \<in> rv_IdentityHash ` set (ri_Entries ix))"
      by auto
    moreover from this truth clock d'(1) have "index_on lease (dk_now d') (dk_nodes d) = Some ix"
      by (simp add: calm_def)
    ultimately show ?thesis by blast
  qed
qed

lemma IsRevoked_isRevoked:
  "IsRevoked lease i d = ((b, None), d') \<longleftrightarrow> isRevoked lease i d = (Some b, d')"
  by (cases "isRevoked lease i d") (auto simp: IsRevoked_def split: option.splits)

lemma retain_entries_later:
  assumes "retain_entries now {} es = Some kept" "now \<le> later"
  shows "\<exists>kept'. retain_entries later {} es = Some kept' \<and> set kept' \<subseteq> set kept"
proof -
  have ok: "distinct (map rv_IdentityHash es)" "\<forall>e \<in> set es. retained now e \<noteq> None"
    using assms(1) retain_entries_iff [of now "{}" es] by auto
  then have "\<forall>e \<in> set es. retained later e \<noteq> None" using retained_invalid by blast
  from retain_entries_Some [OF ok(1) this]
  have "retain_entries later {} es = Some (filter (\<lambda>e. retained later e = Some True) es)" .
  moreover have "set (filter (\<lambda>e. retained later e = Some True) es) \<subseteq> set kept"
    using retain_entries_eq [OF assms(1)] ok(2) retained_later [OF _ assms(2)] by fastforce
  ultimately show ?thesis by blast
qed

lemma index_of_bytes_later:
  assumes "index_of_bytes lease now raw = Some index" "now \<le> later"
  shows "\<exists>index'. index_of_bytes lease later raw = Some index' \<and> set (ri_Entries index') \<subseteq> set (ri_Entries index)"
proof -
  from assms(1) obtain ix es where ix: "strict_decode (fl_index_codec lease) raw = Some ix"
    "ri_ContractID ix = revocationContractID" "length (ri_Entries ix) \<le> maxRevocations"
    "retain_entries now {} (ri_Entries ix) = Some es" "index = ix\<lparr>ri_Entries := es\<rparr>"
    by (auto simp: index_of_bytes_def split: option.splits if_splits)
  from retain_entries_later [OF ix(4) assms(2)] obtain es' where
    "retain_entries later {} (ri_Entries ix) = Some es'" "set es' \<subseteq> set es" by blast
  with ix show ?thesis by (simp add: index_of_bytes_def)
qed

lemma index_on_later:
  assumes "index_on lease now nodes = Some index" "now \<le> later"
  shows "\<exists>index'. index_on lease later nodes = Some index' \<and> set (ri_Entries index') \<subseteq> set (ri_Entries index)"
  using assms index_of_bytes_later [OF _ assms(2)]
  by (auto simp: index_on_def split: option.splits if_splits file_kind.splits)

text \<open>The path of the lease document.\<close>

definition leasePath :: "file_lease \<Rightarrow> string" where
  "leasePath lease = Clean (TrimSpace (fl_Path lease))"

lemma activeAt_truth:
  assumes "activeAt ext lease i now d = (r, d')"
  shows "calm d d'" "r = Inr active \<Longrightarrow> \<exists>nd raw. dk_nodes d (leasePath lease) = Some nd
    \<and> nd_kind nd = Regular raw \<and> raw \<noteq> [] \<and> lease_of_bytes ext lease i now raw = Inr active"
proof -
  let ?path = "leasePath lease"
  obtain x d1 where l: "Lstat ?path d = (x, d1)" by fastforce
  obtain ok d2 where o: "plain_call d1 = (ok, d2)" by fastforce
  obtain y d3 where rf: "ReadFile ?path d2 = (y, d3)" by fastforce
  note 1 = Lstat_truth [OF l] and 2 = calm_plain_call [OF o] and 3 = ReadFile_truth [OF rf]
  have "d' \<in> {d, d1, d2, d3}"
    using assms l o rf by (auto simp: activeAt_def leasePath_def Let_def split: sum.splits if_splits bool.splits)
  then show "calm d d'" using 1(1) 2 3(1) calm_trans calm_refl by blast
  assume "r = Inr active"
  with assms l o rf obtain nd raw where x: "x = Inr nd" "owner_only maxActiveLeaseBytes nd" "y = Some raw"
    "lease_of_bytes ext lease i now raw = Inr active"
    by (auto simp: activeAt_def leasePath_def Let_def split: sum.splits if_splits bool.splits option.splits)
  obtain bs where bs: "nd_kind nd = Regular bs" "bs \<noteq> []" using owner_only_bytes [OF x(2)] by blast
  have "raw = bs" using 3(2) [OF x(3)] 1(3) [OF x(1)] 1(1) 2 bs by (simp add: file_bytes_def calm_def)
  with bs x 1(3) [OF x(1)] show "\<exists>nd raw. dk_nodes d ?path = Some nd
    \<and> nd_kind nd = Regular raw \<and> raw \<noteq> [] \<and> lease_of_bytes ext lease i now raw = Inr active" by blast
qed

lemma lease_of_bytes_accepts:
  assumes "lease_of_bytes ext lease i now raw = Inr active"
  shows "strict_decode (fl_lease_codec lease) raw = Some active" "now < le_ExpiresAt active"
  using assms
  by (auto simp: lease_of_bytes_def Lease_Validate_def reject_if_def or_else_def split: option.splits if_splits)

section \<open>Revoking\<close>

lemma open_lock_step:
  assumes "open_lock path d = (ok, d')"
  shows "only_at {path} d d' \<and> (dk_nodes d path \<noteq> None \<longrightarrow> dk_nodes d' path = dk_nodes d path)
    \<and> (dk_nodes d' path \<noteq> dk_nodes d path \<longrightarrow> map_option nd_kind (dk_nodes d' path) = Some (Regular []))"
  using assms
  by (auto simp: open_lock_def only_at_def calm_def split: prod.splits bool.splits option.splits
      dest!: calm_plain_call)

lemma LockAuthority_step:
  assumes "LockAuthority rootdir d = (ok, d')"
  shows "only_at {Join (Clean rootdir) AuthorityLockFile} d d'"
    "dk_nodes d p \<noteq> None \<Longrightarrow> dk_nodes d' p = dk_nodes d p"
    "map_option nd_kind (dk_nodes d' p) \<noteq> Some (Regular []) \<Longrightarrow> dk_nodes d' p = dk_nodes d p"
proof -
  let ?lock = "Join (Clean rootdir) AuthorityLockFile"
  obtain x d1 where l: "Lstat (Clean rootdir) d = (x, d1)" by fastforce
  obtain ok2 d2 where o: "open_lock ?lock d1 = (ok2, d2)" by fastforce
  obtain y d3 where s: "Lstat ?lock d2 = (y, d3)" by fastforce
  obtain ok4 d4 where f: "plain_call d3 = (ok4, d4)" by fastforce
  note 1 = Lstat_truth(1) [OF l] and 2 = open_lock_step [OF o] and 3 = Lstat_truth(1) [OF s]
    and 4 = calm_plain_call [OF f]
  have d': "d' \<in> {d, d1, d2, d3, d4}"
    using assms l o s f by (auto simp: LockAuthority_def Let_def split: sum.splits if_splits bool.splits)
  have on: "only_at {?lock} d d2" using 1 2 by (simp add: only_at_def calm_def)
  then have "\<forall>e \<in> {d, d1, d2, d3, d4}. only_at {?lock} d e" using 1 3 4 by (simp add: only_at_def calm_def)
  with d' show "only_at {?lock} d d'" by blast
  show "dk_nodes d' p = dk_nodes d p" if "dk_nodes d p \<noteq> None"
  proof (cases "p = ?lock")
    case True
    then have "dk_nodes d2 p = dk_nodes d p" using 1 2 that by (simp add: calm_def)
    with d' 1 3 4 show ?thesis by (auto simp: calm_def)
  next
    case False
    with \<open>only_at {?lock} d d'\<close> show ?thesis by (simp add: only_at_def)
  qed
  show "dk_nodes d' p = dk_nodes d p" if "map_option nd_kind (dk_nodes d' p) \<noteq> Some (Regular [])"
  proof (cases "p = ?lock")
    case True
    then have "dk_nodes d2 p = dk_nodes d p \<or> map_option nd_kind (dk_nodes d2 p) = Some (Regular [])"
      using 1 2 by (auto simp: calm_def)
    with d' 1 3 4 that show ?thesis by (auto simp: calm_def)
  next
    case False
    with \<open>only_at {?lock} d d'\<close> show ?thesis by (simp add: only_at_def)
  qed
qed

lemma lock_is_no_list:
  assumes "revocationPath lease = Some path" "LockAuthority rootdir d = (ok, d')"
  shows "dk_nodes d' path = dk_nodes d path"
proof -
  have "\<exists>front. Join a AuthorityLockFile = front @ AuthorityLockFile" for a
  proof (cases "a = []")
    case True
    have "Clean AuthorityLockFile = AuthorityLockFile" by code_simp
    with True show ?thesis by (simp add: Join_def AuthorityLockFile_def)
  next
    case False
    have "\<exists>front. Clean (a @ ''/'' @ AuthorityLockFile) = front @ AuthorityLockFile"
      by (rule Clean_ends_in_name) (simp_all add: AuthorityLockFile_def)
    with False show ?thesis by (simp add: Join_def)
  qed
  then obtain front where "Join (Clean rootdir) AuthorityLockFile = front @ AuthorityLockFile" by blast
  then have "last (Join (Clean rootdir) AuthorityLockFile) = CHR ''k''" by (simp add: AuthorityLockFile_def)
  then have "path \<noteq> Join (Clean rootdir) AuthorityLockFile"
    using revocationPath_last [OF assms(1)] by auto
  with LockAuthority_step(1) [OF assms(2)] show ?thesis by (simp add: only_at_def)
qed

text \<open>A list that holds the new entry of the identity, as it was written.\<close>

definition revocation_written :: "file_lease \<Rightarrow> identity \<Rightarrow> go_time \<Rightarrow> lease \<Rightarrow> revocation_index \<Rightarrow> node option \<Rightarrow> bool" where
  "revocation_written lease i now active index file \<longleftrightarrow>
     (\<exists>js. fl_index_text lease (add_revocation i now active index) = Some js \<and> length js < maxRevocationBytes
       \<and> file = Some \<lparr>nd_kind = Regular (js @ [line_feed]), nd_perm = 0x180, nd_owned = True\<rparr>)"

lemma revoke_locked_effect:
  assumes run: "revoke_locked ext lease i d = (r, d')" and path: "revocationPath lease = Some path"
    and apart: "Clean (fl_Path lease) \<noteq> path"
  shows "dk_nodes d' path = dk_nodes d path \<and> r \<noteq> None \<and> (\<forall>p. dk_nodes d p \<noteq> None \<longrightarrow> dk_nodes d' p = dk_nodes d p)
    \<or> (\<exists>now active index nd raw. revocation_written lease i now active index (dk_nodes d' path)
        \<and> (ticking d \<longrightarrow> dk_now d \<le> now) \<and> dk_now d' = now \<and> index_on lease now (dk_nodes d) = Some index
        \<and> dk_nodes d (leasePath lease) = Some nd \<and> nd_kind nd = Regular raw \<and> raw \<noteq> []
        \<and> lease_of_bytes ext lease i now raw = Inr active
        \<and> (r = None \<longrightarrow> dk_nodes d' (Clean (fl_Path lease)) = None))"
    (is "?unchanged \<or> ?revoked")
proof -
  obtain now d1 where c: "read_clock d = (now, d1)" by fastforce
  obtain x d2 where a: "activeAt ext lease i now d1 = (x, d2)" by fastforce
  obtain y d3 where rd: "readRevocations lease now d2 = (y, d3)" by fastforce
  note 1 = read_clock_step [OF c] and 2 = activeAt_truth [OF a] and 3 = readRevocations_truth [OF rd]
  have nodes: "dk_nodes d2 = dk_nodes d" "dk_nodes d3 = dk_nodes d"
    using 1 2(1) 3 by (simp_all add: calm_def)
  show ?thesis
  proof (cases "\<exists>active index. x = Inr active \<and> y = Some index")
    case False
    with run c a rd have "d' \<in> {d2, d3} \<and> r \<noteq> None"
      by (auto simp: revoke_locked_def split: sum.splits option.splits)
    with nodes show ?thesis by auto
  next
    case True
    then obtain active index where x: "x = Inr active" "y = Some index" by blast
    obtain ok d4 where w: "writeRevocations lease (add_revocation i now active index) d3 = (ok, d4)" by fastforce
    obtain e d5 where rm: "Remove (Clean (fl_Path lease)) d4 = (e, d5)" by fastforce
    note 4 = writeRevocations_atomic [OF w path] and 5 = Remove_step [OF rm]
    have end': "d' = (if ok then d5 else d4)" "r = None \<longleftrightarrow> ok \<and> e \<noteq> Some ErrOther"
      using run c a rd x w rm
      by (auto simp: revoke_locked_def split: bool.splits option.splits os_error.splits)
    have path5: "dk_nodes d5 path = dk_nodes d4 path" using 5(1) apart by (simp add: only_at_def)
    obtain nd raw where active: "dk_nodes d (leasePath lease) = Some nd" "nd_kind nd = Regular raw" "raw \<noteq> []"
      "lease_of_bytes ext lease i now raw = Inr active"
      using 2(2) [OF x(1)] 1 by auto
    have index: "index_on lease now (dk_nodes d) = Some index" using 3 x nodes by simp
    have "dk_now d3 = now" using 1(2) 2(1) 3 by (simp add: calm_def)
    then have clock: "dk_now d' = now" using 4 5(1) end'(1) by (auto simp: calm_def only_at_def)
    show ?thesis
    proof (cases "revocation_written lease i now active index (dk_nodes d4 path)")
      case True
      then have ?revoked
        using end' path5 5(2) 1(3) index active clock
        by (intro exI [of _ now] exI [of _ active] exI [of _ index] exI [of _ nd] exI [of _ raw]) auto
      then show ?thesis ..
    next
      case False
      with 4 consider "calm d3 d4" "\<not> ok"
        | t where "dk_nodes d3 t = None" "only_at {t, path} d3 d4" "dk_nodes d4 path = dk_nodes d3 path" "\<not> ok"
        by (auto simp: revocation_written_def)
      then have ?unchanged
      proof cases
        case 1
        with end' nodes show ?thesis by (auto simp: calm_def)
      next
        case (2 t)
        have "dk_nodes d4 p = dk_nodes d p" if "dk_nodes d p \<noteq> None" for p
        proof (cases "p = path")
          case False
          moreover have "p \<noteq> t" using that 2(1) nodes by auto
          ultimately show ?thesis using 2(2) nodes by (simp add: only_at_def)
        qed (use 2(3) nodes in simp)
        with 2 end' nodes show ?thesis by auto
      qed
      then show ?thesis ..
    qed
  qed
qed

lemma Revoke_effect:
  assumes run: "FileLease_Revoke ext lease i d = (r, d')" and path: "revocationPath lease = Some path"
    and apart: "Clean (fl_Path lease) \<noteq> path"
  shows "dk_nodes d' path = dk_nodes d path \<and> (\<forall>p. dk_nodes d p \<noteq> None \<longrightarrow> dk_nodes d' p = dk_nodes d p)
      \<and> (r = None \<longrightarrow> (\<exists>now index. (ticking d \<longrightarrow> dk_now (snd (IsRevoked lease i d)) \<le> now) \<and> index_on lease now (dk_nodes d) = Some index
           \<and> browserIdentityHash i \<in> rv_IdentityHash ` set (ri_Entries index)))
    \<or> (\<exists>now active index nd raw. revocation_written lease i now active index (dk_nodes d' path)
        \<and> (ticking d \<longrightarrow> dk_now (snd (IsRevoked lease i d)) \<le> now) \<and> dk_now d' = now
        \<and> index_on lease now (dk_nodes d) = Some index
        \<and> (ticking d \<longrightarrow> browserIdentityHash i \<notin> rv_IdentityHash ` set (ri_Entries index))
        \<and> dk_nodes d (leasePath lease) = Some nd \<and> nd_kind nd = Regular raw \<and> raw \<noteq> []
        \<and> lease_of_bytes ext lease i now raw = Inr active
        \<and> (r = None \<longrightarrow> dk_nodes d' (Clean (fl_Path lease)) = None))"
proof -
  obtain b f d1 where i1: "IsRevoked lease i d = ((b, f), d1)" by (metis surj_pair)
  obtain ok d2 where lk: "LockAuthority (Dir path) d1 = (ok, d2)" by fastforce
  obtain b' f' d3 where i3: "IsRevoked lease i d2 = ((b', f'), d3)" by (metis surj_pair)
  have same1: "dk_nodes d1 = dk_nodes d" "ticking d \<Longrightarrow> dk_now d \<le> dk_now d1 \<and> ticking d1"
    using i1 isRevoked_truth(1,2) [of lease i d]
    by (auto simp: IsRevoked_def split: prod.splits option.splits)
  have same3: "dk_nodes d3 = dk_nodes d2" "ticking d2 \<Longrightarrow> dk_now d2 \<le> dk_now d3 \<and> ticking d3"
    using i3 isRevoked_truth(1,2) [of lease i d2]
    by (auto simp: IsRevoked_def split: prod.splits option.splits)
  note 2 = LockAuthority_step [OF lk]
  have lock: "dk_nodes d2 path = dk_nodes d path" "ticking d2 = ticking d1" "dk_now d2 = dk_now d1"
    using lock_is_no_list [OF path lk] 2(1) same1(1) by (simp_all add: only_at_def ticking_def)
  have kept: "dk_nodes d2 p = dk_nodes d p" if "dk_nodes d p \<noteq> None" for p
    using 2(2) [of p] that same1(1) by simp
  have index_same: "index_on lease now (dk_nodes d3) = index_on lease now (dk_nodes d)" for now
    using lock(1) same3(1) path by (simp add: index_on_def)
  show ?thesis
  proof (cases "f \<noteq> None \<or> b")
    case True
    then have end': "d' = d1" "r = f" using run i1 by (simp_all add: FileLease_Revoke_def)
    have "\<exists>now index. (ticking d \<longrightarrow> dk_now (snd (IsRevoked lease i d)) \<le> now) \<and> index_on lease now (dk_nodes d) = Some index
           \<and> browserIdentityHash i \<in> rv_IdentityHash ` set (ri_Entries index)" if "f = None"
    proof -
      have "isRevoked lease i d = (Some True, d1)" using i1 that True IsRevoked_isRevoked by auto
      from isRevoked_truth(3) [OF this refl] i1 show ?thesis by auto
    qed
    with end' same1(1) show ?thesis by auto
  next
    case first: False
    show ?thesis
    proof (cases ok)
      case False
      with run i1 path lk first have "d' = d2" "r \<noteq> None" by (auto simp: FileLease_Revoke_def)
      with lock kept show ?thesis by auto
    next
      case True
      show ?thesis
      proof (cases "f' \<noteq> None \<or> b'")
        case again: True
        then have end': "d' = d3" "r = f'" using run i1 path lk first True i3 by (simp_all add: FileLease_Revoke_def)
        have "\<exists>now index. (ticking d \<longrightarrow> dk_now (snd (IsRevoked lease i d)) \<le> now) \<and> index_on lease now (dk_nodes d) = Some index
           \<and> browserIdentityHash i \<in> rv_IdentityHash ` set (ri_Entries index)" if "f' = None"
        proof -
          have "isRevoked lease i d2 = (Some True, d3)" using i3 that again IsRevoked_isRevoked by auto
          from isRevoked_truth(3) [OF this refl] obtain index where
            "index_on lease (dk_now d3) (dk_nodes d2) = Some index"
            "browserIdentityHash i \<in> rv_IdentityHash ` set (ri_Entries index)" by auto
          with index_same [of "dk_now d3"] same3 same1 lock(2,3) i1 show ?thesis
            by (intro exI [of _ "dk_now d3"] exI [of _ index]) auto
        qed
        with end' same3(1) lock kept show ?thesis by auto
      next
        case fresh: False
        then have "revoke_locked ext lease i d3 = (r, d')"
          using run i1 path lk first True i3 by (simp add: FileLease_Revoke_def)
        from revoke_locked_effect [OF this path apart] show ?thesis
        proof
          assume "dk_nodes d' path = dk_nodes d3 path \<and> r \<noteq> None
            \<and> (\<forall>p. dk_nodes d3 p \<noteq> None \<longrightarrow> dk_nodes d' p = dk_nodes d3 p)"
          then show ?thesis using lock kept same3(1) by auto
        next
          assume "\<exists>now active index nd raw. revocation_written lease i now active index (dk_nodes d' path)
            \<and> (ticking d3 \<longrightarrow> dk_now d3 \<le> now) \<and> dk_now d' = now \<and> index_on lease now (dk_nodes d3) = Some index
            \<and> dk_nodes d3 (leasePath lease) = Some nd \<and> nd_kind nd = Regular raw \<and> raw \<noteq> []
            \<and> lease_of_bytes ext lease i now raw = Inr active
            \<and> (r = None \<longrightarrow> dk_nodes d' (Clean (fl_Path lease)) = None)"
          then obtain now active index nd raw where w: "revocation_written lease i now active index (dk_nodes d' path)"
            "ticking d3 \<longrightarrow> dk_now d3 \<le> now" "index_on lease now (dk_nodes d3) = Some index"
            "dk_nodes d3 (leasePath lease) = Some nd" "nd_kind nd = Regular raw" "raw \<noteq> []"
            "lease_of_bytes ext lease i now raw = Inr active"
            "r = None \<longrightarrow> dk_nodes d' (Clean (fl_Path lease)) = None" "dk_now d' = now" by blast
          have "map_option nd_kind (dk_nodes d2 (leasePath lease)) \<noteq> Some (Regular [])"
            using w(4-6) same3(1) by simp
          then have "dk_nodes d (leasePath lease) = Some nd" using 2(3) w(4) same3(1) same1(1) by metis
          moreover have "ticking d \<longrightarrow> dk_now (snd (IsRevoked lease i d)) \<le> now" using w(2) same1(2) lock(2,3) same3(2) i1 by auto
          moreover have "index_on lease now (dk_nodes d) = Some index" using w(3) index_same by simp
          moreover have "browserIdentityHash i \<notin> rv_IdentityHash ` set (ri_Entries index)" if "ticking d"
          proof -
            have "isRevoked lease i d2 = (Some False, d3)" using i3 fresh IsRevoked_isRevoked by auto
            from isRevoked_truth(3) [OF this refl] same3(1) obtain ix where
              "index_on lease (dk_now d3) (dk_nodes d3) = Some ix" "browserIdentityHash i \<notin> rv_IdentityHash ` set (ri_Entries ix)"
              by auto
            moreover have "dk_now d3 \<le> now" using w(2) same1(2) lock(2) same3(2) that by auto
            ultimately show ?thesis using index_on_later [of lease "dk_now d3" "dk_nodes d3" ix now] w(3) by auto
          qed
          ultimately show ?thesis using w by blast
        qed
      qed
    qed
  qed
qed

lemma revoke_locked_clock:
  assumes "revoke_locked ext lease i d = (r, d')" "revocationPath lease = Some path" "ticking d"
  shows "dk_now d \<le> dk_now d' \<and> ticking d'"
proof -
  obtain now d1 where c: "read_clock d = (now, d1)" by fastforce
  obtain x d2 where a: "activeAt ext lease i now d1 = (x, d2)" by fastforce
  obtain y d3 where rd: "readRevocations lease now d2 = (y, d3)" by fastforce
  obtain ok d4 where w: "writeRevocations lease (add_revocation i now (projr x) (the y)) d3 = (ok, d4)" by fastforce
  obtain e d5 where rm: "Remove (Clean (fl_Path lease)) d4 = (e, d5)" by fastforce
  have "d' \<in> {d2, d3, d4, d5}"
    using assms(1) c a rd w rm
    by (auto simp: revoke_locked_def split: sum.splits option.splits bool.splits os_error.splits)
  moreover have "dk_now d \<le> dk_now d1 \<and> ticking d1" using read_clock_step [OF c] assms(3) by simp
  moreover have "dk_now d2 = dk_now d1 \<and> ticking d2 = ticking d1"
    using activeAt_truth(1) [OF a] by (simp add: calm_def ticking_def)
  moreover have "dk_now d3 = dk_now d2 \<and> ticking d3 = ticking d2"
    using readRevocations_truth [OF rd] by (simp add: calm_def ticking_def)
  moreover have "dk_now d4 = dk_now d3 \<and> ticking d4 = ticking d3"
    using writeRevocations_atomic [OF w assms(2)] by (auto simp: calm_def only_at_def ticking_def)
  moreover have "dk_now d5 = dk_now d4 \<and> ticking d5 = ticking d4"
    using Remove_step(1) [OF rm] by (simp add: only_at_def ticking_def)
  ultimately show ?thesis by auto
qed

text \<open>The clock never goes back during a call.\<close>

lemma Revoke_clock:
  assumes "FileLease_Revoke ext lease i d = (r, d')" "ticking d"
  shows "dk_now d \<le> dk_now d' \<and> ticking d'"
proof -
  obtain b f d1 where i1: "IsRevoked lease i d = ((b, f), d1)" by (metis surj_pair)
  have reads: "dk_now d \<le> dk_now e \<and> ticking e" if "IsRevoked lease i d = (x, e)" "ticking d" for x e d
    using that isRevoked_truth(2) [of lease i d]
    by (auto simp: IsRevoked_def split: prod.splits option.splits)
  have 1: "dk_now d \<le> dk_now d1 \<and> ticking d1" using reads [OF i1 assms(2)] .
  show ?thesis
  proof (cases "(f \<noteq> None \<or> b) \<or> revocationPath lease = None")
    case True
    with assms(1) i1 1 show ?thesis by (auto simp: FileLease_Revoke_def split: if_splits)
  next
    case False
    then obtain path where go: "\<not> (f \<noteq> None \<or> b)" and path: "revocationPath lease = Some path" by blast
    obtain ok d2 where lk: "LockAuthority (Dir path) d1 = (ok, d2)" by fastforce
    obtain b' f' d3 where i3: "IsRevoked lease i d2 = ((b', f'), d3)" by (metis surj_pair)
    obtain r4 d4 where rl: "revoke_locked ext lease i d3 = (r4, d4)" by fastforce
    have 2: "dk_now d2 = dk_now d1" "ticking d2" using LockAuthority_step(1) [OF lk] 1 by (simp_all add: only_at_def ticking_def)
    have 3: "dk_now d2 \<le> dk_now d3 \<and> ticking d3" using reads [OF i3 2(2)] .
    have 4: "dk_now d3 \<le> dk_now d4 \<and> ticking d4" using revoke_locked_clock [OF rl path] 3 by blast
    have "d' \<in> {d2, d3, d4}"
      using assms(1) i1 path lk i3 rl go by (auto simp: FileLease_Revoke_def split: if_splits bool.splits)
    with 1 2 3 4 show ?thesis by auto
  qed
qed

section \<open>What happens after a revocation\<close>

text \<open>The lease document on a disk.\<close>

definition lease_document :: "file_lease \<Rightarrow> disk \<Rightarrow> lease option" where
  "lease_document lease d =
     (case dk_nodes d (leasePath lease) of
        None \<Rightarrow> None
      | Some nd \<Rightarrow> (case nd_kind nd of Regular raw \<Rightarrow> strict_decode (fl_lease_codec lease) raw | _ \<Rightarrow> None))"

text \<open>An acceptance by \<^verbatim>\<open>Validate\<close>: not revoked at one time, and a live lease document at a later one.\<close>

lemma Validate_accepts:
  assumes "fst (FileLease_Validate ext lease i d) = None" "ticking d"
  shows "\<exists>t later index active. dk_now d \<le> t \<and> t \<le> later \<and> index_on lease t (dk_nodes d) = Some index
    \<and> browserIdentityHash i \<notin> rv_IdentityHash ` set (ri_Entries index)
    \<and> lease_document lease d = Some active \<and> SameIdentity i (le_Identity active) \<and> later < le_ExpiresAt active"
proof -
  obtain b e1 where r: "isRevoked lease i d = (b, e1)" by fastforce
  obtain later e2 where c: "read_clock e1 = (later, e2)" by fastforce
  obtain x e3 where a: "activeAt ext lease i later e2 = (x, e3)" by fastforce
  note r' = isRevoked_truth [OF r] and c' = read_clock_step [OF c]
  have b: "b = Some False" and "\<exists>active. x = Inr active"
    using assms(1) r c a by (auto simp: FileLease_Validate_def split: option.splits bool.splits sum.splits)
  then obtain active where "x = Inr active" by blast
  from activeAt_truth(2) [OF a this] obtain nd raw where doc: "dk_nodes d (leasePath lease) = Some nd"
    "nd_kind nd = Regular raw" "lease_of_bytes ext lease i later raw = Inr active"
    using r'(1) c'(1) by auto
  have "lease_document lease d = Some active" "later < le_ExpiresAt active"
    using lease_of_bytes_accepts [OF doc(3)] doc(1,2) by (simp_all add: lease_document_def)
  moreover have "SameIdentity i (le_Identity active)"
    using doc(3) by (auto simp: lease_of_bytes_def StaticLease_iff split: option.splits)
  moreover have "dk_now d \<le> dk_now e1" "dk_now e1 \<le> later" using r'(2) c'(3) assms(2) by simp_all
  ultimately show ?thesis using r'(3) [OF b] by blast
qed

text \<open>The list is full when a call reads as many entries as it may hold; the next one drops an entry.\<close>

definition list_full :: "file_lease \<Rightarrow> disk \<Rightarrow> bool" where
  "list_full lease d \<longleftrightarrow>
     (\<exists>t index. dk_now d \<le> t \<and> index_on lease t (dk_nodes d) = Some index
        \<and> maxRevocations \<le> length (ri_Entries index))"

text \<open>
  The disks that follow a disk: anything may happen that leaves the file of the list alone and does
  not set the clock back, and \<^verbatim>\<open>Revoke\<close> may be called for any attachment, with any calls failing, as
  long as the list is not full.
\<close>

inductive later_disk :: "externals \<Rightarrow> file_lease \<Rightarrow> string \<Rightarrow> disk \<Rightarrow> disk \<Rightarrow> bool"
  for ext lease path d where
  same_disk: "later_disk ext lease path d d"
| anything_else: "later_disk ext lease path d e \<Longrightarrow> dk_nodes e' path = dk_nodes e path
    \<Longrightarrow> dk_now e \<le> dk_now e' \<Longrightarrow> ticking e' \<Longrightarrow> later_disk ext lease path d e'"
| another_revocation: "later_disk ext lease path d e \<Longrightarrow> \<not> list_full lease e
    \<Longrightarrow> FileLease_Revoke ext lease i e = (r, e') \<Longrightarrow> later_disk ext lease path d e'"

text \<open>An entry that every reader finds from now on until it expires.\<close>

definition listed_until :: "file_lease \<Rightarrow> revocation_entry \<Rightarrow> go_time \<Rightarrow> disk \<Rightarrow> bool" where
  "listed_until lease e expiry d \<longleftrightarrow>
     (\<forall>t. dk_now d \<le> t \<longrightarrow> t < expiry \<longrightarrow>
        (\<exists>index. index_on lease t (dk_nodes d) = Some index \<and> e \<in> set (ri_Entries index)))"

lemma listed_untilD:
  assumes "listed_until lease e expiry d" "dk_now d \<le> t" "t < expiry"
  obtains index where "index_on lease t (dk_nodes d) = Some index" "e \<in> set (ri_Entries index)"
  using assms by (auto simp: listed_until_def)

lemma listed_same_list:
  assumes "listed_until lease e expiry d" "dk_nodes d' path = dk_nodes d path"
    and "revocationPath lease = Some path" "dk_now d \<le> dk_now d'"
  shows "listed_until lease e expiry d'"
  using assms by (fastforce simp: listed_until_def index_on_def)

lemma written_entry_listed:
  assumes "json_round_trip lease" "revocationPath lease = Some path"
    and "revocation_written lease i now active index (dk_nodes d path)"
    and "valid_index (add_revocation i now active index)"
    and "e \<in> set (ri_Entries (add_revocation i now active index))"
    and "\<And>t. retained t e = Some (t < expiry)"
  shows "listed_until lease e expiry d"
proof -
  let ?index = "add_revocation i now active index"
  from assms(3) obtain js where js: "fl_index_text lease ?index = Some js" "length js < maxRevocationBytes"
    "dk_nodes d path = Some \<lparr>nd_kind = Regular (js @ [line_feed]), nd_perm = 0x180, nd_owned = True\<rparr>"
    by (auto simp: revocation_written_def)
  have "index_on lease t (dk_nodes d)
    = Some (?index\<lparr>ri_Entries := filter (\<lambda>e. retained t e = Some True) (ri_Entries ?index)\<rparr>)" for t
    by (rule index_on_written [where nodes = "dk_nodes d", OF assms(1,4) js(1,2) assms(2) js(3)])
  then show ?thesis using assms(5,6) by (auto simp: listed_until_def)
qed

lemma written_valid:
  assumes "json_times lease" "lease_of_bytes ext lease i now raw = Inr active" "0 \<le> now"
    and "index_on lease t nodes = Some index" "browserIdentityHash i \<notin> rv_IdentityHash ` set (ri_Entries index)"
  shows "valid_index (add_revocation i now active index)"
    "new_entry i now active \<in> set (ri_Entries (add_revocation i now active index))"
    "retained later (new_entry i now active) = Some (later < le_ExpiresAt active)"
proof -
  note active = lease_of_bytes_accepts [OF assms(2)]
  have expiry: "storable_time (le_ExpiresAt active)"
    using assms(1) active(1) by (auto simp: json_times_def)
  then have now: "storable_time now" "now \<le> le_ExpiresAt active"
    using active(2) assms(3) by (auto simp: storable_time_def)
  show "valid_index (add_revocation i now active index)"
    "new_entry i now active \<in> set (ri_Entries (add_revocation i now active index))"
    using valid_add_revocation [OF index_on_valid [OF assms(4)] assms(5) now(1) expiry now(2)] by blast+
  show "retained later (new_entry i now active) = Some (later < le_ExpiresAt active)"
    by (rule retained_new_entry [OF now(1) expiry now(2)])
qed

text \<open>After a fresh revocation the entry is listed as long as the lease would be valid.\<close>

lemma fresh_revocation:
  assumes "FileLease_Revoke ext lease i d = (None, d')" "fst (IsRevoked lease i d) = (False, None)"
    and "json_round_trip lease" "json_times lease" "revocationPath lease = Some path"
    and "Clean (fl_Path lease) \<noteq> path" "ticking d" "0 \<le> dk_now d"
    and "lease_document lease d = Some active"
  shows "\<exists>e. rv_IdentityHash e = browserIdentityHash i \<and> listed_until lease e (le_ExpiresAt active) d'
    \<and> (\<forall>t. retained t e = Some (t < le_ExpiresAt active))"
proof -
  obtain d1 where i1: "isRevoked lease i d = (Some False, d1)"
    using assms(2) IsRevoked_isRevoked by (metis prod.collapse)
  then have d1: "snd (IsRevoked lease i d) = d1" by (simp add: IsRevoked_def)
  from isRevoked_truth [OF i1] assms(7) obtain ix where first: "dk_now d \<le> dk_now d1"
    "index_on lease (dk_now d1) (dk_nodes d) = Some ix"
    "browserIdentityHash i \<notin> rv_IdentityHash ` set (ri_Entries ix)" by auto
  have "browserIdentityHash i \<notin> rv_IdentityHash ` set (ri_Entries index)"
    if "index_on lease now (dk_nodes d) = Some index" "dk_now d1 \<le> now" for now index
    using index_on_later [OF first(2) that(2)] that(1) first(3) by auto
  with Revoke_effect [OF assms(1,5,6)] assms(7) d1 obtain now active' index nd raw where
    written: "revocation_written lease i now active' index (dk_nodes d' path)"
    and now: "dk_now d1 \<le> now" "index_on lease now (dk_nodes d) = Some index"
      "browserIdentityHash i \<notin> rv_IdentityHash ` set (ri_Entries index)"
    and lease: "dk_nodes d (leasePath lease) = Some nd" "nd_kind nd = Regular raw"
      "lease_of_bytes ext lease i now raw = Inr active'"
    by auto blast
  have "active' = active"
    using lease_of_bytes_accepts(1) [OF lease(3)] lease(1,2) assms(9) by (simp add: lease_document_def)
  moreover have "0 \<le> now" using first(1) now(1) assms(8) by simp
  note new = written_valid [OF assms(4) lease(3) this now(2,3)]
  moreover have "listed_until lease (new_entry i now active') (le_ExpiresAt active') d'"
    by (rule written_entry_listed [OF assms(3,5) written new])
  ultimately show ?thesis
    by (intro exI [of _ "new_entry i now active'"]) (simp add: new_entry_def)
qed

text \<open>A call that finds room in the list loses no entry.\<close>

lemma Revoke_keeps_entries:
  assumes run: "FileLease_Revoke ext lease i d = (r, d')" and room: "\<not> list_full lease d"
    and listed: "listed_until lease e expiry d" and kept: "\<And>t. retained t e = Some (t < expiry)"
    and rules: "json_round_trip lease" "json_times lease" "revocationPath lease = Some path"
      "Clean (fl_Path lease) \<noteq> path" "ticking d" "0 \<le> dk_now d"
  shows "listed_until lease e expiry d'"
proof -
  have clock: "dk_now d \<le> dk_now d'" using Revoke_clock [OF run rules(5)] by blast
  consider "dk_nodes d' path = dk_nodes d path"
    | now active index raw where "revocation_written lease i now active index (dk_nodes d' path)"
      "dk_now (snd (IsRevoked lease i d)) \<le> now" "dk_now d' = now"
      "index_on lease now (dk_nodes d) = Some index"
      "browserIdentityHash i \<notin> rv_IdentityHash ` set (ri_Entries index)"
      "lease_of_bytes ext lease i now raw = Inr active"
    using Revoke_effect [OF run rules(3,4)] rules(5) by blast
  then show ?thesis
  proof cases
    case 1
    then show ?thesis by (rule listed_same_list [OF listed _ rules(3) clock])
  next
    case (2 now active index raw)
    have "0 \<le> now" using clock 2(3) rules(6) by simp
    note written = written_valid [OF rules(2) 2(6) this 2(4,5)]
    show ?thesis
    proof (cases "now < expiry")
      case True
      have "dk_now d \<le> now" using clock 2(3) by simp
      from listed_untilD [OF listed this True] 2(4) have "e \<in> set (ri_Entries index)" by auto
      moreover have "length (ri_Entries index) < maxRevocations"
        using room 2(4) \<open>dk_now d \<le> now\<close> by (fastforce simp: list_full_def)
      ultimately have "e \<in> set (ri_Entries (add_revocation i now active index))"
        by (simp add: add_revocation_def drop_oldest_entry_def sort_entries_permutes)
      from written_entry_listed [OF rules(1,3) 2(1) written(1) this kept] show ?thesis .
    next
      case False
      then show ?thesis using 2(3) by (simp add: listed_until_def)
    qed
  qed
qed

lemma later_disk_listed:
  assumes "later_disk ext lease path d e"
    and start: "listed_until lease en expiry d" "ticking d" "0 \<le> dk_now d"
    and kept: "\<And>t. retained t en = Some (t < expiry)"
    and rules: "json_round_trip lease" "json_times lease" "revocationPath lease = Some path"
      "Clean (fl_Path lease) \<noteq> path"
  shows "listed_until lease en expiry e \<and> ticking e \<and> 0 \<le> dk_now e"
  using assms(1)
proof (induction rule: later_disk.induct)
  case same_disk
  with start show ?case by blast
next
  case (anything_else e e')
  with listed_same_list [OF _ anything_else.hyps(2) rules(3) anything_else.hyps(3)] show ?case by auto
next
  case (another_revocation e i r e')
  then have "listed_until lease en expiry e'"
    using Revoke_keeps_entries [OF another_revocation.hyps(3,2) _ kept rules] by blast
  with Revoke_clock [OF another_revocation.hyps(3)] another_revocation.IH show ?case by auto
qed

section \<open>Refusals\<close>

lemma own_activeAt:
  assumes "visits_all ext" "activeAt ext lease i now d = (Inl f, d')"
  shows "own_failure f"
  using assms(2) rejectsD [OF own_lease [OF assms(1)]] rejectsD [OF own_static_lease]
  by (auto simp: activeAt_def lease_of_bytes_def Let_def message_eval
      split: sum.splits prod.splits if_splits bool.splits option.splits)

lemma own_state_invalid: "own_failure revocation_state_invalid"
  by (auto simp: revocation_state_invalid_def message_eval)

lemma own_Validate:
  assumes "visits_all ext"
  shows "rejects own_failure (fst (FileLease_Validate ext lease i d))"
  using own_activeAt [OF assms] own_state_invalid
  by (auto simp: FileLease_Validate_def message_eval rejects_def
      split: sum.splits prod.splits bool.splits option.splits)

lemma own_IsRevoked: "rejects own_failure (snd (fst (IsRevoked lease i d)))"
  using own_state_invalid by (auto simp: IsRevoked_def rejects_def split: prod.splits option.splits)

lemma own_revoke_locked:
  assumes "visits_all ext"
  shows "rejects own_failure (fst (revoke_locked ext lease i d))"
  using own_activeAt [OF assms] own_state_invalid
  by (auto simp: revoke_locked_def message_eval rejects_def
      split: sum.splits prod.splits bool.splits option.splits os_error.splits)

lemma own_Revoke:
  assumes "visits_all ext"
  shows "rejects own_failure (fst (FileLease_Revoke ext lease i d))"
proof -
  have "own_failure f" if "IsRevoked lease i e = ((b, Some f), e')" for e b f e'
    using own_IsRevoked [of lease i e] that by (simp add: rejects_def)
  moreover have "own_failure f" if "fst (revoke_locked ext lease i e) = Some f" for e f
    using own_revoke_locked [OF assms, of lease i e] that by (simp add: rejects_def)
  ultimately show ?thesis
    by (auto simp: FileLease_Revoke_def message_eval rejects_def
        split: prod.splits bool.splits option.splits if_splits)
qed

lemma file_lease_reports:
  assumes "visits_all ext"
  shows "reporting_lease ext (file_lease_validator ext lease)"
proof
  have wf: "rejects (wf_failure ext) x" if "rejects own_failure x" for x
    using that own_failure_wf by (cases x) auto
  fix i d rv
  show "rejects (wf_failure ext) (fst (lv_Validate (file_lease_validator ext lease) i d))"
    using wf [OF own_Validate [OF assms]] by (simp add: file_lease_validator_def)
  assume "lv_revoker (file_lease_validator ext lease) = Some rv"
  then have "rv = \<lparr>rv_IsRevoked = IsRevoked lease, rv_Revoke = FileLease_Revoke ext lease\<rparr>"
    by (simp add: file_lease_validator_def)
  then show "rejects (wf_failure ext) (snd (fst (rv_IsRevoked rv i d)))" "rejects (wf_failure ext) (fst (rv_Revoke rv i d))"
    using wf [OF own_IsRevoked] wf [OF own_Revoke [OF assms]] by simp_all
qed

interpretation files: reporting_lease ascii_externals "file_lease_validator ascii_externals lease" for lease
  by (rule file_lease_reports) simp

end
