(* ===== verification/FileLeaseProperties.thy ===== *)
theory FileLeaseProperties
  imports RevokeFacts Samples
begin

text \<open>
  The properties of the lease in files: a revocation is final as long as its entry is not evicted,
  it is on the disk before the lease goes away, and what the lease refuses with is reportable.
\<close>

text \<open>
  C5. A revocation is final until its entry is evicted. Once \<^verbatim>\<open>Revoke\<close> of an attachment that was not
  revoked before has succeeded, \<^verbatim>\<open>Validate\<close> refuses the attachment on every later disk, whatever
  calls fail then and however much time has passed: other attachments may be revoked in between,
  with any outcome, as long as none of these calls finds the list at its capacity of 256 entries,
  when the code drops one of them; and anything may happen to the other files, so that the lease
  document may be put back or replaced, only not by one of the same identity that expires later
  than the revoked one, because the entry is forgotten when the lease it revokes has expired. This
  rests on JSON giving back what was written and on a clock that does not go backwards.
\<close>

theorem revocation_is_final:
  assumes "FileLease_Revoke ext lease i d = (None, d')" "fst (IsRevoked lease i d) = (False, None)"
    and "lease_document lease d = Some active"
    and "json_round_trip lease" "json_times lease"
    and "revocationPath lease = Some path" "Clean (fl_Path lease) \<noteq> path"
    and "ticking d" "0 \<le> dk_now d"
    and "later_disk ext lease path d' e"
    and "\<And>other. lease_document lease e = Some other \<Longrightarrow> SameIdentity i (le_Identity other)
      \<Longrightarrow> le_ExpiresAt other \<le> le_ExpiresAt active"
  shows "fst (FileLease_Validate ext lease i e) \<noteq> None"
proof
  assume accepted: "fst (FileLease_Validate ext lease i e) = None"
  from fresh_revocation [OF assms(1,2,4-9,3)] obtain en where
    en: "rv_IdentityHash en = browserIdentityHash i" "listed_until lease en (le_ExpiresAt active) d'"
      "\<And>t. retained t en = Some (t < le_ExpiresAt active)" by blast
  have "ticking d'" "0 \<le> dk_now d'" using Revoke_clock [OF assms(1,8)] assms(9) by auto
  note e = later_disk_listed [OF assms(10) en(2) this en(3) assms(4-7)]
  from Validate_accepts [OF accepted] e obtain t later ix other where
    v: "dk_now e \<le> t" "t \<le> later" "index_on lease t (dk_nodes e) = Some ix"
      "browserIdentityHash i \<notin> rv_IdentityHash ` set (ri_Entries ix)"
      "lease_document lease e = Some other" "SameIdentity i (le_Identity other)" "later < le_ExpiresAt other"
    by blast
  from assms(11) [OF v(5,6)] v(2,7) have "t < le_ExpiresAt active" by simp
  with e v(1) obtain index where "index_on lease t (dk_nodes e) = Some index" "en \<in> set (ri_Entries index)"
    by (blast elim: listed_untilD)
  with v(3,4) en(1) show False by force
qed

text \<open>A JSON stand-in with an exact round trip, and a disk with a lease.\<close>

fun put_string :: "string \<Rightarrow> string" where
  "put_string [] = ''.''"
| "put_string (c # s) = CHR ''+'' # c # put_string s"

fun get_string :: "string \<Rightarrow> (string \<times> string) option" where
  "get_string (c # d # s) =
     (if c = CHR ''+'' then map_option (\<lambda>(r, rest). (d # r, rest)) (get_string s) else Some ([], d # s))"
| "get_string [c] = Some ([], [])"
| "get_string [] = None"

lemma get_put_string: "get_string (put_string s @ rest) = Some (s, rest)"
  by (induction s) (cases rest; simp)+

fun put_entries :: "revocation_entry list \<Rightarrow> string" where
  "put_entries [] = ''.''"
| "put_entries (e # es) =
     CHR ''+'' # put_string (rv_IdentityHash e) @ put_string (rv_RevokedAt e) @ put_string (rv_ExpiresAt e)
     @ put_entries es"

fun get_entries :: "nat \<Rightarrow> string \<Rightarrow> revocation_entry list option" where
  "get_entries 0 s = None"
| "get_entries (Suc fuel) s =
     (if HasPrefix s ''+'' then
        do { (h, s1) \<leftarrow> get_string (tl s); (r, s2) \<leftarrow> get_string s1; (x, s3) \<leftarrow> get_string s2;
             es \<leftarrow> get_entries fuel s3;
             Some (\<lparr>rv_IdentityHash = h, rv_RevokedAt = r, rv_ExpiresAt = x\<rparr> # es) }
      else Some [])"

lemma get_put_entries: "length es < fuel \<Longrightarrow> get_entries fuel (put_entries es @ rest) = Some es"
proof (induction es arbitrary: fuel)
  case Nil
  then show ?case by (cases fuel) (auto simp: HasPrefix_def)
next
  case (Cons e es)
  then obtain n where "fuel = Suc n" by (cases fuel) auto
  with Cons show ?case by (simp add: HasPrefix_def get_put_string)
qed

definition sample_index_codec :: "revocation_index codec" where
  "sample_index_codec raw =
     (let es = get_entries 257 raw in
      \<lparr>dec_value = empty_index\<lparr>ri_Entries := (case es of None \<Rightarrow> [] | Some es \<Rightarrow> es)\<rparr>,
       dec_first = (if es = None then DecodeFailed else DecodeOK), dec_first_read = length raw,
       dec_second = DecodeEOF, dec_second_read = length raw\<rparr>)"

definition sample_file_lease :: file_lease where
  "sample_file_lease =
     \<lparr>fl_Path = ''/b/l'', fl_lease_codec = one_text_codec ''L'' sample_lease sample_lease,
      fl_index_codec = sample_index_codec, fl_index_text = (\<lambda>index. Some (put_entries (ri_Entries index)))\<rparr>"

lemma sample_round_trip: "json_round_trip sample_file_lease"
  by (auto simp: json_round_trip_def sample_file_lease_def sample_index_codec_def Let_def strict_decode_def
      valid_index_def maxRevocations_def empty_index_def get_put_entries)

lemma sample_times: "json_times sample_file_lease"
proof -
  have "storable_time (le_ExpiresAt sample_lease)" by code_simp
  then show ?thesis
    by (auto simp: json_times_def sample_file_lease_def one_text_codec_def strict_decode_def split: if_splits)
qed

definition sample_disk :: disk where
  "sample_disk =
     \<lparr>dk_nodes = [''/b'' \<mapsto> \<lparr>nd_kind = Directory, nd_perm = 0x1C0, nd_owned = True\<rparr>,
                  ''/b/l'' \<mapsto> \<lparr>nd_kind = Regular ''L'', nd_perm = 0x180, nd_owned = True\<rparr>],
      dk_outcomes = [], dk_names = [''1''], dk_now = Second, dk_ticks = []\<rparr>"

lemma sample_paths:
  "Clean (TrimSpace ''/b/l'') = ''/b/l''" "Clean ''/b/l'' = ''/b/l''" "IsAbs ''/b/l''" "Dir ''/b/l'' = ''/b''"
  "Join ''/b'' revocationFileName = ''/b/revoked-leases.v1.json''" "Dir ''/b/revoked-leases.v1.json'' = ''/b''"
  "Clean ''/b'' = ''/b''" "IsAbs ''/b''" "Join ''/b'' AuthorityLockFile = ''/b/.browser-lease-authority.lock''"
  "temporary_prefix ''/b'' = ''/b/.revocations-''"
  by code_simp+

lemma sample_revocation_path: "revocationPath sample_file_lease = Some ''/b/revoked-leases.v1.json''"
  by (simp add: revocationPath_def sample_file_lease_def sample_paths)

lemma sample_lease_path: "leasePath sample_file_lease = ''/b/l''" "Clean (fl_Path sample_file_lease) = ''/b/l''"
  by (simp_all add: leasePath_def sample_file_lease_def sample_paths)

lemma sample_not_revoked: "IsRevoked sample_file_lease sample_identity sample_disk = ((False, None), sample_disk)"
  by (simp add: IsRevoked_def isRevoked_def readRevocations_def sample_revocation_path Lstat_def
      next_outcome_def read_clock_def sample_disk_def empty_index_def)

lemma sample_fresh: "fst (IsRevoked sample_file_lease sample_identity sample_disk) = (False, None)"
  by (simp add: sample_not_revoked)

definition sample_locked_disk :: disk where
  "sample_locked_disk = set_node ''/b/.browser-lease-authority.lock''
     (Some \<lparr>nd_kind = Regular [], nd_perm = 0x180, nd_owned = True\<rparr>) sample_disk"

lemma sample_locked: "LockAuthority ''/b'' sample_disk = (True, sample_locked_disk)"
  by (simp add: LockAuthority_def sample_paths Lstat_def next_outcome_def sample_disk_def private_directory_def
      private_mode_def open_lock_def plain_call_def set_node_def sample_locked_disk_def)

lemma sample_still_not_revoked:
  "IsRevoked sample_file_lease sample_identity sample_locked_disk = ((False, None), sample_locked_disk)"
  by (simp add: IsRevoked_def isRevoked_def readRevocations_def sample_revocation_path Lstat_def
      next_outcome_def read_clock_def sample_locked_disk_def set_node_def sample_disk_def empty_index_def)

lemma sample_active:
  "activeAt ascii_externals sample_file_lease sample_identity Second sample_locked_disk
   = (Inr sample_lease, sample_locked_disk)"
proof -
  have "StaticLease_Validate (le_Identity sample_lease) sample_identity = None"
    by (simp add: StaticLease_iff sample_lease_def SameIdentity_iff)
  then have "lease_of_bytes ascii_externals sample_file_lease sample_identity Second ''L'' = Inr sample_lease"
    by (simp add: lease_of_bytes_def sample_file_lease_def strict_decode_def one_text_codec_def sample_lease_valid)
  then show ?thesis
    by (simp add: activeAt_def sample_lease_path [unfolded leasePath_def] sample_paths Lstat_def next_outcome_def
        sample_locked_disk_def set_node_def sample_disk_def owner_only_def private_mode_def maxActiveLeaseBytes_def
        plain_call_def ReadFile_def file_bytes_def)
qed

lemma length_put_string: "length (put_string s) = 2 * length s + 1"
  by (induction s) auto

lemma sample_entry_length:
  "length (put_entries (ri_Entries (add_revocation sample_identity Second sample_lease empty_index))) < 1000"
proof -
  have "length (FormatRFC3339Nano Second) = 20" "length (FormatRFC3339Nano (100 * Second)) = 20"
    by code_simp+
  then show ?thesis
    by (simp add: add_revocation_def empty_index_def drop_oldest_entry_def maxRevocations_def sort_entries_def
        new_entry_def length_put_string browserIdentityHash_def sample_lease_def)
qed

definition sample_revoked_index :: revocation_index where
  "sample_revoked_index = add_revocation sample_identity Second sample_lease empty_index"

definition sample_revoked_disk :: disk where
  "sample_revoked_disk = sample_locked_disk\<lparr>dk_nodes := (dk_nodes sample_locked_disk)
     (''/b/revoked-leases.v1.json'' \<mapsto>
        \<lparr>nd_kind = Regular (put_entries (ri_Entries sample_revoked_index) @ [line_feed]), nd_perm = 0x180, nd_owned = True\<rparr>,
      ''/b/.revocations-1.tmp'' := None, ''/b/l'' := None)\<rparr>"

lemma sample_written:
  "writeRevocations sample_file_lease sample_revoked_index sample_locked_disk
   = (True, sample_revoked_disk\<lparr>dk_nodes := (dk_nodes sample_revoked_disk)(''/b/l'' := dk_nodes sample_disk ''/b/l'')\<rparr>)"
proof -
  have "\<not> maxRevocationBytes < Suc (length (put_entries (ri_Entries sample_revoked_index)))"
    using sample_entry_length by (simp add: maxRevocationBytes_def sample_revoked_index_def)
  moreover have "fl_index_text sample_file_lease sample_revoked_index = Some (put_entries (ri_Entries sample_revoked_index))"
    by (simp add: sample_file_lease_def)
  ultimately show ?thesis
    by (simp add: writeRevocations_def sample_revocation_path sample_paths Lstat_def next_outcome_def
        sample_locked_disk_def set_node_def sample_disk_def private_directory_def private_mode_def
        destination_ok_def CreateTemp_def is_digit_def plain_call_def replace_file_def Chmod_def WriteFile_def
        append_bytes_def Rename_def sample_revoked_disk_def fun_eq_iff)
qed

lemma sample_revoked:
  "FileLease_Revoke ascii_externals sample_file_lease sample_identity sample_disk = (None, sample_revoked_disk)"
proof -
  have clock: "read_clock sample_locked_disk = (Second, sample_locked_disk)"
    by (simp add: read_clock_def sample_locked_disk_def set_node_def sample_disk_def)
  have index: "readRevocations sample_file_lease Second sample_locked_disk = (Some empty_index, sample_locked_disk)"
    by (simp add: readRevocations_def sample_revocation_path Lstat_def next_outcome_def
        sample_locked_disk_def set_node_def sample_disk_def)
  have remove: "Remove ''/b/l'' (sample_revoked_disk
      \<lparr>dk_nodes := (dk_nodes sample_revoked_disk)(''/b/l'' := dk_nodes sample_disk ''/b/l'')\<rparr>) = (None, sample_revoked_disk)"
    by (simp add: Remove_def plain_call_def next_outcome_def sample_revoked_disk_def
        sample_locked_disk_def set_node_def sample_disk_def fun_eq_iff)
  have "revoke_locked ascii_externals sample_file_lease sample_identity sample_locked_disk = (None, sample_revoked_disk)"
    by (simp add: revoke_locked_def clock index sample_active sample_written
        sample_revoked_index_def [symmetric] sample_lease_path remove)
  then show ?thesis
    by (simp add: FileLease_Revoke_def sample_not_revoked sample_revocation_path sample_paths sample_locked
        sample_still_not_revoked)
qed

lemma sample_document: "lease_document sample_file_lease sample_disk = Some sample_lease"
proof -
  have "fl_lease_codec sample_file_lease = one_text_codec ''L'' sample_lease sample_lease"
    by (simp add: sample_file_lease_def)
  then show ?thesis
    by (simp add: lease_document_def sample_lease_path sample_disk_def one_text_codec_def strict_decode_def)
qed

text \<open>
  Another attachment is revoked, then the lease document is back, time has passed and the next
  calls fail.
\<close>

definition sample_other :: identity where
  "sample_other = sample_identity\<lparr>id_AttachmentID := ''99999999-9999-4999-8999-999999999999''\<rparr>"

definition sample_later_disk :: disk where
  "sample_later_disk = snd (FileLease_Revoke ascii_externals sample_file_lease sample_other sample_revoked_disk)"

definition sample_restored_disk :: disk where
  "sample_restored_disk = sample_later_disk
     \<lparr>dk_nodes := (dk_nodes sample_later_disk)(''/b/l'' := dk_nodes sample_disk ''/b/l''),
      dk_outcomes := [Works, Works, Fails 0], dk_now := dk_now sample_later_disk + Second\<rparr>"

lemma sample_room: "\<not> list_full sample_file_lease sample_revoked_disk"
proof -
  have empty: "valid_index empty_index" "browserIdentityHash sample_identity \<notin> rv_IdentityHash ` set (ri_Entries empty_index)"
    by (simp_all add: valid_index_def empty_index_def)
  have times: "storable_time Second" "storable_time (le_ExpiresAt sample_lease)" "Second \<le> le_ExpiresAt sample_lease"
    by code_simp+
  have js: "fl_index_text sample_file_lease sample_revoked_index = Some (put_entries (ri_Entries sample_revoked_index))"
    by (simp add: sample_file_lease_def)
  have short: "length (put_entries (ri_Entries sample_revoked_index)) < maxRevocationBytes"
    using sample_entry_length by (simp add: maxRevocationBytes_def sample_revoked_index_def)
  have "index_on sample_file_lease t (dk_nodes sample_revoked_disk)
    = Some (sample_revoked_index\<lparr>ri_Entries := filter (\<lambda>e. retained t e = Some True) (ri_Entries sample_revoked_index)\<rparr>)" for t
    by (rule index_on_written [OF sample_round_trip _ js short sample_revocation_path])
      (use valid_add_revocation(1) [OF empty times] in
        \<open>simp_all add: sample_revoked_index_def [symmetric] sample_revoked_disk_def\<close>)
  moreover have "length (ri_Entries sample_revoked_index) = 1"
    by (simp add: sample_revoked_index_def add_revocation_def sort_entries_permutes drop_oldest_entry_def
        maxRevocations_def empty_index_def)
  ultimately have "length (ri_Entries index) \<le> 1"
    if "index_on sample_file_lease t (dk_nodes sample_revoked_disk) = Some index" for t index
    using that length_filter_le [of "\<lambda>e. retained t e = Some True" "ri_Entries sample_revoked_index"] by auto
  then show ?thesis by (fastforce simp: list_full_def maxRevocations_def)
qed

lemma sample_life: "later_disk ascii_externals sample_file_lease ''/b/revoked-leases.v1.json'' sample_revoked_disk sample_restored_disk"
proof -
  have "FileLease_Revoke ascii_externals sample_file_lease sample_other sample_revoked_disk
    = (fst (FileLease_Revoke ascii_externals sample_file_lease sample_other sample_revoked_disk), sample_later_disk)"
    by (simp add: sample_later_disk_def)
  note later = later_disk.another_revocation [OF later_disk.same_disk sample_room this]
  have "ticking sample_later_disk"
    using Revoke_clock [of ascii_externals sample_file_lease sample_other sample_revoked_disk _ sample_later_disk]
    by (simp add: sample_later_disk_def ticking_def sample_revoked_disk_def sample_locked_disk_def set_node_def
        sample_disk_def prod_eq_iff)
  then show ?thesis
    by (intro later_disk.anything_else [OF later])
      (simp_all add: sample_restored_disk_def ticking_def Second_def)
qed

theorem revocation_is_final_witness:
  "fst (FileLease_Validate ascii_externals sample_file_lease sample_identity sample_restored_disk) \<noteq> None"
proof (rule revocation_is_final [OF sample_revoked sample_fresh sample_document sample_round_trip sample_times
      sample_revocation_path _ _ _ sample_life])
  show "le_ExpiresAt other \<le> le_ExpiresAt sample_lease"
    if "lease_document sample_file_lease sample_restored_disk = Some other" for other
    using that
    by (auto simp: lease_document_def sample_file_lease_def one_text_codec_def strict_decode_def
        split: option.splits if_splits file_kind.splits)
qed (simp_all add: sample_lease_path ticking_def sample_disk_def Second_def)

text \<open>
  C32. The lease goes away only after the revocation is on the disk: whatever calls fail and
  whatever the answer is, either the list of revocations is the one from before and no file is
  lost, or the list has been replaced as a whole by one with the new entry.
\<close>

theorem revocation_precedes_removal:
  assumes "FileLease_Revoke ext lease i d = (r, d')"
    and "revocationPath lease = Some path" "Clean (fl_Path lease) \<noteq> path"
  shows "dk_nodes d' path = dk_nodes d path \<and> (\<forall>p. dk_nodes d p \<noteq> None \<longrightarrow> dk_nodes d' p = dk_nodes d p)
    \<or> (\<exists>now active index. index_on lease now (dk_nodes d) = Some index
        \<and> revocation_written lease i now active index (dk_nodes d' path))"
  using Revoke_effect [OF assms] by blast

theorem revocation_precedes_removal_witness:
  "\<exists>now active index. index_on sample_file_lease now (dk_nodes sample_disk) = Some index
     \<and> revocation_written sample_file_lease sample_identity now active index
         (dk_nodes sample_revoked_disk ''/b/revoked-leases.v1.json'')"
proof -
  have "dk_nodes sample_revoked_disk ''/b/l'' \<noteq> dk_nodes sample_disk ''/b/l''" "dk_nodes sample_disk ''/b/l'' \<noteq> None"
    by (simp_all add: sample_revoked_disk_def sample_disk_def)
  moreover have "Clean (fl_Path sample_file_lease) \<noteq> ''/b/revoked-leases.v1.json''" by (simp add: sample_lease_path)
  ultimately show ?thesis
    using revocation_precedes_removal [OF sample_revoked sample_revocation_path] by blast
qed

text \<open>
  The list is put in order by the texts of the times, not by the times: a revocation at a
  full second is taken for younger than one half a second later, because the text leaves out the
  zeros at the end.
\<close>

theorem revocations_are_ordered_by_text:
  "FormatRFC3339Nano (5 * Second) > FormatRFC3339Nano (5 * Second + 500000000)
   \<and> olderRevocation
       \<lparr>rv_IdentityHash = a, rv_RevokedAt = FormatRFC3339Nano (5 * Second + 500000000), rv_ExpiresAt = x\<rparr>
       \<lparr>rv_IdentityHash = b, rv_RevokedAt = FormatRFC3339Nano (5 * Second), rv_ExpiresAt = y\<rparr>"
proof -
  have "FormatRFC3339Nano (5 * Second) = ''0001-01-01T00:00:05Z''"
    "FormatRFC3339Nano (5 * Second + 500000000) = ''0001-01-01T00:00:05.5Z''"
    by code_simp+
  moreover have "''0001-01-01T00:00:05Z'' > ''0001-01-01T00:00:05.5Z''" by code_simp
  ultimately show ?thesis by (simp add: olderRevocation_def)
qed

end
