(* ===== verification/StateFiles.thy ===== *)
theory StateFiles
  imports Files NetPolicy WireCodec
begin

text \<open>
  The state files of a browser profile that the runtime checks before it gives a profile to an
  engine: the page continuations, \<^verbatim>\<open>browserruntime/page_continuation.go\<close>, and the origin budgets,
  \<^verbatim>\<open>browserruntime/profile_origin_budget.go\<close>. The strict JSON readers and \<^verbatim>\<open>json.Marshal\<close> are
  parameters.
\<close>

section \<open>Printing a URL\<close>

text \<open>
  \<^verbatim>\<open>URL.String\<close> of a URL with a scheme, without user information and without fragment.
\<close>

definition escape_host :: "string \<Rightarrow> string" where
  "escape_host s = concat (map (\<lambda>c.
     if should_escape EncodeHost c
     then [CHR ''%'', char_of (if code_of c div 16 < 10 then 48 + code_of c div 16 else 55 + code_of c div 16),
           char_of (if code_of c mod 16 < 10 then 48 + code_of c mod 16 else 55 + code_of c mod 16)]
     else [c]) s)"

definition validEncoded :: "string \<Rightarrow> bool" where
  "validEncoded s =
     list_all (\<lambda>c. c \<in> set ''!$&()*+,;=:@[]%'' \<union> {CHR 0x27} \<or> \<not> should_escape EncodePath c) s"

definition EscapedPath :: "url \<Rightarrow> string" where
  "EscapedPath u =
     (if url_RawPath u \<noteq> [] \<and> validEncoded (url_RawPath u)
         \<and> unescape EncodePath (url_RawPath u) = Some (url_Path u) then url_RawPath u
      else if url_Path u = ''*'' then ''*''
      else escape_path (url_Path u))"

definition url_String :: "url \<Rightarrow> string" where
  "url_String u =
     (let path = EscapedPath u in
      url_Scheme u @ '':''
      @ (if url_Opaque u \<noteq> [] then url_Opaque u
         else (if url_Host u \<noteq> [] \<or> url_Path u \<noteq> [] then ''//'' else []) @ escape_host (url_Host u)
           @ (if path \<noteq> [] \<and> hd path \<noteq> CHR ''/'' \<and> url_Host u \<noteq> [] then ''/'' else []) @ path)
      @ (if url_ForceQuery u \<or> url_RawQuery u \<noteq> [] then CHR ''?'' # url_RawQuery u else []))"

section \<open>Page continuations\<close>

definition pageContinuationContractID :: string where
  "pageContinuationContractID = ''openlinker.browser.page-continuation.v1''"

definition stateDirectory :: string where "stateDirectory = ''.openlinker''"
definition pageContinuationFile :: string where "pageContinuationFile = ''page-continuations.v1.json''"
definition maxPageContinuationBytes :: nat where "maxPageContinuationBytes = 524288"
definition maxPageContinuationEntries :: nat where "maxPageContinuationEntries = 32"
definition maxPageContinuationURL :: nat where "maxPageContinuationURL = 8192"

record page_continuation =
  pc_SessionKey :: string
  pc_URL :: string
  pc_UpdatedAt :: string

record page_continuations =
  pi_ContractID :: string
  pi_Entries :: "page_continuation list"

datatype page_error =
    PageFileInvalid | PageFileUnreadable | PagePayloadInvalid | PageContractInvalid | PageKeyInvalid
  | PageKeyDuplicated | PageURLInvalid | PageTimestampInvalid

definition normalizePageContinuationURL :: "externals \<Rightarrow> string \<Rightarrow> string option" where
  "normalizePageContinuationURL ext raw =
     (if raw = [] \<or> maxPageContinuationURL < length raw then None
      else (case url_Parse raw of
        None \<Rightarrow> None
      | Some parsed \<Rightarrow>
          let host = ToLower (ext_lower ext) (url_Hostname parsed) in
          if (url_Scheme parsed \<noteq> ''http'' \<and> url_Scheme parsed \<noteq> ''https'') \<or> url_User parsed \<or> host = []
             \<or> LooksLikeIPLiteral ext host \<or> \<not> ContainsByte host (CHR ''.'') \<or> HasSuffix host ''.local''
             \<or> HasSuffix host ''.internal'' then None
          else
            (let normalized = url_String (parsed\<lparr>url_Fragment := [],
                   url_Host := ToLower (ext_lower ext) (url_Host parsed)\<rparr>) in
             if maxPageContinuationURL < length normalized then None else Some normalized)))"

definition page_url_ok :: "externals \<Rightarrow> string \<Rightarrow> bool" where
  "page_url_ok ext raw \<longleftrightarrow>
     raw \<noteq> [] \<and> length raw \<le> maxPageContinuationURL \<and> normalizePageContinuationURL ext raw = Some raw"

fun check_pages :: "externals \<Rightarrow> string set \<Rightarrow> page_continuation list \<Rightarrow> page_error option" where
  "check_pages ext seen [] = None"
| "check_pages ext seen (e # es) =
     (if (case hex_decode (pc_SessionKey e) of None \<Rightarrow> True | Some key \<Rightarrow> length key \<noteq> 32) then Some PageKeyInvalid
      else if pc_SessionKey e \<in> seen then Some PageKeyDuplicated
      else if \<not> page_url_ok ext (pc_URL e) then Some PageURLInvalid
      else if (case ParseRFC3339Nano (pc_UpdatedAt e) of None \<Rightarrow> True | Some (_, utc) \<Rightarrow> \<not> utc)
        then Some PageTimestampInvalid
      else check_pages ext (insert (pc_SessionKey e) seen) es)"

definition check_page_index :: "externals \<Rightarrow> page_continuations \<Rightarrow> page_error option" where
  "check_page_index ext index =
     (if pi_ContractID index \<noteq> pageContinuationContractID
         \<or> maxPageContinuationEntries < length (pi_Entries index) then Some PageContractInvalid
      else check_pages ext {} (pi_Entries index))"

definition Join3 :: "string \<Rightarrow> string \<Rightarrow> string \<Rightarrow> string" where
  "Join3 a b c = (if a \<noteq> [] then Clean (a @ ''/'' @ b @ ''/'' @ c) else Join b c)"

definition private_regular :: "nat \<Rightarrow> node \<Rightarrow> bool" where
  "private_regular limit nd \<longleftrightarrow>
     (case nd_kind nd of
        Regular bs \<Rightarrow> private_mode nd \<and> 0 < length bs \<and> length bs \<le> limit
      | _ \<Rightarrow> False)"

definition validatePageContinuationState ::
    "externals \<Rightarrow> page_continuations codec \<Rightarrow> string \<Rightarrow> disk \<Rightarrow> page_error option \<times> disk" where
  "validatePageContinuationState ext codec profile d =
     (let path = Join3 profile stateDirectory pageContinuationFile in
      (case Lstat path d of
         (Inl ErrNotExist, d) \<Rightarrow> (None, d)
       | (Inl ErrOther, d) \<Rightarrow> (Some PageFileInvalid, d)
       | (Inr nd, d) \<Rightarrow>
           if \<not> private_regular maxPageContinuationBytes nd then (Some PageFileInvalid, d)
           else (case ReadFile path d of
             (None, d) \<Rightarrow> (Some PageFileUnreadable, d)
           | (Some raw, d) \<Rightarrow>
               ((if maxPageContinuationBytes < length raw then Some PageFileUnreadable
                 else (case strict_decode codec raw of
                   None \<Rightarrow> Some PagePayloadInvalid
                 | Some index \<Rightarrow> check_page_index ext index)), d))))"

section \<open>Origin budgets\<close>

definition originBudgetContractID :: string where
  "originBudgetContractID = ''openlinker.browser.origin-budgets.v1''"

definition originBudgetFile :: string where "originBudgetFile = ''origin-budgets.v1.json''"
definition maxOriginBudgetBytes :: nat where "maxOriginBudgetBytes = 262144"
definition maxOriginBudgetEntries :: nat where "maxOriginBudgetEntries = 256"
definition maxOriginActionTimes :: nat where "maxOriginActionTimes = 600"
definition maxOriginNavigationTimes :: nat where "maxOriginNavigationTimes = 60"
definition maxJavaScriptSafeInteger :: int where "maxJavaScriptSafeInteger = 2 ^ 53 - 1"

record origin_budget =
  ob_Key :: string
  ob_ActionMS :: "go_int list option"
  ob_NavigationMS :: "go_int list option"
  ob_BackoffUntilMS :: "go_int option"
  ob_UpdatedAtMS :: go_int

record origin_budgets =
  od_ContractID :: string
  od_Entries :: "origin_budget list option"

text \<open>A nil slice prints as null and an empty one as [], so the documents differ; both have no entries.\<close>

definition budget_entries :: "origin_budgets \<Rightarrow> origin_budget list" where
  "budget_entries document = (case od_Entries document of None \<Rightarrow> [] | Some es \<Rightarrow> es)"

datatype budget_error =
    BudgetUnreadable | BudgetDirectoryInvalid | BudgetFileInvalid | BudgetPayloadInvalid | BudgetNotCanonical
  | BudgetContractInvalid | BudgetKeyInvalid | BudgetKeyDuplicated | BudgetNotOrdered | BudgetEntryInvalid
  | BudgetUpdateTimeInvalid

definition validJavaScriptTime :: "go_int \<Rightarrow> bool" where
  "validJavaScriptTime v \<longleftrightarrow> 0 \<le> sint v \<and> sint v \<le> maxJavaScriptSafeInteger"

fun times_ok :: "go_int list \<Rightarrow> bool" where
  "times_ok [] = True"
| "times_ok [v] = validJavaScriptTime v"
| "times_ok (v # w # vs) = (validJavaScriptTime v \<and> \<not> sint w < sint v \<and> times_ok (w # vs))"

definition validOriginBudgetTimes :: "go_int list option \<Rightarrow> nat \<Rightarrow> bool" where
  "validOriginBudgetTimes values maximum =
     (case values of None \<Rightarrow> False | Some vs \<Rightarrow> length vs \<le> maximum \<and> times_ok vs)"

definition lastOriginBudgetTime :: "go_int list option \<Rightarrow> go_int" where
  "lastOriginBudgetTime values = (case values of None \<Rightarrow> 0 | Some vs \<Rightarrow> if vs = [] then 0 else last vs)"

definition compareOriginBudgetEntries :: "origin_budget \<Rightarrow> origin_budget \<Rightarrow> int" where
  "compareOriginBudgetEntries l r =
     (if sint (ob_UpdatedAtMS l) < sint (ob_UpdatedAtMS r) then -1
      else if sint (ob_UpdatedAtMS l) > sint (ob_UpdatedAtMS r) then 1
      else if ob_Key l < ob_Key r then -1
      else if ob_Key l > ob_Key r then 1
      else 0)"

definition key_invalid :: "string \<Rightarrow> bool" where
  "key_invalid k \<longleftrightarrow>
     (case hex_decode k of None \<Rightarrow> True | Some key \<Rightarrow> length key \<noteq> 32) \<or> k \<noteq> map lower_char k"

fun check_budgets :: "string set \<Rightarrow> origin_budget option \<Rightarrow> origin_budget list \<Rightarrow> budget_error option" where
  "check_budgets seen previous [] = None"
| "check_budgets seen previous (e # es) =
     (if key_invalid (ob_Key e) then Some BudgetKeyInvalid
      else if ob_Key e \<in> seen then Some BudgetKeyDuplicated
      else if (case previous of None \<Rightarrow> False | Some p \<Rightarrow> 0 \<le> compareOriginBudgetEntries p e)
        then Some BudgetNotOrdered
      else if \<not> validOriginBudgetTimes (ob_ActionMS e) maxOriginActionTimes
          \<or> \<not> validOriginBudgetTimes (ob_NavigationMS e) maxOriginNavigationTimes
          \<or> \<not> validJavaScriptTime (ob_UpdatedAtMS e)
          \<or> (case ob_BackoffUntilMS e of None \<Rightarrow> False | Some t \<Rightarrow> \<not> validJavaScriptTime t)
        then Some BudgetEntryInvalid
      else if sint (lastOriginBudgetTime (ob_ActionMS e)) > sint (ob_UpdatedAtMS e)
          \<or> sint (lastOriginBudgetTime (ob_NavigationMS e)) > sint (ob_UpdatedAtMS e)
        then Some BudgetUpdateTimeInvalid
      else check_budgets (insert (ob_Key e) seen) (Some e) es)"

definition check_budget_document ::
    "origin_budgets codec \<Rightarrow> (origin_budgets \<Rightarrow> bytes option) \<Rightarrow> bytes \<Rightarrow> budget_error option" where
  "check_budget_document codec marshal raw =
     (case strict_decode codec raw of
        None \<Rightarrow> Some BudgetPayloadInvalid
      | Some document \<Rightarrow>
          if marshal document \<noteq> Some raw then Some BudgetNotCanonical
          else if od_ContractID document \<noteq> originBudgetContractID
            \<or> maxOriginBudgetEntries < length (budget_entries document) then Some BudgetContractInvalid
          else check_budgets {} None (budget_entries document))"

definition validateOriginBudgetState ::
    "origin_budgets codec \<Rightarrow> (origin_budgets \<Rightarrow> bytes option) \<Rightarrow> string \<Rightarrow> disk \<Rightarrow> budget_error option \<times> disk" where
  "validateOriginBudgetState codec marshal profile d =
     (let directory = Join profile stateDirectory; path = Join directory originBudgetFile in
      (case Lstat path d of
         (Inl ErrNotExist, d) \<Rightarrow> (None, d)
       | (Inl ErrOther, d) \<Rightarrow> (Some BudgetUnreadable, d)
       | (Inr nd, d) \<Rightarrow>
           (case Lstat directory d of
              (Inl _, d) \<Rightarrow> (Some BudgetDirectoryInvalid, d)
            | (Inr dir, d) \<Rightarrow>
                if nd_kind dir \<noteq> Directory \<or> \<not> private_mode dir then (Some BudgetDirectoryInvalid, d)
                else if \<not> private_regular maxOriginBudgetBytes nd then (Some BudgetFileInvalid, d)
                else (case ReadFile path d of
                  (None, d) \<Rightarrow> (Some BudgetUnreadable, d)
                | (Some raw, d) \<Rightarrow>
                    (if maxOriginBudgetBytes < length raw then Some BudgetUnreadable
                     else check_budget_document codec marshal raw, d)))))"

text \<open>Both checks, in the order of the code.\<close>

datatype profile_state_error = PageState page_error | BudgetState budget_error

definition validateBrowserProfileState ::
    "externals \<Rightarrow> page_continuations codec \<Rightarrow> origin_budgets codec \<Rightarrow> (origin_budgets \<Rightarrow> bytes option)
     \<Rightarrow> string \<Rightarrow> disk \<Rightarrow> profile_state_error option \<times> disk" where
  "validateBrowserProfileState ext pages budgets marshal profile d =
     (case validatePageContinuationState ext pages profile d of
        (Some e, d) \<Rightarrow> (Some (PageState e), d)
      | (None, d) \<Rightarrow>
          (case validateOriginBudgetState budgets marshal profile d of
             (e, d) \<Rightarrow> (map_option BudgetState e, d)))"

end
