(* ===== verification/StateProperties.thy ===== *)
theory StateProperties
  imports StateFiles
begin

text \<open>
  The properties of the profile's state files: what an accepted origin-budget document is.
\<close>

section \<open>Origin budgets\<close>

text \<open>Times as a document may list them: safe integers in order, none after the last update.\<close>

definition times_canonical :: "go_int list option \<Rightarrow> nat \<Rightarrow> int \<Rightarrow> bool" where
  "times_canonical vals maximum updated \<longleftrightarrow>
     (\<exists>vs. vals = Some vs \<and> length vs \<le> maximum \<and> sorted (map sint vs)
        \<and> (\<forall>v \<in> set vs. 0 \<le> sint v \<and> sint v \<le> updated))"

definition budget_canonical :: "origin_budget \<Rightarrow> bool" where
  "budget_canonical e \<longleftrightarrow>
     length (ob_Key e) = 64 \<and> list_all is_lower_hex (ob_Key e)
     \<and> 0 \<le> sint (ob_UpdatedAtMS e) \<and> sint (ob_UpdatedAtMS e) < 2 ^ 53
     \<and> times_canonical (ob_ActionMS e) 600 (sint (ob_UpdatedAtMS e))
     \<and> times_canonical (ob_NavigationMS e) 60 (sint (ob_UpdatedAtMS e))
     \<and> (\<forall>t. ob_BackoffUntilMS e = Some t \<longrightarrow> 0 \<le> sint t \<and> sint t < 2 ^ 53)"

definition budget_before :: "origin_budget \<Rightarrow> origin_budget \<Rightarrow> bool" where
  "budget_before l r \<longleftrightarrow>
     sint (ob_UpdatedAtMS l) < sint (ob_UpdatedAtMS r)
     \<or> ob_UpdatedAtMS l = ob_UpdatedAtMS r \<and> ob_Key l < ob_Key r"

lemma compare_negative: "compareOriginBudgetEntries l r < 0 \<longleftrightarrow> budget_before l r"
proof -
  have "sint (ob_UpdatedAtMS l) = sint (ob_UpdatedAtMS r) \<longleftrightarrow> ob_UpdatedAtMS l = ob_UpdatedAtMS r"
    by (rule word_eq_iff_signed [symmetric])
  then show ?thesis by (auto simp: compareOriginBudgetEntries_def budget_before_def)
qed

lemma budget_before_trans: "budget_before a b \<Longrightarrow> budget_before b c \<Longrightarrow> budget_before a c"
  by (auto simp: budget_before_def)

lemma times_ok_iff: "times_ok vs \<longleftrightarrow> sorted (map sint vs) \<and> (\<forall>v \<in> set vs. validJavaScriptTime v)"
  by (induction vs rule: times_ok.induct) (auto simp: not_less intro: order_trans)

lemma sorted_bound:
  assumes "sorted (map sint vs)" "vs \<noteq> []"
  shows "sint (last vs) \<le> u \<longleftrightarrow> (\<forall>v \<in> set vs. sint v \<le> u)"
proof -
  obtain ws w where vs: "vs = ws @ [w]" using assms(2) by (metis append_butlast_last_id)
  with assms(1) have "\<forall>v \<in> set ws. sint v \<le> sint w" by (simp add: sorted_append)
  with vs show ?thesis by fastforce
qed

lemma times_canonical_iff:
  assumes "validJavaScriptTime u"
  shows "validOriginBudgetTimes vals maximum \<and> \<not> sint u < sint (lastOriginBudgetTime vals)
    \<longleftrightarrow> times_canonical vals maximum (sint u)"
proof (cases vals)
  case None
  then show ?thesis by (simp add: validOriginBudgetTimes_def times_canonical_def)
next
  case (Some vs)
  have u: "0 \<le> sint u" "sint u \<le> maxJavaScriptSafeInteger"
    using assms by (simp_all add: validJavaScriptTime_def)
  show ?thesis
  proof (cases "vs = []")
    case True
    with Some u show ?thesis
      by (simp add: validOriginBudgetTimes_def times_canonical_def lastOriginBudgetTime_def)
  next
    case False
    have "(\<forall>v \<in> set vs. validJavaScriptTime v) \<and> (\<forall>v \<in> set vs. sint v \<le> sint u)
      \<longleftrightarrow> (\<forall>v \<in> set vs. 0 \<le> sint v \<and> sint v \<le> sint u)"
      using u(2) by (auto simp: validJavaScriptTime_def)
    with Some False sorted_bound [of vs "sint u"] show ?thesis
      by (auto simp: validOriginBudgetTimes_def times_canonical_def lastOriginBudgetTime_def times_ok_iff not_less)
  qed
qed

lemma hex_decode_length: "hex_decode s = Some b \<Longrightarrow> length s = 2 * length b \<and> list_all is_hex s"
  by (induction s arbitrary: b rule: hex_decode.induct) (auto split: if_splits)

lemma hex_decode_hex: "even (length s) \<Longrightarrow> list_all is_hex s \<Longrightarrow> hex_decode s \<noteq> None"
  by (induction s rule: hex_decode.induct) auto

lemma lower_hex_iff: "is_lower_hex c \<longleftrightarrow> is_hex c \<and> lower_char c = c"
proof -
  have "lower_char c \<noteq> c" if "65 \<le> code_of c" "code_of c \<le> 70"
  proof
    assume "lower_char c = c"
    then have "code_of c = code_of (char_of (code_of c + 32) :: char)"
      using that by (simp add: lower_char_def is_upper_def)
    then show False using that by (simp add: of_char_of)
  qed
  then show ?thesis by (auto simp: is_hex_def)
qed

lemma key_valid_iff: "\<not> key_invalid k \<longleftrightarrow> length k = 64 \<and> list_all is_lower_hex k"
proof -
  have lower: "list_all is_lower_hex k \<longleftrightarrow> list_all is_hex k \<and> map lower_char k = k"
    by (induction k) (auto simp: lower_hex_iff)
  show ?thesis
  proof (cases "hex_decode k")
    case None
    then have "\<not> (length k = 64 \<and> list_all is_hex k)" using hex_decode_hex [of k] by auto
    with None lower show ?thesis by (auto simp: key_invalid_def)
  next
    case (Some b)
    with hex_decode_length [OF Some] lower show ?thesis by (auto simp: key_invalid_def)
  qed
qed

lemma check_budgets_iff:
  "check_budgets seen previous es = None \<longleftrightarrow>
     (\<forall>e \<in> set es. budget_canonical e \<and> ob_Key e \<notin> seen) \<and> distinct (map ob_Key es)
     \<and> (case previous of None \<Rightarrow> True | Some p \<Rightarrow> \<forall>e \<in> set es. budget_before p e)
     \<and> sorted_wrt budget_before es"
proof (induction es arbitrary: seen previous)
  case (Cons e es)
  have before: "(case previous of None \<Rightarrow> False | Some p \<Rightarrow> 0 \<le> compareOriginBudgetEntries p e)
    \<longleftrightarrow> \<not> (case previous of None \<Rightarrow> True | Some p \<Rightarrow> budget_before p e)"
    by (simp add: compare_negative [symmetric] not_less split: option.splits)
  have js: "validJavaScriptTime t \<longleftrightarrow> 0 \<le> sint t \<and> sint t < 2 ^ 53" for t
    by (auto simp: validJavaScriptTime_def maxJavaScriptSafeInteger_def)
  have entry: "budget_canonical e \<longleftrightarrow> \<not> key_invalid (ob_Key e)
      \<and> (validOriginBudgetTimes (ob_ActionMS e) maxOriginActionTimes
         \<and> \<not> sint (ob_UpdatedAtMS e) < sint (lastOriginBudgetTime (ob_ActionMS e)))
      \<and> (validOriginBudgetTimes (ob_NavigationMS e) maxOriginNavigationTimes
         \<and> \<not> sint (ob_UpdatedAtMS e) < sint (lastOriginBudgetTime (ob_NavigationMS e)))
      \<and> validJavaScriptTime (ob_UpdatedAtMS e)
      \<and> \<not> (case ob_BackoffUntilMS e of None \<Rightarrow> False | Some t \<Rightarrow> \<not> validJavaScriptTime t)"
    using times_canonical_iff [of "ob_UpdatedAtMS e"]
    by (auto simp: budget_canonical_def key_valid_iff js maxOriginActionTimes_def maxOriginNavigationTimes_def
        split: option.splits)
  have step: "check_budgets seen previous (e # es) = None \<longleftrightarrow>
    budget_canonical e \<and> ob_Key e \<notin> seen
    \<and> (case previous of None \<Rightarrow> True | Some p \<Rightarrow> budget_before p e)
    \<and> check_budgets (insert (ob_Key e) seen) (Some e) es = None"
    unfolding entry by (simp add: before)
  have trans: "budget_before p e \<Longrightarrow> (\<forall>x \<in> set es. budget_before e x) \<Longrightarrow> \<forall>x \<in> set es. budget_before p x" for p
    using budget_before_trans by blast
  show ?case
    unfolding step Cons.IH option.case using trans by (cases previous) (auto simp: image_iff)
qed (simp split: option.splits)

text \<open>
  C33. The origin budgets that pass the check are exactly the canonical documents: the text is the
  one the encoder gives for them, there are at most 256 entries in strictly ascending order of
  update time and key, every key is a lower-case digest that occurs once, and every time is a
  safe integer, listed in order and not after the update of its entry.
\<close>

theorem origin_budgets_are_canonical:
  "check_budget_document codec marshal raw = None \<longleftrightarrow>
     (\<exists>document. strict_decode codec raw = Some document \<and> marshal document = Some raw
       \<and> od_ContractID document = originBudgetContractID \<and> length (budget_entries document) \<le> 256
       \<and> (\<forall>e \<in> set (budget_entries document). budget_canonical e)
       \<and> distinct (map ob_Key (budget_entries document))
       \<and> sorted_wrt budget_before (budget_entries document))"
  by (auto simp: check_budget_document_def check_budgets_iff maxOriginBudgetEntries_def split: option.splits)

definition sample_budgets :: origin_budgets where
  "sample_budgets = \<lparr>od_ContractID = originBudgetContractID, od_Entries = Some
     [\<lparr>ob_Key = replicate 64 (CHR ''a''), ob_ActionMS = Some [1, 2], ob_NavigationMS = Some [],
       ob_BackoffUntilMS = None, ob_UpdatedAtMS = 2\<rparr>]\<rparr>"

theorem origin_budgets_are_canonical_witness:
  "\<exists>document. strict_decode (one_text_codec ''D'' sample_budgets sample_budgets) ''D'' = Some document
     \<and> Some ''D'' = Some ''D'' \<and> od_ContractID document = originBudgetContractID
     \<and> length (budget_entries document) \<le> 256 \<and> distinct (map ob_Key (budget_entries document))
     \<and> sorted_wrt budget_before (budget_entries document)"
proof -
  have "check_budget_document (one_text_codec ''D'' sample_budgets sample_budgets) (\<lambda>_. Some ''D'') ''D'' = None"
    by code_simp
  then show ?thesis unfolding origin_budgets_are_canonical by blast
qed

end
