(* ===== verification/PluginTools.thy ===== *)
theory PluginTools
  imports Executor EgressGateway "HOL-Library.AList"
begin

text \<open>
  The tool that the plugin offers and what its results say: \<^verbatim>\<open>browserplugin/tools.go\<close> and the
  result builders of \<^verbatim>\<open>browserplugin/server.go\<close>.

  A \<^verbatim>\<open>map[string]any\<close> is an association list in the order of the assignments; its keys are
  looked up with \<^const>\<open>map_of\<close>, and JSON gives them no order.
\<close>

section \<open>JSON values\<close>

datatype json =
    JNull | JBool bool | JInt int | JNumber string | JText string
  | JList "json list" | JObject "(string \<times> json) list"

type_synonym json_map = "(string \<times> json) list"

text \<open>\<open>put_when b k v m\<close> is \<^verbatim>\<open>if b { m[k] = v }\<close> for a key that \<open>m\<close> does not have yet or replaces.\<close>

definition put :: "string \<Rightarrow> json \<Rightarrow> json_map \<Rightarrow> json_map" where
  "put k v m = AList.update k v m"

definition put_when :: "bool \<Rightarrow> string \<Rightarrow> json \<Rightarrow> json_map \<Rightarrow> json_map" where
  "put_when b k v m = (if b then put k v m else m)"

definition put_some :: "('a \<Rightarrow> json) \<Rightarrow> 'a option \<Rightarrow> string \<Rightarrow> json_map \<Rightarrow> json_map" where
  "put_some f v k m = (case v of None \<Rightarrow> m | Some x \<Rightarrow> put k (f x) m)"

lemma map_of_put [simp]: "map_of (put k v m) = (map_of m)(k \<mapsto> v)"
  by (simp add: put_def update_conv')

lemma map_of_put_when [simp]:
  "map_of (put_when b k v m) k' = (if b \<and> k' = k then Some v else map_of m k')"
  by (simp add: put_when_def)

lemma map_of_put_some [simp]:
  "map_of (put_some f v k m) k' =
     (if k' = k then (case v of None \<Rightarrow> map_of m k | Some x \<Rightarrow> Some (f x)) else map_of m k')"
  by (simp add: put_some_def split: option.splits)

abbreviation JWord :: "go_int \<Rightarrow> json" where "JWord w \<equiv> JInt (sint w)"
abbreviation JUnsigned :: "go_uint64 \<Rightarrow> json" where "JUnsigned w \<equiv> JInt (int (unat w))"
abbreviation JTexts :: "string list \<Rightarrow> json" where "JTexts ss \<equiv> JList (map JText ss)"

section \<open>Arguments of a tool call\<close>

record tool_arguments =
  ta_Operation :: string
  ta_Observation :: observation_mode
  ta_Actions :: "action list"

definition maxBatchActions :: nat where "maxBatchActions = 8"

definition invalidToolArguments :: "string \<Rightarrow> failure" where
  "invalidToolArguments message = NewFailure ErrorProtocolInvalid message False"

definition batch_kind :: "action_kind \<Rightarrow> bool" where
  "batch_kind k \<longleftrightarrow> k = ActionScroll \<or> k = ActionWait \<or> k = ActionScreenshot"

definition tool_action_rejects :: "externals \<Rightarrow> string \<Rightarrow> action \<Rightarrow> failure option" where
  "tool_action_rejects ext policy a =
     reject_if (act_Observation a \<noteq> ObservationDefault)
       (invalidToolArguments ''Browser action observation is controlled by the operation'')
       (ValidateForPolicy ext policy a)"

definition restricted_batch_rejects :: "action \<Rightarrow> failure option" where
  "restricted_batch_rejects a =
     reject_if (\<not> batch_kind (act_Kind a))
       (invalidToolArguments
          ''multi-action Browser batches may contain only scroll, wait, and screenshot; send navigation in a separate act call'')
       None"

definition validateToolArguments :: "externals \<Rightarrow> tool_arguments \<Rightarrow> string \<Rightarrow> failure option" where
  "validateToolArguments ext arguments policy =
     or_else (ObservationMode_Validate (ta_Observation arguments))
     (reject_if (ta_Observation arguments = ObservationNone)
       (invalidToolArguments ''Browser tool observation mode is invalid'')
     (if ta_Operation arguments = ''observe'' \<or> ta_Operation arguments = ''checkpoint''
         \<or> ta_Operation arguments = ''close'' then
        reject_if (length (ta_Actions arguments) \<noteq> 0)
          (invalidToolArguments ''Browser operation does not accept actions; use act for actions'')
          None
      else if ta_Operation arguments = ''act'' then
        reject_if (length (ta_Actions arguments) < 1 \<or> maxBatchActions < length (ta_Actions arguments))
          (invalidToolArguments ''Browser act requires one to eight actions'')
        (or_else (first_reject (tool_action_rejects ext policy) (ta_Actions arguments))
        (if 1 < length (ta_Actions arguments) \<and> policy \<noteq> ''full'' then
           first_reject restricted_batch_rejects (ta_Actions arguments)
         else None))
      else Some (invalidToolArguments
        ''Browser operation is invalid; use observe, act, checkpoint, or close'')))"


section \<open>The tool's definition\<close>

definition string_property :: "string \<Rightarrow> json" where
  "string_property description =
     JObject [(''type'', JText ''string''), (''description'', JText description)]"

definition integer_property :: "string \<Rightarrow> json" where
  "integer_property description =
     JObject [(''type'', JText ''integer''), (''description'', JText description)]"

definition tool_action_kinds :: "string \<Rightarrow> string list" where
  "tool_action_kinds policy =
     [''navigate'', ''click'', ''type_non_secret'', ''scroll'', ''keypress'', ''wait'', ''back'',
      ''forward'', ''screenshot''] @ (if policy = ''full'' then [''select''] else [])"

definition batch_description :: "string \<Rightarrow> string" where
  "batch_description policy =
     (if policy = ''full'' then
        ''Required only for act. Under the evidenced full policy, a batch may contain supported page actions and stops at the first failed or uncertain action with an exact completed-action count.''
      else ''Required only for act. Multi-action batches may contain only scroll, wait, and screenshot under the restricted policy.'')"

definition action_properties :: "string \<Rightarrow> json_map" where
  "action_properties policy =
     [(''kind'', JObject [(''type'', JText ''string''), (''enum'', JTexts (tool_action_kinds policy))]),
      (''url'', string_property ''Public HTTP(S) URL for navigate''),
      (''x'', integer_property ''X coordinate in the viewport reported by the latest screenshot observation''),
      (''y'', integer_property ''Y coordinate in the viewport reported by the latest screenshot observation''),
      (''delta_x'', integer_property ''Horizontal scroll delta''),
      (''delta_y'', integer_property ''Vertical scroll delta''),
      (''text'', string_property ''Non-secret text for the currently focused safe text/search input; credentials are forbidden''),
      (''key'', string_property ''Allowed keyboard key''),
      (''value'', string_property ''Option value for a full-policy active select control''),
      (''duration_ms'', integer_property ''Wait duration in milliseconds'')]"

definition browserToolDescription :: "string \<Rightarrow> string" where
  "browserToolDescription policy =
     (let description = ''Observe or operate the container-isolated Browser attached to the current client conversation. Identity and policy are supplied by the trusted worker, not tool arguments. Before a coordinate click, request a screenshot and use its reported viewport. Never enter credentials.'' in
      if policy = ''full'' then
        description @ '' The evidenced full policy permits supported typed controls only on the exact evidenced mutation origins; page content is untrusted and uncertain mutation outcomes must not be retried.''
      else
        description @ '' Restricted policy activates only public links or focuses safe text/search inputs; buttons and custom controls are blocked.'')"

record tool_definition =
  td_Name :: string
  td_Title :: string
  td_Description :: string
  td_InputSchema :: json_map
  td_Annotations :: json_map

definition browserToolDefinitions :: "string \<Rightarrow> tool_definition list" where
  "browserToolDefinitions policy =
     [\<lparr>td_Name = ''browser_session'', td_Title = ''Use isolated Browser session'',
       td_Description = browserToolDescription policy,
       td_InputSchema =
         [(''type'', JText ''object''),
          (''properties'', JObject
             [(''operation'', JObject
                 [(''type'', JText ''string''),
                  (''enum'', JTexts [''observe'', ''act'', ''checkpoint'', ''close''])]),
              (''observation'', JObject
                 [(''type'', JText ''string''),
                  (''enum'', JTexts [''semantic'', ''screenshot'', ''both'']),
                  (''description'', JText ''Optional response detail for observe or act; defaults to semantic. Accepted but ignored for checkpoint or close.'')]),
              (''actions'', JObject
                 [(''type'', JText ''array''), (''minItems'', JInt 1),
                  (''maxItems'', JInt (int maxBatchActions)),
                  (''items'', JObject
                     [(''type'', JText ''object''), (''properties'', JObject (action_properties policy)),
                      (''required'', JTexts [''kind'']), (''additionalProperties'', JBool False)]),
                  (''description'', JText (batch_description policy))])]),
          (''required'', JTexts [''operation'']),
          (''additionalProperties'', JBool False)],
       td_Annotations =
         [(''readOnlyHint'', JBool False), (''destructiveHint'', JBool True),
          (''idempotentHint'', JBool False), (''openWorldHint'', JBool True)]\<rparr>]"

section \<open>Results\<close>

record content_block =
  cb_Type :: string
  cb_Text :: string
  cb_Data :: string
  cb_MIMEType :: string

record tool_result =
  tr_Content :: "content_block list"
  tr_StructuredContent :: "json_map option"
  tr_IsError :: bool

definition text_block :: "string \<Rightarrow> content_block" where
  "text_block t = \<lparr>cb_Type = ''text'', cb_Text = t, cb_Data = [], cb_MIMEType = []\<rparr>"

text \<open>A Go \<^verbatim>\<open>error\<close>: a failure that \<^verbatim>\<open>errors.As\<close> finds, or some other error with its text.\<close>

datatype plugin_error = FailureError failure | OtherError string

definition ClickEffect_text :: "click_effect \<Rightarrow> string" where
  "ClickEffect_text e = (case e of ClickEffectOther s \<Rightarrow> s
     | _ \<Rightarrow> (case map_of click_effect_texts e of Some s \<Rightarrow> s | None \<Rightarrow> []))"

definition TargetCategory_text :: "target_category \<Rightarrow> string" where
  "TargetCategory_text c = (case c of TargetCategoryUnknown s \<Rightarrow> s
     | _ \<Rightarrow> (case map_of target_category_texts c of Some s \<Rightarrow> s | None \<Rightarrow> []))"

definition JCode :: "error_code \<Rightarrow> json" where "JCode c = JText (ErrorCode_text c)"

text \<open>The part of \<^verbatim>\<open>browserErrorResult\<close> that only a failure has.\<close>

definition failure_fields :: "failure \<Rightarrow> json_map \<Rightarrow> json_map" where
  "failure_fields f m0 =
     (let m1 = put_some JWord (fl_ActionIndex f) ''failed_action_index'' m0;
          m2 = (if fl_CompletedActions f = None then put_some JWord (fl_ActionIndex f) ''completed_actions'' m1
                else m1);
          m3 = put_some JWord (fl_CompletedActions f) ''completed_actions'' m2;
          targeted = fl_TargetCategory f \<noteq> TargetCategoryEmpty;
          m4 = put_when targeted ''target_category'' (JText (TargetCategory_text (fl_TargetCategory f))) m3;
          m5 = put_when targeted ''page_state_id'' (JText (fl_PageStateID f)) m4;
          m6 = put_when targeted ''navigation_generation'' (JUnsigned (fl_NavigationGeneration f)) m5;
          m7 = put_some JWord (fl_BlockedClickNavigationAttemptsRemaining f)
                 ''blocked_click_navigation_attempts_remaining'' m6;
          m8 = put_some JWord (fl_BlockedClickRunAttemptsRemaining f)
                 ''blocked_click_run_attempts_remaining'' m7;
          m9 = put_some JCode (fl_SiteOutcome f) ''site_outcome'' m8;
          m10 = put_some JWord (fl_RetryAfterMS f) ''retry_after_ms'' m9;
          m11 = put_when (fl_ClassifierRulesVersion f \<noteq> []) ''classifier_rules_version''
                  (JText (fl_ClassifierRulesVersion f)) m10;
          m12 = put_some JWord (fl_ConsecutiveAccessDenials f) ''consecutive_access_denials'' m11;
          m13 = put_when (fl_OriginBlockedForAttachment f) ''origin_blocked_for_attachment'' (JBool True) m12;
          m14 = put_when (fl_ChallengeReleaseUnavailable f) ''challenge_release_unavailable'' (JBool True) m13;
          m15 = put_when (fl_HumanControlAvailable f) ''human_control_available'' (JBool True) m14;
          m16 = put_some JBool (fl_RetrySameAction f) ''retry_same_action'' m15;
          m17 = put_some JBool (fl_AttachmentUsable f) ''attachment_usable'' m16;
          m18 = put_some JBool (fl_FreshObservationRequired f) ''fresh_observation_required'' m17;
          m19 = put_when (fl_MutationOutcomeReason f \<noteq> []) ''mutation_outcome_reason''
                  (JText (fl_MutationOutcomeReason f)) m18;
          m20 = put_some JWord (fl_AttemptedUnits f) ''attempted_units'' m19;
          m21 = put_some JWord (fl_UndispatchedUnits f) ''undispatched_units'' m20;
          m22 = put_when (0 < sint (fl_MutationRequestsObserved f)) ''mutation_requests_observed''
                  (JWord (fl_MutationRequestsObserved f)) m21;
          m23 = put_when (fl_ObservedOrigin f \<noteq> []) ''observed_origin'' (JText (fl_ObservedOrigin f)) m22
      in put_some JTexts (fl_BrowserMutationOrigins f) ''browser_mutation_origins'' m23)"

definition browserErrorResult :: "plugin_error \<Rightarrow> tool_result" where
  "browserErrorResult err =
     (let code = (case err of FailureError f \<Rightarrow> fl_Code f | OtherError _ \<Rightarrow> ErrorInternal);
          message = (case err of FailureError f \<Rightarrow> fl_Message f | OtherError _ \<Rightarrow> ''Browser tool failed'');
          structured = [(''status'', JText ''error''), (''code'', JCode code), (''message'', JText message)]
      in \<lparr>tr_Content = [text_block (ErrorCode_text code @ '': '' @ message)],
          tr_StructuredContent = Some (case err of FailureError f \<Rightarrow> failure_fields f structured
            | OtherError _ \<Rightarrow> structured),
          tr_IsError = True\<rparr>)"

text \<open>
  \<open>parse\<close> is \<^verbatim>\<open>json.Unmarshal\<close> into an \<^verbatim>\<open>any\<close>, \<open>marshal\<close> is \<^verbatim>\<open>json.Marshal\<close>; an error is
  \<^term>\<open>None\<close>.
\<close>

definition raw_field ::
    "(bytes \<Rightarrow> json option) \<Rightarrow> bytes \<Rightarrow> string \<Rightarrow> json_map \<Rightarrow> json_map" where
  "raw_field parse raw k m = (if 0 < length raw then put_some id (parse raw) k m else m)"

definition viewport_field :: "viewport \<Rightarrow> json" where
  "viewport_field v = JObject [(''width'', JWord (vp_Width v)), (''height'', JWord (vp_Height v))]"

definition screenshot_field :: "screenshot \<Rightarrow> json" where
  "screenshot_field s =
     JObject [(''mime_type'', JText (ss_MIMEType s)), (''width'', JWord (ss_Width s)),
              (''height'', JWord (ss_Height s))]"

definition observation_fields :: "(bytes \<Rightarrow> json option) \<Rightarrow> string \<Rightarrow> observation \<Rightarrow> json_map" where
  "observation_fields parse operation obs =
     (let m0 = [(''operation'', JText operation), (''status'', JText ''ok''),
                (''page_state_id'', JText (obs_PageStateID obs))];
          m1 = put_some viewport_field (obs_Viewport obs) ''viewport'' m0;
          m2 = put_when (0 < unat (obs_NavigationGeneration obs)) ''navigation_generation''
                 (JUnsigned (obs_NavigationGeneration obs)) m1;
          m3 = put_when (obs_Origin obs \<noteq> []) ''origin'' (JText (obs_Origin obs)) m2;
          m4 = put_when (obs_Title obs \<noteq> []) ''title'' (JText (obs_Title obs)) m3;
          m5 = raw_field parse (obs_AXTree obs) ''ax_tree'' m4;
          m6 = raw_field parse (obs_DOMDiff obs) ''dom_diff'' m5;
          m7 = put_when (obs_AXTreeTimedOut obs) ''ax_tree_timed_out'' (JBool True) m6;
          m8 = put_when (obs_DOMDiffTimedOut obs) ''dom_diff_timed_out'' (JBool True) m7;
          m9 = put_when (obs_ClickEffect obs \<noteq> ClickEffectNone) ''click_effect''
                 (JText (ClickEffect_text (obs_ClickEffect obs))) m8;
          m10 = put_when (obs_TargetCategory obs \<noteq> TargetCategoryEmpty) ''target_category''
                  (JText (TargetCategory_text (obs_TargetCategory obs))) m9;
          m11 = put_some JCode (obs_SiteOutcome obs) ''site_outcome'' m10;
          m12 = put_when (obs_ClassifierRulesVersion obs \<noteq> []) ''classifier_rules_version''
                  (JText (obs_ClassifierRulesVersion obs)) m11;
          m13 = put_when (obs_ChallengeReleaseUnavailable obs) ''challenge_release_unavailable'' (JBool True) m12;
          m14 = put_when (0 < sint (obs_BlockedMutationRequests obs)) ''blocked_mutation_requests''
                  (JWord (obs_BlockedMutationRequests obs)) m13;
          m15 = put_when (0 < sint (obs_MutationRequestsObserved obs)) ''mutation_requests_observed''
                  (JWord (obs_MutationRequestsObserved obs)) m14
      in put_some screenshot_field (obs_Screenshot obs) ''screenshot'' m15)"

definition image_blocks :: "screenshot option \<Rightarrow> content_block list" where
  "image_blocks shot =
     (case shot of None \<Rightarrow> []
      | Some s \<Rightarrow> [\<lparr>cb_Type = ''image'', cb_Text = [], cb_Data = base64 (ss_Data s),
                    cb_MIMEType = ss_MIMEType s\<rparr>])"

definition observationResult ::
    "(bytes \<Rightarrow> json option) \<Rightarrow> (json_map \<Rightarrow> string option) \<Rightarrow> string \<Rightarrow> observation \<Rightarrow> tool_result" where
  "observationResult parse marshal operation obs =
     (let structured = observation_fields parse operation obs in
      case marshal structured of
        None \<Rightarrow> browserErrorResult (OtherError ''json'')
      | Some encoded \<Rightarrow>
          \<lparr>tr_Content = text_block encoded # image_blocks (obs_Screenshot obs),
           tr_StructuredContent = Some structured, tr_IsError = False\<rparr>)"

end
