(* ===== verification/PluginLoop.thy ===== *)
theory PluginLoop
  imports BrowserPlugin "HOL-Library.Multiset"
begin

text \<open>
  \<^verbatim>\<open>Server.Serve\<close>: the loop that reads lines, starts a goroutine per request and writes the
  answers as they complete. A goroutine advances by one section of \<^const>\<open>handle\<close> at a time; the
  sections of different goroutines interleave, and the two that run under \<^verbatim>\<open>actionMu\<close> exclude
  each other.
\<close>

section \<open>Lines\<close>

text \<open>
  \<^verbatim>\<open>scanMessages\<close>: \<^verbatim>\<open>bufio.Scanner\<close> splits at newlines, drops one trailing carriage return and
  fails when a line does not fit into its buffer of 4 MiB.
\<close>

datatype scanned = Line bytes | ScanError

definition maxLineBytes :: nat where "maxLineBytes = 4194304"

definition drop_carriage :: "bytes \<Rightarrow> bytes" where
  "drop_carriage line = TrimSuffix line [char_of (13::nat)]"

fun scanned_lines :: "bytes list \<Rightarrow> scanned list" where
  "scanned_lines [] = []"
| "scanned_lines [final] =
     (if final = [] then [] else if maxLineBytes \<le> length final then [ScanError] else [Line (drop_carriage final)])"
| "scanned_lines (line # rest) =
     (if maxLineBytes \<le> length line then [ScanError] else Line (drop_carriage line) # scanned_lines rest)"

definition scanMessages :: "bytes \<Rightarrow> scanned list" where
  "scanMessages stream = scanned_lines (Split stream (char_of (10::nat)))"

section \<open>Goroutines\<close>

datatype 'w phase =
    Received rpc_request
  | Admitted rpc_request tool_arguments
  | Prepared rpc_request tool_arguments "'w plugin_executor"
  | Called rpc_request tool_result
  | Answered rpc_response

definition begin_request :: "'w plugin_env \<Rightarrow> rpc_request \<Rightarrow> 'w plugin \<Rightarrow> 'w \<Rightarrow> 'w phase" where
  "begin_request env r p w =
     (case plain_method env r p w of
        Some response \<Rightarrow> Answered response
      | None \<Rightarrow>
          (case call_arguments env r of
             None \<Rightarrow> Answered (rpc_refusal (rq_ID r) (- 32602) ''Invalid tools/call parameters'')
           | Some rawArguments \<Rightarrow>
               (case admit_call env rawArguments w of
                  Inl e \<Rightarrow> Called r (browserErrorResult e)
                | Inr arguments \<Rightarrow> Admitted r arguments)))"

fun advance :: "'w plugin_env \<Rightarrow> 'w phase \<times> 'w plugin \<times> 'w \<Rightarrow> 'w phase \<times> 'w plugin \<times> 'w" where
  "advance env (Received r, p, w) = (begin_request env r p w, p, w)"
| "advance env (Admitted r arguments, p, w) =
     (case prepare_call env p w of
        (Inl e, p', w') \<Rightarrow> (Called r (browserErrorResult e), p', w')
      | (Inr client, p', w') \<Rightarrow> (Prepared r arguments client, p', w'))"
| "advance env (Prepared r arguments client, p, w) =
     (case perform_call env client arguments p w of
        (result, p', w') \<Rightarrow> (Called r (call_result result), p', w'))"
| "advance env (Called r result, p, w) =
     (case finish_call env r result p w of (response, p') \<Rightarrow> (Answered response, p', w))"
| "advance env (Answered response, p, w) = (Answered response, p, w)"

fun phase_id :: "'w phase \<Rightarrow> bytes" where
  "phase_id (Received r) = rq_ID r"
| "phase_id (Admitted r arguments) = rq_ID r"
| "phase_id (Prepared r arguments client) = rq_ID r"
| "phase_id (Called r result) = rq_ID r"
| "phase_id (Answered response) = rs_ID response"

fun holds_lock :: "'w phase \<Rightarrow> bool" where
  "holds_lock (Prepared r arguments client) = True"
| "holds_lock _ = False"

fun wants_lock :: "'w phase \<Rightarrow> bool" where
  "wants_lock (Admitted r arguments) = True"
| "wants_lock _ = False"

fun is_answered :: "'w phase \<Rightarrow> bool" where
  "is_answered (Answered response) = True"
| "is_answered _ = False"

section \<open>The loop\<close>

text \<open>
  \<open>ServeDone\<close> and \<open>ServeStopped\<close> are the two ways of returning nil: after the last answer, and
  because the context is done.
\<close>

datatype serve_end = ServeDone | ServeStopped | ServeScanError | ServeWriteError

record 'w serving =
  sv_messages :: "scanned list"
  sv_inputOpen :: bool
  sv_cancels :: "string \<rightharpoonup> bool"
  sv_pending :: nat
  sv_running :: "(string \<times> 'w phase) list"
  sv_plugin :: "'w plugin"
  sv_world :: 'w
  sv_output :: "rpc_response list"
  sv_result :: "serve_end option"

definition requestKey :: "bytes \<Rightarrow> string" where
  "requestKey i = TrimSpace i"

text \<open>A context in \<^verbatim>\<open>cancels\<close> is \<^const>\<open>True\<close> once it is cancelled.\<close>

definition cancelRequest :: "'w plugin_env \<Rightarrow> bytes \<Rightarrow> (string \<rightharpoonup> bool) \<Rightarrow> (string \<rightharpoonup> bool)" where
  "cancelRequest env raw cancels =
     (case pe_cancelled env raw of
        None \<Rightarrow> cancels
      | Some i \<Rightarrow>
          if length i = 0 then cancels
          else (case cancels (requestKey i) of
            None \<Rightarrow> cancels
          | Some _ \<Rightarrow> cancels(requestKey i \<mapsto> True)))"

definition cancelRequests :: "(string \<rightharpoonup> bool) \<Rightarrow> (string \<rightharpoonup> bool)" where
  "cancelRequests cancels = (\<lambda>k. map_option (\<lambda>_. True) (cancels k))"

definition parse_error :: rpc_response where
  "parse_error = rpc_refusal ''null'' (- 32700) ''Parse error''"

text \<open>One scanned line: the new state, and the answer that the loop itself writes.\<close>

definition accept_line ::
    "'w plugin_env \<Rightarrow> bytes \<Rightarrow> 'w serving \<Rightarrow> rpc_response option \<times> 'w serving" where
  "accept_line env raw s =
     (let line = TrimSpace raw in
      if length line = 0 then (None, s)
      else (case pe_request env line of
        None \<Rightarrow> (Some parse_error, s)
      | Some r \<Rightarrow>
          if length (rq_ID r) = 0 then
            (None, if rq_Method r = ''notifications/cancelled''
                   then s\<lparr>sv_cancels := cancelRequest env (rq_Params r) (sv_cancels s)\<rparr> else s)
          else (let key = requestKey (rq_ID r) in
            case sv_cancels s key of
              Some _ \<Rightarrow> (Some (rpc_refusal (rq_ID r) (- 32600) ''Duplicate request id''), s)
            | None \<Rightarrow>
                (None, s\<lparr>sv_cancels := (sv_cancels s)(key \<mapsto> False), sv_pending := sv_pending s + 1,
                        sv_running := sv_running s @ [(key, Received r)]\<rparr>))))"

text \<open>A response taken from the channel: its request is forgotten.\<close>

definition complete :: "string \<Rightarrow> 'w serving \<Rightarrow> 'w serving" where
  "complete key s =
     (if sv_cancels s key \<noteq> None then
        s\<lparr>sv_cancels := (sv_cancels s)(key := None), sv_pending := sv_pending s - 1\<rparr>
      else s)"

definition looping :: "'w serving \<Rightarrow> bool" where
  "looping s \<longleftrightarrow> sv_result s = None \<and> (sv_inputOpen s \<or> 0 < sv_pending s)"

definition lock_free :: "'w serving \<Rightarrow> bool" where
  "lock_free s \<longleftrightarrow> list_all (\<lambda>(k, ph). \<not> holds_lock ph) (sv_running s)"

definition may_advance :: "'w serving \<Rightarrow> 'w phase \<Rightarrow> bool" where
  "may_advance s ph \<longleftrightarrow> \<not> is_answered ph \<and> (wants_lock ph \<longrightarrow> lock_free s)"

definition set_running :: "nat \<Rightarrow> 'w phase \<times> 'w plugin \<times> 'w \<Rightarrow> 'w serving \<Rightarrow> 'w serving" where
  "set_running i r s =
     (case r of (ph, p, w) \<Rightarrow>
        s\<lparr>sv_running := (sv_running s)[i := (fst (sv_running s ! i), ph)], sv_plugin := p, sv_world := w\<rparr>)"

definition remove_at :: "nat \<Rightarrow> 'a list \<Rightarrow> 'a list" where
  "remove_at i xs = take i xs @ drop (Suc i) xs"

definition stop_all :: "serve_end \<Rightarrow> 'w serving \<Rightarrow> 'w serving" where
  "stop_all result s = s\<lparr>sv_cancels := cancelRequests (sv_cancels s), sv_result := Some result\<rparr>"

text \<open>The steps in which nothing goes wrong.\<close>

inductive quiet_step :: "'w plugin_env \<Rightarrow> 'w serving \<Rightarrow> 'w serving \<Rightarrow> bool" for env where
  finished: "sv_result s = None \<Longrightarrow> \<not> sv_inputOpen s \<Longrightarrow> sv_pending s = 0
    \<Longrightarrow> quiet_step env s (s\<lparr>sv_result := Some ServeDone\<rparr>)"
| input_closed: "looping s \<Longrightarrow> sv_inputOpen s \<Longrightarrow> sv_messages s = []
    \<Longrightarrow> quiet_step env s (s\<lparr>sv_inputOpen := False, sv_cancels := cancelRequests (sv_cancels s)\<rparr>)"
| scan_failed: "looping s \<Longrightarrow> sv_inputOpen s \<Longrightarrow> sv_messages s = ScanError # rest
    \<Longrightarrow> quiet_step env s (stop_all ServeScanError (s\<lparr>sv_messages := rest\<rparr>))"
| line_read: "looping s \<Longrightarrow> sv_inputOpen s \<Longrightarrow> sv_messages s = Line raw # rest
    \<Longrightarrow> accept_line env raw (s\<lparr>sv_messages := rest\<rparr>) = (None, s')
    \<Longrightarrow> quiet_step env s s'"
| line_answered: "looping s \<Longrightarrow> sv_inputOpen s \<Longrightarrow> sv_messages s = Line raw # rest
    \<Longrightarrow> accept_line env raw (s\<lparr>sv_messages := rest\<rparr>) = (Some response, s')
    \<Longrightarrow> quiet_step env s (s'\<lparr>sv_output := sv_output s' @ [response]\<rparr>)"
| section_run: "i < length (sv_running s) \<Longrightarrow> sv_running s ! i = (key, ph) \<Longrightarrow> may_advance s ph
    \<Longrightarrow> quiet_step env s (set_running i (advance env (ph, sv_plugin s, sv_world s)) s)"
| answer_written: "looping s \<Longrightarrow> i < length (sv_running s) \<Longrightarrow> sv_running s ! i = (key, Answered response)
    \<Longrightarrow> quiet_step env s
          (complete key (s\<lparr>sv_running := remove_at i (sv_running s), sv_output := sv_output s @ [response]\<rparr>))"

text \<open>All steps: the context may be done and the output may fail.\<close>

inductive serve_step :: "'w plugin_env \<Rightarrow> 'w serving \<Rightarrow> 'w serving \<Rightarrow> bool" for env where
  quiet: "quiet_step env s s' \<Longrightarrow> serve_step env s s'"
| context_done: "looping s \<Longrightarrow> serve_step env s (stop_all ServeStopped s)"
| refusal_lost: "looping s \<Longrightarrow> sv_inputOpen s \<Longrightarrow> sv_messages s = Line raw # rest
    \<Longrightarrow> accept_line env raw (s\<lparr>sv_messages := rest\<rparr>) = (Some response, s')
    \<Longrightarrow> serve_step env s (s'\<lparr>sv_result := Some ServeWriteError\<rparr>)"
| answer_lost: "looping s \<Longrightarrow> i < length (sv_running s) \<Longrightarrow> sv_running s ! i = (key, Answered response)
    \<Longrightarrow> serve_step env s
          (stop_all ServeWriteError (complete key (s\<lparr>sv_running := remove_at i (sv_running s)\<rparr>)))"

abbreviation serve_steps :: "'w plugin_env \<Rightarrow> 'w serving \<Rightarrow> 'w serving \<Rightarrow> bool" where
  "serve_steps env \<equiv> (serve_step env)\<^sup>*\<^sup>*"

text \<open>The start of \<^verbatim>\<open>Serve\<close>; the host must be one of two.\<close>

definition start_serve ::
    "externals \<Rightarrow> 'w plugin \<Rightarrow> 'w \<Rightarrow> bytes \<Rightarrow> string + 'w serving" where
  "start_serve ext p w stream =
     (let version = (if pl_Version p = [] then ''dev'' else pl_Version p);
          host = ToLower (ext_lower ext) (TrimSpace (pl_Host p)) in
      if host \<noteq> ''codex'' \<and> host \<noteq> ''claude'' then Inl ''Browser plugin host must be codex or claude''
      else Inr \<lparr>sv_messages = scanMessages stream, sv_inputOpen = True, sv_cancels = Map.empty,
                sv_pending = 0, sv_running = [], sv_plugin = p\<lparr>pl_Host := host, pl_Version := version\<rparr>,
                sv_world = w, sv_output = [], sv_result = None\<rparr>)"

inductive_cases quiet_stepE: "quiet_step env s s'"
inductive_cases serve_stepE: "serve_step env s s'"

section \<open>Its invariant\<close>

definition lock_holders :: "(string \<times> 'w phase) list \<Rightarrow> nat" where
  "lock_holders running = length (filter (\<lambda>(k, ph). holds_lock ph) running)"

definition wf_serving :: "'w serving \<Rightarrow> bool" where
  "wf_serving s \<longleftrightarrow>
     distinct (map fst (sv_running s)) \<and> dom (sv_cancels s) = set (map fst (sv_running s))
     \<and> sv_pending s = length (sv_running s)
     \<and> (\<forall>(k, ph) \<in> set (sv_running s). requestKey (phase_id ph) = k)
     \<and> lock_holders (sv_running s) \<le> 1
     \<and> (pl_closed (sv_plugin s) \<longrightarrow> lock_holders (sv_running s) = 0)"

lemma dom_cancelRequests [simp]: "dom (cancelRequests cancels) = dom cancels"
  by (auto simp: cancelRequests_def dom_def)

lemma dom_cancelRequest [simp]: "dom (cancelRequest env raw cancels) = dom cancels"
  by (auto simp: cancelRequest_def dom_def split: option.splits)

lemma lock_holders_update:
  assumes "i < length running" "running ! i = (k, ph)"
  shows "lock_holders (running[i := (k', ph')]) + of_bool (holds_lock ph)
    = lock_holders running + of_bool (holds_lock ph')"
proof -
  have r: "running = take i running @ (k, ph) # drop (Suc i) running"
    using id_take_nth_drop [OF assms(1)] assms(2) by simp
  have u: "running[i := (k', ph')] = take i running @ (k', ph') # drop (Suc i) running"
    by (rule upd_conv_take_nth_drop [OF assms(1)])
  show ?thesis unfolding u by (subst (2) r) (simp add: lock_holders_def)
qed

lemma lock_free_iff: "lock_free s \<longleftrightarrow> lock_holders (sv_running s) = 0"
  by (auto simp: lock_free_def lock_holders_def filter_empty_conv list_all_iff)

end
