(* ===== verification/PluginFacts.thy ===== *)
theory PluginFacts
  imports PluginLoop
begin

text \<open>
  What every step of the plugin's loop keeps: the invariant of its bookkeeping, the identifiers
  that are still to be answered, and a measure that bounds the number of steps.
\<close>

section \<open>Removing from the list of goroutines\<close>

lemma remove_at_split:
  assumes "i < length xs"
  obtains l r where "xs = l @ xs ! i # r" "remove_at i xs = l @ r"
  using that [of "take i xs" "drop (Suc i) xs"] id_take_nth_drop [OF assms] by (simp add: remove_at_def)

lemma length_remove_at [simp]: "i < length xs \<Longrightarrow> length (remove_at i xs) = length xs - 1"
  by (simp add: remove_at_def)

lemma set_remove_at: "set (remove_at i xs) \<subseteq> set xs"
  by (auto simp: remove_at_def dest: in_set_takeD in_set_dropD)

lemma distinct_remove_at:
  assumes "i < length xs" "distinct (map f xs)"
  shows "distinct (map f (remove_at i xs))" "set (map f (remove_at i xs)) = set (map f xs) - {f (xs ! i)}"
proof -
  obtain l r where x: "xs = l @ xs ! i # r" and y: "remove_at i xs = l @ r"
    by (rule remove_at_split [OF assms(1)])
  have d: "distinct (map f l @ f (xs ! i) # map f r)"
    using assms(2) by (subst (asm) x) simp
  show "distinct (map f (remove_at i xs))" using d by (simp add: y)
  have "set (map f xs) = set (map f l @ f (xs ! i) # map f r)" by (subst x) simp
  then show "set (map f (remove_at i xs)) = set (map f xs) - {f (xs ! i)}" using d by (auto simp: y)
qed

lemma sum_list_remove_at:
  fixes f :: "'a \<Rightarrow> nat"
  assumes "i < length xs"
  shows "sum_list (map f (remove_at i xs)) + f (xs ! i) = sum_list (map f xs)"
proof -
  obtain l r where x: "xs = l @ xs ! i # r" and y: "remove_at i xs = l @ r"
    by (rule remove_at_split [OF assms])
  show ?thesis unfolding y by (subst (2) x) simp
qed

lemma mset_remove_at:
  assumes "i < length xs"
  shows "add_mset (f (xs ! i)) (mset (map f (remove_at i xs))) = mset (map f xs)"
proof -
  obtain l r where x: "xs = l @ xs ! i # r" and y: "remove_at i xs = l @ r"
    by (rule remove_at_split [OF assms])
  show ?thesis unfolding y by (subst (2) x) simp
qed

lemma sum_list_update_at:
  fixes f :: "'a \<Rightarrow> nat"
  assumes "i < length xs"
  shows "sum_list (map f (xs[i := y])) + f (xs ! i) = sum_list (map f xs) + f y"
proof -
  have "xs = take i xs @ xs ! i # drop (Suc i) xs" by (rule id_take_nth_drop [OF assms])
  then have "sum_list (map f xs) = sum_list (map f (take i xs @ xs ! i # drop (Suc i) xs))" by simp
  then show ?thesis by (simp add: upd_conv_take_nth_drop [OF assms])
qed

lemma lock_holders_sum: "lock_holders rs = sum_list (map (\<lambda>(k, ph). of_bool (holds_lock ph)) rs)"
  by (induction rs) (auto simp: lock_holders_def)

section \<open>Sections\<close>

lemma rpc_ids [simp]: "rs_ID (rpc_reply i r) = i" "rs_ID (rpc_refusal i c m) = i"
  by (simp_all add: rpc_reply_def rpc_refusal_def)

lemma plain_method_id: "plain_method env r p w = Some response \<Longrightarrow> rs_ID response = rq_ID r"
  by (auto simp: plain_method_def split: if_splits)

lemma finish_call_id: "rs_ID (fst (finish_call env r t p w)) = rq_ID r"
  by (auto simp: finish_call_def split: prod.splits option.splits)

lemma phase_id_advance: "phase_id (fst (advance env (ph, p, w))) = phase_id ph"
proof (cases ph)
  case (Called r t)
  then show ?thesis using finish_call_id [of env r t p w] by (auto split: prod.splits)
qed (auto simp: begin_request_def plain_method_id split: option.splits sum.splits prod.splits)

lemma takeAttachmentEvidence_frame:
  "takeAttachmentEvidence env p w = (e, p') \<Longrightarrow>
     pl_closed p' = pl_closed p \<and> pl_client p' = pl_client p \<and> pl_directEvidence p' = pl_directEvidence p"
  by (auto simp: takeAttachmentEvidence_def Let_def split: option.splits if_splits)

lemma finish_call_frame:
  "finish_call env r t p w = (response, p') \<Longrightarrow>
     pl_closed p' = pl_closed p \<and> pl_client p' = pl_client p \<and> pl_directEvidence p' = pl_directEvidence p"
  by (auto simp: finish_call_def dest: takeAttachmentEvidence_frame split: prod.splits option.splits)

lemma browserClient_frame:
  "browserClient env p w = (r, p', w') \<Longrightarrow>
     pl_closed p' = pl_closed p \<and> pl_evidenceKey p' = pl_evidenceKey p
     \<and> pl_evidenceEmitted p' = pl_evidenceEmitted p \<and> pl_directEvidence p' = pl_directEvidence p"
  by (auto simp: browserClient_def split: option.splits prod.splits sum.splits)

lemma ensureDirectEvidence_frame:
  "ensureDirectEvidence env x p w = (r, p', w') \<Longrightarrow>
     pl_closed p' = pl_closed p \<and> pl_evidenceKey p' = pl_evidenceKey p
     \<and> pl_evidenceEmitted p' = pl_evidenceEmitted p
     \<and> (pl_directEvidence p \<noteq> None \<longrightarrow> pl_directEvidence p' = pl_directEvidence p)"
  by (auto simp: ensureDirectEvidence_def split: option.splits prod.splits sum.splits if_splits)

lemma prepare_call_frame:
  assumes "prepare_call env p w = (r, p', w')"
  shows "pl_closed p' = pl_closed p \<and> pl_evidenceKey p' = pl_evidenceKey p
     \<and> pl_evidenceEmitted p' = pl_evidenceEmitted p
     \<and> (pl_directEvidence p \<noteq> None \<longrightarrow> pl_directEvidence p' = pl_directEvidence p)"
  using assms browserClient_frame [of env p w] ensureDirectEvidence_frame [of env]
  by (auto simp: prepare_call_def split: if_splits prod.splits sum.splits option.splits)

lemma prepare_call_closed:
  assumes "pl_closed p"
  shows "prepare_call env p w = (Inl (OtherError ''Browser attachment is closed''), p, w)"
  using assms by (simp add: prepare_call_def)

lemma perform_call_frame:
  "perform_call env c a p w = (r, p', w') \<Longrightarrow>
     pl_evidenceKey p' = pl_evidenceKey p \<and> pl_evidenceEmitted p' = pl_evidenceEmitted p
     \<and> pl_directEvidence p' = pl_directEvidence p \<and> (pl_closed p \<longrightarrow> pl_closed p')"
  by (auto simp: perform_call_def split: if_splits prod.splits sum.splits)

text \<open>Only an admitted call takes the lock, and never on a closed attachment.\<close>

lemma advance_takes_lock:
  assumes "advance env (ph, p, w) = (ph', p', w')" "holds_lock ph'"
  shows "wants_lock ph" "\<not> pl_closed p'"
proof -
  have "\<exists>r a. ph = Admitted r a"
    using assms by (cases ph) (auto simp: begin_request_def split: option.splits sum.splits prod.splits)
  then obtain r a where ph: "ph = Admitted r a" by blast
  then show "wants_lock ph" by simp
  show "\<not> pl_closed p'"
    using assms ph prepare_call_frame [of env p w] prepare_call_closed [of p env w]
    by (cases "pl_closed p") (auto split: prod.splits sum.splits)
qed

lemma advance_closes:
  assumes "advance env (ph, p, w) = (ph', p', w')" "pl_closed p'" "\<not> pl_closed p"
  shows "holds_lock ph" "\<not> holds_lock ph'"
proof -
  show "\<not> holds_lock ph'" using advance_takes_lock(2) [OF assms(1)] assms(2) by blast
  show "holds_lock ph"
    using assms prepare_call_frame [of env p w] finish_call_frame [of env]
    by (cases ph) (auto simp: begin_request_def split: option.splits sum.splits prod.splits)
qed

lemma advance_closed:
  assumes "advance env (ph, p, w) = (ph', p', w')" "pl_closed p" "\<not> holds_lock ph"
  shows "w' = w" "pl_closed p'" "pl_client p' = pl_client p"
  using assms prepare_call_closed [of p env w]
  by (cases ph; auto split: prod.splits sum.splits dest: finish_call_frame)+

section \<open>The stages of a request together\<close>

text \<open>Four sections without another goroutine in between are \<^const>\<open>handle\<close>.\<close>

lemma advance_is_handle:
  "(advance env ^^ 4) (Received r, p, w) =
     (case handle env r p w of (response, p', w') \<Rightarrow> (Answered response, p', w'))"
proof -
  have n: "(advance env ^^ 4) x = advance env (advance env (advance env (advance env x)))" for x
    by (simp add: eval_nat_numeral)
  show ?thesis unfolding n
    by (auto simp: handle_def begin_request_def callBrowser_def call_result_def
        split: option.splits sum.splits prod.splits)
qed

section \<open>The invariant is kept\<close>

lemma wf_serving_start:
  "start_serve ext p w stream = Inr s \<Longrightarrow> wf_serving s"
  by (auto simp: start_serve_def wf_serving_def lock_holders_def Let_def split: if_splits)

lemma accept_line_cases:
  assumes "accept_line env raw s = (answer, s')"
  shows "(s' = s) \<or> (\<exists>params. s' = s\<lparr>sv_cancels := cancelRequest env params (sv_cancels s)\<rparr>)
    \<or> (\<exists>r. sv_cancels s (requestKey (rq_ID r)) = None \<and> answer = None \<and>
         s' = s\<lparr>sv_cancels := (sv_cancels s)(requestKey (rq_ID r) \<mapsto> False), sv_pending := sv_pending s + 1,
                sv_running := sv_running s @ [(requestKey (rq_ID r), Received r)]\<rparr>)"
  using assms unfolding accept_line_def Let_def by (auto split: if_splits option.splits)

lemma wf_serving_accept:
  assumes "wf_serving s" "accept_line env raw s = (answer, s')"
  shows "wf_serving s'"
  using accept_line_cases [OF assms(2)]
proof (elim disjE exE conjE)
  fix r assume n: "sv_cancels s (requestKey (rq_ID r)) = None"
    and s': "s' = s\<lparr>sv_cancels := (sv_cancels s)(requestKey (rq_ID r) \<mapsto> False), sv_pending := sv_pending s + 1,
                sv_running := sv_running s @ [(requestKey (rq_ID r), Received r)]\<rparr>"
  have "requestKey (rq_ID r) \<notin> set (map fst (sv_running s))"
    using n assms(1) by (metis domIff wf_serving_def)
  then show ?thesis using assms(1) s' by (auto simp: wf_serving_def lock_holders_def)
qed (use assms(1) in \<open>auto simp: wf_serving_def\<close>)

lemma wf_serving_fields [simp]:
  "wf_serving (s\<lparr>sv_messages := ms\<rparr>) = wf_serving s"
  "wf_serving (s\<lparr>sv_output := out\<rparr>) = wf_serving s"
  "wf_serving (s\<lparr>sv_result := r\<rparr>) = wf_serving s"
  "wf_serving (s\<lparr>sv_inputOpen := b\<rparr>) = wf_serving s"
  by (simp_all add: wf_serving_def)

lemma wf_serving_stop [simp]:
  "wf_serving (s\<lparr>sv_cancels := cancelRequests (sv_cancels s)\<rparr>) = wf_serving s"
  "wf_serving (stop_all e s) = wf_serving s"
  by (simp_all add: wf_serving_def stop_all_def)

lemma wf_serving_complete:
  assumes wf: "wf_serving s" and i: "i < length (sv_running s)" and k: "sv_running s ! i = (key, ph)"
  shows "wf_serving (complete key (s\<lparr>sv_running := remove_at i (sv_running s), sv_output := out\<rparr>))"
proof -
  let ?r = "sv_running s"
  have "key \<in> set (map fst ?r)" using i k by (metis fst_conv image_eqI list.set_map nth_mem)
  then have c: "sv_cancels s key \<noteq> None" using wf by (metis domIff wf_serving_def)
  have d: "distinct (map fst (remove_at i ?r))" "set (map fst (remove_at i ?r)) = set (map fst ?r) - {key}"
    using distinct_remove_at [OF i, of fst] wf k by (auto simp: wf_serving_def)
  have l: "lock_holders (remove_at i ?r) \<le> lock_holders ?r"
    using sum_list_remove_at [OF i, of "\<lambda>(k, ph). of_bool (holds_lock ph)"] by (simp add: lock_holders_sum)
  have "\<forall>(k, ph) \<in> set (remove_at i ?r). requestKey (phase_id ph) = k"
    using wf set_remove_at [of i ?r] by (auto simp: wf_serving_def)
  moreover have "dom ((sv_cancels s)(key := None)) = set (map fst ?r) - {key}"
    using wf by (auto simp: wf_serving_def)
  ultimately show ?thesis using c d l wf i by (auto simp: complete_def wf_serving_def)
qed

lemma wf_serving_section:
  assumes wf: "wf_serving s" and i: "i < length (sv_running s)" and k: "sv_running s ! i = (key, ph)"
    and m: "may_advance s ph"
  shows "wf_serving (set_running i (advance env (ph, sv_plugin s, sv_world s)) s)"
proof -
  obtain ph' p' w' where a: "advance env (ph, sv_plugin s, sv_world s) = (ph', p', w')"
    by (metis prod_cases3)
  let ?r = "sv_running s" and ?r' = "(sv_running s)[i := (key, ph')]"
  have keys: "map fst ?r' = map fst ?r" using k by (simp add: map_update) (metis i fst_conv list_update_id map_update nth_map)
  have "requestKey (phase_id ph') = key"
    using phase_id_advance [of env ph "sv_plugin s" "sv_world s"] a wf nth_mem [OF i] k
    by (auto simp: wf_serving_def)
  then have ids: "\<forall>(k, ph) \<in> set ?r'. requestKey (phase_id ph) = k"
    using wf set_update_subset_insert [of ?r i "(key, ph')"] by (auto simp: wf_serving_def)
  have h: "lock_holders ?r' + of_bool (holds_lock ph) = lock_holders ?r + of_bool (holds_lock ph')"
    by (rule lock_holders_update [OF i k])
  have le: "lock_holders ?r' \<le> 1"
  proof (cases "holds_lock ph'")
    case True
    then have "lock_holders ?r = 0"
      using m advance_takes_lock(1) [OF a] by (simp add: may_advance_def lock_free_iff)
    with h True show ?thesis by simp
  qed (use h wf in \<open>simp add: wf_serving_def\<close>)
  have "pl_closed p' \<longrightarrow> lock_holders ?r' = 0"
  proof
    assume c: "pl_closed p'"
    then have n: "\<not> holds_lock ph'" using advance_takes_lock(2) [OF a] by blast
    show "lock_holders ?r' = 0"
    proof (cases "holds_lock ph")
      case True
      then show ?thesis using h n wf by (simp add: wf_serving_def)
    next
      case False
      then have "pl_closed (sv_plugin s)" using advance_closes(1) [OF a c] by blast
      then show ?thesis using h n wf by (simp add: wf_serving_def)
    qed
  qed
  then show ?thesis
    using wf keys ids le k by (simp add: set_running_def a wf_serving_def)
qed

lemma wf_serving_closed_input:
  "wf_serving (s\<lparr>sv_inputOpen := b, sv_cancels := cancelRequests (sv_cancels s)\<rparr>) = wf_serving s"
  by (simp add: wf_serving_def)

lemma wf_serving_quiet: "quiet_step env s s' \<Longrightarrow> wf_serving s \<Longrightarrow> wf_serving s'"
proof (induction rule: quiet_step.induct)
  case (line_read s raw rest s')
  from wf_serving_accept [OF _ line_read.hyps(4)] line_read.prems show ?case by simp
next
  case (line_answered s raw rest response s')
  from wf_serving_accept [OF _ line_answered.hyps(4)] line_answered.prems show ?case by simp
qed (simp_all add: wf_serving_section wf_serving_complete wf_serving_closed_input)

lemma wf_serving_step: "serve_step env s s' \<Longrightarrow> wf_serving s \<Longrightarrow> wf_serving s'"
proof (induction rule: serve_step.induct)
  case (refusal_lost s raw rest response s')
  from wf_serving_accept [OF _ refusal_lost.hyps(4)] refusal_lost.prems show ?case by simp
next
  case (answer_lost s i key response)
  then have "wf_serving (complete key (s\<lparr>sv_running := remove_at i (sv_running s), sv_output := sv_output s\<rparr>))"
    by (intro wf_serving_complete)
  then show ?case by simp
qed (simp_all add: wf_serving_quiet)

lemma wf_serving_steps: "serve_steps env s s' \<Longrightarrow> wf_serving s \<Longrightarrow> wf_serving s'"
  by (induction rule: rtranclp_induct) (auto intro: wf_serving_step)

section \<open>What is still to be answered\<close>

fun expected_id :: "'w plugin_env \<Rightarrow> scanned \<Rightarrow> bytes option" where
  "expected_id env ScanError = None"
| "expected_id env (Line raw) =
     (if TrimSpace raw = [] then None
      else (case pe_request env (TrimSpace raw) of
        None \<Rightarrow> Some ''null''
      | Some r \<Rightarrow> if rq_ID r = [] then None else Some (rq_ID r)))"

definition expected_ids :: "'w plugin_env \<Rightarrow> scanned list \<Rightarrow> bytes multiset" where
  "expected_ids env messages = mset (List.map_filter (expected_id env) messages)"

lemma expected_ids_simps [simp]:
  "expected_ids env [] = {#}"
  "expected_ids env (m # ms) =
     (case expected_id env m of None \<Rightarrow> expected_ids env ms | Some i \<Rightarrow> add_mset i (expected_ids env ms))"
  by (simp_all add: expected_ids_def List.map_filter_def split: option.splits)

definition served_ids :: "'w plugin_env \<Rightarrow> 'w serving \<Rightarrow> bytes multiset" where
  "served_ids env s =
     mset (map rs_ID (sv_output s)) + mset (map (\<lambda>(k, ph). phase_id ph) (sv_running s))
     + expected_ids env (sv_messages s)"

lemma served_ids_accept:
  assumes "accept_line env raw s = (answer, s')"
  shows "served_ids env s' + mset (map rs_ID (case answer of None \<Rightarrow> [] | Some r \<Rightarrow> [r])) =
     served_ids env s + mset (case expected_id env (Line raw) of None \<Rightarrow> [] | Some i \<Rightarrow> [i])"
  using assms unfolding accept_line_def Let_def
  by (auto simp: served_ids_def parse_error_def split: if_splits option.splits)

lemma served_ids_read:
  assumes "accept_line env raw (s\<lparr>sv_messages := rest\<rparr>) = (answer, s')" "sv_messages s = Line raw # rest"
  shows "served_ids env s' + mset (map rs_ID (case answer of None \<Rightarrow> [] | Some r \<Rightarrow> [r])) = served_ids env s"
  unfolding served_ids_accept [OF assms(1)] using assms(2)
  by (simp add: served_ids_def del: expected_id.simps split: option.splits)

lemma served_ids_section:
  assumes "i < length (sv_running s)" "sv_running s ! i = (key, ph)"
  shows "served_ids env (set_running i (advance env (ph, sv_plugin s, sv_world s)) s) = served_ids env s"
proof -
  obtain ph' p' w' where a: "advance env (ph, sv_plugin s, sv_world s) = (ph', p', w')"
    by (metis prod_cases3)
  have "phase_id ph' = phase_id ph" using phase_id_advance [of env ph "sv_plugin s" "sv_world s"] a by simp
  then have "map (\<lambda>(k, ph). phase_id ph) ((sv_running s)[i := (key, ph')]) = map (\<lambda>(k, ph). phase_id ph) (sv_running s)"
    using assms by (simp add: map_update) (metis (mono_tags) case_prod_conv list_update_id nth_map length_map)
  then show ?thesis using assms by (simp add: set_running_def a served_ids_def)
qed

lemma complete_fields [simp]:
  "sv_output (complete key s) = sv_output s" "sv_running (complete key s) = sv_running s"
  "sv_messages (complete key s) = sv_messages s" "sv_inputOpen (complete key s) = sv_inputOpen s"
  "sv_result (complete key s) = sv_result s" "sv_plugin (complete key s) = sv_plugin s"
  "sv_world (complete key s) = sv_world s"
  by (simp_all add: complete_def)

lemma served_ids_quiet:
  "quiet_step env s s' \<Longrightarrow> served_ids env s' = served_ids env s"
proof (induction rule: quiet_step.induct)
  case (line_read s raw rest s')
  from served_ids_read [OF line_read.hyps(4,3)] show ?case by simp
next
  case (line_answered s raw rest response s')
  from served_ids_read [OF line_answered.hyps(4,3)] show ?case by (simp add: served_ids_def)
next
  case (section_run i s key ph)
  then show ?case by (simp add: served_ids_section)
next
  case (answer_written s i key response)
  from mset_remove_at [OF answer_written.hyps(2), of "\<lambda>(k, ph). phase_id ph"]
  show ?case using answer_written.hyps(3) by (simp add: served_ids_def)
qed (simp_all add: served_ids_def stop_all_def)

section \<open>The steps are bounded\<close>

fun phase_weight :: "'w phase \<Rightarrow> nat" where
  "phase_weight (Received r) = 5"
| "phase_weight (Admitted r arguments) = 4"
| "phase_weight (Prepared r arguments client) = 3"
| "phase_weight (Called r result) = 2"
| "phase_weight (Answered response) = 1"

definition serve_measure :: "'w serving \<Rightarrow> nat" where
  "serve_measure s =
     6 * length (sv_messages s) + of_bool (sv_inputOpen s) + of_bool (sv_result s = None)
     + sum_list (map (\<lambda>(k, ph). phase_weight ph) (sv_running s))"

lemma advance_weight:
  "\<not> is_answered ph \<Longrightarrow> phase_weight (fst (advance env (ph, p, w))) < phase_weight ph"
  by (cases ph) (auto simp: begin_request_def split: option.splits sum.splits prod.splits)

lemma accept_line_measure:
  assumes "accept_line env raw (s\<lparr>sv_messages := rest\<rparr>) = (answer, s')" "sv_messages s = Line raw # rest"
  shows "serve_measure s' < serve_measure s" "sv_result s' = sv_result s"
  using assms unfolding accept_line_def Let_def
  by (auto simp: serve_measure_def split: if_splits option.splits)

lemma section_measure:
  assumes "i < length (sv_running s)" "sv_running s ! i = (key, ph)" "\<not> is_answered ph"
  shows "serve_measure (set_running i (advance env (ph, sv_plugin s, sv_world s)) s) < serve_measure s"
proof -
  obtain ph' p' w' where a: "advance env (ph, sv_plugin s, sv_world s) = (ph', p', w')"
    by (metis prod_cases3)
  have "phase_weight ph' < phase_weight ph"
    using advance_weight [OF assms(3), of env "sv_plugin s" "sv_world s"] a by simp
  with sum_list_update_at [OF assms(1), of "\<lambda>(k, ph). phase_weight ph" "(key, ph')"] assms(2)
  show ?thesis by (simp add: set_running_def a serve_measure_def)
qed

lemma answer_measure:
  assumes "i < length (sv_running s)" "sv_running s ! i = (key, Answered response)"
  shows "sum_list (map (\<lambda>(k, ph). phase_weight ph) (remove_at i (sv_running s)))
    < sum_list (map (\<lambda>(k, ph). phase_weight ph) (sv_running s))"
  using sum_list_remove_at [OF assms(1), of "\<lambda>(k, ph). phase_weight ph"] assms(2) by simp

lemma quiet_step_measure: "quiet_step env s s' \<Longrightarrow> serve_measure s' < serve_measure s"
proof (induction rule: quiet_step.induct)
  case (line_read s raw rest s')
  then show ?case by (simp add: accept_line_measure)
next
  case (line_answered s raw rest response s')
  from accept_line_measure(1) [OF line_answered.hyps(4,3)] show ?case by (simp add: serve_measure_def)
next
  case (section_run i s key ph)
  then show ?case by (simp add: section_measure may_advance_def)
next
  case (answer_written s i key response)
  from answer_measure [OF answer_written.hyps(2,3)] show ?case by (simp add: serve_measure_def)
qed (simp_all add: serve_measure_def stop_all_def looping_def)

lemma serve_step_measure: "serve_step env s s' \<Longrightarrow> serve_measure s' < serve_measure s"
proof (induction rule: serve_step.induct)
  case (refusal_lost s raw rest response s')
  from accept_line_measure [OF refusal_lost.hyps(4,3)] refusal_lost.hyps(1)
  show ?case by (simp add: serve_measure_def looping_def)
next
  case (answer_lost s i key response)
  from answer_measure [OF answer_lost.hyps(2,3)] answer_lost.hyps(1)
  show ?case by (simp add: serve_measure_def looping_def stop_all_def)
qed (simp_all add: serve_measure_def stop_all_def looping_def quiet_step_measure [unfolded serve_measure_def])

lemma serve_run_bounded: "(serve_step env ^^ n) s s' \<Longrightarrow> n + serve_measure s' \<le> serve_measure s"
proof (induction n arbitrary: s')
  case (Suc n)
  then obtain t where "(serve_step env ^^ n) s t" "serve_step env t s'" by auto
  with Suc.IH [of t] serve_step_measure [of env t s'] show ?case by simp
qed simp

section \<open>The loop is never stuck\<close>

lemma lock_holder_exists:
  assumes "\<not> lock_free s"
  obtains i key ph where "i < length (sv_running s)" "sv_running s ! i = (key, ph)" "holds_lock ph"
proof -
  from assms obtain key ph where "(key, ph) \<in> set (sv_running s)" "holds_lock ph"
    by (auto simp: lock_free_def list_all_iff)
  then show thesis using that by (auto simp: in_set_conv_nth)
qed

lemma holder_may_advance: "holds_lock ph \<Longrightarrow> may_advance s ph"
  by (cases ph) (auto simp: may_advance_def)

lemma goroutine_moves:
  assumes "looping s" "i < length (sv_running s)"
  shows "\<exists>s'. quiet_step env s s'"
proof -
  obtain key ph where k: "sv_running s ! i = (key, ph)" by (cases "sv_running s ! i") auto
  consider (answered) response where "ph = Answered response" | (may) "may_advance s ph" | (wait) "\<not> lock_free s"
    by (cases ph) (auto simp: may_advance_def)
  then show ?thesis
  proof cases
    case answered
    then show ?thesis using answer_written [OF assms] k by blast
  next
    case may
    then show ?thesis using section_run [OF assms(2) k] by blast
  next
    case wait
    then show ?thesis by (metis lock_holder_exists holder_may_advance section_run)
  qed
qed

lemma quiet_progress:
  assumes "wf_serving s" "sv_result s = None"
  shows "\<exists>s'. quiet_step env s s'"
proof (cases "sv_inputOpen s")
  case True
  then have l: "looping s" using assms by (simp add: looping_def)
  show ?thesis
  proof (cases "sv_messages s")
    case Nil
    then show ?thesis using input_closed [OF l True] by blast
  next
    case (Cons m rest)
    show ?thesis
    proof (cases m)
      case (Line raw)
      obtain answer s' where "accept_line env raw (s\<lparr>sv_messages := rest\<rparr>) = (answer, s')" by fastforce
      then show ?thesis
        using line_read [OF l True] line_answered [OF l True] Cons Line by (cases answer) blast+
    qed (use Cons scan_failed [OF l True] in blast)
  qed
next
  case False
  show ?thesis
  proof (cases "sv_pending s = 0")
    case True
    then show ?thesis using finished [OF assms(2) False] by blast
  next
    case pending: False
    then have "looping s" "0 < length (sv_running s)" using assms by (auto simp: looping_def wf_serving_def)
    then show ?thesis by (rule goroutine_moves)
  qed
qed

lemma quiet_stops:
  "quiet_step env s s' \<Longrightarrow> sv_result s' = sv_result s \<or> sv_result s' = Some ServeDone \<or> sv_result s' = Some ServeScanError"
proof (induction rule: quiet_step.induct)
  case (line_read s raw rest s')
  then show ?case by (simp add: accept_line_measure)
next
  case (line_answered s raw rest response s')
  then show ?case by (simp add: accept_line_measure)
next
  case (section_run i s key ph)
  then show ?case by (simp add: set_running_def split: prod.splits)
qed (simp_all add: stop_all_def)

lemma quiet_finishes:
  assumes "wf_serving s" "sv_result s = None"
  shows "\<exists>n s'. n \<le> serve_measure s \<and> (quiet_step env ^^ n) s s'
    \<and> (sv_result s' = Some ServeDone \<or> sv_result s' = Some ServeScanError)"
  using assms
proof (induction "serve_measure s" arbitrary: s rule: less_induct)
  case less
  obtain t where t: "quiet_step env s t" using quiet_progress [OF less.prems] by blast
  note m = quiet_step_measure [OF t]
  show ?case
  proof (cases "sv_result t = None")
    case True
    from less.hyps [OF m wf_serving_quiet [OF t less.prems(1)] True]
    obtain n s' where n: "n \<le> serve_measure t" "(quiet_step env ^^ n) t s'"
      "sv_result s' = Some ServeDone \<or> sv_result s' = Some ServeScanError" by blast
    have "(quiet_step env ^^ Suc n) s s'" using t n(2) by (metis relpowp_Suc_I2)
    with n(1,3) m show ?thesis by (intro exI [of _ "Suc n"] exI [of _ s']) auto
  next
    case False
    have "(quiet_step env ^^ 1) s t" unfolding relpowp_1 by (rule t)
    moreover have "1 \<le> serve_measure s" using m by simp
    moreover note False
    ultimately show ?thesis using quiet_stops [OF t] less.prems(2) by metis
  qed
qed

lemma quiet_keeps_error:
  "quiet_step env s s' \<Longrightarrow> sv_result s = Some ServeWriteError \<Longrightarrow> sv_result s' = Some ServeWriteError"
proof (induction rule: quiet_step.induct)
  case (section_run i s key ph)
  then show ?case by (simp add: set_running_def split: prod.splits)
qed (simp_all add: looping_def)

section \<open>A closed attachment\<close>

lemma section_closed:
  assumes "wf_serving s" "pl_closed (sv_plugin s)" "i < length (sv_running s)" "sv_running s ! i = (key, ph)"
  shows "sv_world (set_running i (advance env (ph, sv_plugin s, sv_world s)) s) = sv_world s"
    "pl_closed (sv_plugin (set_running i (advance env (ph, sv_plugin s, sv_world s)) s))"
proof -
  obtain ph' p' w' where a: "advance env (ph, sv_plugin s, sv_world s) = (ph', p', w')"
    by (metis prod_cases3)
  have "\<not> holds_lock ph"
    using assms nth_mem [OF assms(3)] by (auto simp: wf_serving_def lock_holders_def filter_empty_conv)
  from advance_closed [OF a assms(2) this]
  show "sv_world (set_running i (advance env (ph, sv_plugin s, sv_world s)) s) = sv_world s"
    "pl_closed (sv_plugin (set_running i (advance env (ph, sv_plugin s, sv_world s)) s))"
    by (simp_all add: set_running_def a)
qed

lemma accept_line_frame:
  "accept_line env raw s = (answer, s') \<Longrightarrow>
     sv_world s' = sv_world s \<and> sv_plugin s' = sv_plugin s \<and> sv_output s' = sv_output s"
  by (drule accept_line_cases) auto

lemma quiet_closed:
  "quiet_step env s s' \<Longrightarrow> wf_serving s \<Longrightarrow> pl_closed (sv_plugin s)
     \<Longrightarrow> sv_world s' = sv_world s \<and> pl_closed (sv_plugin s')"
proof (induction rule: quiet_step.induct)
  case (section_run i s key ph)
  then show ?case by (simp add: section_closed)
qed (auto simp: stop_all_def dest: accept_line_frame)

lemma serve_closed:
  "serve_step env s s' \<Longrightarrow> wf_serving s \<Longrightarrow> pl_closed (sv_plugin s)
     \<Longrightarrow> sv_world s' = sv_world s \<and> pl_closed (sv_plugin s')"
  by (induction rule: serve_step.induct) (auto simp: stop_all_def quiet_closed dest: accept_line_frame)

section \<open>The evidence\<close>

definition has_evidence :: "rpc_response \<Rightarrow> bool" where
  "has_evidence response =
     (case rs_Result response of
        Some (CallResult t) \<Rightarrow>
          (case tr_StructuredContent t of None \<Rightarrow> False | Some m \<Rightarrow> map_of m ''attachment_evidence'' \<noteq> None)
      | _ \<Rightarrow> False)"

definition plain_result :: "tool_result \<Rightarrow> bool" where
  "plain_result t = (case tr_StructuredContent t of None \<Rightarrow> True | Some m \<Rightarrow> map_of m ''attachment_evidence'' = None)"

lemma plain_browserErrorResult: "plain_result (browserErrorResult e)"
  by (cases e) (simp_all add: plain_result_def browserErrorResult_def failure_fields_def Let_def)

lemma plain_observationResult: "plain_result (observationResult parse marshal operation obs)"
proof -
  have "map_of (observation_fields parse operation obs) ''attachment_evidence'' = None"
    by (simp add: observation_fields_def raw_field_def Let_def)
  then show ?thesis
    by (simp add: observationResult_def Let_def plain_browserErrorResult split: option.splits)
      (simp add: plain_result_def)
qed

lemma plain_perform_call:
  "perform_call env c a p w = (r, p', w') \<Longrightarrow> plain_result (call_result r)"
  by (auto simp: perform_call_def call_result_def plain_browserErrorResult plain_observationResult
      split: if_splits prod.splits sum.splits)
    (simp add: plain_result_def closed_result_def)

fun plain_phase :: "'w phase \<Rightarrow> bool" where
  "plain_phase (Called r t) = plain_result t"
| "plain_phase (Answered response) = (\<not> has_evidence response)"
| "plain_phase _ = True"

fun evident_phase :: "'w phase \<Rightarrow> bool" where
  "evident_phase (Answered response) = has_evidence response"
| "evident_phase _ = False"

lemma plain_method_evidence: "plain_method env r p w = Some response \<Longrightarrow> \<not> has_evidence response"
  by (auto simp: plain_method_def has_evidence_def rpc_reply_def rpc_refusal_def split: if_splits)

lemma zero_evidence_invalid: "\<not> evidence_valid ext zero_evidence"
  by (simp add: evidence_valid_def zero_evidence_def)

definition marked :: "'w plugin \<Rightarrow> bool" where
  "marked p \<longleftrightarrow> (\<exists>d. pl_directEvidence p = Some d \<and> pl_evidenceKey p = evidence_key d \<and> pl_evidenceEmitted p)"

lemma take_direct_evidence:
  assumes "pe_evidence env = None" "takeAttachmentEvidence env p w = (e, p')"
  shows "if e = None then marked p \<longrightarrow> marked p' else \<not> marked p \<and> marked p'"
  using assms zero_evidence_invalid [of "pe_ext env"]
  by (auto simp: takeAttachmentEvidence_def current_evidence_def marked_def Let_def
      split: option.splits if_splits)

lemma marked_frame:
  "pl_evidenceKey p' = pl_evidenceKey p \<Longrightarrow> pl_evidenceEmitted p' = pl_evidenceEmitted p
     \<Longrightarrow> pl_directEvidence p \<noteq> None \<longrightarrow> pl_directEvidence p' = pl_directEvidence p
     \<Longrightarrow> marked p \<Longrightarrow> marked p'"
  by (auto simp: marked_def)

lemma has_evidence_reply [simp]:
  "\<not> has_evidence (rpc_refusal i c m)"
  "has_evidence (rpc_reply i (CallResult t)) = (\<not> plain_result t)"
  by (auto simp: has_evidence_def rpc_refusal_def rpc_reply_def plain_result_def split: option.splits)

text \<open>A section emits evidence only when none was, and then leaves the mark.\<close>

lemma advance_evidence:
  assumes env: "pe_evidence env = None" and a: "advance env (ph, p, w) = (ph', p', w')"
    and n: "\<not> is_answered ph" and c: "case ph of Called r t \<Rightarrow> plain_result t | _ \<Rightarrow> True"
  shows "case ph' of Called r t \<Rightarrow> plain_result t | _ \<Rightarrow> True"
    "if evident_phase ph' then \<not> marked p \<and> marked p' else marked p \<longrightarrow> marked p'"
proof -
  have "(case ph' of Called r t \<Rightarrow> plain_result t | _ \<Rightarrow> True)
    \<and> (if evident_phase ph' then \<not> marked p \<and> marked p' else marked p \<longrightarrow> marked p')"
  proof (cases ph)
    case (Received r)
    then show ?thesis using a
      by (auto simp: begin_request_def plain_browserErrorResult dest: plain_method_evidence
          split: option.splits sum.splits)
  next
    case (Admitted r arguments)
    then show ?thesis using a prepare_call_frame [of env p w]
      by (auto simp: plain_browserErrorResult intro: marked_frame split: prod.splits sum.splits)
  next
    case (Prepared r arguments client)
    then show ?thesis using a perform_call_frame [of env client arguments p w]
      by (auto dest: plain_perform_call intro: marked_frame split: prod.splits)
  next
    case (Called r t)
    obtain e q where t: "takeAttachmentEvidence env p w = (e, q)" by fastforce
    then show ?thesis using a Called c take_direct_evidence [OF env t]
      by (cases e) (auto simp: finish_call_def)
  qed (use n in auto)
  then show "case ph' of Called r t \<Rightarrow> plain_result t | _ \<Rightarrow> True"
    "if evident_phase ph' then \<not> marked p \<and> marked p' else marked p \<longrightarrow> marked p'" by auto
qed

definition evidence_count :: "'w serving \<Rightarrow> nat" where
  "evidence_count s =
     length (filter has_evidence (sv_output s))
     + sum_list (map (\<lambda>(k, ph). of_bool (evident_phase ph)) (sv_running s))"

definition evidence_ok :: "'w serving \<Rightarrow> bool" where
  "evidence_ok s \<longleftrightarrow>
     (\<forall>(k, ph) \<in> set (sv_running s). case ph of Called r t \<Rightarrow> plain_result t | _ \<Rightarrow> True)
     \<and> evidence_count s \<le> of_bool (marked (sv_plugin s))"

lemma evidence_ok_start: "start_serve ext p w stream = Inr s \<Longrightarrow> evidence_ok s"
  by (auto simp: start_serve_def evidence_ok_def evidence_count_def Let_def split: if_splits)

lemma evidence_ok_frame:
  assumes "evidence_ok s" "set (sv_running s') \<subseteq> set (sv_running s)" "sv_plugin s' = sv_plugin s"
    "evidence_count s' \<le> evidence_count s"
  shows "evidence_ok s'"
  using assms by (auto simp: evidence_ok_def)

lemma evidence_ok_accept:
  assumes "accept_line env raw s = (answer, s')" "evidence_ok s"
  shows "evidence_ok s'"
  using accept_line_cases [OF assms(1)]
  by (elim disjE exE conjE; use assms(2) in \<open>simp add: evidence_ok_def evidence_count_def\<close>)

lemma accept_line_evidence:
  "accept_line env raw s = (Some response, s') \<Longrightarrow> \<not> has_evidence response"
  unfolding accept_line_def Let_def by (auto simp: parse_error_def split: if_splits option.splits)

lemma evidence_ok_fields [simp]:
  "evidence_ok (s\<lparr>sv_messages := ms\<rparr>) = evidence_ok s"
  "evidence_ok (s\<lparr>sv_result := r\<rparr>) = evidence_ok s"
  "evidence_ok (s\<lparr>sv_inputOpen := b, sv_cancels := cs\<rparr>) = evidence_ok s"
  "evidence_ok (complete key s) = evidence_ok s"
  "evidence_ok (stop_all e s) = evidence_ok s"
  "\<not> has_evidence response \<Longrightarrow> evidence_ok (s\<lparr>sv_output := sv_output s @ [response]\<rparr>) = evidence_ok s"
  by (simp_all add: evidence_ok_def evidence_count_def stop_all_def)

lemma evidence_ok_section:
  assumes env: "pe_evidence env = None" and i: "i < length (sv_running s)"
    and k: "sv_running s ! i = (key, ph)" and n: "\<not> is_answered ph" and ok: "evidence_ok s"
  shows "evidence_ok (set_running i (advance env (ph, sv_plugin s, sv_world s)) s)"
proof -
  obtain ph' p' w' where a: "advance env (ph, sv_plugin s, sv_world s) = (ph', p', w')"
    by (metis prod_cases3)
  let ?r = "sv_running s"
  have "case ph of Called r t \<Rightarrow> plain_result t | _ \<Rightarrow> True"
    using ok nth_mem [OF i] k by (auto simp: evidence_ok_def)
  note e = advance_evidence [OF env a n this]
  have count: "evidence_count (s\<lparr>sv_running := ?r[i := (key, ph')]\<rparr>) = evidence_count s + of_bool (evident_phase ph')"
    using sum_list_update_at [OF i, of "\<lambda>(k, ph). of_bool (evident_phase ph)" "(key, ph')"] k n
    by (cases ph) (simp_all add: evidence_count_def)
  have all: "\<forall>(k, ph) \<in> set (?r[i := (key, ph')]). case ph of Called r t \<Rightarrow> plain_result t | _ \<Rightarrow> True"
    using ok e(1) set_update_subset_insert [of ?r i "(key, ph')"] by (auto simp: evidence_ok_def)
  have "evidence_count s + of_bool (evident_phase ph') \<le> of_bool (marked p')"
    using e(2) ok by (cases "evident_phase ph'"; cases "marked (sv_plugin s)"; simp add: evidence_ok_def)
  then show ?thesis using all count k
    by (simp add: set_running_def a evidence_ok_def evidence_count_def)
qed

lemma evidence_ok_answer:
  assumes i: "i < length (sv_running s)" and k: "sv_running s ! i = (key, Answered response)"
    and ok: "evidence_ok s"
  shows "evidence_ok (s\<lparr>sv_running := remove_at i (sv_running s), sv_output := sv_output s @ [response]\<rparr>)"
    "evidence_ok (s\<lparr>sv_running := remove_at i (sv_running s)\<rparr>)"
  using sum_list_remove_at [OF i, of "\<lambda>(k, ph). of_bool (evident_phase ph)"] k set_remove_at [of i "sv_running s"]
  by (auto intro!: evidence_ok_frame [OF ok] simp: evidence_count_def)

lemma evidence_ok_quiet:
  assumes env: "pe_evidence env = None"
  shows "quiet_step env s s' \<Longrightarrow> evidence_ok s \<Longrightarrow> evidence_ok s'"
proof (induction rule: quiet_step.induct)
  case (line_read s raw rest s')
  from evidence_ok_accept [OF line_read.hyps(4)] line_read.prems show ?case by simp
next
  case (line_answered s raw rest response s')
  from evidence_ok_accept [OF line_answered.hyps(4)] line_answered.prems accept_line_evidence [OF line_answered.hyps(4)]
  show ?case by simp
next
  case (section_run i s key ph)
  then show ?case by (simp add: evidence_ok_section env may_advance_def)
qed (simp_all add: evidence_ok_answer)

lemma evidence_ok_step:
  assumes env: "pe_evidence env = None"
  shows "serve_step env s s' \<Longrightarrow> evidence_ok s \<Longrightarrow> evidence_ok s'"
proof (induction rule: serve_step.induct)
  case (refusal_lost s raw rest response s')
  from evidence_ok_accept [OF refusal_lost.hyps(4)] refusal_lost.prems show ?case by simp
next
  case (quiet s s')
  then show ?case by (rule evidence_ok_quiet [OF env])
qed (simp_all add: evidence_ok_answer)

lemma evidence_ok_steps:
  assumes "pe_evidence env = None"
  shows "serve_steps env s s' \<Longrightarrow> evidence_ok s \<Longrightarrow> evidence_ok s'"
  by (induction rule: rtranclp_induct) (auto intro: evidence_ok_step [OF assms])

section \<open>The actions of an accepted call\<close>

lemma with_observation_fields [simp]:
  "act_Observation (with_observation m a) = m" "act_Kind (with_observation m a) = act_Kind a"
  "act_URL (with_observation m a) = act_URL a" "act_X (with_observation m a) = act_X a"
  "act_Y (with_observation m a) = act_Y a" "act_DeltaX (with_observation m a) = act_DeltaX a"
  "act_DeltaY (with_observation m a) = act_DeltaY a" "act_Text (with_observation m a) = act_Text a"
  "act_Key (with_observation m a) = act_Key a" "act_Value (with_observation m a) = act_Value a"
  "act_DurationMS (with_observation m a) = act_DurationMS a" "act_Actions (with_observation m a) = act_Actions a"
  "act_BackendMode (with_observation m a) = act_BackendMode a"
  by (cases a; simp add: with_observation_def)+

lemma presentFields_with_observation [simp]: "presentFields (with_observation m a) = presentFields a"
  by (rule ext) (simp add: presentFields_def split: field.splits)

lemma with_observation_validates:
  assumes "ObservationMode_Validate m = None" "ValidateForPolicy ext policy a = None"
  shows "ValidateForPolicy ext policy (with_observation m a) = None"
  using assms
  by (subst ValidateForPolicy.simps, subst (asm) (2) ValidateForPolicy.simps)
    (simp add: accepts requireOnly_def allowOnly_def scroll_rejects_def keypress_rejects_def
      select_rejects_def wait_rejects_def plain_rejects_def Let_def split: action_kind.splits if_splits)

lemma accepted_mode:
  assumes "ObservationMode_Validate m = None"
  shows "ObservationMode_Validate (ObservationMode_Effective m) = None"
    "ObservationMode_Validate ObservationNone = None"
  using assms by (auto simp: ObservationMode_Validate_def ObservationMode_Effective_def split: observation_mode.splits)

lemma plain_action_validates:
  assumes "kind = ActionScreenshot \<or> kind = ActionCheckpoint" "ObservationMode_Validate m = None"
  shows "ValidateForPolicy ext policy (plain_action kind m) = None"
  using assms
  by (subst ValidateForPolicy.simps)
    (auto simp: plain_action_def plain_rejects_def requireOnly_def allowOnly_def presentFields_def
      all_fields_def or_else_def reject_if_def)

definition structural_kind :: "action_kind \<Rightarrow> bool" where
  "structural_kind k \<longleftrightarrow> k = ActionBatch \<or> k = ActionClose \<or> k = ActionCheckpoint \<or> k = ActionPreflight"

lemma batch_validates:
  assumes m: "ObservationMode_Validate m = None" and l: "1 < length as" "length as \<le> 8"
    and v: "\<forall>a \<in> set as. tool_action_rejects ext policy a = None"
    and r: "policy = ''full'' \<or> (\<forall>a \<in> set as. batch_kind (act_Kind a))"
    and s: "\<forall>a \<in> set as. \<not> structural_kind (act_Kind a)"
  shows "ValidateForPolicy ext policy (Action ActionBatch m [] [] None None None None [] [] [] None as) = None"
proof -
  have "first_reject (\<lambda>n. or_else (nested_rejects policy n) (ValidateForPolicy ext policy n)) as = None"
    using v r s
    by (auto simp: first_reject_None tool_action_rejects_def nested_rejects_def structural_kind_def
        batch_kind_def or_else_def reject_if_def split: if_splits option.splits)
  then show ?thesis using m l
    by (subst ValidateForPolicy.simps)
      (auto simp: requireOnly_def allowOnly_def presentFields_def all_fields_def or_else_def reject_if_def)
qed

text \<open>A batch with an action that no batch may hold is refused.\<close>

lemma batch_refused:
  assumes "a \<in> set as" "structural_kind (act_Kind a)"
  shows "ValidateForPolicy ext policy (Action ActionBatch m [] [] None None None None [] [] [] None as) \<noteq> None"
proof
  assume "ValidateForPolicy ext policy (Action ActionBatch m [] [] None None None None [] [] [] None as) = None"
  then have "\<forall>n \<in> set as. nested_rejects policy n = None"
    by (subst (asm) ValidateForPolicy.simps) (auto simp: reject_if_def first_reject_None split: if_splits)
  with assms(1) have "nested_rejects policy a = None" by (rule bspec [rotated])
  with assms(2) show False by (auto simp: nested_rejects_def structural_kind_def reject_if_def split: if_splits)
qed

lemma close_validates: "ValidateForPolicy ext policy (plain_action ActionClose ObservationDefault) = None"
  by (subst ValidateForPolicy.simps)
    (simp add: plain_action_def plain_rejects_def requireOnly_def allowOnly_def presentFields_def
      all_fields_def or_else_def reject_if_def ObservationMode_Validate_def)

lemma validateToolArguments_None:
  assumes "validateToolArguments ext arguments policy = None"
  shows "ObservationMode_Validate (ta_Observation arguments) = None"
    "ta_Operation arguments \<in> {''observe'', ''checkpoint'', ''close''} \<and> ta_Actions arguments = []
     \<or> ta_Operation arguments = ''act'' \<and> 1 \<le> length (ta_Actions arguments) \<and> length (ta_Actions arguments) \<le> 8
       \<and> (\<forall>a \<in> set (ta_Actions arguments). tool_action_rejects ext policy a = None)
       \<and> (\<not> 1 < length (ta_Actions arguments) \<or> policy = ''full''
          \<or> (\<forall>a \<in> set (ta_Actions arguments). batch_kind (act_Kind a)))"
  using assms
  by (auto simp: validateToolArguments_def restricted_batch_rejects_def maxBatchActions_def or_else_def reject_if_def
      first_reject_None Suc_le_eq split: if_splits option.splits)

lemma tool_actions_validate:
  assumes a: "validateToolArguments ext arguments policy = None"
    and s: "length (ta_Actions arguments) = 1 \<or> policy \<noteq> ''full''
      \<or> (\<forall>a \<in> set (ta_Actions arguments). \<not> structural_kind (act_Kind a))"
    and o: "ta_Operation arguments \<noteq> ''close''"
  shows "length (tool_actions arguments) = 1 \<and> (\<forall>a \<in> set (tool_actions arguments). ValidateForPolicy ext policy a = None)"
proof (rule disjE [OF validateToolArguments_None(2) [OF a]])
  note m = accepted_mode [OF validateToolArguments_None(1) [OF a]]
  assume "ta_Operation arguments \<in> {''observe'', ''checkpoint'', ''close''} \<and> ta_Actions arguments = []"
  then show ?thesis using o m by (auto simp: tool_actions_def Let_def plain_action_validates)
next
  note m = accepted_mode [OF validateToolArguments_None(1) [OF a]]
  let ?as = "ta_Actions arguments"
  assume act: "ta_Operation arguments = ''act'' \<and> 1 \<le> length ?as \<and> length ?as \<le> 8
    \<and> (\<forall>a \<in> set ?as. tool_action_rejects ext policy a = None)
    \<and> (\<not> 1 < length ?as \<or> policy = ''full'' \<or> (\<forall>a \<in> set ?as. batch_kind (act_Kind a)))"
  then have p: "ta_Operation arguments = ''act''" "1 \<le> length ?as" "length ?as \<le> 8"
    "\<forall>a \<in> set ?as. tool_action_rejects ext policy a = None"
    and k: "\<not> 1 < length ?as \<or> policy = ''full'' \<or> (\<forall>a \<in> set ?as. batch_kind (act_Kind a))" by auto
  show ?thesis
  proof (cases "length ?as = 1")
    case True
    then obtain a where "?as = [a]" by (auto simp: length_Suc_conv)
    then show ?thesis using p m
      by (simp add: tool_actions_def Let_def with_observation_validates tool_action_rejects_def
          or_else_def reject_if_def split: if_splits)
  next
    case False
    then have b: "1 < length ?as" using p(2) by simp
    have "\<forall>a \<in> set ?as. \<not> structural_kind (act_Kind a)"
      using s k b False by (auto simp: batch_kind_def structural_kind_def)
    then have "ValidateForPolicy ext policy
        (Action ActionBatch (ObservationMode_Effective (ta_Observation arguments)) [] [] None None None None [] [] [] None ?as) = None"
      using batch_validates [OF m(1) b p(3) p(4)] k b by blast
    then show ?thesis using b p(1) by (simp add: tool_actions_def Let_def)
  qed
qed

text \<open>An action that was accepted, as it is sent: valid unless it is a batch that no batch may be.\<close>

lemma tool_actions_exactly:
  assumes a: "validateToolArguments ext arguments policy = None" and o: "ta_Operation arguments \<noteq> ''close''"
  shows "\<exists>x. tool_actions arguments = [x]
    \<and> (ValidateForPolicy ext policy x = None \<longleftrightarrow>
         length (ta_Actions arguments) = 1 \<or> list_all (\<lambda>n. \<not> structural_kind (act_Kind n)) (ta_Actions arguments))
    \<and> (policy = ''full'' \<or> ValidateForPolicy ext policy x = None)"
proof (cases "length (ta_Actions arguments) = 1 \<or> policy \<noteq> ''full''
      \<or> (\<forall>a \<in> set (ta_Actions arguments). \<not> structural_kind (act_Kind a))")
  case True
  from tool_actions_validate [OF a this o] obtain x where "tool_actions arguments = [x]" "ValidateForPolicy ext policy x = None"
    by (auto simp: length_Suc_conv)
  moreover have "length (ta_Actions arguments) = 1 \<or> list_all (\<lambda>n. \<not> structural_kind (act_Kind n)) (ta_Actions arguments)"
    using validateToolArguments_None(2) [OF a] True
    by (auto simp: list_all_iff batch_kind_def structural_kind_def)
  ultimately show ?thesis by blast
next
  case False
  then obtain n where n: "n \<in> set (ta_Actions arguments)" "structural_kind (act_Kind n)"
    and full: "policy = ''full''" and len: "length (ta_Actions arguments) \<noteq> 1" by blast
  then have many: "1 < length (ta_Actions arguments)" by (cases "ta_Actions arguments") auto
  then have act: "ta_Operation arguments = ''act''" using validateToolArguments_None(2) [OF a] by auto
  have "tool_actions arguments = [Action ActionBatch (ObservationMode_Effective (ta_Observation arguments))
      [] [] None None None None [] [] [] None (ta_Actions arguments)]"
    using act many by (simp add: tool_actions_def Let_def)
  moreover have "\<not> list_all (\<lambda>n. \<not> structural_kind (act_Kind n)) (ta_Actions arguments)"
    using n by (auto simp: list_all_iff)
  ultimately show ?thesis using batch_refused [OF n] len full by auto
qed

section \<open>The end of the loop\<close>

definition end_ok :: "'w serving \<Rightarrow> bool" where
  "end_ok s \<longleftrightarrow>
     (\<not> sv_inputOpen s \<longrightarrow> sv_messages s = [])
     \<and> (sv_result s = Some ServeDone \<longrightarrow> \<not> sv_inputOpen s \<and> sv_pending s = 0)"

lemma end_ok_quiet: "quiet_step env s s' \<Longrightarrow> end_ok s \<Longrightarrow> end_ok s'"
proof (induction rule: quiet_step.induct)
  case (line_read s raw rest s')
  then show ?case using accept_line_measure(2) [OF line_read.hyps(4,3)] accept_line_cases [OF line_read.hyps(4)]
    by (auto simp: end_ok_def looping_def)
next
  case (line_answered s raw rest response s')
  then show ?case using accept_line_measure(2) [OF line_answered.hyps(4,3)] accept_line_cases [OF line_answered.hyps(4)]
    by (auto simp: end_ok_def looping_def)
next
  case (section_run i s key ph)
  then show ?case by (simp add: end_ok_def set_running_def split: prod.splits)
next
  case (answer_written s i key response)
  then show ?case by (simp add: end_ok_def looping_def)
qed (auto simp: end_ok_def looping_def stop_all_def)

lemma end_ok_step: "serve_step env s s' \<Longrightarrow> end_ok s \<Longrightarrow> end_ok s'"
proof (induction rule: serve_step.induct)
  case (refusal_lost s raw rest response s')
  then show ?case using accept_line_cases [OF refusal_lost.hyps(4)] by (auto simp: end_ok_def)
next
  case (quiet s s')
  then show ?case by (rule end_ok_quiet)
qed (auto simp: end_ok_def looping_def stop_all_def)

lemma served_ids_step:
  "serve_step env s s' \<Longrightarrow> sv_result s' \<noteq> Some ServeWriteError \<Longrightarrow>
     served_ids env s' = served_ids env s \<and> sv_result s \<noteq> Some ServeWriteError"
proof (induction rule: serve_step.induct)
  case (quiet s s')
  then show ?case using served_ids_quiet [OF quiet.hyps] quiet_keeps_error [OF quiet.hyps] by blast
qed (auto simp: served_ids_def stop_all_def looping_def)

end
