(* ===== verification/PluginProperties.thy ===== *)
theory PluginProperties
  imports PluginFacts
begin

text \<open>
  The properties of the Browser MCP plugin: of its loop under every interleaving of its
  goroutines, of the calls it accepts and of the results it reports.
\<close>

section \<open>A sample\<close>

text \<open>
  A plugin that reads one line, a ping, and whose executor always succeeds. The world counts the
  calls of the executor.
\<close>

definition ping_request :: rpc_request where
  "ping_request = \<lparr>rq_JSONRPC = ''2.0'', rq_ID = ''1'', rq_Method = ''ping'', rq_Params = []\<rparr>"

definition counting_executor :: "nat plugin_executor" where
  "counting_executor = \<lparr>xe_Execute = (\<lambda>n a. (Inr zero_observation, Suc n)), xe_Identity = None\<rparr>"

definition sample_plugin_env :: "nat plugin_env" where
  "sample_plugin_env =
     \<lparr>pe_ext = ascii_externals, pe_factory = (\<lambda>n. (Inr counting_executor, n)), pe_evidence = None,
      pe_identity = None, pe_request = (\<lambda>line. if line = ''p'' then Some ping_request else None),
      pe_params = one_text_codec ''c'' \<lparr>tp_Name = ''browser_session'', tp_Arguments = JNull\<rparr>
        \<lparr>tp_Name = [], tp_Arguments = JNull\<rparr>,
      pe_cancelled = (\<lambda>_. None),
      pe_arguments = one_text_codec ''a''
        \<lparr>ta_Operation = ''observe'', ta_Observation = ObservationDefault, ta_Actions = []\<rparr>
        \<lparr>ta_Operation = [], ta_Observation = ObservationDefault, ta_Actions = []\<rparr>,
      pe_parse = (\<lambda>_. None), pe_marshal = (\<lambda>_. Some ''a'')\<rparr>"

definition sample_plugin :: "nat plugin" where
  "sample_plugin =
     \<lparr>pl_Host = ''codex'', pl_Version = ''1'', pl_client = None, pl_closed = False, pl_evidenceKey = [],
      pl_evidenceEmitted = False, pl_directEvidence = None\<rparr>"

definition sample_serving :: "nat serving" where
  "sample_serving =
     \<lparr>sv_messages = [Line ''p''], sv_inputOpen = True, sv_cancels = Map.empty, sv_pending = 0,
      sv_running = [], sv_plugin = sample_plugin, sv_world = 0, sv_output = [], sv_result = None\<rparr>"

lemma sample_lines: "scanMessages ''p'' = [Line ''p'']"
proof -
  have "Split ''p'' (char_of (10::nat)) = [''p'']" "drop_carriage ''p'' = ''p''" by code_simp+
  then show ?thesis by (simp add: scanMessages_def maxLineBytes_def)
qed

lemma sample_starts: "start_serve ascii_externals sample_plugin 0 ''p'' = Inr sample_serving"
proof -
  have "TrimSpace ''codex'' = ''codex''" "ToLower (ext_lower ascii_externals) ''codex'' = ''codex''" by code_simp+
  then show ?thesis by (simp add: start_serve_def sample_plugin_def sample_serving_def sample_lines)
qed

lemma sample_wf: "wf_serving sample_serving"
  by (rule wf_serving_start [OF sample_starts])

lemma sample_expected: "expected_ids sample_plugin_env (scanMessages ''p'') = {#''1''#}"
proof -
  have "TrimSpace ''p'' = ''p''" by code_simp
  then show ?thesis by (simp add: sample_lines sample_plugin_env_def ping_request_def)
qed

text \<open>The sample plugin has a run of the loop to its end.\<close>

lemma sample_run:
  obtains s where "serve_steps sample_plugin_env sample_serving s"
    "sv_result s = Some ServeDone \<or> sv_result s = Some ServeScanError"
proof -
  have "sv_result sample_serving = None" by (simp add: sample_serving_def)
  from quiet_finishes [OF sample_wf this, of sample_plugin_env]
  obtain n s where r: "(quiet_step sample_plugin_env ^^ n) sample_serving s"
    and e: "sv_result s = Some ServeDone \<or> sv_result s = Some ServeScanError" by blast
  have "(quiet_step sample_plugin_env)\<^sup>*\<^sup>* sample_serving s" using r by (rule relpowp_imp_rtranclp)
  then have "serve_steps sample_plugin_env sample_serving s"
    by (rule rtranclp_mono [THEN predicate2D, rotated]) (auto intro: serve_step.quiet)
  then show thesis using that e by blast
qed

section \<open>The loop\<close>

text \<open>
  C8. Every request gets exactly one answer: while the plugin runs, the identifiers answered,
  those in work and those still to be read make up the identifiers of the input, and when the
  loop is done the answers carry exactly these. A line that is not JSON counts as one with the
  identifier null, and a request with an identifier that is still in work is answered too.
\<close>

theorem plugin_answers_each_request_once:
  assumes "start_serve ext p w stream = Inr s0" "serve_steps env s0 s"
    "sv_result s \<noteq> Some ServeWriteError"
  shows "mset (map rs_ID (sv_output s)) + mset (map (\<lambda>(k, ph). phase_id ph) (sv_running s))
      + expected_ids env (sv_messages s) = expected_ids env (scanMessages stream)
    \<and> (sv_result s = Some ServeDone \<longrightarrow> mset (map rs_ID (sv_output s)) = expected_ids env (scanMessages stream))"
proof -
  have s0: "served_ids env s0 = expected_ids env (scanMessages stream)" "end_ok s0" "wf_serving s0"
    using assms(1) wf_serving_start [OF assms(1)]
    by (auto simp: start_serve_def served_ids_def end_ok_def Let_def split: if_splits)
  have "end_ok s \<and> (sv_result s \<noteq> Some ServeWriteError \<longrightarrow> served_ids env s = served_ids env s0)"
    using assms(2)
  proof (induction rule: rtranclp_induct)
    case (step t u)
    then show ?case using served_ids_step [OF step.hyps(2)] end_ok_step [OF step.hyps(2)] by auto
  qed (simp add: s0)
  moreover have "wf_serving s" by (rule wf_serving_steps [OF assms(2) s0(3)])
  ultimately show ?thesis using assms(3) s0(1) by (auto simp: served_ids_def end_ok_def wf_serving_def)
qed

theorem plugin_answers_each_request_once_witness:
  "\<exists>s. serve_steps sample_plugin_env sample_serving s \<and> sv_result s \<noteq> None
     \<and> mset (map rs_ID (sv_output s)) + mset (map (\<lambda>(k, ph). phase_id ph) (sv_running s))
        + expected_ids sample_plugin_env (sv_messages s) = {#''1''#}"
proof -
  obtain s where s: "serve_steps sample_plugin_env sample_serving s"
    "sv_result s = Some ServeDone \<or> sv_result s = Some ServeScanError" by (rule sample_run)
  then have "sv_result s \<noteq> Some ServeWriteError" by auto
  from plugin_answers_each_request_once [OF sample_starts s(1) this] s sample_expected
  show ?thesis by auto
qed

text \<open>
  The bookkeeping of the loop under every interleaving: a key is in work once, the table of
  cancel functions has exactly the keys in work, the counter of pending requests is their
  number, at most one goroutine holds \<^verbatim>\<open>actionMu\<close>, and none does once the attachment is closed.
\<close>

theorem pending_requests_are_counted:
  assumes "start_serve ext p w stream = Inr s0" "serve_steps env s0 s"
  shows "distinct (map fst (sv_running s)) \<and> dom (sv_cancels s) = set (map fst (sv_running s))
    \<and> sv_pending s = length (sv_running s)
    \<and> length (filter (\<lambda>(k, ph). holds_lock ph) (sv_running s)) \<le> 1
    \<and> (pl_closed (sv_plugin s) \<longrightarrow> filter (\<lambda>(k, ph). holds_lock ph) (sv_running s) = [])"
  using wf_serving_steps [OF assms(2) wf_serving_start [OF assms(1)]]
  by (simp add: wf_serving_def lock_holders_def)

theorem pending_requests_are_counted_witness:
  "\<exists>s. serve_steps sample_plugin_env sample_serving s \<and> sv_result s \<noteq> None
     \<and> sv_pending s = length (sv_running s)"
proof -
  obtain s where s: "serve_steps sample_plugin_env sample_serving s"
    "sv_result s = Some ServeDone \<or> sv_result s = Some ServeScanError" by (rule sample_run)
  from pending_requests_are_counted [OF sample_starts s(1)] s show ?thesis by auto
qed

text \<open>
  C29. The loop always can come to its end: from whatever state its goroutines are in, and with
  whatever is left of the input, finitely many steps without a failure lead to its return, and
  while it has not returned some step is possible.
\<close>

theorem plugin_loop_can_finish:
  assumes "start_serve ext p w stream = Inr s0" "serve_steps env s0 s" "sv_result s = None"
  shows "(\<exists>s'. quiet_step env s s')
    \<and> (\<exists>n s'. n \<le> serve_measure s \<and> (quiet_step env ^^ n) s s'
         \<and> (sv_result s' = Some ServeDone \<or> sv_result s' = Some ServeScanError))"
  using quiet_progress quiet_finishes wf_serving_steps [OF assms(2) wf_serving_start [OF assms(1)]] assms(3)
  by blast

theorem plugin_loop_can_finish_witness: "\<exists>s'. quiet_step sample_plugin_env sample_serving s'"
  using plugin_loop_can_finish [OF sample_starts rtranclp.rtrancl_refl, of sample_plugin_env]
  by (simp add: sample_serving_def)

text \<open>
  No run of the plugin is longer than six steps per scanned line and two more, whatever fails
  and however its goroutines interleave.
\<close>

theorem plugin_runs_are_bounded:
  assumes "start_serve ext p w stream = Inr s0" "(serve_step env ^^ n) s0 s"
  shows "n \<le> 6 * length (scanMessages stream) + 2"
proof -
  have "serve_measure s0 = 6 * length (scanMessages stream) + 2"
    using assms(1) by (auto simp: start_serve_def serve_measure_def Let_def split: if_splits)
  then show ?thesis using serve_run_bounded [OF assms(2)] by simp
qed

theorem plugin_runs_are_bounded_witness:
  "\<exists>s. (serve_step sample_plugin_env ^^ 1) sample_serving s \<and> 1 \<le> 6 * length (scanMessages ''p'') + (2::nat)"
proof -
  have "looping sample_serving" by (simp add: looping_def sample_serving_def)
  then have s: "(serve_step sample_plugin_env ^^ 1) sample_serving (stop_all ServeStopped sample_serving)"
    unfolding relpowp_1 by (rule serve_step.context_done)
  with plugin_runs_are_bounded [OF sample_starts s] show ?thesis by blast
qed

section \<open>The attachment\<close>

text \<open>
  C6. After a successful close nothing is executed any more: once the section of a \<^verbatim>\<open>close\<close> call has
  run and the executor has accepted the close, the world stays what the executor made of it
  whatever calls are in work or still come, and the attachment stays closed.
\<close>

theorem closed_attachments_execute_nothing:
  assumes "start_serve ext p w stream = Inr s0" "serve_steps env s0 s"
    and "i < length (sv_running s)" "sv_running s ! i = (key, Prepared r arguments client)"
    and "ta_Operation arguments = ''close''"
    and "xe_Execute client (sv_world s) (plain_action ActionClose ObservationDefault) = (Inr obs, w')"
    and "serve_steps env (set_running i (advance env (Prepared r arguments client, sv_plugin s, sv_world s)) s) s'"
  shows "sv_world s' = w' \<and> pl_closed (sv_plugin s')"
proof -
  let ?s = "set_running i (advance env (Prepared r arguments client, sv_plugin s, sv_world s)) s"
  have closed: "sv_world ?s = w' \<and> pl_closed (sv_plugin ?s)"
    using assms(5,6) by (simp add: set_running_def perform_call_def)
  have "may_advance s (Prepared r arguments client)" by (simp add: may_advance_def)
  from quiet_step.section_run [OF assms(3,4) this] have run: "serve_steps env s0 ?s"
    using assms(2) by (meson rtranclp.rtrancl_into_rtrancl serve_step.quiet)
  show ?thesis
    using assms(7)
  proof (induction rule: rtranclp_induct)
    case (step t u)
    have "wf_serving t"
      using wf_serving_steps [OF _ wf_serving_start [OF assms(1)]] run step.hyps(1) by (metis rtranclp_trans)
    with step show ?case using serve_closed [OF step.hyps(2)] by auto
  qed (rule closed)
qed

text \<open>A plugin that reads one line, a \<^verbatim>\<open>tools/call\<close> with the operation \<^verbatim>\<open>close\<close>.\<close>

definition close_request :: rpc_request where
  "close_request = \<lparr>rq_JSONRPC = ''2.0'', rq_ID = ''1'', rq_Method = ''tools/call'', rq_Params = ''c''\<rparr>"

definition close_arguments :: tool_arguments where
  "close_arguments = \<lparr>ta_Operation = ''close'', ta_Observation = ObservationDefault, ta_Actions = []\<rparr>"

definition closing_env :: "nat plugin_env" where
  "closing_env = sample_plugin_env
     \<lparr>pe_request := (\<lambda>_. Some close_request),
      pe_arguments := one_text_codec ''a'' close_arguments
        \<lparr>ta_Operation = [], ta_Observation = ObservationDefault, ta_Actions = []\<rparr>\<rparr>"

definition closing_serving :: "nat phase \<Rightarrow> nat plugin \<Rightarrow> nat serving" where
  "closing_serving ph p = sample_serving
     \<lparr>sv_messages := [], sv_cancels := [''1'' \<mapsto> False], sv_pending := 1, sv_running := [(''1'', ph)],
      sv_plugin := p\<rparr>"

lemma closing_admitted:
  "begin_request closing_env close_request sample_plugin 0 = Admitted close_request close_arguments"
proof -
  have "validateToolArguments ascii_externals close_arguments policy = None" for policy
    by (simp add: close_arguments_def validateToolArguments_def ObservationMode_Validate_def or_else_def reject_if_def)
  then show ?thesis
    by (simp add: begin_request_def plain_method_def close_request_def call_arguments_def closing_env_def
        sample_plugin_env_def one_text_codec_def strict_decode_def admit_call_def)
qed

lemma closing_prepared:
  "advance closing_env (Admitted close_request close_arguments, sample_plugin, 0)
   = (Prepared close_request close_arguments counting_executor, sample_plugin\<lparr>pl_client := Some counting_executor\<rparr>, 0)"
  by (simp add: prepare_call_def browserClient_def ensureDirectEvidence_def closing_env_def sample_plugin_env_def
      sample_plugin_def counting_executor_def)

lemma closing_run:
  "serve_steps closing_env sample_serving
     (closing_serving (Prepared close_request close_arguments counting_executor)
        (sample_plugin\<lparr>pl_client := Some counting_executor\<rparr>))"
proof -
  have "looping sample_serving" "TrimSpace ''p'' = ''p''" "requestKey ''1'' = ''1''"
    by (simp add: looping_def sample_serving_def) code_simp+
  then have "quiet_step closing_env sample_serving (closing_serving (Received close_request) sample_plugin)"
    by (intro quiet_step.line_read [where raw = "''p''" and rest = "[]"])
      (simp_all add: sample_serving_def accept_line_def closing_env_def close_request_def closing_serving_def Let_def)
  moreover have step: "quiet_step closing_env (closing_serving ph q) (closing_serving ph' q')"
    if "advance closing_env (ph, q, 0) = (ph', q', 0)" "\<not> is_answered ph" "\<not> holds_lock ph" for ph ph' q q'
    using quiet_step.section_run [of 0 "closing_serving ph q" "''1''" ph closing_env] that
    by (simp add: closing_serving_def sample_serving_def may_advance_def lock_free_def set_running_def)
  moreover have "quiet_step closing_env (closing_serving (Received close_request) sample_plugin)
      (closing_serving (Admitted close_request close_arguments) sample_plugin)"
    by (rule step) (simp_all add: closing_admitted)
  moreover have "quiet_step closing_env (closing_serving (Admitted close_request close_arguments) sample_plugin)
      (closing_serving (Prepared close_request close_arguments counting_executor)
        (sample_plugin\<lparr>pl_client := Some counting_executor\<rparr>))"
    by (rule step [OF closing_prepared]) simp_all
  ultimately show ?thesis
    by (meson rtranclp.rtrancl_into_rtrancl rtranclp.rtrancl_refl serve_step.quiet)
qed

theorem closed_attachments_execute_nothing_witness:
  "\<exists>s. serve_steps closing_env sample_serving s \<and> sv_result s = Some ServeStopped
     \<and> sv_world s = 1 \<and> pl_closed (sv_plugin s)"
proof -
  let ?p = "sample_plugin\<lparr>pl_client := Some counting_executor\<rparr>"
  let ?ph = "Prepared close_request close_arguments counting_executor"
  let ?s = "closing_serving ?ph ?p"
  let ?c = "set_running 0 (advance closing_env (?ph, sv_plugin ?s, sv_world ?s)) ?s"
  have at: "0 < length (sv_running ?s)" "sv_running ?s ! 0 = (''1'', ?ph)" by (simp_all add: closing_serving_def)
  have op: "ta_Operation close_arguments = ''close''" by (simp add: close_arguments_def)
  have ok: "xe_Execute counting_executor (sv_world ?s) (plain_action ActionClose ObservationDefault) = (Inr zero_observation, 1)"
    by (simp add: counting_executor_def closing_serving_def sample_serving_def)
  have "looping ?c"
    by (simp add: looping_def set_running_def closing_serving_def sample_serving_def split: prod.split)
  then have stop: "serve_steps closing_env ?c (stop_all ServeStopped ?c)"
    by (intro r_into_rtranclp serve_step.context_done)
  have "may_advance ?s ?ph" by (simp add: may_advance_def)
  from quiet_step.section_run [OF at this] have "serve_steps closing_env sample_serving ?c"
    using closing_run by (meson rtranclp.rtrancl_into_rtrancl serve_step.quiet)
  with stop have "serve_steps closing_env sample_serving (stop_all ServeStopped ?c)" by (rule rtranclp_trans [rotated])
  moreover have "sv_world (stop_all ServeStopped ?c) = 1 \<and> pl_closed (sv_plugin (stop_all ServeStopped ?c))"
    by (rule closed_attachments_execute_nothing [OF sample_starts closing_run at op ok stop])
  ultimately show ?thesis by (intro exI [of _ "stop_all ServeStopped ?c"]) (simp add: stop_all_def)
qed

text \<open>
  C30. Without a supplier of evidence the plugin attaches the evidence of its attachment to at
  most one result, however many calls complete and in whatever order.
\<close>

theorem evidence_is_attached_once:
  assumes "pe_evidence env = None" "start_serve ext p w stream = Inr s0" "serve_steps env s0 s"
  shows "length (filter has_evidence (sv_output s)) \<le> 1"
proof -
  have "evidence_count s \<le> of_bool (marked (sv_plugin s))"
    using evidence_ok_steps [OF assms(1,3) evidence_ok_start [OF assms(2)]] by (simp add: evidence_ok_def)
  also have "\<dots> \<le> 1" by simp
  finally show ?thesis by (simp add: evidence_count_def)
qed

theorem evidence_is_attached_once_witness:
  "\<exists>s. serve_steps sample_plugin_env sample_serving s \<and> sv_result s \<noteq> None
     \<and> length (filter has_evidence (sv_output s)) \<le> 1"
proof -
  obtain s where s: "serve_steps sample_plugin_env sample_serving s"
    "sv_result s = Some ServeDone \<or> sv_result s = Some ServeScanError" by (rule sample_run)
  have "pe_evidence sample_plugin_env = None" by (simp add: sample_plugin_env_def)
  from evidence_is_attached_once [OF this sample_starts s(1)] s show ?thesis by auto
qed

section \<open>Calls\<close>

text \<open>
  C31. An accepted call sends exactly one action to the executor. It is valid under the policy the
  call was accepted under, so that the client does not reject it, exactly if the call has a single
  action or none of its actions is a batch, a close, a checkpoint or a preflight; under any policy
  but the full one it always is. What the plugin accepts under the full policy and the protocol
  refuses are the batches with such an action. The executor is one that lists the actions it gets.
\<close>

theorem accepted_calls_become_valid_actions:
  assumes "validateToolArguments ext arguments policy = None"
    and "\<And>sent a. xe_Execute client sent a = (answer sent a, sent @ [a])"
  shows "\<exists>a. snd (snd (perform_call env client arguments p [])) = [a]
    \<and> (ValidateForPolicy ext policy a = None \<longleftrightarrow>
         length (ta_Actions arguments) = 1 \<or> list_all (\<lambda>n. \<not> structural_kind (act_Kind n)) (ta_Actions arguments))
    \<and> (policy = ''full'' \<or> ValidateForPolicy ext policy a = None)"
proof (cases "ta_Operation arguments = ''close''")
  case True
  then have "ta_Actions arguments = []" using validateToolArguments_None(2) [OF assms(1)] by auto
  moreover have "snd (snd (perform_call env client arguments p [])) = [plain_action ActionClose ObservationDefault]"
    using True by (simp add: perform_call_def assms(2) split: sum.split)
  ultimately show ?thesis
    by (intro exI [of _ "plain_action ActionClose ObservationDefault"]) (simp add: close_validates)
next
  case False
  from tool_actions_exactly [OF assms(1) this] obtain a where a: "tool_actions arguments = [a]"
    "ValidateForPolicy ext policy a = None \<longleftrightarrow>
       length (ta_Actions arguments) = 1 \<or> list_all (\<lambda>n. \<not> structural_kind (act_Kind n)) (ta_Actions arguments)"
    "policy = ''full'' \<or> ValidateForPolicy ext policy a = None"
    by (elim exE conjE) (rule that)
  have "snd (snd (perform_call env client arguments p [])) = [a]"
    using False by (simp add: perform_call_def a(1) assms(2) split: sum.split prod.split)
  with a(2,3) show ?thesis by (intro exI conjI)
qed

definition listing_executor :: "action list plugin_executor" where
  "listing_executor = \<lparr>xe_Execute = (\<lambda>sent a. (Inr zero_observation, sent @ [a])), xe_Identity = None\<rparr>"

text \<open>A batch of the full policy that the plugin accepts and the protocol refuses.\<close>

definition closing_batch :: tool_arguments where
  "closing_batch = \<lparr>ta_Operation = ''act'', ta_Observation = ObservationDefault,
     ta_Actions = [plain_action ActionScreenshot ObservationDefault, plain_action ActionClose ObservationDefault]\<rparr>"

lemma closing_batch_accepted: "validateToolArguments ascii_externals closing_batch ''full'' = None"
proof -
  have mode: "ObservationMode_Validate ObservationDefault = None" by (simp add: ObservationMode_Validate_def)
  have "act_Observation (plain_action kind m) = m" for kind m by (simp add: plain_action_def)
  then show ?thesis
    by (simp add: closing_batch_def validateToolArguments_def tool_action_rejects_def or_else_def reject_if_def
        maxBatchActions_def mode close_validates plain_action_validates)
qed

theorem accepted_calls_become_valid_actions_witness:
  "\<forall>env p. \<exists>a. snd (snd (perform_call env listing_executor closing_batch p [])) = [a]
     \<and> ValidateForPolicy ascii_externals ''full'' a \<noteq> None"
proof (intro allI)
  fix env p
  have "xe_Execute listing_executor sent a = (Inr zero_observation, sent @ [a])" for sent a
    by (simp add: listing_executor_def)
  from accepted_calls_become_valid_actions [OF closing_batch_accepted this, of env p]
  show "\<exists>a. snd (snd (perform_call env listing_executor closing_batch p [])) = [a]
      \<and> ValidateForPolicy ascii_externals ''full'' a \<noteq> None"
    by (simp add: closing_batch_def plain_action_def structural_kind_def)
qed

text \<open>
  C36. An \<^verbatim>\<open>act\<close> call may consist of the action \<^verbatim>\<open>close\<close>, which its schema does not list: the call is
  accepted under every policy and sent to the executor, and the plugin does not note that the
  attachment is closed.
\<close>

theorem act_may_close_unnoticed:
  "validateToolArguments ext \<lparr>ta_Operation = ''act'', ta_Observation = ObservationDefault,
      ta_Actions = [plain_action ActionClose ObservationDefault]\<rparr> policy = None
   \<and> tool_actions \<lparr>ta_Operation = ''act'', ta_Observation = ObservationDefault,
       ta_Actions = [plain_action ActionClose ObservationDefault]\<rparr> = [plain_action ActionClose ObservationSemantic]
   \<and> fst (snd (perform_call env client \<lparr>ta_Operation = ''act'', ta_Observation = ObservationDefault,
       ta_Actions = [plain_action ActionClose ObservationDefault]\<rparr> p w)) = p"
proof -
  have "ValidateForPolicy ext policy (plain_action ActionClose ObservationDefault) = None" by (rule close_validates)
  then show ?thesis
    by (auto simp: validateToolArguments_def tool_action_rejects_def or_else_def reject_if_def
        ObservationMode_Validate_def plain_action_def maxBatchActions_def tool_actions_def Let_def
        with_observation_def ObservationMode_Effective_def perform_call_def split: prod.splits sum.splits)
qed

text \<open>
  A request that runs without another in between does what \<^verbatim>\<open>handle\<close> does: four sections of
  its goroutine give the answer, the state and the world of the direct definition.
\<close>

theorem sections_make_up_handle:
  "(advance env ^^ 4) (Received r, p, w) =
     (case handle env r p w of (response, p', w') \<Rightarrow> (Answered response, p', w'))"
  by (rule advance_is_handle)

text \<open>
  The result of a failed call says what the failure says: its code and message, in the text
  too, the count of completed actions, which defaults to the failed index, and the advice on
  retrying exactly when there is one. An error that is not a failure is reported without its
  text.
\<close>

theorem failures_are_reported:
  "tr_IsError (browserErrorResult (FailureError f))
   \<and> map cb_Text (tr_Content (browserErrorResult (FailureError f))) = [failure_Error (Some f)]
   \<and> (\<exists>m. tr_StructuredContent (browserErrorResult (FailureError f)) = Some m
       \<and> map_of m ''code'' = Some (JText (ErrorCode_text (fl_Code f)))
       \<and> map_of m ''message'' = Some (JText (fl_Message f))
       \<and> map_of m ''completed_actions'' = map_option JWord
            (case fl_CompletedActions f of None \<Rightarrow> fl_ActionIndex f | Some n \<Rightarrow> Some n)
       \<and> map_of m ''retry_same_action'' = map_option JBool (fl_RetrySameAction f)
       \<and> map_of m ''attachment_usable'' = map_option JBool (fl_AttachmentUsable f)
       \<and> map_of m ''mutation_outcome_reason'' =
            (if fl_MutationOutcomeReason f = [] then None else Some (JText (fl_MutationOutcomeReason f))))
   \<and> browserErrorResult (OtherError t) = browserErrorResult (OtherError u)"
  by (auto simp: browserErrorResult_def failure_fields_def text_block_def failure_Error_def JCode_def Let_def
      split: option.splits)

end
