(* ===== verification/GoCrypto.thy ===== *)
theory GoCrypto
  imports GoHash
begin

text \<open>
  What the repository uses of \<^verbatim>\<open>crypto/aes\<close>, \<^verbatim>\<open>crypto/cipher\<close> (GCM with a 12 byte nonce and a 16 byte
  tag) and \<^verbatim>\<open>crypto/hkdf\<close>: AES-256 (FIPS 197), GCM (SP 800-38D) and HKDF-SHA-256 (RFC 5869).
  Nothing here stands for a definition of the repository. The law that opening undoes sealing is
  proved for whatever the block cipher computes.
\<close>

section \<open>Bytes\<close>

type_synonym byte = "8 word"
type_synonym block = "128 word"

definition byte_of :: "char \<Rightarrow> byte" where "byte_of c = of_nat (of_char c)"
definition char_byte :: "byte \<Rightarrow> char" where "char_byte b = char_of (unat b)"

lemma char_byte_of [simp]: "char_byte (byte_of c) = c"
proof -
  have "of_char c < (256::nat)" by simp
  then have "unat (of_nat (of_char c) :: byte) = of_char c" by (simp add: unat_of_nat)
  then show ?thesis by (simp add: char_byte_def byte_of_def)
qed

lemma byte_of_char [simp]: "byte_of (char_byte b) = b"
proof -
  have "unat b < 256" using unsigned_less [of b] by simp
  then show ?thesis by (simp add: char_byte_def byte_of_def)
qed

definition xor_bytes :: "string \<Rightarrow> string \<Rightarrow> string" where
  "xor_bytes = map2 (\<lambda>a b. char_byte (byte_of a XOR byte_of b))"

lemma length_xor_bytes [simp]: "length (xor_bytes a b) = min (length a) (length b)"
  by (simp add: xor_bytes_def)

lemma xor_bytes_twice: "length a \<le> length b \<Longrightarrow> xor_bytes (xor_bytes a b) b = a"
  by (rule nth_equalityI) (simp_all add: xor_bytes_def xor.assoc)

definition to_block :: "byte list \<Rightarrow> block" where
  "to_block bs = fold (\<lambda>b acc. push_bit 8 acc OR ucast b) bs 0"

definition of_block :: "block \<Rightarrow> byte list" where
  "of_block w = map (\<lambda>i. ucast (drop_bit (8 * (15 - i)) w)) [0..<16]"

lemma length_of_block [simp]: "length (of_block w) = 16"
  by (simp add: of_block_def)

section \<open>AES-256\<close>

definition aes_sbox :: "byte list" where
  "aes_sbox =
     [99, 124, 119, 123, 242, 107, 111, 197, 48, 1, 103, 43, 254, 215, 171, 118, 202, 130, 201, 125,
      250, 89, 71, 240, 173, 212, 162, 175, 156, 164, 114, 192, 183, 253, 147, 38, 54, 63, 247, 204,
      52, 165, 229, 241, 113, 216, 49, 21, 4, 199, 35, 195, 24, 150, 5, 154, 7, 18, 128, 226,
      235, 39, 178, 117, 9, 131, 44, 26, 27, 110, 90, 160, 82, 59, 214, 179, 41, 227, 47, 132,
      83, 209, 0, 237, 32, 252, 177, 91, 106, 203, 190, 57, 74, 76, 88, 207, 208, 239, 170, 251,
      67, 77, 51, 133, 69, 249, 2, 127, 80, 60, 159, 168, 81, 163, 64, 143, 146, 157, 56, 245,
      188, 182, 218, 33, 16, 255, 243, 210, 205, 12, 19, 236, 95, 151, 68, 23, 196, 167, 126, 61,
      100, 93, 25, 115, 96, 129, 79, 220, 34, 42, 144, 136, 70, 238, 184, 20, 222, 94, 11, 219,
      224, 50, 58, 10, 73, 6, 36, 92, 194, 211, 172, 98, 145, 149, 228, 121, 231, 200, 55, 109,
      141, 213, 78, 169, 108, 86, 244, 234, 101, 122, 174, 8, 186, 120, 37, 46, 28, 166, 180, 198,
      232, 221, 116, 31, 75, 189, 139, 138, 112, 62, 181, 102, 72, 3, 246, 14, 97, 53, 87, 185,
      134, 193, 29, 158, 225, 248, 152, 17, 105, 217, 142, 148, 155, 30, 135, 233, 206, 85, 40, 223,
      140, 161, 137, 13, 191, 230, 66, 104, 65, 153, 45, 15, 176, 84, 187, 22]"

definition sub_byte :: "byte \<Rightarrow> byte" where "sub_byte b = aes_sbox ! unat b"

definition xtime :: "byte \<Rightarrow> byte" where
  "xtime b = push_bit 1 b XOR (if bit b 7 then 0x1b else 0)"

text \<open>The key schedule, newest word first.\<close>

fun aes_expand :: "nat \<Rightarrow> nat \<Rightarrow> byte \<Rightarrow> byte list list \<Rightarrow> byte list list" where
  "aes_expand 0 i rcon ws = ws"
| "aes_expand (Suc n) i rcon ws =
     (let prev = hd ws;
          temp = (if i mod 8 = 0 then map2 (XOR) (map sub_byte (tl prev @ [hd prev])) [rcon, 0, 0, 0]
                  else if i mod 8 = 4 then map sub_byte prev else prev)
      in aes_expand n (Suc i) (if i mod 8 = 0 then xtime rcon else rcon) (map2 (XOR) (ws ! 7) temp # ws))"

fun words4 :: "byte list \<Rightarrow> byte list list" where
  "words4 (a # b # c # d # r) = [a, b, c, d] # words4 r"
| "words4 _ = []"

fun join16 :: "byte list list \<Rightarrow> byte list list" where
  "join16 (a # b # c # d # r) = (a @ b @ c @ d) # join16 r"
| "join16 _ = []"

definition aes_round_keys :: "byte list \<Rightarrow> byte list list" where
  "aes_round_keys key = join16 (rev (aes_expand 52 8 1 (rev (words4 key))))"

definition shift_rows :: "byte list \<Rightarrow> byte list" where
  "shift_rows s = map (\<lambda>j. s ! (j mod 4 + 4 * ((j div 4 + j mod 4) mod 4))) [0..<16]"

fun mix_columns :: "byte list \<Rightarrow> byte list" where
  "mix_columns (a # b # c # d # r) =
     (xtime a XOR xtime b XOR b XOR c XOR d) # (a XOR xtime b XOR xtime c XOR c XOR d)
     # (a XOR b XOR xtime c XOR xtime d XOR d) # (xtime a XOR a XOR b XOR c XOR xtime d) # mix_columns r"
| "mix_columns _ = []"

fun aes_rounds :: "byte list \<Rightarrow> byte list list \<Rightarrow> byte list" where
  "aes_rounds s [] = s"
| "aes_rounds s [k] = map2 (XOR) (shift_rows (map sub_byte s)) k"
| "aes_rounds s (k # ks) = aes_rounds (map2 (XOR) (mix_columns (shift_rows (map sub_byte s))) k) ks"

definition aes_encrypt :: "byte list list \<Rightarrow> block \<Rightarrow> block" where
  "aes_encrypt keys w = to_block (aes_rounds (map2 (XOR) (of_block w) (hd keys)) (tl keys))"

section \<open>GCM\<close>

fun gf_mult :: "nat \<Rightarrow> block \<Rightarrow> block \<Rightarrow> block \<Rightarrow> block" where
  "gf_mult 0 x v z = z"
| "gf_mult (Suc n) x v z =
     gf_mult n x (drop_bit 1 v XOR (if bit v 0 then push_bit 120 0xE1 else 0)) (if bit x n then z XOR v else z)"

fun blocks_of :: "byte list \<Rightarrow> block list" where
  "blocks_of [] = []"
| "blocks_of (b # bs) =
     to_block (take 16 (b # bs) @ replicate (16 - length (b # bs)) 0) # blocks_of (drop 15 bs)"

definition ghash :: "block \<Rightarrow> block list \<Rightarrow> block" where
  "ghash h bs = foldl (\<lambda>y b. gf_mult 128 (y XOR b) h 0) 0 bs"

fun gcm_stream :: "(block \<Rightarrow> block) \<Rightarrow> byte list \<Rightarrow> nat \<Rightarrow> nat \<Rightarrow> byte list" where
  "gcm_stream encrypt nonce i 0 = []"
| "gcm_stream encrypt nonce i (Suc n) =
     of_block (encrypt (push_bit 32 (to_block nonce) OR (of_nat i AND 0xFFFFFFFF))) @ gcm_stream encrypt nonce (Suc i) n"

definition gcm_crypt :: "(block \<Rightarrow> block) \<Rightarrow> string \<Rightarrow> string \<Rightarrow> string" where
  "gcm_crypt encrypt nonce s =
     xor_bytes s (map char_byte (gcm_stream encrypt (map byte_of nonce) 2 ((length s + 15) div 16)))"

definition gcm_tag :: "(block \<Rightarrow> block) \<Rightarrow> string \<Rightarrow> string \<Rightarrow> string \<Rightarrow> string" where
  "gcm_tag encrypt nonce sealed aad =
     (let lengths = push_bit 64 (of_nat (8 * length aad)) OR of_nat (8 * length sealed) :: block;
          s = ghash (encrypt 0)
                (blocks_of (map byte_of aad) @ blocks_of (map byte_of sealed) @ [lengths]) in
      map char_byte (of_block (s XOR encrypt (push_bit 32 (to_block (map byte_of nonce)) OR 1))))"

definition gcm_seal :: "(block \<Rightarrow> block) \<Rightarrow> string \<Rightarrow> string \<Rightarrow> string \<Rightarrow> string" where
  "gcm_seal encrypt nonce plaintext aad =
     (let c = gcm_crypt encrypt nonce plaintext in c @ gcm_tag encrypt nonce c aad)"

definition gcm_open :: "(block \<Rightarrow> block) \<Rightarrow> string \<Rightarrow> string \<Rightarrow> string \<Rightarrow> string option" where
  "gcm_open encrypt nonce sealed aad =
     (if length sealed < 16 then None
      else
        (let c = take (length sealed - 16) sealed in
         if drop (length sealed - 16) sealed = gcm_tag encrypt nonce c aad
         then Some (gcm_crypt encrypt nonce c) else None))"

lemma length_gcm_stream [simp]: "length (gcm_stream encrypt nonce i n) = 16 * n"
  by (induction n arbitrary: i) auto

lemma length_gcm_crypt [simp]: "length (gcm_crypt encrypt nonce s) = length s"
  by (simp add: gcm_crypt_def)

lemma gcm_crypt_twice [simp]: "gcm_crypt encrypt nonce (gcm_crypt encrypt nonce s) = s"
proof -
  let ?k = "map char_byte (gcm_stream encrypt (map byte_of nonce) 2 ((length s + 15) div 16))"
  have "length s \<le> length ?k" by simp
  then have "xor_bytes (xor_bytes s ?k) ?k = s" by (rule xor_bytes_twice)
  then show ?thesis using length_gcm_crypt [of encrypt nonce s] by (simp add: gcm_crypt_def)
qed

lemma length_gcm_tag [simp]: "length (gcm_tag encrypt nonce c aad) = 16"
  by (simp add: gcm_tag_def Let_def)

lemma length_gcm_seal [simp]: "length (gcm_seal encrypt nonce p aad) = length p + 16"
  by (simp add: gcm_seal_def Let_def)

lemma gcm_open_seal [simp]: "gcm_open encrypt nonce (gcm_seal encrypt nonce p aad) aad = Some p"
  by (simp add: gcm_open_def gcm_seal_def Let_def)

lemma gcm_open_length: "gcm_open encrypt nonce sealed aad = Some p \<Longrightarrow> length sealed = length p + 16"
  by (auto simp: gcm_open_def Let_def split: if_splits)

text \<open>\<^verbatim>\<open>cipher.NewGCM\<close> on \<^verbatim>\<open>aes.NewCipher\<close>; a key of another length than 32 is not used here.\<close>

definition aes_gcm_seal :: "string \<Rightarrow> string \<Rightarrow> string \<Rightarrow> string \<Rightarrow> string" where
  "aes_gcm_seal key = gcm_seal (aes_encrypt (aes_round_keys (map byte_of key)))"

definition aes_gcm_open :: "string \<Rightarrow> string \<Rightarrow> string \<Rightarrow> string \<Rightarrow> string option" where
  "aes_gcm_open key = gcm_open (aes_encrypt (aes_round_keys (map byte_of key)))"

lemma aes_gcm [simp]:
  "aes_gcm_open key nonce (aes_gcm_seal key nonce p aad) aad = Some p"
  "length (aes_gcm_seal key nonce p aad) = length p + 16"
  by (simp_all add: aes_gcm_open_def aes_gcm_seal_def)

lemma aes_gcm_open_length: "aes_gcm_open key nonce sealed aad = Some p \<Longrightarrow> length sealed = length p + 16"
  unfolding aes_gcm_open_def by (rule gcm_open_length)

section \<open>HKDF\<close>

definition hmac_sha256 :: "string \<Rightarrow> string \<Rightarrow> string" where
  "hmac_sha256 key message =
     (let k0 = (if 64 < length key then sha256 key else key);
          k = k0 @ replicate (64 - length k0) (char_of (0::nat)) in
      sha256 (xor_bytes k (replicate 64 (char_of (0x5c::nat)))
        @ sha256 (xor_bytes k (replicate 64 (char_of (0x36::nat))) @ message)))"

text \<open>\<^verbatim>\<open>hkdf.Key\<close> for the one length that is used, that of the hash.\<close>

definition hkdf_key32 :: "string \<Rightarrow> string \<Rightarrow> string \<Rightarrow> string" where
  "hkdf_key32 secret salt info = hmac_sha256 (hmac_sha256 salt secret) (info @ [char_of (1::nat)])"

lemma length_hkdf_key32 [simp]: "length (hkdf_key32 secret salt info) = 32"
  by (simp add: hkdf_key32_def hmac_sha256_def Let_def)

end
