(* ===== verification/ProfileCipher.thy ===== *)
theory ProfileCipher
  imports GoCrypto WireCodec
begin

text \<open>
  The encryption of saved Browser profiles: \<^verbatim>\<open>browserprofile/types.go\<close>, \<^verbatim>\<open>metadata.go\<close> and
  \<^verbatim>\<open>payload.go\<close>. A data key is wrapped under a key derived from the root key and the identity of
  the profile; the payload is sealed in chunks, each under associated data that names the profile,
  the index and the length of the chunk. Random bytes come from a stream that the operations
  consume.
\<close>

section \<open>Identities, keys and metadata\<close>

datatype profile_error =
    ErrInvalidConfiguration | ErrIdentityMismatch | ErrKeyGeneration | ErrRootKeyUnavailable
  | ErrProfileCorrupt | ErrProfileExists | ErrProfileNotFound | ErrProfileQuarantined
  | ErrProfileStoreLocked | ErrProfileStoreClosed | ErrKeyClosed | ErrProfileMigrationRequired
  | ErrProfileMigrationPending | ErrProfileOther

text \<open>\<open>ErrProfileOther\<close> is any error without a sentinel of its own. A joined error is a list.\<close>

type_synonym profile_errors = "profile_error list"

record profile_identity =
  pid_AgentID :: string
  pid_PrincipalScopeID :: string
  pid_ProfileSlot :: string
  pid_ProfileGeneration :: go_uint64

record root_key =
  rk_generation :: go_uint64
  rk_key :: bytes
  rk_closed :: bool

record profile_metadata =
  pm_Version :: go_int
  pm_ContractID :: string
  pm_Algorithm :: string
  pm_KDF :: string
  pm_Identity :: profile_identity
  pm_RootKeyGeneration :: go_uint64
  pm_WrapNonce :: bytes
  pm_WrappedDEK :: bytes

record payload_cipher =
  cip_contract :: string
  cip_identity :: profile_identity
  cip_key :: bytes
  cip_closed :: bool

definition metadataVersion :: go_int where "metadataVersion = 1"
definition algorithmName :: string where "algorithmName = ''AES-256-GCM''"
definition kdfName :: string where "kdfName = ''HKDF-SHA-256''"
definition storageContractV1 :: string where "storageContractV1 = ''openlinker.browser.v1''"
definition storageContractV2 :: string where "storageContractV2 = ''openlinker.browser.v2''"

definition contract_valid :: "string \<Rightarrow> bool" where
  "contract_valid c \<longleftrightarrow> c = storageContractV1 \<or> c = storageContractV2"

text \<open>A text of lower-case hexadecimal digits and hyphens is its own lower case.\<close>

definition profile_validUUID :: "string \<Rightarrow> bool" where
  "profile_validUUID s \<longleftrightarrow>
     length s = 36
     \<and> list_all (\<lambda>i. if i \<in> {8, 13, 18, 23} then s ! i = CHR ''-'' else is_lower_hex (s ! i)) [0..<36]
     \<and> s \<noteq> ''00000000-0000-0000-0000-000000000000''"

definition profile_opaque_char :: "char \<Rightarrow> bool" where
  "profile_opaque_char c \<longleftrightarrow> is_alnum c \<or> c \<in> set ''._:-''"

definition profile_validOpaque :: "string \<Rightarrow> nat \<Rightarrow> bool" where
  "profile_validOpaque s limit \<longleftrightarrow>
     s \<noteq> [] \<and> length s \<le> limit \<and> TrimSpace s = s \<and> list_all profile_opaque_char s"

definition pid_valid :: "profile_identity \<Rightarrow> bool" where
  "pid_valid i \<longleftrightarrow>
     profile_validUUID (pid_AgentID i) \<and> profile_validOpaque (pid_PrincipalScopeID i) 256
     \<and> profile_validOpaque (pid_ProfileSlot i) 64 \<and> pid_ProfileGeneration i \<noteq> 0"

definition all_zero :: "bytes \<Rightarrow> bool" where
  "all_zero bs \<longleftrightarrow> list_all (\<lambda>c. c = char_of (0::nat)) bs"

definition NewRootKey :: "go_uint64 \<Rightarrow> bytes \<Rightarrow> profile_error + root_key" where
  "NewRootKey generation raw =
     (if generation = 0 \<or> length raw \<noteq> 32 \<or> all_zero raw then Inl ErrInvalidConfiguration
      else Inr \<lparr>rk_generation = generation, rk_key = raw, rk_closed = False\<rparr>)"

definition RootKey_Close :: "root_key \<Rightarrow> root_key" where
  "RootKey_Close k = k\<lparr>rk_key := replicate 32 (char_of (0::nat)), rk_closed := True\<rparr>"

definition validRoot :: "root_key option \<Rightarrow> bool" where
  "validRoot root \<longleftrightarrow>
     (case root of None \<Rightarrow> False
      | Some k \<Rightarrow> rk_generation k \<noteq> 0 \<and> \<not> rk_closed k \<and> \<not> all_zero (rk_key k))"

definition payload_close :: "payload_cipher \<Rightarrow> payload_cipher" where
  "payload_close c = c\<lparr>cip_key := replicate 32 (char_of (0::nat)), cip_closed := True\<rparr>"

definition cip_storageContract :: "payload_cipher \<Rightarrow> string" where
  "cip_storageContract c = (if cip_contract c = [] then storageContractV2 else cip_contract c)"

section \<open>Associated data\<close>

text \<open>\<^verbatim>\<open>json.Marshal\<close> of the structs, in the order of their fields.\<close>

definition json_field :: "string \<Rightarrow> string \<Rightarrow> string" where
  "json_field k v = json_string k @ '':'' @ v"

definition json_object :: "string list \<Rightarrow> string" where
  "json_object fs = ''{'' @ JoinWith (CHR '','') fs @ ''}''"

definition json_bool :: "bool \<Rightarrow> string" where
  "json_bool b = (if b then ''true'' else ''false'')"

definition identity_json :: "profile_identity \<Rightarrow> string" where
  "identity_json i =
     json_object
       [json_field ''agent_id'' (json_string (pid_AgentID i)),
        json_field ''principal_scope_id'' (json_string (pid_PrincipalScopeID i)),
        json_field ''profile_slot'' (json_string (pid_ProfileSlot i)),
        json_field ''profile_generation'' (FormatUint (pid_ProfileGeneration i))]"

definition payloadAAD :: "string \<Rightarrow> profile_identity \<Rightarrow> nat \<Rightarrow> nat \<Rightarrow> bool \<Rightarrow> string" where
  "payloadAAD contract i index len final =
     json_object
       [json_field ''contract_id'' (json_string contract),
        json_field ''purpose'' (json_string ''profile-payload''),
        json_field ''identity'' (identity_json i),
        json_field ''chunk_index'' (digits_of index),
        json_field ''length'' (digits_of len),
        json_field ''final'' (json_bool final)]"

definition wrapAAD :: "profile_metadata \<Rightarrow> string" where
  "wrapAAD m =
     json_object
       [json_field ''version'' (FormatInt (pm_Version m)),
        json_field ''contract_id'' (json_string (pm_ContractID m)),
        json_field ''algorithm'' (json_string (pm_Algorithm m)),
        json_field ''kdf'' (json_string (pm_KDF m)),
        json_field ''identity'' (identity_json (pm_Identity m)),
        json_field ''root_key_generation'' (FormatUint (pm_RootKeyGeneration m))]"

definition profileDigest :: "string \<Rightarrow> profile_identity \<Rightarrow> string" where
  "profileDigest contract i =
     sha256_hex (json_object
       [json_field ''contract_id'' (json_string contract), json_field ''identity'' (identity_json i)])"

section \<open>Wrapping the data key\<close>

definition wrappingKeyContext :: string where
  "wrappingKeyContext = ''openlinker.browser.profile.wrap.v1''"

definition deriveWrappingKey :: "string \<Rightarrow> profile_identity \<Rightarrow> root_key \<Rightarrow> profile_error + bytes" where
  "deriveWrappingKey contract i root =
     (if \<not> contract_valid contract then Inl ErrInvalidConfiguration
      else Inr (hkdf_key32 (rk_key root) wrappingKeyContext
        (json_object
          [json_field ''contract_id'' (json_string contract),
           json_field ''purpose'' (json_string ''profile-dek-wrap''),
           json_field ''identity'' (identity_json i),
           json_field ''root_key_generation'' (FormatUint (rk_generation root))])))"

definition metadata_shape_ok :: "string \<Rightarrow> profile_metadata \<Rightarrow> bool" where
  "metadata_shape_ok contract m \<longleftrightarrow>
     pm_Version m = metadataVersion \<and> contract_valid contract \<and> pm_ContractID m = contract
     \<and> pm_Algorithm m = algorithmName \<and> pm_KDF m = kdfName \<and> pid_valid (pm_Identity m)
     \<and> pm_RootKeyGeneration m \<noteq> 0 \<and> length (pm_WrapNonce m) = 12 \<and> length (pm_WrappedDEK m) = 48"

text \<open>\<^verbatim>\<open>io.ReadFull\<close> of the random source.\<close>

definition read_random :: "nat \<Rightarrow> bytes \<Rightarrow> bytes option \<times> bytes" where
  "read_random n random = (if length random < n then (None, []) else (Some (take n random), drop n random))"

definition protector_wrap ::
    "profile_identity \<Rightarrow> root_key \<Rightarrow> bytes \<Rightarrow> bytes \<Rightarrow> (profile_error + profile_metadata) \<times> bytes" where
  "protector_wrap i root dek random =
     (case deriveWrappingKey storageContractV2 i root of
        Inl e \<Rightarrow> (Inl e, random)
      | Inr wrappingKey \<Rightarrow>
          (case read_random 12 random of
             (None, random') \<Rightarrow> (Inl ErrProfileOther, random')
           | (Some nonce, random') \<Rightarrow>
               (let m = \<lparr>pm_Version = metadataVersion, pm_ContractID = storageContractV2,
                         pm_Algorithm = algorithmName, pm_KDF = kdfName, pm_Identity = i,
                         pm_RootKeyGeneration = rk_generation root, pm_WrapNonce = nonce,
                         pm_WrappedDEK = []\<rparr> in
                (Inr (m\<lparr>pm_WrappedDEK := aes_gcm_seal wrappingKey nonce dek (wrapAAD m)\<rparr>), random'))))"

definition protector_create ::
    "profile_identity \<Rightarrow> root_key option \<Rightarrow> bytes
     \<Rightarrow> (profile_error + profile_metadata \<times> payload_cipher) \<times> bytes" where
  "protector_create i root random =
     (if \<not> pid_valid i \<or> \<not> validRoot root then (Inl ErrInvalidConfiguration, random)
      else (case read_random 32 random of
        (None, random') \<Rightarrow> (Inl ErrProfileOther, random')
      | (Some dek, random') \<Rightarrow>
          (case protector_wrap i (the root) dek random' of
             (Inl e, random'') \<Rightarrow> (Inl e, random'')
           | (Inr m, random'') \<Rightarrow>
               (Inr (m, \<lparr>cip_contract = [], cip_identity = i, cip_key = dek, cip_closed = False\<rparr>), random''))))"

definition unwrap :: "string \<Rightarrow> profile_metadata \<Rightarrow> profile_identity \<Rightarrow> root_key option \<Rightarrow> profile_error + bytes" where
  "unwrap contract m expected root =
     (if \<not> pid_valid expected \<or> \<not> validRoot root then Inl ErrInvalidConfiguration
      else if \<not> metadata_shape_ok contract m then Inl ErrProfileCorrupt
      else if pm_Identity m \<noteq> expected then Inl ErrIdentityMismatch
      else if pm_RootKeyGeneration m \<noteq> rk_generation (the root) then Inl ErrKeyGeneration
      else (case deriveWrappingKey contract expected (the root) of
        Inl e \<Rightarrow> Inl e
      | Inr wrappingKey \<Rightarrow>
          if length (pm_WrapNonce m) \<noteq> 12 then Inl ErrProfileCorrupt
          else (case aes_gcm_open wrappingKey (pm_WrapNonce m) (pm_WrappedDEK m) (wrapAAD m) of
            None \<Rightarrow> Inl ErrProfileCorrupt
          | Some dek \<Rightarrow> if length dek \<noteq> 32 then Inl ErrProfileCorrupt else Inr dek)))"

definition protector_open ::
    "profile_metadata \<Rightarrow> profile_identity \<Rightarrow> root_key option \<Rightarrow> profile_error + payload_cipher" where
  "protector_open m expected root =
     (if \<not> pid_valid expected \<or> \<not> validRoot root then Inl ErrInvalidConfiguration
      else (case unwrap storageContractV2 m expected root of
        Inl e \<Rightarrow> Inl e
      | Inr dek \<Rightarrow> Inr \<lparr>cip_contract = [], cip_identity = expected, cip_key = dek, cip_closed = False\<rparr>))"

text \<open>Writing and reading the metadata; the JSON coding is a parameter.\<close>

definition maxMetadataBytes :: nat where "maxMetadataBytes = 4096"

definition marshalMetadata ::
    "(profile_metadata \<Rightarrow> bytes option) \<Rightarrow> profile_metadata \<Rightarrow> profile_error + bytes" where
  "marshalMetadata marshal m =
     (if \<not> metadata_shape_ok storageContractV2 m then Inl ErrProfileCorrupt
      else (case marshal m of
        None \<Rightarrow> Inl ErrProfileCorrupt
      | Some raw \<Rightarrow> if maxMetadataBytes < length raw then Inl ErrProfileCorrupt else Inr raw))"

definition parseMetadata ::
    "profile_metadata codec \<Rightarrow> string \<Rightarrow> bytes \<Rightarrow> profile_error + profile_metadata" where
  "parseMetadata codec contract raw =
     (if length raw = 0 \<or> maxMetadataBytes < length raw then Inl ErrProfileCorrupt
      else (case strict_decode codec raw of
        None \<Rightarrow> Inl ErrProfileCorrupt
      | Some m \<Rightarrow> if metadata_shape_ok contract m then Inr m else Inl ErrProfileCorrupt))"

section \<open>The payload\<close>

definition payloadChunkSize :: nat where "payloadChunkSize = 1048576"
definition payloadMagic :: string where "payloadMagic = ''OLBRPF01''"
definition maxChunkIndex :: nat where "maxChunkIndex = 4294967295"

text \<open>\<^verbatim>\<open>binary.BigEndian\<close> on 32 bits.\<close>

definition be32 :: "nat \<Rightarrow> bytes" where
  "be32 n = map (\<lambda>i. char_of (n div 256 ^ (3 - i) mod 256)) [0..<4]"

definition be32_value :: "bytes \<Rightarrow> nat" where
  "be32_value bs = foldl (\<lambda>a c. 256 * a + code_of c) 0 bs"

definition payloadNonce :: "bytes \<Rightarrow> nat \<Rightarrow> bytes" where
  "payloadNonce prefix index = prefix @ be32 index"

definition cipher_rejects :: "payload_cipher \<Rightarrow> profile_error option" where
  "cipher_rejects c =
     (if cip_closed c then Some ErrKeyClosed
      else if \<not> pid_valid (cip_identity c) \<or> all_zero (cip_key c) \<or> \<not> contract_valid (cip_storageContract c)
      then Some ErrInvalidConfiguration else None)"

definition payload_record :: "payload_cipher \<Rightarrow> bytes \<Rightarrow> nat \<Rightarrow> bytes \<Rightarrow> bool \<Rightarrow> bytes" where
  "payload_record c prefix index plaintext final =
     be32 (length plaintext)
     @ aes_gcm_seal (cip_key c) (payloadNonce prefix index) plaintext
         (payloadAAD storageContractV2 (cip_identity c) index (length plaintext) final)"

text \<open>The chunks of a payload and the empty record that ends it; \<^term>\<open>None\<close> when there are too many.\<close>

function encrypt_chunks :: "payload_cipher \<Rightarrow> bytes \<Rightarrow> nat \<Rightarrow> bytes \<Rightarrow> bytes option" where
  "encrypt_chunks c prefix index payload =
     (if payload = [] then Some (payload_record c prefix index [] True)
      else if index = maxChunkIndex then None
      else (case encrypt_chunks c prefix (Suc index) (drop payloadChunkSize payload) of
        None \<Rightarrow> None
      | Some rest \<Rightarrow> Some (payload_record c prefix index (take payloadChunkSize payload) False @ rest)))"
  by pat_completeness auto
termination encrypt_chunks
  by (relation "measure (\<lambda>(c, prefix, index, payload). length payload)") (auto simp: payloadChunkSize_def)

declare encrypt_chunks.simps [simp del]

text \<open>A payload whose reader fails at the end is not encrypted.\<close>

definition payload_encrypt ::
    "payload_cipher \<Rightarrow> bytes \<times> bool \<Rightarrow> bytes \<Rightarrow> (profile_error + bytes) \<times> bytes" where
  "payload_encrypt c source random =
     (case cipher_rejects c of
        Some e \<Rightarrow> (Inl e, random)
      | None \<Rightarrow>
          (case read_random 8 random of
             (None, random') \<Rightarrow> (Inl ErrProfileOther, random')
           | (Some prefix, random') \<Rightarrow>
               if snd source then (Inl ErrProfileOther, random')
               else (case encrypt_chunks c prefix 0 (fst source) of
                 None \<Rightarrow> (Inl ErrProfileOther, random')
               | Some out \<Rightarrow> (Inr (payloadMagic @ prefix @ out), random'))))"

text \<open>Decryption: the error, if any, and what was written before it.\<close>

function decrypt_chunks :: "payload_cipher \<Rightarrow> bytes \<Rightarrow> nat \<Rightarrow> bytes \<Rightarrow> profile_error option \<times> bytes" where
  "decrypt_chunks c prefix index stream =
     (if length stream < 4 then (Some ErrProfileCorrupt, [])
      else
        (let len = be32_value (take 4 stream); rest = drop 4 stream in
         if payloadChunkSize < len then (Some ErrProfileCorrupt, [])
         else if length rest < len + 16 then (Some ErrProfileCorrupt, [])
         else (case aes_gcm_open (cip_key c) (payloadNonce prefix index) (take (len + 16) rest)
                 (payloadAAD (cip_storageContract c) (cip_identity c) index len (len = 0)) of
           None \<Rightarrow> (Some ErrProfileCorrupt, [])
         | Some plaintext \<Rightarrow>
             if length plaintext \<noteq> len then (Some ErrProfileCorrupt, [])
             else if len = 0 then
               (if drop (len + 16) rest = [] then (None, []) else (Some ErrProfileCorrupt, []))
             else if index = maxChunkIndex then (Some ErrProfileCorrupt, plaintext)
             else (case decrypt_chunks c prefix (Suc index) (drop (len + 16) rest) of
               (e, later) \<Rightarrow> (e, plaintext @ later)))))"
  by pat_completeness auto
termination decrypt_chunks
  by (relation "measure (\<lambda>(c, prefix, index, stream). length stream)") auto

declare decrypt_chunks.simps [simp del]

definition payload_decrypt :: "payload_cipher \<Rightarrow> bytes \<Rightarrow> profile_error option \<times> bytes" where
  "payload_decrypt c stream =
     (case cipher_rejects c of
        Some e \<Rightarrow> (Some e, [])
      | None \<Rightarrow>
          if length stream < 16 \<or> take 8 stream \<noteq> payloadMagic then (Some ErrProfileCorrupt, [])
          else decrypt_chunks c (take 8 (drop 8 stream)) 0 (drop 16 stream))"

section \<open>Decryption undoes encryption\<close>

lemma length_be32 [simp]: "length (be32 n) = 4"
  by (simp add: be32_def)

lemma be32_value_be32: "n < 2 ^ 32 \<Longrightarrow> be32_value (be32 n) = n"
proof -
  assume n: "n < 2 ^ 32"
  have d: "n div 16777216 mod 256 = n div 16777216" using n by simp
  have "be32_value (be32 n) =
      256 * (256 * (256 * (n div 16777216 mod 256) + n div 65536 mod 256) + n div 256 mod 256) + n mod 256"
    by (simp add: be32_value_def be32_def upt_rec)
  also have "\<dots> = n"
  proof -
    have step: "256 * (m div 256) + m mod 256 = m" for m :: nat by simp
    have "n div 16777216 = n div 65536 div 256" "n div 65536 = n div 256 div 256"
      by (simp_all add: div_mult2_eq [symmetric])
    then show ?thesis unfolding d using step [of "n div 65536"] step [of "n div 256"] step [of n] by simp
  qed
  finally show ?thesis .
qed

lemma chunk_bound: "length (take payloadChunkSize p) \<le> payloadChunkSize" "payloadChunkSize < 2 ^ 32"
  by (simp_all add: payloadChunkSize_def)

lemma decrypt_record:
  assumes "cip_storageContract c = storageContractV2" "length p \<le> payloadChunkSize" "p \<noteq> []" "index \<noteq> maxChunkIndex"
  shows "decrypt_chunks c prefix index (payload_record c prefix index p False @ rest) =
    (case decrypt_chunks c prefix (Suc index) rest of (e, later) \<Rightarrow> (e, p @ later))"
  using assms chunk_bound(2)
  by (subst decrypt_chunks.simps) (simp add: payload_record_def be32_value_be32)

lemma decrypt_final:
  assumes "cip_storageContract c = storageContractV2"
  shows "decrypt_chunks c prefix index (payload_record c prefix index [] True @ rest) =
    (if rest = [] then None else Some ErrProfileCorrupt, [])"
  using assms
  by (subst decrypt_chunks.simps) (simp add: payload_record_def be32_value_be32)

lemma decrypt_encrypt_chunks:
  "cip_storageContract c = storageContractV2 \<Longrightarrow> encrypt_chunks c prefix index payload = Some out \<Longrightarrow>
    decrypt_chunks c prefix index (out @ extra) =
      (if extra = [] then None else Some ErrProfileCorrupt, payload)"
proof (induction c prefix index payload arbitrary: out rule: encrypt_chunks.induct)
  case (1 c prefix index payload)
  show ?case
  proof (cases "payload = []")
    case True
    then have "out = payload_record c prefix index [] True"
      using "1.prems" by (simp add: encrypt_chunks.simps)
    then show ?thesis using True decrypt_final [OF "1.prems"(1)] by simp
  next
    case False
    then obtain rest where r: "encrypt_chunks c prefix (Suc index) (drop payloadChunkSize payload) = Some rest"
      and i: "index \<noteq> maxChunkIndex"
      and out: "out = payload_record c prefix index (take payloadChunkSize payload) False @ rest"
      using "1.prems"(2) by (subst (asm) encrypt_chunks.simps) (auto split: if_splits option.splits)
    have "take payloadChunkSize payload \<noteq> []" using False by (simp add: payloadChunkSize_def)
    then show ?thesis using "1.IH" [OF False i "1.prems"(1) r] i chunk_bound(1) [of payload] out "1.prems"(1)
      by (simp add: decrypt_record)
  qed
qed

section \<open>What was cut off is not decrypted\<close>

lemma length_payload_record [simp]: "length (payload_record c prefix index p final) = length p + 20"
  by (simp add: payload_record_def)

lemma decrypt_cut_record:
  assumes "length p \<le> payloadChunkSize" "n < length p + 20"
  shows "decrypt_chunks c prefix index (take n (payload_record c prefix index' p final)) = (Some ErrProfileCorrupt, [])"
proof (cases "n < 4")
  case True
  then show ?thesis by (subst decrypt_chunks.simps) simp
next
  case False
  let ?r = "take n (payload_record c prefix index' p final)"
  have h: "take 4 (payload_record c prefix index' p final) = be32 (length p)" "min 4 n = 4"
    using False by (simp_all add: payload_record_def)
  have l: "n - 4 < length p + 16" using assms(2) False by arith
  have v: "be32_value (be32 (length p)) = length p"
    using assms(1) chunk_bound(2) by (simp add: be32_value_be32)
  show ?thesis
    by (subst decrypt_chunks.simps) (use l assms(1) False in \<open>simp add: h v Let_def\<close>)
qed

lemma decrypt_cut_chunks:
  "cip_storageContract c = storageContractV2 \<Longrightarrow> encrypt_chunks c prefix index payload = Some out \<Longrightarrow>
    n < length out \<Longrightarrow> fst (decrypt_chunks c prefix index (take n out)) = Some ErrProfileCorrupt"
proof (induction c prefix index payload arbitrary: out n rule: encrypt_chunks.induct)
  case (1 c prefix index payload)
  show ?case
  proof (cases "payload = []")
    case True
    then have "out = payload_record c prefix index [] True"
      using "1.prems" by (simp add: encrypt_chunks.simps)
    then show ?thesis using "1.prems"(3) decrypt_cut_record [of "[]" n] by simp
  next
    case False
    then obtain rest where r: "encrypt_chunks c prefix (Suc index) (drop payloadChunkSize payload) = Some rest"
      and i: "index \<noteq> maxChunkIndex"
      and out: "out = payload_record c prefix index (take payloadChunkSize payload) False @ rest"
      using "1.prems"(2) by (subst (asm) encrypt_chunks.simps) (auto split: if_splits option.splits)
    let ?p = "take payloadChunkSize payload"
    have p: "?p \<noteq> []" using False by (simp add: payloadChunkSize_def)
    show ?thesis
    proof (cases "n < length ?p + 20")
      case True
      then show ?thesis using decrypt_cut_record [OF chunk_bound(1) True] out by (simp add: min_def)
    next
      case cut: False
      then have t: "take n out = payload_record c prefix index ?p False @ take (n - (length ?p + 20)) rest"
        using out by simp
      have "n - (length ?p + 20) < length rest" using "1.prems"(3) out cut by simp
      from "1.IH" [OF False i "1.prems"(1) r this]
      show ?thesis unfolding t decrypt_record [OF "1.prems"(1) chunk_bound(1) p i]
        by (metis (no_types, lifting) case_prod_beta fst_conv)
    qed
  qed
qed

section \<open>Associated data tell chunks apart\<close>

lemma split_at_unique:
  assumes "a @ c # r = b @ c # s" "c \<notin> set a" "c \<notin> set b"
  shows "a = b \<and> r = s"
  using assms
proof (induction a arbitrary: b)
  case Nil
  then show ?case by (cases b) auto
next
  case (Cons x a)
  then show ?case by (cases b) auto
qed

lemma opaque_plain:
  assumes "profile_opaque_char c \<or> is_lower_hex c \<or> c = CHR ''-''"
  shows "json_escape c = [c]" "c \<noteq> CHR 0x22"
proof -
  have "json_escape c = [c] \<and> c \<noteq> CHR 0x22"
  proof (cases "c \<in> set ''._:-''")
    case True
    then consider "c = CHR ''.''" | "c = CHR ''_''" | "c = CHR '':''" | "c = CHR ''-''" by auto
    then show ?thesis by cases (hypsubst, code_simp)+
  next
    case False
    then have n: "(48 \<le> code_of c \<and> code_of c \<le> 57) \<or> (65 \<le> code_of c \<and> code_of c \<le> 90) \<or> (97 \<le> code_of c \<and> code_of c \<le> 122)"
      using assms by (auto simp: profile_opaque_char_def is_alnum_def is_digit_def is_lower_def is_upper_def is_lower_hex_def)
    then have k: "code_of c \<notin> {34, 92, 8, 12, 10, 13, 9, 60, 62, 38}" "\<not> code_of c < 32" by auto
    then have "c \<noteq> CHR 0x22" "c \<noteq> CHR 0x5C" "c \<noteq> CHR 0x08" "c \<noteq> CHR 0x0C" "c \<noteq> CHR 0x0A" "c \<noteq> CHR 0x0D"
      "c \<noteq> CHR 0x09" "c \<notin> set ''<>&''" by auto
    then show ?thesis using k(2) by (simp add: json_escape_def)
  qed
  then show "json_escape c = [c]" "c \<noteq> CHR 0x22" by auto
qed


lemma json_string_plain:
  assumes "list_all (\<lambda>c. profile_opaque_char c \<or> is_lower_hex c \<or> c = CHR ''-'') s"
  shows "json_string s = CHR 0x22 # s @ [CHR 0x22]" "CHR 0x22 \<notin> set s"
proof -
  have "concat (map json_escape s) = s" using assms by (induction s) (auto simp: opaque_plain(1))
  then show "json_string s = CHR 0x22 # s @ [CHR 0x22]" by (simp add: json_string_def)
  have "\<not> profile_opaque_char CHR 0x22" "\<not> is_lower_hex CHR 0x22" by code_simp+
  then show "CHR 0x22 \<notin> set s" using assms by (induction s) auto
qed

lemma valid_identity_plain:
  assumes "pid_valid i"
  shows "list_all (\<lambda>c. profile_opaque_char c \<or> is_lower_hex c \<or> c = CHR ''-'') (pid_AgentID i)"
    "list_all (\<lambda>c. profile_opaque_char c \<or> is_lower_hex c \<or> c = CHR ''-'') (pid_PrincipalScopeID i)"
    "list_all (\<lambda>c. profile_opaque_char c \<or> is_lower_hex c \<or> c = CHR ''-'') (pid_ProfileSlot i)"
  using assms
  by (auto simp: pid_valid_def profile_validUUID_def profile_validOpaque_def list_all_length list_all_iff in_set_conv_nth
      split: if_splits)

lemma digits_no_mark:
  assumes "\<not> is_digit c"
  shows "c \<notin> set (digits_of n)" "c \<notin> set (FormatUint m)"
  using assms digits_of_all_digits [of n] FormatUint_digits [of c m] by (auto simp: list_all_iff)

lemma identity_json_parts:
  assumes "pid_valid i"
  shows "identity_json i @ r =
    ''{'' @ CHR 0x22 # ''agent_id'' @ CHR 0x22 # CHR '':'' # CHR 0x22 # pid_AgentID i @ CHR 0x22 #
    '','' @ CHR 0x22 # ''principal_scope_id'' @ CHR 0x22 # CHR '':'' # CHR 0x22 # pid_PrincipalScopeID i @ CHR 0x22 #
    '','' @ CHR 0x22 # ''profile_slot'' @ CHR 0x22 # CHR '':'' # CHR 0x22 # pid_ProfileSlot i @ CHR 0x22 #
    '','' @ CHR 0x22 # ''profile_generation'' @ CHR 0x22 # CHR '':'' # FormatUint (pid_ProfileGeneration i) @ CHR ''}'' # r"
proof -
  note v = valid_identity_plain [OF assms]
  have names: "json_string ''agent_id'' = CHR 0x22 # ''agent_id'' @ [CHR 0x22]"
    "json_string ''principal_scope_id'' = CHR 0x22 # ''principal_scope_id'' @ [CHR 0x22]"
    "json_string ''profile_slot'' = CHR 0x22 # ''profile_slot'' @ [CHR 0x22]"
    "json_string ''profile_generation'' = CHR 0x22 # ''profile_generation'' @ [CHR 0x22]"
    by code_simp+
  show ?thesis
    by (simp add: identity_json_def json_object_def json_field_def names json_string_plain(1) [OF v(1)]
        json_string_plain(1) [OF v(2)] json_string_plain(1) [OF v(3)])
qed

lemma identity_json_inject:
  assumes "pid_valid i" "pid_valid j" "identity_json i @ r = identity_json j @ s"
  shows "i = j \<and> r = s"
proof -
  note v = valid_identity_plain [OF assms(1)] valid_identity_plain [OF assms(2)]
  note n = v [THEN json_string_plain(2)]
  have e: "pid_AgentID i @ CHR 0x22 #
      ('','' @ CHR 0x22 # ''principal_scope_id'' @ CHR 0x22 # CHR '':'' # CHR 0x22 # pid_PrincipalScopeID i @ CHR 0x22 #
      '','' @ CHR 0x22 # ''profile_slot'' @ CHR 0x22 # CHR '':'' # CHR 0x22 # pid_ProfileSlot i @ CHR 0x22 #
      '','' @ CHR 0x22 # ''profile_generation'' @ CHR 0x22 # CHR '':'' # FormatUint (pid_ProfileGeneration i) @ CHR ''}'' # r)
    = pid_AgentID j @ CHR 0x22 #
      ('','' @ CHR 0x22 # ''principal_scope_id'' @ CHR 0x22 # CHR '':'' # CHR 0x22 # pid_PrincipalScopeID j @ CHR 0x22 #
      '','' @ CHR 0x22 # ''profile_slot'' @ CHR 0x22 # CHR '':'' # CHR 0x22 # pid_ProfileSlot j @ CHR 0x22 #
      '','' @ CHR 0x22 # ''profile_generation'' @ CHR 0x22 # CHR '':'' # FormatUint (pid_ProfileGeneration j) @ CHR ''}'' # s)"
    using assms(3) by (simp add: identity_json_parts [OF assms(1)] identity_json_parts [OF assms(2)])
  note e1 = split_at_unique [OF e n(1) n(4)]
  then have e2: "pid_PrincipalScopeID i @ CHR 0x22 #
      ('','' @ CHR 0x22 # ''profile_slot'' @ CHR 0x22 # CHR '':'' # CHR 0x22 # pid_ProfileSlot i @ CHR 0x22 #
      '','' @ CHR 0x22 # ''profile_generation'' @ CHR 0x22 # CHR '':'' # FormatUint (pid_ProfileGeneration i) @ CHR ''}'' # r)
    = pid_PrincipalScopeID j @ CHR 0x22 #
      ('','' @ CHR 0x22 # ''profile_slot'' @ CHR 0x22 # CHR '':'' # CHR 0x22 # pid_ProfileSlot j @ CHR 0x22 #
      '','' @ CHR 0x22 # ''profile_generation'' @ CHR 0x22 # CHR '':'' # FormatUint (pid_ProfileGeneration j) @ CHR ''}'' # s)"
    by simp
  note e3 = split_at_unique [OF e2 n(2) n(5)]
  then have e4: "pid_ProfileSlot i @ CHR 0x22 #
      ('','' @ CHR 0x22 # ''profile_generation'' @ CHR 0x22 # CHR '':'' # FormatUint (pid_ProfileGeneration i) @ CHR ''}'' # r)
    = pid_ProfileSlot j @ CHR 0x22 #
      ('','' @ CHR 0x22 # ''profile_generation'' @ CHR 0x22 # CHR '':'' # FormatUint (pid_ProfileGeneration j) @ CHR ''}'' # s)"
    by simp
  note e5 = split_at_unique [OF e4 n(3) n(6)]
  then have e6: "FormatUint (pid_ProfileGeneration i) @ CHR ''}'' # r = FormatUint (pid_ProfileGeneration j) @ CHR ''}'' # s"
    by simp
  have "\<not> is_digit CHR ''}''" by code_simp
  then have "FormatUint (pid_ProfileGeneration i) = FormatUint (pid_ProfileGeneration j) \<and> r = s"
    by (intro split_at_unique [OF e6] digits_no_mark)
  with e1 e3 e5 show ?thesis by simp
qed

lemma payloadAAD_inject:
  assumes "pid_valid i" "pid_valid j" "payloadAAD contract i m len final = payloadAAD contract j n len' final'"
  shows "i = j \<and> m = n \<and> len = len' \<and> final = final'"
proof -
  let ?tail = "\<lambda>m len final. '','' @ json_string ''chunk_index'' @ CHR '':'' # digits_of m @ CHR '','' #
    (json_string ''length'' @ CHR '':'' # digits_of len @ CHR '','' # (json_string ''final'' @ '':'' @ json_bool final @ ''}''))"
  have "identity_json i @ ?tail m len final = identity_json j @ ?tail n len' final'"
    using assms(3) by (simp add: payloadAAD_def json_object_def json_field_def)
  note e = identity_json_inject [OF assms(1,2) this]
  have c: "\<not> is_digit CHR '',''" by code_simp
  from e have t: "digits_of m @ CHR '','' #
      (json_string ''length'' @ CHR '':'' # digits_of len @ CHR '','' # (json_string ''final'' @ '':'' @ json_bool final @ ''}''))
    = digits_of n @ CHR '','' #
      (json_string ''length'' @ CHR '':'' # digits_of len' @ CHR '','' # (json_string ''final'' @ '':'' @ json_bool final' @ ''}''))"
    by simp
  note f = split_at_unique [OF t digits_no_mark(1) [OF c] digits_no_mark(1) [OF c]]
  then have u: "digits_of len @ CHR '','' # (json_string ''final'' @ '':'' @ json_bool final @ ''}'')
    = digits_of len' @ CHR '','' # (json_string ''final'' @ '':'' @ json_bool final' @ ''}'')"
    by simp
  note g = split_at_unique [OF u digits_no_mark(1) [OF c] digits_no_mark(1) [OF c]]
  then have "json_bool final = json_bool final'" by simp
  with e f g show ?thesis by (cases final; cases final') (auto simp: json_bool_def)
qed

end
