(* ===== verification/ProfileFiles.thy ===== *)
theory ProfileFiles
  imports StateFiles ProfileCipher Validation
begin

text \<open>
  The files of an open Browser profile: \<^verbatim>\<open>browserruntime/profile_environment.go\<close>, the archive of
  \<^verbatim>\<open>profile_archive.go\<close>, and the directories and the root key of \<^verbatim>\<open>profile_engine.go\<close>, on the disk
  of theory \<open>Files\<close>.
\<close>

section \<open>Directories\<close>

text \<open>\<^verbatim>\<open>filepath.Rel\<close> of two absolute paths, element by element.\<close>

definition path_elements :: "string \<Rightarrow> string list" where
  "path_elements path = rev (foldl (clean_step (IsAbs path)) [] (Split path (CHR ''/'')))"

fun strip_common :: "string list \<Rightarrow> string list \<Rightarrow> string list \<times> string list" where
  "strip_common (x # xs) (y # ys) = (if x = y then strip_common xs ys else (x # xs, y # ys))"
| "strip_common xs ys = (xs, ys)"

definition Rel :: "string \<Rightarrow> string \<Rightarrow> string option" where
  "Rel base target =
     (if IsAbs base \<noteq> IsAbs target then None
      else (case strip_common (path_elements base) (path_elements target) of
        (b, t) \<Rightarrow>
          if ''..'' \<in> set b then None
          else Some (case replicate (length b) ''..'' @ t of [] \<Rightarrow> ''.'' | es \<Rightarrow> JoinWith (CHR ''/'') es)))"

definition under :: "string \<Rightarrow> string \<Rightarrow> bool" where
  "under path p \<longleftrightarrow> HasPrefix p (path @ ''/'')"

definition new_directory :: "32 word \<Rightarrow> node" where
  "new_directory perm = \<lparr>nd_kind = Directory, nd_perm = perm, nd_owned = True\<rparr>"

text \<open>\<^verbatim>\<open>os.Mkdir\<close> needs the parent and makes nothing over what is there.\<close>

definition Mkdir :: "string \<Rightarrow> 32 word \<Rightarrow> disk \<Rightarrow> bool \<times> disk" where
  "Mkdir path perm d =
     (case plain_call d of (ok, d) \<Rightarrow>
        if \<not> ok \<or> dk_nodes d path \<noteq> None
           \<or> (case dk_nodes d (Dir path) of None \<Rightarrow> True | Some nd \<Rightarrow> nd_kind nd \<noteq> Directory)
        then (False, d)
        else (True, set_node path (Some (new_directory perm)) d))"

text \<open>\<^verbatim>\<open>os.MkdirAll\<close>: the missing ancestors first. The fuel is the length of the path.\<close>

fun mkdir_all :: "nat \<Rightarrow> string \<Rightarrow> 32 word \<Rightarrow> disk \<Rightarrow> bool \<times> disk" where
  "mkdir_all 0 path perm d = (False, d)"
| "mkdir_all (Suc n) path perm d =
     (case dk_nodes d path of
        Some nd \<Rightarrow> (nd_kind nd = Directory, d)
      | None \<Rightarrow>
          if Dir path = path then (False, d)
          else (case mkdir_all n (Dir path) perm d of
            (False, d) \<Rightarrow> (False, d)
          | (True, d) \<Rightarrow> Mkdir path perm d))"

definition MkdirAll :: "string \<Rightarrow> 32 word \<Rightarrow> disk \<Rightarrow> bool \<times> disk" where
  "MkdirAll path perm d = mkdir_all (Suc (length path)) path perm d"

text \<open>
  \<^verbatim>\<open>os.RemoveAll\<close>. When it fails it has removed nothing, or all below the path but not the path.
\<close>

definition RemoveAll :: "string \<Rightarrow> disk \<Rightarrow> bool \<times> disk" where
  "RemoveAll path d =
     (case next_outcome d of
        (Works, d) \<Rightarrow>
          (True, d\<lparr>dk_nodes := (\<lambda>p. if p = path \<or> under path p then None else dk_nodes d p)\<rparr>)
      | (Fails 0, d) \<Rightarrow> (False, d)
      | (Fails (Suc _), d) \<Rightarrow>
          (False, d\<lparr>dk_nodes := (\<lambda>p. if under path p then None else dk_nodes d p)\<rparr>))"

definition Base :: "string \<Rightarrow> string" where
  "Base path =
     (if path = [] then ''.''
      else (case rev (dropWhile (\<lambda>c. c = CHR ''/'') (rev path)) of
        [] \<Rightarrow> ''/''
      | p \<Rightarrow> rev (takeWhile (\<lambda>c. c \<noteq> CHR ''/'') (rev p))))"

definition ensurePrivateRuntimeDirectory :: "string \<Rightarrow> disk \<Rightarrow> bool \<times> disk" where
  "ensurePrivateRuntimeDirectory path d =
     (case (case Lstat path d of
              (Inl ErrNotExist, d) \<Rightarrow>
                (case MkdirAll path 0x1C0 d of
                   (False, d) \<Rightarrow> (Inl ErrOther, d)
                 | (True, d) \<Rightarrow> Lstat path d)
            | r \<Rightarrow> r) of
        (Inl _, d) \<Rightarrow> (False, d)
      | (Inr info, d) \<Rightarrow>
          if nd_kind info \<noteq> Directory then (False, d)
          else if \<not> private_mode info then Chmod path 0x1C0 d
          else (True, d))"

definition resetProfileWorkDirectory :: "string \<Rightarrow> disk \<Rightarrow> bool \<times> disk" where
  "resetProfileWorkDirectory path d =
     (case ensurePrivateRuntimeDirectory (Dir path) d of
        (False, d) \<Rightarrow> (False, d)
      | (True, d) \<Rightarrow>
          if Base path \<noteq> ''active'' then (False, d)
          else (case RemoveAll path d of
            (False, d) \<Rightarrow> (False, d)
          | (True, d) \<Rightarrow> Mkdir path 0x1C0 d))"

section \<open>The root key\<close>

definition browserProfileRootKeyGeneration :: go_uint64 where "browserProfileRootKeyGeneration = 1"

definition readProfileRootKey :: "string \<Rightarrow> disk \<Rightarrow> (os_error + bytes) \<times> disk" where
  "readProfileRootKey path d =
     (case Lstat path d of
        (Inl e, d) \<Rightarrow> (Inl e, d)
      | (Inr info, d) \<Rightarrow>
          if \<not> nd_owned info \<or> \<not> private_mode info
             \<or> (case nd_kind info of Regular bs \<Rightarrow> length bs \<noteq> 32 | _ \<Rightarrow> True)
          then (Inl ErrOther, d)
          else (case ReadFile path d of
            (None, d) \<Rightarrow> (Inl ErrOther, d)
          | (Some raw, d) \<Rightarrow> (if length raw \<noteq> 32 then Inl ErrOther else Inr raw, d)))"

text \<open>
  \<^verbatim>\<open>os.OpenFile\<close> with \<^verbatim>\<open>O_CREATE|O_EXCL\<close>; \<open>taken\<close> tells that another process made the file since
  it was looked for.
\<close>

definition OpenExclusive :: "string \<Rightarrow> 32 word \<Rightarrow> disk \<Rightarrow> bool \<times> disk" where
  "OpenExclusive path perm d =
     (case plain_call d of (ok, d) \<Rightarrow>
        if \<not> ok \<or> dk_nodes d path \<noteq> None then (False, d)
        else (True, set_node path (Some \<lparr>nd_kind = Regular [], nd_perm = perm, nd_owned = True\<rparr>) d))"

definition root_key_of :: "bytes \<Rightarrow> root_key option" where
  "root_key_of raw =
     (case NewRootKey browserProfileRootKeyGeneration raw of Inl _ \<Rightarrow> None | Inr k \<Rightarrow> Some k)"

text \<open>The new key file: written, synced and closed; all three are tried and any failure removes it.\<close>

definition write_root_key :: "string \<Rightarrow> bytes \<Rightarrow> disk \<Rightarrow> bool \<times> disk" where
  "write_root_key path raw d =
     (case WriteFile path raw d of (written, d) \<Rightarrow>
     (case plain_call d of (synced, d) \<Rightarrow>
     (case plain_call d of (closed, d) \<Rightarrow>
        if \<not> (written \<and> synced \<and> closed) then (case Remove path d of (_, d) \<Rightarrow> (False, d))
        else
          (case plain_call d of
             (False, d) \<Rightarrow> (False, d)
           | (True, d) \<Rightarrow>
               (case plain_call d of (dir_synced, d) \<Rightarrow>
               (case plain_call d of (dir_closed, d) \<Rightarrow> (dir_synced \<and> dir_closed, d)))))))"

definition loadOrCreateProfileRootKey ::
    "bytes option \<Rightarrow> string \<Rightarrow> disk \<Rightarrow> root_key option \<times> disk" where
  "loadOrCreateProfileRootKey random path d =
     (case ensurePrivateRuntimeDirectory (Dir path) d of
        (False, d) \<Rightarrow> (None, d)
      | (True, d) \<Rightarrow>
          (case readProfileRootKey path d of
             (Inr raw, d) \<Rightarrow> (root_key_of raw, d)
           | (Inl ErrOther, d) \<Rightarrow> (None, d)
           | (Inl ErrNotExist, d) \<Rightarrow>
               (case random of
                  None \<Rightarrow> (None, d)
                | Some raw \<Rightarrow>
                    (case OpenExclusive path 0x180 d of
                       (False, d) \<Rightarrow>
                         if dk_nodes d path \<noteq> None then
                           (case readProfileRootKey path d of
                              (Inl _, d) \<Rightarrow> (None, d)
                            | (Inr existing, d) \<Rightarrow> (root_key_of existing, d))
                         else (None, d)
                     | (True, d) \<Rightarrow>
                         (case write_root_key path raw d of
                            (False, d) \<Rightarrow> (None, d)
                          | (True, d) \<Rightarrow> (root_key_of raw, d))))))"

section \<open>The environment of a profile\<close>

record profile_environment =
  pv_Evidence :: environment_evidence
  pv_ProfileGeneration :: go_uint64
  pv_EgressLabel :: string

record environment_record =
  er_ContractID :: string
  er_ProfileGeneration :: go_uint64
  er_EgressLabel :: string
  er_BrowserEngine :: string
  er_BrowserDistribution :: string
  er_BrowserVersion :: string
  er_BrowserLocale :: string
  er_BrowserTimezone :: string
  er_FontContractVersion :: string
  er_FontManifestSHA256 :: string

definition profileEnvironmentContractID :: string where
  "profileEnvironmentContractID = ''openlinker.browser.profile-environment.v1''"

definition profileEnvironmentRelative :: string where
  "profileEnvironmentRelative = ''.openlinker/environment.v1.json''"

definition maxProfileEnvironmentBytes :: nat where "maxProfileEnvironmentBytes = 4096"

text \<open>The regular expression \<^verbatim>\<open>^[a-z][a-z0-9._-]{0,62}$\<close>.\<close>

definition egressLabelPattern :: "string \<Rightarrow> bool" where
  "egressLabelPattern s \<longleftrightarrow>
     (case s of [] \<Rightarrow> False
      | c # cs \<Rightarrow> is_lower c \<and> length cs \<le> 62
          \<and> list_all (\<lambda>x. is_lower x \<or> is_digit x \<or> x \<in> set ''._-'') cs)"

definition ProfileEnvironment_Validate :: "profile_environment \<Rightarrow> bool" where
  "ProfileEnvironment_Validate e \<longleftrightarrow>
     pv_ProfileGeneration e \<noteq> 0 \<and> EnvironmentEvidence_Validate (pv_Evidence e) = None
     \<and> egressLabelPattern (pv_EgressLabel e)"

definition environment_to_record :: "profile_environment \<Rightarrow> environment_record" where
  "environment_to_record e =
     \<lparr>er_ContractID = profileEnvironmentContractID, er_ProfileGeneration = pv_ProfileGeneration e,
      er_EgressLabel = pv_EgressLabel e, er_BrowserEngine = env_BrowserEngine (pv_Evidence e),
      er_BrowserDistribution = env_BrowserDistribution (pv_Evidence e),
      er_BrowserVersion = env_BrowserVersion (pv_Evidence e),
      er_BrowserLocale = env_BrowserLocale (pv_Evidence e),
      er_BrowserTimezone = env_BrowserTimezone (pv_Evidence e),
      er_FontContractVersion = env_FontContractVersion (pv_Evidence e),
      er_FontManifestSHA256 = env_FontManifestSHA256 (pv_Evidence e)\<rparr>"

text \<open>The four numbers of a version, the missing ones zero.\<close>

fun parse_parts :: "string list \<Rightarrow> nat list option" where
  "parse_parts [] = Some []"
| "parse_parts (p # ps) =
     (case ParseUint p 32 of
        None \<Rightarrow> None
      | Some n \<Rightarrow> (case parse_parts ps of None \<Rightarrow> None | Some ns \<Rightarrow> Some (n # ns)))"

definition parsedBrowserVersion :: "string \<Rightarrow> nat list option" where
  "parsedBrowserVersion v =
     (let parts = Split v (CHR ''.'') in
      if length parts < 2 \<or> 4 < length parts then None
      else map_option (\<lambda>ns. ns @ replicate (4 - length ns) 0) (parse_parts parts))"

fun compare_parts :: "nat list \<Rightarrow> nat list \<Rightarrow> int" where
  "compare_parts (l # ls) (r # rs) = (if l < r then -1 else if l > r then 1 else compare_parts ls rs)"
| "compare_parts _ _ = 0"

definition compareBrowserVersions :: "string \<Rightarrow> string \<Rightarrow> int option" where
  "compareBrowserVersions left right =
     (case parsedBrowserVersion left of
        None \<Rightarrow> None
      | Some l \<Rightarrow>
          (case parsedBrowserVersion right of None \<Rightarrow> None | Some r \<Rightarrow> Some (compare_parts l r)))"

definition browserMajorVersion :: "string \<Rightarrow> go_int option" where
  "browserMajorVersion v =
     (case parsedBrowserVersion v of
        None \<Rightarrow> None
      | Some parts \<Rightarrow>
          if hd parts = 0 \<or> 1000 < hd parts then None else Some (of_nat (hd parts)))"

definition record_to_environment :: "environment_record \<Rightarrow> profile_environment option" where
  "record_to_environment r =
     (case browserMajorVersion (er_BrowserVersion r) of
        None \<Rightarrow> None
      | Some major \<Rightarrow>
          (let e = \<lparr>pv_Evidence =
                      \<lparr>env_BrowserEngine = er_BrowserEngine r, env_BrowserDistribution = er_BrowserDistribution r,
                       env_BrowserVersion = er_BrowserVersion r, env_BrowserMajorVersion = major,
                       env_BrowserLocale = er_BrowserLocale r, env_BrowserTimezone = er_BrowserTimezone r,
                       env_FontContractVersion = er_FontContractVersion r,
                       env_FontManifestSHA256 = er_FontManifestSHA256 r\<rparr>,
                    pv_ProfileGeneration = er_ProfileGeneration r, pv_EgressLabel = er_EgressLabel r\<rparr> in
           if er_ContractID r \<noteq> profileEnvironmentContractID then None
           else if \<not> ProfileEnvironment_Validate e then None else Some e))"

definition sameGenerationBinding :: "profile_environment \<Rightarrow> profile_environment \<Rightarrow> bool" where
  "sameGenerationBinding a b \<longleftrightarrow>
     pv_ProfileGeneration a = pv_ProfileGeneration b \<and> pv_EgressLabel a = pv_EgressLabel b
     \<and> env_BrowserEngine (pv_Evidence a) = env_BrowserEngine (pv_Evidence b)
     \<and> env_BrowserDistribution (pv_Evidence a) = env_BrowserDistribution (pv_Evidence b)
     \<and> env_BrowserLocale (pv_Evidence a) = env_BrowserLocale (pv_Evidence b)
     \<and> env_BrowserTimezone (pv_Evidence a) = env_BrowserTimezone (pv_Evidence b)
     \<and> env_FontContractVersion (pv_Evidence a) = env_FontContractVersion (pv_Evidence b)
     \<and> env_FontManifestSHA256 (pv_Evidence a) = env_FontManifestSHA256 (pv_Evidence b)"

text \<open>
  \<open>decode\<close> and \<open>marshal\<close> are \<^verbatim>\<open>encoding/json\<close> on the record. A missing file is told apart from the
  other errors.
\<close>

definition loadProfileEnvironment ::
    "environment_record codec \<Rightarrow> (environment_record \<Rightarrow> bytes option) \<Rightarrow> string \<Rightarrow> disk
     \<Rightarrow> (os_error + profile_environment) \<times> disk" where
  "loadProfileEnvironment decode marshal base d =
     (let path = Join base profileEnvironmentRelative in
      (case Lstat path d of
         (Inl e, d) \<Rightarrow> (Inl e, d)
       | (Inr info, d) \<Rightarrow>
           if (case nd_kind info of Regular bs \<Rightarrow> length bs = 0 \<or> maxProfileEnvironmentBytes < length bs | _ \<Rightarrow> True)
           then (Inl ErrOther, d)
           else (case ReadFile path d of
             (None, d) \<Rightarrow> (Inl ErrOther, d)
           | (Some raw, d) \<Rightarrow>
               (case strict_decode decode raw of
                  None \<Rightarrow> (Inl ErrOther, d)
                | Some r \<Rightarrow>
                    if marshal r \<noteq> Some raw then (Inl ErrOther, d)
                    else (case record_to_environment r of
                      None \<Rightarrow> (Inl ErrOther, d)
                    | Some e \<Rightarrow> (Inr e, d))))))"

text \<open>The write goes through a temporary file, which is removed whatever happens.\<close>

definition replace_environment :: "string \<Rightarrow> string \<Rightarrow> bytes \<Rightarrow> disk \<Rightarrow> bool \<times> disk" where
  "replace_environment temporary target raw d =
     (case Chmod temporary 0x180 d of
        (False, d) \<Rightarrow> (case plain_call d of (_, d) \<Rightarrow> (False, d))
      | (True, d) \<Rightarrow>
          (case WriteFile temporary raw d of
             (False, d) \<Rightarrow> (case plain_call d of (_, d) \<Rightarrow> (False, d))
           | (True, d) \<Rightarrow>
               (case plain_call d of
                  (False, d) \<Rightarrow> (case plain_call d of (_, d) \<Rightarrow> (False, d))
                | (True, d) \<Rightarrow>
                    (case plain_call d of
                       (False, d) \<Rightarrow> (False, d)
                     | (True, d) \<Rightarrow>
                         (case Rename temporary target d of
                            (False, d) \<Rightarrow> (False, d)
                          | (True, d) \<Rightarrow>
                              (case plain_call d of
                                 (False, d) \<Rightarrow> (False, d)
                               | (True, d) \<Rightarrow>
                                   (case plain_call d of (synced, d) \<Rightarrow>
                                   (case plain_call d of (closed, d) \<Rightarrow> (synced \<and> closed, d)))))))))"

definition writeProfileEnvironment ::
    "(environment_record \<Rightarrow> bytes option) \<Rightarrow> string \<Rightarrow> profile_environment \<Rightarrow> disk \<Rightarrow> bool \<times> disk" where
  "writeProfileEnvironment marshal base e d =
     (if \<not> ProfileEnvironment_Validate e then (False, d)
      else
        (let directory = Join base ''.openlinker'' in
         (case (case Lstat directory d of
                  (Inl ErrNotExist, d) \<Rightarrow> Mkdir directory 0x1C0 d
                | (Inl ErrOther, d) \<Rightarrow> (False, d)
                | (Inr info, d) \<Rightarrow> (nd_kind info = Directory, d)) of
            (False, d) \<Rightarrow> (False, d)
          | (True, d) \<Rightarrow>
              (case marshal (environment_to_record e) of
                 None \<Rightarrow> (False, d)
               | Some raw \<Rightarrow>
                   if maxProfileEnvironmentBytes < length raw then (False, d)
                   else (case CreateTemp (Join directory ''.environment-'') [] d of
                     (None, d) \<Rightarrow> (False, d)
                   | (Some temporary, d) \<Rightarrow>
                       (case replace_environment temporary (Join directory (Base profileEnvironmentRelative)) raw d of
                          (ok, d) \<Rightarrow> (case Remove temporary d of (_, d) \<Rightarrow> (ok, d))))))))"

section \<open>The archive of a profile\<close>

datatype tar_type = TypeDir | TypeReg | TypeRegA | TypeOther

record tar_entry =
  te_Name :: string
  te_Type :: tar_type
  te_Size :: int
  te_Data :: bytes

definition maxProfileArchiveBytes :: int where "maxProfileArchiveBytes = 402653184"
definition maxProfileArchiveFiles :: int where "maxProfileArchiveFiles = 100000"

definition escapes :: "string \<Rightarrow> bool" where
  "escapes path \<longleftrightarrow> path = ''..'' \<or> HasPrefix path ''../''"

definition profileArchiveTarget :: "string \<Rightarrow> string \<Rightarrow> string option" where
  "profileArchiveTarget base raw =
     (if raw = [] \<or> ContainsByte raw (char_of (0::nat)) \<or> IsAbs raw then None
      else
        (let clean = Clean raw in
         if clean = ''.'' \<or> escapes clean then None
         else
           (let target = Join base clean in
            case Rel base target of
              None \<Rightarrow> None
            | Some relative \<Rightarrow> if escapes relative then None else Some target)))"

fun make_components :: "string \<Rightarrow> string list \<Rightarrow> disk \<Rightarrow> bool \<times> disk" where
  "make_components current [] d = (True, d)"
| "make_components current (c # cs) d =
     (let next = Join current c in
      (case Lstat next d of
         (Inl ErrNotExist, d) \<Rightarrow>
           (case Mkdir next 0x1C0 d of
              (False, d) \<Rightarrow> (False, d)
            | (True, d) \<Rightarrow> make_components next cs d)
       | (Inl ErrOther, d) \<Rightarrow> (False, d)
       | (Inr info, d) \<Rightarrow>
           if nd_kind info \<noteq> Directory then (False, d)
           else if \<not> private_mode info then
             (case Chmod next 0x1C0 d of
                (False, d) \<Rightarrow> (False, d)
              | (True, d) \<Rightarrow> make_components next cs d)
           else make_components next cs d))"

definition mkdirProfilePath :: "string \<Rightarrow> string \<Rightarrow> disk \<Rightarrow> bool \<times> disk" where
  "mkdirProfilePath base path d =
     (case Rel base path of
        None \<Rightarrow> (False, d)
      | Some relative \<Rightarrow>
          if escapes relative then (False, d)
          else if relative = ''.'' then (True, d)
          else make_components base (Split relative (CHR ''/'')) d)"

text \<open>
  One entry: its file is made exclusively, then copied, synced and closed. \<open>te_Data\<close> is what the
  archive holds for it; \<^verbatim>\<open>io.CopyN\<close> fails when that is less than the header says.
\<close>

definition extract_file :: "string \<Rightarrow> tar_entry \<Rightarrow> disk \<Rightarrow> bool \<times> disk" where
  "extract_file target e d =
     (case OpenExclusive target 0x180 d of
        (False, d) \<Rightarrow> (False, d)
      | (True, d) \<Rightarrow>
          (case WriteFile target (take (nat (te_Size e)) (te_Data e)) d of (written, d) \<Rightarrow>
          (case plain_call d of (synced, d) \<Rightarrow>
          (case plain_call d of (closed, d) \<Rightarrow>
             (written \<and> te_Size e \<le> int (length (te_Data e)) \<and> synced \<and> closed, d)))))"

text \<open>\<open>complete\<close> tells that the reader ended with \<^verbatim>\<open>io.EOF\<close> after the last entry.\<close>

fun extract_entries ::
    "string \<Rightarrow> int \<Rightarrow> int \<Rightarrow> tar_entry list \<Rightarrow> bool \<Rightarrow> disk \<Rightarrow> bool \<times> disk" where
  "extract_entries base files bytes_total [] complete d = (complete, d)"
| "extract_entries base files bytes_total (e # es) complete d =
     (if maxProfileArchiveFiles < files + 1 then (False, d)
      else (case profileArchiveTarget base (te_Name e) of
        None \<Rightarrow> (False, d)
      | Some target \<Rightarrow>
          (case te_Type e of
             TypeOther \<Rightarrow> (False, d)
           | TypeDir \<Rightarrow>
               (case mkdirProfilePath base target d of
                  (False, d) \<Rightarrow> (False, d)
                | (True, d) \<Rightarrow> extract_entries base (files + 1) bytes_total es complete d)
           | _ \<Rightarrow>
               if te_Size e < 0 \<or> maxProfileArchiveBytes - te_Size e < bytes_total then (False, d)
               else (case mkdirProfilePath base (Dir target) d of
                 (False, d) \<Rightarrow> (False, d)
               | (True, d) \<Rightarrow>
                   (case extract_file target e d of
                      (False, d) \<Rightarrow> (False, d)
                    | (True, d) \<Rightarrow> extract_entries base (files + 1) (bytes_total + te_Size e) es complete d)))))"

text \<open>\<open>read_tar\<close> is \<^verbatim>\<open>archive/tar\<close>'s reader on the bytes of the archive.\<close>

definition extractProfileArchive ::
    "(bytes \<Rightarrow> tar_entry list \<times> bool) \<Rightarrow> bytes \<Rightarrow> string \<Rightarrow> disk \<Rightarrow> bool \<times> disk" where
  "extractProfileArchive read_tar input base d =
     (case read_tar (take (nat (maxProfileArchiveBytes + 67108864)) input) of
        (entries, complete) \<Rightarrow> extract_entries base 0 0 entries complete d)"

text \<open>
  The walk of the writer over the paths below the base, in the order of \<^verbatim>\<open>filepath.WalkDir\<close>. Links
  and special files are left out.
\<close>

fun archive_entries ::
    "string \<Rightarrow> int \<Rightarrow> int \<Rightarrow> string list \<Rightarrow> disk \<Rightarrow> tar_entry list option \<times> disk" where
  "archive_entries base files bytes_total [] d = (Some [], d)"
| "archive_entries base files bytes_total (path # paths) d =
     (if path = base then archive_entries base files bytes_total paths d
      else (case Rel base path of
        None \<Rightarrow> (None, d)
      | Some relative \<Rightarrow>
          if relative = ''.'' \<or> escapes relative then (None, d)
          else (case Lstat path d of
            (Inl _, d) \<Rightarrow> (None, d)
          | (Inr info, d) \<Rightarrow>
              (case nd_kind info of
                 Symlink \<Rightarrow> archive_entries base files bytes_total paths d
               | OtherFile \<Rightarrow> archive_entries base files bytes_total paths d
               | Directory \<Rightarrow>
                   if maxProfileArchiveFiles < files + 1 then (None, d)
                   else (case plain_call d of
                     (False, d) \<Rightarrow> (None, d)
                   | (True, d) \<Rightarrow>
                       (case archive_entries base (files + 1) bytes_total paths d of
                          (r, d) \<Rightarrow> (map_option ((#) \<lparr>te_Name = relative, te_Type = TypeDir, te_Size = 0, te_Data = []\<rparr>) r, d)))
               | Regular bs \<Rightarrow>
                   if maxProfileArchiveFiles < files + 1 then (None, d)
                   else if maxProfileArchiveBytes - int (length bs) < bytes_total then (None, d)
                   else (case plain_call d of
                     (False, d) \<Rightarrow> (None, d)
                   | (True, d) \<Rightarrow>
                       (case ReadFile path d of
                          (None, d) \<Rightarrow> (None, d)
                        | (Some raw, d) \<Rightarrow>
                            (case archive_entries base (files + 1) (bytes_total + int (length bs)) paths d of
                               (r, d) \<Rightarrow>
                                 (map_option ((#) \<lparr>te_Name = relative, te_Type = TypeReg,
                                    te_Size = int (length bs), te_Data = raw\<rparr>) r, d))))))))"

definition writeProfileArchive ::
    "(tar_entry list \<Rightarrow> bytes option) \<Rightarrow> (string \<Rightarrow> disk \<Rightarrow> string list) \<Rightarrow> string \<Rightarrow> disk \<Rightarrow> bytes option \<times> disk" where
  "writeProfileArchive write_tar walk base d =
     (case archive_entries base 0 0 (walk base d) d of
        (None, d) \<Rightarrow> (None, d)
      | (Some entries, d) \<Rightarrow> (write_tar entries, d))"

end
