(* ===== verification/ProfileEngine.thy ===== *)
theory ProfileEngine
  imports ProfileFiles FileLease Viewer OpsObserver
begin

text \<open>
  \<^verbatim>\<open>browserruntime/profile_engine.go\<close>: the engine that opens the saved profile of an identity, runs
  a browser process on its work directory, and saves it back at checkpoints. The processes and
  the profile store are an environment over the disk and a world \<open>'w\<close>; \<open>'p\<close> is a process.
\<close>

section \<open>State\<close>

record 'p active_profile =
  ap_identity :: profile_identity
  ap_session :: string
  ap_owner :: identity
  ap_exists :: bool
  ap_recovered :: bool
  ap_process :: "'p option"
  ap_upgradePending :: bool
  ap_preflightValidated :: bool
  ap_environmentAdoptionPending :: bool

record 'p ops_snapshot =
  os_identity :: identity
  os_profileGeneration :: go_uint64
  os_observer :: 'p

record 'p profile_engine =
  en_active :: "'p active_profile option"
  en_closed :: bool
  en_ops :: "'p ops_snapshot option"

text \<open>
  The store's operations take the profile and give errors (none is success). The process
  operations are those of \<^verbatim>\<open>managedBrowserEngine\<close>; \<open>pn_viewer\<close> and \<open>pn_observes\<close> tell whether a
  process is a \<^verbatim>\<open>ViewerEngine\<close> and an \<^verbatim>\<open>activeOpsObserverEngine\<close> too.
\<close>

record ('p, 'w) engine_env =
  pn_ext :: externals
  pn_environment :: profile_environment
  pn_workRoot :: string
  pn_workDirectory :: string
  pn_processEnvironment :: "string list"
  pn_load :: "profile_identity \<Rightarrow> disk \<times> 'w \<Rightarrow> (profile_errors + bytes) \<times> disk \<times> 'w"
  pn_create :: "profile_identity \<Rightarrow> bytes \<Rightarrow> disk \<times> 'w \<Rightarrow> profile_errors \<times> disk \<times> 'w"
  pn_checkpoint :: "profile_identity \<Rightarrow> bytes \<Rightarrow> disk \<times> 'w \<Rightarrow> profile_errors \<times> disk \<times> 'w"
  pn_quarantine :: "profile_identity \<Rightarrow> disk \<times> 'w \<Rightarrow> profile_errors \<times> disk \<times> 'w"
  pn_prune :: "go_time \<Rightarrow> disk \<times> 'w \<Rightarrow> bool \<times> disk \<times> 'w"
  pn_closeStore :: "disk \<times> 'w \<Rightarrow> bool \<times> disk \<times> 'w"
  pn_start :: "string list \<Rightarrow> disk \<times> 'w \<Rightarrow> 'p option \<times> disk \<times> 'w"
  pn_execute :: "'p \<Rightarrow> identity \<Rightarrow> action \<Rightarrow> disk \<times> 'w \<Rightarrow> (failure + observation) \<times> disk \<times> 'w"
  pn_close :: "'p \<Rightarrow> disk \<times> 'w \<Rightarrow> bool \<times> disk \<times> 'w"
  pn_viewer :: "'p \<Rightarrow> (identity \<Rightarrow> viewer_operation \<Rightarrow> viewer_input option
       \<Rightarrow> disk \<times> 'w \<Rightarrow> (failure + viewer_frame option) \<times> disk \<times> 'w) option"
  pn_observes :: "'p \<Rightarrow> bool"
  pn_pages :: "page_continuations codec"
  pn_budgets :: "origin_budgets codec"
  pn_marshalBudgets :: "origin_budgets \<Rightarrow> bytes option"
  pn_record :: "environment_record codec"
  pn_marshalRecord :: "environment_record \<Rightarrow> bytes option"
  pn_readTar :: "bytes \<Rightarrow> tar_entry list \<times> bool"
  pn_writeTar :: "tar_entry list \<Rightarrow> bytes option"
  pn_walk :: "string \<Rightarrow> disk \<Rightarrow> string list"

section \<open>Failures\<close>

definition runtimeUnavailable :: "string \<Rightarrow> failure" where
  "runtimeUnavailable message = NewFailure ErrorRuntimeUnavailable message True"

definition engine_contextFailure :: "bool \<Rightarrow> failure" where
  "engine_contextFailure deadline =
     (if deadline then NewFailure ErrorDeadlineExceeded ''browser action deadline elapsed'' True
      else NewFailure ErrorCanceled ''browser action was canceled'' True)"

definition profileRuntimeFailure :: failure where
  "profileRuntimeFailure = NewFailure ErrorRuntimeUnavailable ''Browser Profile operation failed'' True"

definition profileFailure :: "profile_errors \<Rightarrow> failure" where
  "profileFailure errs =
     (if ErrProfileMigrationRequired \<in> set errs \<or> ErrProfileMigrationPending \<in> set errs then
        NewFailure ErrorRuntimeUnavailable ''Browser Profile requires verified offline migration before use'' False
      else if ErrProfileStoreLocked \<in> set errs then
        NewFailure ErrorProfileLocked ''Browser Profile store is locked'' True
      else if ErrProfileQuarantined \<in> set errs \<or> ErrProfileCorrupt \<in> set errs \<or> ErrIdentityMismatch \<in> set errs
          \<or> ErrKeyGeneration \<in> set errs \<or> ErrRootKeyUnavailable \<in> set errs then
        NewFailure ErrorProfileCorrupt ''Browser Profile failed authentication and was not loaded'' False
      else profileRuntimeFailure)"

definition upgrade_failed :: failure where
  "upgrade_failed = NewFailure ErrorProfileEngineUpgrade
     ''Browser upgrade preflight failed; the saved Profile checkpoint was preserved'' False"

section \<open>Attachments\<close>

definition sameBrowserSessionAttachment :: "identity \<Rightarrow> identity \<Rightarrow> bool" where
  "sameBrowserSessionAttachment active requested \<longleftrightarrow>
     id_RunID active = id_RunID requested \<and> id_AgentID active = id_AgentID requested
     \<and> id_PrincipalScopeID active = id_PrincipalScopeID requested
     \<and> id_BrowserSessionID active = id_BrowserSessionID requested
     \<and> id_SessionEpoch active = id_SessionEpoch requested
     \<and> id_AttachmentID active = id_AttachmentID requested"

definition sameActiveAttachment :: "identity \<Rightarrow> identity \<Rightarrow> bool" where
  "sameActiveAttachment active requested \<longleftrightarrow>
     id_RunID active = id_RunID requested \<and> id_AgentID active = id_AgentID requested
     \<and> id_PrincipalScopeID active = id_PrincipalScopeID requested
     \<and> id_BrowserSessionID active = id_BrowserSessionID requested
     \<and> id_SessionEpoch active = id_SessionEpoch requested
     \<and> id_AttachmentID active = id_AttachmentID requested
     \<and> id_ControlEpoch active = id_ControlEpoch requested"

text \<open>\<^verbatim>\<open>withBrowserProfileDirectory\<close>: the environment of a process.\<close>

definition cut_variable :: "string \<Rightarrow> string option" where
  "cut_variable item = (if ContainsByte item (CHR ''='') then Some (takeWhile (\<lambda>c. c \<noteq> CHR ''='') item) else None)"

definition withBrowserProfileDirectory :: "string list \<Rightarrow> string \<Rightarrow> string list" where
  "withBrowserProfileDirectory environment directory =
     (let profile = ''OPENLINKER_BROWSER_PROFILE_DIR''; socket = ''OPENLINKER_BROWSER_ENGINE_OPS_SOCKET'';
          kept = map (\<lambda>item. if cut_variable item = Some profile then profile @ ''='' @ directory else item)
            (filter (\<lambda>item. cut_variable item \<noteq> Some socket) environment);
          replaced = list_ex (\<lambda>item. cut_variable item = Some profile) environment;
          enabled = ''OPENLINKER_BROWSER_OPS_OBSERVER_ENABLED=true'' \<in> set environment
      in kept @ (if replaced then [] else [profile @ ''='' @ directory])
         @ (if enabled then [socket @ ''='' @ Join directory ''engine-ops-observer.sock''] else []))"

section \<open>The published snapshot\<close>

definition publishOpsSnapshotLocked :: "('p, 'w) engine_env \<Rightarrow> 'p profile_engine \<Rightarrow> 'p profile_engine" where
  "publishOpsSnapshotLocked env e =
     (if en_closed e then e\<lparr>en_ops := None\<rparr>
      else (case en_active e of
        None \<Rightarrow> e\<lparr>en_ops := None\<rparr>
      | Some a \<Rightarrow>
          (case ap_process a of
             None \<Rightarrow> e\<lparr>en_ops := None\<rparr>
           | Some p \<Rightarrow>
               if \<not> ap_preflightValidated a \<or> \<not> pn_observes env p then e\<lparr>en_ops := None\<rparr>
               else e\<lparr>en_ops := Some \<lparr>os_identity = ap_owner a,
                        os_profileGeneration = pid_ProfileGeneration (ap_identity a), os_observer = p\<rparr>\<rparr>)))"

definition ProfileSelectionEvidence :: "'p profile_engine \<Rightarrow> (go_uint64 \<times> bool) option" where
  "ProfileSelectionEvidence e =
     (case en_active e of
        None \<Rightarrow> None
      | Some a \<Rightarrow>
          if en_closed e \<or> \<not> ap_preflightValidated a then None
          else Some (pid_ProfileGeneration (ap_identity a), ap_recovered a))"

section \<open>Leaving a profile\<close>

text \<open>An operation of the engine changes the engine, the disk and the world.\<close>

type_synonym ('p, 'w) engine_state = "'p profile_engine \<times> disk \<times> 'w"

definition discardActive ::
    "('p, 'w) engine_env \<Rightarrow> ('p, 'w) engine_state \<Rightarrow> bool \<times> ('p, 'w) engine_state" where
  "discardActive env s =
     (case s of (e, d, w) \<Rightarrow>
        (let e' = e\<lparr>en_active := None, en_ops := None\<rparr>;
             (stopped, d1, w1) = (case en_active e of
                None \<Rightarrow> (True, d, w)
              | Some a \<Rightarrow> (case ap_process a of None \<Rightarrow> (True, d, w) | Some p \<Rightarrow> pn_close env p (d, w)))
         in (case resetProfileWorkDirectory (pn_workDirectory env) d1 of
               (reset, d2) \<Rightarrow> (stopped \<and> reset, e', d2, w1))))"

definition upgradeFailure ::
    "('p, 'w) engine_env \<Rightarrow> failure \<Rightarrow> ('p, 'w) engine_state \<Rightarrow> failure \<times> ('p, 'w) engine_state" where
  "upgradeFailure env f s =
     (case en_active (fst s) of
        None \<Rightarrow> (f, s)
      | Some a \<Rightarrow>
          if \<not> ap_upgradePending a then (f, s)
          else (case discardActive env s of (_, s') \<Rightarrow> (upgrade_failed, s')))"

text \<open>
  The archive of the work directory goes through a temporary file into the store. \<open>store_archive\<close>
  has the file open; the file is removed whatever happens.
\<close>

definition store_archive ::
    "('p, 'w) engine_env \<Rightarrow> 'p active_profile \<Rightarrow> string \<Rightarrow> disk \<times> 'w \<Rightarrow> failure option \<times> disk \<times> 'w" where
  "store_archive env a temporary dw =
     (case Chmod temporary 0x180 (fst dw) of
        (False, d) \<Rightarrow> (case plain_call d of (_, d) \<Rightarrow> (Some profileRuntimeFailure, d, snd dw))
      | (True, d) \<Rightarrow>
          (case writeProfileArchive (pn_writeTar env) (pn_walk env) (pn_workDirectory env) d of
             (None, d) \<Rightarrow> (case plain_call d of (_, d) \<Rightarrow> (Some (profileFailure []), d, snd dw))
           | (Some archive, d) \<Rightarrow>
               (case WriteFile temporary archive d of
                  (False, d) \<Rightarrow> (case plain_call d of (_, d) \<Rightarrow> (Some (profileFailure []), d, snd dw))
                | (True, d) \<Rightarrow>
                    (case plain_call d of
                       (False, d) \<Rightarrow> (case plain_call d of (_, d) \<Rightarrow> (Some profileRuntimeFailure, d, snd dw))
                     | (True, d) \<Rightarrow>
                         (case (if ap_exists a then pn_checkpoint env (ap_identity a) archive (d, snd dw)
                                else pn_create env (ap_identity a) archive (d, snd dw)) of
                            (errs, d, w) \<Rightarrow>
                              (case plain_call d of (shut, d) \<Rightarrow>
                                 (if errs \<noteq> [] then Some (profileFailure errs)
                                  else if \<not> shut then Some profileRuntimeFailure else None, d, w)))))))"

definition archive_profile ::
    "('p, 'w) engine_env \<Rightarrow> 'p active_profile \<Rightarrow> disk \<times> 'w \<Rightarrow> failure option \<times> disk \<times> 'w" where
  "archive_profile env a dw =
     (case CreateTemp (Join (pn_workRoot env) ''.profile-checkpoint-'') [] (fst dw) of
        (None, d) \<Rightarrow> (Some profileRuntimeFailure, d, snd dw)
      | (Some temporary, d) \<Rightarrow>
          (case store_archive env a temporary (d, snd dw) of
             (f, d, w) \<Rightarrow> (case Remove temporary d of (_, d) \<Rightarrow> (f, d, w))))"

text \<open>The process is closed first, and what it left is validated before it is saved.\<close>

definition close_process ::
    "('p, 'w) engine_env \<Rightarrow> 'p active_profile \<Rightarrow> ('p, 'w) engine_state \<Rightarrow> bool \<times> ('p, 'w) engine_state" where
  "close_process env a s =
     (case s of (e, d, w) \<Rightarrow>
        (case ap_process a of
           None \<Rightarrow> (True, s)
         | Some p \<Rightarrow>
             (case pn_close env p (d, w) of
                (False, d, w) \<Rightarrow> (False, e\<lparr>en_ops := None\<rparr>, d, w)
              | (True, d, w) \<Rightarrow>
                  (True, e\<lparr>en_ops := None, en_active := Some (a\<lparr>ap_process := None\<rparr>)\<rparr>, d, w))))"

definition reject_state ::
    "('p, 'w) engine_env \<Rightarrow> 'p active_profile \<Rightarrow> ('p, 'w) engine_state \<Rightarrow> failure option \<times> ('p, 'w) engine_state" where
  "reject_state env a s =
     (case s of (e, d, w) \<Rightarrow>
        (case (if ap_exists a then pn_quarantine env (ap_identity a) (d, w) else ([], d, w)) of
           (errs, d, w) \<Rightarrow>
             (case resetProfileWorkDirectory (pn_workDirectory env) d of
                (_, d) \<Rightarrow> (Some (profileFailure (ErrProfileCorrupt # errs)), e\<lparr>en_active := None\<rparr>, d, w))))"

definition saved_profile :: "'p active_profile \<Rightarrow> 'p active_profile" where
  "saved_profile a =
     a\<lparr>ap_process := None, ap_exists := True, ap_upgradePending := False, ap_preflightValidated := True,
       ap_environmentAdoptionPending := False\<rparr>"

definition save_profile ::
    "('p, 'w) engine_env \<Rightarrow> bool \<Rightarrow> 'p active_profile \<Rightarrow> ('p, 'w) engine_state
     \<Rightarrow> failure option \<times> ('p, 'w) engine_state" where
  "save_profile env retain a s =
     (case s of (e, d, w) \<Rightarrow>
        (case validateBrowserProfileState (pn_ext env) (pn_pages env) (pn_budgets env) (pn_marshalBudgets env)
            (pn_workDirectory env) d of
           (Some _, d) \<Rightarrow> reject_state env a (e, d, w)
         | (None, d) \<Rightarrow>
             (case writeProfileEnvironment (pn_marshalRecord env) (pn_workDirectory env) (pn_environment env) d of
                (False, d) \<Rightarrow> (Some (profileFailure []), e, d, w)
              | (True, d) \<Rightarrow>
                  (case archive_profile env a (d, w) of
                     (Some f, d, w) \<Rightarrow> (Some f, e, d, w)
                   | (None, d, w) \<Rightarrow>
                       if retain then (None, e\<lparr>en_active := Some (saved_profile a)\<rparr>, d, w)
                       else (case resetProfileWorkDirectory (pn_workDirectory env) d of
                         (reset, d) \<Rightarrow>
                           (if reset then None else Some profileRuntimeFailure,
                            e\<lparr>en_active := None, en_ops := None\<rparr>, d, w))))))"

definition checkpointActive ::
    "('p, 'w) engine_env \<Rightarrow> bool \<Rightarrow> ('p, 'w) engine_state \<Rightarrow> failure option \<times> ('p, 'w) engine_state" where
  "checkpointActive env retain s =
     (case en_active (fst s) of
        None \<Rightarrow> (None, s)
      | Some a \<Rightarrow>
          if ap_upgradePending a \<and> \<not> ap_preflightValidated a then
            (case discardActive env s of (ok, s) \<Rightarrow> (if ok then None else Some profileRuntimeFailure, s))
          else if ap_environmentAdoptionPending a \<and> \<not> ap_preflightValidated a then
            (case discardActive env s of
               (_, s) \<Rightarrow> (Some (NewFailure ErrorEngineUnavailable
                  ''Legacy Browser Profile requires locked environment preflight before checkpoint'' False), s))
          else (case close_process env a s of
            (False, s) \<Rightarrow> (Some profileRuntimeFailure, s)
          | (True, s) \<Rightarrow> save_profile env retain a s))"

section \<open>Opening a profile\<close>

text \<open>What loading found: whether the profile exists, and what is pending before it may be saved.\<close>

record loaded_profile =
  lp_exists :: bool
  lp_upgradePending :: bool
  lp_environmentAdoptionPending :: bool

definition close_with ::
    "failure \<Rightarrow> disk \<times> 'w \<Rightarrow> (failure + 'a) \<times> disk \<times> 'w" where
  "close_with f dw = (case plain_call (fst dw) of (_, d) \<Rightarrow> (Inl f, d, snd dw))"

definition close_and_reset ::
    "('p, 'w) engine_env \<Rightarrow> failure \<Rightarrow> disk \<times> 'w \<Rightarrow> (failure + 'a) \<times> disk \<times> 'w" where
  "close_and_reset env f dw =
     (case plain_call (fst dw) of (_, d) \<Rightarrow>
     (case resetProfileWorkDirectory (pn_workDirectory env) d of (_, d) \<Rightarrow> (Inl f, d, snd dw)))"

definition quarantine_and_reset ::
    "('p, 'w) engine_env \<Rightarrow> profile_identity \<Rightarrow> disk \<times> 'w \<Rightarrow> (failure + 'a) \<times> disk \<times> 'w" where
  "quarantine_and_reset env pid dw =
     (case plain_call (fst dw) of (_, d) \<Rightarrow>
     (case pn_quarantine env pid (d, snd dw) of (errs, d, w) \<Rightarrow>
     (case resetProfileWorkDirectory (pn_workDirectory env) d of
        (_, d) \<Rightarrow> (Inl (profileFailure (ErrProfileCorrupt # errs)), d, w))))"

text \<open>The environment that the profile was saved under, against the present one.\<close>

definition check_environment ::
    "('p, 'w) engine_env \<Rightarrow> profile_identity \<Rightarrow> disk \<times> 'w \<Rightarrow> (failure + loaded_profile) \<times> disk \<times> 'w" where
  "check_environment env pid dw =
     (case loadProfileEnvironment (pn_record env) (pn_marshalRecord env) (pn_workDirectory env) (fst dw) of
        (Inl ErrNotExist, d) \<Rightarrow>
          (Inr \<lparr>lp_exists = True, lp_upgradePending = False, lp_environmentAdoptionPending = True\<rparr>, d, snd dw)
      | (Inl ErrOther, d) \<Rightarrow> quarantine_and_reset env pid (d, snd dw)
      | (Inr stored, d) \<Rightarrow>
          if \<not> sameGenerationBinding stored (pn_environment env) then
            close_and_reset env (NewFailure ErrorProfileEnvironmentMismatch
              ''Browser Profile environment changed; select a new Profile generation'' False) (d, snd dw)
          else
            (case compareBrowserVersions (env_BrowserVersion (pv_Evidence (pn_environment env)))
                (env_BrowserVersion (pv_Evidence stored)) of
               None \<Rightarrow> close_and_reset env (profileFailure []) (d, snd dw)
             | Some comparison \<Rightarrow>
                 if comparison < 0 then
                   close_and_reset env (NewFailure ErrorProfileEngineDowngrade
                     ''Saved Browser Profile uses a newer Browser; select a new Profile generation before rollback'' False)
                     (d, snd dw)
                 else (Inr \<lparr>lp_exists = True, lp_upgradePending = 0 < comparison,
                          lp_environmentAdoptionPending = False\<rparr>, d, snd dw)))"

text \<open>The file of the archive is open; \<open>temporary\<close> is its path.\<close>

definition load_open ::
    "('p, 'w) engine_env \<Rightarrow> profile_identity \<Rightarrow> string \<Rightarrow> disk \<times> 'w \<Rightarrow> (failure + loaded_profile) \<times> disk \<times> 'w" where
  "load_open env pid temporary dw =
     (case Chmod temporary 0x180 (fst dw) of
        (False, d) \<Rightarrow> close_with profileRuntimeFailure (d, snd dw)
      | (True, d) \<Rightarrow>
          (case pn_load env pid (d, snd dw) of
             (Inl errs, d, w) \<Rightarrow>
               if ErrProfileNotFound \<in> set errs then
                 (Inr \<lparr>lp_exists = False, lp_upgradePending = False, lp_environmentAdoptionPending = False\<rparr>, d, w)
               else close_with (profileFailure errs) (d, w)
           | (Inr archive, d, w) \<Rightarrow>
               (case plain_call d of
                  (False, d) \<Rightarrow> close_with profileRuntimeFailure (d, w)
                | (True, d) \<Rightarrow>
                    (case extractProfileArchive (pn_readTar env) archive (pn_workDirectory env) d of
                       (False, d) \<Rightarrow> close_with (profileFailure []) (d, w)
                     | (True, d) \<Rightarrow>
                         (case validateBrowserProfileState (pn_ext env) (pn_pages env) (pn_budgets env)
                             (pn_marshalBudgets env) (pn_workDirectory env) d of
                            (Some _, d) \<Rightarrow> quarantine_and_reset env pid (d, w)
                          | (None, d) \<Rightarrow> check_environment env pid (d, w))))))"

definition load_profile ::
    "('p, 'w) engine_env \<Rightarrow> profile_identity \<Rightarrow> disk \<times> 'w \<Rightarrow> (failure + loaded_profile) \<times> disk \<times> 'w" where
  "load_profile env pid dw =
     (case CreateTemp (Join (pn_workRoot env) ''.profile-load-'') [] (fst dw) of
        (None, d) \<Rightarrow> (Inl profileRuntimeFailure, d, snd dw)
      | (Some temporary, d) \<Rightarrow>
          (case (case load_open env pid temporary (d, snd dw) of
                   (Inl f, d, w) \<Rightarrow> (Inl f, d, w)
                 | (Inr lp, d, w) \<Rightarrow>
                     (case plain_call d of
                        (False, d) \<Rightarrow> (Inl profileRuntimeFailure, d, w)
                      | (True, d) \<Rightarrow> (Inr lp, d, w))) of
             (r, d, w) \<Rightarrow> (case Remove temporary d of (_, d) \<Rightarrow> (r, d, w))))"

definition profile_of :: "('p, 'w) engine_env \<Rightarrow> identity \<Rightarrow> profile_identity" where
  "profile_of env i =
     \<lparr>pid_AgentID = id_AgentID i, pid_PrincipalScopeID = id_PrincipalScopeID i, pid_ProfileSlot = ''default'',
      pid_ProfileGeneration = pv_ProfileGeneration (pn_environment env)\<rparr>"

definition session_of :: "identity \<Rightarrow> string" where
  "session_of i = id_BrowserSessionID i @ '':'' @ FormatUint (id_SessionEpoch i)"

definition open_profile ::
    "('p, 'w) engine_env \<Rightarrow> identity \<Rightarrow> ('p, 'w) engine_state \<Rightarrow> failure option \<times> ('p, 'w) engine_state" where
  "open_profile env i s =
     (case s of (e, d, w) \<Rightarrow>
        (case read_clock d of (now, d) \<Rightarrow>
        (case pn_prune env (now - revocationRetention) (d, w) of
           (False, d, w) \<Rightarrow> (Some profileRuntimeFailure, e, d, w)
         | (True, d, w) \<Rightarrow>
             (case resetProfileWorkDirectory (pn_workDirectory env) d of
                (False, d) \<Rightarrow> (Some profileRuntimeFailure, e, d, w)
              | (True, d) \<Rightarrow>
                  (case load_profile env (profile_of env i) (d, w) of
                     (Inl f, d, w) \<Rightarrow> (Some f, e, d, w)
                   | (Inr lp, d, w) \<Rightarrow>
                       (None,
                        publishOpsSnapshotLocked env (e\<lparr>en_active := Some
                          \<lparr>ap_identity = profile_of env i, ap_session = session_of i, ap_owner = i,
                           ap_exists = lp_exists lp, ap_recovered = lp_exists lp, ap_process = None,
                           ap_upgradePending = lp_upgradePending lp, ap_preflightValidated = False,
                           ap_environmentAdoptionPending = lp_environmentAdoptionPending lp\<rparr>\<rparr>), d, w))))))"

definition activate ::
    "('p, 'w) engine_env \<Rightarrow> identity \<Rightarrow> ('p, 'w) engine_state \<Rightarrow> failure option \<times> ('p, 'w) engine_state" where
  "activate env i s =
     (case en_active (fst s) of
        Some a \<Rightarrow>
          if ap_identity a = profile_of env i \<and> ap_session a = session_of i then
            (None, publishOpsSnapshotLocked env ((fst s)\<lparr>en_active := Some (a\<lparr>ap_owner := i\<rparr>)\<rparr>), snd s)
          else (case checkpointActive env False s of
            (Some f, s) \<Rightarrow> (Some f, s)
          | (None, s) \<Rightarrow> open_profile env i s)
      | None \<Rightarrow> open_profile env i s)"

definition ensureProcess ::
    "('p, 'w) engine_env \<Rightarrow> ('p, 'w) engine_state \<Rightarrow> (failure + 'p) \<times> ('p, 'w) engine_state" where
  "ensureProcess env s =
     (case s of (e, d, w) \<Rightarrow>
        (case en_active e of
           None \<Rightarrow> (Inl (runtimeUnavailable ''Browser Profile is not active''), s)
         | Some a \<Rightarrow>
             (case ap_process a of
                Some p \<Rightarrow> (Inr p, s)
              | None \<Rightarrow>
                  (case pn_start env (withBrowserProfileDirectory (pn_processEnvironment env) (pn_workDirectory env)) (d, w) of
                     (None, d, w) \<Rightarrow>
                       (Inl (NewFailure ErrorRuntimeUnavailable ''Browser Profile engine configuration failed'' True), e, d, w)
                   | (Some p, d, w) \<Rightarrow>
                       (Inr p, publishOpsSnapshotLocked env (e\<lparr>en_active := Some (a\<lparr>ap_process := Some p\<rparr>)\<rparr>), d, w)))))"

section \<open>Executing an action\<close>

definition run_process ::
    "('p, 'w) engine_env \<Rightarrow> 'p \<Rightarrow> identity \<Rightarrow> action \<Rightarrow> ('p, 'w) engine_state
     \<Rightarrow> (failure + observation) \<times> ('p, 'w) engine_state" where
  "run_process env p i a s =
     (case s of (e, d, w) \<Rightarrow> (case pn_execute env p i a (d, w) of (r, d, w) \<Rightarrow> (r, e, d, w)))"

definition checkpoint_action :: action where
  "checkpoint_action = Action ActionCheckpoint ObservationNone [] [] None None None None [] [] [] None []"

text \<open>The preflight of an active profile, after its process gave the observation.\<close>

definition finish_preflight ::
    "('p, 'w) engine_env \<Rightarrow> identity \<Rightarrow> action \<Rightarrow> observation \<Rightarrow> ('p, 'w) engine_state
     \<Rightarrow> (failure + observation) \<times> ('p, 'w) engine_state" where
  "finish_preflight env i a obs s =
     (if obs_Environment obs \<noteq> Some (pv_Evidence (pn_environment env)) then
        (let pending = (case en_active (fst s) of None \<Rightarrow> False | Some ap \<Rightarrow> ap_upgradePending ap) in
         (case discardActive env s of (_, s) \<Rightarrow>
            (Inl (if pending then upgrade_failed
                  else NewFailure ErrorEngineUnavailable
                    ''Browser engine environment did not match the locked image configuration'' False), s)))
      else (case en_active (fst s) of
        None \<Rightarrow> (Inr obs, s)
      | Some ap \<Rightarrow>
          (let s1 = (publishOpsSnapshotLocked env
                ((fst s)\<lparr>en_active := Some (ap\<lparr>ap_preflightValidated := True\<rparr>)\<rparr>), snd s) in
           if ap_exists ap then (Inr obs, s1)
           else (case checkpointActive env True s1 of
             (Some f, s2) \<Rightarrow> (Inl f, s2)
           | (None, s2) \<Rightarrow>
               (case ensureProcess env s2 of
                  (Inl f, s3) \<Rightarrow> (Inl f, s3)
                | (Inr p, s3) \<Rightarrow> run_process env p i a s3)))))"

definition execute_preflight ::
    "('p, 'w) engine_env \<Rightarrow> identity \<Rightarrow> action \<Rightarrow> ('p, 'w) engine_state
     \<Rightarrow> (failure + observation) \<times> ('p, 'w) engine_state" where
  "execute_preflight env i a s =
     (case ensureProcess env s of
        (Inl f, s) \<Rightarrow> (case upgradeFailure env f s of (f, s) \<Rightarrow> (Inl f, s))
      | (Inr p, s) \<Rightarrow>
          (case run_process env p i a s of
             (Inl f, s) \<Rightarrow> (case upgradeFailure env f s of (f, s) \<Rightarrow> (Inl f, s))
           | (Inr obs, s) \<Rightarrow> finish_preflight env i a obs s))"

definition execute_checkpoint ::
    "('p, 'w) engine_env \<Rightarrow> identity \<Rightarrow> ('p, 'w) engine_state \<Rightarrow> (failure + observation) \<times> ('p, 'w) engine_state" where
  "execute_checkpoint env i s =
     (case ensureProcess env s of
        (Inl f, s) \<Rightarrow> (Inl f, s)
      | (Inr p, s) \<Rightarrow>
          (case run_process env p i checkpoint_action s of
             (Inl f, s) \<Rightarrow> (Inl f, s)
           | (Inr obs, s) \<Rightarrow>
               (case checkpointActive env True s of
                  (Some f, s) \<Rightarrow> (Inl f, s)
                | (None, s) \<Rightarrow> (Inr obs, s))))"

definition execute_close ::
    "('p, 'w) engine_env \<Rightarrow> identity \<Rightarrow> ('p, 'w) engine_state \<Rightarrow> (failure + observation) \<times> ('p, 'w) engine_state" where
  "execute_close env i s =
     (case (case en_active (fst s) of
              None \<Rightarrow> (None, s)
            | Some ap \<Rightarrow>
                (case ap_process ap of
                   None \<Rightarrow> (None, s)
                 | Some p \<Rightarrow>
                     (case run_process env p i checkpoint_action s of
                        (Inl f, s) \<Rightarrow> (Some f, s)
                      | (Inr _, s) \<Rightarrow> (None, s)))) of
        (Some f, s) \<Rightarrow> (Inl f, s)
      | (None, s) \<Rightarrow>
          (case checkpointActive env False s of
             (Some f, s) \<Rightarrow> (Inl f, s)
           | (None, s) \<Rightarrow> (Inr (closedAttachmentObservation i), s)))"

definition execute_other ::
    "('p, 'w) engine_env \<Rightarrow> identity \<Rightarrow> action \<Rightarrow> ('p, 'w) engine_state
     \<Rightarrow> (failure + observation) \<times> ('p, 'w) engine_state" where
  "execute_other env i a s =
     (case ensureProcess env s of
        (Inl f, s) \<Rightarrow> (Inl f, s)
      | (Inr p, s) \<Rightarrow> run_process env p i a s)"

text \<open>\<open>ctx\<close> is the error of the context, if it is done: whether its deadline has passed.\<close>

definition ProfileEngine_Execute ::
    "('p, 'w) engine_env \<Rightarrow> bool option \<Rightarrow> identity \<Rightarrow> action \<Rightarrow> ('p, 'w) engine_state
     \<Rightarrow> (failure + observation) \<times> ('p, 'w) engine_state" where
  "ProfileEngine_Execute env ctx i a s =
     (case Identity_Validate (pn_ext env) i of
        Some f \<Rightarrow> (Inl f, s)
      | None \<Rightarrow>
     (case ValidateForPolicy (pn_ext env) (id_BrowserInteractionPolicy i) a of
        Some f \<Rightarrow> (Inl f, s)
      | None \<Rightarrow>
     if en_closed (fst s) then (Inl (runtimeUnavailable ''Browser Profile engine is closed''), s)
     else (case ctx of
        Some deadline \<Rightarrow> (Inl (engine_contextFailure deadline), s)
      | None \<Rightarrow>
     if act_Kind a = ActionClose
        \<and> (case en_active (fst s) of None \<Rightarrow> True | Some ap \<Rightarrow> \<not> sameActiveAttachment (ap_owner ap) i)
     then (Inr (closedAttachmentObservation i), s)
     else (case activate env i s of
        (Some f, s) \<Rightarrow> (Inl f, s)
      | (None, s) \<Rightarrow>
          if act_Kind a = ActionPreflight then execute_preflight env i a s
          else if act_Kind a = ActionCheckpoint then execute_checkpoint env i s
          else if act_Kind a = ActionClose then execute_close env i s
          else execute_other env i a s))))"

section \<open>The Viewer, the Ops Observer and the end\<close>

definition ProfileEngine_ExecuteViewer ::
    "('p, 'w) engine_env \<Rightarrow> identity \<Rightarrow> viewer_operation \<Rightarrow> viewer_input option \<Rightarrow> ('p, 'w) engine_state
     \<Rightarrow> (failure + viewer_frame option) \<times> ('p, 'w) engine_state" where
  "ProfileEngine_ExecuteViewer env i operation inp s =
     (case s of (e, d, w) \<Rightarrow>
     if id_Controller i \<noteq> ControllerHuman then
       (Inl (NewFailure ErrorStaleControlEpoch ''browser viewer does not hold human control'' False), s)
     else (case (if en_closed e then None else en_active e) of
        None \<Rightarrow> (Inl (NewFailure ErrorViewerUnavailable ''browser viewer has no active Session attachment'' True), s)
      | Some a \<Rightarrow>
     if \<not> sameBrowserSessionAttachment (ap_owner a) i then
       (Inl (NewFailure ErrorViewerUnavailable ''browser viewer has no active Session attachment'' True), s)
     else if (operation = ViewerOperationEnter \<and> id_ControlEpoch i \<le> id_ControlEpoch (ap_owner a))
         \<or> (operation \<noteq> ViewerOperationEnter \<and> id_ControlEpoch i \<noteq> id_ControlEpoch (ap_owner a)) then
       (Inl (NewFailure ErrorStaleControlEpoch ''browser viewer control epoch is stale'' False), s)
     else (case Option.bind (ap_process a) (pn_viewer env) of
        None \<Rightarrow> (Inl (NewFailure ErrorViewerUnavailable ''browser engine does not support human control'' False), s)
      | Some execute \<Rightarrow>
          (case execute i operation inp (d, w) of
             (r, d, w) \<Rightarrow>
               (r, publishOpsSnapshotLocked env (e\<lparr>en_active := Some (a\<lparr>ap_owner := i\<rparr>)\<rparr>), d, w)))))"

text \<open>
  What a snapshot's process shows: a page or that it is busy or an error. \<open>sample\<close> is
  \<^verbatim>\<open>ActionInFlightSample\<close> before and after, where the process has it.
\<close>

record ops_capture =
  oc_result :: "ops_error + (string \<times> string \<times> viewer_frame option) option"
  oc_samples :: "((go_uint64 \<times> bool) \<times> (go_uint64 \<times> bool)) option"

definition run_not_active :: ops_error where
  "run_not_active = NewOpsObserverError OpsObserverRunNotActive ''requested Run is not active''"

text \<open>\<^term>\<open>Inr None\<close> is busy. The fields that the observer's server fills in later are zero.\<close>

definition ObserveOps ::
    "'p profile_engine \<Rightarrow> ('p \<Rightarrow> identity \<Rightarrow> ops_operation \<Rightarrow> ops_capture) \<Rightarrow> string \<Rightarrow> ops_operation
     \<Rightarrow> ops_error + ops_observation option" where
  "ObserveOps e capture runID operation =
     (case en_ops e of
        None \<Rightarrow> Inl run_not_active
      | Some snapshot \<Rightarrow>
          if id_RunID (os_identity snapshot) \<noteq> runID then Inl run_not_active
          else
            (let c = capture (os_observer snapshot) (os_identity snapshot) operation; i = os_identity snapshot in
             case oc_result c of
               Inl err \<Rightarrow> Inl err
             | Inr None \<Rightarrow> Inr None
             | Inr (Some (url, title, frame)) \<Rightarrow>
                 Inr (Some
                   \<lparr>oo_RunID = id_RunID i, oo_Controller = id_Controller i, oo_SessionEpoch = id_SessionEpoch i,
                    oo_ControlEpoch = id_ControlEpoch i, oo_BrowserSessionSHA256 = sha256_hex (id_BrowserSessionID i),
                    oo_AttachmentSHA256 = sha256_hex (id_AttachmentID i), oo_SelectedBackend = [],
                    oo_ProfileGeneration = os_profileGeneration snapshot, oo_FrameSequence = 0, oo_CapturedAt = 0,
                    oo_PageURL = url, oo_PageTitle = title,
                    oo_ActionInFlight = map_option (\<lambda>((n1, f1), (n2, f2)). f1 \<and> f2 \<and> n1 = n2) (oc_samples c),
                    oo_Frame = frame\<rparr>)))"

text \<open>\<^verbatim>\<open>Close\<close>: true when nothing went wrong.\<close>

definition ProfileEngine_Close ::
    "('p, 'w) engine_env \<Rightarrow> ('p, 'w) engine_state \<Rightarrow> bool \<times> ('p, 'w) engine_state" where
  "ProfileEngine_Close env s =
     (if en_closed (fst s) then (True, s)
      else
        (case checkpointActive env False
             (publishOpsSnapshotLocked env ((fst s)\<lparr>en_closed := True\<rparr>), snd s) of
           (f, e, d, w) \<Rightarrow>
             (case pn_closeStore env (d, w) of (stored, d, w) \<Rightarrow>
             (case RemoveAll (pn_workDirectory env) d of
                (removed, d) \<Rightarrow> (f = None \<and> stored \<and> removed, e, d, w)))))"

definition AbortActive ::
    "('p, 'w) engine_env \<Rightarrow> ('p, 'w) engine_state \<Rightarrow> bool \<times> ('p, 'w) engine_state" where
  "AbortActive env s = (if en_closed (fst s) then (True, s) else discardActive env s)"

text \<open>
  \<^verbatim>\<open>NewProfileEngine\<close>: the paths are checked, the work directory is emptied and the root key is
  loaded or made; \<open>open_store\<close> opens the store.
\<close>

definition clean_absolute :: "string \<Rightarrow> bool" where
  "clean_absolute p \<longleftrightarrow> IsAbs p \<and> Clean p = p"

definition NewProfileEngine ::
    "profile_environment \<Rightarrow> string \<Rightarrow> string \<Rightarrow> string \<Rightarrow> bytes option
     \<Rightarrow> (disk \<times> 'w \<Rightarrow> bool \<times> disk \<times> 'w) \<Rightarrow> disk \<times> 'w \<Rightarrow> ('p profile_engine \<times> root_key) option \<times> disk \<times> 'w" where
  "NewProfileEngine environment storeRoot workRoot rootKeyFile random open_store dw =
     (if \<not> ProfileEnvironment_Validate environment then (None, dw)
      else if \<not> clean_absolute storeRoot \<or> \<not> clean_absolute workRoot \<or> \<not> clean_absolute rootKeyFile then (None, dw)
      else (case ensurePrivateRuntimeDirectory workRoot (fst dw) of
        (False, d) \<Rightarrow> (None, d, snd dw)
      | (True, d) \<Rightarrow>
          (case resetProfileWorkDirectory (Join workRoot ''active'') d of
             (False, d) \<Rightarrow> (None, d, snd dw)
           | (True, d) \<Rightarrow>
               (case loadOrCreateProfileRootKey random rootKeyFile d of
                  (None, d) \<Rightarrow> (None, d, snd dw)
                | (Some key, d) \<Rightarrow>
                    (case open_store (d, snd dw) of
                       (False, d, w) \<Rightarrow> (None, d, w)
                     | (True, d, w) \<Rightarrow>
                         (Some (\<lparr>en_active = None, en_closed = False, en_ops = None\<rparr>, key), d, w))))))"

end
