(* ===== verification/ProfileFacts.thy ===== *)
theory ProfileFacts
  imports ProfileEngine
begin

text \<open>
  Facts about the profile engine: the snapshot it publishes to the Ops Observer, what an engine
  that is closed still does, what an unfinished upgrade leaves alone, the order of versions and
  the paths of archive entries.
\<close>

section \<open>The published snapshot\<close>

text \<open>A snapshot shows the active profile with its process and its owner, after its preflight.\<close>

definition ops_ok :: "('p, 'w) engine_env \<Rightarrow> 'p profile_engine \<Rightarrow> bool" where
  "ops_ok env e \<longleftrightarrow>
     (case en_ops e of
        None \<Rightarrow> True
      | Some s \<Rightarrow>
          \<not> en_closed e
          \<and> (\<exists>a p. en_active e = Some a \<and> ap_process a = Some p \<and> pn_observes env p \<and> ap_preflightValidated a
               \<and> s = \<lparr>os_identity = ap_owner a, os_profileGeneration = pid_ProfileGeneration (ap_identity a),
                      os_observer = p\<rparr>))"

lemma ops_ok_none [simp]: "en_ops e = None \<Longrightarrow> ops_ok env e"
  by (simp add: ops_ok_def)

lemma ops_ok_publish [simp]: "ops_ok env (publishOpsSnapshotLocked env e)"
  by (auto simp: ops_ok_def publishOpsSnapshotLocked_def split: option.splits)

lemma publish_fields [simp]:
  "en_active (publishOpsSnapshotLocked env e) = en_active e"
  "en_closed (publishOpsSnapshotLocked env e) = en_closed e"
  by (auto simp: publishOpsSnapshotLocked_def split: option.splits)

lemma discardActive_engine:
  "discardActive env (e, d, w) = (ok, e', d', w') \<Longrightarrow> e' = e\<lparr>en_active := None, en_ops := None\<rparr>"
  by (auto simp: discardActive_def Let_def split: prod.splits)

lemma upgradeFailure_engine:
  assumes "upgradeFailure env f (e, d, w) = (g, e', d', w')"
  shows "e' = e \<or> e' = e\<lparr>en_active := None, en_ops := None\<rparr>"
  using assms by (auto simp: upgradeFailure_def dest: discardActive_engine split: option.splits if_splits prod.splits)

lemma close_process_engine:
  assumes "close_process env a (e, d, w) = (ok, e', d', w')" "ops_ok env e" "en_active e = Some a"
  shows "en_ops e' = None" "en_closed e' = en_closed e"
    "if ok then en_active e' = Some (a\<lparr>ap_process := None\<rparr>) else en_active e' = Some a"
  using assms
  by (auto simp: close_process_def ops_ok_def split: option.splits prod.splits bool.splits)

lemma save_profile_engine:
  assumes "save_profile env retain a (e, d, w) = (f, e', d', w')" "en_ops e = None"
  shows "en_ops e' = None" "en_closed e' = en_closed e"
    "en_active e' = en_active e \<or> en_active e' = None \<or> en_active e' = Some (saved_profile a)"
    "f = None \<longrightarrow> en_active e' = (if retain then Some (saved_profile a) else None)"
  using assms
  by (auto simp: save_profile_def reject_state_def split: option.splits prod.splits bool.splits if_splits)

text \<open>
  What a checkpoint leaves: the profile without its process, nothing, or, when its process cannot
  be closed, the profile as it was.
\<close>

lemma checkpointActive_engine:
  assumes "checkpointActive env retain (e, d, w) = (f, e', d', w')" "ops_ok env e" "en_active e = Some a"
  shows "en_ops e' = None" "en_closed e' = en_closed e"
    "en_active e' \<in> {None, Some a, Some (a\<lparr>ap_process := None\<rparr>), Some (saved_profile a)}"
    "f = None \<longrightarrow> retain = False \<longrightarrow> en_active e' = None"
proof -
  obtain ok e1 d1 w1 where c: "close_process env a (e, d, w) = (ok, e1, d1, w1)" by (metis prod_cases4)
  note k = close_process_engine [OF c assms(2,3)]
  have "en_ops e' = None \<and> en_closed e' = en_closed e
    \<and> en_active e' \<in> {None, Some a, Some (a\<lparr>ap_process := None\<rparr>), Some (saved_profile a)}
    \<and> (f = None \<longrightarrow> retain = False \<longrightarrow> en_active e' = None)"
  proof (cases "ap_upgradePending a \<and> \<not> ap_preflightValidated a \<or> ap_environmentAdoptionPending a \<and> \<not> ap_preflightValidated a")
    case True
    then show ?thesis using assms(1,3)
      by (auto simp: checkpointActive_def dest: discardActive_engine split: prod.splits if_splits)
  next
    case False
    show ?thesis
    proof (cases ok)
      case True
      have "save_profile env retain a (e1, d1, w1) = (f, e', d', w')"
        using assms(1,3) False c True by (auto simp: checkpointActive_def split: if_splits)
      from save_profile_engine [OF this k(1)] k True show ?thesis by auto
    next
      case no: False
      then have "e' = e1" "f \<noteq> None"
        using assms(1,3) False c by (auto simp: checkpointActive_def split: if_splits)
      then show ?thesis using k no by auto
    qed
  qed
  then show "en_ops e' = None" "en_closed e' = en_closed e"
    "en_active e' \<in> {None, Some a, Some (a\<lparr>ap_process := None\<rparr>), Some (saved_profile a)}"
    "f = None \<longrightarrow> retain = False \<longrightarrow> en_active e' = None" by auto
qed

lemma ops_ok_checkpoint:
  assumes "checkpointActive env retain (e, d, w) = (f, e', d', w')" "ops_ok env e"
  shows "ops_ok env e' \<and> en_closed e' = en_closed e"
proof (cases "en_active e")
  case None
  then show ?thesis using assms by (simp add: checkpointActive_def)
next
  case (Some a)
  then show ?thesis using checkpointActive_engine [OF assms Some] by simp
qed

lemma open_profile_engine:
  assumes "open_profile env i (e, d, w) = (f, e', d', w')"
  shows "f \<noteq> None \<and> e' = e \<or> f = None \<and> (\<exists>a. e' = publishOpsSnapshotLocked env (e\<lparr>en_active := Some a\<rparr>)
      \<and> ap_identity a = profile_of env i \<and> ap_session a = session_of i \<and> ap_owner a = i \<and> ap_process a = None
      \<and> \<not> ap_preflightValidated a)"
  using assms by (auto simp: open_profile_def split: prod.splits bool.splits sum.splits)

text \<open>After a successful activation the active profile is that of the identity, in its session.\<close>

definition active_for :: "('p, 'w) engine_env \<Rightarrow> identity \<Rightarrow> 'p profile_engine \<Rightarrow> bool" where
  "active_for env i e \<longleftrightarrow>
     (case en_active e of
        None \<Rightarrow> False
      | Some a \<Rightarrow> ap_identity a = profile_of env i \<and> ap_session a = session_of i \<and> ap_owner a = i)"

lemma activate_engine:
  assumes "activate env i (e, d, w) = (f, e', d', w')" "ops_ok env e"
  shows "ops_ok env e' \<and> en_closed e' = en_closed e \<and> (f = None \<longrightarrow> active_for env i e')"
proof -
  have opened: "ops_ok env e' \<and> en_closed e' = en_closed e \<and> (f = None \<longrightarrow> active_for env i e')"
    if "open_profile env i (e1, d1, w1) = (f, e', d', w')" "ops_ok env e1" "en_closed e1 = en_closed e"
    for e1 d1 w1
    using open_profile_engine [OF that(1)] that(2,3) by (auto simp: active_for_def)
  show ?thesis
  proof (cases "en_active e")
    case None
    then show ?thesis using assms opened by (auto simp: activate_def)
  next
    case (Some a)
    obtain g e1 d1 w1 where c: "checkpointActive env False (e, d, w) = (g, e1, d1, w1)" by (metis prod_cases4)
    note k = ops_ok_checkpoint [OF c assms(2)]
    show ?thesis
    proof (cases "ap_identity a = profile_of env i \<and> ap_session a = session_of i")
      case True
      then show ?thesis using assms(1) Some by (auto simp: activate_def active_for_def)
    next
      case False
      then show ?thesis using assms(1) Some c k opened
        by (cases g) (auto simp: activate_def split: if_splits)
    qed
  qed
qed

lemma ensureProcess_engine:
  assumes "ensureProcess env (e, d, w) = (r, e', d', w')" "ops_ok env e"
  shows "ops_ok env e' \<and> en_closed e' = en_closed e
    \<and> (\<forall>i. active_for env i e \<longrightarrow> active_for env i e')
    \<and> (\<forall>p. r = Inr p \<longrightarrow> (\<exists>a. en_active e' = Some a \<and> ap_process a = Some p))"
  using assms
  by (auto simp: ensureProcess_def active_for_def split: option.splits prod.splits)

lemma run_process_engine:
  "run_process env p i a (e, d, w) = (r, e', d', w') \<Longrightarrow> e' = e"
  by (auto simp: run_process_def split: prod.splits)

lemma ensureProcess_ok:
  "ensureProcess env (e, d, w) = (r, e', d', w') \<Longrightarrow> ops_ok env e \<Longrightarrow> ops_ok env e' \<and> en_closed e' = en_closed e"
  by (drule (1) ensureProcess_engine) simp

lemma upgradeFailure_ok:
  assumes "upgradeFailure env f (e, d, w) = (g, e', d', w')" "ops_ok env e"
  shows "ops_ok env e' \<and> en_closed e' = en_closed e"
  using upgradeFailure_engine [OF assms(1)] assms(2) by auto

lemma finish_preflight_ok:
  assumes "finish_preflight env i a obs (e, d, w) = (r, e', d', w')" "ops_ok env e"
  shows "ops_ok env e' \<and> en_closed e' = en_closed e"
proof (cases "obs_Environment obs = Some (pv_Evidence (pn_environment env))")
  case False
  then show ?thesis using assms
    by (auto simp: finish_preflight_def Let_def dest!: discardActive_engine split: prod.splits)
next
  case True
  show ?thesis
  proof (cases "en_active e")
    case None
    then show ?thesis using assms True by (auto simp: finish_preflight_def)
  next
    case (Some ap)
    let ?e1 = "publishOpsSnapshotLocked env (e\<lparr>en_active := Some (ap\<lparr>ap_preflightValidated := True\<rparr>)\<rparr>)"
    obtain g e2 d2 w2 where c: "checkpointActive env True (?e1, d, w) = (g, e2, d2, w2)" by (metis prod_cases4)
    note k = ops_ok_checkpoint [OF c ops_ok_publish]
    obtain q e3 d3 w3 where p: "ensureProcess env (e2, d2, w2) = (q, e3, d3, w3)" by (metis prod_cases4)
    have l: "ops_ok env e3 \<and> en_closed e3 = en_closed e2" using ensureProcess_ok [OF p] k by blast
    have k: "ops_ok env e2" "en_closed e2 = en_closed e" using k by simp_all
    have l: "ops_ok env e3" "en_closed e3 = en_closed e" using l k by simp_all
    have r: "ops_ok env e' \<and> en_closed e' = en_closed e" if "run_process env u i a (e3, d3, w3) = (r, e', d', w')" for u
      using run_process_engine [OF that] l by simp
    show ?thesis
    proof (cases "ap_exists ap")
      case True
      then show ?thesis using assms \<open>obs_Environment obs = _\<close> Some
        by (auto simp: finish_preflight_def Let_def)
    next
      case new: False
      then have f: "finish_preflight env i a obs (e, d, w) =
          (case g of Some f \<Rightarrow> (Inl f, e2, d2, w2)
           | None \<Rightarrow> (case q of Inl f \<Rightarrow> (Inl f, e3, d3, w3) | Inr u \<Rightarrow> run_process env u i a (e3, d3, w3)))"
        using \<open>obs_Environment obs = _\<close> Some c p
        by (cases g; cases q) (simp_all add: finish_preflight_def Let_def)
      show ?thesis using assms(1) k l r unfolding f by (cases g; cases q) auto
    qed
  qed
qed

lemma process_then_ok:
  assumes "ops_ok env e" "ensureProcess env (e, d, w) = (q, e1, d1, w1)"
    "q = Inr p" "run_process env p i a (e1, d1, w1) = (r, e2, d2, w2)"
  shows "ops_ok env e2 \<and> en_closed e2 = en_closed e"
  using ensureProcess_ok [OF assms(2,1)] run_process_engine [OF assms(4)] by simp

lemma execute_preflight_ok:
  assumes "execute_preflight env i a (e, d, w) = (r, e', d', w')" "ops_ok env e"
  shows "ops_ok env e' \<and> en_closed e' = en_closed e"
proof -
  obtain q e1 d1 w1 where p: "ensureProcess env (e, d, w) = (q, e1, d1, w1)" by (metis prod_cases4)
  note l = ensureProcess_ok [OF p assms(2)]
  show ?thesis
  proof (cases q)
    case (Inl f)
    obtain g e2 d2 w2 where u: "upgradeFailure env f (e1, d1, w1) = (g, e2, d2, w2)" by (metis prod_cases4)
    have "ops_ok env e2 \<and> en_closed e2 = en_closed e1" using upgradeFailure_ok [OF u] l by blast
    then show ?thesis using assms(1) p Inl u l by (auto simp: execute_preflight_def)
  next
    case (Inr pr)
    obtain o2 e2 d2 w2 where x: "run_process env pr i a (e1, d1, w1) = (o2, e2, d2, w2)" by (metis prod_cases4)
    note m = process_then_ok [OF assms(2) p Inr x]
    show ?thesis
    proof (cases o2)
      case (Inl f)
      obtain g e3 d3 w3 where u: "upgradeFailure env f (e2, d2, w2) = (g, e3, d3, w3)" by (metis prod_cases4)
      have "ops_ok env e3 \<and> en_closed e3 = en_closed e2" using upgradeFailure_ok [OF u] m by blast
      then show ?thesis using assms(1) p Inr x Inl u m by (auto simp: execute_preflight_def)
    next
      case obs: (Inr obs)
      then have "finish_preflight env i a obs (e2, d2, w2) = (r, e', d', w')"
        using assms(1) p Inr x by (simp add: execute_preflight_def)
      from finish_preflight_ok [OF this] m show ?thesis by simp
    qed
  qed
qed

lemma execute_checkpoint_ok:
  assumes "execute_checkpoint env i (e, d, w) = (r, e', d', w')" "ops_ok env e"
  shows "ops_ok env e' \<and> en_closed e' = en_closed e"
proof -
  obtain q e1 d1 w1 where p: "ensureProcess env (e, d, w) = (q, e1, d1, w1)" by (metis prod_cases4)
  show ?thesis
  proof (cases q)
    case (Inl f)
    then show ?thesis using assms p ensureProcess_ok [OF p assms(2)] by (simp add: execute_checkpoint_def)
  next
    case (Inr pr)
    obtain o2 e2 d2 w2 where x: "run_process env pr i checkpoint_action (e1, d1, w1) = (o2, e2, d2, w2)" by (metis prod_cases4)
    note m = process_then_ok [OF assms(2) p Inr x]
    obtain f e3 d3 w3 where c: "checkpointActive env True (e2, d2, w2) = (f, e3, d3, w3)" by (metis prod_cases4)
    have "ops_ok env e3 \<and> en_closed e3 = en_closed e2" using ops_ok_checkpoint [OF c] m by blast
    then show ?thesis using assms(1) p Inr x c m
      by (auto simp: execute_checkpoint_def split: sum.splits option.splits)
  qed
qed

lemma execute_close_ok:
  assumes "execute_close env i (e, d, w) = (r, e', d', w')" "ops_ok env e"
  shows "ops_ok env e' \<and> en_closed e' = en_closed e"
proof -
  have final: "ops_ok env e' \<and> en_closed e' = en_closed e"
    if "(case checkpointActive env False (e, d1, w1) of (Some f, s) \<Rightarrow> (Inl f, s)
          | (None, s) \<Rightarrow> (Inr (closedAttachmentObservation i), s)) = (r, e', d', w')" for d1 w1
    using that ops_ok_checkpoint [OF _ assms(2)] by (auto split: prod.splits option.splits)
  show ?thesis
  proof (cases "Option.bind (en_active e) ap_process")
    case None
    then show ?thesis using assms(1) final
      by (cases "en_active e") (auto simp: execute_close_def split: option.splits)
  next
    case (Some p)
    obtain o2 e2 d2 w2 where x: "run_process env p i checkpoint_action (e, d, w) = (o2, e2, d2, w2)" by (metis prod_cases4)
    then have "e2 = e" by (rule run_process_engine)
    then show ?thesis using assms Some x final
      by (cases "en_active e"; cases o2) (auto simp: execute_close_def)
  qed
qed

lemma execute_other_ok:
  assumes "execute_other env i a (e, d, w) = (r, e', d', w')" "ops_ok env e"
  shows "ops_ok env e' \<and> en_closed e' = en_closed e"
proof -
  obtain q e1 d1 w1 where p: "ensureProcess env (e, d, w) = (q, e1, d1, w1)" by (metis prod_cases4)
  show ?thesis using assms p ensureProcess_ok [OF p assms(2)] process_then_ok [OF assms(2) p]
    by (cases q) (auto simp: execute_other_def)
qed

lemma Execute_ok:
  assumes "ProfileEngine_Execute env ctx i a (e, d, w) = (r, e', d', w')" "ops_ok env e"
  shows "ops_ok env e' \<and> en_closed e' = en_closed e"
proof -
  obtain f e1 d1 w1 where c: "activate env i (e, d, w) = (f, e1, d1, w1)" by (metis prod_cases4)
  have k: "ops_ok env e1" "en_closed e1 = en_closed e" using activate_engine [OF c assms(2)] by auto
  have "(r, e', d', w') \<in> {execute_preflight env i a (e1, d1, w1), execute_checkpoint env i (e1, d1, w1),
      execute_close env i (e1, d1, w1), execute_other env i a (e1, d1, w1)} \<or> e' = e \<or> e' = e1"
    using assms(1) c by (auto simp: ProfileEngine_Execute_def split: option.splits if_splits)
  then show ?thesis
    using assms(2) k execute_preflight_ok [OF _ k(1)] execute_checkpoint_ok [OF _ k(1)]
      execute_close_ok [OF _ k(1)] execute_other_ok [OF _ k(1)] by (metis (no_types, lifting) insertE singletonD)
qed

lemma ExecuteViewer_ok:
  assumes "ProfileEngine_ExecuteViewer env i operation inp (e, d, w) = (r, e', d', w')" "ops_ok env e"
  shows "ops_ok env e' \<and> en_closed e' = en_closed e"
  using assms by (auto simp: ProfileEngine_ExecuteViewer_def split: if_splits option.splits prod.splits)

lemma Close_ok:
  assumes "ProfileEngine_Close env (e, d, w) = (r, e', d', w')" "ops_ok env e"
  shows "ops_ok env e' \<and> en_closed e'"
proof (cases "en_closed e")
  case False
  obtain f e1 d1 w1 where c:
    "checkpointActive env False (publishOpsSnapshotLocked env (e\<lparr>en_closed := True\<rparr>), d, w) = (f, e1, d1, w1)"
    by (metis prod_cases4)
  have "e' = e1" using assms(1) False c by (auto simp: ProfileEngine_Close_def split: prod.splits)
  then show ?thesis using ops_ok_checkpoint [OF c ops_ok_publish] by simp
qed (use assms in \<open>simp add: ProfileEngine_Close_def\<close>)

lemma Abort_ok:
  assumes "AbortActive env (e, d, w) = (r, e', d', w')" "ops_ok env e"
  shows "ops_ok env e' \<and> en_closed e' = en_closed e"
  using assms by (auto simp: AbortActive_def dest!: discardActive_engine split: if_splits)

section \<open>Runs of the engine\<close>

text \<open>One call of the engine, or anything else that happens to the disk and the world in between.\<close>

inductive engine_step :: "('p, 'w) engine_env \<Rightarrow> ('p, 'w) engine_state \<Rightarrow> ('p, 'w) engine_state \<Rightarrow> bool" for env where
  executed: "ProfileEngine_Execute env ctx i a s = (r, s') \<Longrightarrow> engine_step env s s'"
| viewed: "ProfileEngine_ExecuteViewer env i operation inp s = (r, s') \<Longrightarrow> engine_step env s s'"
| shut: "ProfileEngine_Close env s = (r, s') \<Longrightarrow> engine_step env s s'"
| aborted: "AbortActive env s = (r, s') \<Longrightarrow> engine_step env s s'"
| elsewhere: "engine_step env (e, d, w) (e, d', w')"

lemma engine_step_ok:
  assumes "engine_step env s s'" "ops_ok env (fst s)"
  shows "ops_ok env (fst s')" "en_closed (fst s) \<Longrightarrow> en_closed (fst s')"
proof -
  obtain e d w e' d' w' where s: "s = (e, d, w)" "s' = (e', d', w')" by (metis prod_cases3)
  have "ops_ok env e' \<and> (en_closed e \<longrightarrow> en_closed e')"
    using assms unfolding s
    by (cases rule: engine_step.cases) (auto dest: Execute_ok ExecuteViewer_ok Close_ok Abort_ok)
  then show "ops_ok env (fst s')" "en_closed (fst s) \<Longrightarrow> en_closed (fst s')" by (auto simp: s)
qed

end
