(* ===== verification/ProfilePaths.thy ===== *)
theory ProfilePaths
  imports ProfileFiles FileLeaseFacts
begin

text \<open>
  Paths and what the extraction of an archive does to the disk: clean absolute paths are lists of
  names, the target of an entry is below the base, and nothing else is touched.
\<close>

section \<open>Absolute paths as lists of names\<close>

definition path_name :: "string \<Rightarrow> bool" where
  "path_name e \<longleftrightarrow> e \<noteq> [] \<and> e \<noteq> ''.'' \<and> e \<noteq> ''..'' \<and> CHR ''/'' \<notin> set e"

definition path_of :: "string list \<Rightarrow> string" where
  "path_of es = CHR ''/'' # JoinWith (CHR ''/'') es"

lemma Split_append_separator: "Split (a @ c # b) c = Split a c @ Split b c"
proof (induction a)
  case (Cons x a)
  then show ?case using Split_not_Nil [of a c] by (auto split: list.splits)
qed simp

lemma Split_JoinWith: "es \<noteq> [] \<Longrightarrow> \<forall>e \<in> set es. c \<notin> set e \<Longrightarrow> Split (JoinWith c es) c = es"
  by (induction c es rule: JoinWith.induct) (simp_all add: Split_no_separator Split_append_separator)

lemma JoinWith_append:
  "as \<noteq> [] \<Longrightarrow> bs \<noteq> [] \<Longrightarrow> JoinWith c (as @ bs) = JoinWith c as @ c # JoinWith c bs"
proof (induction c as rule: JoinWith.induct)
  case (2 c p)
  then show ?case by (cases bs) auto
qed auto

lemma Split_elements: "e \<in> set (Split p (CHR ''/'')) \<Longrightarrow> CHR ''/'' \<notin> set e"
  using set_Split_subset by fastforce

lemma clean_rooted_names:
  "list_all path_name kept \<Longrightarrow> \<forall>e \<in> set es. CHR ''/'' \<notin> set e \<Longrightarrow> list_all path_name (foldl (clean_step True) kept es)"
proof (induction es arbitrary: kept)
  case (Cons e es)
  have "list_all path_name (clean_step True kept e)"
    using Cons.prems by (cases kept) (auto simp: clean_step_def list_all_iff, auto simp: path_name_def)
  with Cons show ?case by simp
qed simp

lemma path_elements_names: "IsAbs p \<Longrightarrow> list_all path_name (path_elements p)"
  unfolding path_elements_def using clean_rooted_names [of "[]" "Split p (CHR ''/'')"] Split_elements [of _ p]
  by (simp add: list_all_iff)

lemma Clean_path_of: "IsAbs p \<Longrightarrow> Clean p = path_of (path_elements p)"
  by (simp add: Clean_def path_of_def path_elements_def Let_def)

lemma clean_names:
  "list_all path_name es \<Longrightarrow> foldl (clean_step b) kept es = rev es @ kept"
  by (induction es arbitrary: kept) (auto simp: clean_step_def path_name_def)

lemma IsAbs_path_of [simp]: "IsAbs (path_of es)"
  by (simp add: path_of_def IsAbs_def HasPrefix_def)

lemma path_elements_append:
  assumes "IsAbs a"
  shows "path_elements (a @ CHR ''/'' # b)
    = rev (foldl (clean_step True) (rev (path_elements a)) (Split b (CHR ''/'')))"
proof -
  have "IsAbs (a @ CHR ''/'' # b)" using assms by (cases a) (auto simp: IsAbs_def HasPrefix_def)
  then show ?thesis using assms by (simp add: path_elements_def Split_append_separator)
qed

lemma Split_join_names:
  assumes "list_all path_name es" "es \<noteq> []"
  shows "Split (JoinWith (CHR ''/'') es) (CHR ''/'') = es"
  using assms by (intro Split_JoinWith) (auto simp: list_all_iff path_name_def)

lemma path_elements_path_of:
  assumes "list_all path_name es"
  shows "path_elements (path_of es) = es"
proof (cases "es = []")
  case True
  then show ?thesis by (simp add: path_elements_def path_of_def IsAbs_def HasPrefix_def clean_step_def)
next
  case False
  have r: "IsAbs (path_of es)" by simp
  have "Split (path_of es) (CHR ''/'') = [] # es"
    using Split_join_names [OF assms False] by (simp add: path_of_def)
  then show ?thesis
    using r clean_names [OF assms, of True "[]"] by (simp add: path_elements_def clean_step_def)
qed

lemma Join_names:
  assumes "list_all path_name bs" "list_all path_name ns" "ns \<noteq> []"
  shows "Join (path_of bs) (JoinWith (CHR ''/'') ns) = path_of (bs @ ns)"
proof -
  have a: "IsAbs (path_of bs @ CHR ''/'' # JoinWith (CHR ''/'') ns)" by (simp add: path_of_def IsAbs_def HasPrefix_def)
  have "path_elements (path_of bs @ CHR ''/'' # JoinWith (CHR ''/'') ns) = bs @ ns"
    using path_elements_append [of "path_of bs"] clean_names [OF assms(2)]
    by (simp add: path_elements_path_of [OF assms(1)] Split_join_names [OF assms(2,3)])
  moreover have "path_of bs \<noteq> []" by (simp add: path_of_def)
  ultimately show ?thesis using Clean_path_of [OF a] by (simp add: Join_def)
qed

lemma under_path_of:
  assumes "bs \<noteq> []" "ns \<noteq> []"
  shows "under (path_of bs) (path_of (bs @ ns))"
  by (simp add: under_def HasPrefix_def path_of_def JoinWith_append [OF assms])

lemma strip_common_append: "strip_common bs (bs @ ns) = ([], ns)"
proof (induction bs)
  case Nil
  then show ?case by (cases ns) auto
qed simp

lemma Rel_below:
  assumes "list_all path_name bs" "list_all path_name ns"
  shows "Rel (path_of bs) (path_of (bs @ ns)) = Some (if ns = [] then ''.'' else JoinWith (CHR ''/'') ns)"
proof -
  have "list_all path_name (bs @ ns)" using assms by simp
  then show ?thesis
    using strip_common_append [of bs ns] by (cases ns) (simp_all add: Rel_def path_elements_path_of assms)
qed

section \<open>The target of an entry\<close>

lemma clean_relative_shape:
  "\<exists>k ns. rev kept = replicate k ''..'' @ ns \<and> list_all path_name ns \<Longrightarrow>
   \<forall>e \<in> set es. CHR ''/'' \<notin> set e \<Longrightarrow>
   \<exists>k ns. rev (foldl (clean_step False) kept es) = replicate k ''..'' @ ns \<and> list_all path_name ns"
proof (induction es arbitrary: kept)
  case (Cons e es)
  obtain k ns where k: "rev kept = replicate k ''..'' @ ns" "list_all path_name ns" using Cons.prems(1) by blast
  then have kept: "kept = rev ns @ replicate k ''..''" by (metis rev_append rev_replicate rev_swap)
  have "\<exists>k ns. rev (clean_step False kept e) = replicate k ''..'' @ ns \<and> list_all path_name ns"
  proof (cases "e = [] \<or> e = ''.''")
    case True
    then show ?thesis using k by (auto simp: clean_step_def)
  next
    case False
    show ?thesis
    proof (cases "e = ''..''")
      case name: False
      then have "rev (clean_step False kept e) = replicate k ''..'' @ (ns @ [e])" "list_all path_name (ns @ [e])"
        using False k Cons.prems(2) by (simp_all add: clean_step_def path_name_def)
      then show ?thesis by blast
    next
      case up: True
      show ?thesis
      proof (cases ns rule: rev_cases)
        case Nil
        then have "kept = replicate k ''..''" using kept by simp
        then have "clean_step False kept e = replicate (Suc k) ''..''" using up by (cases k) (auto simp: clean_step_def)
        then have "rev (clean_step False kept e) = replicate (Suc k) ''..'' @ []" by (simp add: replicate_append_same)
        moreover have "list_all path_name []" by simp
        ultimately show ?thesis by blast
      next
        case (snoc ms m)
        then have "m \<noteq> ''..''" "list_all path_name ms" using k(2) by (auto simp: path_name_def)
        then have "clean_step False kept e = rev ms @ replicate k ''..''" using kept snoc up by (simp add: clean_step_def)
        then have "rev (clean_step False kept e) = replicate k ''..'' @ ms" by simp
        with \<open>list_all path_name ms\<close> show ?thesis by blast
      qed
    qed
  qed
  from Cons.IH [OF this] Cons.prems(2) show ?case by simp
qed simp

lemma Clean_relative:
  assumes "\<not> IsAbs raw" "Clean raw \<noteq> ''.''" "\<not> escapes (Clean raw)"
  shows "\<exists>ns. Clean raw = JoinWith (CHR ''/'') ns \<and> list_all path_name ns \<and> ns \<noteq> []"
proof -
  let ?kept = "foldl (clean_step False) [] (Split raw (CHR ''/''))"
  obtain k ns where k: "rev ?kept = replicate k ''..'' @ ns" "list_all path_name ns"
    using clean_relative_shape [of "[]" "Split raw (CHR ''/'')"] Split_elements [of _ raw] by auto
  have c: "Clean raw = (let joined = JoinWith (CHR ''/'') (rev ?kept) in if joined = [] then ''.'' else joined)"
    using assms(1) by (simp add: Clean_def Let_def)
  have "k = 0"
  proof (rule ccontr)
    assume "k \<noteq> 0"
    then obtain j where "rev ?kept = ''..'' # replicate j ''..'' @ ns" using k(1) by (cases k) auto
    then have "Clean raw = ''..'' \<or> HasPrefix (Clean raw) ''../''"
      unfolding c by (cases "replicate j ''..'' @ ns") (auto simp: HasPrefix_def)
    then show False using assms(3) by (simp add: escapes_def)
  qed
  then have r: "rev ?kept = ns" using k(1) by simp
  moreover have "ns \<noteq> []" using c assms(2) r by auto
  moreover have "JoinWith (CHR ''/'') ns \<noteq> []"
    using k(2) \<open>ns \<noteq> []\<close> by (cases ns rule: remdups_adj.cases) (auto simp: path_name_def)
  ultimately show ?thesis using c k(2) by auto
qed

text \<open>The base is a clean absolute path other than the root.\<close>

lemma archive_target_below:
  assumes "list_all path_name bs" "profileArchiveTarget (path_of bs) raw = Some target"
  shows "\<exists>ns. target = path_of (bs @ ns) \<and> list_all path_name ns \<and> ns \<noteq> []"
proof -
  have raw: "\<not> IsAbs raw" "Clean raw \<noteq> ''.''" "\<not> escapes (Clean raw)" "target = Join (path_of bs) (Clean raw)"
    using assms(2) by (auto simp: profileArchiveTarget_def Let_def split: if_splits option.splits)
  obtain ns where "Clean raw = JoinWith (CHR ''/'') ns" "list_all path_name ns" "ns \<noteq> []"
    using Clean_relative [OF raw(1-3)] by blast
  then show ?thesis using raw(4) Join_names [OF assms(1)] by auto
qed

lemma Dir_path_of:
  assumes "list_all path_name (bs @ [n])"
  shows "Dir (path_of (bs @ [n])) = path_of bs"
proof -
  have n: "CHR ''/'' \<notin> set n" using assms by (simp add: path_name_def)
  have cut: "CutLast (a @ CHR ''/'' # n) (CHR ''/'') = Some (a, n)" for a
  proof -
    have "CHR ''/'' \<notin> set m \<Longrightarrow> Cut (m @ CHR ''/'' # r) (CHR ''/'') = (m, r, True)" for m r
      by (induction m) auto
    from this [of "rev n" "rev a"] n show ?thesis by (simp add: CutLast_def)
  qed
  show ?thesis
  proof (cases "bs = []")
    case True
    have p: "path_of [n] = CHR ''/'' # n" by (simp add: path_of_def)
    have "Clean ''/'' = path_of []" by code_simp
    then show ?thesis using True cut [of "[]"] by (simp add: p Dir_def)
  next
    case False
    then have p: "path_of (bs @ [n]) = path_of bs @ CHR ''/'' # n"
      by (simp add: path_of_def JoinWith_append)
    have a: "IsAbs (path_of bs @ ''/'')" by (simp add: path_of_def IsAbs_def HasPrefix_def)
    have "path_elements (path_of bs @ ''/'') = bs"
      using path_elements_append [of "path_of bs" "[]"] assms by (simp add: path_elements_path_of clean_step_def)
    then show ?thesis unfolding p using Clean_path_of [OF a] by (simp add: Dir_def cut)
  qed
qed

section \<open>What extraction touches\<close>

text \<open>
  Nothing but what is below the base may differ, and what was there keeps its kind and content.
\<close>

definition adds_below :: "string \<Rightarrow> disk \<Rightarrow> disk \<Rightarrow> bool" where
  "adds_below base d d' \<longleftrightarrow>
     (\<forall>p. \<not> under base p \<longrightarrow> dk_nodes d' p = dk_nodes d p)
     \<and> (\<forall>p nd. dk_nodes d p = Some nd \<longrightarrow> (\<exists>nd'. dk_nodes d' p = Some nd' \<and> nd_kind nd' = nd_kind nd))"

lemma adds_below_calm: "calm d d' \<Longrightarrow> adds_below base d d'"
  by (simp add: adds_below_def calm_def)

lemma adds_below_trans: "adds_below base a b \<Longrightarrow> adds_below base b c \<Longrightarrow> adds_below base a c"
  unfolding adds_below_def by metis

lemma plain_call_below: "plain_call d = (ok, d') \<Longrightarrow> adds_below base d d'"
  by (rule adds_below_calm) (rule calm_plain_call)

lemma Lstat_below: "Lstat p d = (r, d') \<Longrightarrow> adds_below base d d'"
  by (rule adds_below_calm) (rule Lstat_truth(1))

lemma Mkdir_below: "Mkdir p perm d = (ok, d') \<Longrightarrow> under base p \<Longrightarrow> adds_below base d d'"
  by (auto simp: Mkdir_def adds_below_def calm_def split: prod.splits if_splits dest!: calm_plain_call)

lemma Chmod_below: "Chmod p perm d = (ok, d') \<Longrightarrow> under base p \<Longrightarrow> adds_below base d d'"
  by (auto simp: Chmod_def adds_below_def calm_def split: prod.splits if_splits dest!: calm_plain_call)

lemma make_components_below:
  assumes "list_all path_name bs" "bs \<noteq> []"
  shows "list_all path_name (done @ cs) \<Longrightarrow> make_components (path_of (bs @ done)) cs d = (ok, d')
    \<Longrightarrow> adds_below (path_of bs) d d'"
proof (induction cs arbitrary: "done" d)
  case Nil
  then show ?case by (simp add: adds_below_calm)
next
  case (Cons c cs)
  have n: "Join (path_of (bs @ done)) c = path_of (bs @ (done @ [c]))"
    using Join_names [of "bs @ done" "[c]"] assms(1) Cons.prems(1) by simp
  have u: "under (path_of bs) (path_of (bs @ (done @ [c])))" using assms(2) by (rule under_path_of) simp
  have again: "adds_below (path_of bs) d1 d'" if "make_components (path_of (bs @ (done @ [c]))) cs d1 = (ok, d')" for d1
    using Cons.IH [of "done @ [c]" d1] Cons.prems(1) that by simp
  obtain r d1 where l: "Lstat (path_of (bs @ (done @ [c]))) d = (r, d1)" by (metis surj_pair)
  note k = Lstat_below [OF l]
  obtain ok2 d2 where m: "Mkdir (path_of (bs @ (done @ [c]))) 0x1C0 d1 = (ok2, d2)" by (metis surj_pair)
  note k2 = adds_below_trans [OF k Mkdir_below [OF m u]]
  obtain ok3 d3 where h: "Chmod (path_of (bs @ (done @ [c]))) 0x1C0 d1 = (ok3, d3)" by (metis surj_pair)
  note k3 = adds_below_trans [OF k Chmod_below [OF h u]]
  have "d' = d1 \<or> d' = d2 \<or> d' = d3
    \<or> (\<exists>d4 \<in> {d1, d2, d3}. make_components (path_of (bs @ (done @ [c]))) cs d4 = (ok, d'))"
    using Cons.prems(2) n l m h
    by (auto simp: Let_def split: sum.splits os_error.splits bool.splits if_splits)
  then show ?case using k k2 k3 again adds_below_trans by blast
qed

lemma mkdirProfilePath_below:
  assumes "list_all path_name bs" "bs \<noteq> []" "list_all path_name ns"
    "mkdirProfilePath (path_of bs) (path_of (bs @ ns)) d = (ok, d')"
  shows "adds_below (path_of bs) d d'"
proof (cases "ns = []")
  case True
  have "\<not> escapes ''.''" by code_simp
  then show ?thesis using assms(4) Rel_below [OF assms(1,3)] True
    by (simp add: mkdirProfilePath_def adds_below_calm)
next
  case False
  have s: "Split (JoinWith (CHR ''/'') ns) (CHR ''/'') = ns" by (rule Split_join_names [OF assms(3) False])
  have "d' = d \<or> make_components (path_of bs) ns d = (ok, d')"
    using assms(4) Rel_below [OF assms(1,3)] False by (auto simp: mkdirProfilePath_def s split: if_splits)
  then show ?thesis using make_components_below [OF assms(1,2), of "[]" ns d ok d'] assms(3)
    by (auto simp: adds_below_calm)
qed

lemma extract_file_below:
  assumes "extract_file target e d = (ok, d')" "under base target"
  shows "adds_below base d d'"
proof -
  obtain made d1 where o: "OpenExclusive target 0x180 d = (made, d1)" by (metis surj_pair)
  show ?thesis
  proof (cases made)
    case False
    then have "d' = d1" "calm d d1"
      using assms(1) o by (auto simp: extract_file_def OpenExclusive_def split: prod.splits if_splits dest: calm_plain_call)
    then show ?thesis by (simp add: adds_below_calm)
  next
    case True
    then have free: "dk_nodes d target = None" and only: "\<forall>p. p \<noteq> target \<longrightarrow> dk_nodes d1 p = dk_nodes d p"
      using o by (auto simp: OpenExclusive_def calm_def split: prod.splits if_splits dest!: calm_plain_call)
    obtain w d2 where w: "WriteFile target (take (nat (te_Size e)) (te_Data e)) d1 = (w, d2)" by (metis surj_pair)
    obtain s d3 where s: "plain_call d2 = (s, d3)" by (metis surj_pair)
    obtain c d4 where c: "plain_call d3 = (c, d4)" by (metis surj_pair)
    have "d' = d4" using assms(1) o True w s c by (simp add: extract_file_def)
    then have "\<forall>p. p \<noteq> target \<longrightarrow> dk_nodes d' p = dk_nodes d p"
      using only WriteFile_step(1) [OF w] calm_plain_call [OF s] calm_plain_call [OF c]
      by (simp add: only_at_def calm_def)
    then show ?thesis using free assms(2) unfolding adds_below_def by (metis option.distinct(1))
  qed
qed

lemma extract_entries_below:
  assumes "list_all path_name bs" "bs \<noteq> []"
  shows "extract_entries (path_of bs) files bytes_total es finished d = (ok, d') \<Longrightarrow> adds_below (path_of bs) d d'"
proof (induction es arbitrary: files bytes_total d)
  case Nil
  then show ?case by (simp add: adds_below_calm)
next
  case (Cons e es)
  show ?case
  proof (cases "profileArchiveTarget (path_of bs) (te_Name e)")
    case None
    then show ?thesis using Cons.prems by (auto simp: adds_below_calm split: if_splits)
  next
    case (Some target)
    obtain ns where ns: "target = path_of (bs @ ns)" "list_all path_name ns" "ns \<noteq> []"
      using archive_target_below [OF assms(1) Some] by blast
    obtain ms m where m: "ns = ms @ [m]" using ns(3) by (metis rev_exhaust)
    have dir: "Dir target = path_of (bs @ ms)" "list_all path_name ms"
      using Dir_path_of [of "bs @ ms" m] assms(1) ns by (simp_all add: m)
    have u: "under (path_of bs) target" using ns under_path_of [OF assms(2)] by simp
    obtain ok1 d1 where k: "mkdirProfilePath (path_of bs) target d = (ok1, d1)" by (metis surj_pair)
    have k': "adds_below (path_of bs) d d1"
      using mkdirProfilePath_below [OF assms ns(2)] k ns(1) by simp
    obtain ok2 d2 where l: "mkdirProfilePath (path_of bs) (Dir target) d = (ok2, d2)" by (metis surj_pair)
    have l': "adds_below (path_of bs) d d2"
      using mkdirProfilePath_below [OF assms dir(2)] l dir(1) by simp
    obtain ok3 d3 where x: "extract_file target e d2 = (ok3, d3)" by (metis surj_pair)
    have x': "adds_below (path_of bs) d d3" using adds_below_trans [OF l' extract_file_below [OF x u]] .
    have "d' \<in> {d, d1, d2, d3} \<or> (\<exists>f b d4. d4 \<in> {d1, d3}
        \<and> extract_entries (path_of bs) f b es finished d4 = (ok, d'))"
      using Cons.prems Some k l x by (auto split: if_splits tar_type.splits bool.splits)
    then show ?thesis using k' l' x' Cons.IH adds_below_trans adds_below_calm [OF calm_refl] by blast
  qed
qed

lemma extractProfileArchive_below:
  assumes "extractProfileArchive read_tar input base d = (ok, d')" "IsAbs base" "Clean base = base" "base \<noteq> ''/''"
  shows "adds_below base d d'"
proof -
  let ?bs = "path_elements base"
  have b: "base = path_of ?bs" using assms(2,3) Clean_path_of by simp
  have "?bs \<noteq> []" using assms(4) b by (auto simp: path_of_def)
  moreover have "list_all path_name ?bs" using assms(2) by (rule path_elements_names)
  moreover obtain es c where "read_tar (take (nat (maxProfileArchiveBytes + 67108864)) input) = (es, c)" by (metis surj_pair)
  ultimately show ?thesis
    using extract_entries_below [of ?bs 0 0 es c d ok d'] assms(1) b by (simp add: extractProfileArchive_def)
qed

section \<open>The root key stays the same\<close>

definition private_dir_at :: "string \<Rightarrow> disk \<Rightarrow> bool" where
  "private_dir_at p d \<longleftrightarrow> (\<exists>nd. dk_nodes d p = Some nd \<and> nd_kind nd = Directory \<and> private_mode nd)"

definition key_at :: "string \<Rightarrow> bytes \<Rightarrow> disk \<Rightarrow> bool" where
  "key_at p raw d \<longleftrightarrow>
     length raw = 32
     \<and> (\<exists>nd. dk_nodes d p = Some nd \<and> nd_kind nd = Regular raw \<and> private_mode nd \<and> nd_owned nd)"

lemma private_modes [simp]:
  "private_mode (nd\<lparr>nd_perm := 0x1C0\<rparr>)"
  "private_mode \<lparr>nd_kind = k, nd_perm = 0x1C0, nd_owned = b\<rparr>"
  "private_mode \<lparr>nd_kind = k, nd_perm = 0x180, nd_owned = b\<rparr>"
  by (simp_all add: private_mode_def)

lemma ensurePrivate_step:
  assumes "ensurePrivateRuntimeDirectory p d = (True, d')"
  shows "private_dir_at p d'"
proof -
  obtain r d1 where q: "(case Lstat p d of
      (Inl ErrNotExist, d) \<Rightarrow>
        (case MkdirAll p 0x1C0 d of (False, d) \<Rightarrow> (Inl ErrOther, d) | (True, d) \<Rightarrow> Lstat p d)
    | r \<Rightarrow> r) = (r, d1)" by (rule prod.exhaust)
  obtain nd where r: "r = Inr nd" "nd_kind nd = Directory"
    and d': "(if \<not> private_mode nd then Chmod p 0x1C0 d1 else (True, d1)) = (True, d')"
    using assms unfolding ensurePrivateRuntimeDirectory_def q by (cases r) (auto split: if_splits)
  obtain s0 e0 where l: "Lstat p d = (s0, e0)" by (metis surj_pair)
  obtain made e1 where m: "MkdirAll p 0x1C0 e0 = (made, e1)" by (metis surj_pair)
  have "\<exists>s. Lstat p s = (Inr nd, d1)"
  proof (cases s0)
    case (Inl err)
    then show ?thesis using q l m unfolding r by (cases err; cases made) auto
  next
    case (Inr nd0)
    then show ?thesis using q l unfolding r by auto
  qed
  then have nd: "dk_nodes d1 p = Some nd" "nd_kind nd = Directory"
    using Lstat_truth(1,3) r(2) by (auto simp: calm_def)
  show ?thesis
  proof (cases "private_mode nd")
    case True
    then show ?thesis using nd d' by (simp add: private_dir_at_def)
  next
    case False
    then have "Chmod p 0x1C0 d1 = (True, d')" using d' by simp
    from Chmod_step(2) [OF this] nd show ?thesis by (simp add: private_dir_at_def)
  qed
qed

lemma ensurePrivate_again:
  "private_dir_at p d \<Longrightarrow> dk_outcomes d = [] \<Longrightarrow> ensurePrivateRuntimeDirectory p d = (True, d)"
  by (auto simp: private_dir_at_def ensurePrivateRuntimeDirectory_def Lstat_def next_outcome_def)

lemma readProfileRootKey_truth:
  assumes "readProfileRootKey p d = (r, d')"
  shows "calm d d'" "r = Inr raw \<Longrightarrow> key_at p raw d"
proof -
  obtain s d1 where l: "Lstat p d = (s, d1)" by (metis surj_pair)
  obtain t d2 where f: "ReadFile p d1 = (t, d2)" by (metis surj_pair)
  have c: "calm d d1" "calm d1 d2" using Lstat_truth(1) [OF l] ReadFile_truth(1) [OF f] by auto
  have "d' = d1 \<or> d' = d2"
    using assms l f by (auto simp: readProfileRootKey_def split: sum.splits if_splits option.splits)
  then show "calm d d'" using c calm_trans by auto
  show "key_at p raw d" if r: "r = Inr raw"
  proof -
    obtain nd where nd: "s = Inr nd" "private_mode nd" "nd_owned nd" "t = Some raw" "length raw = 32"
      and k: "\<exists>bs. nd_kind nd = Regular bs"
      using assms [unfolded r] l f
      by (auto simp: readProfileRootKey_def split: sum.splits if_splits option.splits file_kind.splits)
    have n: "dk_nodes d p = Some nd" using Lstat_truth(3) [OF l] nd(1) by simp
    have "file_bytes p d1 = Some raw" using ReadFile_truth(2) [OF f] nd(4) by simp
    then have "nd_kind nd = Regular raw" using n k c(1) by (auto simp: file_bytes_def calm_def)
    then show ?thesis using n nd by (simp add: key_at_def)
  qed
qed

lemma readProfileRootKey_again:
  "key_at p raw d \<Longrightarrow> dk_outcomes d = [] \<Longrightarrow> readProfileRootKey p d = (Inr raw, d)"
  by (auto simp: key_at_def readProfileRootKey_def Lstat_def next_outcome_def ReadFile_def plain_call_def file_bytes_def)

lemma write_root_key_step:
  assumes "write_root_key p raw d = (True, d')" "length raw = 32"
    "dk_nodes d p = Some \<lparr>nd_kind = Regular [], nd_perm = 0x180, nd_owned = True\<rparr>"
  shows "key_at p raw d'" "only_at {p} d d'"
proof -
  obtain w d1 where w: "WriteFile p raw d = (w, d1)" by (metis surj_pair)
  have "w \<and> calm d1 d'"
    using assms(1) w
    by (auto simp: write_root_key_def split: prod.splits if_splits bool.splits
        dest!: calm_plain_call) (simp add: calm_def)
  then show "key_at p raw d'" "only_at {p} d d'"
    using WriteFile_step [OF w] assms(2,3) by (auto simp: key_at_def calm_def append_bytes_def only_at_def)
qed

lemma root_key_of_length: "root_key_of raw = Some k \<Longrightarrow> length raw = 32"
  by (auto simp: root_key_of_def NewRootKey_def split: if_splits)

text \<open>What a successful call leaves: the directory and the file that hold the key.\<close>

lemma loadOrCreate_step:
  assumes "loadOrCreateProfileRootKey random path d = (Some k, d')"
  shows "\<exists>raw. key_at path raw d' \<and> root_key_of raw = Some k \<and> private_dir_at (Dir path) d'"
proof -
  obtain d1 where e: "ensurePrivateRuntimeDirectory (Dir path) d = (True, d1)"
    using assms by (auto simp: loadOrCreateProfileRootKey_def split: prod.splits bool.splits)
  note dir = ensurePrivate_step [OF e]
  obtain r d2 where l: "readProfileRootKey path d1 = (r, d2)" by (metis surj_pair)
  note t = readProfileRootKey_truth [OF l]
  show ?thesis
  proof (cases r)
    case (Inr raw)
    then have "root_key_of raw = Some k" "d' = d2"
      using assms e l by (auto simp: loadOrCreateProfileRootKey_def)
    then show ?thesis using t(1) t(2) [OF Inr] dir by (auto simp: key_at_def private_dir_at_def calm_def)
  next
    case (Inl err)
    then obtain raw where err: "err = ErrNotExist" "random = Some raw"
      using assms e l by (auto simp: loadOrCreateProfileRootKey_def split: os_error.splits option.splits)
    obtain made d3 where x: "OpenExclusive path 0x180 d2 = (made, d3)" by (metis surj_pair)
    show ?thesis
    proof (cases made)
      case True
      then have free: "dk_nodes d2 path = None"
        and n: "dk_nodes d3 path = Some \<lparr>nd_kind = Regular [], nd_perm = 0x180, nd_owned = True\<rparr>"
        and only: "\<forall>p. p \<noteq> path \<longrightarrow> dk_nodes d3 p = dk_nodes d2 p"
        using x by (auto simp: OpenExclusive_def calm_def split: prod.splits if_splits dest!: calm_plain_call)
      have w: "write_root_key path raw d3 = (True, d')" "root_key_of raw = Some k"
        using assms e l Inl err x True by (auto simp: loadOrCreateProfileRootKey_def split: prod.splits bool.splits)
      note k = write_root_key_step [OF w(1) root_key_of_length [OF w(2)] n]
      have "Dir path \<noteq> path" using free dir t(1) by (auto simp: private_dir_at_def calm_def)
      then have "private_dir_at (Dir path) d'"
        using dir t(1) only k(2) by (auto simp: private_dir_at_def calm_def only_at_def)
      then show ?thesis using k(1) w(2) by blast
    next
      case False
      then have c: "calm d2 d3"
        using x by (auto simp: OpenExclusive_def split: prod.splits if_splits dest!: calm_plain_call)
      obtain q d4 where l2: "readProfileRootKey path d3 = (q, d4)" by (metis surj_pair)
      note t2 = readProfileRootKey_truth [OF l2]
      obtain raw2 where "q = Inr raw2" "root_key_of raw2 = Some k" "d' = d4"
        using assms e l Inl err x False l2
        by (auto simp: loadOrCreateProfileRootKey_def split: if_splits sum.splits)
      then show ?thesis using t(1) t2(1) t2(2) [of raw2] c dir by (auto simp: key_at_def private_dir_at_def calm_def)
    qed
  qed
qed

lemma loadOrCreate_again:
  assumes "key_at path raw d" "root_key_of raw = Some k" "private_dir_at (Dir path) d" "dk_outcomes d = []"
  shows "loadOrCreateProfileRootKey random path d = (Some k, d)"
  using assms ensurePrivate_again [OF assms(3,4)] readProfileRootKey_again [OF assms(1,4)]
  by (simp add: loadOrCreateProfileRootKey_def)

end
