(* ===== verification/ProfileProperties.thy ===== *)
theory ProfileProperties
  imports ProfileFacts ProfilePaths Samples
begin

text \<open>
  The properties of saved Browser profiles: their encryption, the engine that opens and saves them,
  and the archive they are kept in.
\<close>

section \<open>Encryption\<close>

lemma create_then_open:
  assumes "protector_create i (Some k) random = (Inr (m, c), random1)"
  shows "protector_open m i (Some k) = Inr c" "metadata_shape_ok storageContractV2 m"
    "pm_Identity m = i" "pid_valid i" "cip_storageContract c = storageContractV2"
proof -
  obtain dek random' where d: "read_random 32 random = (Some dek, random')"
    and v: "pid_valid i" "validRoot (Some k)" and w: "protector_wrap i k dek random' = (Inr m, random1)"
    and c: "c = \<lparr>cip_contract = [], cip_identity = i, cip_key = dek, cip_closed = False\<rparr>"
    using assms by (auto simp: protector_create_def split: if_splits prod.splits option.splits sum.splits)
  have dek: "length dek = 32" using d by (auto simp: read_random_def split: if_splits)
  obtain key nonce random'' where key: "deriveWrappingKey storageContractV2 i k = Inr key"
    and n: "read_random 12 random' = (Some nonce, random'')"
    and m: "m = \<lparr>pm_Version = metadataVersion, pm_ContractID = storageContractV2, pm_Algorithm = algorithmName,
      pm_KDF = kdfName, pm_Identity = i, pm_RootKeyGeneration = rk_generation k, pm_WrapNonce = nonce,
      pm_WrappedDEK = aes_gcm_seal key nonce dek (wrapAAD
        \<lparr>pm_Version = metadataVersion, pm_ContractID = storageContractV2, pm_Algorithm = algorithmName,
         pm_KDF = kdfName, pm_Identity = i, pm_RootKeyGeneration = rk_generation k, pm_WrapNonce = nonce,
         pm_WrappedDEK = []\<rparr>)\<rparr>"
    using w by (auto simp: protector_wrap_def Let_def split: prod.splits option.splits sum.splits)
  have nonce: "length nonce = 12" using n by (auto simp: read_random_def split: if_splits)
  have g: "rk_generation k \<noteq> 0" using v(2) by (simp add: validRoot_def)
  show shape: "metadata_shape_ok storageContractV2 m"
    using v(1) g nonce dek by (simp add: m metadata_shape_ok_def contract_valid_def)
  have "unwrap storageContractV2 m i (Some k) = Inr dek"
    using v shape key nonce dek by (simp add: unwrap_def) (simp add: m wrapAAD_def)
  then show "protector_open m i (Some k) = Inr c" using v by (simp add: protector_open_def c)
  show "pm_Identity m = i" "pid_valid i" "cip_storageContract c = storageContractV2"
    using v by (simp_all add: m c cip_storageContract_def)
qed

lemma payload_encrypt_parts:
  assumes "payload_encrypt c (payload, False) random = (Inr sealed, random')"
  obtains prefix out where "cipher_rejects c = None" "length prefix = 8"
    "encrypt_chunks c prefix 0 payload = Some out" "sealed = payloadMagic @ prefix @ out"
proof -
  have "cipher_rejects c = None \<and> \<not> length random < 8
    \<and> (\<exists>out. encrypt_chunks c (take 8 random) 0 payload = Some out \<and> sealed = payloadMagic @ take 8 random @ out)"
    using assms by (auto simp: payload_encrypt_def read_random_def split: if_splits prod.splits option.splits)
  then show thesis using that [of "take 8 random"] by auto
qed

lemma length_payloadMagic [simp]: "length payloadMagic = 8"
  by (simp add: payloadMagic_def)

lemma payload_decrypt_parts:
  assumes "cipher_rejects c = None" "length prefix = 8"
  shows "payload_decrypt c (payloadMagic @ prefix @ stream) = decrypt_chunks c prefix 0 stream"
  using assms by (simp add: payload_decrypt_def)

definition sample_profile :: profile_identity where
  "sample_profile =
     \<lparr>pid_AgentID = ''01234567-89ab-cdef-0123-456789abcdef'', pid_PrincipalScopeID = ''scope:1'',
      pid_ProfileSlot = ''default'', pid_ProfileGeneration = 1\<rparr>"

definition sample_root :: root_key where
  "sample_root = \<lparr>rk_generation = 1, rk_key = replicate 32 (CHR ''k''), rk_closed = False\<rparr>"

definition sample_random :: bytes where
  "sample_random = replicate 52 (CHR ''r'')"

lemma sample_created:
  "\<exists>m c. protector_create sample_profile (Some sample_root) sample_random
    = (Inr (m, c), replicate 8 (CHR ''r'')) \<and> cipher_rejects c = None \<and> cip_storageContract c = storageContractV2"
proof -
  have v: "pid_valid sample_profile" by code_simp
  have k: "validRoot (Some sample_root)" "\<not> all_zero (replicate 32 CHR ''r'')" by code_simp+
  have c: "contract_valid storageContractV2" by code_simp
  show ?thesis using v k c
    by (simp add: protector_create_def sample_random_def read_random_def protector_wrap_def deriveWrappingKey_def
        Let_def cipher_rejects_def cip_storageContract_def)
qed

lemma sample_sealed:
  "\<exists>m c random sealed random'. protector_create sample_profile (Some sample_root) sample_random = (Inr (m, c), random)
    \<and> payload_encrypt c (''profile'', False) random = (Inr sealed, random')"
proof -
  obtain m c where c: "protector_create sample_profile (Some sample_root) sample_random
      = (Inr (m, c), replicate 8 (CHR ''r''))" "cipher_rejects c = None"
    using sample_created by blast
  have "encrypt_chunks c p 0 ''profile'' = Some (payload_record c p 0 ''profile'' False @ payload_record c p 1 [] True)" for p
    by (simp add: encrypt_chunks.simps [of _ _ 0] encrypt_chunks.simps [of _ _ "Suc 0"] payloadChunkSize_def maxChunkIndex_def)
  then have "\<exists>sealed random'. payload_encrypt c (''profile'', False) (replicate 8 (CHR ''r'')) = (Inr sealed, random')"
    using c(2) by (simp add: payload_encrypt_def read_random_def)
  with c show ?thesis by blast
qed

text \<open>
  C13. What is saved comes back. If a new profile is protected under a root key and a payload of any
  content is encrypted, then opening the metadata with the same identity and root key and decrypting
  the stored bytes gives exactly that payload without an error.
\<close>

theorem saved_payloads_round_trip:
  assumes "protector_create i (Some k) random = (Inr (m, c), random1)"
    and "payload_encrypt c (payload, False) random1 = (Inr sealed, random2)"
  shows "\<exists>c'. protector_open m i (Some k) = Inr c' \<and> payload_decrypt c' sealed = (None, payload)"
proof -
  note created = create_then_open [OF assms(1)]
  obtain prefix out where p: "cipher_rejects c = None" "length prefix = 8"
    "encrypt_chunks c prefix 0 payload = Some out" "sealed = payloadMagic @ prefix @ out"
    using assms(2) by (rule payload_encrypt_parts)
  have "payload_decrypt c sealed = (None, payload)"
    using decrypt_encrypt_chunks [OF created(5) p(3), of "[]"] by (simp add: p(4) payload_decrypt_parts [OF p(1,2)])
  with created(1) show ?thesis by blast
qed

theorem saved_payloads_round_trip_witness:
  "\<exists>m c random sealed random'. protector_create sample_profile (Some sample_root) sample_random = (Inr (m, c), random)
    \<and> payload_encrypt c (''profile'', False) random = (Inr sealed, random')
    \<and> (\<exists>c'. protector_open m sample_profile (Some sample_root) = Inr c' \<and> payload_decrypt c' sealed = (None, ''profile''))"
proof -
  obtain m c random sealed random' where s:
    "protector_create sample_profile (Some sample_root) sample_random = (Inr (m, c), random)"
    "payload_encrypt c (''profile'', False) random = (Inr sealed, random')"
    using sample_sealed by blast
  from saved_payloads_round_trip [OF s] s show ?thesis by blast
qed

text \<open>
  C22. A stored payload that is cut anywhere, or that anything follows, is not accepted: decryption
  under the key it was sealed with reports a corrupt profile, whatever was written before that.
\<close>

theorem damaged_payloads_are_refused:
  assumes "protector_create i (Some k) random = (Inr (m, c), random1)"
    and "payload_encrypt c (payload, False) random1 = (Inr sealed, random2)"
    and "n < length sealed" "extra \<noteq> []"
  shows "fst (payload_decrypt c (take n sealed)) = Some ErrProfileCorrupt
    \<and> fst (payload_decrypt c (sealed @ extra)) = Some ErrProfileCorrupt"
proof -
  note created = create_then_open [OF assms(1)]
  obtain prefix out where p: "cipher_rejects c = None" "length prefix = 8"
    "encrypt_chunks c prefix 0 payload = Some out" "sealed = payloadMagic @ prefix @ out"
    using assms(2) by (rule payload_encrypt_parts)
  have "fst (payload_decrypt c (sealed @ extra)) = Some ErrProfileCorrupt"
    using decrypt_encrypt_chunks [OF created(5) p(3), of extra] assms(4)
    by (simp add: p(4) payload_decrypt_parts [OF p(1,2)])
  moreover have "fst (payload_decrypt c (take n sealed)) = Some ErrProfileCorrupt"
  proof (cases "n < 16")
    case True
    then have "length (take n sealed) < 16" by simp
    then show ?thesis using p(1) unfolding payload_decrypt_def by simp
  next
    case False
    then have t: "take n sealed = payloadMagic @ prefix @ take (n - 16) out" using p(2,4) by simp
    have "n - 16 < length out" using assms(3) False p(2,4) by simp
    from decrypt_cut_chunks [OF created(5) p(3) this] show ?thesis
      by (simp add: t payload_decrypt_parts [OF p(1,2)])
  qed
  ultimately show ?thesis by blast
qed

theorem damaged_payloads_are_refused_witness:
  "\<exists>m c random sealed random'. protector_create sample_profile (Some sample_root) sample_random = (Inr (m, c), random)
    \<and> payload_encrypt c (''profile'', False) random = (Inr sealed, random')
    \<and> fst (payload_decrypt c (take 0 sealed)) = Some ErrProfileCorrupt
    \<and> fst (payload_decrypt c (sealed @ ''x'')) = Some ErrProfileCorrupt"
proof -
  obtain m c random sealed random' where s:
    "protector_create sample_profile (Some sample_root) sample_random = (Inr (m, c), random)"
    "payload_encrypt c (''profile'', False) random = (Inr sealed, random')"
    using sample_sealed by blast
  then have "0 < length sealed" by (auto elim: payload_encrypt_parts)
  from damaged_payloads_are_refused [OF s this, of "''x''"] s show ?thesis by blast
qed

text \<open>
  The associated data of a chunk name the profile, the position, the length and whether it ends
  the payload: two chunks of valid profiles with the same associated data agree in all four, so no
  chunk can stand in for another one.
\<close>

theorem chunks_are_bound_to_their_place:
  assumes "pid_valid i" "pid_valid j" "payloadAAD contract i m len final = payloadAAD contract j n len' final'"
  shows "i = j \<and> m = n \<and> len = len' \<and> final = final'"
  using assms by (rule payloadAAD_inject)

theorem chunks_are_bound_to_their_place_witness:
  "pid_valid sample_profile
    \<and> payloadAAD storageContractV2 sample_profile 1 7 False = payloadAAD storageContractV2 sample_profile 1 7 False
    \<and> sample_profile = sample_profile \<and> (1::nat) = 1 \<and> (7::nat) = 7"
proof -
  have v: "pid_valid sample_profile" by code_simp
  show ?thesis using v chunks_are_bound_to_their_place
      [OF v v, where contract = storageContractV2 and m = 1 and n = 1 and len = 7 and len' = 7
        and final = False and final' = False, OF refl] by blast
qed

section \<open>What the Ops Observer sees\<close>

lemma engine_runs_ok:
  assumes "(engine_step env)\<^sup>*\<^sup>* s s'" "ops_ok env (fst s)"
  shows "ops_ok env (fst s') \<and> (en_closed (fst s) \<longrightarrow> en_closed (fst s'))"
  using assms by (induction rule: rtranclp_induct) (auto dest: engine_step_ok)

definition reads_nothing :: "'a \<Rightarrow> 'a codec" where
  "reads_nothing v raw =
     \<lparr>dec_value = v, dec_first = DecodeFailed, dec_first_read = 0, dec_second = DecodeFailed, dec_second_read = 0\<rparr>"

definition sample_environment :: profile_environment where
  "sample_environment =
     \<lparr>pv_Evidence =
        \<lparr>env_BrowserEngine = ''chromium'', env_BrowserDistribution = [], env_BrowserVersion = ''1.2'',
         env_BrowserMajorVersion = 1, env_BrowserLocale = [], env_BrowserTimezone = [],
         env_FontContractVersion = [], env_FontManifestSHA256 = []\<rparr>,
      pv_ProfileGeneration = 1, pv_EgressLabel = ''egress''\<rparr>"

definition sample_engine_env :: "(nat, unit) engine_env" where
  "sample_engine_env =
     \<lparr>pn_ext = ascii_externals,
      pn_environment = sample_environment,
      pn_workRoot = ''/work'', pn_workDirectory = ''/work/active'', pn_processEnvironment = [],
      pn_load = (\<lambda>i (d, w). (Inl [ErrProfileNotFound], d, w)),
      pn_create = (\<lambda>i bs (d, w). ([], d, w)), pn_checkpoint = (\<lambda>i bs (d, w). ([], d, w)),
      pn_quarantine = (\<lambda>i (d, w). ([], d, w)), pn_prune = (\<lambda>t (d, w). (True, d, w)),
      pn_closeStore = (\<lambda>(d, w). (True, d, w)), pn_start = (\<lambda>vs (d, w). (Some 1, d, w)),
      pn_execute = (\<lambda>p i a (d, w). (Inl (runtimeUnavailable []), d, w)),
      pn_close = (\<lambda>p (d, w). (True, d, w)),
      pn_viewer = (\<lambda>p. Some (\<lambda>i operation inp (d, w). (Inr None, d, w))), pn_observes = (\<lambda>p. True),
      pn_pages = reads_nothing \<lparr>pi_ContractID = [], pi_Entries = []\<rparr>,
      pn_budgets = reads_nothing \<lparr>od_ContractID = [], od_Entries = Some []\<rparr>, pn_marshalBudgets = (\<lambda>b. None),
      pn_record = reads_nothing (environment_to_record sample_environment), pn_marshalRecord = (\<lambda>r. None),
      pn_readTar = (\<lambda>bs. ([], True)), pn_writeTar = (\<lambda>es. Some []), pn_walk = (\<lambda>p d. [])\<rparr>"

definition sample_active :: "nat active_profile" where
  "sample_active =
     \<lparr>ap_identity = profile_of sample_engine_env sample_identity, ap_session = session_of sample_identity,
      ap_owner = sample_identity, ap_exists = True, ap_recovered = True, ap_process = Some 1,
      ap_upgradePending = False, ap_preflightValidated = True, ap_environmentAdoptionPending = False\<rparr>"

definition sample_opened :: "nat profile_engine" where
  "sample_opened = \<lparr>en_active = Some sample_active, en_closed = False, en_ops = None\<rparr>"

definition sample_work_disk :: disk where
  "sample_work_disk = \<lparr>dk_nodes = Map.empty, dk_outcomes = [], dk_names = [], dk_now = 0, dk_ticks = []\<rparr>"

definition sample_human :: identity where
  "sample_human = sample_identity\<lparr>id_Controller := ControllerHuman, id_ControlEpoch := id_ControlEpoch sample_identity + 1\<rparr>"

definition sample_capture :: "nat \<Rightarrow> identity \<Rightarrow> ops_operation \<Rightarrow> ops_capture" where
  "sample_capture p i operation = \<lparr>oc_result = Inr (Some (''https://example.com/'', ''Example'', None)), oc_samples = None\<rparr>"

text \<open>
  C15. Whatever calls and failures an engine went through since it had no snapshot, an observation it
  gives shows the profile that is active now: its process runs and its preflight was validated, the
  engine is not closed, and the Run, the controller, the epochs and the profile generation reported
  are those of the attachment that owns the profile.
\<close>

theorem observations_show_the_active_profile:
  assumes "en_ops (fst s) = None" "(engine_step env)\<^sup>*\<^sup>* s (e, d, w)"
    and "ObserveOps e capture run operation = Inr (Some obs)"
  shows "\<exists>a p. en_active e = Some a \<and> ap_process a = Some p \<and> pn_observes env p \<and> ap_preflightValidated a
    \<and> \<not> en_closed e \<and> id_RunID (ap_owner a) = run \<and> oo_RunID obs = run
    \<and> oo_Controller obs = id_Controller (ap_owner a) \<and> oo_ControlEpoch obs = id_ControlEpoch (ap_owner a)
    \<and> oo_SessionEpoch obs = id_SessionEpoch (ap_owner a)
    \<and> oo_ProfileGeneration obs = pid_ProfileGeneration (ap_identity a)"
proof -
  have "ops_ok env e" using engine_runs_ok [OF assms(2)] assms(1) by simp
  moreover obtain q where q: "en_ops e = Some q" "id_RunID (os_identity q) = run"
    using assms(3) by (auto simp: ObserveOps_def split: option.splits if_splits)
  ultimately show ?thesis
    using assms(3) by (auto simp: ops_ok_def ObserveOps_def Let_def split: sum.splits option.splits)
qed

theorem observations_show_the_active_profile_witness:
  "\<exists>e obs. (engine_step sample_engine_env)\<^sup>*\<^sup>* (sample_opened, sample_work_disk, ()) (e, sample_work_disk, ())
    \<and> en_ops sample_opened = None
    \<and> ObserveOps e sample_capture (id_RunID sample_identity) OpsObserverStatusOperation = Inr (Some obs)
    \<and> oo_Controller obs = ControllerHuman \<and> oo_RunID obs = id_RunID sample_identity"
proof -
  let ?e = "publishOpsSnapshotLocked sample_engine_env
    (sample_opened\<lparr>en_active := Some (sample_active\<lparr>ap_owner := sample_human\<rparr>)\<rparr>)"
  have "ProfileEngine_ExecuteViewer sample_engine_env sample_human ViewerOperationEnter None
      (sample_opened, sample_work_disk, ()) = (Inr None, ?e, sample_work_disk, ())"
    by (simp add: ProfileEngine_ExecuteViewer_def sample_opened_def sample_active_def sample_human_def
        sample_engine_env_def sample_environment_def sample_identity_def sameBrowserSessionAttachment_def)
  then have run: "(engine_step sample_engine_env)\<^sup>*\<^sup>* (sample_opened, sample_work_disk, ()) (?e, sample_work_disk, ())"
    by (intro r_into_rtranclp) (rule engine_step.viewed)
  have none: "en_ops (fst (sample_opened, sample_work_disk, ())) = None" by (simp add: sample_opened_def)
  have ops: "\<exists>obs. ObserveOps ?e sample_capture (id_RunID sample_identity) OpsObserverStatusOperation = Inr (Some obs)"
    by (simp add: ObserveOps_def publishOpsSnapshotLocked_def sample_opened_def sample_active_def sample_human_def
        sample_engine_env_def sample_capture_def sample_identity_def)
  then obtain obs where o: "ObserveOps ?e sample_capture (id_RunID sample_identity) OpsObserverStatusOperation = Inr (Some obs)" by blast
  from observations_show_the_active_profile [OF none run o]
  have "oo_Controller obs = ControllerHuman" "oo_RunID obs = id_RunID sample_identity"
    by (auto simp: sample_human_def)
  with run none o show ?thesis by auto
qed

section \<open>The end of an engine\<close>

text \<open>
  C21. After \<^verbatim>\<open>Close\<close>, whatever else is called, the engine executes nothing: an action is refused
  without touching the engine, the disk or a process, a Viewer request is refused, the Ops Observer
  is told that its Run is not active, and closing or aborting again does nothing.
\<close>

theorem closed_engines_do_nothing:
  assumes "en_ops (fst s0) = None" "(engine_step env)\<^sup>*\<^sup>* s0 s1"
    and "ProfileEngine_Close env s1 = (ok, s2)" "(engine_step env)\<^sup>*\<^sup>* s2 s"
  shows "(\<exists>f. ProfileEngine_Execute env ctx i a s = (Inl f, s))
    \<and> (\<exists>f. ProfileEngine_ExecuteViewer env i operation inp s = (Inl f, s))
    \<and> ObserveOps (fst s) capture run kind = Inl run_not_active
    \<and> ProfileEngine_Close env s = (True, s) \<and> AbortActive env s = (True, s)"
proof -
  obtain e1 d1 w1 e2 d2 w2 e d w where s: "s1 = (e1, d1, w1)" "s2 = (e2, d2, w2)" "s = (e, d, w)"
    by (metis prod_cases3)
  have "ops_ok env e1" using engine_runs_ok [OF assms(2)] assms(1) by (simp add: s)
  from Close_ok [OF assms(3) [unfolded s] this] have "ops_ok env e2" "en_closed e2" by auto
  then have c: "ops_ok env e" "en_closed e" using engine_runs_ok [OF assms(4)] by (simp_all add: s)
  then have "en_ops e = None" by (cases "en_ops e") (auto simp: ops_ok_def)
  then show ?thesis using c
    by (auto simp: s ProfileEngine_Execute_def ProfileEngine_ExecuteViewer_def ObserveOps_def ProfileEngine_Close_def
        AbortActive_def split: option.splits)
qed

theorem closed_engines_do_nothing_witness:
  "\<exists>ok s. ProfileEngine_Close sample_engine_env (sample_opened, sample_work_disk, ()) = (ok, s)
    \<and> (\<exists>f. ProfileEngine_Execute sample_engine_env None sample_identity sample_click s = (Inl f, s))
    \<and> AbortActive sample_engine_env s = (True, s)"
proof -
  obtain ok s where c: "ProfileEngine_Close sample_engine_env (sample_opened, sample_work_disk, ()) = (ok, s)"
    by (metis surj_pair)
  have n: "en_ops (fst (sample_opened, sample_work_disk, ())) = None" by (simp add: sample_opened_def)
  from closed_engines_do_nothing [OF n rtranclp.rtrancl_refl c rtranclp.rtrancl_refl] c show ?thesis by blast
qed

section \<open>Upgrades\<close>

text \<open>The environment with another way to save.\<close>

abbreviation saving_with ::
    "('p, 'w) engine_env \<Rightarrow> (profile_identity \<Rightarrow> bytes \<Rightarrow> disk \<times> 'w \<Rightarrow> profile_errors \<times> disk \<times> 'w)
     \<Rightarrow> (profile_identity \<Rightarrow> bytes \<Rightarrow> disk \<times> 'w \<Rightarrow> profile_errors \<times> disk \<times> 'w) \<Rightarrow> ('p, 'w) engine_env" where
  "saving_with env c k \<equiv> env\<lparr>pn_checkpoint := c, pn_create := k\<rparr>"

lemma saving_with_simps [simp]:
  "publishOpsSnapshotLocked (saving_with env c k) = publishOpsSnapshotLocked env"
  "discardActive (saving_with env c k) = discardActive env"
  "upgradeFailure (saving_with env c k) = upgradeFailure env"
  "ensureProcess (saving_with env c k) = ensureProcess env"
  "run_process (saving_with env c k) = run_process env"
  "profile_of (saving_with env c k) = profile_of env"
proof -
  show publish: "publishOpsSnapshotLocked (saving_with env c k) = publishOpsSnapshotLocked env"
    by (rule ext) (simp add: publishOpsSnapshotLocked_def cong: option.case_cong)
  show discard: "discardActive (saving_with env c k) = discardActive env"
    by (rule ext) (simp add: discardActive_def Let_def cong: option.case_cong prod.case_cong)
  show "upgradeFailure (saving_with env c k) = upgradeFailure env"
    by (intro ext) (simp add: upgradeFailure_def discard cong: option.case_cong if_cong)
  show "ensureProcess (saving_with env c k) = ensureProcess env"
    by (rule ext) (simp add: ensureProcess_def publish cong: option.case_cong prod.case_cong)
  show "run_process (saving_with env c k) = run_process env"
    by (intro ext) (simp add: run_process_def cong: prod.case_cong)
  show "profile_of (saving_with env c k) = profile_of env"
    by (rule ext) (simp add: profile_of_def)
qed

definition awaits_preflight :: "'p active_profile \<Rightarrow> bool" where
  "awaits_preflight a \<longleftrightarrow>
     ap_exists a \<and> (ap_upgradePending a \<or> ap_environmentAdoptionPending a) \<and> \<not> ap_preflightValidated a"

lemma checkpoint_awaiting:
  assumes "en_active (fst s) = Some a" "awaits_preflight a"
  shows "checkpointActive (saving_with env c k) retain s = checkpointActive env retain s"
  using assms by (auto simp: checkpointActive_def awaits_preflight_def split: prod.splits)

lemma run_process_active: "run_process env p i a s = (r, s') \<Longrightarrow> fst s' = fst s"
  by (auto simp: run_process_def split: prod.splits)

lemma ensureProcess_active:
  assumes "ensureProcess env s = (r, s')" "en_active (fst s) = Some a" "awaits_preflight a"
  shows "\<exists>a'. en_active (fst s') = Some a' \<and> awaits_preflight a'"
  using assms by (auto simp: ensureProcess_def awaits_preflight_def split: prod.splits option.splits)

lemma awaiting_actions:
  assumes "en_active (fst s) = Some a" "awaits_preflight a"
  shows "execute_preflight (saving_with env c k) i act s = execute_preflight env i act s"
    "execute_checkpoint (saving_with env c k) i s = execute_checkpoint env i s"
    "execute_close (saving_with env c k) i s = execute_close env i s"
    "execute_other (saving_with env c k) i act s = execute_other env i act s"
proof -
  obtain q s1 where p: "ensureProcess env s = (q, s1)" by (metis surj_pair)
  obtain a1 where a1: "en_active (fst s1) = Some a1" "awaits_preflight a1"
    using ensureProcess_active [OF p assms] by blast
  have fin: "finish_preflight (saving_with env c k) i act obs s2 = finish_preflight env i act obs s2"
    if "fst s2 = fst s1" for obs s2
    using a1 that by (auto simp: finish_preflight_def awaits_preflight_def Let_def)
  show "execute_other (saving_with env c k) i act s = execute_other env i act s"
    by (simp add: execute_other_def cong: prod.case_cong sum.case_cong)
  show "execute_preflight (saving_with env c k) i act s = execute_preflight env i act s"
    using p fin by (auto simp: execute_preflight_def dest!: run_process_active split: sum.splits prod.splits)
  have chk: "checkpointActive (saving_with env c k) True s2 = checkpointActive env True s2"
    if "fst s2 = fst s1" for s2
    using checkpoint_awaiting [of s2 a1] a1 that by simp
  show "execute_checkpoint (saving_with env c k) i s = execute_checkpoint env i s"
    using p chk by (auto simp: execute_checkpoint_def dest!: run_process_active split: sum.splits prod.splits)
  have "checkpointActive (saving_with env c k) False s2 = checkpointActive env False s2" if "fst s2 = fst s" for s2
    using checkpoint_awaiting [of s2 a] assms that by simp
  then show "execute_close (saving_with env c k) i s = execute_close env i s"
    using assms by (auto simp: execute_close_def dest!: run_process_active split: option.splits sum.splits prod.splits)
qed

text \<open>
  C14. A saved profile that was loaded for a newer browser, or without an environment of its own, is
  not written before its preflight: whatever action its session asks for, and when the engine is
  closed or aborted, nothing is stored (the outcome does not depend on what storing would do), and
  what a checkpoint of it leaves is no active profile.
\<close>

theorem unverified_upgrades_are_not_saved:
  assumes "en_active e = Some a" "ap_exists a" "ap_upgradePending a \<or> ap_environmentAdoptionPending a"
    and "\<not> ap_preflightValidated a" "ap_identity a = profile_of env i" "ap_session a = session_of i"
  shows "ProfileEngine_Execute (env\<lparr>pn_checkpoint := c, pn_create := k\<rparr>) ctx i act (e, d, w)
      = ProfileEngine_Execute env ctx i act (e, d, w)
    \<and> ProfileEngine_Close (env\<lparr>pn_checkpoint := c, pn_create := k\<rparr>) (e, d, w) = ProfileEngine_Close env (e, d, w)
    \<and> AbortActive (env\<lparr>pn_checkpoint := c, pn_create := k\<rparr>) (e, d, w) = AbortActive env (e, d, w)
    \<and> en_active (fst (snd (checkpointActive env retain (e, d, w)))) = None"
proof -
  have u: "awaits_preflight a" using assms(2-4) by (simp add: awaits_preflight_def)
  let ?e = "publishOpsSnapshotLocked env (e\<lparr>en_active := Some (a\<lparr>ap_owner := i\<rparr>)\<rparr>)"
  have act: "activate env i (e, d, w) = (None, ?e, d, w)"
    "activate (saving_with env c k) i (e, d, w) = (None, ?e, d, w)"
    by (simp_all add: activate_def assms(1,5,6))
  have u': "en_active (fst (?e, d, w)) = Some (a\<lparr>ap_owner := i\<rparr>)" "awaits_preflight (a\<lparr>ap_owner := i\<rparr>)"
    using u by (simp_all add: awaits_preflight_def)
  note same = awaiting_actions [OF u', where env = env and c = c and k = k]
  have "ProfileEngine_Execute (saving_with env c k) ctx i act (e, d, w) = ProfileEngine_Execute env ctx i act (e, d, w)"
    by (simp add: ProfileEngine_Execute_def act same cong: option.case_cong if_cong)
  moreover have "ProfileEngine_Close (saving_with env c k) (e, d, w) = ProfileEngine_Close env (e, d, w)"
    using checkpoint_awaiting [of "(publishOpsSnapshotLocked env (e\<lparr>en_closed := True\<rparr>), d, w)" a k c env False] u assms(1)
    by (auto simp: ProfileEngine_Close_def split: prod.splits)
  moreover have "AbortActive (saving_with env c k) (e, d, w) = AbortActive env (e, d, w)"
    by (simp add: AbortActive_def)
  moreover have "en_active (fst (snd (checkpointActive env retain (e, d, w)))) = None"
    using assms(1,3,4) by (auto simp: checkpointActive_def discardActive_def Let_def split: prod.splits)
  ultimately show ?thesis by blast
qed

theorem unverified_upgrades_are_not_saved_witness:
  "\<exists>a. a = sample_active\<lparr>ap_upgradePending := True, ap_preflightValidated := False\<rparr>
    \<and> ap_upgradePending a \<and> \<not> ap_preflightValidated a
    \<and> ProfileEngine_Close (sample_engine_env\<lparr>pn_checkpoint := (\<lambda>i bs (d, w). ([ErrProfileOther], d, w)),
          pn_create := (\<lambda>i bs (d, w). ([ErrProfileOther], d, w))\<rparr>)
        (sample_opened\<lparr>en_active := Some a\<rparr>, sample_work_disk, ())
      = ProfileEngine_Close sample_engine_env (sample_opened\<lparr>en_active := Some a\<rparr>, sample_work_disk, ())"
proof -
  let ?a = "sample_active\<lparr>ap_upgradePending := True, ap_preflightValidated := False\<rparr>"
  have "en_active (sample_opened\<lparr>en_active := Some ?a\<rparr>) = Some ?a" "ap_exists ?a"
    "ap_upgradePending ?a \<or> ap_environmentAdoptionPending ?a" "\<not> ap_preflightValidated ?a"
    "ap_identity ?a = profile_of sample_engine_env sample_identity" "ap_session ?a = session_of sample_identity"
    by (simp_all add: sample_active_def)
  from unverified_upgrades_are_not_saved [OF this] show ?thesis by simp
qed

section \<open>Versions\<close>

lemma parse_parts_length: "parse_parts ps = Some ns \<Longrightarrow> length ns = length ps"
  by (induction ps arbitrary: ns) (auto split: option.splits)

lemma parsedBrowserVersion_length: "parsedBrowserVersion v = Some ns \<Longrightarrow> length ns = 4"
  by (auto simp: parsedBrowserVersion_def Let_def dest!: parse_parts_length split: if_splits)

lemma compare_parts_lex:
  "length ls = length rs \<Longrightarrow>
    compare_parts ls rs = (if ls = rs then 0 else if (ls, rs) \<in> lex less_than then - 1 else 1)"
  by (induction ls rs rule: compare_parts.induct) auto

text \<open>
  Versions of two to four numbers are compared in lexicographic order, the missing numbers being
  zero; a text that is not a version is not compared.
\<close>

theorem versions_are_in_lexicographic_order:
  "compareBrowserVersions left right =
     (case (parsedBrowserVersion left, parsedBrowserVersion right) of
        (Some l, Some r) \<Rightarrow> Some (if l = r then 0 else if (l, r) \<in> lex less_than then - 1 else 1)
      | _ \<Rightarrow> None)"
  using compare_parts_lex parsedBrowserVersion_length
  by (auto simp: compareBrowserVersions_def split: option.splits)

section \<open>The files of a profile\<close>

text \<open>
  C16. Extracting an archive, whatever bytes it is made of and whatever calls fail, touches nothing but
  what is below the base directory, and below it every file that was there keeps its content: an
  archive can neither escape by its names nor overwrite.
\<close>

theorem extraction_stays_below:
  assumes "IsAbs base" "Clean base = base" "base \<noteq> ''/''"
    and "extractProfileArchive read_tar input base d = (ok, d')"
  shows "(\<not> under base p \<longrightarrow> dk_nodes d' p = dk_nodes d p)
    \<and> (dk_nodes d p = Some nd \<longrightarrow> (\<exists>nd'. dk_nodes d' p = Some nd' \<and> nd_kind nd' = nd_kind nd))"
  using extractProfileArchive_below [OF assms(4,1-3)] by (auto simp: adds_below_def)

definition sample_extract_disk :: disk where
  "sample_extract_disk =
     \<lparr>dk_nodes = [''/work/active'' \<mapsto> new_directory 0x1C0, ''/etc'' \<mapsto> new_directory 0x1C0],
      dk_outcomes = [], dk_names = [], dk_now = 0, dk_ticks = []\<rparr>"

theorem extraction_stays_below_witness:
  "\<exists>ok d'. extractProfileArchive (\<lambda>bs. ([\<lparr>te_Name = ''../../etc/x'', te_Type = TypeReg, te_Size = 1, te_Data = ''x''\<rparr>], True))
      ''archive'' ''/work/active'' sample_extract_disk = (ok, d')
    \<and> IsAbs ''/work/active'' \<and> Clean ''/work/active'' = ''/work/active'' \<and> dk_nodes d' ''/etc/x'' = None"
proof -
  obtain ok d' where x: "extractProfileArchive
      (\<lambda>bs. ([\<lparr>te_Name = ''../../etc/x'', te_Type = TypeReg, te_Size = 1, te_Data = ''x''\<rparr>], True))
      ''archive'' ''/work/active'' sample_extract_disk = (ok, d')" by (metis surj_pair)
  have b: "IsAbs ''/work/active''" "Clean ''/work/active'' = ''/work/active''" "''/work/active'' \<noteq> ''/''"
    by code_simp+
  have "\<not> under ''/work/active'' ''/etc/x''" by code_simp
  with extraction_stays_below [OF b x] have "dk_nodes d' ''/etc/x'' = dk_nodes sample_extract_disk ''/etc/x''" by blast
  then have "dk_nodes d' ''/etc/x'' = None" by (simp add: sample_extract_disk_def)
  with x b show ?thesis by blast
qed

text \<open>
  C38. The root key stays: once a call gave a key, a later call on the same disk, with no failing
  system calls, gives the same key again whatever the random source says, and changes nothing.
\<close>

theorem root_key_is_stable:
  assumes "loadOrCreateProfileRootKey random path d = (Some k, d')" "dk_outcomes d' = []"
  shows "loadOrCreateProfileRootKey random' path d' = (Some k, d')"
  using loadOrCreate_step [OF assms(1)] loadOrCreate_again assms(2) by blast

definition sample_key_disk :: disk where
  "sample_key_disk =
     \<lparr>dk_nodes = [''/keys'' \<mapsto> new_directory 0x1C0, ''/'' \<mapsto> new_directory 0x1C0],
      dk_outcomes = [], dk_names = [], dk_now = 0, dk_ticks = []\<rparr>"

theorem root_key_is_stable_witness:
  "\<exists>k d'. loadOrCreateProfileRootKey (Some (replicate 32 (CHR ''k''))) ''/keys/root'' sample_key_disk = (Some k, d')
    \<and> loadOrCreateProfileRootKey (Some (replicate 32 (CHR ''x''))) ''/keys/root'' d' = (Some k, d')"
proof -
  have dir: "Dir ''/keys/root'' = ''/keys''" by code_simp
  have key: "root_key_of (replicate 32 (CHR ''k'')) = Some \<lparr>rk_generation = 1, rk_key = replicate 32 (CHR ''k''), rk_closed = False\<rparr>"
    by code_simp
  have "\<exists>d'. loadOrCreateProfileRootKey (Some (replicate 32 (CHR ''k''))) ''/keys/root'' sample_key_disk
      = (root_key_of (replicate 32 (CHR ''k'')), d') \<and> dk_outcomes d' = []"
    by (simp add: loadOrCreateProfileRootKey_def dir ensurePrivateRuntimeDirectory_def Lstat_def next_outcome_def
        sample_key_disk_def new_directory_def private_mode_def readProfileRootKey_def OpenExclusive_def plain_call_def
        write_root_key_def WriteFile_def set_node_def)
  then obtain d' where x: "loadOrCreateProfileRootKey (Some (replicate 32 (CHR ''k''))) ''/keys/root'' sample_key_disk
      = (root_key_of (replicate 32 (CHR ''k'')), d')" "dk_outcomes d' = []" by blast
  from root_key_is_stable [OF x(1) [unfolded key] x(2)] x(1) [unfolded key] show ?thesis by blast
qed

end
