(* ===== verification/ProfileStore.thy ===== *)
theory ProfileStore
  imports ProfileFiles
begin

text \<open>
  \<^verbatim>\<open>browserprofile/store.go\<close>: the store of encrypted profiles. A profile is a directory named by the
  digest of its identity; its checkpoints are directories with metadata and payload, and a pointer
  file names the current one. Writing makes a new checkpoint beside the old one and then replaces
  the pointer; what cannot be authenticated is moved into the quarantine.
\<close>

section \<open>System calls on directories\<close>

text \<open>\<^verbatim>\<open>os.MkdirTemp\<close>: the first name drawn that is not taken.\<close>

definition MkdirTemp :: "string \<Rightarrow> disk \<Rightarrow> string option \<times> disk" where
  "MkdirTemp prefix d =
     (case plain_call d of (ok, d) \<Rightarrow>
        if \<not> ok then (None, d)
        else (case fresh_name (dk_nodes d) prefix [] (dk_names d) of
          None \<Rightarrow> (None, d)
        | Some path \<Rightarrow> (Some path, set_node path (Some (new_directory 0x1C0)) d)))"

text \<open>
  \<^verbatim>\<open>os.Rename\<close> of a directory moves all that is below it. The code only asks for targets that are
  not there.
\<close>

definition RenameTree :: "string \<Rightarrow> string \<Rightarrow> disk \<Rightarrow> bool \<times> disk" where
  "RenameTree old new d =
     (case plain_call d of (ok, d) \<Rightarrow>
        if \<not> ok \<or> dk_nodes d old = None \<or> dk_nodes d new \<noteq> None then (False, d)
        else (True, d\<lparr>dk_nodes := (\<lambda>p.
          if p = new \<or> under new p then dk_nodes d (old @ drop (length new) p)
          else if p = old \<or> under old p then None else dk_nodes d p)\<rparr>))"

text \<open>
  \<^verbatim>\<open>os.ReadDir\<close>. \<open>list\<close> gives the order and which names are looked at; a name is one path element
  and names something in the directory.
\<close>

definition file_name :: "string \<Rightarrow> bool" where
  "file_name n \<longleftrightarrow> n \<noteq> [] \<and> n \<noteq> ''.'' \<and> n \<noteq> ''..'' \<and> \<not> ContainsByte n (CHR ''/'')"

definition ReadDir :: "(string \<Rightarrow> disk \<Rightarrow> string list) \<Rightarrow> string \<Rightarrow> disk \<Rightarrow> string list option \<times> disk" where
  "ReadDir list path d =
     (case plain_call d of (ok, d) \<Rightarrow>
        (if ok then Some (filter (\<lambda>n. file_name n \<and> dk_nodes d (Join path n) \<noteq> None) (list path d)) else None, d))"

definition is_directory :: "string \<Rightarrow> disk \<Rightarrow> bool" where
  "is_directory path d \<longleftrightarrow> (case dk_nodes d path of None \<Rightarrow> False | Some nd \<Rightarrow> nd_kind nd = Directory)"

section \<open>State\<close>

record current_record =
  cu_Version :: go_int
  cu_Checkpoint :: string

record quarantine_file =
  qf_Path :: string
  qf_Kind :: string
  qf_Bytes :: nat
  qf_SHA256 :: string

record quarantine_report =
  qr_Version :: go_int
  qr_ContractID :: string
  qr_ProfileDigest :: string
  qr_Reason :: string
  qr_QuarantinedAt :: string
  qr_Files :: "quarantine_file list"

text \<open>The tokens of \<^verbatim>\<open>json.Decoder.Token\<close>.\<close>

datatype json_token = OpenObject | CloseObject | OpenArray | CloseArray | StringToken string | OtherToken

text \<open>
  \<open>ps_retain\<close> is \<^verbatim>\<open>retainFailedMigration\<close>. The listing of directories, their walk in the order of
  \<^verbatim>\<open>filepath.WalkDir\<close>, the time a file was modified (of its path and what is there) and JSON are parameters; \<open>ps_tokens\<close> gives the tokens of a
  text and whether its end was reached without an error.
\<close>

record profile_store =
  ps_root :: string
  ps_retain :: bool
  ps_list :: "string \<Rightarrow> disk \<Rightarrow> string list"
  ps_walk :: "string \<Rightarrow> disk \<Rightarrow> string list"
  ps_modified :: "string \<Rightarrow> node \<Rightarrow> go_time"
  ps_current :: "current_record codec"
  ps_marshalCurrent :: "current_record \<Rightarrow> bytes option"
  ps_metadata :: "profile_metadata codec"
  ps_marshalMetadata :: "profile_metadata \<Rightarrow> bytes option"
  ps_marshalReport :: "quarantine_report \<Rightarrow> bytes option"
  ps_tokens :: "bytes \<Rightarrow> json_token list \<times> bool"

text \<open>What changes besides the disk: the random bytes to come, and whether the lock file is held.\<close>

record store_world =
  sw_random :: bytes
  sw_locked :: bool

type_synonym store_state = "disk \<times> store_world"

definition currentVersion :: go_int where "currentVersion = 1"
definition currentFileName :: string where "currentFileName = ''current.json''"
definition metadataFileName :: string where "metadataFileName = ''metadata.json''"
definition payloadFileName :: string where "payloadFileName = ''payload.bin''"
definition quarantineReason :: string where "quarantineReason = ''profile_authentication_failed''"
definition stateQuarantineReason :: string where "stateQuarantineReason = ''profile_state_invalid''"
definition maxCurrentBytes :: nat where "maxCurrentBytes = 512"
definition migrationPendingName :: string where "migrationPendingName = ''.migration-pending.json''"

definition validCheckpointID :: "string \<Rightarrow> bool" where
  "validCheckpointID v \<longleftrightarrow> length v = 32 \<and> list_all is_lower_hex v"

definition validProfileDigest :: "string \<Rightarrow> bool" where
  "validProfileDigest v \<longleftrightarrow> length v = 64 \<and> list_all is_lower_hex v"

definition profileDir :: "profile_store \<Rightarrow> profile_identity \<Rightarrow> string" where
  "profileDir st i = Join (Join (ps_root st) ''profiles'') (profileDigest storageContractV2 i)"

definition parseCurrent :: "profile_store \<Rightarrow> bytes \<Rightarrow> current_record option" where
  "parseCurrent st raw =
     (if length raw = 0 \<or> maxCurrentBytes < length raw then None
      else (case strict_decode (ps_current st) raw of
        None \<Rightarrow> None
      | Some c \<Rightarrow>
          if cu_Version c \<noteq> currentVersion \<or> \<not> validCheckpointID (cu_Checkpoint c) then None else Some c))"

section \<open>Files and directories of the store\<close>

definition ensurePrivateDirectory :: "string \<Rightarrow> disk \<Rightarrow> profile_error option \<times> disk" where
  "ensurePrivateDirectory path d =
     (case (case Lstat path d of
              (Inl ErrNotExist, d) \<Rightarrow>
                (case Mkdir path 0x1C0 d of
                   (False, d) \<Rightarrow> (Inl ErrOther, d)
                 | (True, d) \<Rightarrow> Lstat path d)
            | r \<Rightarrow> r) of
        (Inl _, d) \<Rightarrow> (Some ErrProfileOther, d)
      | (Inr info, d) \<Rightarrow>
          if nd_kind info \<noteq> Directory then (Some ErrInvalidConfiguration, d)
          else if nd_perm info \<noteq> 0x1C0 then
            (case Chmod path 0x1C0 d of (ok, d) \<Rightarrow> (if ok then None else Some ErrProfileOther, d))
          else (None, d))"

definition validatePrivateDirectory :: "string \<Rightarrow> disk \<Rightarrow> os_error option \<times> disk" where
  "validatePrivateDirectory path d =
     (case Lstat path d of
        (Inl e, d) \<Rightarrow> (Some e, d)
      | (Inr info, d) \<Rightarrow>
          (if nd_kind info \<noteq> Directory \<or> \<not> private_mode info then Some ErrOther else None, d))"

text \<open>The file is looked at before and after it is opened; nothing else replaces it in between.\<close>

definition openRegularFile :: "string \<Rightarrow> disk \<Rightarrow> bool \<times> disk" where
  "openRegularFile path d =
     (case Lstat path d of
        (Inl _, d) \<Rightarrow> (False, d)
      | (Inr info, d) \<Rightarrow>
          if \<not> is_Regular (nd_kind info) \<or> \<not> private_mode info then (False, d)
          else (case plain_call d of
            (False, d) \<Rightarrow> (False, d)
          | (True, d) \<Rightarrow> plain_call d))"

definition readBoundedRegularFile :: "string \<Rightarrow> nat \<Rightarrow> disk \<Rightarrow> bytes option \<times> disk" where
  "readBoundedRegularFile path limit d =
     (case openRegularFile path d of
        (False, d) \<Rightarrow> (None, d)
      | (True, d) \<Rightarrow>
          (case ReadFile path d of
             (None, d) \<Rightarrow> (None, d)
           | (Some raw, d) \<Rightarrow> (if limit < length raw then None else Some raw, d)))"

definition syncDirectory :: "string \<Rightarrow> disk \<Rightarrow> bool \<times> disk" where
  "syncDirectory path d = (case plain_call d of (False, d) \<Rightarrow> (False, d) | (True, d) \<Rightarrow> plain_call d)"

text \<open>Writing into a file that was just made, then syncing and closing it.\<close>

definition finish_file :: "string \<Rightarrow> bytes \<Rightarrow> disk \<Rightarrow> bool \<times> disk" where
  "finish_file path raw d =
     (case WriteFile path raw d of (written, d) \<Rightarrow>
     (case (if written then plain_call d else (False, d)) of (synced, d) \<Rightarrow>
     (case plain_call d of (shut, d) \<Rightarrow> (synced \<and> shut, d))))"

definition writeSyncedFile :: "string \<Rightarrow> bytes \<Rightarrow> 32 word \<Rightarrow> disk \<Rightarrow> bool \<times> disk" where
  "writeSyncedFile path raw perm d =
     (case OpenExclusive path perm d of
        (False, d) \<Rightarrow> (False, d)
      | (True, d) \<Rightarrow> finish_file path raw d)"

text \<open>The temporary file is removed whatever happens; \<open>published\<close> tells that the file was replaced.\<close>

definition replace_pointer :: "string \<Rightarrow> string \<Rightarrow> bytes \<Rightarrow> 32 word \<Rightarrow> disk \<Rightarrow> (bool \<times> bool) \<times> disk" where
  "replace_pointer temporary path raw perm d =
     (case Chmod temporary perm d of
        (False, d) \<Rightarrow> (case plain_call d of (_, d) \<Rightarrow> ((False, False), d))
      | (True, d) \<Rightarrow>
          (case finish_file temporary raw d of
             (False, d) \<Rightarrow> ((False, False), d)
           | (True, d) \<Rightarrow>
               (case Rename temporary path d of
                  (False, d) \<Rightarrow> ((False, False), d)
                | (True, d) \<Rightarrow> (case syncDirectory (Dir path) d of (ok, d) \<Rightarrow> ((True, ok), d)))))"

definition atomicWriteFile :: "string \<Rightarrow> bytes \<Rightarrow> 32 word \<Rightarrow> disk \<Rightarrow> (bool \<times> bool) \<times> disk" where
  "atomicWriteFile path raw perm d =
     (case CreateTemp (Join (Dir path) ''.atomic-'') [] d of
        (None, d) \<Rightarrow> ((False, False), d)
      | (Some temporary, d) \<Rightarrow>
          (case replace_pointer temporary path raw perm d of
             (r, d) \<Rightarrow> (case Remove temporary d of (_, d) \<Rightarrow> (r, d))))"

definition migrationMarkerGuard :: "string \<Rightarrow> disk \<Rightarrow> bool \<times> disk" where
  "migrationMarkerGuard path d =
     (case Lstat (Join path migrationPendingName) d of (r, d) \<Rightarrow> (r = Inl ErrNotExist, d))"

definition legacyProfileGuard :: "profile_store \<Rightarrow> profile_identity \<Rightarrow> disk \<Rightarrow> bool \<times> disk" where
  "legacyProfileGuard st i d =
     (case Lstat (Join (Join (ps_root st) ''profiles'') (profileDigest storageContractV1 i)) d of
        (r, d) \<Rightarrow> (r = Inl ErrNotExist, d))"

section \<open>Reading a profile\<close>

text \<open>\<open>roots\<close> is the map of root keys by generation. The payload file of the snapshot is open.\<close>

record profile_snapshot =
  sn_metadata :: profile_metadata
  sn_payload :: string
  sn_cipher :: payload_cipher

type_synonym root_keys = "go_uint64 \<Rightarrow> root_key option"

definition snapshot_dir :: "profile_store \<Rightarrow> profile_identity \<Rightarrow> string \<Rightarrow> string" where
  "snapshot_dir st i checkpoint = Join (Join (profileDir st i) ''checkpoints'') checkpoint"

definition open_checkpoint ::
    "profile_store \<Rightarrow> profile_identity \<Rightarrow> root_keys \<Rightarrow> string \<Rightarrow> disk \<Rightarrow> (profile_errors + profile_snapshot) \<times> disk" where
  "open_checkpoint st i roots dir d =
     (case validatePrivateDirectory dir d of
        (Some _, d) \<Rightarrow> (Inl [ErrProfileCorrupt], d)
      | (None, d) \<Rightarrow>
          (case readBoundedRegularFile (Join dir metadataFileName) maxMetadataBytes d of
             (None, d) \<Rightarrow> (Inl [ErrProfileCorrupt], d)
           | (Some raw, d) \<Rightarrow>
               (case parseMetadata (ps_metadata st) storageContractV2 raw of
                  Inl e \<Rightarrow> (Inl [e], d)
                | Inr m \<Rightarrow>
                    if \<not> validRoot (roots (pm_RootKeyGeneration m)) then (Inl [ErrRootKeyUnavailable], d)
                    else (case protector_open m i (roots (pm_RootKeyGeneration m)) of
                      Inl e \<Rightarrow> (Inl [e], d)
                    | Inr c \<Rightarrow>
                        (case openRegularFile (Join dir payloadFileName) d of
                           (False, d) \<Rightarrow> (Inl [ErrProfileCorrupt], d)
                         | (True, d) \<Rightarrow>
                             (Inr \<lparr>sn_metadata = m, sn_payload = Join dir payloadFileName, sn_cipher = c\<rparr>, d))))))"

definition openSnapshot ::
    "profile_store \<Rightarrow> profile_identity \<Rightarrow> root_keys \<Rightarrow> disk \<Rightarrow> (profile_errors + profile_snapshot) \<times> disk" where
  "openSnapshot st i roots d =
     (case validatePrivateDirectory (profileDir st i) d of
        (Some ErrNotExist, d) \<Rightarrow>
          (case legacyProfileGuard st i d of
             (False, d) \<Rightarrow> (Inl [ErrProfileMigrationRequired], d)
           | (True, d) \<Rightarrow> (Inl [ErrProfileNotFound], d))
      | (Some ErrOther, d) \<Rightarrow> (Inl [ErrProfileCorrupt], d)
      | (None, d) \<Rightarrow>
          (case readBoundedRegularFile (Join (profileDir st i) currentFileName) maxCurrentBytes d of
             (None, d) \<Rightarrow> (Inl [ErrProfileCorrupt], d)
           | (Some raw, d) \<Rightarrow>
               (case parseCurrent st raw of
                  None \<Rightarrow> (Inl [ErrProfileCorrupt], d)
                | Some c \<Rightarrow> open_checkpoint st i roots (snapshot_dir st i (cu_Checkpoint c)) d)))"

text \<open>
  The open payload is rewound and decrypted. A read error ends the stream early and is reported as
  corruption, even when the payload was complete.
\<close>

definition decrypt_file :: "profile_snapshot \<Rightarrow> disk \<Rightarrow> (profile_error option \<times> bytes) \<times> disk" where
  "decrypt_file sn d =
     (let stream = (case file_bytes (sn_payload sn) d of None \<Rightarrow> [] | Some bs \<Rightarrow> bs) in
      (case next_outcome d of
         (Works, d) \<Rightarrow> (payload_decrypt (sn_cipher sn) stream, d)
       | (Fails n, d) \<Rightarrow>
           ((case cipher_rejects (sn_cipher sn) of
               Some e \<Rightarrow> (Some e, [])
             | None \<Rightarrow> (Some ErrProfileCorrupt, snd (payload_decrypt (sn_cipher sn) (take n stream)))), d)))"

text \<open>\<^verbatim>\<open>Seek\<close>, then decryption.\<close>

definition authenticatePayload :: "profile_snapshot \<Rightarrow> disk \<Rightarrow> profile_error option \<times> disk" where
  "authenticatePayload sn d =
     (case plain_call d of
        (False, d) \<Rightarrow> (Some ErrProfileOther, d)
      | (True, d) \<Rightarrow> (case decrypt_file sn d of ((e, _), d) \<Rightarrow> (e, d)))"

section \<open>The quarantine\<close>

text \<open>The time format \<^verbatim>\<open>20060102T150405.000000000Z\<close>.\<close>

definition quarantine_stamp :: "go_time \<Rightarrow> string" where
  "quarantine_stamp t =
     (let s = t div Second mod 86400 in
      filter (\<lambda>c. c \<noteq> CHR ''-'') (day_text (t div Second div 86400)) @ ''T'' @ pad 2 (s div 3600) @ pad 2 (s div 60 mod 60)
      @ pad 2 (s mod 60) @ ''.'' @ pad 9 (t mod Second) @ ''Z'')"

text \<open>
  \<^verbatim>\<open>sanitizeAndChecksumTree\<close> over the paths of the walk: links and special files are removed, and so
  is a file whose information cannot be read.
\<close>

fun sanitize_paths :: "string \<Rightarrow> string list \<Rightarrow> disk \<Rightarrow> quarantine_file list option \<times> disk" where
  "sanitize_paths base [] d = (Some [], d)"
| "sanitize_paths base (path # paths) d =
     (case Option.bind (dk_nodes d path) (\<lambda>nd. Some (nd_kind nd)) of
        None \<Rightarrow> (None, d)
      | Some Directory \<Rightarrow>
          (case plain_call d of (False, d) \<Rightarrow> (None, d) | (True, d) \<Rightarrow> sanitize_paths base paths d)
      | Some kind \<Rightarrow>
          (case Rel base path of
             None \<Rightarrow> (None, d)
           | Some relative \<Rightarrow>
               (case (if kind = Symlink then (False, d) else plain_call d) of (informed, d) \<Rightarrow>
                  if \<not> informed \<or> \<not> is_Regular kind then
                    (case Remove path d of
                       (Some _, d) \<Rightarrow> (None, d)
                     | (None, d) \<Rightarrow>
                         (case sanitize_paths base paths d of
                            (files, d) \<Rightarrow>
                              (map_option ((#) \<lparr>qf_Path = relative,
                                 qf_Kind = (if kind = Symlink then ''symlink_removed'' else ''non_regular_removed''),
                                 qf_Bytes = 0, qf_SHA256 = []\<rparr>) files, d)))
                  else
                    (case plain_call d of
                       (False, d) \<Rightarrow> (None, d)
                     | (True, d) \<Rightarrow>
                         (case ReadFile path d of (content, d) \<Rightarrow>
                         (case plain_call d of (shut, d) \<Rightarrow>
                            (case content of
                               None \<Rightarrow> (None, d)
                             | Some raw \<Rightarrow>
                                 if \<not> shut then (None, d)
                                 else (case sanitize_paths base paths d of
                                   (files, d) \<Rightarrow>
                                     (map_option ((#) \<lparr>qf_Path = relative, qf_Kind = ''regular'',
                                        qf_Bytes = length raw, qf_SHA256 = sha256_hex raw\<rparr>) files, d))))))))) "

definition sanitizeAndChecksumTree :: "profile_store \<Rightarrow> string \<Rightarrow> disk \<Rightarrow> quarantine_file list option \<times> disk" where
  "sanitizeAndChecksumTree st base d =
     (case sanitize_paths base (ps_walk st base d) d of (files, d) \<Rightarrow> (map_option (sort_key qf_Path) files, d))"

text \<open>
  \<^verbatim>\<open>makeTreeReadOnly\<close>: first the files, then the directories, the longest paths first. Go's sort
  leaves the order of paths of the same length open; here they stay in the order of the walk.
\<close>

fun protect_files :: "string list \<Rightarrow> disk \<Rightarrow> string list option \<times> disk" where
  "protect_files [] d = (Some [], d)"
| "protect_files (path # paths) d =
     (case Option.bind (dk_nodes d path) (\<lambda>nd. Some (nd_kind nd)) of
        None \<Rightarrow> (None, d)
      | Some Symlink \<Rightarrow> (None, d)
      | Some Directory \<Rightarrow>
          (case plain_call d of
             (False, d) \<Rightarrow> (None, d)
           | (True, d) \<Rightarrow> (case protect_files paths d of (dirs, d) \<Rightarrow> (map_option ((#) path) dirs, d)))
      | Some _ \<Rightarrow>
          (case Chmod path 0x100 d of (False, d) \<Rightarrow> (None, d) | (True, d) \<Rightarrow> protect_files paths d))"

fun protect_directories :: "string list \<Rightarrow> disk \<Rightarrow> bool \<times> disk" where
  "protect_directories [] d = (True, d)"
| "protect_directories (path # paths) d =
     (case Chmod path 0x140 d of (False, d) \<Rightarrow> (False, d) | (True, d) \<Rightarrow> protect_directories paths d)"

definition makeTreeReadOnly :: "profile_store \<Rightarrow> string \<Rightarrow> disk \<Rightarrow> bool \<times> disk" where
  "makeTreeReadOnly st base d =
     (case protect_files (ps_walk st base d) d of
        (None, d) \<Rightarrow> (False, d)
      | (Some directories, d) \<Rightarrow> protect_directories (sort_key (\<lambda>p. - int (length p)) directories) d)"

definition randomHex :: "nat \<Rightarrow> store_world \<Rightarrow> string option \<times> store_world" where
  "randomHex n w =
     (case read_random n (sw_random w) of (raw, rest) \<Rightarrow> (map_option hex_encode raw, w\<lparr>sw_random := rest\<rparr>))"

text \<open>The profile has been moved to its place in the quarantine.\<close>

definition seal_quarantine :: "profile_store \<Rightarrow> profile_identity \<Rightarrow> string \<Rightarrow> string \<Rightarrow> disk \<Rightarrow> profile_errors \<times> disk" where
  "seal_quarantine st i reason destination d =
     (case syncDirectory (Join (ps_root st) ''profiles'') d of
        (False, d) \<Rightarrow> ([ErrProfileOther], d)
      | (True, d) \<Rightarrow>
     (case syncDirectory (Join (ps_root st) ''quarantine'') d of
        (False, d) \<Rightarrow> ([ErrProfileOther], d)
      | (True, d) \<Rightarrow>
     (case sanitizeAndChecksumTree st destination d of
        (None, d) \<Rightarrow> ([ErrProfileOther], d)
      | (Some files, d) \<Rightarrow>
     (case read_clock d of (now, d) \<Rightarrow>
     (case ps_marshalReport st
         \<lparr>qr_Version = 1, qr_ContractID = storageContractV2, qr_ProfileDigest = profileDigest storageContractV2 i,
          qr_Reason = reason, qr_QuarantinedAt = FormatRFC3339Nano now, qr_Files = files\<rparr> of
        None \<Rightarrow> ([ErrProfileOther], d)
      | Some raw \<Rightarrow>
     (case writeSyncedFile (Join destination ''quarantine.json'') raw 0x100 d of
        (False, d) \<Rightarrow> ([ErrProfileOther], d)
      | (True, d) \<Rightarrow>
          (case makeTreeReadOnly st destination d of (ok, d) \<Rightarrow> (if ok then [] else [ErrProfileOther], d))))))))"

definition quarantine :: "profile_store \<Rightarrow> profile_identity \<Rightarrow> string \<Rightarrow> store_state \<Rightarrow> profile_errors \<times> store_state" where
  "quarantine st i reason s =
     (case s of (d, w) \<Rightarrow>
        (case Lstat (profileDir st i) d of
           (Inl ErrNotExist, d) \<Rightarrow> ([ErrProfileNotFound], d, w)
         | (Inl ErrOther, d) \<Rightarrow> ([ErrProfileOther], d, w)
         | (Inr _, d) \<Rightarrow>
             (case randomHex 8 w of
                (None, w) \<Rightarrow> ([ErrProfileOther], d, w)
              | (Some suffix, w) \<Rightarrow>
                  (case read_clock d of (now, d) \<Rightarrow>
                     (let name = quarantine_stamp now @ ''-'' @ take 16 (profileDigest storageContractV2 i) @ ''-'' @ suffix;
                          destination = Join (Join (ps_root st) ''quarantine'') name in
                      (case RenameTree (profileDir st i) destination d of
                         (False, d) \<Rightarrow> ([ErrProfileOther], d, w)
                       | (True, d) \<Rightarrow>
                           (case seal_quarantine st i reason destination d of (errs, d) \<Rightarrow> (errs, d, w))))))))"

definition isQuarantineCause :: "profile_errors \<Rightarrow> bool" where
  "isQuarantineCause errs \<longleftrightarrow>
     ErrProfileCorrupt \<in> set errs \<or> ErrIdentityMismatch \<in> set errs \<or> ErrKeyGeneration \<in> set errs"

definition handleOpenError ::
    "profile_store \<Rightarrow> profile_identity \<Rightarrow> profile_errors \<Rightarrow> store_state \<Rightarrow> profile_errors \<times> store_state" where
  "handleOpenError st i cause s =
     (if \<not> isQuarantineCause cause then (cause, s)
      else (case quarantine st i quarantineReason s of
        (errs, s) \<Rightarrow> (if errs \<noteq> [] then cause @ errs else ErrProfileQuarantined # cause, s)))"

definition QuarantineInvalidState ::
    "profile_store \<Rightarrow> profile_identity \<Rightarrow> store_state \<Rightarrow> profile_errors \<times> store_state" where
  "QuarantineInvalidState st i s =
     (if \<not> pid_valid i then ([ErrInvalidConfiguration], s)
      else if \<not> sw_locked (snd s) then ([ErrProfileStoreClosed], s)
      else (case quarantine st i stateQuarantineReason s of
        (errs, s) \<Rightarrow> (if errs \<noteq> [] then errs else [ErrProfileQuarantined, ErrProfileCorrupt], s)))"

section \<open>Loading\<close>

text \<open>
  \<open>write\<close> is the writer that \<^verbatim>\<open>Load\<close> is given. The payload is decrypted twice: nothing is written
  before all of it was authenticated.
\<close>

definition deliver_payload ::
    "profile_store \<Rightarrow> profile_identity \<Rightarrow> (bytes \<Rightarrow> disk \<Rightarrow> bool \<times> disk) \<Rightarrow> profile_snapshot \<Rightarrow> store_state
     \<Rightarrow> (profile_errors + bytes) \<times> store_state" where
  "deliver_payload st i write sn s =
     (case s of (d, w) \<Rightarrow>
        (case plain_call d of
           (False, d) \<Rightarrow> (Inl [ErrProfileOther], d, w)
         | (True, d) \<Rightarrow>
             (case decrypt_file sn d of ((e, plaintext), d) \<Rightarrow>
             (case write plaintext d of
                (False, d) \<Rightarrow> (Inl [ErrProfileOther], d, w)
              | (True, d) \<Rightarrow>
                  (case e of
                     None \<Rightarrow> (Inr plaintext, d, w)
                   | Some err \<Rightarrow>
                       if err = ErrProfileCorrupt then
                         (case handleOpenError st i [err] (d, w) of (errs, s) \<Rightarrow> (Inl errs, s))
                       else (Inl [err], d, w))))))"

definition Store_Load ::
    "profile_store \<Rightarrow> root_keys \<Rightarrow> (bytes \<Rightarrow> disk \<Rightarrow> bool \<times> disk) \<Rightarrow> profile_identity \<Rightarrow> store_state
     \<Rightarrow> (profile_errors + bytes) \<times> store_state" where
  "Store_Load st roots write i s =
     (case s of (d, w) \<Rightarrow>
        if \<not> pid_valid i then (Inl [ErrInvalidConfiguration], s)
        else if \<not> sw_locked w then (Inl [ErrProfileStoreClosed], s)
        else (case openSnapshot st i roots d of
          (Inl errs, d) \<Rightarrow> (case handleOpenError st i errs (d, w) of (errs, s) \<Rightarrow> (Inl errs, s))
        | (Inr sn, d) \<Rightarrow>
            (case plain_call d of
               (False, d) \<Rightarrow> (Inl [ErrProfileOther], d, w)
             | (True, d) \<Rightarrow>
                 (case decrypt_file sn d of
                    ((Some e, _), d) \<Rightarrow> (case handleOpenError st i [e] (d, w) of (errs, s) \<Rightarrow> (Inl errs, s))
                  | ((None, _), d) \<Rightarrow> deliver_payload st i write sn (d, w)))))"

section \<open>Saving\<close>

fun newCheckpointID :: "nat \<Rightarrow> string \<Rightarrow> store_state \<Rightarrow> string option \<times> store_state" where
  "newCheckpointID 0 dir s = (None, s)"
| "newCheckpointID (Suc attempts) dir (d, w) =
     (case randomHex 16 w of
        (None, w) \<Rightarrow> (None, d, w)
      | (Some checkpoint, w) \<Rightarrow>
          (case Lstat (Join dir checkpoint) d of
             (Inl ErrNotExist, d) \<Rightarrow> (Some checkpoint, d, w)
           | (Inl ErrOther, d) \<Rightarrow> (None, d, w)
           | (Inr _, d) \<Rightarrow> newCheckpointID attempts dir (d, w)))"

definition pendingPrefix :: string where "pendingPrefix = ''.pending-''"

fun remove_named :: "string \<Rightarrow> string \<Rightarrow> string list \<Rightarrow> disk \<Rightarrow> disk" where
  "remove_named dir current [] d = d"
| "remove_named dir current (n # ns) d =
     (if n \<noteq> current \<and> (validCheckpointID n \<or> HasPrefix n pendingPrefix)
      then remove_named dir current ns (snd (RemoveAll (Join dir n) d))
      else remove_named dir current ns d)"

definition removeOldCheckpoints :: "profile_store \<Rightarrow> string \<Rightarrow> string \<Rightarrow> disk \<Rightarrow> disk" where
  "removeOldCheckpoints st dir current d =
     (case ReadDir (ps_list st) dir d of
        (None, d) \<Rightarrow> d
      | (Some names, d) \<Rightarrow> snd (syncDirectory dir (remove_named dir current names d)))"

text \<open>
  The metadata and the encrypted payload of a pending checkpoint. \<open>payload\<close> is what the reader gives
  and whether it fails at its end; what a failed encryption had written by then is left out.
\<close>

definition fill_checkpoint ::
    "profile_store \<Rightarrow> string \<Rightarrow> profile_metadata \<Rightarrow> payload_cipher \<Rightarrow> bytes \<times> bool \<Rightarrow> store_state
     \<Rightarrow> profile_errors \<times> store_state" where
  "fill_checkpoint st pending m c payload s =
     (case s of (d, w) \<Rightarrow>
        (case marshalMetadata (ps_marshalMetadata st) m of
           Inl e \<Rightarrow> ([e], s)
         | Inr raw \<Rightarrow>
             (case writeSyncedFile (Join pending metadataFileName) raw 0x180 d of
                (False, d) \<Rightarrow> ([ErrProfileOther], d, w)
              | (True, d) \<Rightarrow>
                  (case OpenExclusive (Join pending payloadFileName) 0x180 d of
                     (False, d) \<Rightarrow> ([ErrProfileOther], d, w)
                   | (True, d) \<Rightarrow>
                       (case payload_encrypt c payload (sw_random w) of
                          (Inl e, random) \<Rightarrow>
                            (case plain_call d of (_, d) \<Rightarrow> ([e], d, w\<lparr>sw_random := random\<rparr>))
                        | (Inr sealed, random) \<Rightarrow>
                            (case finish_file (Join pending payloadFileName) sealed d of
                               (False, d) \<Rightarrow> ([ErrProfileOther], d, w\<lparr>sw_random := random\<rparr>)
                             | (True, d) \<Rightarrow>
                                 (case syncDirectory pending d of
                                    (ok, d) \<Rightarrow>
                                      (if ok then [] else [ErrProfileOther], d, w\<lparr>sw_random := random\<rparr>))))))))"

text \<open>
  The pending directory gets its name and the pointer is replaced. The result tells which directory
  to remove when nothing was committed.
\<close>

definition publish_checkpoint ::
    "profile_store \<Rightarrow> string \<Rightarrow> string \<Rightarrow> store_state \<Rightarrow> (bool \<times> profile_errors \<times> string) \<times> store_state" where
  "publish_checkpoint st pdir pending s =
     (let dir = Join pdir ''checkpoints'' in
      (case newCheckpointID 8 dir s of
         (None, s) \<Rightarrow> ((False, [ErrProfileOther], pending), s)
       | (Some checkpoint, d, w) \<Rightarrow>
           (let final = Join dir checkpoint in
            (case RenameTree pending final d of
               (False, d) \<Rightarrow> ((False, [ErrProfileOther], pending), d, w)
             | (True, d) \<Rightarrow>
                 (case syncDirectory dir d of
                    (False, d) \<Rightarrow> ((False, [ErrProfileOther], final), d, w)
                  | (True, d) \<Rightarrow>
                      (case ps_marshalCurrent st \<lparr>cu_Version = currentVersion, cu_Checkpoint = checkpoint\<rparr> of
                         None \<Rightarrow> ((False, [ErrInvalidConfiguration], final), d, w)
                       | Some raw \<Rightarrow>
                           (case atomicWriteFile (Join pdir currentFileName) raw 0x180 d of
                              ((published, ok), d) \<Rightarrow>
                                if \<not> ok then ((published, [ErrProfileOther], final), d, w)
                                else ((True, [], final), removeOldCheckpoints st dir checkpoint d, w))))))))"

definition cleanup :: "profile_store \<Rightarrow> string \<Rightarrow> disk \<Rightarrow> disk" where
  "cleanup st dir d = (if ps_retain st then d else snd (RemoveAll dir d))"

definition commitSnapshot ::
    "profile_store \<Rightarrow> string \<Rightarrow> profile_metadata \<Rightarrow> payload_cipher \<Rightarrow> bytes \<times> bool \<Rightarrow> store_state
     \<Rightarrow> (bool \<times> profile_errors) \<times> store_state" where
  "commitSnapshot st pdir m c payload s =
     (case s of (d, w) \<Rightarrow>
        (let dir = Join pdir ''checkpoints'' in
         (case ensurePrivateDirectory dir d of
            (Some e, d) \<Rightarrow> ((False, [e]), d, w)
          | (None, d) \<Rightarrow>
              (case MkdirTemp (Join dir pendingPrefix) d of
                 (None, d) \<Rightarrow> ((False, [ErrProfileOther]), d, w)
               | (Some pending, d) \<Rightarrow>
                   (case Chmod pending 0x1C0 d of
                      (False, d) \<Rightarrow> ((False, [ErrProfileOther]), cleanup st pending d, w)
                    | (True, d) \<Rightarrow>
                        (case fill_checkpoint st pending m c payload (d, w) of
                           (errs, d, w) \<Rightarrow>
                             if errs \<noteq> [] then ((False, errs), cleanup st pending d, w)
                             else (case publish_checkpoint st pdir pending (d, w) of
                               ((committed, errs, last_dir), d, w) \<Rightarrow>
                                 ((committed, errs), if committed then d else cleanup st last_dir d, w))))))))"

definition Store_Create ::
    "profile_store \<Rightarrow> profile_identity \<Rightarrow> root_key option \<Rightarrow> bytes \<times> bool \<Rightarrow> store_state
     \<Rightarrow> profile_errors \<times> store_state" where
  "Store_Create st i root payload s =
     (case s of (d, w) \<Rightarrow>
        if \<not> pid_valid i \<or> \<not> validRoot root then ([ErrInvalidConfiguration], s)
        else if \<not> sw_locked w then ([ErrProfileStoreClosed], s)
        else (case Lstat (profileDir st i) d of
          (Inr _, d) \<Rightarrow> ([ErrProfileExists], d, w)
        | (Inl ErrOther, d) \<Rightarrow> ([ErrProfileOther], d, w)
        | (Inl ErrNotExist, d) \<Rightarrow>
            (case legacyProfileGuard st i d of
               (False, d) \<Rightarrow> ([ErrProfileMigrationRequired], d, w)
             | (True, d) \<Rightarrow>
                 (case ensurePrivateDirectory (profileDir st i) d of
                    (Some e, d) \<Rightarrow> ([e], d, w)
                  | (None, d) \<Rightarrow>
                      (case protector_create i root (sw_random w) of
                         (Inl e, random) \<Rightarrow>
                           ([e], if ps_retain st then d else snd (Remove (profileDir st i) d), w\<lparr>sw_random := random\<rparr>)
                       | (Inr (m, c), random) \<Rightarrow>
                           (case commitSnapshot st (profileDir st i) m c payload (d, w\<lparr>sw_random := random\<rparr>) of
                              ((committed, errs), d, w) \<Rightarrow>
                                (errs, if errs \<noteq> [] \<and> \<not> committed then cleanup st (profileDir st i) d else d, w)))))))"

definition Store_Checkpoint ::
    "profile_store \<Rightarrow> root_keys \<Rightarrow> profile_identity \<Rightarrow> bytes \<times> bool \<Rightarrow> store_state \<Rightarrow> profile_errors \<times> store_state" where
  "Store_Checkpoint st roots i payload s =
     (case s of (d, w) \<Rightarrow>
        if \<not> pid_valid i then ([ErrInvalidConfiguration], s)
        else if \<not> sw_locked w then ([ErrProfileStoreClosed], s)
        else (case openSnapshot st i roots d of
          (Inl errs, d) \<Rightarrow> handleOpenError st i errs (d, w)
        | (Inr sn, d) \<Rightarrow>
            (case authenticatePayload sn d of
               (Some e, d) \<Rightarrow> handleOpenError st i [e] (d, w)
             | (None, d) \<Rightarrow>
                 (case commitSnapshot st (profileDir st i) (sn_metadata sn) (sn_cipher sn) payload (d, w) of
                    ((_, errs), s) \<Rightarrow> (errs, s)))))"

section \<open>Expiry\<close>

text \<open>
  \<^verbatim>\<open>strictMigrationJSON\<close> walks the tokens for duplicate members. Every call takes a token, so the
  number of tokens is enough fuel; \<^term>\<open>None\<close> is an error.
\<close>

fun visit_value :: "nat \<Rightarrow> nat \<Rightarrow> json_token list \<Rightarrow> json_token list option"
  and visit_members :: "nat \<Rightarrow> nat \<Rightarrow> string list \<Rightarrow> json_token list \<Rightarrow> json_token list option"
  and visit_elements :: "nat \<Rightarrow> nat \<Rightarrow> json_token list \<Rightarrow> json_token list option" where
  "visit_value 0 depth ts = None"
| "visit_value (Suc n) depth ts =
     (if 16 < depth then None
      else (case ts of
        [] \<Rightarrow> None
      | OpenObject # ts \<Rightarrow> visit_members n depth [] ts
      | OpenArray # ts \<Rightarrow> visit_elements n depth ts
      | CloseObject # _ \<Rightarrow> None
      | CloseArray # _ \<Rightarrow> None
      | _ # ts \<Rightarrow> Some ts))"
| "visit_members 0 depth seen ts = None"
| "visit_members (Suc n) depth seen ts =
     (case ts of
        [] \<Rightarrow> None
      | CloseObject # ts \<Rightarrow> Some ts
      | CloseArray # ts \<Rightarrow> Some ts
      | StringToken name # ts \<Rightarrow>
          if name \<in> set seen then None
          else (case visit_value n (Suc depth) ts of
            None \<Rightarrow> None
          | Some ts \<Rightarrow> visit_members n depth (name # seen) ts)
      | _ # _ \<Rightarrow> None)"
| "visit_elements 0 depth ts = None"
| "visit_elements (Suc n) depth ts =
     (case ts of
        [] \<Rightarrow> None
      | CloseObject # ts \<Rightarrow> Some ts
      | CloseArray # ts \<Rightarrow> Some ts
      | _ \<Rightarrow> (case visit_value n (Suc depth) ts of None \<Rightarrow> None | Some ts \<Rightarrow> visit_elements n depth ts))"

definition strictMigrationJSON :: "profile_store \<Rightarrow> 'a codec \<Rightarrow> bytes \<Rightarrow> bool" where
  "strictMigrationJSON st codec raw \<longleftrightarrow>
     (case ps_tokens st raw of
        (ts, ended) \<Rightarrow> visit_value (Suc (length ts)) 0 ts = Some [] \<and> ended \<and> dec_first (codec raw) = DecodeOK)"

text \<open>What must hold of the current checkpoint of a directory that expires.\<close>

definition checkpoint_expires :: "profile_store \<Rightarrow> string \<Rightarrow> string \<Rightarrow> string \<Rightarrow> disk \<Rightarrow> bool \<times> disk" where
  "checkpoint_expires st dir name checkpoint d =
     (case validatePrivateDirectory (Join (Join dir ''checkpoints'') checkpoint) d of
        (Some _, d) \<Rightarrow> (False, d)
      | (None, d) \<Rightarrow>
          (case readBoundedRegularFile (Join (Join (Join dir ''checkpoints'') checkpoint) metadataFileName) maxMetadataBytes d of
             (None, d) \<Rightarrow> (False, d)
           | (Some raw, d) \<Rightarrow>
               (case parseMetadata (ps_metadata st) storageContractV2 raw of
                  Inl _ \<Rightarrow> (False, d)
                | Inr m \<Rightarrow>
                    (profileDigest storageContractV2 (pm_Identity m) = name
                       \<and> strictMigrationJSON st (ps_metadata st) raw, d))))"

definition pointer_expires :: "profile_store \<Rightarrow> go_time \<Rightarrow> string \<Rightarrow> string \<Rightarrow> disk \<Rightarrow> bool \<times> disk" where
  "pointer_expires st limit dir name d =
     (case Lstat (Join dir currentFileName) d of
        (Inl _, d) \<Rightarrow> (False, d)
      | (Inr info, d) \<Rightarrow>
          if \<not> is_Regular (nd_kind info) \<or> \<not> private_mode info
             \<or> \<not> ps_modified st (Join dir currentFileName) info < limit then (False, d)
          else (case readBoundedRegularFile (Join dir currentFileName) maxCurrentBytes d of
            (None, d) \<Rightarrow> (False, d)
          | (Some raw, d) \<Rightarrow>
              if \<not> strictMigrationJSON st (ps_current st) raw then (False, d)
              else (case parseCurrent st raw of
                None \<Rightarrow> (False, d)
              | Some c \<Rightarrow> checkpoint_expires st dir name (cu_Checkpoint c) d)))"

definition directory_expires :: "profile_store \<Rightarrow> go_time \<Rightarrow> string \<Rightarrow> string \<Rightarrow> disk \<Rightarrow> bool \<times> disk" where
  "directory_expires st limit dir name d =
     (case validatePrivateDirectory dir d of
        (Some _, d) \<Rightarrow> (False, d)
      | (None, d) \<Rightarrow>
          (case validatePrivateDirectory (Join dir ''checkpoints'') d of
             (Some _, d) \<Rightarrow> (False, d)
           | (None, d) \<Rightarrow> pointer_expires st limit dir name d))"

text \<open>The loop over the directory: how many were removed, and whether removing failed.\<close>

fun prune_entries :: "profile_store \<Rightarrow> go_time \<Rightarrow> string \<Rightarrow> string list \<Rightarrow> nat \<Rightarrow> disk \<Rightarrow> (nat \<times> bool) \<times> disk" where
  "prune_entries st limit dir [] removed d = ((removed, True), d)"
| "prune_entries st limit dir (name # names) removed d =
     (if \<not> is_directory (Join dir name) d \<or> \<not> validProfileDigest name then prune_entries st limit dir names removed d
      else (case directory_expires st limit (Join dir name) name d of
        (False, d) \<Rightarrow> prune_entries st limit dir names removed d
      | (True, d) \<Rightarrow>
          (case RemoveAll (Join dir name) d of
             (False, d) \<Rightarrow> ((removed, False), d)
           | (True, d) \<Rightarrow> prune_entries st limit dir names (removed + 1) d)))"

definition PruneInactive :: "profile_store \<Rightarrow> go_time \<Rightarrow> store_state \<Rightarrow> (nat \<times> profile_errors) \<times> store_state" where
  "PruneInactive st limit s =
     (case s of (d, w) \<Rightarrow>
        if limit = 0 then ((0, [ErrInvalidConfiguration]), s)
        else if \<not> sw_locked w then ((0, [ErrProfileStoreClosed]), s)
        else (let dir = Join (ps_root st) ''profiles'' in
          (case ReadDir (ps_list st) dir d of
             (None, d) \<Rightarrow> ((0, [ErrProfileOther]), d, w)
           | (Some names, d) \<Rightarrow>
               (case prune_entries st limit dir names 0 d of
                  ((removed, False), d) \<Rightarrow> ((removed, [ErrProfileOther]), d, w)
                | ((removed, True), d) \<Rightarrow>
                    if removed = 0 then ((removed, []), d, w)
                    else (case syncDirectory dir d of
                      (ok, d) \<Rightarrow> ((removed, if ok then [] else [ErrProfileOther]), d, w))))))"

section \<open>Opening and closing the store\<close>

text \<open>\<^verbatim>\<open>store_lock_unix.go\<close>; \<open>busy\<close> tells that another process holds the lock.\<close>

definition acquireStoreLock :: "bool \<Rightarrow> string \<Rightarrow> disk \<Rightarrow> profile_error option \<times> disk" where
  "acquireStoreLock busy path d =
     (case open_lock path d of
        (False, d) \<Rightarrow> (Some ErrProfileOther, d)
      | (True, d) \<Rightarrow>
          (case Chmod path 0x180 d of
             (False, d) \<Rightarrow> (case plain_call d of (_, d) \<Rightarrow> (Some ErrProfileOther, d))
           | (True, d) \<Rightarrow>
               (case Lstat path d of
                  (info, d) \<Rightarrow>
                    if (case info of Inl _ \<Rightarrow> True | Inr nd \<Rightarrow> \<not> is_Regular (nd_kind nd)) then
                      (case plain_call d of (_, d) \<Rightarrow> (Some ErrInvalidConfiguration, d))
                    else if busy then (case plain_call d of (_, d) \<Rightarrow> (Some ErrProfileStoreLocked, d))
                    else (case plain_call d of
                      (False, d) \<Rightarrow> (case plain_call d of (_, d) \<Rightarrow> (Some ErrProfileOther, d))
                    | (True, d) \<Rightarrow> (None, d)))))"

definition releaseStoreLock :: "disk \<Rightarrow> bool \<times> disk" where
  "releaseStoreLock d =
     (case plain_call d of (unlocked, d) \<Rightarrow> (case plain_call d of (shut, d) \<Rightarrow> (unlocked \<and> shut, d)))"

text \<open>The random source is always there; \<open>s\<close> is the state with the lock not held.\<close>

definition newStore :: "bool \<Rightarrow> profile_store \<Rightarrow> store_state \<Rightarrow> profile_error option \<times> store_state" where
  "newStore busy st s =
     (case s of (d, w) \<Rightarrow>
        if \<not> IsAbs (ps_root st) \<or> Clean (ps_root st) \<noteq> ps_root st then (Some ErrInvalidConfiguration, s)
        else (case ensurePrivateDirectory (ps_root st) d of
          (Some e, d) \<Rightarrow> (Some e, d, w)
        | (None, d) \<Rightarrow>
            (case acquireStoreLock busy (Join (ps_root st) ''.manager.lock'') d of
               (Some e, d) \<Rightarrow> (Some e, d, w)
             | (None, d) \<Rightarrow>
                 (case (case migrationMarkerGuard (ps_root st) d of
                          (False, d) \<Rightarrow> (Some ErrProfileMigrationPending, d)
                        | (True, d) \<Rightarrow>
                            (case ensurePrivateDirectory (Join (ps_root st) ''profiles'') d of
                               (Some e, d) \<Rightarrow> (Some e, d)
                             | (None, d) \<Rightarrow> ensurePrivateDirectory (Join (ps_root st) ''quarantine'') d)) of
                    (Some e, d) \<Rightarrow> (case releaseStoreLock d of (_, d) \<Rightarrow> (Some e, d, w))
                  | (None, d) \<Rightarrow> (None, d, w\<lparr>sw_locked := True\<rparr>)))))"

definition Store_Close :: "store_state \<Rightarrow> bool \<times> store_state" where
  "Store_Close s =
     (case s of (d, w) \<Rightarrow>
        if \<not> sw_locked w then (True, s)
        else (case releaseStoreLock d of (ok, d) \<Rightarrow> (ok, d, w\<lparr>sw_locked := False\<rparr>)))"

end
