(* ===== verification/StoreFacts.thy ===== *)
theory StoreFacts
  imports ProfileStore ProfilePaths
begin

text \<open>
  What the operations of the profile store do to the disk whatever calls fail: which paths they
  touch, what a stored profile is made of, and that a checkpoint replaces it as a whole or leaves it
  as it was.
\<close>

section \<open>Paths of the store\<close>

lemma path_of_inject:
  "list_all path_name a \<Longrightarrow> list_all path_name b \<Longrightarrow> path_of a = path_of b \<longleftrightarrow> a = b"
  by (metis path_elements_path_of)

lemma under_iff:
  assumes "list_all path_name a" "list_all path_name b" "a \<noteq> []"
  shows "under (path_of a) (path_of b) \<longleftrightarrow> (\<exists>c. c \<noteq> [] \<and> b = a @ c)"
proof
  assume "under (path_of a) (path_of b)"
  then obtain r where r: "path_of b = path_of a @ CHR ''/'' # r"
    unfolding under_def HasPrefix_def
    by (metis append_Cons append_Nil append_assoc append_take_drop_id)
  have "b \<noteq> []" using r by (auto simp: path_of_def)
  then have "Split (path_of b) (CHR ''/'') = [] # b"
    using Split_join_names [OF assms(2)] by (simp add: path_of_def)
  moreover have "Split (path_of a @ CHR ''/'' # r) (CHR ''/'') = ([] # a) @ Split r (CHR ''/'')"
    using Split_join_names [OF assms(1,3)] by (simp add: Split_append_separator path_of_def)
  ultimately have "b = a @ Split r (CHR ''/'')" using r by simp
  then show "\<exists>c. c \<noteq> [] \<and> b = a @ c" using Split_not_Nil by blast
qed (use under_path_of [OF assms(3)] in blast)

definition subtree :: "string \<Rightarrow> string set" where
  "subtree p = {q. q = p \<or> under p q}"

lemma subtree_self [simp]: "p \<in> subtree p"
  by (simp add: subtree_def)

lemma in_subtree:
  assumes "list_all path_name a" "list_all path_name b" "a \<noteq> []"
  shows "path_of b \<in> subtree (path_of a) \<longleftrightarrow> (\<exists>c. b = a @ c)"
  using under_iff [OF assms] path_of_inject [OF assms(1,2)] by (auto simp: subtree_def)

lemma Join_name:
  assumes "list_all path_name a" "path_name n"
  shows "Join (path_of a) n = path_of (a @ [n])"
  using Join_names [of a "[n]"] assms by simp

lemma under_append: "under p (p @ ''/'' @ r)"
  by (simp add: under_def HasPrefix_def)

lemma path_of_snoc: "a \<noteq> [] \<Longrightarrow> path_of (a @ [n]) = path_of a @ ''/'' @ n"
  by (simp add: path_of_def JoinWith_append)

lemma path_of_snoc_longer: "path_of (a @ [x]) @ n = path_of (a @ [x @ n])"
  by (cases "a = []") (simp_all add: path_of_def JoinWith_append)

lemma hex_name:
  assumes "list_all is_lower_hex n" "n \<noteq> []"
  shows "path_name n"
proof -
  have "\<not> is_lower_hex (CHR ''/'')" "\<not> is_lower_hex (CHR ''.'')" by code_simp+
  then show ?thesis using assms by (auto simp: path_name_def list_all_iff)
qed

lemma pending_name:
  assumes "list_all is_digit n"
  shows "path_name (pendingPrefix @ n)" "\<not> validCheckpointID (pendingPrefix @ n)"
proof -
  have "\<not> is_digit (CHR ''/'')" "\<not> is_lower_hex (CHR ''.'')" by code_simp+
  then show "path_name (pendingPrefix @ n)" "\<not> validCheckpointID (pendingPrefix @ n)"
    using assms by (auto simp: path_name_def pendingPrefix_def list_all_iff validCheckpointID_def)
qed

lemma store_names [simp]:
  "path_name ''profiles''" "path_name ''checkpoints''" "path_name currentFileName"
  "path_name metadataFileName" "path_name payloadFileName" "path_name ''.pending-''" "path_name ''.atomic-''"
  by code_simp+

lemma digest_name [simp]: "path_name (profileDigest contract i)"
proof (rule hex_name)
  show "list_all is_lower_hex (profileDigest contract i)"
    unfolding profileDigest_def by (rule sha256_hex_lower_hex)
  have "length (profileDigest contract i) = 64" by (simp add: profileDigest_def)
  then show "profileDigest contract i \<noteq> []" by auto
qed

lemma checkpoint_name: "validCheckpointID n \<Longrightarrow> path_name n"
  by (rule hex_name) (auto simp: validCheckpointID_def)

section \<open>Steps\<close>

lemma only_at_again: "only_at A a b \<Longrightarrow> only_at A b c \<Longrightarrow> only_at A a c"
  by (simp add: only_at_def)

lemma only_at_Mkdir: "Mkdir p perm d = (ok, d') \<Longrightarrow> only_at {p} d d'"
  by (auto simp: Mkdir_def only_at_def calm_def split: prod.splits if_splits dest!: calm_plain_call)

lemma Mkdir_made: "Mkdir p perm d = (True, d') \<Longrightarrow> dk_nodes d' p = Some (new_directory perm)"
  by (auto simp: Mkdir_def split: prod.splits if_splits)

lemma RemoveAll_step: "RemoveAll p d = (ok, d') \<Longrightarrow> only_at (subtree p) d d'"
  by (auto simp: RemoveAll_def only_at_def subtree_def calm_def split: prod.splits outcome.splits nat.splits
      dest!: calm_next_outcome)

lemma only_at_cleanup: "only_at (subtree p) d (cleanup st p d)"
  using RemoveAll_step [of p d "fst (RemoveAll p d)" "snd (RemoveAll p d)"]
  by (simp add: cleanup_def only_at_calm)

lemma syncDirectory_calm: "syncDirectory p d = (ok, d') \<Longrightarrow> calm d d'"
  by (auto simp: syncDirectory_def split: prod.splits bool.splits dest!: calm_plain_call) (simp add: calm_def)

lemma OpenExclusive_step:
  assumes "OpenExclusive p perm d = (ok, d')"
  shows "only_at {p} d d'"
    "ok \<Longrightarrow> dk_nodes d p = None \<and> dk_nodes d' p = Some \<lparr>nd_kind = Regular [], nd_perm = perm, nd_owned = True\<rparr>"
  using assms
  by (auto simp: OpenExclusive_def only_at_def calm_def split: prod.splits if_splits dest!: calm_plain_call)

lemma finish_file_step:
  assumes "finish_file p raw d = (ok, d')"
  shows "only_at {p} d d'"
    "ok \<Longrightarrow> dk_nodes d' p = map_option (append_bytes raw) (dk_nodes d p)"
proof -
  obtain w d1 where w: "WriteFile p raw d = (w, d1)" by (metis surj_pair)
  obtain s d2 where s: "(if w then plain_call d1 else (False, d1)) = (s, d2)" by (metis surj_pair)
  obtain c d3 where c: "plain_call d2 = (c, d3)" by (metis surj_pair)
  have "calm d1 d2" using s by (auto split: if_splits dest: calm_plain_call)
  then have k: "calm d1 d'" "ok = (s \<and> c)"
    using assms w s c calm_plain_call [OF c] by (auto simp: finish_file_def calm_def)
  then show "only_at {p} d d'" using WriteFile_step(1) [OF w] by (simp add: only_at_def calm_def)
  show "dk_nodes d' p = map_option (append_bytes raw) (dk_nodes d p)" if ok
    using that k s WriteFile_step(2) [OF w] by (auto simp: calm_def split: if_splits)
qed

lemma writeSyncedFile_step:
  assumes "writeSyncedFile p raw perm d = (ok, d')"
  shows "only_at {p} d d'"
    "ok \<Longrightarrow> dk_nodes d' p = Some \<lparr>nd_kind = Regular raw, nd_perm = perm, nd_owned = True\<rparr>"
proof -
  obtain made d1 where o: "OpenExclusive p perm d = (made, d1)" by (metis surj_pair)
  obtain f d2 where f: "finish_file p raw d1 = (f, d2)" by (metis surj_pair)
  have r: "if made then d' = d2 \<and> ok = f else d' = d1 \<and> \<not> ok"
    using assms o f by (cases made) (auto simp: writeSyncedFile_def)
  then show "only_at {p} d d'"
    using OpenExclusive_step(1) [OF o] only_at_trans [OF OpenExclusive_step(1) [OF o] finish_file_step(1) [OF f]]
    by (auto split: if_splits)
  show "dk_nodes d' p = Some \<lparr>nd_kind = Regular raw, nd_perm = perm, nd_owned = True\<rparr>" if ok
    using r that OpenExclusive_step(2) [OF o] finish_file_step(2) [OF f]
    by (auto simp: append_bytes_def split: if_splits)
qed

lemma ensurePrivateDirectory_step:
  assumes "ensurePrivateDirectory p d = (r, d')"
  shows "only_at {p} d d'"
proof -
  obtain s0 e0 where l: "Lstat p d = (s0, e0)" by (metis surj_pair)
  obtain made e1 where m: "Mkdir p 0x1C0 e0 = (made, e1)" by (metis surj_pair)
  obtain s2 e2 where l2: "Lstat p e1 = (s2, e2)" by (metis surj_pair)
  obtain ok3 e3 where c3: "Chmod p 0x1C0 e0 = (ok3, e3)" by (metis surj_pair)
  obtain ok4 e4 where c4: "Chmod p 0x1C0 e2 = (ok4, e4)" by (metis surj_pair)
  have o: "only_at {p} d e0" "only_at {p} d e1" "only_at {p} d e2" "only_at {p} d e3" "only_at {p} d e4"
    using Lstat_truth(1) [OF l] only_at_Mkdir [OF m] Lstat_truth(1) [OF l2] Chmod_step(1) [OF c3] Chmod_step(1) [OF c4]
    by (simp_all add: only_at_def calm_def)
  have "d' \<in> {e0, e1, e2, e3, e4}"
  proof (cases s0)
    case (Inl err)
    then show ?thesis using assms l m l2 c4
      by (cases err; cases made; cases s2) (auto simp: ensurePrivateDirectory_def split: if_splits)
  next
    case (Inr nd)
    then show ?thesis using assms l c3 by (auto simp: ensurePrivateDirectory_def split: if_splits)
  qed
  then show ?thesis using o by auto
qed

lemma MkdirTemp_step:
  assumes "MkdirTemp prefix d = (r, d')"
  shows "r = None \<Longrightarrow> calm d d'"
    "r = Some t \<Longrightarrow> only_at {t} d d' \<and> dk_nodes d t = None \<and> dk_nodes d' t = Some (new_directory 0x1C0)
      \<and> (\<exists>n. t = prefix @ n \<and> list_all is_digit n)"
  using assms fresh_name_free [of "dk_nodes d" prefix "[]" "dk_names _" t]
  by (auto simp: MkdirTemp_def only_at_def calm_def split: prod.splits if_splits option.splits
      dest!: calm_plain_call dest: fresh_name_free)

lemma RenameTree_step:
  assumes "RenameTree old new d = (ok, d')"
  shows "\<not> ok \<Longrightarrow> calm d d'" "only_at (subtree old \<union> subtree new) d d'"
    "ok \<Longrightarrow> dk_nodes d new = None \<and> dk_nodes d' (new @ r) = (if r = [] \<or> HasPrefix r ''/'' then dk_nodes d (old @ r) else dk_nodes d' (new @ r))"
  using assms
  by (auto simp: RenameTree_def only_at_def calm_def subtree_def under_def HasPrefix_def split: prod.splits if_splits
      dest!: calm_plain_call)

lemma newCheckpointID_step:
  "newCheckpointID k dir (d, w) = (r, d', w') \<Longrightarrow>
    calm d d' \<and> (\<forall>c. r = Some c \<longrightarrow> validCheckpointID c \<and> dk_nodes d (Join dir c) = None)"
proof (induction k arbitrary: d w)
  case (Suc k)
  obtain h w1 where h: "randomHex 16 w = (h, w1)" by (metis surj_pair)
  show ?case
  proof (cases h)
    case None
    then show ?thesis using Suc.prems h by auto
  next
    case (Some c)
    have v: "validCheckpointID c"
      using h Some hex_encode_lower_hex
      by (auto simp: randomHex_def read_random_def validCheckpointID_def split: prod.splits if_splits)
    obtain s d1 where l: "Lstat (Join dir c) d = (s, d1)" by (metis surj_pair)
    note t = Lstat_truth [OF l]
    show ?thesis
    proof (cases s)
      case (Inl e)
      then show ?thesis using Suc.prems h Some l t(1,2) v by (cases e) auto
    next
      case (Inr nd)
      then have "newCheckpointID k dir (d1, w1) = (r, d', w')" using Suc.prems h Some l by simp
      from Suc.IH [OF this] t(1) show ?thesis by (simp add: calm_def)
    qed
  qed
qed simp

lemma replace_pointer_step:
  assumes "replace_pointer t p raw perm d = ((published, ok), d')" "t \<noteq> p"
    "dk_nodes d t = Some \<lparr>nd_kind = Regular [], nd_perm = 0x180, nd_owned = True\<rparr>"
  shows "only_at {t, p} d d'" "ok \<Longrightarrow> published" "\<not> published \<Longrightarrow> dk_nodes d' p = dk_nodes d p"
    "published \<Longrightarrow> dk_nodes d' p = Some \<lparr>nd_kind = Regular raw, nd_perm = perm, nd_owned = True\<rparr>"
proof -
  obtain c d1 where c: "Chmod t perm d = (c, d1)" by (metis surj_pair)
  obtain x d0 where x: "plain_call d1 = (x, d0)" by (metis surj_pair)
  obtain f d2 where f: "finish_file t raw d1 = (f, d2)" by (metis surj_pair)
  obtain r d3 where r: "Rename t p d2 = (r, d3)" by (metis surj_pair)
  obtain s d4 where s: "syncDirectory (Dir p) d3 = (s, d4)" by (metis surj_pair)
  have result: "if \<not> c then d' = d0 \<and> \<not> published \<and> \<not> ok
    else if \<not> f then d' = d2 \<and> \<not> published \<and> \<not> ok
    else if \<not> r then d' = d3 \<and> \<not> published \<and> \<not> ok
    else d' = d4 \<and> published \<and> ok = s"
    using assms(1) c x f r s by (cases c; cases f; cases r) (auto simp: replace_pointer_def)
  have o1: "only_at {t, p} d d1" using Chmod_step(1) [OF c] by (rule only_at_mono) simp
  have o0: "only_at {t, p} d d0" using o1 calm_plain_call [OF x] by (simp add: only_at_def calm_def)
  have o2: "only_at {t, p} d d2" using o1 finish_file_step(1) [OF f] by (simp add: only_at_def)
  have o3: "only_at {t, p} d d3" using o2 Rename_step(1) [OF r assms(2)] by (simp add: only_at_def)
  have o4: "only_at {t, p} d d4" using o3 syncDirectory_calm [OF s] by (simp add: only_at_def calm_def)
  show "only_at {t, p} d d'" using result o0 o2 o3 o4 by (auto split: if_splits)
  show "ok \<Longrightarrow> published" using result by (auto split: if_splits)
  have p: "dk_nodes d0 p = dk_nodes d p" "dk_nodes d2 p = dk_nodes d p" "\<not> r \<Longrightarrow> dk_nodes d3 p = dk_nodes d p"
    using assms(2) Chmod_step(1) [OF c] calm_plain_call [OF x] finish_file_step(1) [OF f] Rename_step(3) [OF r assms(2)]
    by (auto simp: only_at_def calm_def)
  then show "\<not> published \<Longrightarrow> dk_nodes d' p = dk_nodes d p" using result by (auto split: if_splits)
  assume published
  then have all: "c" "f" "r" "d' = d4" using result by (auto split: if_splits)
  have "dk_nodes d1 t = Some \<lparr>nd_kind = Regular [], nd_perm = perm, nd_owned = True\<rparr>"
    using Chmod_step(2) [OF c] all(1) assms(3) by simp
  then have "dk_nodes d2 t = Some \<lparr>nd_kind = Regular raw, nd_perm = perm, nd_owned = True\<rparr>"
    using finish_file_step(2) [OF f] all(2) by (simp add: append_bytes_def)
  then show "dk_nodes d' p = Some \<lparr>nd_kind = Regular raw, nd_perm = perm, nd_owned = True\<rparr>"
    using Rename_step(2) [OF r assms(2)] all(3,4) syncDirectory_calm [OF s] by (simp add: calm_def)
qed

text \<open>The path that is written does not end in a digit.\<close>

lemma atomicWriteFile_step:
  assumes "atomicWriteFile p raw perm d = ((published, ok), d')" "\<not> is_digit (last p)"
  shows "calm d d' \<and> \<not> published \<or> (\<exists>t. t \<noteq> p \<and> dk_nodes d t = None \<and> only_at {t, p} d d')"
    "ok \<Longrightarrow> published" "\<not> published \<Longrightarrow> dk_nodes d' p = dk_nodes d p"
    "published \<Longrightarrow> dk_nodes d' p = Some \<lparr>nd_kind = Regular raw, nd_perm = perm, nd_owned = True\<rparr>"
proof -
  obtain q d1 where q: "CreateTemp (Join (Dir p) ''.atomic-'') [] d = (q, d1)" by (metis surj_pair)
  note k = CreateTemp_step [OF q]
  have "(calm d d' \<and> \<not> published \<or> (\<exists>t. t \<noteq> p \<and> dk_nodes d t = None \<and> only_at {t, p} d d'))
    \<and> (ok \<longrightarrow> published) \<and> (\<not> published \<longrightarrow> dk_nodes d' p = dk_nodes d p)
    \<and> (published \<longrightarrow> dk_nodes d' p = Some \<lparr>nd_kind = Regular raw, nd_perm = perm, nd_owned = True\<rparr>)"
  proof (cases q)
    case None
    then show ?thesis using assms(1) q k(1) by (simp add: atomicWriteFile_def calm_def)
  next
    case (Some t)
    note k = k(2) [OF Some]
    obtain n where "t = Join (Dir p) ''.atomic-'' @ n" "n \<noteq> []" "list_all is_digit n" using k by auto
    then have "is_digit (last t)" by (simp add: list_all_iff)
    then have t: "t \<noteq> p" using assms(2) by auto
    obtain pub o2 d2 where r: "replace_pointer t p raw perm d1 = ((pub, o2), d2)" by (metis surj_pair)
    obtain e d3 where e: "Remove t d2 = (e, d3)" by (metis surj_pair)
    have same: "published = pub" "ok = o2" "d' = d3"
      using assms(1) q Some r e by (simp_all add: atomicWriteFile_def)
    note m = replace_pointer_step [OF r t]
    have n: "dk_nodes d1 t = Some \<lparr>nd_kind = Regular [], nd_perm = 0x180, nd_owned = True\<rparr>" using k by blast
    note m = m [OF n]
    have "only_at {t, p} d d'"
      using k m(1) Remove_step(1) [OF e] by (simp add: same only_at_def)
    moreover have "dk_nodes d' p = dk_nodes d2 p" "dk_nodes d1 p = dk_nodes d p"
      using t Remove_step(1) [OF e] k by (simp_all add: same only_at_def)
    ultimately show ?thesis using t k m(2-4) by (auto simp: same)
  qed
  then show "calm d d' \<and> \<not> published \<or> (\<exists>t. t \<noteq> p \<and> dk_nodes d t = None \<and> only_at {t, p} d d')"
    "ok \<Longrightarrow> published" "\<not> published \<Longrightarrow> dk_nodes d' p = dk_nodes d p"
    "published \<Longrightarrow> dk_nodes d' p = Some \<lparr>nd_kind = Regular raw, nd_perm = perm, nd_owned = True\<rparr>" by auto
qed

section \<open>Filling a pending checkpoint\<close>

lemma fill_checkpoint_step:
  assumes "fill_checkpoint st pending m c payload (d, w) = (errs, d', w')"
    "pending = path_of a" "a \<noteq> []" "list_all path_name a"
  shows "only_at (subtree pending - {pending}) d d'"
    "errs = [] \<Longrightarrow> \<exists>raw sealed random random'. marshalMetadata (ps_marshalMetadata st) m = Inr raw
      \<and> payload_encrypt c payload random = (Inr sealed, random')
      \<and> dk_nodes d' (Join pending metadataFileName) = Some \<lparr>nd_kind = Regular raw, nd_perm = 0x180, nd_owned = True\<rparr>
      \<and> dk_nodes d' (Join pending payloadFileName) = Some \<lparr>nd_kind = Regular sealed, nd_perm = 0x180, nd_owned = True\<rparr>"
proof -
  have j: "Join pending metadataFileName = path_of (a @ [metadataFileName])"
    "Join pending payloadFileName = path_of (a @ [payloadFileName])"
    using assms(2,4) by (simp_all add: Join_name)
  have names: "list_all path_name (a @ [metadataFileName])" "list_all path_name (a @ [payloadFileName])"
    using assms(4) by simp_all
  have sub: "path_of (a @ [metadataFileName]) \<in> subtree pending - {pending}"
    "path_of (a @ [payloadFileName]) \<in> subtree pending - {pending}"
    "path_of (a @ [metadataFileName]) \<noteq> path_of (a @ [payloadFileName])"
    using in_subtree [OF assms(4) names(1) assms(3)] in_subtree [OF assms(4) names(2) assms(3)]
      path_of_inject [OF names(1) assms(4)] path_of_inject [OF names(2) assms(4)] path_of_inject [OF names] assms(2)
    by (auto simp: metadataFileName_def payloadFileName_def)
  let ?A = "subtree pending - {pending}" and ?m = "Join pending metadataFileName" and ?p = "Join pending payloadFileName"
  have sub': "?m \<in> ?A" "?p \<in> ?A" "?m \<noteq> ?p" using sub by (simp_all add: j)
  show "only_at ?A d d'" "errs = [] \<Longrightarrow> \<exists>raw sealed random random'. marshalMetadata (ps_marshalMetadata st) m = Inr raw
      \<and> payload_encrypt c payload random = (Inr sealed, random')
      \<and> dk_nodes d' ?m = Some \<lparr>nd_kind = Regular raw, nd_perm = 0x180, nd_owned = True\<rparr>
      \<and> dk_nodes d' ?p = Some \<lparr>nd_kind = Regular sealed, nd_perm = 0x180, nd_owned = True\<rparr>"
  proof -
    have "only_at ?A d d' \<and> (errs = [] \<longrightarrow> (\<exists>raw sealed random random'. marshalMetadata (ps_marshalMetadata st) m = Inr raw
      \<and> payload_encrypt c payload random = (Inr sealed, random')
      \<and> dk_nodes d' ?m = Some \<lparr>nd_kind = Regular raw, nd_perm = 0x180, nd_owned = True\<rparr>
      \<and> dk_nodes d' ?p = Some \<lparr>nd_kind = Regular sealed, nd_perm = 0x180, nd_owned = True\<rparr>))"
    proof (cases "marshalMetadata (ps_marshalMetadata st) m")
      case (Inl e)
      then show ?thesis using assms(1) by (auto simp: fill_checkpoint_def only_at_def)
    next
      case (Inr raw)
      obtain o1 d1 where w1: "writeSyncedFile ?m raw 0x180 d = (o1, d1)" by (metis surj_pair)
      obtain o2 d2 where x: "OpenExclusive ?p 0x180 d1 = (o2, d2)" by (metis surj_pair)
      obtain q random' where q: "payload_encrypt c payload (sw_random w) = (q, random')" by (metis surj_pair)
      obtain o3 d3 where p: "plain_call d2 = (o3, d3)" by (metis surj_pair)
      have a1: "only_at ?A d d1" by (rule only_at_mono [OF writeSyncedFile_step(1) [OF w1]]) (use sub' in simp)
      have "only_at ?A d1 d2" by (rule only_at_mono [OF OpenExclusive_step(1) [OF x]]) (use sub' in simp)
      then have a2: "only_at ?A d d2" by (rule only_at_again [OF a1])
      have a3: "only_at ?A d d3" using a2 calm_plain_call [OF p] by (simp add: only_at_def calm_def)
      show ?thesis
      proof (cases "o1 \<and> o2 \<and> (\<exists>sealed. q = Inr sealed)")
        case False
        then have "(d' = d1 \<or> d' = d2 \<or> d' = d3) \<and> errs \<noteq> []"
          using assms(1) Inr w1 x q p
          by (cases o1; cases o2; cases q) (auto simp: fill_checkpoint_def)
        then show ?thesis using a1 a2 a3 by auto
      next
        case True
        then obtain sealed where t: "o1" "o2" "q = Inr sealed" by blast
        obtain o4 d4 where f: "finish_file ?p sealed d2 = (o4, d4)" by (metis surj_pair)
        obtain o5 d5 where s: "syncDirectory pending d4 = (o5, d5)" by (metis surj_pair)
        have r: "if o4 then d' = d5 \<and> (errs = [] \<longleftrightarrow> o5) else d' = d4 \<and> errs \<noteq> []"
          using assms(1) Inr w1 x q t f s by (cases o4; cases o5) (auto simp: fill_checkpoint_def)
        have "only_at ?A d2 d4" by (rule only_at_mono [OF finish_file_step(1) [OF f]]) (use sub' in simp)
        then have a4: "only_at ?A d d4" by (rule only_at_again [OF a2])
        have a5: "only_at ?A d d5" using a4 syncDirectory_calm [OF s] by (simp add: only_at_def calm_def)
        have "dk_nodes d4 ?p = Some \<lparr>nd_kind = Regular sealed, nd_perm = 0x180, nd_owned = True\<rparr>" if o4
          using that finish_file_step(2) [OF f] OpenExclusive_step(2) [OF x] t(2) by (simp add: append_bytes_def)
        moreover have "dk_nodes d4 ?m = Some \<lparr>nd_kind = Regular raw, nd_perm = 0x180, nd_owned = True\<rparr>"
          using writeSyncedFile_step(2) [OF w1] t(1) OpenExclusive_step(1) [OF x] finish_file_step(1) [OF f] sub'(3)
          by (simp add: only_at_def)
        ultimately show ?thesis
          using r a4 a5 Inr q t(3) syncDirectory_calm [OF s] by (auto simp: calm_def split: if_splits)
      qed
    qed
    then show "only_at ?A d d'" "errs = [] \<Longrightarrow> \<exists>raw sealed random random'. marshalMetadata (ps_marshalMetadata st) m = Inr raw
      \<and> payload_encrypt c payload random = (Inr sealed, random')
      \<and> dk_nodes d' ?m = Some \<lparr>nd_kind = Regular raw, nd_perm = 0x180, nd_owned = True\<rparr>
      \<and> dk_nodes d' ?p = Some \<lparr>nd_kind = Regular sealed, nd_perm = 0x180, nd_owned = True\<rparr>" by auto
  qed
qed

section \<open>Stored profiles\<close>

definition readable :: "string \<Rightarrow> bytes \<Rightarrow> disk \<Rightarrow> bool" where
  "readable p raw d \<longleftrightarrow> (\<exists>nd. dk_nodes d p = Some nd \<and> nd_kind nd = Regular raw \<and> private_mode nd)"

definition stored ::
    "profile_store \<Rightarrow> profile_identity \<Rightarrow> root_keys \<Rightarrow> string \<Rightarrow> profile_metadata \<Rightarrow> payload_cipher \<Rightarrow> bytes \<Rightarrow> disk \<Rightarrow> bool" where
  "stored st i roots checkpoint m c stream d \<longleftrightarrow>
     private_dir_at (profileDir st i) d
     \<and> (\<exists>raw cu. readable (Join (profileDir st i) currentFileName) raw d \<and> parseCurrent st raw = Some cu
          \<and> cu_Checkpoint cu = checkpoint)
     \<and> private_dir_at (snapshot_dir st i checkpoint) d
     \<and> (\<exists>raw. readable (Join (snapshot_dir st i checkpoint) metadataFileName) raw d
          \<and> parseMetadata (ps_metadata st) storageContractV2 raw = Inr m)
     \<and> validRoot (roots (pm_RootKeyGeneration m)) \<and> protector_open m i (roots (pm_RootKeyGeneration m)) = Inr c
     \<and> readable (Join (snapshot_dir st i checkpoint) payloadFileName) stream d"

lemma validatePrivateDirectory_truth:
  assumes "validatePrivateDirectory p d = (r, d')"
  shows "calm d d'" "r = None \<Longrightarrow> private_dir_at p d"
  using assms Lstat_truth [of p d]
  by (auto simp: validatePrivateDirectory_def private_dir_at_def split: prod.splits sum.splits if_splits)

lemma openRegularFile_truth:
  assumes "openRegularFile p d = (ok, d')"
  shows "calm d d'" "ok \<Longrightarrow> \<exists>raw. readable p raw d"
proof -
  obtain s d1 where l: "Lstat p d = (s, d1)" by (metis surj_pair)
  note t = Lstat_truth [OF l]
  have "calm d1 d' \<and> (ok \<longrightarrow> (\<exists>nd. s = Inr nd \<and> is_Regular (nd_kind nd) \<and> private_mode nd))"
    using assms l
    by (auto simp: openRegularFile_def split: sum.splits if_splits prod.splits bool.splits dest!: calm_plain_call)
      (simp_all add: calm_def)
  then show "calm d d'" "ok \<Longrightarrow> \<exists>raw. readable p raw d"
    using t(1) t(3) calm_trans by (blast, auto simp: readable_def is_Regular_def)
qed

lemma readBoundedRegularFile_truth:
  assumes "readBoundedRegularFile p limit d = (r, d')"
  shows "calm d d'" "r = Some raw \<Longrightarrow> readable p raw d"
proof -
  obtain ok d1 where o: "openRegularFile p d = (ok, d1)" by (metis surj_pair)
  obtain q d2 where q: "ReadFile p d1 = (q, d2)" by (metis surj_pair)
  note k = openRegularFile_truth [OF o] ReadFile_truth [OF q]
  have r: "if ok then d' = d2 \<and> (r = None \<or> r = q) else d' = d1 \<and> r = None"
    using assms o q by (auto simp: readBoundedRegularFile_def split: bool.splits option.splits if_splits)
  then show "calm d d'" using k(1,3) calm_trans by (auto split: if_splits)
  assume "r = Some raw"
  then have "ok" "q = Some raw" using r by (auto split: if_splits)
  then have "\<exists>bs. readable p bs d" "file_bytes p d1 = Some raw" using k(2) k(4) by auto
  then show "readable p raw d" using k(1) by (auto simp: readable_def file_bytes_def calm_def)
qed

lemma calm_files:
  assumes "calm d d'"
  shows "readable p raw d' = readable p raw d" "private_dir_at p d' = private_dir_at p d"
    "stored st i roots checkpoint m c stream d' = stored st i roots checkpoint m c stream d"
    "file_bytes p d' = file_bytes p d"
  using assms by (simp_all add: readable_def private_dir_at_def stored_def calm_def file_bytes_def)

lemma open_checkpoint_truth:
  assumes "open_checkpoint st i roots dir d = (r, d')"
  shows "calm d d'"
    "r = Inr sn \<Longrightarrow> private_dir_at dir d
      \<and> (\<exists>raw. readable (Join dir metadataFileName) raw d
          \<and> parseMetadata (ps_metadata st) storageContractV2 raw = Inr (sn_metadata sn))
      \<and> validRoot (roots (pm_RootKeyGeneration (sn_metadata sn)))
      \<and> protector_open (sn_metadata sn) i (roots (pm_RootKeyGeneration (sn_metadata sn))) = Inr (sn_cipher sn)
      \<and> (\<exists>stream. readable (Join dir payloadFileName) stream d) \<and> sn_payload sn = Join dir payloadFileName"
proof -
  obtain v d1 where v: "validatePrivateDirectory dir d = (v, d1)" by (metis surj_pair)
  obtain q d2 where q: "readBoundedRegularFile (Join dir metadataFileName) maxMetadataBytes d1 = (q, d2)" by (metis surj_pair)
  obtain ok d3 where o: "openRegularFile (Join dir payloadFileName) d2 = (ok, d3)" by (metis surj_pair)
  note k = validatePrivateDirectory_truth [OF v] readBoundedRegularFile_truth [OF q] openRegularFile_truth [OF o]
  have c: "calm d d1" "calm d d2" "calm d d3"
    using k(1,3,5) by (simp_all add: calm_def)
  have "d' \<in> {d1, d2, d3}"
    using assms v q o
    by (auto simp: open_checkpoint_def split: option.splits sum.splits if_splits bool.splits)
  then show "calm d d'" using c by auto
  assume r: "r = Inr sn"
  have x: "v = None" "\<exists>raw. q = Some raw \<and> parseMetadata (ps_metadata st) storageContractV2 raw = Inr (sn_metadata sn)"
    "validRoot (roots (pm_RootKeyGeneration (sn_metadata sn)))"
    "protector_open (sn_metadata sn) i (roots (pm_RootKeyGeneration (sn_metadata sn))) = Inr (sn_cipher sn)"
    "ok" "sn_payload sn = Join dir payloadFileName"
    using assms [unfolded r] v q o
    by (auto simp: open_checkpoint_def split: option.splits sum.splits if_splits bool.splits)
  obtain raw where raw: "q = Some raw" "parseMetadata (ps_metadata st) storageContractV2 raw = Inr (sn_metadata sn)"
    using x(2) by blast
  have "private_dir_at dir d" "readable (Join dir metadataFileName) raw d" "\<exists>stream. readable (Join dir payloadFileName) stream d"
    using k(2) [OF x(1)] k(4) [OF raw(1)] k(6) [OF x(5)] calm_files(1) [OF c(1)] calm_files(1) [OF c(2)] by auto
  with x raw(2) show "private_dir_at dir d
      \<and> (\<exists>raw. readable (Join dir metadataFileName) raw d
          \<and> parseMetadata (ps_metadata st) storageContractV2 raw = Inr (sn_metadata sn))
      \<and> validRoot (roots (pm_RootKeyGeneration (sn_metadata sn)))
      \<and> protector_open (sn_metadata sn) i (roots (pm_RootKeyGeneration (sn_metadata sn))) = Inr (sn_cipher sn)
      \<and> (\<exists>stream. readable (Join dir payloadFileName) stream d) \<and> sn_payload sn = Join dir payloadFileName" by blast
qed

lemma openSnapshot_truth:
  assumes "openSnapshot st i roots d = (r, d')"
  shows "calm d d'"
    "r = Inr sn \<Longrightarrow> \<exists>checkpoint stream. stored st i roots checkpoint (sn_metadata sn) (sn_cipher sn) stream d
      \<and> sn_payload sn = Join (snapshot_dir st i checkpoint) payloadFileName"
proof -
  obtain v d1 where v: "validatePrivateDirectory (profileDir st i) d = (v, d1)" by (metis surj_pair)
  obtain g d0 where g: "legacyProfileGuard st i d1 = (g, d0)" by (metis surj_pair)
  obtain q d2 where q: "readBoundedRegularFile (Join (profileDir st i) currentFileName) maxCurrentBytes d1 = (q, d2)"
    by (metis surj_pair)
  note k = validatePrivateDirectory_truth [OF v] readBoundedRegularFile_truth [OF q]
  have l: "calm d1 d0" using g Lstat_truth(1) by (auto simp: legacyProfileGuard_def split: prod.splits)
  have c: "calm d d1" "calm d d2" "calm d d0" using k(1,3) l by (simp_all add: calm_def)
  have "calm d d' \<and> (\<forall>sn. r = Inr sn \<longrightarrow>
    (\<exists>checkpoint stream. stored st i roots checkpoint (sn_metadata sn) (sn_cipher sn) stream d
      \<and> sn_payload sn = Join (snapshot_dir st i checkpoint) payloadFileName))"
  proof (cases "v = None \<and> (\<exists>raw cu. q = Some raw \<and> parseCurrent st raw = Some cu)")
    case False
    then have "d' \<in> {d0, d1, d2} \<and> (\<forall>sn. r \<noteq> Inr sn)"
      using assms v g q by (auto simp: openSnapshot_def split: option.splits os_error.splits bool.splits)
    then show ?thesis using c by auto
  next
    case True
    then obtain raw cu where t: "v = None" "q = Some raw" "parseCurrent st raw = Some cu" by blast
    have o: "open_checkpoint st i roots (snapshot_dir st i (cu_Checkpoint cu)) d2 = (r, d')"
      using assms v q t by (simp add: openSnapshot_def)
    note oc = open_checkpoint_truth [OF o]
    have "calm d d'" using c(2) oc(1) by (simp add: calm_def)
    moreover have "\<exists>checkpoint stream. stored st i roots checkpoint (sn_metadata sn) (sn_cipher sn) stream d
      \<and> sn_payload sn = Join (snapshot_dir st i checkpoint) payloadFileName" if r: "r = Inr sn" for sn
      using oc(2) [OF r] k(2) [OF t(1)] k(4) [OF t(2)] t(3) calm_files(1,2) [OF c(2)] calm_files(1,2) [OF c(1)]
      unfolding stored_def by blast
    ultimately show ?thesis by blast
  qed
  then show "calm d d'" "r = Inr sn \<Longrightarrow> \<exists>checkpoint stream. stored st i roots checkpoint (sn_metadata sn) (sn_cipher sn) stream d
      \<and> sn_payload sn = Join (snapshot_dir st i checkpoint) payloadFileName" by auto
qed

lemma openSnapshot_stored:
  assumes "stored st i roots checkpoint m c stream d" "dk_outcomes d = []"
  shows "openSnapshot st i roots d
    = (Inr \<lparr>sn_metadata = m, sn_payload = Join (snapshot_dir st i checkpoint) payloadFileName, sn_cipher = c\<rparr>, d)"
proof -
  have v: "validatePrivateDirectory p d = (None, d)" if "private_dir_at p d" for p
    using that assms(2) by (auto simp: private_dir_at_def validatePrivateDirectory_def Lstat_def next_outcome_def)
  have o: "openRegularFile p d = (True, d)" if "readable p raw d" for p raw
    using that assms(2) by (auto simp: readable_def openRegularFile_def Lstat_def next_outcome_def plain_call_def)
  have b: "readBoundedRegularFile p limit d = (if limit < length raw then None else Some raw, d)" if "readable p raw d" for p raw limit
    using that assms(2) o [OF that]
    by (auto simp: readable_def readBoundedRegularFile_def ReadFile_def plain_call_def next_outcome_def file_bytes_def)
  obtain raw cu where cu: "readable (Join (profileDir st i) currentFileName) raw d" "parseCurrent st raw = Some cu"
    "cu_Checkpoint cu = checkpoint" using assms(1) by (auto simp: stored_def)
  obtain mraw where mr: "readable (Join (snapshot_dir st i checkpoint) metadataFileName) mraw d"
    "parseMetadata (ps_metadata st) storageContractV2 mraw = Inr m" using assms(1) by (auto simp: stored_def)
  have "length raw \<le> maxCurrentBytes" using cu(2) by (auto simp: parseCurrent_def split: if_splits)
  moreover have "length mraw \<le> maxMetadataBytes" using mr(2) by (auto simp: parseMetadata_def split: if_splits)
  ultimately show ?thesis
    using assms(1) v b [OF cu(1)] b [OF mr(1)] cu(2,3) mr(2) o
    by (auto simp: stored_def openSnapshot_def open_checkpoint_def)
qed

text \<open>What \<^verbatim>\<open>Load\<close> gives when no call fails.\<close>

definition loads_as :: "profile_store \<Rightarrow> root_keys \<Rightarrow> profile_identity \<Rightarrow> disk \<Rightarrow> bytes \<Rightarrow> bool" where
  "loads_as st roots i d payload \<longleftrightarrow>
     fst (Store_Load st roots (\<lambda>_ d. (True, d)) i
       (d\<lparr>dk_outcomes := []\<rparr>, \<lparr>sw_random = [], sw_locked = True\<rparr>)) = Inr payload"

lemma readable_unique: "readable p a d \<Longrightarrow> readable p b d \<Longrightarrow> a = b"
  by (auto simp: readable_def)

lemma loads_as_iff:
  "loads_as st roots i d payload \<longleftrightarrow>
     pid_valid i \<and> (\<exists>checkpoint m c stream. stored st i roots checkpoint m c stream d
       \<and> payload_decrypt c stream = (None, payload))" (is "_ \<longleftrightarrow> ?r")
proof -
  let ?d = "d\<lparr>dk_outcomes := []\<rparr>" and ?w = "\<lparr>sw_random = [], sw_locked = True\<rparr>"
  have same: "stored st i roots checkpoint m c stream ?d = stored st i roots checkpoint m c stream d"
    for checkpoint m c stream by (simp add: stored_def readable_def private_dir_at_def)
  have load: "fst (Store_Load st roots (\<lambda>_ d. (True, d)) i (?d, ?w)) =
      (if fst (payload_decrypt c stream) = None then Inr (snd (payload_decrypt c stream))
       else fst (Store_Load st roots (\<lambda>_ d. (True, d)) i (?d, ?w)))"
    if "stored st i roots checkpoint m c stream d" "pid_valid i" for checkpoint m c stream
  proof -
    have "file_bytes (Join (snapshot_dir st i checkpoint) payloadFileName) ?d = Some stream"
      using that(1) by (auto simp: stored_def readable_def file_bytes_def)
    then show ?thesis
      using openSnapshot_stored [OF that(1) [folded same]] that(2)
      by (auto simp: Store_Load_def deliver_payload_def decrypt_file_def plain_call_def next_outcome_def Let_def
          split: prod.splits)
  qed
  show ?thesis
  proof
    assume l: "loads_as st roots i d payload"
    then have v: "pid_valid i" by (auto simp: loads_as_def Store_Load_def split: if_splits)
    obtain r e where o: "openSnapshot st i roots ?d = (r, e)" by (metis surj_pair)
    have "\<exists>sn. r = Inr sn"
      using l v o by (cases r) (auto simp: loads_as_def Store_Load_def split: prod.splits)
    then obtain sn where sn: "r = Inr sn" by blast
    obtain checkpoint stream where st: "stored st i roots checkpoint (sn_metadata sn) (sn_cipher sn) stream ?d"
      "sn_payload sn = Join (snapshot_dir st i checkpoint) payloadFileName"
      using openSnapshot_truth(2) [OF o sn] by blast
    have "file_bytes (sn_payload sn) ?d = Some stream"
      using st by (auto simp: stored_def readable_def file_bytes_def)
    moreover have "openSnapshot st i roots ?d = (Inr sn, ?d)"
      using openSnapshot_stored [OF st(1)] o sn by simp
    ultimately have "payload_decrypt (sn_cipher sn) stream = (None, payload)"
      using l v
      by (auto simp: loads_as_def Store_Load_def deliver_payload_def decrypt_file_def plain_call_def next_outcome_def Let_def
          split: prod.splits option.splits)
    then show ?r using v st(1) same by blast
  next
    assume ?r
    then obtain checkpoint m c stream where s: "pid_valid i" "stored st i roots checkpoint m c stream d"
      "payload_decrypt c stream = (None, payload)" by blast
    from load [OF s(2,1)] s(3) show "loads_as st roots i d payload" by (simp add: loads_as_def)
  qed
qed

section \<open>Publishing a checkpoint\<close>

text \<open>
  What a checkpoint may touch besides the pointer: what is not there, the directory of the
  checkpoints itself, and the trees of names that are free in it.
\<close>

definition spare :: "string list \<Rightarrow> disk \<Rightarrow> string set" where
  "spare c d = {p. dk_nodes d p = None} \<union> {path_of c}
     \<union> {p. \<exists>x. path_name x \<and> dk_nodes d (path_of (c @ [x])) = None \<and> p \<in> subtree (path_of (c @ [x]))}"

definition other_checkpoints :: "string list \<Rightarrow> string \<Rightarrow> string set" where
  "other_checkpoints c ck = {p. \<exists>x. path_name x \<and> x \<noteq> ck \<and> p \<in> subtree (path_of (c @ [x]))}"

lemma file_name_iff: "file_name n \<longleftrightarrow> path_name n"
  by (auto simp: file_name_def path_name_def ContainsByte_def list_ex_iff)

lemma remove_named_step:
  assumes "list_all path_name c"
  shows "list_all path_name ns \<Longrightarrow> only_at (other_checkpoints c ck) d (remove_named (path_of c) ck ns d)"
proof (induction ns arbitrary: d)
  case (Cons n ns)
  obtain ok d1 where r: "RemoveAll (Join (path_of c) n) d = (ok, d1)" by (metis surj_pair)
  have "only_at (other_checkpoints c ck) d d1" if "n \<noteq> ck"
    using RemoveAll_step [OF r] Join_name [OF assms, of n] Cons.prems that
    by (intro only_at_mono [OF RemoveAll_step [OF r]]) (auto simp: other_checkpoints_def)
  then show ?case using Cons r only_at_again by fastforce
qed (simp add: only_at_calm)

lemma removeOldCheckpoints_step:
  assumes "list_all path_name c"
  shows "only_at (other_checkpoints c ck) d (removeOldCheckpoints st (path_of c) ck d)"
proof -
  obtain q d1 where q: "ReadDir (ps_list st) (path_of c) d = (q, d1)" by (metis surj_pair)
  have k: "calm d d1" using q calm_plain_call by (auto simp: ReadDir_def split: prod.splits)
  have names: "list_all path_name ns" if "q = Some ns" for ns
    using q that by (auto simp: ReadDir_def list_all_iff file_name_iff split: prod.splits if_splits)
  show ?thesis
  proof (cases q)
    case None
    then show ?thesis using q k by (simp add: removeOldCheckpoints_def only_at_calm)
  next
    case (Some ns)
    obtain ok d2 where s: "syncDirectory (path_of c) (remove_named (path_of c) ck ns d1) = (ok, d2)" by (metis surj_pair)
    have "only_at (other_checkpoints c ck) d (remove_named (path_of c) ck ns d1)"
      using remove_named_step [OF assms names [OF Some]] k by (auto simp: only_at_def calm_def)
    then show ?thesis using q Some s syncDirectory_calm [OF s]
      by (simp add: removeOldCheckpoints_def only_at_def calm_def)
  qed
qed

lemma path_of_below: "a \<noteq> [] \<Longrightarrow> \<exists>q. path_of (a @ rest) = path_of a @ q \<and> (q = [] \<or> HasPrefix q ''/'')"
  by (cases "rest = []") (auto simp: path_of_def JoinWith_append HasPrefix_def)

lemma RenameTree_moves:
  assumes "RenameTree (path_of a) (path_of b) d = (True, d')" "length a = length b" "a \<noteq> []"
  shows "dk_nodes d' (path_of (b @ rest)) = dk_nodes d (path_of (a @ rest))"
proof -
  have "b \<noteq> []" using assms(2,3) by auto
  have q: "path_of (a @ rest) = path_of a @ q" "path_of (b @ rest) = path_of b @ q"
    if "q = (if rest = [] then [] else CHR ''/'' # JoinWith (CHR ''/'') rest)" for q
    using assms(3) \<open>b \<noteq> []\<close> that by (auto simp: path_of_def JoinWith_append)
  let ?q = "if rest = [] then [] else CHR ''/'' # JoinWith (CHR ''/'') rest"
  have "?q = [] \<or> HasPrefix ?q ''/''" by (simp add: HasPrefix_def)
  then show ?thesis
    using RenameTree_step(3) [OF assms(1), of ?q] unfolding q [OF refl] by simp
qed

lemma last_path_of: "n \<noteq> [] \<Longrightarrow> last (path_of (a @ [n])) = last n"
  by (cases "a = []") (simp_all add: path_of_def JoinWith_append)

lemma in_other_checkpoints:
  assumes "list_all path_name c" "list_all path_name b" "path_of b \<in> other_checkpoints c ck"
  shows "\<exists>x s. x \<noteq> ck \<and> b = c @ x # s"
proof -
  obtain x where x: "path_name x" "x \<noteq> ck" "path_of b \<in> subtree (path_of (c @ [x]))"
    using assms(3) by (auto simp: other_checkpoints_def)
  then have "\<exists>s. b = (c @ [x]) @ s"
    using in_subtree [of "c @ [x]" b] assms(1,2) by simp
  with x(2) show ?thesis by auto
qed

lemma publish_checkpoint_step:
  assumes run: "publish_checkpoint st (path_of p) (path_of (c @ [pn])) (d, w) = ((committed, errs, last_dir), d', w')"
    and c: "c = p @ [''checkpoints'']" and names: "list_all path_name p" "path_name pn" "\<not> validCheckpointID pn"
  shows "\<not> committed \<Longrightarrow> errs \<noteq> [] \<and> only_at (subtree (path_of (c @ [pn])) \<union> spare c d) d d'
      \<and> subtree last_dir \<subseteq> subtree (path_of (c @ [pn])) \<union> spare c d"
    "committed \<Longrightarrow> \<exists>ck raw. validCheckpointID ck
      \<and> ps_marshalCurrent st \<lparr>cu_Version = currentVersion, cu_Checkpoint = ck\<rparr> = Some raw
      \<and> dk_nodes d' (path_of (p @ [currentFileName])) = Some \<lparr>nd_kind = Regular raw, nd_perm = 0x180, nd_owned = True\<rparr>
      \<and> (\<forall>rest nd. list_all path_name rest \<longrightarrow> dk_nodes d (path_of (c @ [pn] @ rest)) = Some nd \<longrightarrow>
            dk_nodes d' (path_of (c @ [ck] @ rest)) = Some nd)
      \<and> (\<forall>nd. dk_nodes d (path_of p) = Some nd \<longrightarrow> dk_nodes d' (path_of p) = Some nd)"
proof -
  let ?pend = "path_of (c @ [pn])" and ?cur = "path_of (p @ [currentFileName])"
  let ?A = "subtree ?pend \<union> spare c d"
  have cn: "list_all path_name c" "c \<noteq> []" using c names by simp_all
  have jc: "Join (path_of p) ''checkpoints'' = path_of c" using Join_name [OF names(1), of "''checkpoints''"] c by simp
  have jcur: "Join (path_of p) currentFileName = ?cur" using Join_name [OF names(1)] by simp
  obtain q d1 w1 where q: "newCheckpointID 8 (path_of c) (d, w) = (q, d1, w1)" by (metis prod_cases3)
  note qk = newCheckpointID_step [OF q]
  have d1: "only_at ?A d d1" using qk by (simp add: only_at_calm)
  have "(\<not> committed \<longrightarrow> errs \<noteq> [] \<and> only_at ?A d d' \<and> subtree last_dir \<subseteq> ?A)
    \<and> (committed \<longrightarrow> (\<exists>ck raw. validCheckpointID ck
      \<and> ps_marshalCurrent st \<lparr>cu_Version = currentVersion, cu_Checkpoint = ck\<rparr> = Some raw
      \<and> dk_nodes d' ?cur = Some \<lparr>nd_kind = Regular raw, nd_perm = 0x180, nd_owned = True\<rparr>
      \<and> (\<forall>rest nd. list_all path_name rest \<longrightarrow> dk_nodes d (path_of (c @ [pn] @ rest)) = Some nd \<longrightarrow>
            dk_nodes d' (path_of (c @ [ck] @ rest)) = Some nd)
      \<and> (\<forall>nd. dk_nodes d (path_of p) = Some nd \<longrightarrow> dk_nodes d' (path_of p) = Some nd)))"
  proof (cases q)
    case None
    then show ?thesis using run q d1 by (auto simp: publish_checkpoint_def jc)
  next
    case (Some ck)
    have ck: "validCheckpointID ck" "path_name ck" "ck \<noteq> pn" "dk_nodes d (path_of (c @ [ck])) = None"
      using qk Some names(3) checkpoint_name Join_name [OF cn(1)] by auto
    have jf: "Join (path_of c) ck = path_of (c @ [ck])" using Join_name [OF cn(1) ck(2)] .
    have fs: "subtree (path_of (c @ [ck])) \<subseteq> ?A" using ck(2,4) by (auto simp: spare_def)
    obtain rn d2 where rn: "RenameTree ?pend (path_of (c @ [ck])) d1 = (rn, d2)" by (metis surj_pair)
    have d12: "only_at ?A d1 d2" by (rule only_at_mono [OF RenameTree_step(2) [OF rn]]) (use fs in blast)
    have d2: "only_at ?A d d2" by (rule only_at_again [OF d1 d12])
    obtain sy d3 where sy: "syncDirectory (path_of c) d2 = (sy, d3)" by (metis surj_pair)
    have d3: "only_at ?A d d3" using d2 syncDirectory_calm [OF sy] by (simp add: only_at_def calm_def)
    show ?thesis
    proof (cases "rn \<and> sy \<and> (\<exists>raw. ps_marshalCurrent st \<lparr>cu_Version = currentVersion, cu_Checkpoint = ck\<rparr> = Some raw)")
      case False
      then have "\<not> committed \<and> errs \<noteq> [] \<and> (d' = d2 \<or> d' = d3) \<and> (last_dir = ?pend \<or> last_dir = path_of (c @ [ck]))"
        using run q Some rn sy
        by (cases rn; cases sy) (auto simp: publish_checkpoint_def jc jf Let_def split: option.splits)
      then show ?thesis using d2 d3 fs by auto
    next
      case True
      then obtain raw where t: "rn" "sy" "ps_marshalCurrent st \<lparr>cu_Version = currentVersion, cu_Checkpoint = ck\<rparr> = Some raw"
        by blast
      obtain pub ok d4 where aw: "atomicWriteFile ?cur raw 0x180 d3 = ((pub, ok), d4)" by (metis prod_cases3 surj_pair)
      have "last ?cur = CHR ''n''" by (simp add: last_path_of currentFileName_def)
      then have lc: "\<not> is_digit (last ?cur)" by (simp add: is_digit_def)
      note at = atomicWriteFile_step [OF aw lc]
      obtain t where only: "only_at {t, ?cur} d3 d4" and free: "dk_nodes d3 t = None \<or> d4 = d3 \<or> calm d3 d4 \<and> \<not> pub"
        using at(1) by (auto simp: only_at_calm)
      have val: "publish_checkpoint st (path_of p) ?pend (d, w) =
          (if \<not> ok then ((pub, [ErrProfileOther], path_of (c @ [ck])), d4, w1)
           else ((True, [], path_of (c @ [ck])), removeOldCheckpoints st (path_of c) ck d4, w1))"
        using t(1,2) by (simp add: publish_checkpoint_def jc jf jcur Let_def q Some rn sy t(3) aw)
      have res: "committed = pub" "ok \<longrightarrow> pub" "if ok then d' = removeOldCheckpoints st (path_of c) ck d4 else d' = d4"
        "ok \<longleftrightarrow> errs = []" "last_dir = path_of (c @ [ck])"
        using run at(2) unfolding val by (auto split: if_splits)
      have "only_at ?A d d4" if "\<not> pub"
      proof -
        have "dk_nodes d4 x = dk_nodes d3 x" if "x \<notin> ?A" for x
        proof -
          have "dk_nodes d x = dk_nodes d3 x" "dk_nodes d x \<noteq> None" using d3 that by (auto simp: only_at_def spare_def)
          then show ?thesis using free only at(3) \<open>\<not> pub\<close> by (cases "x = ?cur"; cases "x = t") (auto simp: only_at_def calm_def)
        qed
        then show ?thesis using d3 only by (auto simp: only_at_def)
      qed
      moreover have "(\<forall>rest nd. list_all path_name rest \<longrightarrow> dk_nodes d (path_of (c @ [pn] @ rest)) = Some nd \<longrightarrow>
            dk_nodes d' (path_of (c @ [ck] @ rest)) = Some nd)
        \<and> (\<forall>nd. dk_nodes d (path_of p) = Some nd \<longrightarrow> dk_nodes d' (path_of p) = Some nd)
        \<and> dk_nodes d' ?cur = Some \<lparr>nd_kind = Regular raw, nd_perm = 0x180, nd_owned = True\<rparr>" if "pub"
      proof -
        have curn: "list_all path_name (p @ [currentFileName])" using names(1) by simp
        have keep: "dk_nodes d' (path_of b) = dk_nodes d4 (path_of b)"
          if "list_all path_name b" "\<not> (\<exists>x s. x \<noteq> ck \<and> b = c @ x # s)" for b
          using res(3) removeOldCheckpoints_step [OF cn(1), of ck d4 st] in_other_checkpoints [OF cn(1) that(1)] that(2)
          by (auto simp: only_at_def split: if_splits)
        have step: "dk_nodes d4 (path_of b) = Some nd"
          if "dk_nodes d2 (path_of b) = Some nd" "list_all path_name b" "b \<noteq> p @ [currentFileName]" for b nd
        proof -
          have "dk_nodes d3 (path_of b) = Some nd" using that(1) syncDirectory_calm [OF sy] by (simp add: calm_def)
          moreover have "path_of b \<noteq> ?cur" using path_of_inject [OF that(2) curn] that(3) by simp
          ultimately show ?thesis using only free by (cases "path_of b = t") (auto simp: only_at_def calm_def)
        qed
        have "dk_nodes d' (path_of (c @ [ck] @ rest)) = Some nd"
          if r: "list_all path_name rest" "dk_nodes d (path_of (c @ [pn] @ rest)) = Some nd" for rest nd
        proof -
          have "dk_nodes d2 (path_of (c @ [ck] @ rest)) = Some nd"
            using RenameTree_moves [of "c @ [pn]" "c @ [ck]" d1 d2 rest] rn t(1) qk r(2) by (simp add: calm_def)
          then have "dk_nodes d4 (path_of (c @ [ck] @ rest)) = Some nd"
            using cn(1) ck(2) r(1) c by (intro step) (auto simp: currentFileName_def)
          then show ?thesis using keep [of "c @ [ck] @ rest"] cn(1) ck(2) r(1) by simp
        qed
        moreover have "dk_nodes d' (path_of p) = Some nd" if pd: "dk_nodes d (path_of p) = Some nd" for nd
        proof -
          have "path_of p \<notin> subtree (path_of (c @ [x]))" if "path_name x" for x
            using in_subtree [of "c @ [x]" p] names(1) cn(1) that c by auto
          then have "dk_nodes d2 (path_of p) = Some nd"
            using RenameTree_step(2) [OF rn] pd qk names(2) ck(2) by (auto simp: only_at_def calm_def)
          then have "dk_nodes d4 (path_of p) = Some nd" using names(1) by (intro step) simp_all
          then show ?thesis using keep [OF names(1)] c by simp
        qed
        moreover have "dk_nodes d' ?cur = Some \<lparr>nd_kind = Regular raw, nd_perm = 0x180, nd_owned = True\<rparr>"
          using keep [OF curn] at(4) \<open>pub\<close> c by simp
        ultimately show ?thesis by blast
      qed
      moreover have "errs \<noteq> []" if "\<not> pub" using res(2,4) that by blast
      moreover have "subtree last_dir \<subseteq> ?A" using fs res(5) by blast
      moreover have "d' = d4" if "\<not> pub" using res(2,3) that by auto
      ultimately show ?thesis unfolding res(1) using ck(1) t(3) by blast
    qed
  qed
  then show "\<not> committed \<Longrightarrow> errs \<noteq> [] \<and> only_at ?A d d' \<and> subtree last_dir \<subseteq> ?A"
    "committed \<Longrightarrow> \<exists>ck raw. validCheckpointID ck
      \<and> ps_marshalCurrent st \<lparr>cu_Version = currentVersion, cu_Checkpoint = ck\<rparr> = Some raw
      \<and> dk_nodes d' ?cur = Some \<lparr>nd_kind = Regular raw, nd_perm = 0x180, nd_owned = True\<rparr>
      \<and> (\<forall>rest nd. list_all path_name rest \<longrightarrow> dk_nodes d (path_of (c @ [pn] @ rest)) = Some nd \<longrightarrow>
            dk_nodes d' (path_of (c @ [ck] @ rest)) = Some nd)
      \<and> (\<forall>nd. dk_nodes d (path_of p) = Some nd \<longrightarrow> dk_nodes d' (path_of p) = Some nd)" by simp_all
qed

section \<open>Committing a checkpoint\<close>

lemma spare_shrinks:
  assumes "list_all path_name c" "only_at (spare c d) d e"
  shows "spare c e \<subseteq> spare c d"
proof
  fix p assume "p \<in> spare c e"
  then consider "dk_nodes e p = None" | "p = path_of c"
    | x where "path_name x" "dk_nodes e (path_of (c @ [x])) = None" "p \<in> subtree (path_of (c @ [x]))"
    by (auto simp: spare_def)
  then show "p \<in> spare c d"
  proof cases
    case 1
    then show ?thesis using assms(2) by (cases "p \<in> spare c d") (auto simp: only_at_def spare_def)
  next
    case 2
    then show ?thesis by (simp add: spare_def)
  next
    case 3
    have n: "list_all path_name (c @ [x])" using assms(1) 3(1) by simp
    have "dk_nodes d (path_of (c @ [x])) = None"
    proof (cases "path_of (c @ [x]) \<in> spare c d")
      case True
      then consider "dk_nodes d (path_of (c @ [x])) = None" | "path_of (c @ [x]) = path_of c"
        | y where "path_name y" "dk_nodes d (path_of (c @ [y])) = None" "path_of (c @ [x]) \<in> subtree (path_of (c @ [y]))"
        by (auto simp: spare_def)
      then show ?thesis
      proof cases
        case 2
        then show ?thesis using path_of_inject [OF n assms(1)] by simp
      next
        case (3 y)
        then show ?thesis using in_subtree [of "c @ [y]" "c @ [x]"] assms(1) n by auto
      qed simp
    next
      case False
      then show ?thesis using assms(2) 3(2) by (simp add: only_at_def)
    qed
    then show ?thesis using 3 by (auto simp: spare_def)
  qed
qed

lemma commitSnapshot_step:
  assumes run: "commitSnapshot st (path_of p) m c payload (d, w) = ((committed, errs), d', w')"
    and names: "list_all path_name p" and cs: "cs = p @ [''checkpoints'']"
  shows "\<not> committed \<Longrightarrow> errs \<noteq> [] \<and> only_at (spare cs d) d d'"
    "committed \<Longrightarrow> \<exists>ck raw mraw sealed random random'. validCheckpointID ck
      \<and> ps_marshalCurrent st \<lparr>cu_Version = currentVersion, cu_Checkpoint = ck\<rparr> = Some raw
      \<and> marshalMetadata (ps_marshalMetadata st) m = Inr mraw \<and> payload_encrypt c payload random = (Inr sealed, random')
      \<and> readable (path_of (p @ [currentFileName])) raw d' \<and> private_dir_at (path_of (cs @ [ck])) d'
      \<and> readable (path_of (cs @ [ck, metadataFileName])) mraw d' \<and> readable (path_of (cs @ [ck, payloadFileName])) sealed d'
      \<and> (\<forall>nd. dk_nodes d (path_of p) = Some nd \<longrightarrow> dk_nodes d' (path_of p) = Some nd)"
    (is "_ \<Longrightarrow> ?done")
proof -
  have cn: "list_all path_name cs" "cs \<noteq> []" using cs names by simp_all
  have jc: "Join (path_of p) ''checkpoints'' = path_of cs" using Join_name [OF names, of "''checkpoints''"] cs by simp
  let ?S = "spare cs d"
  obtain e1 d1 where en: "ensurePrivateDirectory (path_of cs) d = (e1, d1)" by (metis surj_pair)
  have s1: "only_at ?S d d1"
    by (rule only_at_mono [OF ensurePrivateDirectory_step [OF en]]) (simp add: spare_def)
  note grow = only_at_again [of ?S d]
  have onto: "only_at ?S d e" if "only_at ?S d a" "only_at (spare cs a) a e" for a e
    by (rule grow [OF that(1) only_at_mono [OF that(2) spare_shrinks [OF cn(1) that(1)]]])
  obtain e2 d2 where mk: "MkdirTemp (Join (path_of cs) pendingPrefix) d1 = (e2, d2)" by (metis surj_pair)
  note mt = MkdirTemp_step [OF mk]
  have "(\<not> committed \<longrightarrow> errs \<noteq> [] \<and> only_at ?S d d') \<and> (committed \<longrightarrow> ?done)"
  proof (cases "e1 = None \<and> e2 \<noteq> None")
    case False
    then have "\<not> committed \<and> errs \<noteq> [] \<and> (d' = d1 \<or> e2 = None \<and> d' = d2)"
      using run en mk by (cases e1; cases e2) (auto simp: commitSnapshot_def jc Let_def)
    then show ?thesis using s1 mt(1) by (auto simp: only_at_def calm_def)
  next
    case True
    then obtain pending where pe: "e1 = None" "e2 = Some pending" by auto
    note mt = mt(2) [OF pe(2)]
    obtain n where n: "pending = Join (path_of cs) pendingPrefix @ n" "list_all is_digit n" using mt by blast
    have "path_name pendingPrefix" by (simp add: pendingPrefix_def)
    then have pp: "pending = path_of (cs @ [pendingPrefix @ n])"
      using n(1) Join_name [OF cn(1)] by (simp add: path_of_snoc_longer)
    define pn where "pn = pendingPrefix @ n"
    have pn: "path_name pn" "\<not> validCheckpointID pn" "pending = path_of (cs @ [pn])"
      using pending_name [OF n(2)] pp by (simp_all add: pn_def)
    have tree: "subtree pending \<subseteq> spare cs d1" using mt pn by (auto simp: spare_def)
    have s2: "only_at ?S d d2"
    proof (rule onto [OF s1 only_at_mono])
      show "only_at {pending} d1 d2" using mt by blast
      show "{pending} \<subseteq> spare cs d1" using tree by auto
    qed
    have tree': "subtree pending \<subseteq> ?S" using tree spare_shrinks [OF cn(1) s1] by blast
    obtain e3 d3 where ch: "Chmod pending 0x1C0 d2 = (e3, d3)" by (metis surj_pair)
    have s3: "only_at ?S d d3"
      by (rule grow [OF s2 only_at_mono [OF Chmod_step(1) [OF ch]]]) (use tree' in auto)
    have clean: "only_at ?S d (cleanup st q a)" if "subtree q \<subseteq> ?S" "only_at ?S d a" for q a
      by (rule grow [OF that(2) only_at_mono [OF only_at_cleanup that(1)]])
    obtain e4 d4 w4 where fi: "fill_checkpoint st pending m c payload (d3, w) = (e4, d4, w4)" by (metis prod_cases3)
    have fn: "cs @ [pn] \<noteq> []" "list_all path_name (cs @ [pn])" using cn pn(1) by simp_all
    note ff = fill_checkpoint_step [OF fi pn(3) fn]
    have s4: "only_at ?S d d4"
      by (rule grow [OF s3 only_at_mono [OF ff(1)]]) (use tree' in auto)
    obtain com e5 ld d5 w5 where pu: "publish_checkpoint st (path_of p) pending (d4, w4) = ((com, e5, ld), d5, w5)"
      by (metis prod_cases5 prod_cases3)
    note pb = publish_checkpoint_step [OF pu [unfolded pn(3)] cs names pn(1,2)]
    show ?thesis
    proof (cases "e3 \<and> e4 = [] \<and> com")
      case False
      then have r: "\<not> committed \<and> errs \<noteq> [] \<and> (d' = cleanup st pending d3 \<or> d' = cleanup st pending d4
          \<or> \<not> com \<and> d' = cleanup st ld d5)"
        using run en mk pe ch fi pu pb(1)
        by (cases e3; cases e4; cases com) (auto simp: commitSnapshot_def jc Let_def)
      have "only_at ?S d (cleanup st ld d5)" if "\<not> com"
      proof (rule clean)
        have "subtree pending \<union> spare cs d4 \<subseteq> ?S" using tree' spare_shrinks [OF cn(1) s4] by blast
        then show "subtree ld \<subseteq> ?S" "only_at ?S d d5"
          using pb(1) [OF that] pn(3) grow [OF s4] only_at_mono by blast+
      qed
      then show ?thesis using r clean [OF tree' s3] clean [OF tree' s4] by auto
    next
      case True
      then have r: "committed" "d' = d5"
        using run en mk pe ch fi pu by (auto simp: commitSnapshot_def jc Let_def)
      obtain mraw sealed random random' where f: "marshalMetadata (ps_marshalMetadata st) m = Inr mraw"
        "payload_encrypt c payload random = (Inr sealed, random')"
        "dk_nodes d4 (Join pending metadataFileName) = Some \<lparr>nd_kind = Regular mraw, nd_perm = 0x180, nd_owned = True\<rparr>"
        "dk_nodes d4 (Join pending payloadFileName) = Some \<lparr>nd_kind = Regular sealed, nd_perm = 0x180, nd_owned = True\<rparr>"
        using ff(2) True by blast
      have j: "Join pending x = path_of (cs @ [pn] @ [x])" if "path_name x" for x
        using Join_name [OF fn(2) that] pn(3) by simp
      have "dk_nodes d3 pending = Some (new_directory 0x1C0)"
        using Chmod_step(2) [OF ch] True mt by (simp add: new_directory_def)
      then have pd: "dk_nodes d4 (path_of (cs @ [pn] @ [])) = Some (new_directory 0x1C0)"
        using ff(1) pn(3) by (simp add: only_at_def)
      obtain ck raw where k: "validCheckpointID ck"
        "ps_marshalCurrent st \<lparr>cu_Version = currentVersion, cu_Checkpoint = ck\<rparr> = Some raw"
        "dk_nodes d5 (path_of (p @ [currentFileName])) = Some \<lparr>nd_kind = Regular raw, nd_perm = 0x180, nd_owned = True\<rparr>"
        "\<And>rest nd. list_all path_name rest \<Longrightarrow> dk_nodes d4 (path_of (cs @ [pn] @ rest)) = Some nd \<Longrightarrow>
            dk_nodes d5 (path_of (cs @ [ck] @ rest)) = Some nd"
        "\<And>nd. dk_nodes d4 (path_of p) = Some nd \<Longrightarrow> dk_nodes d5 (path_of p) = Some nd"
        using pb(2) True by blast
      have "readable (path_of (cs @ [ck, metadataFileName])) mraw d5"
        using k(4) [of "[metadataFileName]"] f(3) j by (simp add: readable_def)
      moreover have "readable (path_of (cs @ [ck, payloadFileName])) sealed d5"
        using k(4) [of "[payloadFileName]"] f(4) j by (simp add: readable_def)
      moreover have "private_dir_at (path_of (cs @ [ck])) d5"
        using k(4) [of "[]"] pd by (simp add: private_dir_at_def new_directory_def)
      moreover have "readable (path_of (p @ [currentFileName])) raw d5" using k(3) by (simp add: readable_def)
      moreover have "dk_nodes d4 (path_of p) = Some nd" if there: "dk_nodes d (path_of p) = Some nd" for nd
      proof -
        have "path_of p \<notin> ?S"
        proof
          assume "path_of p \<in> ?S"
          then consider "path_of p = path_of cs"
            | x where "path_name x" "path_of p \<in> subtree (path_of (cs @ [x]))"
            using there by (auto simp: spare_def)
          then show False
          proof cases
            case 1
            then show ?thesis using path_of_inject [OF names cn(1)] cs by simp
          next
            case (2 x)
            then show ?thesis using in_subtree [of "cs @ [x]" p] names cn(1) cs by auto
          qed
        qed
        then show ?thesis using s4 there by (simp add: only_at_def)
      qed
      ultimately show ?thesis using r k(1,2,5) f(1,2) by blast
    qed
  qed
  then show "\<not> committed \<Longrightarrow> errs \<noteq> [] \<and> only_at ?S d d'" "committed \<Longrightarrow> ?done" by simp_all
qed

end
