(* ===== verification/StoreIsolation.thy ===== *)
theory StoreIsolation
  imports StoreFacts RevokeFacts
begin

text \<open>
  What the operations on a profile leave alone: everything outside its directory and the quarantine.
\<close>

section \<open>Footprints\<close>

definition outside :: "string set \<Rightarrow> disk \<Rightarrow> disk \<Rightarrow> bool" where
  "outside S d d' \<longleftrightarrow> (\<forall>q. q \<notin> S \<longrightarrow> dk_nodes d q \<noteq> None \<longrightarrow> dk_nodes d' q = dk_nodes d q)"

lemma outside_refl [simp]: "outside S d d"
  by (simp add: outside_def)

lemma outside_trans: "outside S a b \<Longrightarrow> outside S b c \<Longrightarrow> outside S a c"
  by (simp add: outside_def)

lemma outside_mono: "outside S a b \<Longrightarrow> S \<subseteq> T \<Longrightarrow> outside T a b"
  by (auto simp: outside_def)

lemma outside_calm: "calm d d' \<Longrightarrow> outside S d d'"
  by (simp add: outside_def calm_def)

lemma outside_plain_call: "plain_call d = (ok, d') \<Longrightarrow> outside S d d'"
  by (rule outside_calm [OF calm_plain_call])

lemma outside_only_at: "only_at A d d' \<Longrightarrow> (\<And>q. q \<in> A \<Longrightarrow> q \<in> S \<or> dk_nodes d q = None) \<Longrightarrow> outside S d d'"
  unfolding outside_def only_at_def by (intro allI impI) metis

lemma outside_within: "only_at A d d' \<Longrightarrow> A \<subseteq> S \<Longrightarrow> outside S d d'"
  by (rule outside_only_at) auto

lemma under_split: "under p q \<longleftrightarrow> (\<exists>x. q = p @ ''/'' @ x)"
proof
  assume "under p q"
  then have "q = (p @ ''/'') @ drop (length (p @ ''/'')) q"
    unfolding under_def HasPrefix_def by (metis append_take_drop_id)
  then show "\<exists>x. q = p @ ''/'' @ x" by (metis append_assoc)
qed (auto intro: under_append [simplified])

lemma subtree_below:
  assumes "list_all path_name (a @ b)" "a \<noteq> []"
  shows "subtree (path_of (a @ b)) \<subseteq> subtree (path_of a)"
proof
  fix q assume q: "q \<in> subtree (path_of (a @ b))"
  show "q \<in> subtree (path_of a)"
  proof (cases "b = []")
    case False
    then have "under (path_of a) (path_of (a @ b))" using under_iff [of a "a @ b"] assms by auto
    then obtain x where x: "path_of (a @ b) = path_of a @ ''/'' @ x"
      unfolding under_split by blast
    show ?thesis
    proof (cases "q = path_of (a @ b)")
      case True
      then show ?thesis using x under_append [of "path_of a" x] by (simp add: subtree_def)
    next
      case False
      then obtain y where "q = path_of (a @ b) @ ''/'' @ y"
        using q by (auto simp: subtree_def under_split)
      then show ?thesis using x under_append [of "path_of a" "x @ ''/'' @ y"] by (simp add: subtree_def)
    qed
  qed (use q in simp)
qed

lemma in_subtree_below: "list_all path_name (a @ b) \<Longrightarrow> a \<noteq> [] \<Longrightarrow> path_of (a @ b) \<in> subtree (path_of a)"
  using in_subtree [of a "a @ b"] by simp

section \<open>Saving\<close>

lemma atomicWriteFile_outside:
  assumes "atomicWriteFile p raw perm d = (r, d')" "\<not> is_digit (last p)" "p \<in> S"
  shows "outside S d d'"
proof -
  obtain published ok where r: "r = (published, ok)" by (metis surj_pair)
  from atomicWriteFile_step(1) [OF assms(1) [unfolded r] assms(2)] show ?thesis
    using assms(3) by (auto intro: outside_calm outside_only_at)
qed

lemma newCheckpointID_calm: "newCheckpointID k dir (d, w) = (r, d', w') \<Longrightarrow> calm d d'"
  using newCheckpointID_step by blast

lemma publish_checkpoint_outside:
  assumes run: "publish_checkpoint st (path_of p) (path_of (p @ [''checkpoints'', pn])) (d, w) = ((committed, errs, last_dir), d', w')"
    and names: "list_all path_name p" "path_name pn" "p \<noteq> []"
  shows "outside (subtree (path_of p)) d d' \<and> subtree last_dir \<subseteq> subtree (path_of p)"
proof -
  let ?S = "subtree (path_of p)" and ?cs = "path_of (p @ [''checkpoints''])" and ?cur = "path_of (p @ [currentFileName])"
  have j: "Join (path_of p) ''checkpoints'' = ?cs" "Join (path_of p) currentFileName = ?cur"
    using Join_name [OF names(1)] by simp_all
  have csn: "list_all path_name (p @ [''checkpoints''])" using names by simp
  have tree: "subtree (path_of (p @ [''checkpoints'', x])) \<subseteq> ?S" if "path_name x" for x
    using subtree_below [of p "[''checkpoints'', x]"] names that by simp
  obtain q d1 w1 where q: "newCheckpointID 8 ?cs (d, w) = (q, d1, w1)" by (metis prod_cases3)
  note c1 = newCheckpointID_calm [OF q]
  show ?thesis
  proof (cases q)
    case None
    then show ?thesis using run q c1 tree [OF names(2)] by (auto simp: publish_checkpoint_def j intro: outside_calm)
  next
    case (Some ck)
    have ck: "path_name ck" using newCheckpointID_step [OF q] Some checkpoint_name by blast
    have jf: "Join ?cs ck = path_of (p @ [''checkpoints'', ck])" using Join_name [OF csn ck] by simp
    let ?final = "path_of (p @ [''checkpoints'', ck])" and ?pend = "path_of (p @ [''checkpoints'', pn])"
    obtain rn d2 where rn: "RenameTree ?pend ?final d1 = (rn, d2)" by (metis surj_pair)
    obtain sy d3 where sy: "syncDirectory ?cs d2 = (sy, d3)" by (metis surj_pair)
    have o2: "outside ?S d d2"
      by (rule outside_trans [OF outside_calm [OF c1] outside_within [OF RenameTree_step(2) [OF rn]]])
        (use tree [OF ck] tree [OF names(2)] in blast)
    have o3: "outside ?S d d3" by (rule outside_trans [OF o2 outside_calm [OF syncDirectory_calm [OF sy]]])
    define d4 where "d4 raw = snd (atomicWriteFile ?cur raw 0x180 d3)" for raw
    have aw: "atomicWriteFile ?cur raw 0x180 d3 = (fst (atomicWriteFile ?cur raw 0x180 d3), d4 raw)" for raw
      by (simp add: d4_def)
    have lc: "\<not> is_digit (last ?cur)" by (simp add: last_path_of currentFileName_def is_digit_def)
    have o4: "outside ?S d (d4 raw)" for raw
      by (rule outside_trans [OF o3 atomicWriteFile_outside [OF aw lc]])
        (use in_subtree_below [of p "[currentFileName]"] names in simp)
    have rest: "other_checkpoints (p @ [''checkpoints'']) ck \<subseteq> ?S"
      using tree by (auto simp: other_checkpoints_def)
    have o5: "outside ?S d (removeOldCheckpoints st ?cs ck (d4 raw))" for raw
      by (rule outside_trans [OF o4 outside_within [OF removeOldCheckpoints_step [OF csn] rest]])
    have "(d' = d2 \<or> d' = d3 \<or> (\<exists>raw. d' = d4 raw \<or> d' = removeOldCheckpoints st ?cs ck (d4 raw)))
        \<and> (last_dir = ?pend \<or> last_dir = ?final)"
    proof (cases "rn \<and> sy \<and> (\<exists>raw. ps_marshalCurrent st \<lparr>cu_Version = currentVersion, cu_Checkpoint = ck\<rparr> = Some raw)")
      case False
      then show ?thesis
        using run q Some rn sy
        by (cases rn; cases sy) (auto simp: publish_checkpoint_def j jf Let_def split: option.splits)
    next
      case True
      then obtain raw where t: "rn" "sy" "ps_marshalCurrent st \<lparr>cu_Version = currentVersion, cu_Checkpoint = ck\<rparr> = Some raw"
        by blast
      obtain pub ok where "atomicWriteFile ?cur raw 0x180 d3 = ((pub, ok), d4 raw)" using aw by (metis prod.collapse)
      then have "(d' = d4 raw \<or> d' = removeOldCheckpoints st ?cs ck (d4 raw)) \<and> last_dir = ?final"
        using run q Some rn sy t by (auto simp: publish_checkpoint_def j jf Let_def split: if_splits)
      then show ?thesis by blast
    qed
    then show ?thesis using o2 o3 o4 o5 tree [OF ck] tree [OF names(2)] by auto
  qed
qed

lemma cleanup_outside: "subtree t \<subseteq> S \<Longrightarrow> outside S d (cleanup st t d)"
  by (rule outside_within [OF only_at_cleanup])

lemma commitSnapshot_outside:
  assumes run: "commitSnapshot st (path_of p) m c payload (d, w) = (r, d', w')"
    and names: "list_all path_name p" "p \<noteq> []"
  shows "outside (subtree (path_of p)) d d'"
proof -
  let ?S = "subtree (path_of p)" and ?cs = "path_of (p @ [''checkpoints''])"
  have j: "Join (path_of p) ''checkpoints'' = ?cs" using Join_name [OF names(1)] by simp
  have csn: "list_all path_name (p @ [''checkpoints''])" using names by simp
  obtain e1 d1 where en: "ensurePrivateDirectory ?cs d = (e1, d1)" by (metis surj_pair)
  obtain e2 d2 where mk: "MkdirTemp (Join ?cs pendingPrefix) d1 = (e2, d2)" by (metis surj_pair)
  have o1: "outside ?S d d1"
    by (rule outside_within [OF ensurePrivateDirectory_step [OF en]])
      (use in_subtree_below [of p "[''checkpoints'']"] names in simp)
  show ?thesis
  proof (cases "e1 = None \<and> e2 \<noteq> None")
    case False
    then have "d' = d1 \<or> e2 = None \<and> d' = d2"
      using run en mk by (cases e1; cases e2) (auto simp: commitSnapshot_def j Let_def)
    then show ?thesis using o1 MkdirTemp_step(1) [OF mk] outside_trans [OF o1 outside_calm] by auto
  next
    case True
    then obtain pending where pe: "e1 = None" "e2 = Some pending" by auto
    note mt = MkdirTemp_step(2) [OF mk pe(2)]
    obtain n where n: "pending = Join ?cs pendingPrefix @ n" "list_all is_digit n" using mt by blast
    define pn where "pn = pendingPrefix @ n"
    have "path_name pendingPrefix" by (simp add: pendingPrefix_def)
    then have pp: "path_name pn" "pending = path_of (p @ [''checkpoints'', pn])"
      using pending_name [OF n(2)] n(1) Join_name [OF csn] path_of_snoc_longer [of "p @ [''checkpoints'']" pendingPrefix n]
      by (simp_all add: pn_def)
    have tree: "subtree pending \<subseteq> ?S"
      using subtree_below [of p "[''checkpoints'', pn]"] names pp by simp
    have o2: "outside ?S d d2"
    proof (rule outside_trans [OF o1 outside_only_at])
      show "only_at {pending} d1 d2" using mt by blast
    qed (use mt in auto)
    obtain e3 d3 where ch: "Chmod pending 0x1C0 d2 = (e3, d3)" by (metis surj_pair)
    have o3: "outside ?S d d3"
      by (rule outside_trans [OF o2 outside_within [OF Chmod_step(1) [OF ch]]]) (use tree in auto)
    obtain e4 d4 w4 where fi: "fill_checkpoint st pending m c payload (d3, w) = (e4, d4, w4)" by (metis prod_cases3)
    have fn: "p @ [''checkpoints'', pn] \<noteq> []" "list_all path_name (p @ [''checkpoints'', pn])"
      using names pp(1) by simp_all
    have o4: "outside ?S d d4"
      by (rule outside_trans [OF o3 outside_within [OF fill_checkpoint_step(1) [OF fi pp(2) fn]]]) (use tree in auto)
    obtain com e5 ld d5 w5 where pu: "publish_checkpoint st (path_of p) pending (d4, w4) = ((com, e5, ld), d5, w5)"
      by (metis prod_cases5 prod_cases3)
    note pb = publish_checkpoint_outside [OF pu [unfolded pp(2)] names(1) pp(1) names(2)]
    have o5: "outside ?S d d5" using outside_trans [OF o4] pb by blast
    have "d' \<in> {cleanup st pending d3, cleanup st pending d4, d5, cleanup st ld d5}"
      using run en mk pe ch fi pu
      by (cases e3; cases e4; cases com) (auto simp: commitSnapshot_def j Let_def)
    then show ?thesis
      using outside_trans [OF o3 cleanup_outside [OF tree]] outside_trans [OF o4 cleanup_outside [OF tree]]
        outside_trans [OF o5 cleanup_outside] pb o5 by auto
  qed
qed

section \<open>The quarantine\<close>

text \<open>\<^verbatim>\<open>filepath.WalkDir\<close> gives the base and what is below it.\<close>

definition walks_below :: "profile_store \<Rightarrow> bool" where
  "walks_below st \<longleftrightarrow> (\<forall>p d. set (ps_walk st p d) \<subseteq> subtree p)"

lemma digits_no_slash:
  "CHR ''/'' \<notin> set (pad k n)" "CHR ''/'' \<notin> set (digits_of m)"
  "list_all is_lower_hex s \<Longrightarrow> CHR ''/'' \<notin> set s"
proof -
  have "\<not> is_digit CHR ''/''" "\<not> is_lower_hex CHR ''/''" by code_simp+
  then show "CHR ''/'' \<notin> set (pad k n)" "CHR ''/'' \<notin> set (digits_of m)"
    "list_all is_lower_hex s \<Longrightarrow> CHR ''/'' \<notin> set s"
    using pad_digits [of k n] digits_of_all_digits [of m] by (auto simp: list_all_iff)
qed

lemma quarantine_stamp_name:
  assumes "CHR ''/'' \<notin> set r"
  shows "path_name (quarantine_stamp t @ r)"
proof -
  have "CHR ''/'' \<notin> set (day_text day)" for day
    by (auto simp: day_text_def year_text_def digits_no_slash split: prod.splits)
  then have "CHR ''/'' \<notin> set (quarantine_stamp t)"
    by (auto simp: quarantine_stamp_def Let_def digits_no_slash)
  moreover have l: "2 < length (quarantine_stamp t @ r)" by (simp add: quarantine_stamp_def Let_def)
  have "quarantine_stamp t @ r \<notin> {[], ''.'', ''..''}"
  proof
    assume "quarantine_stamp t @ r \<in> {[], ''.'', ''..''}"
    then have "length (quarantine_stamp t @ r) \<le> 2" by (elim insertE) simp_all
    then show False using l by simp
  qed
  ultimately show ?thesis using assms by (simp add: path_name_def)
qed

definition touches :: "string set \<Rightarrow> disk \<Rightarrow> disk \<Rightarrow> bool" where
  "touches S d d' \<longleftrightarrow> (\<forall>q. q \<notin> S \<longrightarrow> dk_nodes d' q = dk_nodes d q)"

lemma touches_refl [simp]: "touches S d d"
  by (simp add: touches_def)

lemma touches_trans: "touches S a b \<Longrightarrow> touches S b c \<Longrightarrow> touches S a c"
  by (simp add: touches_def)

lemma touches_outside: "touches T d d' \<Longrightarrow> T \<subseteq> S \<Longrightarrow> outside S d d'"
  by (auto simp: touches_def outside_def)

lemma touches_calm: "calm d d' \<Longrightarrow> touches S d d'"
  by (simp add: touches_def calm_def)

lemma touches_only_at: "only_at A d d' \<Longrightarrow> A \<subseteq> S \<Longrightarrow> touches S d d'"
  by (auto simp: touches_def only_at_def)

lemma touches_plain_call: "plain_call d = (ok, d') \<Longrightarrow> touches S d d'"
  by (rule touches_calm [OF calm_plain_call])

lemma touches_Remove: "Remove p d = (r, d') \<Longrightarrow> p \<in> S \<Longrightarrow> touches S d d'"
  by (rule touches_only_at [OF Remove_step(1)]) auto

lemma touches_Chmod: "Chmod p perm d = (r, d') \<Longrightarrow> p \<in> S \<Longrightarrow> touches S d d'"
  by (rule touches_only_at [OF Chmod_step(1)]) auto

lemma touches_ReadFile: "ReadFile p d = (r, d') \<Longrightarrow> touches S d d'"
  by (rule touches_calm [OF ReadFile_truth(1)])

lemma sanitize_paths_touches:
  "set ps \<subseteq> S \<Longrightarrow> sanitize_paths base ps d = (r, d') \<Longrightarrow> touches S d d'"
proof (induction ps arbitrary: d r d')
  case (Cons path ps)
  have member: "path \<in> S" and IH: "\<And>d r d'. sanitize_paths base ps d = (r, d') \<Longrightarrow> touches S d d'"
    using Cons by simp_all
  let ?kind = "Option.bind (dk_nodes d path) (\<lambda>nd. Some (nd_kind nd))"
  show ?case
  proof (cases "?kind = None \<or> ?kind = Some Directory")
    case True
    obtain ok d1 where p: "plain_call d = (ok, d1)" by (metis surj_pair)
    obtain f d2 where f: "sanitize_paths base ps d1 = (f, d2)" by (metis surj_pair)
    have "d' \<in> {d, d1, d2}" using Cons.prems(2) True p f by (auto split: bool.splits)
    then show ?thesis using touches_plain_call [OF p] touches_trans [OF touches_plain_call [OF p] IH [OF f]] by auto
  next
    case False
    then obtain kind where k: "?kind = Some kind" "kind \<noteq> Directory" by auto
    obtain informed e where e: "(if kind = Symlink then (False, d) else plain_call d) = (informed, e)" by (metis surj_pair)
    have oe: "touches S d e" using e touches_plain_call by (auto split: if_splits)
    note then_do = touches_trans [OF oe]
    obtain rm e1 where r: "Remove path e = (rm, e1)" by (metis surj_pair)
    obtain f e2 where f: "sanitize_paths base ps e1 = (f, e2)" by (metis surj_pair)
    obtain ok g1 where p: "plain_call e = (ok, g1)" by (metis surj_pair)
    obtain content g2 where c: "ReadFile path g1 = (content, g2)" by (metis surj_pair)
    obtain shut g3 where q: "plain_call g2 = (shut, g3)" by (metis surj_pair)
    obtain h g4 where h: "sanitize_paths base ps g3 = (h, g4)" by (metis surj_pair)
    have o1: "touches S d e1" by (rule then_do [OF touches_Remove [OF r member]])
    have o2: "touches S d e2" by (rule touches_trans [OF o1 IH [OF f]])
    have p1: "touches S d g1" by (rule then_do [OF touches_plain_call [OF p]])
    have p3: "touches S d g3"
      by (rule touches_trans [OF touches_trans [OF p1 touches_ReadFile [OF c]] touches_plain_call [OF q]])
    have p4: "touches S d g4" by (rule touches_trans [OF p3 IH [OF h]])
    have val: "sanitize_paths base (path # ps) d =
      (case Rel base path of None \<Rightarrow> (None, d)
       | Some relative \<Rightarrow>
          if \<not> informed \<or> \<not> is_Regular kind then
            (case rm of Some _ \<Rightarrow> (None, e1)
             | None \<Rightarrow> (map_option ((#) \<lparr>qf_Path = relative,
                 qf_Kind = (if kind = Symlink then ''symlink_removed'' else ''non_regular_removed''),
                 qf_Bytes = 0, qf_SHA256 = []\<rparr>) f, e2))
          else if \<not> ok then (None, g1)
          else (case content of None \<Rightarrow> (None, g3)
             | Some raw \<Rightarrow> if \<not> shut then (None, g3)
                 else (map_option ((#) \<lparr>qf_Path = relative, qf_Kind = ''regular'',
                        qf_Bytes = length raw, qf_SHA256 = sha256_hex raw\<rparr>) h, g4)))"
      using k e r f p c q h
      by (cases kind; cases rm; cases ok; cases content) (auto split: option.splits)
    have "d' \<in> {d, e1, e2, g1, g3, g4}"
      using Cons.prems(2) unfolding val by (auto split: option.splits if_splits)
    then show ?thesis using oe o1 o2 p1 p3 p4 by auto
  qed
qed simp

lemma protect_files_touches:
  "set ps \<subseteq> S \<Longrightarrow> protect_files ps d = (r, d') \<Longrightarrow>
    touches S d d' \<and> (\<forall>dirs. r = Some dirs \<longrightarrow> set dirs \<subseteq> set ps)"
proof (induction ps arbitrary: d r d')
  case (Cons path ps)
  have member: "path \<in> S" and IH: "\<And>d r d'. protect_files ps d = (r, d') \<Longrightarrow>
      touches S d d' \<and> (\<forall>dirs. r = Some dirs \<longrightarrow> set dirs \<subseteq> set ps)"
    using Cons by simp_all
  obtain ok d1 where p: "plain_call d = (ok, d1)" by (metis surj_pair)
  obtain f d2 where f: "protect_files ps d1 = (f, d2)" by (metis surj_pair)
  obtain c e1 where c: "Chmod path 0x100 d = (c, e1)" by (metis surj_pair)
  obtain g e2 where g: "protect_files ps e1 = (g, e2)" by (metis surj_pair)
  have o: "touches S d d1" "touches S d e1" using touches_plain_call [OF p] touches_Chmod [OF c member] by auto
  have o2: "touches S d d2" "touches S d e2"
    using touches_trans [OF o(1)] IH [OF f] touches_trans [OF o(2)] IH [OF g] by blast+
  have "d' \<in> {d, d1, d2, e1, e2} \<and> (r = None \<or> r = map_option ((#) path) f \<or> r = g)"
    using Cons.prems(2) p f c g
    by (cases "Option.bind (dk_nodes d path) (\<lambda>nd. Some (nd_kind nd))")
      (auto split: file_kind.splits bool.splits prod.splits)
  then show ?case using o o2 IH [OF f] IH [OF g] by fastforce
qed simp

lemma protect_directories_touches:
  "set ps \<subseteq> S \<Longrightarrow> protect_directories ps d = (r, d') \<Longrightarrow> touches S d d'"
proof (induction ps arbitrary: d)
  case (Cons path ps)
  obtain c e1 where c: "Chmod path 0x140 d = (c, e1)" by (metis surj_pair)
  have "path \<in> S" using Cons.prems(1) by simp
  from touches_Chmod [OF c this] have o: "touches S d e1" .
  show ?case using Cons.prems Cons.IH c o touches_trans [OF o] by (cases c) auto
qed simp

lemma makeTreeReadOnly_touches:
  assumes "walks_below st" "makeTreeReadOnly st base d = (r, d')"
  shows "touches (subtree base) d d'"
proof -
  obtain f d1 where f: "protect_files (ps_walk st base d) d = (f, d1)" by (metis surj_pair)
  have w: "set (ps_walk st base d) \<subseteq> subtree base" using assms(1) by (simp add: walks_below_def)
  note k = protect_files_touches [OF w f]
  show ?thesis
  proof (cases f)
    case None
    then show ?thesis using assms(2) f k by (simp add: makeTreeReadOnly_def)
  next
    case (Some dirs)
    then have "protect_directories (sort_key (\<lambda>p. - int (length p)) dirs) d1 = (r, d')"
      using assms(2) f by (simp add: makeTreeReadOnly_def)
    moreover have "set (sort_key (\<lambda>p. - int (length p)) dirs) \<subseteq> subtree base" using k Some w by auto
    ultimately show ?thesis using k protect_directories_touches touches_trans by blast
  qed
qed

lemma seal_quarantine_touches:
  assumes "walks_below st" "seal_quarantine st i reason base d = (r, d')"
    "Join base ''quarantine.json'' \<in> subtree base"
  shows "touches (subtree base) d d'"
proof -
  let ?S = "subtree base"
  obtain s1 d1 where s1: "syncDirectory (Join (ps_root st) ''profiles'') d = (s1, d1)" by (metis surj_pair)
  obtain s2 d2 where s2: "syncDirectory (Join (ps_root st) ''quarantine'') d1 = (s2, d2)" by (metis surj_pair)
  obtain f d3 where f: "sanitizeAndChecksumTree st base d2 = (f, d3)" by (metis surj_pair)
  obtain now d4 where c: "read_clock d3 = (now, d4)" by (metis surj_pair)
  define d5 where "d5 raw = snd (writeSyncedFile (Join base ''quarantine.json'') raw 0x100 d4)" for raw
  define d6 where "d6 raw = snd (makeTreeReadOnly st base (d5 raw))" for raw
  have o2: "touches ?S d d2"
    using touches_trans [OF touches_calm [OF syncDirectory_calm [OF s1]] touches_calm [OF syncDirectory_calm [OF s2]]] .
  obtain g where g: "sanitize_paths base (ps_walk st base d2) d2 = (g, d3)"
    using f by (auto simp: sanitizeAndChecksumTree_def split: prod.splits)
  have w: "set (ps_walk st base d2) \<subseteq> ?S" using assms(1) by (simp add: walks_below_def)
  have o3: "touches ?S d d3" by (rule touches_trans [OF o2 sanitize_paths_touches [OF w g]])
  have o4: "touches ?S d d4" using o3 read_clock_step(1) [OF c] by (simp add: touches_def)
  have o5: "touches ?S d (d5 raw)" for raw
    unfolding d5_def using assms(3)
    by (intro touches_trans [OF o4] touches_only_at [OF writeSyncedFile_step(1) [OF prod.collapse [symmetric]]]) simp
  have o6: "touches ?S d (d6 raw)" for raw
    unfolding d6_def by (rule touches_trans [OF o5 makeTreeReadOnly_touches [OF assms(1) prod.collapse [symmetric]]])
  have o1: "touches ?S d d1" by (rule touches_calm [OF syncDirectory_calm [OF s1]])
  have "d' \<in> {d1, d2, d3, d4} \<or> (\<exists>raw. d' = d5 raw \<or> d' = d6 raw)"
  proof (cases "s1 \<and> s2 \<and> f \<noteq> None")
    case False
    then show ?thesis using assms(2) s1 s2 f by (cases s1; cases s2; cases f) (auto simp: seal_quarantine_def)
  next
    case True
    then obtain files where t: "s1" "s2" "f = Some files" by auto
    show ?thesis
    proof (cases "ps_marshalReport st
         \<lparr>qr_Version = 1, qr_ContractID = storageContractV2, qr_ProfileDigest = profileDigest storageContractV2 i,
          qr_Reason = reason, qr_QuarantinedAt = FormatRFC3339Nano now, qr_Files = files\<rparr>")
      case None
      then show ?thesis using assms(2) s1 s2 f c t by (simp add: seal_quarantine_def)
    next
      case (Some raw)
      then have "d' = d5 raw \<or> d' = d6 raw" using assms(2) s1 s2 f c t
        by (auto simp: seal_quarantine_def d5_def d6_def split: prod.splits bool.splits)
      then show ?thesis by blast
    qed
  qed
  then show ?thesis using o1 o2 o3 o4 o5 o6 by auto
qed

section \<open>Places in the store\<close>

definition clean_root :: "profile_store \<Rightarrow> bool" where
  "clean_root st \<longleftrightarrow> IsAbs (ps_root st) \<and> Clean (ps_root st) = ps_root st"

definition quarantineDir :: "profile_store \<Rightarrow> string" where
  "quarantineDir st = Join (ps_root st) ''quarantine''"

lemma store_paths:
  assumes "clean_root st"
  obtains r where "list_all path_name r" "ps_root st = path_of r"
    "\<And>i. profileDir st i = path_of (r @ [''profiles'', profileDigest storageContractV2 i])"
    "quarantineDir st = path_of (r @ [''quarantine''])"
proof -
  let ?r = "path_elements (ps_root st)"
  have n: "list_all path_name ?r" using assms path_elements_names by (simp add: clean_root_def)
  have e: "ps_root st = path_of ?r" using assms Clean_path_of [of "ps_root st"] by (simp add: clean_root_def)
  have q: "path_name ''quarantine''" by code_simp
  have "Join (ps_root st) ''profiles'' = path_of (?r @ [''profiles''])"
    using Join_name [OF n, of "''profiles''"] e by simp
  then have p: "profileDir st i = path_of (?r @ [''profiles'', profileDigest storageContractV2 i])" for i
    using Join_name [of "?r @ [''profiles'']" "profileDigest storageContractV2 i"] n by (simp add: profileDir_def)
  have "quarantineDir st = path_of (?r @ [''quarantine''])"
    using Join_name [OF n q] e by (simp add: quarantineDir_def)
  from that [OF n e p this] show thesis .
qed

lemma profile_path:
  assumes "clean_root st"
  obtains p where "list_all path_name p" "profileDir st i = path_of p" "p \<noteq> []"
proof -
  obtain r where "list_all path_name r" "profileDir st i = path_of (r @ [''profiles'', profileDigest storageContractV2 i])"
    using store_paths [OF assms(1)] by metis
  then show thesis by (intro that [of "r @ [''profiles'', profileDigest storageContractV2 i]"]) simp_all
qed

lemma RenameTree_leaves: "RenameTree old new d = (True, d') \<Longrightarrow> old \<notin> subtree new \<Longrightarrow> dk_nodes d' old = None"
  by (auto simp: RenameTree_def subtree_def split: prod.splits if_splits)

lemma quarantine_name:
  assumes "randomHex n w = (Some suffix, w1)"
  shows "path_name (quarantine_stamp now @ CHR ''-'' # take 16 (profileDigest storageContractV2 i) @ CHR ''-'' # suffix)"
proof -
  have "list_all is_lower_hex suffix"
    using assms hex_encode_lower_hex by (auto simp: randomHex_def split: prod.splits)
  moreover have "list_all is_lower_hex (profileDigest storageContractV2 i)"
    unfolding profileDigest_def by (rule sha256_hex_lower_hex)
  then have "CHR ''/'' \<notin> set (profileDigest storageContractV2 i)" by (rule digits_no_slash(3))
  ultimately show ?thesis
    using digits_no_slash(3) [of suffix] by (intro quarantine_stamp_name) (auto dest: in_set_takeD)
qed

lemma quarantine_outside:
  assumes "clean_root st" "walks_below st" "quarantine st i reason (d, w) = (errs, d', w')"
  shows "outside (subtree (profileDir st i) \<union> subtree (quarantineDir st)) d d'"
    "errs = [] \<Longrightarrow> dk_nodes d' (profileDir st i) = None"
    "dk_outcomes d = [] \<Longrightarrow> dk_nodes d (profileDir st i) \<noteq> None \<Longrightarrow> 8 \<le> length (sw_random w) \<Longrightarrow>
      \<forall>n. path_name n \<longrightarrow> dk_nodes d (Join (quarantineDir st) n) = None \<Longrightarrow> dk_nodes d' (profileDir st i) = None"
proof -
  let ?P = "profileDir st i" and ?Q = "quarantineDir st"
  let ?S = "subtree ?P \<union> subtree ?Q"
  obtain r where r: "list_all path_name r" "ps_root st = path_of r"
    "\<And>i. profileDir st i = path_of (r @ [''profiles'', profileDigest storageContractV2 i])"
    "?Q = path_of (r @ [''quarantine''])" using store_paths [OF assms(1)] by blast
  have qn: "path_name ''quarantine''" "path_name ''quarantine.json''" by code_simp+
  have pn: "list_all path_name (r @ [''profiles'', profileDigest storageContractV2 i])" using r(1) by simp
  obtain l d1 where l: "Lstat ?P d = (l, d1)" by (metis surj_pair)
  note lt = Lstat_truth [OF l]
  obtain h w1 where h: "randomHex 8 w = (h, w1)" by (metis surj_pair)
  obtain now d2 where c: "read_clock d1 = (now, d2)" by (metis surj_pair)
  have o1: "outside ?S d d1" by (rule outside_calm [OF lt(1)])
  have o2: "outside ?S d d2" using o1 read_clock_step(1) [OF c] by (simp add: outside_def)
  let ?smooth = "dk_outcomes d = [] \<and> dk_nodes d ?P \<noteq> None \<and> 8 \<le> length (sw_random w)
    \<and> (\<forall>n. path_name n \<longrightarrow> dk_nodes d (Join ?Q n) = None)"
  have "outside ?S d d' \<and> (errs = [] \<longrightarrow> dk_nodes d' ?P = None) \<and> (?smooth \<longrightarrow> dk_nodes d' ?P = None)"
  proof (cases "(\<exists>nd. l = Inr nd) \<and> h \<noteq> None")
    case False
    then have "d' = d1 \<and> errs \<noteq> []"
      using assms(3) l h by (cases l; cases h) (auto simp: quarantine_def split: os_error.splits)
    moreover have "\<not> ?smooth"
    proof
      assume ?smooth
      then have "(\<exists>nd. l = Inr nd) \<and> h \<noteq> None"
        using l h by (auto simp: Lstat_def next_outcome_def randomHex_def read_random_def)
      then show False using False by blast
    qed
    ultimately show ?thesis using o1 by blast
  next
    case True
    then obtain nd suffix where t: "l = Inr nd" "h = Some suffix" by auto
    define name where "name = quarantine_stamp now @ ''-'' @ take 16 (profileDigest storageContractV2 i) @ ''-'' @ suffix"
    define dest where "dest = Join (Join (ps_root st) ''quarantine'') name"
    have destv: "Join (Join (ps_root st) ''quarantine'')
        (quarantine_stamp now @ CHR ''-'' # take 16 (profileDigest storageContractV2 i) @ CHR ''-'' # suffix) = dest"
      by (simp add: dest_def name_def)
    have nn: "path_name name" using quarantine_name [of 8 w suffix w1 now i] h t(2) by (simp add: name_def)
    have dn: "list_all path_name (r @ [''quarantine'', name])" using r(1) nn qn by simp
    have de: "dest = path_of (r @ [''quarantine'', name])"
      using Join_name [of "r @ [''quarantine'']" name] r(1,4) nn qn by (simp add: dest_def quarantineDir_def)
    have ds: "subtree dest \<subseteq> subtree ?Q"
      using subtree_below [of "r @ [''quarantine'']" "[name]"] dn r(4) de by simp
    have js: "Join dest ''quarantine.json'' \<in> subtree dest"
      using Join_name [OF dn qn(2)] in_subtree_below [of "r @ [''quarantine'', name]" "[''quarantine.json'']"] dn qn(2) de by simp
    have apart: "?P \<notin> subtree dest" using in_subtree [OF dn pn] r(3) de by auto
    obtain m d3 where m: "RenameTree ?P dest d2 = (m, d3)" by (metis surj_pair)
    obtain f d4 where s: "seal_quarantine st i reason dest d3 = (f, d4)" by (metis surj_pair)
    have val: "d' = (if m then d4 else d3) \<and> errs = (if m then f else [ErrProfileOther])"
      using assms(3) l h t c m s by (cases m) (auto simp: quarantine_def Let_def destv)
    have o3: "outside ?S d d3"
      by (rule outside_trans [OF o2 outside_within [OF RenameTree_step(2) [OF m]]]) (use ds in blast)
    have o34: "touches (subtree dest) d3 d4" by (rule seal_quarantine_touches [OF assms(2) s js])
    have o4: "outside ?S d d4" by (rule outside_trans [OF o3 touches_outside [OF o34]]) (use ds in blast)
    have "dk_nodes d3 ?P = None" if m
      by (rule RenameTree_leaves [of _ dest d2]) (use m that apart in simp_all)
    then have gone: "dk_nodes d' ?P = None" if "m"
      using val that apart o34 by (auto simp: touches_def)
    have "m" if smooth: ?smooth
    proof -
      have same: "d1 = d" using l smooth by (auto simp: Lstat_def next_outcome_def split: option.splits)
      have "dk_outcomes d2 = [] \<and> dk_nodes d2 = dk_nodes d"
        using c smooth by (auto simp: same read_clock_def split: list.splits)
      moreover have "dk_nodes d dest = None" using smooth nn by (simp add: dest_def quarantineDir_def)
      ultimately show m using m smooth by (auto simp: RenameTree_def plain_call_def next_outcome_def)
    qed
    then show ?thesis using val o3 o4 gone by (cases m) auto
  qed
  then show "outside ?S d d'" "errs = [] \<Longrightarrow> dk_nodes d' ?P = None"
    "dk_outcomes d = [] \<Longrightarrow> dk_nodes d ?P \<noteq> None \<Longrightarrow> 8 \<le> length (sw_random w) \<Longrightarrow>
      \<forall>n. path_name n \<longrightarrow> dk_nodes d (Join ?Q n) = None \<Longrightarrow> dk_nodes d' ?P = None" by simp_all
qed

section \<open>What a quarantine keeps\<close>

text \<open>Without failing calls every regular file keeps its content while a tree is sealed.\<close>

definition keeps_files :: "disk \<Rightarrow> disk \<Rightarrow> bool" where
  "keeps_files d d' \<longleftrightarrow>
     dk_outcomes d' = [] \<and> (\<forall>p raw. file_bytes p d = Some raw \<longrightarrow> file_bytes p d' = Some raw)"

lemma keeps_files_refl: "dk_outcomes d = [] \<Longrightarrow> keeps_files d d"
  by (simp add: keeps_files_def)

lemma keeps_files_trans: "keeps_files a b \<Longrightarrow> keeps_files b c \<Longrightarrow> keeps_files a c"
  by (simp add: keeps_files_def)

lemma keeps_outcomes: "keeps_files d d' \<Longrightarrow> dk_outcomes d' = []"
  by (simp add: keeps_files_def)

lemma smooth_call: "dk_outcomes d = [] \<Longrightarrow> plain_call d = (True, d)"
  by (simp add: plain_call_def next_outcome_def)

lemma smooth_read: "dk_outcomes d = [] \<Longrightarrow> file_bytes p d = Some raw \<Longrightarrow> ReadFile p d = (Some raw, d)"
  by (simp add: ReadFile_def smooth_call)

lemma keeps_Chmod: "dk_outcomes d = [] \<Longrightarrow> Chmod p perm d = (ok, d') \<Longrightarrow> keeps_files d d'"
  by (auto simp: Chmod_def smooth_call keeps_files_def file_bytes_def set_node_def split: if_splits option.splits)

lemma keeps_Remove:
  "dk_outcomes d = [] \<Longrightarrow> file_bytes p d = None \<Longrightarrow> Remove p d = (r, d') \<Longrightarrow> keeps_files d d'"
  by (auto simp: Remove_def smooth_call keeps_files_def file_bytes_def set_node_def split: if_splits option.splits)

lemma keeps_clock: "dk_outcomes d = [] \<Longrightarrow> read_clock d = (now, d') \<Longrightarrow> keeps_files d d'"
  by (auto simp: read_clock_def keeps_files_def file_bytes_def split: list.splits)

lemma keeps_sync: "dk_outcomes d = [] \<Longrightarrow> syncDirectory p d = (ok, d') \<Longrightarrow> keeps_files d d'"
  by (auto simp: syncDirectory_def smooth_call keeps_files_def split: if_splits)

lemma keeps_writeSyncedFile:
  assumes "dk_outcomes d = []" "writeSyncedFile p raw perm d = (ok, d')"
  shows "keeps_files d d'"
proof (cases "dk_nodes d p")
  case None
  have "only_at {p} d d'" by (rule writeSyncedFile_step(1) [OF assms(2)])
  then have "file_bytes q d = Some content \<Longrightarrow> file_bytes q d' = Some content" for q content
    using None by (cases "q = p") (auto simp: file_bytes_def only_at_def)
  moreover have "dk_outcomes d' = []"
    using assms None
    by (auto simp: writeSyncedFile_def OpenExclusive_def finish_file_def smooth_call WriteFile_def next_outcome_def
        set_node_def plain_call_def split: if_splits)
  ultimately show ?thesis by (simp add: keeps_files_def)
next
  case (Some nd)
  with assms have "d' = d" by (simp add: writeSyncedFile_def OpenExclusive_def smooth_call)
  then show ?thesis using keeps_files_refl [OF assms(1)] by simp
qed

lemma keeps_sanitize:
  "dk_outcomes d = [] \<Longrightarrow> sanitize_paths base ps d = (r, d') \<Longrightarrow> keeps_files d d'"
proof (induction ps arbitrary: d r d')
  case Nil
  then show ?case by (simp add: keeps_files_refl)
next
  case (Cons path ps)
  obtain x e where rest: "sanitize_paths base ps d = (x, e)" by (metis surj_pair)
  note here = Cons.IH [OF Cons.prems(1) rest]
  obtain q f where rm: "Remove path d = (q, f)" by (metis surj_pair)
  obtain y g where behind: "sanitize_paths base ps f = (y, g)" by (metis surj_pair)
  have gone: "keeps_files d f \<and> keeps_files d g" if "file_bytes path d = None"
    using keeps_Remove [OF Cons.prems(1) that rm] Cons.IH [OF _ behind] keeps_files_trans keeps_outcomes by blast
  show ?case
  proof (cases "dk_nodes d path")
    case None
    then show ?thesis using Cons.prems keeps_files_refl by simp
  next
    case (Some nd)
    show ?thesis
    proof (cases "\<exists>raw. nd_kind nd = Regular raw")
      case True
      then obtain raw where "nd_kind nd = Regular raw" by blast
      with Some have "ReadFile path d = (Some raw, d)" by (intro smooth_read Cons.prems(1)) (simp add: file_bytes_def)
      then have "d' = d \<or> d' = e"
        using Cons.prems Some \<open>nd_kind nd = Regular raw\<close> rest
        by (auto simp: smooth_call split: option.splits)
      then show ?thesis using here keeps_files_refl [OF Cons.prems(1)] by auto
    next
      case False
      then have "d' \<in> {d, e, f, g}"
        using Cons.prems Some rest rm behind
        by (cases "nd_kind nd") (auto simp: smooth_call split: option.splits if_splits)
      moreover have "file_bytes path d = None" using Some False by (auto simp: file_bytes_def split: file_kind.splits)
      ultimately show ?thesis using here gone keeps_files_refl [OF Cons.prems(1)] by auto
    qed
  qed
qed

lemma keeps_protect_files:
  "dk_outcomes d = [] \<Longrightarrow> protect_files ps d = (r, d') \<Longrightarrow> keeps_files d d'"
proof (induction ps arbitrary: d r d')
  case Nil
  then show ?case by (simp add: keeps_files_refl)
next
  case (Cons path ps)
  obtain x e where rest: "protect_files ps d = (x, e)" by (metis surj_pair)
  obtain ok f where c: "Chmod path 0x100 d = (ok, f)" by (metis surj_pair)
  obtain y g where behind: "protect_files ps f = (y, g)" by (metis surj_pair)
  have f: "keeps_files d f" by (rule keeps_Chmod [OF Cons.prems(1) c])
  have g: "keeps_files d g"
    by (rule keeps_files_trans [OF f Cons.IH [OF keeps_outcomes [OF f] behind]])
  have "d' \<in> {d, e, f, g}"
    using Cons.prems rest c behind
    by (auto simp: smooth_call split: option.splits file_kind.splits bool.splits)
  then show ?case using Cons.IH [OF Cons.prems(1) rest] f g keeps_files_refl [OF Cons.prems(1)] by auto
qed

lemma keeps_protect_directories:
  "dk_outcomes d = [] \<Longrightarrow> protect_directories ps d = (r, d') \<Longrightarrow> keeps_files d d'"
proof (induction ps arbitrary: d)
  case Nil
  then show ?case by (simp add: keeps_files_refl)
next
  case (Cons path ps)
  obtain ok f where c: "Chmod path 0x140 d = (ok, f)" by (metis surj_pair)
  have f: "keeps_files d f" by (rule keeps_Chmod [OF Cons.prems(1) c])
  show ?case
  proof (cases ok)
    case True
    then have "protect_directories ps f = (r, d')" using Cons.prems(2) c by simp
    from Cons.IH [OF keeps_outcomes [OF f] this] show ?thesis by (rule keeps_files_trans [OF f])
  next
    case False
    then show ?thesis using Cons.prems(2) c f by simp
  qed
qed

lemma keeps_makeTreeReadOnly:
  assumes "dk_outcomes d = []" "makeTreeReadOnly st base d = (ok, d')"
  shows "keeps_files d d'"
proof -
  obtain x e where p: "protect_files (ps_walk st base d) d = (x, e)" by (metis surj_pair)
  note e = keeps_protect_files [OF assms(1) p]
  show ?thesis
  proof (cases x)
    case None
    then show ?thesis using assms(2) p e by (simp add: makeTreeReadOnly_def)
  next
    case (Some dirs)
    then have "protect_directories (sort_key (\<lambda>p. - int (length p)) dirs) e = (ok, d')"
      using assms(2) p by (simp add: makeTreeReadOnly_def)
    from keeps_protect_directories [OF keeps_outcomes [OF e] this] show ?thesis by (rule keeps_files_trans [OF e])
  qed
qed

lemma keeps_seal_quarantine:
  assumes "dk_outcomes d = []" "seal_quarantine st i reason base d = (errs, d')"
  shows "keeps_files d d' \<and> (errs = [] \<or> errs = [ErrProfileOther])"
proof -
  obtain s1 d1 where s1: "syncDirectory (Join (ps_root st) ''profiles'') d = (s1, d1)" by (metis surj_pair)
  obtain s2 d2 where s2: "syncDirectory (Join (ps_root st) ''quarantine'') d1 = (s2, d2)" by (metis surj_pair)
  obtain g d3 where g: "sanitize_paths base (ps_walk st base d2) d2 = (g, d3)" by (metis surj_pair)
  obtain now d4 where c: "read_clock d3 = (now, d4)" by (metis surj_pair)
  define raw where "raw = ps_marshalReport st
    \<lparr>qr_Version = 1, qr_ContractID = storageContractV2, qr_ProfileDigest = profileDigest storageContractV2 i,
      qr_Reason = reason, qr_QuarantinedAt = FormatRFC3339Nano now, qr_Files = sort_key qf_Path (the g)\<rparr>"
  obtain w d5 where w: "writeSyncedFile (Join base ''quarantine.json'') (the raw) 0x100 d4 = (w, d5)" by (metis surj_pair)
  obtain ok d6 where m: "makeTreeReadOnly st base d5 = (ok, d6)" by (metis surj_pair)
  have k1: "keeps_files d d1" by (rule keeps_sync [OF assms(1) s1])
  have k2: "keeps_files d d2" by (rule keeps_files_trans [OF k1 keeps_sync [OF keeps_outcomes [OF k1] s2]])
  have k3: "keeps_files d d3" by (rule keeps_files_trans [OF k2 keeps_sanitize [OF keeps_outcomes [OF k2] g]])
  have k4: "keeps_files d d4" by (rule keeps_files_trans [OF k3 keeps_clock [OF keeps_outcomes [OF k3] c]])
  have k5: "keeps_files d d5" by (rule keeps_files_trans [OF k4 keeps_writeSyncedFile [OF keeps_outcomes [OF k4] w]])
  have k6: "keeps_files d d6" by (rule keeps_files_trans [OF k5 keeps_makeTreeReadOnly [OF keeps_outcomes [OF k5] m]])
  have "d' \<in> {d1, d2, d3, d4, d5, d6} \<and> (errs = [] \<or> errs = [ErrProfileOther])"
    using assms(2) s1 s2 g c w m
    by (cases s1; cases s2; cases g; cases raw; cases w)
      (auto simp: seal_quarantine_def sanitizeAndChecksumTree_def raw_def split: if_splits)
  then show ?thesis using k1 k2 k3 k4 k5 k6 by auto
qed

text \<open>
  When nothing fails the whole profile is moved: under its name in the quarantine every regular
  file is found again with its content.
\<close>

lemma quarantine_moves:
  assumes "clean_root st" "walks_below st" "quarantine st i reason (d, w) = (errs, d', w')"
    and smooth: "dk_outcomes d = []" "dk_nodes d (profileDir st i) \<noteq> None" "8 \<le> length (sw_random w)"
      "\<forall>n. path_name n \<longrightarrow> dk_nodes d (Join (quarantineDir st) n) = None"
  shows "(\<exists>name. path_name name \<and> (\<forall>p raw. p \<in> subtree (profileDir st i) \<longrightarrow> file_bytes p d = Some raw \<longrightarrow>
        file_bytes (Join (quarantineDir st) name @ drop (length (profileDir st i)) p) d' = Some raw))
    \<and> (errs = [] \<or> errs = [ErrProfileOther])"
proof -
  let ?P = "profileDir st i" and ?Q = "quarantineDir st"
  obtain nd where nd: "dk_nodes d ?P = Some nd" using smooth(2) by blast
  then have l: "Lstat ?P d = (Inr nd, d)" using smooth(1) by (simp add: Lstat_def next_outcome_def)
  obtain suffix w1 where h: "randomHex 8 w = (Some suffix, w1)"
    using smooth(3) by (auto simp: randomHex_def read_random_def split: prod.splits)
  obtain now d2 where c: "read_clock d = (now, d2)" by (metis surj_pair)
  define name where "name = quarantine_stamp now @ ''-'' @ take 16 (profileDigest storageContractV2 i) @ ''-'' @ suffix"
  have nn: "path_name name" using quarantine_name [of 8 w suffix w1 now i] h by (simp add: name_def)
  have dest: "Join (Join (ps_root st) ''quarantine'')
      (quarantine_stamp now @ CHR ''-'' # take 16 (profileDigest storageContractV2 i) @ CHR ''-'' # suffix) = Join ?Q name"
    by (simp add: quarantineDir_def name_def)
  have d2: "dk_outcomes d2 = []" "dk_nodes d2 = dk_nodes d"
    using keeps_clock [OF smooth(1) c] read_clock_step(1) [OF c] by (simp_all add: keeps_files_def)
  obtain m d3 where m: "RenameTree ?P (Join ?Q name) d2 = (m, d3)" by (metis surj_pair)
  have "m" "dk_outcomes d3 = []"
    using m d2 nd smooth(4) nn by (auto simp: RenameTree_def smooth_call)
  obtain f d4 where s: "seal_quarantine st i reason (Join ?Q name) d3 = (f, d4)" by (metis surj_pair)
  note k = keeps_seal_quarantine [OF \<open>dk_outcomes d3 = []\<close> s]
  have val: "d' = d4 \<and> errs = f"
    using assms(3) l h c m s \<open>m\<close> by (simp add: quarantine_def Let_def dest)
  have "file_bytes (Join ?Q name @ drop (length ?P) p) d' = Some raw"
    if "p \<in> subtree ?P" "file_bytes p d = Some raw" for p raw
  proof -
    note below = that(1)
    obtain r where r: "p = ?P @ r" "r = [] \<or> HasPrefix r ''/''"
    proof (cases "p = ?P")
      case False
      then have "take (length (?P @ ''/'')) p = ?P @ ''/''"
        using below by (simp add: subtree_def under_def HasPrefix_def)
      then have "p = ?P @ ''/'' @ drop (length (?P @ ''/'')) p"
        by (metis append.assoc append_take_drop_id)
      then show ?thesis by (rule that) (simp add: HasPrefix_def)
    qed (use that in simp)
    have "dk_nodes d3 (Join ?Q name @ r) = dk_nodes d p"
      using RenameTree_step(3) [OF m \<open>m\<close>, of r] r d2(2) by auto
    then have "file_bytes (Join ?Q name @ r) d3 = Some raw" using that(2) by (simp add: file_bytes_def)
    then show ?thesis using k val r(1) by (simp add: keeps_files_def)
  qed
  then show ?thesis using k val nn by blast
qed

section \<open>The operations\<close>

text \<open>What an operation on a profile may change among what is there.\<close>

abbreviation places :: "profile_store \<Rightarrow> profile_identity \<Rightarrow> string set" where
  "places st i \<equiv> subtree (profileDir st i) \<union> subtree (quarantineDir st)"

lemma handleOpenError_outside:
  assumes "clean_root st" "walks_below st" "handleOpenError st i cause (d, w) = (errs, d', w')"
  shows "outside (places st i) d d'"
    "ErrProfileQuarantined \<in> set errs \<Longrightarrow> ErrProfileQuarantined \<notin> set cause \<Longrightarrow> dk_nodes d' (profileDir st i) = None"
proof -
  obtain q d1 w1 where q: "quarantine st i quarantineReason (d, w) = (q, d1, w1)" by (metis prod_cases3)
  note k = quarantine_outside [OF assms(1,2) q]
  have val: "(d' = d \<and> errs = cause) \<or> (d' = d1 \<and> errs = (if q \<noteq> [] then cause @ q else ErrProfileQuarantined # cause))"
    using assms(3) q by (auto simp: handleOpenError_def split: if_splits)
  then show "outside (places st i) d d'" using k(1) by auto
  have "ErrProfileQuarantined \<notin> set q"
    using q by (auto simp: quarantine_def seal_quarantine_def Let_def
        split: prod.splits sum.splits os_error.splits option.splits bool.splits if_splits)
  then show "ErrProfileQuarantined \<in> set errs \<Longrightarrow> ErrProfileQuarantined \<notin> set cause \<Longrightarrow> dk_nodes d' (profileDir st i) = None"
    using val k(2) by (auto split: if_splits)
qed

lemma handled_outside:
  assumes "clean_root st" "walks_below st"
  shows "outside (places st i) d (fst (snd (handleOpenError st i cause (d, w))))"
proof -
  obtain errs d' w' where "handleOpenError st i cause (d, w) = (errs, d', w')" by (metis prod_cases3)
  then show ?thesis using handleOpenError_outside(1) [OF assms] by simp
qed

lemma decrypt_file_calm: "decrypt_file sn d = (r, d') \<Longrightarrow> calm d d'"
  by (auto simp: decrypt_file_def Let_def split: prod.splits outcome.splits dest: calm_next_outcome)

lemma authenticatePayload_calm: "authenticatePayload sn d = (r, d') \<Longrightarrow> calm d d'"
  by (auto simp: authenticatePayload_def calm_def split: prod.splits bool.splits dest!: calm_plain_call decrypt_file_calm)

text \<open>\<^verbatim>\<open>Load\<close> writes through the writer it was given, which must not reach into the store.\<close>

definition writes_elsewhere :: "profile_store \<Rightarrow> profile_identity \<Rightarrow> (bytes \<Rightarrow> disk \<Rightarrow> bool \<times> disk) \<Rightarrow> bool" where
  "writes_elsewhere st i write \<longleftrightarrow> (\<forall>bs d. outside (places st i) d (snd (write bs d)))"

lemma Load_outside:
  assumes "clean_root st" "walks_below st" "writes_elsewhere st i write"
    "Store_Load st roots write i (d, w) = (r, d', w')"
  shows "outside (places st i) d d'"
proof -
  let ?S = "places st i"
  obtain q d1 where q: "openSnapshot st i roots d = (q, d1)" by (metis surj_pair)
  have o1: "outside ?S d d1" by (rule outside_calm [OF openSnapshot_truth(1) [OF q]])
  have handle: "outside ?S d (fst (snd (handleOpenError st i cause (e, v))))" if "outside ?S d e" for cause e v
    by (rule outside_trans [OF that handled_outside [OF assms(1,2)]])
  have del: "outside ?S d (fst (snd (deliver_payload st i write sn (e, v))))" if e: "outside ?S d e" for sn e v
  proof -
    obtain ok e1 where p: "plain_call e = (ok, e1)" by (metis surj_pair)
    obtain err plaintext e2 where c: "decrypt_file sn e1 = ((err, plaintext), e2)" by (metis prod_cases3 surj_pair)
    obtain written e3 where x: "write plaintext e2 = (written, e3)" by (metis surj_pair)
    have o2: "outside ?S d e1" by (rule outside_trans [OF e outside_plain_call [OF p]])
    have o3: "outside ?S d e2" by (rule outside_trans [OF o2 outside_calm [OF decrypt_file_calm [OF c]]])
    have "outside ?S e2 e3" using assms(3) x unfolding writes_elsewhere_def by (metis snd_conv)
    then have o4: "outside ?S d e3" by (rule outside_trans [OF o3])
    have "fst (snd (deliver_payload st i write sn (e, v))) \<in> {e1, e3} \<union> {fst (snd (handleOpenError st i [the err] (e3, v)))}"
      using p c x by (cases ok; cases written; cases err) (auto simp: deliver_payload_def split: prod.splits)
    then show ?thesis using o2 o4 handle [OF o4] by auto
  qed
  show ?thesis
  proof (cases q)
    case (Inl errs)
    then have "d' \<in> {d, fst (snd (handleOpenError st i errs (d1, w)))}"
      using assms(4) q by (auto simp: Store_Load_def split: if_splits prod.splits)
    then show ?thesis using handle [OF o1] by auto
  next
    case (Inr sn)
    obtain ok d2 where p: "plain_call d1 = (ok, d2)" by (metis surj_pair)
    obtain err plaintext d3 where c: "decrypt_file sn d2 = ((err, plaintext), d3)" by (metis prod_cases3 surj_pair)
    have o2: "outside ?S d d2" by (rule outside_trans [OF o1 outside_plain_call [OF p]])
    have o3: "outside ?S d d3" by (rule outside_trans [OF o2 outside_calm [OF decrypt_file_calm [OF c]]])
    have "d' \<in> {d, d2, fst (snd (handleOpenError st i [the err] (d3, w))), fst (snd (deliver_payload st i write sn (d3, w)))}"
      using assms(4) q Inr p c
      by (cases ok; cases err) (auto simp: Store_Load_def split: if_splits prod.splits)
    then show ?thesis using o2 handle [OF o3] del [OF o3] by auto
  qed
qed

lemma Checkpoint_outside:
  assumes "clean_root st" "walks_below st" "Store_Checkpoint st roots i payload (d, w) = (r, d', w')"
  shows "outside (places st i) d d'"
proof -
  let ?S = "places st i"
  obtain p where p: "list_all path_name p" "profileDir st i = path_of p" "p \<noteq> []"
    using profile_path [OF assms(1)] by blast
  obtain q d1 where q: "openSnapshot st i roots d = (q, d1)" by (metis surj_pair)
  have o1: "outside ?S d d1" by (rule outside_calm [OF openSnapshot_truth(1) [OF q]])
  have handle: "outside ?S d (fst (snd (handleOpenError st i cause (e, v))))" if "outside ?S d e" for cause e v
    by (rule outside_trans [OF that handled_outside [OF assms(1,2)]])
  show ?thesis
  proof (cases q)
    case (Inl errs)
    then have "d' \<in> {d, fst (snd (handleOpenError st i errs (d1, w)))}"
      using assms(3) q by (auto simp: Store_Checkpoint_def split: if_splits)
    then show ?thesis using handle [OF o1] by auto
  next
    case (Inr sn)
    obtain a d2 where a: "authenticatePayload sn d1 = (a, d2)" by (metis surj_pair)
    have o2: "outside ?S d d2" by (rule outside_trans [OF o1 outside_calm [OF authenticatePayload_calm [OF a]]])
    obtain c d3 w3 where c: "commitSnapshot st (path_of p) (sn_metadata sn) (sn_cipher sn) payload (d2, w) = (c, d3, w3)"
      by (metis prod_cases3)
    have o3: "outside ?S d d3"
      by (rule outside_trans [OF o2 outside_mono [OF commitSnapshot_outside [OF c p(1,3)]]]) (simp add: p(2))
    have "d' \<in> {d, d3, fst (snd (handleOpenError st i [the a] (d2, w)))}"
      using assms(3) q Inr a c
      by (cases a) (auto simp: Store_Checkpoint_def p(2) split: if_splits prod.splits)
    then show ?thesis using o3 handle [OF o2] by auto
  qed
qed

lemma Create_outside:
  assumes "clean_root st" "Store_Create st i k payload (d, w) = (r, d', w')"
  shows "outside (places st i) d d'"
proof -
  let ?S = "places st i" and ?P = "profileDir st i"
  obtain p where p: "list_all path_name p" "?P = path_of p" "p \<noteq> []"
    using profile_path [OF assms(1)] by blast
  obtain l d1 where l: "Lstat ?P d = (l, d1)" by (metis surj_pair)
  obtain g d2 where g: "legacyProfileGuard st i d1 = (g, d2)" by (metis surj_pair)
  obtain e d3 where e: "ensurePrivateDirectory ?P d2 = (e, d3)" by (metis surj_pair)
  obtain x random where x: "protector_create i k (sw_random w) = (x, random)" by (metis surj_pair)
  have o1: "outside ?S d d1" by (rule outside_calm [OF Lstat_truth(1) [OF l]])
  have o2: "outside ?S d d2"
    using outside_trans [OF o1 outside_calm] g Lstat_truth(1)
    by (fastforce simp: legacyProfileGuard_def split: prod.splits)
  have o3: "outside ?S d d3"
    by (rule outside_trans [OF o2 outside_within [OF ensurePrivateDirectory_step [OF e]]]) simp
  have o4: "outside ?S d (snd (Remove ?P d3))"
    by (rule outside_trans [OF o3 outside_within [OF Remove_step(1) [OF prod.collapse [symmetric]]]]) simp
  define com where "com m c = commitSnapshot st (path_of p) m c payload (d3, w\<lparr>sw_random := random\<rparr>)" for m c
  have o5: "outside ?S d (fst (snd (com m c)))" for m c
    by (rule outside_trans [OF o3 outside_mono [OF commitSnapshot_outside [OF _ p(1,3)]]])
      (use p(2) com_def in \<open>auto simp: prod_eq_iff\<close>)
  have o6: "outside ?S d (cleanup st ?P (fst (snd (com m c))))" for m c
    by (rule outside_trans [OF o5 cleanup_outside]) simp
  have "d' \<in> {d, d1, d2, d3, snd (Remove ?P d3)}
      \<or> (\<exists>m c. d' = fst (snd (com m c)) \<or> d' = cleanup st ?P (fst (snd (com m c))))"
  proof (cases "l = Inl ErrNotExist \<and> g \<and> e = None \<and> (\<exists>m c. x = Inr (m, c))")
    case False
    then show ?thesis using assms(2) l g e x
      by (cases l; cases g; cases e; cases x) (auto simp: Store_Create_def split: if_splits os_error.splits)
  next
    case True
    then obtain m c where t: "l = Inl ErrNotExist" "g" "e = None" "x = Inr (m, c)" by blast
    have "d' = d \<or> d' = fst (snd (com m c)) \<or> d' = cleanup st ?P (fst (snd (com m c)))"
      using assms(2) l g e x t
      by (auto simp: Store_Create_def com_def p(2) split: if_splits prod.splits)
    then show ?thesis by blast
  qed
  then show ?thesis using o1 o2 o3 o4 o5 o6 by auto
qed

lemma QuarantineInvalidState_outside:
  assumes "clean_root st" "walks_below st" "QuarantineInvalidState st i (d, w) = (r, d', w')"
  shows "outside (places st i) d d'"
proof -
  obtain q d1 w1 where q: "quarantine st i stateQuarantineReason (d, w) = (q, d1, w1)" by (metis prod_cases3)
  from assms(3) q have "d' \<in> {d, d1}" by (auto simp: QuarantineInvalidState_def split: if_splits)
  then show ?thesis using quarantine_outside(1) [OF assms(1,2) q] by auto
qed

section \<open>Other profiles\<close>

definition stored_paths :: "profile_store \<Rightarrow> profile_identity \<Rightarrow> string \<Rightarrow> string set" where
  "stored_paths st j checkpoint =
     {profileDir st j, Join (profileDir st j) currentFileName, snapshot_dir st j checkpoint,
      Join (snapshot_dir st j checkpoint) metadataFileName, Join (snapshot_dir st j checkpoint) payloadFileName}"

lemma stored_there: "stored st j roots checkpoint m c stream d \<Longrightarrow> q \<in> stored_paths st j checkpoint \<Longrightarrow> dk_nodes d q \<noteq> None"
  by (auto simp: stored_def stored_paths_def readable_def private_dir_at_def)

lemma stored_kept:
  assumes "stored st j roots checkpoint m c stream d"
    and "\<And>q. q \<in> stored_paths st j checkpoint \<Longrightarrow> dk_nodes d' q = dk_nodes d q"
  shows "stored st j roots checkpoint m c stream d'"
proof -
  have r: "readable q raw d'" if "readable q raw d" "q \<in> stored_paths st j checkpoint" for q raw
    using that assms(2) [OF that(2)] by (auto simp: readable_def)
  have v: "private_dir_at q d'" if "private_dir_at q d" "q \<in> stored_paths st j checkpoint" for q
    using that assms(2) [OF that(2)] by (auto simp: private_dir_at_def)
  have "profileDir st j \<in> stored_paths st j checkpoint" "snapshot_dir st j checkpoint \<in> stored_paths st j checkpoint"
    "Join (profileDir st j) currentFileName \<in> stored_paths st j checkpoint"
    "Join (snapshot_dir st j checkpoint) metadataFileName \<in> stored_paths st j checkpoint"
    "Join (snapshot_dir st j checkpoint) payloadFileName \<in> stored_paths st j checkpoint"
    by (simp_all add: stored_paths_def)
  with assms(1) r v show ?thesis unfolding stored_def by blast
qed

lemma stored_elements:
  assumes "stored st j roots checkpoint m c stream d" "list_all path_name p" "profileDir st j = path_of p"
  shows "path_name checkpoint"
    "stored_paths st j checkpoint = path_of ` {p, p @ [currentFileName], p @ [''checkpoints'', checkpoint],
       p @ [''checkpoints'', checkpoint, metadataFileName], p @ [''checkpoints'', checkpoint, payloadFileName]}"
proof -
  have "\<exists>raw cu. parseCurrent st raw = Some cu \<and> cu_Checkpoint cu = checkpoint" using assms(1) by (auto simp: stored_def)
  then have "validCheckpointID checkpoint" by (auto simp: parseCurrent_def split: if_splits option.splits)
  then show n: "path_name checkpoint" by (rule checkpoint_name)
  have s: "snapshot_dir st j checkpoint = path_of (p @ [''checkpoints'', checkpoint])"
    using assms(2,3) n Join_name [of p "''checkpoints''"] Join_name [of "p @ [''checkpoints'']" checkpoint]
    by (simp add: snapshot_dir_def)
  have "list_all path_name (p @ [''checkpoints'', checkpoint])" using assms(2) n by simp
  note j = Join_name [OF this]
  show "stored_paths st j checkpoint = path_of ` {p, p @ [currentFileName], p @ [''checkpoints'', checkpoint],
       p @ [''checkpoints'', checkpoint, metadataFileName], p @ [''checkpoints'', checkpoint, payloadFileName]}"
    using j [of metadataFileName] j [of payloadFileName] Join_name [OF assms(2), of currentFileName]
    by (simp add: stored_paths_def s assms(3))
qed

lemma loads_as_kept:
  assumes "clean_root st" "loads_as st roots j d payload"
    and "\<And>q. q \<in> subtree (profileDir st j) \<Longrightarrow> dk_nodes d q \<noteq> None \<Longrightarrow> dk_nodes d' q = dk_nodes d q"
  shows "loads_as st roots j d' payload"
proof -
  obtain checkpoint m c stream where s: "pid_valid j" "stored st j roots checkpoint m c stream d"
    "payload_decrypt c stream = (None, payload)" using assms(2) unfolding loads_as_iff by blast
  obtain p where p: "list_all path_name p" "profileDir st j = path_of p" "p \<noteq> []"
    using profile_path [OF assms(1)] by blast
  note e = stored_elements [OF s(2) p(1,2)]
  have "stored_paths st j checkpoint \<subseteq> subtree (profileDir st j)"
    unfolding e(2) p(2)
    using p(1) e(1) in_subtree [OF p(1) p(1) p(3)]
      in_subtree_below [OF _ p(3), of "[currentFileName]"] in_subtree_below [OF _ p(3), of "[''checkpoints'', checkpoint]"]
      in_subtree_below [OF _ p(3), of "[''checkpoints'', checkpoint, metadataFileName]"]
      in_subtree_below [OF _ p(3), of "[''checkpoints'', checkpoint, payloadFileName]"]
    by simp
  then have "stored st j roots checkpoint m c stream d'"
    by (intro stored_kept [OF s(2)] assms(3) stored_there [OF s(2)]) auto
  then show ?thesis using s(1,3) unfolding loads_as_iff by blast
qed

lemma subtree_elements:
  assumes "list_all path_name a" "a \<noteq> []" "q \<in> subtree (path_of a)"
  shows "\<exists>u. Split q (CHR ''/'') = [] # a @ u"
proof -
  have a: "Split (path_of a) (CHR ''/'') = [] # a" using Split_join_names [OF assms(1,2)] by (simp add: path_of_def)
  show ?thesis
  proof (cases "q = path_of a")
    case False
    then obtain x where "q = path_of a @ CHR ''/'' # x" using assms(3) by (auto simp: subtree_def under_split)
    then show ?thesis using a by (simp add: Split_append_separator)
  qed (use a in simp)
qed

lemma subtrees_apart:
  assumes "list_all path_name a" "list_all path_name b" "\<nexists>x. a = b @ x" "\<nexists>x. b = a @ x"
  shows "subtree (path_of a) \<inter> subtree (path_of b) = {}"
proof -
  have "a \<noteq> []" "b \<noteq> []" using assms(3,4) by auto
  have "q \<notin> subtree (path_of b)" if "q \<in> subtree (path_of a)" for q
  proof
    assume "q \<in> subtree (path_of b)"
    from subtree_elements [OF assms(2) \<open>b \<noteq> []\<close> this] obtain v where v: "Split q (CHR ''/'') = [] # b @ v" ..
    from subtree_elements [OF assms(1) \<open>a \<noteq> []\<close> that] obtain u where "Split q (CHR ''/'') = [] # a @ u" ..
    with v have "a @ u = b @ v" by simp
    then show False using assms(3,4) unfolding append_eq_append_conv2 by blast
  qed
  then show ?thesis by blast
qed

lemma places_apart:
  assumes "clean_root st" "profileDigest storageContractV2 i \<noteq> profileDigest storageContractV2 j"
  shows "places st i \<inter> subtree (profileDir st j) = {}"
proof -
  obtain r where r: "list_all path_name r"
    "\<And>i. profileDir st i = path_of (r @ [''profiles'', profileDigest storageContractV2 i])"
    "quarantineDir st = path_of (r @ [''quarantine''])"
    using store_paths [OF assms(1)] by blast
  have q: "path_name ''quarantine''" by code_simp
  have "subtree (profileDir st i) \<inter> subtree (profileDir st j) = {}"
    unfolding r(2) by (rule subtrees_apart) (use r(1) assms(2) in auto)
  moreover have "subtree (quarantineDir st) \<inter> subtree (profileDir st j) = {}"
    unfolding r(2,3) by (rule subtrees_apart) (use r(1) q in auto)
  ultimately show ?thesis by blast
qed

text \<open>The calls of the store that name one profile; the writers stay out of the store.\<close>

inductive store_step ::
    "profile_store \<Rightarrow> root_keys \<Rightarrow> profile_identity \<Rightarrow> store_state \<Rightarrow> store_state \<Rightarrow> bool"
  for st roots i where
  loaded: "writes_elsewhere st i write \<Longrightarrow> Store_Load st roots write i s = (r, s') \<Longrightarrow> store_step st roots i s s'"
| created: "Store_Create st i k payload s = (r, s') \<Longrightarrow> store_step st roots i s s'"
| checkpointed: "Store_Checkpoint st roots i payload s = (r, s') \<Longrightarrow> store_step st roots i s s'"
| quarantined: "QuarantineInvalidState st i s = (r, s') \<Longrightarrow> store_step st roots i s s'"

lemma store_step_outside:
  assumes "clean_root st" "walks_below st" "store_step st roots i s s'"
  shows "outside (places st i) (fst s) (fst s')"
  using assms(3)
proof cases
  case (loaded out r)
  then show ?thesis using Load_outside [OF assms(1,2), of i out roots "fst s" "snd s" r "fst s'" "snd s'"] by simp
next
  case (created k payload r)
  then show ?thesis using Create_outside [OF assms(1), of i k payload "fst s" "snd s" r "fst s'" "snd s'"] by simp
next
  case (checkpointed payload r)
  then show ?thesis using Checkpoint_outside [OF assms(1,2), of roots i payload "fst s" "snd s" r "fst s'" "snd s'"] by simp
next
  case (quarantined r)
  then show ?thesis using QuarantineInvalidState_outside [OF assms(1,2), of i "fst s" "snd s" r "fst s'" "snd s'"] by simp
qed

lemma store_step_other:
  assumes "clean_root st" "walks_below st" "store_step st roots i s s'"
    and "profileDigest storageContractV2 i \<noteq> profileDigest storageContractV2 j" "loads_as st keys j (fst s) payload"
  shows "loads_as st keys j (fst s') payload"
proof (rule loads_as_kept [OF assms(1,5)])
  fix q assume "q \<in> subtree (profileDir st j)" "dk_nodes (fst s) q \<noteq> None"
  then show "dk_nodes (fst s') q = dk_nodes (fst s) q"
    using store_step_outside [OF assms(1-3)] places_apart [OF assms(1,4)] unfolding outside_def by blast
qed

end
