(* ===== verification/StoreProperties.thy ===== *)
theory StoreProperties
  imports StoreIsolation ProfileProperties
begin

text \<open>
  The properties of the profile store: a checkpoint replaces a stored profile as a whole, a new
  profile can be loaded, the operations on a profile leave the others alone, and what is quarantined
  or pruned.
\<close>

section \<open>A stored profile\<close>

lemma encrypted_reads_back:
  assumes "payload_encrypt c (payload, bad) random = (Inr sealed, random')" "cip_storageContract c = storageContractV2"
  shows "payload_decrypt c sealed = (None, payload)"
proof -
  have "\<not> bad" using assms(1) by (auto simp: payload_encrypt_def split: option.splits prod.splits if_splits)
  then obtain prefix out where p: "cipher_rejects c = None" "length prefix = 8"
    "encrypt_chunks c prefix 0 payload = Some out" "sealed = payloadMagic @ prefix @ out"
    using assms(1) payload_encrypt_parts [of c payload random sealed random'] by auto
  show ?thesis
    using decrypt_encrypt_chunks [OF assms(2) p(3), of "[]"] by (simp add: p(4) payload_decrypt_parts [OF p(1,2)])
qed

definition sample_store :: "profile_metadata \<Rightarrow> profile_store" where
  "sample_store m =
     \<lparr>ps_root = ''/data'', ps_retain = False, ps_list = (\<lambda>p d. []), ps_walk = (\<lambda>p d. [p]),
      ps_modified = (\<lambda>p nd. if nd_kind nd = Directory then 0 else 7),
      ps_current = (\<lambda>raw. \<lparr>dec_value = \<lparr>cu_Version = currentVersion, cu_Checkpoint = raw\<rparr>, dec_first = DecodeOK,
        dec_first_read = length raw, dec_second = DecodeEOF, dec_second_read = length raw\<rparr>),
      ps_marshalCurrent = (\<lambda>c. Some (cu_Checkpoint c)),
      ps_metadata = one_text_codec ''m'' m m, ps_marshalMetadata = (\<lambda>x. if x = m then Some ''m'' else None),
      ps_marshalReport = (\<lambda>q. Some ''{}''), ps_tokens = (\<lambda>bs. ([], True))\<rparr>"

definition sample_keys :: root_keys where
  "sample_keys g = (if g = 1 then Some sample_root else None)"

definition sample_checkpoint :: string where
  "sample_checkpoint = replicate 32 (CHR ''a'')"

definition private_file :: "bytes \<Rightarrow> node" where
  "private_file bs = \<lparr>nd_kind = Regular bs, nd_perm = 0x180, nd_owned = True\<rparr>"

definition sample_store_disk :: "profile_store \<Rightarrow> bytes \<Rightarrow> disk" where
  "sample_store_disk st sealed =
     (let dir = profileDir st sample_profile; snapshot = snapshot_dir st sample_profile sample_checkpoint in
      \<lparr>dk_nodes = [dir \<mapsto> new_directory 0x1C0, Join dir currentFileName \<mapsto> private_file sample_checkpoint,
         snapshot \<mapsto> new_directory 0x1C0, Join snapshot metadataFileName \<mapsto> private_file ''m'',
         Join snapshot payloadFileName \<mapsto> private_file sealed],
       dk_outcomes = [], dk_names = [], dk_now = 0, dk_ticks = []\<rparr>)"

lemma sample_clean_root [simp]: "clean_root (sample_store m)"
  unfolding clean_root_def sample_store_def by simp code_simp

lemma sample_walks_below [simp]: "walks_below (sample_store m)"
  by (simp add: walks_below_def sample_store_def)

lemma sample_stored:
  "\<exists>m sealed. loads_as (sample_store m) sample_keys sample_profile (sample_store_disk (sample_store m) sealed) ''profile''"
proof -
  obtain m c random sealed random' where made: "protector_create sample_profile (Some sample_root) sample_random = (Inr (m, c), random)"
    "payload_encrypt c (''profile'', False) random = (Inr sealed, random')" using sample_sealed by blast
  note created = create_then_open [OF made(1)]
  have g: "pm_RootKeyGeneration m = 1"
    using created(1) created(4) by (auto simp: protector_open_def unwrap_def sample_root_def split: if_splits sum.splits)
  have v: "validRoot (Some sample_root)" by code_simp
  have k: "sample_keys (pm_RootKeyGeneration m) = Some sample_root" by (simp add: g sample_keys_def)
  let ?st = "sample_store m"
  let ?d = "sample_store_disk ?st sealed"
  obtain p where p: "list_all path_name p" "profileDir ?st sample_profile = path_of p" "p \<noteq> []"
    using profile_path [OF sample_clean_root] by blast
  have cv: "validCheckpointID sample_checkpoint" by code_simp
  note cn = checkpoint_name [OF cv]
  have s: "snapshot_dir ?st sample_profile sample_checkpoint = path_of (p @ [''checkpoints'', sample_checkpoint])"
    using p cn Join_name [of p "''checkpoints''"] Join_name [of "p @ [''checkpoints'']" sample_checkpoint]
    by (simp add: snapshot_dir_def)
  have sn: "list_all path_name (p @ [''checkpoints'', sample_checkpoint])" using p(1) cn by simp
  have j: "Join (path_of p) currentFileName = path_of (p @ [currentFileName])"
    "Join (path_of (p @ [''checkpoints'', sample_checkpoint])) metadataFileName
      = path_of (p @ [''checkpoints'', sample_checkpoint, metadataFileName])"
    "Join (path_of (p @ [''checkpoints'', sample_checkpoint])) payloadFileName
      = path_of (p @ [''checkpoints'', sample_checkpoint, payloadFileName])"
    using Join_name [OF p(1), of currentFileName] Join_name [OF sn, of metadataFileName] Join_name [OF sn, of payloadFileName]
    by simp_all
  have names: "metadataFileName \<noteq> payloadFileName" by code_simp
  have nodes: "dk_nodes ?d = [path_of p \<mapsto> new_directory 0x1C0, path_of (p @ [currentFileName]) \<mapsto> private_file sample_checkpoint,
     path_of (p @ [''checkpoints'', sample_checkpoint]) \<mapsto> new_directory 0x1C0,
     path_of (p @ [''checkpoints'', sample_checkpoint, metadataFileName]) \<mapsto> private_file ''m'',
     path_of (p @ [''checkpoints'', sample_checkpoint, payloadFileName]) \<mapsto> private_file sealed]"
    by (simp add: sample_store_disk_def Let_def p(2) s j)
  have look: "dk_nodes ?d (path_of p) = Some (new_directory 0x1C0)"
    "dk_nodes ?d (path_of (p @ [currentFileName])) = Some (private_file sample_checkpoint)"
    "dk_nodes ?d (path_of (p @ [''checkpoints'', sample_checkpoint])) = Some (new_directory 0x1C0)"
    "dk_nodes ?d (path_of (p @ [''checkpoints'', sample_checkpoint, metadataFileName])) = Some (private_file ''m'')"
    "dk_nodes ?d (path_of (p @ [''checkpoints'', sample_checkpoint, payloadFileName])) = Some (private_file sealed)"
    unfolding nodes using p(1) cn names by (simp_all add: path_of_inject)
  have pc: "parseCurrent ?st sample_checkpoint = Some \<lparr>cu_Version = currentVersion, cu_Checkpoint = sample_checkpoint\<rparr>"
    using cv by (simp add: parseCurrent_def sample_store_def strict_decode_def maxCurrentBytes_def validCheckpointID_def)
  have pm: "parseMetadata (ps_metadata ?st) storageContractV2 ''m'' = Inr m"
    using created(2) by (simp add: parseMetadata_def sample_store_def strict_decode_def one_text_codec_def maxMetadataBytes_def)
  have "stored ?st sample_profile sample_keys sample_checkpoint m c sealed ?d"
    unfolding stored_def p(2) s j k
    using look pc pm v created(1) by (auto simp: private_dir_at_def readable_def private_file_def new_directory_def)
  moreover have "payload_decrypt c sealed = (None, ''profile'')"
    by (rule encrypted_reads_back [OF made(2) created(5)])
  ultimately have "loads_as ?st sample_keys sample_profile ?d ''profile''"
    using created(4) unfolding loads_as_iff by blast
  then show ?thesis by blast
qed

section \<open>Committed checkpoints\<close>

text \<open>What the store needs of the JSON of its two records: what is written can be read.\<close>

definition store_codecs :: "profile_store \<Rightarrow> bool" where
  "store_codecs st \<longleftrightarrow>
     (\<forall>ck raw. validCheckpointID ck \<longrightarrow> ps_marshalCurrent st \<lparr>cu_Version = currentVersion, cu_Checkpoint = ck\<rparr> = Some raw \<longrightarrow>
        raw \<noteq> [] \<and> length raw \<le> maxCurrentBytes
        \<and> strict_decode (ps_current st) raw = Some \<lparr>cu_Version = currentVersion, cu_Checkpoint = ck\<rparr>)
     \<and> (\<forall>m raw. metadata_shape_ok storageContractV2 m \<longrightarrow> ps_marshalMetadata st m = Some raw \<longrightarrow>
        raw \<noteq> [] \<and> strict_decode (ps_metadata st) raw = Some m)"

lemma pointer_reads_back:
  assumes "store_codecs st" "validCheckpointID ck"
    "ps_marshalCurrent st \<lparr>cu_Version = currentVersion, cu_Checkpoint = ck\<rparr> = Some raw"
  shows "parseCurrent st raw = Some \<lparr>cu_Version = currentVersion, cu_Checkpoint = ck\<rparr>"
  using assms by (auto simp: parseCurrent_def store_codecs_def)

lemma metadata_reads_back:
  assumes "store_codecs st" "marshalMetadata (ps_marshalMetadata st) m = Inr raw"
  shows "parseMetadata (ps_metadata st) storageContractV2 raw = Inr m"
  using assms by (auto simp: marshalMetadata_def parseMetadata_def store_codecs_def split: if_splits option.splits)

lemma opened_contract: "protector_open m i k = Inr c \<Longrightarrow> cip_storageContract c = storageContractV2"
  by (auto simp: protector_open_def cip_storageContract_def split: if_splits sum.splits)

lemma committed_loads:
  assumes laws: "clean_root st" "store_codecs st"
    and run: "commitSnapshot st (profileDir st i) m c (payload, bad) (d, w) = ((True, errs), d', w')"
    and key: "validRoot (roots (pm_RootKeyGeneration m))" "protector_open m i (roots (pm_RootKeyGeneration m)) = Inr c"
    and there: "private_dir_at (profileDir st i) d"
  shows "loads_as st roots i d' payload"
proof -
  obtain p where p: "list_all path_name p" "profileDir st i = path_of p" "p \<noteq> []"
    using profile_path [OF laws(1)] by blast
  obtain ck raw mraw sealed random random' where k: "validCheckpointID ck"
    "ps_marshalCurrent st \<lparr>cu_Version = currentVersion, cu_Checkpoint = ck\<rparr> = Some raw"
    "marshalMetadata (ps_marshalMetadata st) m = Inr mraw" "payload_encrypt c (payload, bad) random = (Inr sealed, random')"
    and f: "readable (path_of (p @ [currentFileName])) raw d'" "private_dir_at (path_of (p @ [''checkpoints'', ck])) d'"
    "readable (path_of (p @ [''checkpoints'', ck, metadataFileName])) mraw d'"
    "readable (path_of (p @ [''checkpoints'', ck, payloadFileName])) sealed d'"
    "\<And>nd. dk_nodes d (path_of p) = Some nd \<Longrightarrow> dk_nodes d' (path_of p) = Some nd"
    using commitSnapshot_step(2) [OF run [unfolded p(2)] p(1) refl] by auto
  note n = checkpoint_name [OF k(1)]
  have cs: "list_all path_name (p @ [''checkpoints'', ck])" using p(1) n by simp
  have s: "snapshot_dir st i ck = path_of (p @ [''checkpoints'', ck])"
    using p n Join_name [of p "''checkpoints''"] Join_name [of "p @ [''checkpoints'']" ck] by (simp add: snapshot_dir_def)
  have "private_dir_at (profileDir st i) d'" using there f(5) p(2) by (auto simp: private_dir_at_def)
  then have "stored st i roots ck m c sealed d'"
    using pointer_reads_back [OF laws(2) k(1,2)] metadata_reads_back [OF laws(2) k(3)] key f Join_name [OF p(1)] Join_name [OF cs]
    by (auto simp: stored_def s p(2))
  moreover have "payload_decrypt c sealed = (None, payload)"
    by (rule encrypted_reads_back [OF k(4) opened_contract [OF key(2)]])
  moreover have "pid_valid i" using key(2) by (auto simp: protector_open_def split: if_splits)
  ultimately show ?thesis unfolding loads_as_iff by blast
qed

lemma not_committed_keeps:
  assumes "clean_root st" "loads_as st roots i d old"
    and run: "commitSnapshot st (profileDir st i) m c payload (d, w) = ((False, errs), d', w')"
  shows "errs \<noteq> []" "loads_as st roots i d' old"
proof -
  obtain p where p: "list_all path_name p" "profileDir st i = path_of p" "p \<noteq> []"
    using profile_path [OF assms(1)] by blast
  note k = commitSnapshot_step(1) [OF run [unfolded p(2)] p(1) refl]
  then show "errs \<noteq> []" by simp
  obtain checkpoint m c stream where s: "pid_valid i" "stored st i roots checkpoint m c stream d"
    "payload_decrypt c stream = (None, old)" using assms(2) unfolding loads_as_iff by blast
  note e = stored_elements [OF s(2) p(1,2)]
  let ?cs = "p @ [''checkpoints'']"
  have csn: "list_all path_name ?cs" using p(1) by simp
  have there: "dk_nodes d (path_of x) \<noteq> None"
    if "x \<in> {p, p @ [currentFileName], p @ [''checkpoints'', checkpoint],
       p @ [''checkpoints'', checkpoint, metadataFileName], p @ [''checkpoints'', checkpoint, payloadFileName]}" for x
    using stored_there [OF s(2)] e(2) that by blast
  have "path_of x \<notin> spare ?cs d"
    if x: "x \<in> {p, p @ [currentFileName], p @ [''checkpoints'', checkpoint],
       p @ [''checkpoints'', checkpoint, metadataFileName], p @ [''checkpoints'', checkpoint, payloadFileName]}" for x
  proof
    have xn: "list_all path_name x" using x p(1) e(1) by auto
    assume "path_of x \<in> spare ?cs d"
    then consider "path_of x = path_of ?cs"
      | y where "path_name y" "dk_nodes d (path_of (?cs @ [y])) = None" "path_of x \<in> subtree (path_of (?cs @ [y]))"
      using there [OF x] by (auto simp: spare_def)
    then show False
    proof cases
      case 1
      then have "x = ?cs" using path_of_inject [OF xn csn] by simp
      then show False using x by (auto simp: currentFileName_def)
    next
      case (2 y)
      have "list_all path_name (?cs @ [y])" using csn 2(1) by simp
      from in_subtree [OF this xn] 2(3) obtain z where "x = ?cs @ y # z" by auto
      then have "y = checkpoint" using x by (auto simp: currentFileName_def)
      then show False using 2(2) there [of "p @ [''checkpoints'', checkpoint]"] by simp
    qed
  qed
  then have "q \<notin> spare ?cs d" if "q \<in> stored_paths st i checkpoint" for q
    using that e(2) by auto
  then have "stored st i roots checkpoint m c stream d'"
    using k by (intro stored_kept [OF s(2)]) (auto simp: only_at_def)
  then show "loads_as st roots i d' old" using s unfolding loads_as_iff by blast
qed

lemma saved_or_kept:
  assumes "clean_root st" "store_codecs st" "stored st i roots checkpoint m c stream d" "loads_as st roots i d old"
    and run: "commitSnapshot st (profileDir st i) m c (payload, bad) (d, w) = ((com, errs), d', w')"
  shows "loads_as st roots i d' old \<and> errs \<noteq> [] \<or> loads_as st roots i d' payload"
proof (cases com)
  case True
  from run True have "commitSnapshot st (profileDir st i) m c (payload, bad) (d, w) = ((True, errs), d', w')" by simp
  from committed_loads [OF assms(1,2) this] assms(3) show ?thesis by (simp add: stored_def)
next
  case False
  from run False have "commitSnapshot st (profileDir st i) m c (payload, bad) (d, w) = ((False, errs), d', w')" by simp
  from not_committed_keeps [OF assms(1,4) this] show ?thesis by simp
qed

lemma sample_codecs [simp]: "store_codecs (sample_store m)"
proof -
  have "ck \<noteq> [] \<and> length ck \<le> maxCurrentBytes" if "validCheckpointID ck" for ck
    using that by (auto simp: validCheckpointID_def maxCurrentBytes_def)
  then show ?thesis
    by (auto simp: store_codecs_def sample_store_def strict_decode_def one_text_codec_def split: if_splits)
qed

text \<open>
  C7. A checkpoint replaces a stored profile as a whole. Whatever calls fail while it is written,
  loading the profile afterwards gives exactly the old payload or exactly the new one, unless the
  profile was found corrupt and the error says so; a checkpoint that reports success gives the new
  one.
\<close>

theorem checkpoint_is_atomic:
  assumes "clean_root st" "store_codecs st" "loads_as st roots i d old"
    and "Store_Checkpoint st roots i (payload, bad) (d, w) = (errs, d', w')"
  shows "(isQuarantineCause errs \<or> loads_as st roots i d' old \<or> loads_as st roots i d' payload)
    \<and> (errs = [] \<longrightarrow> loads_as st roots i d' payload)"
proof -
  have kept: "loads_as st roots i e old" if "calm d e" for e
    using assms(3) calm_files(3) [OF that] unfolding loads_as_iff by blast
  have handled: "(isQuarantineCause errs \<or> loads_as st roots i d' old) \<and> errs \<noteq> []"
    if "handleOpenError st i cause (e, w) = (errs, d', w')" "calm d e" "cause \<noteq> []" for cause e
    using that kept [OF that(2)] by (auto simp: handleOpenError_def isQuarantineCause_def split: if_splits prod.splits)
  obtain q d1 where q: "openSnapshot st i roots d = (q, d1)" by (metis surj_pair)
  note o1 = openSnapshot_truth [OF q]
  show ?thesis
  proof (cases "pid_valid i \<and> sw_locked w")
    case False
    then have "errs \<noteq> [] \<and> d' = d" using assms(4) by (auto simp: Store_Checkpoint_def split: if_splits)
    then show ?thesis using assms(3) by simp
  next
    case ready: True
    show ?thesis
    proof (cases q)
      case (Inl cause)
      then have "handleOpenError st i cause (d1, w) = (errs, d', w')"
        using assms(4) ready q by (simp add: Store_Checkpoint_def)
      moreover have "cause \<noteq> []" using q Inl
        by (auto simp: openSnapshot_def open_checkpoint_def
            split: prod.splits option.splits os_error.splits bool.splits sum.splits if_splits)
      ultimately show ?thesis using handled o1(1) by blast
    next
      case (Inr sn)
      obtain checkpoint stream where s: "stored st i roots checkpoint (sn_metadata sn) (sn_cipher sn) stream d"
        using o1(2) [OF Inr] by blast
      obtain a d2 where a: "authenticatePayload sn d1 = (a, d2)" by (metis surj_pair)
      have c2: "calm d d2" using o1(1) authenticatePayload_calm [OF a] by (rule calm_trans)
      show ?thesis
      proof (cases a)
        case (Some err)
        then have "handleOpenError st i [err] (d2, w) = (errs, d', w')"
          using assms(4) ready q Inr a by (simp add: Store_Checkpoint_def)
        then show ?thesis using handled [OF _ c2] by blast
      next
        case None
        obtain com where run: "commitSnapshot st (profileDir st i) (sn_metadata sn) (sn_cipher sn) (payload, bad) (d2, w)
            = ((com, errs), d', w')"
          using assms(4) ready q Inr a None by (auto simp: Store_Checkpoint_def split: prod.splits)
        have "stored st i roots checkpoint (sn_metadata sn) (sn_cipher sn) stream d2" using s calm_files(3) [OF c2] by simp
        from saved_or_kept [OF assms(1,2) this kept [OF c2] run] show ?thesis by auto
      qed
    qed
  qed
qed

theorem checkpoint_is_atomic_witness:
  "\<exists>m sealed errs d' w'. loads_as (sample_store m) sample_keys sample_profile (sample_store_disk (sample_store m) sealed) ''profile''
    \<and> Store_Checkpoint (sample_store m) sample_keys sample_profile (''changed'', False)
        (sample_store_disk (sample_store m) sealed, \<lparr>sw_random = replicate 40 (CHR ''x''), sw_locked = True\<rparr>) = (errs, d', w')
    \<and> (isQuarantineCause errs \<or> loads_as (sample_store m) sample_keys sample_profile d' ''profile''
        \<or> loads_as (sample_store m) sample_keys sample_profile d' ''changed'')"
proof -
  obtain m sealed where s: "loads_as (sample_store m) sample_keys sample_profile (sample_store_disk (sample_store m) sealed) ''profile''"
    using sample_stored by blast
  obtain errs d' w' where run: "Store_Checkpoint (sample_store m) sample_keys sample_profile (''changed'', False)
      (sample_store_disk (sample_store m) sealed, \<lparr>sw_random = replicate 40 (CHR ''x''), sw_locked = True\<rparr>) = (errs, d', w')"
    by (metis prod_cases3)
  from checkpoint_is_atomic [OF sample_clean_root sample_codecs s run] s run show ?thesis by blast
qed

section \<open>New profiles\<close>

lemma ensured_directory:
  assumes "ensurePrivateDirectory p d = (None, d')"
  shows "private_dir_at p d'"
proof -
  obtain s0 e0 where l: "Lstat p d = (s0, e0)" by (metis surj_pair)
  obtain made e1 where m: "Mkdir p 0x1C0 e0 = (made, e1)" by (metis surj_pair)
  obtain s2 e2 where l2: "Lstat p e1 = (s2, e2)" by (metis surj_pair)
  define looked where "looked = (case s0 of Inl ErrNotExist \<Rightarrow> if made then (s2, e2) else (Inl ErrOther, e1) | r \<Rightarrow> (r, e0))"
  obtain info e where r: "looked = (Inr info, e)" "nd_kind info = Directory"
    and c: "if nd_perm info \<noteq> 0x1C0 then Chmod p 0x1C0 e = (True, d') else d' = e"
    using assms l m l2
    by (cases s0; cases made; cases s2)
      (auto simp: ensurePrivateDirectory_def looked_def split: os_error.splits if_splits prod.splits)
  have "dk_nodes e p = Some info"
    using r(1) Lstat_truth [OF l] Lstat_truth [OF l2]
    by (auto simp: looked_def calm_def split: sum.splits os_error.splits if_splits)
  then show ?thesis
    using c r(2) Chmod_step(2) [of p "0x1C0" e True d'] by (auto simp: private_dir_at_def private_mode_def split: if_splits)
qed

text \<open>
  C18. A profile that was created can be loaded: when \<^verbatim>\<open>Create\<close> reports success there was no such
  profile, and loading it under the same root key gives exactly the payload it was created with. A
  profile that is already there is never changed by \<^verbatim>\<open>Create\<close>.
\<close>

theorem created_profiles_load:
  assumes "clean_root st" "store_codecs st" "roots (rk_generation k) = Some k"
    and "Store_Create st i (Some k) (payload, bad) (d, w) = (errs, d', w')"
  shows "(errs = [] \<longrightarrow> dk_nodes d (profileDir st i) = None \<and> loads_as st roots i d' payload)
    \<and> (dk_nodes d (profileDir st i) \<noteq> None \<longrightarrow> errs \<noteq> [] \<and> dk_nodes d' = dk_nodes d)"
proof -
  let ?P = "profileDir st i"
  obtain l d1 where l: "Lstat ?P d = (l, d1)" by (metis surj_pair)
  note t = Lstat_truth [OF l]
  have there: "errs \<noteq> [] \<and> dk_nodes d' = dk_nodes d" if "l \<noteq> Inl ErrNotExist"
    using assms(4) l t(1) that
    by (cases l) (auto simp: Store_Create_def calm_def split: if_splits os_error.splits)
  have "dk_nodes d ?P = None \<and> loads_as st roots i d' payload" if success: "errs = []"
  proof -
    have new: "l = Inl ErrNotExist" using there success by blast
    obtain g d2 where g: "legacyProfileGuard st i d1 = (g, d2)" by (metis surj_pair)
    obtain e d3 where e: "ensurePrivateDirectory ?P d2 = (e, d3)" by (metis surj_pair)
    obtain x random where x: "protector_create i (Some k) (sw_random w) = (x, random)" by (metis surj_pair)
    obtain m c where ok: "g" "e = None" "x = Inr (m, c)" "validRoot (Some k)"
      using assms(4) success l new g e x
      by (cases g; cases e; cases x) (auto simp: Store_Create_def split: if_splits)
    obtain com where run: "commitSnapshot st ?P m c (payload, bad) (d3, w\<lparr>sw_random := random\<rparr>) = ((com, []), d', w')"
      using assms(4) success l new g e x ok by (auto simp: Store_Create_def split: if_splits prod.splits)
    have made: "protector_open m i (Some k) = Inr c" "pm_RootKeyGeneration m = rk_generation k"
      using create_then_open(1) x ok(3)
      by (auto simp: protector_create_def protector_wrap_def Let_def split: if_splits prod.splits option.splits sum.splits)
    have "com"
    proof (rule ccontr)
      assume "\<not> com"
      then have c: "commitSnapshot st ?P m c (payload, bad) (d3, w\<lparr>sw_random := random\<rparr>) = ((False, []), d', w')" using run by simp
      obtain p where p: "list_all path_name p" "?P = path_of p" using profile_path [OF assms(1)] by blast
      from commitSnapshot_step(1) [OF c [unfolded p(2)] p(1) refl] show False by simp
    qed
    with run have "commitSnapshot st ?P m c (payload, bad) (d3, w\<lparr>sw_random := random\<rparr>) = ((True, []), d', w')" by simp
    from committed_loads [OF assms(1,2) this, of roots]
    show ?thesis using made ok(2,4) assms(3) ensured_directory e t(2) new by simp
  qed
  then show ?thesis using there t(2) by (cases "l = Inl ErrNotExist") auto
qed

theorem created_profiles_load_witness:
  "\<exists>m errs d' w'. Store_Create (sample_store m) sample_profile (Some sample_root) (''changed'', False)
        (sample_store_disk (sample_store m) [], \<lparr>sw_random = replicate 100 (CHR ''x''), sw_locked = True\<rparr>) = (errs, d', w')
    \<and> errs \<noteq> [] \<and> dk_nodes d' = dk_nodes (sample_store_disk (sample_store m) [])"
proof -
  fix m
  let ?d = "sample_store_disk (sample_store m) []"
  obtain errs d' w' where run: "Store_Create (sample_store m) sample_profile (Some sample_root) (''changed'', False)
        (?d, \<lparr>sw_random = replicate 100 (CHR ''x''), sw_locked = True\<rparr>) = (errs, d', w')" by (metis prod_cases3)
  have k: "sample_keys (rk_generation sample_root) = Some sample_root" by (simp add: sample_keys_def sample_root_def)
  have "dk_nodes ?d (profileDir (sample_store m) sample_profile) \<noteq> None"
    by (simp add: sample_store_disk_def Let_def)
  with created_profiles_load [where roots = sample_keys, OF sample_clean_root sample_codecs k run] run show ?thesis by blast
qed

section \<open>Other profiles\<close>

text \<open>
  C17. The profiles do not disturb each other. Whatever sequence of loads, creations, checkpoints and
  quarantines an identity goes through, and whatever calls fail in it, every profile stored for
  another identity still loads with the payload it had, unless SHA-256 gives both identities the same
  digest.
\<close>

theorem other_profiles_are_left_alone:
  assumes "clean_root st" "walks_below st" "(store_step st roots i)\<^sup>*\<^sup>* s s'"
    and "loads_as st keys j (fst s) payload"
  shows "loads_as st keys j (fst s') payload \<or> profileDigest storageContractV2 i = profileDigest storageContractV2 j"
  using assms(3,4)
proof (induction rule: rtranclp_induct)
  case (step t u)
  from step.IH [OF step.prems] show ?case
    using store_step_other [OF assms(1,2) step.hyps(2)] by blast
qed simp

theorem other_profiles_are_left_alone_witness:
  "\<exists>m sealed d' w'. (store_step (sample_store m) sample_keys (sample_profile\<lparr>pid_ProfileGeneration := 2\<rparr>))\<^sup>*\<^sup>*
        (sample_store_disk (sample_store m) sealed, \<lparr>sw_random = [], sw_locked = True\<rparr>) (d', w')
    \<and> (loads_as (sample_store m) sample_keys sample_profile d' ''profile''
        \<or> profileDigest storageContractV2 (sample_profile\<lparr>pid_ProfileGeneration := 2\<rparr>) = profileDigest storageContractV2 sample_profile)"
proof -
  obtain m sealed where s: "loads_as (sample_store m) sample_keys sample_profile (sample_store_disk (sample_store m) sealed) ''profile''"
    using sample_stored by blast
  let ?i = "sample_profile\<lparr>pid_ProfileGeneration := 2\<rparr>"
  let ?s = "(sample_store_disk (sample_store m) sealed, \<lparr>sw_random = [], sw_locked = True\<rparr>)"
  obtain r d' w' where "QuarantineInvalidState (sample_store m) ?i ?s = (r, d', w')" by (metis prod_cases3)
  then have run: "(store_step (sample_store m) sample_keys ?i)\<^sup>*\<^sup>* ?s (d', w')"
    by (intro r_into_rtranclp) (rule store_step.quarantined)
  have l: "loads_as (sample_store m) sample_keys sample_profile (fst ?s) ''profile''" using s by simp
  from other_profiles_are_left_alone [OF sample_clean_root sample_walks_below run l] run show ?thesis by auto
qed

section \<open>The quarantine\<close>

lemma decrypt_chunks_error: "fst (decrypt_chunks c prefix index stream) \<in> {None, Some ErrProfileCorrupt}"
proof (induction "length stream" arbitrary: index stream rule: less_induct)
  case less
  let ?len = "be32_value (take 4 stream)"
  let ?rest = "drop (?len + 16) (drop 4 stream)"
  obtain e later where e: "decrypt_chunks c prefix (Suc index) ?rest = (e, later)" by (metis surj_pair)
  show ?case
  proof (cases "length stream < 4")
    case True
    then show ?thesis by (simp add: decrypt_chunks.simps)
  next
    case False
    then have "length ?rest < length stream" by simp
    from less [OF this, of "Suc index"] e have k: "e = None \<or> e = Some ErrProfileCorrupt" by simp
    have shape: "fst (if b1 then (Some ErrProfileCorrupt, []) else if b2 then (Some ErrProfileCorrupt, [])
      else (case p of None \<Rightarrow> (Some ErrProfileCorrupt, [])
         | Some plaintext \<Rightarrow>
             if b3 plaintext then (Some ErrProfileCorrupt, [])
             else if b4 then (if b5 then (None, []) else (Some ErrProfileCorrupt, []))
             else if b6 then (Some ErrProfileCorrupt, plaintext)
             else (case (e, later) of
               (e, later) \<Rightarrow> (e, plaintext @ later)))) \<in> {None, Some ErrProfileCorrupt}"
      for b1 b2 p b3 b4 b5 b6
      using k by (auto split: option.split)
    show ?thesis
      unfolding decrypt_chunks.simps [of c prefix index stream] Let_def e if_not_P [OF False] by (rule shape)
  qed
qed

lemma cipher_rejects_error: "cipher_rejects c \<noteq> Some ErrProfileQuarantined"
  by (simp add: cipher_rejects_def)

lemma decrypt_file_error:
  assumes "decrypt_file sn d = ((e, plaintext), d')"
  shows "e \<noteq> Some ErrProfileQuarantined"
proof -
  have "fst (payload_decrypt c stream) \<noteq> Some ErrProfileQuarantined" for c stream
    using decrypt_chunks_error [of c "take 8 (drop 8 stream)" 0 "drop 16 stream"] cipher_rejects_error [of c]
    by (auto simp: payload_decrypt_def split: option.splits)
  then have "e \<noteq> Some ErrProfileQuarantined" if "payload_decrypt c stream = (e, plaintext)" for c stream
    using that by (metis fst_conv)
  then show ?thesis using assms cipher_rejects_error
    by (auto simp: decrypt_file_def Let_def split: prod.splits outcome.splits option.splits)
qed

lemma openSnapshot_error:
  assumes "openSnapshot st i roots d = (Inl errs, d')"
  shows "ErrProfileQuarantined \<notin> set errs"
proof -
  have p: "parseMetadata codec ct raw \<noteq> Inl ErrProfileQuarantined" for codec ct raw
    by (auto simp: parseMetadata_def split: option.splits)
  have o: "protector_open m i root \<noteq> Inl ErrProfileQuarantined" for m root
    by (auto simp: protector_open_def unwrap_def deriveWrappingKey_def split: if_splits sum.splits option.splits)
  have "ErrProfileQuarantined \<notin> set errs" if "open_checkpoint st i roots dir e = (Inl errs, d')" for dir e
    using that p o
    by (auto simp: open_checkpoint_def split: prod.splits option.splits sum.splits if_splits bool.splits)
  then show ?thesis using assms
    by (auto simp: openSnapshot_def split: prod.splits option.splits os_error.splits bool.splits)
qed

lemma deliver_quarantines:
  assumes "clean_root st" "walks_below st" "deliver_payload st i out sn (d, w) = (Inl errs, d', w')"
    "ErrProfileQuarantined \<in> set errs"
  shows "dk_nodes d' (profileDir st i) = None"
proof -
  obtain ok e1 where p: "plain_call d = (ok, e1)" by (metis surj_pair)
  obtain err plaintext e2 where c: "decrypt_file sn e1 = ((err, plaintext), e2)" by (metis prod_cases3 surj_pair)
  obtain done' e3 where x: "out plaintext e2 = (done', e3)" by (metis surj_pair)
  have "err = Some ErrProfileCorrupt \<and> handleOpenError st i [ErrProfileCorrupt] (e3, w) = (errs, d', w')"
    using assms(3,4) p c x decrypt_file_error [OF c]
    by (cases ok; cases done'; cases err) (auto simp: deliver_payload_def split: if_splits prod.splits)
  then show ?thesis using handleOpenError_outside(2) [OF assms(1,2) _ assms(4), of i "[ErrProfileCorrupt]" e3 w d' w'] by simp
qed

lemma Load_quarantines:
  assumes "clean_root st" "walks_below st" "Store_Load st roots out i (d, w) = (Inl errs, d', w')"
    "ErrProfileQuarantined \<in> set errs"
  shows "pid_valid i \<and> sw_locked w \<and> dk_nodes d' (profileDir st i) = None"
proof -
  have ready: "pid_valid i \<and> sw_locked w" using assms(3,4) by (auto simp: Store_Load_def split: if_splits)
  note gone = handleOpenError_outside(2) [OF assms(1,2) _ assms(4)]
  obtain q d1 where q: "openSnapshot st i roots d = (q, d1)" by (metis surj_pair)
  have "dk_nodes d' (profileDir st i) = None"
  proof (cases q)
    case (Inl cause)
    then have "handleOpenError st i cause (d1, w) = (errs, d', w')"
      using assms(3) ready q by (auto simp: Store_Load_def split: prod.splits)
    then show ?thesis using gone openSnapshot_error [OF q [unfolded Inl]] by blast
  next
    case (Inr sn)
    obtain ok d2 where p: "plain_call d1 = (ok, d2)" by (metis surj_pair)
    obtain err plaintext d3 where c: "decrypt_file sn d2 = ((err, plaintext), d3)" by (metis prod_cases3 surj_pair)
    have "ok" using assms(3,4) ready q Inr p by (cases ok) (auto simp: Store_Load_def)
    show ?thesis
    proof (cases err)
      case None
      then have "deliver_payload st i out sn (d3, w) = (Inl errs, d', w')"
        using assms(3) ready q Inr p c \<open>ok\<close> by (simp add: Store_Load_def)
      then show ?thesis using deliver_quarantines [OF assms(1,2) _ assms(4)] by blast
    next
      case (Some e)
      then have "handleOpenError st i [e] (d3, w) = (errs, d', w')"
        using assms(3) ready q Inr p c \<open>ok\<close> by (auto simp: Store_Load_def split: prod.splits)
      then show ?thesis using gone decrypt_file_error [OF c] Some by auto
    qed
  qed
  then show ?thesis using ready by blast
qed

text \<open>
  C20. What is reported as quarantined is gone: after a \<^verbatim>\<open>Load\<close> that says so, the directory of the
  profile is not there any more, and loading it again without failing calls says that there is no
  such profile, or that a legacy one waits for its migration.
\<close>

theorem quarantined_profiles_are_gone:
  assumes "clean_root st" "walks_below st" "Store_Load st roots out i (d, w) = (Inl errs, d', w')"
    and "ErrProfileQuarantined \<in> set errs"
  shows "dk_nodes d' (profileDir st i) = None
    \<and> (\<forall>keys out'. fst (Store_Load st keys out' i (d'\<lparr>dk_outcomes := []\<rparr>, w))
         \<in> {Inl [ErrProfileNotFound], Inl [ErrProfileMigrationRequired]})"
proof -
  note k = Load_quarantines [OF assms]
  have "validatePrivateDirectory (profileDir st i) (d'\<lparr>dk_outcomes := []\<rparr>) = (Some ErrNotExist, d'\<lparr>dk_outcomes := []\<rparr>)"
    using k by (simp add: validatePrivateDirectory_def Lstat_def next_outcome_def)
  then have "fst (openSnapshot st i keys (d'\<lparr>dk_outcomes := []\<rparr>))
      \<in> {Inl [ErrProfileNotFound], Inl [ErrProfileMigrationRequired]}" for keys
    by (auto simp: openSnapshot_def split: prod.splits bool.splits)
  then have "fst (Store_Load st keys out' i (d'\<lparr>dk_outcomes := []\<rparr>, w))
         \<in> {Inl [ErrProfileNotFound], Inl [ErrProfileMigrationRequired]}" for keys out'
  proof -
    obtain r e where r: "openSnapshot st i keys (d'\<lparr>dk_outcomes := []\<rparr>) = (r, e)"
      and "r \<in> {Inl [ErrProfileNotFound], Inl [ErrProfileMigrationRequired]}"
      by (metis \<open>\<And>keys. fst (openSnapshot st i keys (d'\<lparr>dk_outcomes := []\<rparr>)) \<in> _\<close> prod.collapse)
    then show ?thesis using k by (auto simp: Store_Load_def handleOpenError_def isQuarantineCause_def)
  qed
  then show ?thesis using k by blast
qed

theorem quarantined_profiles_are_gone_witness:
  "\<exists>m errs d' w'. Store_Load (sample_store m) sample_keys (\<lambda>bs d. (True, d)) sample_profile
        (\<lparr>dk_nodes = [profileDir (sample_store m) sample_profile \<mapsto> new_directory 0x1C0], dk_outcomes = [], dk_names = [],
          dk_now = 0, dk_ticks = []\<rparr>, \<lparr>sw_random = replicate 8 (CHR ''x''), sw_locked = True\<rparr>) = (Inl errs, d', w')
    \<and> ErrProfileQuarantined \<in> set errs \<and> dk_nodes d' (profileDir (sample_store m) sample_profile) = None"
proof -
  fix m
  let ?st = "sample_store m" and ?w = "\<lparr>sw_random = replicate 8 (CHR ''x''), sw_locked = True\<rparr>"
  let ?P = "profileDir ?st sample_profile"
  let ?d = "\<lparr>dk_nodes = [?P \<mapsto> new_directory 0x1C0], dk_outcomes = [], dk_names = [], dk_now = 0, dk_ticks = []\<rparr>"
  obtain r where r: "list_all path_name r"
    "\<And>i. profileDir ?st i = path_of (r @ [''profiles'', profileDigest storageContractV2 i])"
    "quarantineDir ?st = path_of (r @ [''quarantine''])"
    using store_paths [OF sample_clean_root] by blast
  let ?p = "r @ [''profiles'', profileDigest storageContractV2 sample_profile]"
  have pn: "list_all path_name ?p" and P: "?P = path_of ?p" using r by simp_all
  have v: "pid_valid sample_profile" by code_simp
  have apart: "Join ?P currentFileName \<noteq> ?P"
    using Join_name [OF pn, of currentFileName] path_of_inject [of "?p @ [currentFileName]" ?p] pn P by simp
  have o: "openSnapshot ?st sample_profile sample_keys ?d = (Inl [ErrProfileCorrupt], ?d)"
    using apart by (simp add: openSnapshot_def validatePrivateDirectory_def readBoundedRegularFile_def openRegularFile_def
        Lstat_def next_outcome_def new_directory_def)
  obtain suffix w1 where h: "randomHex 8 ?w = (Some suffix, w1)" by (simp add: randomHex_def read_random_def)
  define name where "name = quarantine_stamp 0 @ CHR ''-'' # take 16 (profileDigest storageContractV2 sample_profile) @ CHR ''-'' # suffix"
  define dest where "dest = Join (Join (ps_root ?st) ''quarantine'') name"
  have nn: "path_name name" unfolding name_def by (rule quarantine_name [OF h])
  have qn: "path_name ''quarantine''" "path_name ''quarantine.json''" by code_simp+
  have de: "dest = path_of (r @ [''quarantine'', name])"
    using Join_name [of "r @ [''quarantine'']" name] r(1,3) nn qn by (simp add: dest_def quarantineDir_def)
  have dn: "list_all path_name (r @ [''quarantine'', name])" using r(1) nn qn by simp
  have je: "Join dest ''quarantine.json'' = dest @ ''/quarantine.json''"
    using Join_name [OF dn qn(2)] path_of_snoc [of "r @ [''quarantine'', name]" "''quarantine.json''"] de by simp
  have ne: "dest \<noteq> ?P" using path_of_inject [OF dn pn] de P by auto
  obtain e where m: "RenameTree ?P dest ?d = (True, e)" "dk_outcomes e = []" "dk_ticks e = []"
    "dk_nodes e dest = Some (new_directory 0x1C0)" "dk_nodes e (dest @ ''/quarantine.json'') = None"
    using ne by (auto simp: RenameTree_def plain_call_def next_outcome_def under_def HasPrefix_def)
  have "fst (seal_quarantine ?st sample_profile quarantineReason dest e) = []"
    using m(2-5) by (simp add: seal_quarantine_def syncDirectory_def plain_call_def next_outcome_def sanitizeAndChecksumTree_def
        sample_store_def read_clock_def new_directory_def je writeSyncedFile_def OpenExclusive_def finish_file_def WriteFile_def
        makeTreeReadOnly_def Chmod_def set_node_def)
  then obtain f where "seal_quarantine ?st sample_profile quarantineReason dest e = ([], f)" by (metis prod.collapse)
  then have "quarantine ?st sample_profile quarantineReason (?d, ?w) = ([], f, w1)"
    using h m(1) by (simp add: quarantine_def Lstat_def next_outcome_def read_clock_def Let_def name_def [symmetric] dest_def [symmetric])
  then have run: "Store_Load ?st sample_keys (\<lambda>bs d. (True, d)) sample_profile (?d, ?w) = (Inl [ErrProfileQuarantined, ErrProfileCorrupt], f, w1)"
    using v o by (simp add: Store_Load_def handleOpenError_def isQuarantineCause_def)
  have e: "ErrProfileQuarantined \<in> set [ErrProfileQuarantined, ErrProfileCorrupt]" by simp
  from quarantined_profiles_are_gone [OF sample_clean_root sample_walks_below run e] have gone: "dk_nodes f ?P = None" ..
  show ?thesis by (intro exI conjI, rule run, rule e, rule gone)
qed

section \<open>Pruning\<close>

text \<open>
  What pruning must have read before it removes a profile: a pointer that is old on this disk, and
  metadata of this profile.
\<close>

definition expired :: "profile_store \<Rightarrow> go_time \<Rightarrow> string \<Rightarrow> string \<Rightarrow> disk \<Rightarrow> bool" where
  "expired st limit dir name d \<longleftrightarrow>
     (\<exists>raw cu mraw m nd. readable (Join dir currentFileName) raw d \<and> parseCurrent st raw = Some cu
        \<and> readable (Join (Join (Join dir ''checkpoints'') (cu_Checkpoint cu)) metadataFileName) mraw d
        \<and> parseMetadata (ps_metadata st) storageContractV2 mraw = Inr m
        \<and> profileDigest storageContractV2 (pm_Identity m) = name
        \<and> dk_nodes d (Join dir currentFileName) = Some nd
        \<and> ps_modified st (Join dir currentFileName) nd < limit)"

lemma checkpoint_expires_truth:
  assumes "checkpoint_expires st dir name ck d = (b, d')"
  shows "calm d d'" "b \<Longrightarrow> \<exists>mraw m. readable (Join (Join (Join dir ''checkpoints'') ck) metadataFileName) mraw d
    \<and> parseMetadata (ps_metadata st) storageContractV2 mraw = Inr m \<and> profileDigest storageContractV2 (pm_Identity m) = name"
proof -
  obtain v d1 where v: "validatePrivateDirectory (Join (Join dir ''checkpoints'') ck) d = (v, d1)" by (metis surj_pair)
  obtain q d2 where q: "readBoundedRegularFile (Join (Join (Join dir ''checkpoints'') ck) metadataFileName) maxMetadataBytes d1 = (q, d2)"
    by (metis surj_pair)
  note k = validatePrivateDirectory_truth(1) [OF v] readBoundedRegularFile_truth [OF q]
  have "d' = d1 \<or> d' = d2" using assms v q by (auto simp: checkpoint_expires_def split: option.splits sum.splits)
  then show "calm d d'" using k(1,2) by (auto simp: calm_def)
  assume b
  then obtain mraw m where "q = Some mraw" "parseMetadata (ps_metadata st) storageContractV2 mraw = Inr m"
    "profileDigest storageContractV2 (pm_Identity m) = name"
    using assms v q by (auto simp: checkpoint_expires_def split: option.splits sum.splits)
  then show "\<exists>mraw m. readable (Join (Join (Join dir ''checkpoints'') ck) metadataFileName) mraw d
    \<and> parseMetadata (ps_metadata st) storageContractV2 mraw = Inr m \<and> profileDigest storageContractV2 (pm_Identity m) = name"
    using k(3) calm_files(1) [OF k(1)] by blast
qed

lemma pointer_expires_truth:
  assumes "pointer_expires st limit dir name d = (b, d')"
  shows "calm d d'" "b \<Longrightarrow> expired st limit dir name d"
proof -
  obtain l d1 where l: "Lstat (Join dir currentFileName) d = (l, d1)" by (metis surj_pair)
  obtain q d2 where q: "readBoundedRegularFile (Join dir currentFileName) maxCurrentBytes d1 = (q, d2)" by (metis surj_pair)
  note k = Lstat_truth(1) [OF l] readBoundedRegularFile_truth [OF q]
  have c: "calm d d1" "calm d d2" using k(1,2) by (simp_all add: calm_def)
  have "calm d d' \<and> (b \<longrightarrow> expired st limit dir name d)"
  proof (cases "\<exists>raw cu. q = Some raw \<and> parseCurrent st raw = Some cu \<and> strictMigrationJSON st (ps_current st) raw
      \<and> (\<exists>nd. l = Inr nd \<and> ps_modified st (Join dir currentFileName) nd < limit)")
    case False
    then have "\<not> b \<and> (d' = d1 \<or> d' = d2)"
      using assms l q by (auto simp: pointer_expires_def split: sum.splits option.splits if_splits)
    then show ?thesis using c by auto
  next
    case True
    then obtain raw cu nd where t: "q = Some raw" "parseCurrent st raw = Some cu" "l = Inr nd"
      "ps_modified st (Join dir currentFileName) nd < limit" "strictMigrationJSON st (ps_current st) raw" by blast
    obtain b' d3 where x: "checkpoint_expires st dir name (cu_Checkpoint cu) d2 = (b', d3)" by (metis surj_pair)
    have r: "\<not> b \<and> d' = d1 \<or> b = b' \<and> d' = d3"
      using assms l q t x by (auto simp: pointer_expires_def split: if_splits)
    have "calm d d3" using c(2) checkpoint_expires_truth(1) [OF x] by (simp add: calm_def)
    moreover have "expired st limit dir name d" if b'
      using checkpoint_expires_truth(2) [OF x that] k(3) [OF t(1)] t Lstat_truth(3) [OF l] calm_files(1) [OF c(1)] calm_files(1) [OF c(2)]
      unfolding expired_def by blast
    ultimately show ?thesis using r c by auto
  qed
  then show "calm d d'" "b \<Longrightarrow> expired st limit dir name d" by simp_all
qed

lemma directory_expires_truth:
  assumes "directory_expires st limit dir name d = (b, d')"
  shows "calm d d'" "b \<Longrightarrow> expired st limit dir name d"
proof -
  obtain v d1 where v: "validatePrivateDirectory dir d = (v, d1)" by (metis surj_pair)
  obtain u d2 where u: "validatePrivateDirectory (Join dir ''checkpoints'') d1 = (u, d2)" by (metis surj_pair)
  obtain b' d3 where x: "pointer_expires st limit dir name d2 = (b', d3)" by (metis surj_pair)
  note k = validatePrivateDirectory_truth(1) [OF v] validatePrivateDirectory_truth(1) [OF u] pointer_expires_truth [OF x]
  have r: "\<not> b \<and> (d' = d1 \<or> d' = d2) \<or> b = b' \<and> d' = d3"
    using assms v u x by (auto simp: directory_expires_def split: option.splits)
  then show "calm d d'" using k(1-3) by (auto simp: calm_def)
  have "expired st limit dir name d2 = expired st limit dir name d"
    using k(1,2) by (simp add: expired_def readable_def calm_def)
  then show "b \<Longrightarrow> expired st limit dir name d" using r k(4) by auto
qed

lemma prune_entries_touches:
  assumes q: "list_all path_name q" and spared: "\<And>e. touches (other_checkpoints q name) d e \<Longrightarrow> \<not> expired st limit (path_of (q @ [name])) name e"
  shows "list_all path_name ns \<Longrightarrow> touches (other_checkpoints q name) d e \<Longrightarrow> prune_entries st limit (path_of q) ns k e = (r, d') \<Longrightarrow>
    touches (other_checkpoints q name) d d'"
proof (induction ns arbitrary: k e)
  case (Cons n ns)
  have n: "path_name n" "list_all path_name ns" using Cons.prems(1) by simp_all
  have j: "Join (path_of q) n = path_of (q @ [n])" by (rule Join_name [OF q n(1)])
  obtain b e1 where x: "directory_expires st limit (path_of (q @ [n])) n e = (b, e1)" by (metis surj_pair)
  note t = directory_expires_truth [OF x]
  obtain ok e2 where rm: "RemoveAll (path_of (q @ [n])) e1 = (ok, e2)" by (metis surj_pair)
  have e1: "touches (other_checkpoints q name) d e1"
    by (rule touches_trans [OF Cons.prems(2) touches_calm [OF t(1)]])
  show ?case
  proof (cases "is_directory (path_of (q @ [n])) e \<and> validProfileDigest n \<and> b")
    case False
    then have "prune_entries st limit (path_of q) ns k e = (r, d') \<or> prune_entries st limit (path_of q) ns k e1 = (r, d')"
      using Cons.prems(3) x by (auto simp: j split: if_splits)
    then show ?thesis using Cons.IH [OF n(2)] Cons.prems(2) e1 by blast
  next
    case True
    then have "n \<noteq> name" using t(2) spared [OF Cons.prems(2)] by blast
    then have "subtree (path_of (q @ [n])) \<subseteq> other_checkpoints q name" using n(1) by (auto simp: other_checkpoints_def)
    then have e2: "touches (other_checkpoints q name) d e2"
      by (rule touches_trans [OF e1 touches_only_at [OF RemoveAll_step [OF rm]]])
    have "d' = e2 \<or> prune_entries st limit (path_of q) ns (k + 1) e2 = (r, d')"
      using Cons.prems(3) x rm True by (cases ok) (auto simp: j)
    then show ?thesis using Cons.IH [OF n(2) e2] e2 by blast
  qed
qed simp

lemma expired_local:
  assumes "clean_root st" "\<And>p. p \<in> subtree (profileDir st j) \<Longrightarrow> dk_nodes e p = dk_nodes d p"
    and "expired st limit (profileDir st j) n e"
  shows "expired st limit (profileDir st j) n d"
proof -
  obtain p where p: "list_all path_name p" "profileDir st j = path_of p" "p \<noteq> []"
    using profile_path [OF assms(1)] by blast
  obtain raw cu mraw m nd where x: "readable (Join (path_of p) currentFileName) raw e" "parseCurrent st raw = Some cu"
    "readable (Join (Join (Join (path_of p) ''checkpoints'') (cu_Checkpoint cu)) metadataFileName) mraw e"
    "parseMetadata (ps_metadata st) storageContractV2 mraw = Inr m" "profileDigest storageContractV2 (pm_Identity m) = n"
    "dk_nodes e (Join (path_of p) currentFileName) = Some nd"
    "ps_modified st (Join (path_of p) currentFileName) nd < limit" using assms(3) unfolding expired_def p(2) by blast
  have ck: "path_name (cu_Checkpoint cu)"
    using x(2) checkpoint_name by (auto simp: parseCurrent_def split: if_splits option.splits)
  have j: "Join (path_of p) currentFileName = path_of (p @ [currentFileName])"
    "Join (Join (Join (path_of p) ''checkpoints'') (cu_Checkpoint cu)) metadataFileName
      = path_of (p @ [''checkpoints'', cu_Checkpoint cu, metadataFileName])"
    using p(1) ck Join_name [of p] Join_name [of "p @ [''checkpoints'']"]
      Join_name [of "p @ [''checkpoints'', cu_Checkpoint cu]" metadataFileName] by simp_all
  have "path_of (p @ [currentFileName]) \<in> subtree (path_of p)"
    "path_of (p @ [''checkpoints'', cu_Checkpoint cu, metadataFileName]) \<in> subtree (path_of p)"
    using p(1) ck by (intro in_subtree_below [OF _ p(3)]; simp)+
  then have "readable (Join (path_of p) currentFileName) raw d"
    "readable (Join (Join (Join (path_of p) ''checkpoints'') (cu_Checkpoint cu)) metadataFileName) mraw d"
    "dk_nodes d (Join (path_of p) currentFileName) = Some nd"
    using x(1,3,6) assms(2) unfolding p(2) j by (simp_all add: readable_def)
  then show ?thesis using x unfolding expired_def p(2) by blast
qed

text \<open>
  C19. Pruning spares what it cannot read as expired: unless the pointer of a profile was older than
  the limit on the disk pruning started from, could be read, and named metadata that belong to this very profile, nothing below its directory changes,
  whatever else is removed and whatever calls fail, and the profile still loads as it did.
\<close>

theorem pruning_spares_profiles:
  assumes "clean_root st" "PruneInactive st limit (d, w) = (r, d', w')"
    and "\<not> expired st limit (profileDir st j) (profileDigest storageContractV2 j) d"
    and "p \<in> subtree (profileDir st j)" "dk_nodes d p \<noteq> None"
  shows "dk_nodes d' p = dk_nodes d p \<and> (loads_as st keys j d payload \<longrightarrow> loads_as st keys j d' payload)"
proof -
  obtain base where base: "list_all path_name base" "ps_root st = path_of base"
    "\<And>i. profileDir st i = path_of (base @ [''profiles'', profileDigest storageContractV2 i])"
    using store_paths [OF assms(1)] by metis
  let ?q = "base @ [''profiles'']" and ?n = "profileDigest storageContractV2 j"
  have qn: "list_all path_name ?q" using base(1) by simp
  have jq: "Join (ps_root st) ''profiles'' = path_of ?q" using Join_name [OF base(1)] base(2) by simp
  have P: "profileDir st j = path_of (?q @ [?n])" using base(3) by simp
  have tn: "list_all path_name (?q @ [?n])" using qn by simp
  have apart: "subtree (profileDir st j) \<inter> other_checkpoints ?q ?n = {}"
  proof -
    have "subtree (path_of (?q @ [?n])) \<inter> subtree (path_of (?q @ [x])) = {}" if "path_name x" "x \<noteq> ?n" for x
      using that qn by (intro subtrees_apart [OF tn]) auto
    then show ?thesis unfolding P other_checkpoints_def by blast
  qed
  have same: "dk_nodes e p = dk_nodes d p" if "touches (other_checkpoints ?q ?n) d e" "p \<in> subtree (profileDir st j)" for e p
    using that apart unfolding touches_def by blast
  have spared: "\<not> expired st limit (path_of (?q @ [?n])) ?n e" if "touches (other_checkpoints ?q ?n) d e" for e
  proof
    assume "expired st limit (path_of (?q @ [?n])) ?n e"
    then have "expired st limit (profileDir st j) ?n e" unfolding P .
    from expired_local [OF assms(1) same [OF that] this] assms(3) show False by blast
  qed
  obtain names e1 where rd: "ReadDir (ps_list st) (path_of ?q) d = (names, e1)" by (metis surj_pair)
  have c1: "calm d e1" using rd calm_plain_call by (auto simp: ReadDir_def split: prod.splits)
  have "touches (other_checkpoints ?q ?n) d d'"
  proof (cases names)
    case None
    then have "d' = d \<or> d' = e1" using assms(2) rd by (auto simp: PruneInactive_def jq Let_def split: if_splits)
    then show ?thesis using touches_calm [OF c1] by auto
  next
    case (Some ns)
    have ns: "list_all path_name ns"
      using rd Some by (auto simp: ReadDir_def list_all_iff file_name_iff split: prod.splits if_splits)
    obtain k ok e2 where pr: "prune_entries st limit (path_of ?q) ns 0 e1 = ((k, ok), e2)" by (metis prod_cases3 surj_pair)
    have t2: "touches (other_checkpoints ?q ?n) d e2"
      by (rule prune_entries_touches [OF qn spared ns touches_calm [OF c1] pr])
    obtain sy e3 where sy: "syncDirectory (path_of ?q) e2 = (sy, e3)" by (metis surj_pair)
    have "d' = d \<or> d' = e2 \<or> d' = e3"
      using assms(2) rd Some pr sy by (cases ok) (auto simp: PruneInactive_def jq Let_def split: if_splits)
    then show ?thesis using t2 touches_trans [OF t2 touches_calm [OF syncDirectory_calm [OF sy]]] by auto
  qed
  note same = same [OF this]
  then show ?thesis using assms(4) loads_as_kept [OF assms(1)] by blast
qed

theorem pruning_spares_profiles_witness:
  "\<exists>m sealed r d' w'. PruneInactive (sample_store m) 5
        (sample_store_disk (sample_store m) sealed, \<lparr>sw_random = [], sw_locked = True\<rparr>) = (r, d', w')
    \<and> loads_as (sample_store m) sample_keys sample_profile d' ''profile''"
proof -
  obtain m sealed where s: "loads_as (sample_store m) sample_keys sample_profile (sample_store_disk (sample_store m) sealed) ''profile''"
    using sample_stored by blast
  let ?d = "sample_store_disk (sample_store m) sealed"
  obtain r d' w' where run: "PruneInactive (sample_store m) 5 (?d, \<lparr>sw_random = [], sw_locked = True\<rparr>) = (r, d', w')"
    by (metis prod_cases3)
  have young: "\<not> expired (sample_store m) 5 (profileDir (sample_store m) sample_profile) (profileDigest storageContractV2 sample_profile) ?d"
    by (auto simp: expired_def readable_def sample_store_def)
  have "dk_nodes ?d (profileDir (sample_store m) sample_profile) \<noteq> None"
    by (simp add: sample_store_disk_def Let_def)
  from pruning_spares_profiles [OF sample_clean_root run young subtree_self this, of sample_keys "''profile''"] s run
  show ?thesis by blast
qed

section \<open>Read errors\<close>

text \<open>
  C37. A single read error costs a profile: when everything about a stored profile is sound, but the
  call that looks at its pointer fails once, \<^verbatim>\<open>Load\<close> reports the profile as corrupt and moves it away
  into the quarantine. Its directory has left its place, every regular file of it is found with its
  content at the same path below a new name in the quarantine, and the answer says that it was
  quarantined, or that writing the report about it failed.
\<close>

theorem read_error_quarantines_sound_profile:
  assumes "clean_root st" "walks_below st" "loads_as st roots i d payload" "dk_outcomes d = [Works, Fails n]"
    and "sw_locked w" "8 \<le> length (sw_random w)"
    and "\<And>name. path_name name \<Longrightarrow> dk_nodes d (Join (quarantineDir st) name) = None"
  shows "\<exists>errs d' w' name. Store_Load st roots out i (d, w) = (Inl errs, d', w')
    \<and> (errs = [ErrProfileQuarantined, ErrProfileCorrupt] \<or> errs = [ErrProfileCorrupt, ErrProfileOther])
    \<and> dk_nodes d' (profileDir st i) = None \<and> path_name name
    \<and> (\<forall>p raw. p \<in> subtree (profileDir st i) \<longrightarrow> file_bytes p d = Some raw \<longrightarrow>
        file_bytes (Join (quarantineDir st) name @ drop (length (profileDir st i)) p) d' = Some raw)"
proof -
  obtain ck m c stream where s: "pid_valid i" "stored st i roots ck m c stream d" using assms(3) unfolding loads_as_iff by blast
  let ?e = "d\<lparr>dk_outcomes := []\<rparr>"
  obtain nd where nd: "dk_nodes d (profileDir st i) = Some nd" "nd_kind nd = Directory" "private_mode nd"
    using s(2) by (auto simp: stored_def private_dir_at_def)
  have "openSnapshot st i roots d = (Inl [ErrProfileCorrupt], ?e)"
    using nd assms(4)
    by (simp add: openSnapshot_def validatePrivateDirectory_def Lstat_def next_outcome_def readBoundedRegularFile_def
        openRegularFile_def)
  moreover obtain errs d' w' where h: "handleOpenError st i [ErrProfileCorrupt] (?e, w) = (errs, d', w')" by (metis prod_cases3)
  ultimately have run: "Store_Load st roots out i (d, w) = (Inl errs, d', w')"
    using s(1) assms(5) by (simp add: Store_Load_def)
  obtain q d1 w1 where q: "quarantine st i quarantineReason (?e, w) = (q, d1, w1)" by (metis prod_cases3)
  have gone: "dk_nodes d1 (profileDir st i) = None"
    using quarantine_outside(3) [OF assms(1,2) q] nd assms(6,7) by simp
  from quarantine_moves [OF assms(1,2) q] nd assms(6,7) obtain name where
    moved: "path_name name" "\<And>p raw. p \<in> subtree (profileDir st i) \<Longrightarrow> file_bytes p ?e = Some raw \<Longrightarrow>
      file_bytes (Join (quarantineDir st) name @ drop (length (profileDir st i)) p) d1 = Some raw"
    and answer: "q = [] \<or> q = [ErrProfileOther]" by auto
  have "d' = d1" "errs = (if q \<noteq> [] then ErrProfileCorrupt # q else [ErrProfileQuarantined, ErrProfileCorrupt])"
    using h q by (auto simp: handleOpenError_def isQuarantineCause_def split: if_splits)
  moreover have "file_bytes p ?e = file_bytes p d" for p by (simp add: file_bytes_def)
  ultimately show ?thesis using run gone moved answer by auto
qed

theorem read_error_quarantines_sound_profile_witness:
  "\<exists>m sealed errs d' w'. loads_as (sample_store m) sample_keys sample_profile (sample_store_disk (sample_store m) sealed) ''profile''
    \<and> Store_Load (sample_store m) sample_keys (\<lambda>bs d. (True, d)) sample_profile
        ((sample_store_disk (sample_store m) sealed)\<lparr>dk_outcomes := [Works, Fails 0]\<rparr>,
         \<lparr>sw_random = replicate 8 (CHR ''x''), sw_locked = True\<rparr>) = (Inl errs, d', w')
    \<and> ErrProfileCorrupt \<in> set errs \<and> dk_nodes d' (profileDir (sample_store m) sample_profile) = None
    \<and> (\<exists>moved. file_bytes moved d' = Some sealed)"
proof -
  obtain m sealed where s: "loads_as (sample_store m) sample_keys sample_profile (sample_store_disk (sample_store m) sealed) ''profile''"
    using sample_stored by blast
  let ?st = "sample_store m"
  let ?d = "(sample_store_disk ?st sealed)\<lparr>dk_outcomes := [Works, Fails 0]\<rparr>"
  have l: "loads_as ?st sample_keys sample_profile ?d ''profile''" using s by (simp add: loads_as_def)
  have free: "dk_nodes ?d (Join (quarantineDir ?st) name) = None" if "path_name name" for name
  proof -
    obtain r where r: "list_all path_name r"
      "\<And>i. profileDir ?st i = path_of (r @ [''profiles'', profileDigest storageContractV2 i])"
      "quarantineDir ?st = path_of (r @ [''quarantine''])"
      using store_paths [OF sample_clean_root] by blast
    have "path_name ''quarantine''" by code_simp
    then have n: "list_all path_name (r @ [''quarantine''])" using r(1) by simp
    have cn: "path_name sample_checkpoint" by (rule checkpoint_name) code_simp
    have e: "Join (quarantineDir ?st) name = path_of (r @ [''quarantine'', name])"
      using Join_name [OF n that] r(3) by simp
    let ?p = "r @ [''profiles'', profileDigest storageContractV2 sample_profile]"
    have pn: "list_all path_name ?p" using r(1) by simp
    have "path_of (r @ [''quarantine'', name]) \<noteq> path_of (?p @ x)" if "list_all path_name x" for x
      using path_of_inject [of "r @ [''quarantine'', name]" "?p @ x"] n pn \<open>path_name name\<close> that by auto
    note differ = this [of "[]"] this [of "[currentFileName]"] this [of "[''checkpoints'', sample_checkpoint]"]
      this [of "[''checkpoints'', sample_checkpoint, metadataFileName]"]
      this [of "[''checkpoints'', sample_checkpoint, payloadFileName]"]
    have sd: "snapshot_dir ?st sample_profile sample_checkpoint = path_of (?p @ [''checkpoints'', sample_checkpoint])"
      using Join_name [OF pn, of "''checkpoints''"] Join_name [of "?p @ [''checkpoints'']" sample_checkpoint] pn cn
      by (simp add: snapshot_dir_def r(2))
    have "list_all path_name (?p @ [''checkpoints'', sample_checkpoint])" using pn cn by simp
    note j = Join_name [OF this, of metadataFileName] Join_name [OF this, of payloadFileName] Join_name [OF pn, of currentFileName]
    show ?thesis unfolding e using differ cn j by (simp add: sample_store_disk_def Let_def r(2) sd)
  qed
  have q: "dk_outcomes ?d = [Works, Fails 0]" by simp
  have w: "sw_locked \<lparr>sw_random = replicate 8 (CHR ''x''), sw_locked = True\<rparr>"
    "8 \<le> length (sw_random \<lparr>sw_random = replicate 8 (CHR ''x''), sw_locked = True\<rparr>)" by simp_all
  let ?payload = "Join (snapshot_dir ?st sample_profile sample_checkpoint) payloadFileName"
  have there: "file_bytes ?payload ?d = Some sealed"
    by (simp add: file_bytes_def sample_store_disk_def Let_def private_file_def)
  have below: "?payload \<in> subtree (profileDir ?st sample_profile)"
  proof -
    obtain p where p: "list_all path_name p" "profileDir ?st sample_profile = path_of p" "p \<noteq> []"
      using profile_path [OF sample_clean_root] by blast
    have cn: "path_name sample_checkpoint" by (rule checkpoint_name) code_simp
    have "?payload = path_of (p @ [''checkpoints'', sample_checkpoint, payloadFileName])"
      using p(1) cn Join_name [of p "''checkpoints''"] Join_name [of "p @ [''checkpoints'']" sample_checkpoint]
        Join_name [of "p @ [''checkpoints'', sample_checkpoint]" payloadFileName]
      by (simp add: snapshot_dir_def p(2))
    then show ?thesis unfolding p(2) using p(1) cn by (simp only:) (intro in_subtree_below [OF _ p(3)]; simp)
  qed
  have free': "dk_nodes ?d (Join (quarantineDir ?st) name) = None" if "path_name name" for name by (rule free [OF that])
  from read_error_quarantines_sound_profile [OF sample_clean_root sample_walks_below l q w free', of "\<lambda>bs d. (True, d)"]
  obtain errs d' w' name where r: "Store_Load ?st sample_keys (\<lambda>bs d. (True, d)) sample_profile
      (?d, \<lparr>sw_random = replicate 8 (CHR ''x''), sw_locked = True\<rparr>) = (Inl errs, d', w')"
    "errs = [ErrProfileQuarantined, ErrProfileCorrupt] \<or> errs = [ErrProfileCorrupt, ErrProfileOther]"
    "dk_nodes d' (profileDir ?st sample_profile) = None"
    "\<And>p raw. p \<in> subtree (profileDir ?st sample_profile) \<Longrightarrow> file_bytes p ?d = Some raw \<Longrightarrow>
      file_bytes (Join (quarantineDir ?st) name @ drop (length (profileDir ?st sample_profile)) p) d' = Some raw"
    by blast
  have "ErrProfileCorrupt \<in> set errs" using r(2) by auto
  with s r(1,3) r(4) [OF below there] show ?thesis by (intro exI conjI)
qed

end
