(* ===== verification/Spec2Isabelle.thy ===== *)
theory Spec2Isabelle
  imports ServerProperties WireProperties ClientProperties OpsProperties ProtocolProperties NetProperties FileLeaseProperties
    StateProperties PluginProperties ProfileProperties StoreProperties Health
begin

text \<open>
  A model of the Browser Runtime of the OpenLinker plugin and the theorems that make it correct.

  The program is the path of one browser action: an agent's tool call is recorded by the mutation
  journal (\<^verbatim>\<open>agent-adapters/agentexec\<close>), sent by the Browser client
  (\<^verbatim>\<open>browser-runtime/browserclient\<close>) over a Unix socket, checked by the Browser Runtime server
  (\<^verbatim>\<open>browser-runtime/browserruntime\<close>) against a lease, budgets and the wire contract
  (\<^verbatim>\<open>browser-runtime/browserprotocol\<close>), executed by an engine, and the pages it loads are
  reached through the egress gateway (\<^verbatim>\<open>browser-runtime/egressgateway\<close>) under the same
  destination policy (\<^verbatim>\<open>browser-runtime/netpolicy\<close>).

  \<^bold>\<open>Theories.\<close>

  \<^item> \<open>Prelude\<close>, \<open>GoStrings\<close>, \<open>GoNet\<close>, \<open>GoUrl\<close>, \<open>GoHash\<close>, \<open>GoPath\<close>: Go's integers, strings, the
    parts of \<^verbatim>\<open>net\<close>, \<^verbatim>\<open>net/netip\<close>, \<^verbatim>\<open>net/url\<close>, \<^verbatim>\<open>path/filepath\<close>, SHA-256 and JSON string lists
    that the code uses. \<open>External\<close>: what the model takes from outside as a parameter (Unicode
    lower-casing, the IDNA lookup, JSON validity, map iteration order).
  \<^item> \<open>ProtocolTypes\<close>, \<open>Identifiers\<close>, \<open>NetPolicy\<close>, \<open>Origins\<close>, \<open>Actions\<close>, \<open>Validation\<close>, \<open>Viewer\<close>,
    \<open>Health\<close>, \<open>OpsObserver\<close>: the messages and their validators. \<open>FailureFacts\<close> and \<open>ActionFacts\<close>
    show that the validators' own failures are well formed and what an accepted action satisfies.
  \<^item> \<open>WireCodec\<close>, \<open>RuntimeServer\<close>, \<open>Connection\<close>, \<open>Lease\<close>: the server, from the bytes of a connection
    to the bytes of the answer. \<open>ServerFacts\<close>, \<open>ServerBudgets\<close>, \<open>ConnectionFacts\<close>, \<open>ReplyFacts\<close>,
    \<open>CallOrder\<close>: the invariant of its state, its budgets, what it answers and in which order it calls
    lease and engine.
  \<^item> \<open>GoTime\<close>, \<open>Files\<close>, \<open>FileLease\<close>, \<open>FileLeaseFacts\<close>, \<open>RevokeFacts\<close>: the lease in files. Time texts
    and their round trip, a file system with the calls the code makes, the revocation index, the
    lease validator that reads it, what a call of \<open>FileLease_Revoke\<close> does to the disk, failures of
    the file system included, and how long an entry stays listed while other calls run.
  \<^item> \<open>StateFiles\<close>: the page continuation and origin budget documents.
  \<^item> \<open>GoCrypto\<close>, \<open>ProfileCipher\<close>: AES-256-GCM and HKDF-SHA-256, computed, and the encryption of saved
    profiles on them (\<^verbatim>\<open>browser-runtime/browserprofile\<close>) with its round trip.
  \<^item> \<open>ProfileFiles\<close>, \<open>ProfileEngine\<close>, \<open>ProfilePaths\<close>, \<open>ProfileFacts\<close>: the engine that opens, checkpoints
    and closes a profile around a browser process, its work directory, archive, environment document
    and root key; clean paths as lists of names, what extraction touches, and the invariant of the
    snapshot for the Ops Observer over all runs of the engine. The fuel of \<open>MkdirAll\<close> is the length of
    the path, one more than its elements.
  \<^item> \<open>ProfileStore\<close>, \<open>StoreFacts\<close>, \<open>StoreIsolation\<close>: the store of encrypted profiles
    (\<^verbatim>\<open>browserprofile/store.go\<close>) on the same file system. What a stored profile is made of, what a
    checkpoint does to it step by step whatever calls fail, and what each operation leaves alone.
    \<open>newCheckpointID\<close> has the eight attempts of the code; the tokens of a text are the fuel of its
    strict walk, since every call takes one.
  \<^item> \<open>Client\<close>, \<open>ClientFacts\<close>, \<open>MutationJournal\<close>, \<open>Executor\<close>: the client and the journal around it.
  \<^item> \<open>PluginTools\<close>, \<open>BrowserPlugin\<close>, \<open>PluginLoop\<close>, \<open>PluginFacts\<close>: the MCP plugin
    (\<^verbatim>\<open>browser-runtime/browserplugin\<close>). Its tool and results, a call and a request in the sections
    that its locks make atomic, and the serve loop as a step relation that interleaves them; a run
    needs no fuel, its length is bounded by the input.
  \<^item> \<open>EgressGateway\<close>, \<open>DnsOverHttps\<close>: the gateway's handlers, its bounded dial loop and its upstream
    proxy, on a dialer and a transport that act on a network; an environment that writes down the
    targets it is given; and the resolver with its cache.
  \<^item> \<open>OpsLease\<close>: the single observation lease and the interleaving of observer connections.
  \<^item> \<open>EmptyOrigins\<close>, \<open>Samples\<close>: concrete values for the witnesses.
  \<^item> \<open>ServerProperties\<close>, \<open>WireProperties\<close>, \<open>ClientProperties\<close>, \<open>OpsProperties\<close>,
    \<open>ProtocolProperties\<close>, \<open>NetProperties\<close>, \<open>FileLeaseProperties\<close>, \<open>StateProperties\<close>,
    \<open>PluginProperties\<close>, \<open>ProfileProperties\<close>, \<open>StoreProperties\<close>: the properties.

  \<^bold>\<open>Interfaces.\<close> \<open>browser_executor\<close> (Executor) is what the callers of an executor rely on, provided by
  the client and by the journal around it; \<open>reporting_lease\<close> (Lease) is what the server relies on,
  provided by the static lease and by the lease in files.

  \<^bold>\<open>Conventions.\<close> A Go function that returns \<^verbatim>\<open>*Failure\<close> becomes one that returns a
  \<open>failure option\<close>; a value with an error becomes a sum; an \<^verbatim>\<open>int\<close> that the wire can set to any
  64-bit value is a \<open>64 word\<close>. Times are integers, nanoseconds since Go's zero time. The lease,
  the engine and the outside world are records of functions that thread a world of an arbitrary
  type; JSON coders are parameters (\<open>codecs\<close>). A connection is handled in one step because the
  accept loop has a single slot.

  \<^bold>\<open>Not modelled.\<close> Sockets, goroutines and processes themselves, HTTP and DNS message syntax (they
  are parameters), the engine process and its pipes, the migration of a profile store, the agent and
  command-line wiring. The engine takes the operations of the store as parameters.
\<close>

end
